(* ===== verification/Prelude.thy ===== *)
theory Prelude
  imports
    Complex_Main
    "HOL-Library.AList"
    "HOL-Library.Char_ord"
    "HOL-Library.List_Lexorder"
    "HOL-Library.Product_Lexorder"
    "HOL-Library.Multiset"
begin

text \<open>
  What the components of the development share: the Go values and library operations the
  sources use (dynamic values of type \<^verbatim>\<open>any\<close>, string-keyed maps, sorting with a comparison
  function, trimming and splitting of strings, two's complement 64-bit wrap-around), the
  error values of all packages with \<^verbatim>\<open>errors.Is\<close>, and the generic lemmas about them.
\<close>

section \<open>Collections of facts\<close>

named_theorems store_defs \<open>definitions of the in-memory store operations\<close>
named_theorems svc_defs \<open>definitions of the service operations\<close>
named_theorems wp \<open>rules for the state-and-error computations of the service\<close>

section \<open>Dynamic values and maps\<close>

text \<open>
  A Go value of type \<^verbatim>\<open>any\<close>: its dynamic type is the constructor. A finite float is a
  rational number; the sources only ever convert one to an integer, which truncates towards
  zero. A value of a struct type carries the type's name and its fields.
\<close>

datatype gval =
    VNil
  | VBool bool
  | VInt int
  | VInt32 int
  | VInt64 int
  | VFloat32 rat
  | VFloat64 rat
  | VStr string
  | VList "gval list"
  | VMap "(string \<times> gval) list"
  | VStruct string "(string \<times> gval) list"

text \<open>
  A Go map with string keys is an association list. Its order stands for the order in which
  one \<^verbatim>\<open>range\<close> loop visits the map. The nil map and the empty map are both \<open>[]\<close>: the sources
  distinguish them only before a write, where they replace nil by an empty map.
\<close>

type_synonym 'v gomap = "(string \<times> 'v) list"
type_synonym meta = "gval gomap"

abbreviation gm_get :: "'v gomap \<Rightarrow> string \<Rightarrow> 'v option" where
  "gm_get m k \<equiv> map_of m k"

abbreviation gm_put :: "string \<Rightarrow> 'v \<Rightarrow> 'v gomap \<Rightarrow> 'v gomap" where
  "gm_put \<equiv> AList.update"

abbreviation gm_del :: "string \<Rightarrow> 'v gomap \<Rightarrow> 'v gomap" where
  "gm_del \<equiv> AList.delete"

abbreviation gm_vals :: "'v gomap \<Rightarrow> 'v list" where
  "gm_vals m \<equiv> map snd m"

abbreviation gm_wf :: "'v gomap \<Rightarrow> bool" where
  "gm_wf m \<equiv> distinct (map fst m)"

text \<open>Type assertions \<^verbatim>\<open>v, _ := m[k].(string)\<close> and \<^verbatim>\<open>.(bool)\<close>: the zero value when the type differs.\<close>

fun as_string :: "gval option \<Rightarrow> string" where
  "as_string (Some (VStr s)) = s"
| "as_string _ = []"

fun as_bool :: "gval option \<Rightarrow> bool" where
  "as_bool (Some (VBool b)) = b"
| "as_bool _ = False"

text \<open>Conversion of a finite float to an integer truncates towards zero.\<close>

definition rat_trunc :: "rat \<Rightarrow> int" where
  "rat_trunc q = (if 0 \<le> q then \<lfloor>q\<rfloor> else \<lceil>q\<rceil>)"

lemma rat_trunc_of_int [simp]: "rat_trunc (of_int n) = n"
  by (simp add: rat_trunc_def)

section \<open>64-bit integers\<close>

text \<open>
  Go's \<^verbatim>\<open>int\<close> and \<^verbatim>\<open>int64\<close> wrap around. Counters that only ever grow by one and millisecond
  timestamps are plain integers in the model; arithmetic on values a caller chooses freely
  (retry budgets, back-off delays) goes through \<open>wrap64\<close>.
\<close>

definition wrap64 :: "int \<Rightarrow> int" where
  "wrap64 n = (n + 2 ^ 63) mod 2 ^ 64 - 2 ^ 63"

definition in_int64 :: "int \<Rightarrow> bool" where
  "in_int64 n \<longleftrightarrow> - (2 ^ 63) \<le> n \<and> n < 2 ^ 63"

lemma wrap64_id [simp]: "in_int64 n \<Longrightarrow> wrap64 n = n"
  by (simp add: wrap64_def in_int64_def)

lemma in_int64_wrap64 [simp]: "in_int64 (wrap64 n)"
proof -
  have "0 \<le> (n + 2 ^ 63) mod 2 ^ 64" and "(n + 2 ^ 63) mod 2 ^ 64 < 2 ^ 64"
    by simp_all
  then show ?thesis by (simp add: wrap64_def in_int64_def)
qed

section \<open>Sorting\<close>

text \<open>
  \<^verbatim>\<open>sort.Slice\<close> and \<^verbatim>\<open>sort.SliceStable\<close> with a comparison \<open>lt\<close>, as a stable insertion sort.
  Where \<open>lt\<close> orders the elements totally, as in every store's \<^verbatim>\<open>List\<close> that breaks ties by
  the record's id, any correct sort gives this result.
\<close>

primrec go_insert :: "('a \<Rightarrow> 'a \<Rightarrow> bool) \<Rightarrow> 'a \<Rightarrow> 'a list \<Rightarrow> 'a list" where
  "go_insert lt x [] = [x]"
| "go_insert lt x (y # ys) = (if lt y x then y # go_insert lt x ys else x # y # ys)"

primrec go_sort :: "('a \<Rightarrow> 'a \<Rightarrow> bool) \<Rightarrow> 'a list \<Rightarrow> 'a list" where
  "go_sort lt [] = []"
| "go_sort lt (x # xs) = go_insert lt x (go_sort lt xs)"

lemma mset_go_insert [simp]: "mset (go_insert lt x xs) = add_mset x (mset xs)"
  by (induction xs) auto

lemma mset_go_sort [simp]: "mset (go_sort lt xs) = mset xs"
  by (induction xs) auto

lemma set_go_sort [simp]: "set (go_sort lt xs) = set xs"
  by (metis mset_go_sort set_mset_mset)

lemma length_go_sort [simp]: "length (go_sort lt xs) = length xs"
  by (metis mset_go_sort size_mset)

lemma distinct_go_sort [simp]: "distinct (go_sort lt xs) = distinct xs"
  by (metis mset_go_sort mset_eq_imp_distinct_iff)

lemma go_sort_cong:
  assumes "\<And>x y. x \<in> set xs \<Longrightarrow> y \<in> set xs \<Longrightarrow> lt x y = lt' x y"
  shows "go_sort lt xs = go_sort lt' xs"
proof -
  have ins: "go_insert lt x ys = go_insert lt' x ys"
    if "\<And>y. y \<in> set ys \<Longrightarrow> lt y x = lt' y x" for x ys
    using that by (induction ys) auto
  show ?thesis using assms
  proof (induction xs)
    case (Cons x xs)
    then have "go_sort lt xs = go_sort lt' xs" by simp
    moreover have "go_insert lt x (go_sort lt' xs) = go_insert lt' x (go_sort lt' xs)"
      by (rule ins) (use Cons.prems in simp)
    ultimately show ?case by simp
  qed simp
qed

text \<open>A comparison that a key into a linear order explains sorts like the library's \<open>sort_key\<close>.\<close>

locale sort_by_key =
  fixes lt :: "'a \<Rightarrow> 'a \<Rightarrow> bool" and key :: "'a \<Rightarrow> 'k::linorder"
  assumes lt_key: "lt x y \<longleftrightarrow> key x < key y"
begin

lemma go_insert_key: "go_insert lt x xs = insort_key key x xs"
  by (induction xs) (auto simp: lt_key)

lemma go_sort_key: "go_sort lt xs = sort_key key xs"
  by (induction xs) (auto simp: go_insert_key sort_key_def)

lemma sorted_go_sort: "sorted (map key (go_sort lt xs))"
  by (simp add: go_sort_key)

lemma go_sort_unique:
  assumes "mset xs = mset ys" and "inj_on key (set xs)"
  shows "go_sort lt xs = go_sort lt ys"
proof -
  have "mset (sort_key key ys) = mset xs" using assms(1) by simp
  with assms(2) have "sort_key key xs = sort_key key ys"
    by (intro sort_key_inj_key_eq) simp_all
  then show ?thesis by (simp add: go_sort_key)
qed

lemma go_sort_hd_min:
  assumes "x \<in> set xs"
  shows "go_sort lt xs \<noteq> [] \<and> key (hd (go_sort lt xs)) \<le> key x"
proof -
  obtain y ys where sp: "go_sort lt xs = y # ys"
    using assms by (metis empty_iff empty_set set_go_sort neq_Nil_conv)
  with sorted_go_sort[of xs] have "\<forall>z\<in>set ys. key y \<le> key z" by simp
  moreover have "x \<in> set (y # ys)" using assms sp by (metis set_go_sort)
  ultimately show ?thesis using sp by auto
qed

end

section \<open>Strings\<close>

text \<open>
  Strings are lists of bytes. \<^verbatim>\<open>strings.TrimSpace\<close> removes the white space of the ASCII range
  at both ends; white space beyond ASCII does not occur in the strings the sources trim
  (versions, policy patterns).
\<close>

definition is_space :: "char \<Rightarrow> bool" where
  "is_space c \<longleftrightarrow> (of_char c :: nat) \<in> {9, 10, 11, 12, 13, 32}"

definition trim_space :: "string \<Rightarrow> string" where
  "trim_space s = rev (dropWhile is_space (rev (dropWhile is_space s)))"

text \<open>\<^verbatim>\<open>strings.Split(s, sep)\<close> for a one-byte separator: at least one piece.\<close>

fun split_on :: "char \<Rightarrow> string \<Rightarrow> string list" where
  "split_on sep [] = [[]]"
| "split_on sep (c # cs) =
     (if c = sep then [] # split_on sep cs
      else (case split_on sep cs of [] \<Rightarrow> [[c]] | p # ps \<Rightarrow> (c # p) # ps))"

text \<open>\<^verbatim>\<open>strings.SplitN(s, sep, 2)\<close>: the pieces around the first separator.\<close>

definition split2 :: "char \<Rightarrow> string \<Rightarrow> string list" where
  "split2 sep s =
     (case dropWhile (\<lambda>c. c \<noteq> sep) s of
        [] \<Rightarrow> [s]
      | _ # rest \<Rightarrow> [takeWhile (\<lambda>c. c \<noteq> sep) s, rest])"

definition has_prefix :: "string \<Rightarrow> string \<Rightarrow> bool" where
  "has_prefix s p \<longleftrightarrow> take (length p) s = p"

lemma trim_space_hd:
  assumes "trim_space s \<noteq> []"
  shows "\<not> is_space (hd (trim_space s)) \<and> \<not> is_space (last (trim_space s))"
proof -
  let ?u = "dropWhile is_space s"
  let ?v = "dropWhile is_space (rev ?u)"
  have v: "?v \<noteq> []" using assms by (simp add: trim_space_def)
  then have l: "\<not> is_space (hd ?v)" by (rule hd_dropWhile)
  obtain zs where zs: "rev ?u = zs @ ?v" by (metis takeWhile_dropWhile_id)
  have "?u = rev ?v @ rev zs" by (metis zs rev_append rev_rev_ident)
  moreover from v have "?u \<noteq> []" by fastforce
  moreover from this have "\<not> is_space (hd ?u)" by (rule hd_dropWhile)
  ultimately have "\<not> is_space (hd (rev ?v))" using v by (metis hd_append2 rev_is_Nil_conv)
  with l v show ?thesis by (simp add: trim_space_def last_rev)
qed

lemma dropWhile_hd_id: "xs = [] \<or> \<not> P (hd xs) \<Longrightarrow> dropWhile P xs = xs"
  by (cases xs) auto

lemma trim_space_idem [simp]: "trim_space (trim_space s) = trim_space s"
proof (cases "trim_space s = []")
  case True
  then show ?thesis by (simp only: True) (simp add: trim_space_def)
next
  case False
  with trim_space_hd[OF False]
  have "dropWhile is_space (trim_space s) = trim_space s"
    and "dropWhile is_space (rev (trim_space s)) = rev (trim_space s)"
    by (auto intro!: dropWhile_hd_id simp: hd_rev)
  then show ?thesis by (simp add: trim_space_def[of "trim_space s"])
qed

section \<open>Generic lemmas\<close>

lemma gm_wf_put [simp, intro]: "gm_wf m \<Longrightarrow> gm_wf (gm_put k v m)"
  by (rule distinct_update)

lemma gm_get_put [simp]: "gm_get (gm_put k v m) k' = (if k' = k then Some v else gm_get m k')"
  by (simp add: update_conv')

lemma gm_get_in: "gm_get m k = Some v \<Longrightarrow> (k, v) \<in> set m"
  by (rule map_of_SomeD)

lemma gm_get_iff: "gm_wf m \<Longrightarrow> gm_get m k = Some v \<longleftrightarrow> (k, v) \<in> set m"
  by simp

lemma find_Some_in: "List.find P xs = Some x \<Longrightarrow> x \<in> set xs \<and> P x"
  by (auto simp: find_Some_iff)

lemma find_first:
  assumes "List.find P xs = Some x"
  obtains ys zs where "xs = ys @ x # zs" "P x" "\<And>y. y \<in> set ys \<Longrightarrow> \<not> P y"
  using assms
proof (induction xs arbitrary: thesis)
  case Nil
  then show ?case by simp
next
  case (Cons a xs)
  show ?case
  proof (cases "P a")
    case True
    with Cons.prems show ?thesis by (metis append_Nil find.simps(2) empty_iff empty_set option.inject)
  next
    case False
    with Cons.prems(2) have "List.find P xs = Some x" by simp
    then obtain ys zs where "xs = ys @ x # zs" "P x" "\<And>y. y \<in> set ys \<Longrightarrow> \<not> P y"
      using Cons.IH by blast
    with False Cons.prems(1)[of "a # ys" zs] show ?thesis by auto
  qed
qed

text \<open>Replacing the first element that satisfies a predicate: the \<^verbatim>\<open>for i := range\<close> loops with a break.\<close>

primrec update_first :: "('a \<Rightarrow> bool) \<Rightarrow> ('a \<Rightarrow> 'a) \<Rightarrow> 'a list \<Rightarrow> 'a list" where
  "update_first P f [] = []"
| "update_first P f (x # xs) = (if P x then f x # xs else x # update_first P f xs)"

lemma length_update_first [simp]: "length (update_first P f xs) = length xs"
  by (induction xs) auto

lemma update_first_none [simp]: "\<not> list_ex P xs \<Longrightarrow> update_first P f xs = xs"
  by (induction xs) auto

lemma map_update_first_same:
  "(\<And>x. x \<in> set xs \<Longrightarrow> P x \<Longrightarrow> g (f x) = g x) \<Longrightarrow> map g (update_first P f xs) = map g xs"
  by (induction xs) auto

lemma set_update_first: "y \<in> set (update_first P f xs) \<Longrightarrow> y \<in> set xs \<or> (\<exists>x\<in>set xs. P x \<and> y = f x)"
  by (induction xs) (auto split: if_splits)

end
