(* ===== verification/Errors.thy ===== *)
theory Errors
  imports Prelude
begin

text \<open>
  The error values of all packages (\<^verbatim>\<open>pkg/harness/runtime/errors.go\<close> and the \<^verbatim>\<open>errors.go\<close> files
  of the other packages), \<^verbatim>\<open>errors.Is\<close> over wrapped and joined errors, and the taxonomy of
  \<^verbatim>\<open>pkg/harness/runtime/error_taxonomy.go\<close>.
\<close>

section \<open>Error values\<close>

text \<open>
  The sentinel errors, grouped so that no datatype has many constructors; the abbreviations
  give each the name it has in the sources.
\<close>

datatype session_err =
    SessionNotFound | SessionVersionConflict | SessionLeaseNotHeld

datatype store_err =
    TaskNotFound | PlanNotFound | PlanningRecordNotFound | ContextSummaryNotFound |
    PersistenceNotConfigured

datatype approval_err =
    ApprovalNotFound | ApprovalNotPending | InvalidReply | ApprovalVersionConflict

datatype execution_err =
    RecordNotFound | ExecutionCycleNotFound | RuntimeHandleVersionConflict |
    BlockedRuntimeNotFound

datatype capability_err =
    CapabilityNotFound | CapabilityDisabled | CapabilityVersionNotFound |
    CapabilityViewNotFound | CapabilityViewDrift | SnapshotNotFound

datatype registry_err =
    ToolNotRegistered | ToolDisabled | VerifierNotRegistered | NoPlannerConfigured |
    MissingRuntime

datatype state_err =
    SessionTerminal | SessionAwaitingApproval | SessionBlocked | NoPendingApproval |
    ApprovalNotResolved | BlockedRuntimeAlreadyActive | BlockedRuntimeNotActive |
    BlockedRuntimeNotPending | InvalidBlockedRuntimeRequest |
    InvalidBlockedRuntimeResponse | DirectActionInvokeUnsupported

datatype budget_err =
    PlanRevisionBudgetExceeded | RuntimeBudgetExceeded | StepRetryBudgetExceeded |
    StepBackoffActive | RuntimeHandleNotActive | InvalidLeaseTTL |
    InteractiveControllerNotConfigured | InteractiveRuntimeNotFound

datatype program_err =
    ProgramDuplicateNodeID | ProgramMissingNodeID | ProgramDependencyNotFound |
    ProgramEntryNodeNotFound | ProgramCycleDetected | ProgramMultiTargetUnsupported |
    ProgramTargetDiscoveryUnsupported | ProgramOutputRefUnsupported |
    ProgramAttachmentUnsupported | ProgramInputBindingUnsupported |
    ProgramBindingResolveFailed | ProgramStepNotCompiled

datatype goerr =
    SessionErr session_err
  | StoreErr store_err
  | ApprovalErr approval_err
  | ExecutionErr execution_err
  | CapabilityErr capability_err
  | RegistryErr registry_err
  | StateErr state_err
  | BudgetErr budget_err
  | ProgramErr program_err
  | ErrOther string
  | ErrWrap string goerr
  | ErrJoin goerr goerr

abbreviation "ErrSessionNotFound \<equiv> SessionErr SessionNotFound"
abbreviation "ErrSessionVersionConflict \<equiv> SessionErr SessionVersionConflict"
abbreviation "ErrSessionLeaseNotHeld \<equiv> SessionErr SessionLeaseNotHeld"

abbreviation "ErrTaskNotFound \<equiv> StoreErr TaskNotFound"
abbreviation "ErrPlanNotFound \<equiv> StoreErr PlanNotFound"
abbreviation "ErrPlanningRecordNotFound \<equiv> StoreErr PlanningRecordNotFound"
abbreviation "ErrContextSummaryNotFound \<equiv> StoreErr ContextSummaryNotFound"
abbreviation "ErrPersistenceNotConfigured \<equiv> StoreErr PersistenceNotConfigured"

abbreviation "ErrApprovalNotFound \<equiv> ApprovalErr ApprovalNotFound"
abbreviation "ErrApprovalNotPending \<equiv> ApprovalErr ApprovalNotPending"
abbreviation "ErrInvalidReply \<equiv> ApprovalErr InvalidReply"
abbreviation "ErrApprovalVersionConflict \<equiv> ApprovalErr ApprovalVersionConflict"

abbreviation "ErrRecordNotFound \<equiv> ExecutionErr RecordNotFound"
abbreviation "ErrExecutionCycleNotFound \<equiv> ExecutionErr ExecutionCycleNotFound"
abbreviation "ErrRuntimeHandleVersionConflict \<equiv> ExecutionErr RuntimeHandleVersionConflict"
abbreviation "ErrBlockedRuntimeNotFound \<equiv> ExecutionErr BlockedRuntimeNotFound"

abbreviation "ErrCapabilityNotFound \<equiv> CapabilityErr CapabilityNotFound"
abbreviation "ErrCapabilityDisabled \<equiv> CapabilityErr CapabilityDisabled"
abbreviation "ErrCapabilityVersionNotFound \<equiv> CapabilityErr CapabilityVersionNotFound"
abbreviation "ErrCapabilityViewNotFound \<equiv> CapabilityErr CapabilityViewNotFound"
abbreviation "ErrCapabilityViewDrift \<equiv> CapabilityErr CapabilityViewDrift"
abbreviation "ErrSnapshotNotFound \<equiv> CapabilityErr SnapshotNotFound"

abbreviation "ErrToolNotRegistered \<equiv> RegistryErr ToolNotRegistered"
abbreviation "ErrToolDisabled \<equiv> RegistryErr ToolDisabled"
abbreviation "ErrVerifierNotRegistered \<equiv> RegistryErr VerifierNotRegistered"
abbreviation "ErrNoPlannerConfigured \<equiv> RegistryErr NoPlannerConfigured"
abbreviation "ErrMissingRuntime \<equiv> RegistryErr MissingRuntime"

abbreviation "ErrSessionTerminal \<equiv> StateErr SessionTerminal"
abbreviation "ErrSessionAwaitingApproval \<equiv> StateErr SessionAwaitingApproval"
abbreviation "ErrSessionBlocked \<equiv> StateErr SessionBlocked"
abbreviation "ErrNoPendingApproval \<equiv> StateErr NoPendingApproval"
abbreviation "ErrApprovalNotResolved \<equiv> StateErr ApprovalNotResolved"
abbreviation "ErrBlockedRuntimeAlreadyActive \<equiv> StateErr BlockedRuntimeAlreadyActive"
abbreviation "ErrBlockedRuntimeNotActive \<equiv> StateErr BlockedRuntimeNotActive"
abbreviation "ErrBlockedRuntimeNotPending \<equiv> StateErr BlockedRuntimeNotPending"
abbreviation "ErrInvalidBlockedRuntimeRequest \<equiv> StateErr InvalidBlockedRuntimeRequest"
abbreviation "ErrInvalidBlockedRuntimeResponse \<equiv> StateErr InvalidBlockedRuntimeResponse"
abbreviation "ErrDirectActionInvokeUnsupported \<equiv> StateErr DirectActionInvokeUnsupported"

abbreviation "ErrPlanRevisionBudgetExceeded \<equiv> BudgetErr PlanRevisionBudgetExceeded"
abbreviation "ErrRuntimeBudgetExceeded \<equiv> BudgetErr RuntimeBudgetExceeded"
abbreviation "ErrStepRetryBudgetExceeded \<equiv> BudgetErr StepRetryBudgetExceeded"
abbreviation "ErrStepBackoffActive \<equiv> BudgetErr StepBackoffActive"
abbreviation "ErrRuntimeHandleNotActive \<equiv> BudgetErr RuntimeHandleNotActive"
abbreviation "ErrInvalidLeaseTTL \<equiv> BudgetErr InvalidLeaseTTL"
abbreviation "ErrInteractiveControllerNotConfigured \<equiv> BudgetErr InteractiveControllerNotConfigured"
abbreviation "ErrInteractiveRuntimeNotFound \<equiv> BudgetErr InteractiveRuntimeNotFound"

abbreviation "ErrProgramDuplicateNodeID \<equiv> ProgramErr ProgramDuplicateNodeID"
abbreviation "ErrProgramMissingNodeID \<equiv> ProgramErr ProgramMissingNodeID"
abbreviation "ErrProgramDependencyNotFound \<equiv> ProgramErr ProgramDependencyNotFound"
abbreviation "ErrProgramEntryNodeNotFound \<equiv> ProgramErr ProgramEntryNodeNotFound"
abbreviation "ErrProgramCycleDetected \<equiv> ProgramErr ProgramCycleDetected"
abbreviation "ErrProgramMultiTargetUnsupported \<equiv> ProgramErr ProgramMultiTargetUnsupported"
abbreviation "ErrProgramTargetDiscoveryUnsupported \<equiv> ProgramErr ProgramTargetDiscoveryUnsupported"
abbreviation "ErrProgramOutputRefUnsupported \<equiv> ProgramErr ProgramOutputRefUnsupported"
abbreviation "ErrProgramAttachmentUnsupported \<equiv> ProgramErr ProgramAttachmentUnsupported"
abbreviation "ErrProgramInputBindingUnsupported \<equiv> ProgramErr ProgramInputBindingUnsupported"
abbreviation "ErrProgramBindingResolveFailed \<equiv> ProgramErr ProgramBindingResolveFailed"
abbreviation "ErrProgramStepNotCompiled \<equiv> ProgramErr ProgramStepNotCompiled"

text \<open>\<^verbatim>\<open>errors.Is\<close>: the error itself, what it wraps (\<^verbatim>\<open>%w\<close>), or any error it joins.\<close>

fun error_parts :: "goerr \<Rightarrow> goerr list" where
  "error_parts e = e # (case e of
     ErrWrap _ e' \<Rightarrow> error_parts e'
   | ErrJoin a b \<Rightarrow> error_parts a @ error_parts b
   | _ \<Rightarrow> [])"

declare error_parts.simps [simp del]

definition errors_is :: "goerr \<Rightarrow> goerr \<Rightarrow> bool" where
  "errors_is e t \<longleftrightarrow> t \<in> set (error_parts e)"

section \<open>Taxonomy\<close>

datatype ErrorKind =
    ErrorKindUnknown | ErrorKindConflict | ErrorKindNotFound | ErrorKindBudget | ErrorKindLease
  | ErrorKindRuntimeHandle | ErrorKindInvalid | ErrorKindState

record ErrorInfo =
  ei_Kind :: ErrorKind
  ei_Retryable :: bool

definition error_info :: "ErrorKind \<Rightarrow> bool \<Rightarrow> ErrorInfo" where
  "error_info k r = \<lparr>ei_Kind = k, ei_Retryable = r\<rparr>"

definition is_any :: "goerr list \<Rightarrow> goerr \<Rightarrow> bool" where
  "is_any ts e \<longleftrightarrow> list_ex (errors_is e) ts"

text \<open>The cases of the \<^verbatim>\<open>switch\<close> of \<^verbatim>\<open>ClassifyError\<close>, in the source's order.\<close>

definition classify_cases :: "(goerr list \<times> ErrorInfo) list" where
  "classify_cases =
     [([ErrSessionVersionConflict, ErrApprovalVersionConflict, ErrRuntimeHandleVersionConflict],
       error_info ErrorKindConflict True),
      ([ErrSessionNotFound, ErrApprovalNotFound, ErrRecordNotFound, ErrContextSummaryNotFound],
       error_info ErrorKindNotFound False),
      ([ErrStepBackoffActive], error_info ErrorKindBudget True),
      ([ErrPlanRevisionBudgetExceeded, ErrRuntimeBudgetExceeded, ErrStepRetryBudgetExceeded],
       error_info ErrorKindBudget False),
      ([ErrSessionLeaseNotHeld], error_info ErrorKindLease True),
      ([ErrRuntimeHandleNotActive], error_info ErrorKindRuntimeHandle False),
      ([ErrInvalidReply, ErrInvalidLeaseTTL, ErrInvalidBlockedRuntimeRequest,
        ErrInvalidBlockedRuntimeResponse, ErrDirectActionInvokeUnsupported],
       error_info ErrorKindInvalid False),
      ([ErrSessionTerminal, ErrSessionAwaitingApproval, ErrSessionBlocked,
        ErrBlockedRuntimeAlreadyActive, ErrBlockedRuntimeNotActive, ErrBlockedRuntimeNotPending,
        ErrNoPendingApproval, ErrApprovalNotResolved],
       error_info ErrorKindState False)]"

definition ClassifyError :: "goerr option \<Rightarrow> ErrorInfo" where
  "ClassifyError err = (case err of
     None \<Rightarrow> error_info ErrorKindUnknown False
   | Some e \<Rightarrow>
      (case List.find (\<lambda>(ts, _). is_any ts e) classify_cases of
         Some (_, info) \<Rightarrow> info
       | None \<Rightarrow> error_info ErrorKindUnknown False))"

definition IsRetryable :: "goerr option \<Rightarrow> bool" where
  "IsRetryable err = ei_Retryable (ClassifyError err)"

text \<open>\<^verbatim>\<open>joinRollbackError\<close> of \<^verbatim>\<open>pkg/harness/runtime/rollback.go\<close>; \<open>None\<close> is the nil error.\<close>

definition joinRollbackError :: "goerr option \<Rightarrow> goerr option \<Rightarrow> goerr option" where
  "joinRollbackError cause rollbackErr =
     (case rollbackErr of
        None \<Rightarrow> cause
      | Some r \<Rightarrow> (case cause of None \<Rightarrow> Some r | Some c \<Rightarrow> Some (ErrJoin c r)))"

section \<open>Lemmas\<close>

definition is_leaf :: "goerr \<Rightarrow> bool" where
  "is_leaf e = (case e of ErrWrap _ _ \<Rightarrow> False | ErrJoin _ _ \<Rightarrow> False | _ \<Rightarrow> True)"

lemma errors_is_join: "is_leaf t \<Longrightarrow> errors_is (ErrJoin a b) t \<longleftrightarrow> errors_is a t \<or> errors_is b t"
  by (auto simp: errors_is_def is_leaf_def error_parts.simps[of "ErrJoin a b"])

lemma errors_is_wrap: "is_leaf t \<Longrightarrow> errors_is (ErrWrap m e) t \<longleftrightarrow> errors_is e t"
  by (auto simp: errors_is_def is_leaf_def error_parts.simps[of "ErrWrap m e"])

lemma is_any_join:
  "list_all is_leaf ts \<Longrightarrow> is_any ts (ErrJoin a b) \<longleftrightarrow> is_any ts a \<or> is_any ts b"
  unfolding is_any_def by (induction ts) (auto simp: errors_is_join)

lemma is_any_wrap: "list_all is_leaf ts \<Longrightarrow> is_any ts (ErrWrap m e) \<longleftrightarrow> is_any ts e"
  unfolding is_any_def by (induction ts) (auto simp: errors_is_wrap)

lemma classify_cases_leaf: "(ts, i) \<in> set classify_cases \<Longrightarrow> list_all is_leaf ts"
  by (auto simp: classify_cases_def is_leaf_def)

lemma find_disj:
  "List.find (\<lambda>x. P x \<or> Q x) xs = List.find P xs \<or> List.find (\<lambda>x. P x \<or> Q x) xs = List.find Q xs"
  by (induction xs) auto

lemma classify_find_join:
  "List.find (\<lambda>(ts, _). is_any ts (ErrJoin a b)) classify_cases =
   List.find (\<lambda>x. (\<lambda>(ts, _). is_any ts a) x \<or> (\<lambda>(ts, _). is_any ts b) x) classify_cases"
  by (rule find_cong) (auto simp: is_any_join classify_cases_leaf)

lemma classify_find_wrap:
  "List.find (\<lambda>(ts, _). is_any ts (ErrWrap m e)) classify_cases =
   List.find (\<lambda>(ts, _). is_any ts e) classify_cases"
  by (rule find_cong) (auto simp: is_any_wrap classify_cases_leaf)

lemma ClassifyError_wrap [simp]: "ClassifyError (Some (ErrWrap m e)) = ClassifyError (Some e)"
  by (simp add: ClassifyError_def classify_find_wrap)

lemma ClassifyError_join_cases:
  "ClassifyError (Some (ErrJoin a b)) = ClassifyError (Some a) \<or>
   ClassifyError (Some (ErrJoin a b)) = ClassifyError (Some b)"
  using find_disj[of "\<lambda>(ts, _). is_any ts a" "\<lambda>(ts, _). is_any ts b" classify_cases]
  unfolding ClassifyError_def option.case classify_find_join by presburger

lemma ClassifyError_conflict:
  "ei_Kind (ClassifyError (Some e)) = ErrorKindConflict
   \<longleftrightarrow> is_any (fst (hd classify_cases)) e"
  by (simp add: ClassifyError_def classify_cases_def error_info_def)

lemma ClassifyError_unknown:
  "ei_Kind (ClassifyError (Some e)) = ErrorKindUnknown
   \<longleftrightarrow> (\<forall>(ts, i) \<in> set classify_cases. \<not> is_any ts e)"
proof
  assume k: "ei_Kind (ClassifyError (Some e)) = ErrorKindUnknown"
  have "List.find (\<lambda>(ts, _). is_any ts e) classify_cases = None"
  proof (rule ccontr)
    assume "\<not> ?thesis"
    then obtain ts i where f: "List.find (\<lambda>(ts, _). is_any ts e) classify_cases = Some (ts, i)"
      by auto
    then have "(ts, i) \<in> set classify_cases" by (auto dest: find_Some_in)
    moreover from k f have "ei_Kind i = ErrorKindUnknown" by (simp add: ClassifyError_def)
    ultimately show False by (auto simp: classify_cases_def error_info_def)
  qed
  then show "\<forall>(ts, i) \<in> set classify_cases. \<not> is_any ts e"
    by (auto simp: find_None_iff)
next
  assume "\<forall>(ts, i) \<in> set classify_cases. \<not> is_any ts e"
  then have "List.find (\<lambda>(ts, _). is_any ts e) classify_cases = None"
    by (auto simp: find_None_iff)
  then show "ei_Kind (ClassifyError (Some e)) = ErrorKindUnknown"
    by (simp add: ClassifyError_def error_info_def)
qed

section \<open>Properties\<close>

text \<open>
  Joining a rollback error to its cause never invents a classification: the joined error
  is classified as one of the two, it is a conflict (and retryable) exactly if one of them is,
  and it is unknown only if both are.
\<close>

theorem ClassifyError_join:
  "ClassifyError (joinRollbackError (Some a) (Some b)) \<in> {ClassifyError (Some a), ClassifyError (Some b)}
   \<and> (ei_Kind (ClassifyError (joinRollbackError (Some a) (Some b))) = ErrorKindConflict
        \<longleftrightarrow> ei_Kind (ClassifyError (Some a)) = ErrorKindConflict
            \<or> ei_Kind (ClassifyError (Some b)) = ErrorKindConflict)
   \<and> (ei_Kind (ClassifyError (joinRollbackError (Some a) (Some b))) = ErrorKindUnknown
        \<longleftrightarrow> ei_Kind (ClassifyError (Some a)) = ErrorKindUnknown
            \<and> ei_Kind (ClassifyError (Some b)) = ErrorKindUnknown)"
proof -
  have j: "joinRollbackError (Some a) (Some b) = Some (ErrJoin a b)"
    by (simp add: joinRollbackError_def)
  have c: "ei_Kind (ClassifyError (Some (ErrJoin a b))) = ErrorKindConflict
      \<longleftrightarrow> ei_Kind (ClassifyError (Some a)) = ErrorKindConflict
        \<or> ei_Kind (ClassifyError (Some b)) = ErrorKindConflict"
    unfolding ClassifyError_conflict by (rule is_any_join) (simp add: classify_cases_def is_leaf_def)
  have u: "ei_Kind (ClassifyError (Some (ErrJoin a b))) = ErrorKindUnknown
      \<longleftrightarrow> ei_Kind (ClassifyError (Some a)) = ErrorKindUnknown
        \<and> ei_Kind (ClassifyError (Some b)) = ErrorKindUnknown"
    unfolding ClassifyError_unknown by (fastforce simp: is_any_join classify_cases_leaf)
  show ?thesis unfolding j using ClassifyError_join_cases[of a b] c u by auto
qed

end
