(* ===== verification/Store_Interfaces.thy ===== *)
theory Store_Interfaces
  imports Errors
begin

text \<open>
  The contracts of the persistence interfaces, as locales: what a client may rely on after a
  \<^verbatim>\<open>Create\<close>, \<^verbatim>\<open>Get\<close>, \<^verbatim>\<open>Update\<close> or \<^verbatim>\<open>List\<close>. \<open>record_store\<close> is the shape of
  \<^verbatim>\<open>execution.AttemptStore\<close>, \<^verbatim>\<open>planning.Store\<close> and their kin; \<open>versioned_store\<close> adds the
  optimistic version check of \<^verbatim>\<open>session.Store\<close>, \<^verbatim>\<open>approval.Store\<close> and
  \<^verbatim>\<open>execution.RuntimeHandleStore\<close>. Every in-memory store of the sources is an interpretation.
\<close>

section \<open>Stores of records with an identity\<close>

locale record_store =
  fixes invar :: "'s \<Rightarrow> bool"
    and key :: "'r \<Rightarrow> string"
    and owner :: "'r \<Rightarrow> string"
    and get :: "string \<Rightarrow> 's \<Rightarrow> goerr + 'r"
    and list :: "string \<Rightarrow> 's \<Rightarrow> 'r list"
  assumes get_key: "invar s \<Longrightarrow> get k s = Inr r \<Longrightarrow> key r = k"
    and list_get: "invar s \<Longrightarrow> r \<in> set (list sid s) \<longleftrightarrow> get (key r) s = Inr r \<and> (sid = [] \<or> owner r = sid)"
    and list_distinct: "invar s \<Longrightarrow> distinct (map key (list sid s))"
begin

lemma listed_iff:
  assumes "invar s"
  shows "(\<exists>r \<in> set (list sid s). key r = k) \<longleftrightarrow> (\<exists>r. get k s = Inr r \<and> (sid = [] \<or> owner r = sid))"
  using assms by (metis get_key list_get)

lemma list_by_owner:
  assumes "invar s" and "sid \<noteq> []"
  shows "set (list sid s) = {r \<in> set (list [] s). owner r = sid}"
  using assms by (auto simp: list_get)

end

locale creating_store = record_store +
  fixes create :: "string \<Rightarrow> int \<Rightarrow> 'b \<Rightarrow> 'a \<Rightarrow> 'b \<times> 'a"
  assumes create_invar: "invar s \<Longrightarrow> create u now x s = (r, s') \<Longrightarrow> invar s'"
    and create_get: "invar s \<Longrightarrow> create u now x s = (r, s') \<Longrightarrow>
          get k s' = (if k = key r then Inr r else get k s)"
begin

lemma created_is_listed:
  assumes "invar s" and "create u now x s = (r, s')"
  shows "r \<in> set (list sid s') \<longleftrightarrow> sid = [] \<or> owner r = sid"
  using assms create_invar[OF assms] create_get[OF assms, of "key r"] by (auto simp: list_get)

lemma others_stay_listed:
  assumes "invar s" and "create u now x s = (r, s')" and "key r' \<noteq> key r"
  shows "r' \<in> set (list sid s') \<longleftrightarrow> r' \<in> set (list sid s)"
  using assms create_invar[OF assms(1,2)] create_get[OF assms(1,2), of "key r'"]
  by (auto simp: list_get)

end

section \<open>Stores with an optimistic version check\<close>

locale versioned_store =
  fixes invar :: "'s \<Rightarrow> bool"
    and key :: "'r \<Rightarrow> string"
    and ver :: "'r \<Rightarrow> int"
    and get :: "string \<Rightarrow> 's \<Rightarrow> goerr + 'r"
    and update :: "int \<Rightarrow> 'r \<Rightarrow> 's \<Rightarrow> goerr + 's"
    and conflict :: goerr
  assumes update_missing: "get (key r) s = Inl e \<Longrightarrow> update now r s = Inl e"
    and update_conflict: "get (key r) s = Inr c \<Longrightarrow> ver r \<noteq> ver c + 1 \<Longrightarrow> update now r s = Inl conflict"
    and update_fresh: "get (key r) s = Inr c \<Longrightarrow> ver r = ver c + 1 \<Longrightarrow>
          \<exists>s'. update now r s = Inr s'"
    and update_get: "invar s \<Longrightarrow> update now r s = Inr s' \<Longrightarrow>
          (\<exists>r'. get (key r) s' = Inr r' \<and> key r' = key r \<and> ver r' = ver r)
          \<and> (\<forall>k. k \<noteq> key r \<longrightarrow> get k s' = get k s)"
    and update_invar: "invar s \<Longrightarrow> update now r s = Inr s' \<Longrightarrow> invar s'"
begin

lemma update_ok_iff:
  "(\<exists>s'. update now r s = Inr s') \<longleftrightarrow> (\<exists>c. get (key r) s = Inr c \<and> ver r = ver c + 1)"
proof (cases "get (key r) s")
  case (Inl e)
  then show ?thesis by (simp add: update_missing)
next
  case (Inr c)
  then show ?thesis using update_conflict[OF Inr] update_fresh[OF Inr] by (metis Inl_Inr_False sum.inject(2))
qed

text \<open>Two writers that read the same record: the second to write is refused.\<close>

lemma second_writer_conflicts:
  assumes "invar s" and "update t1 a s = Inr s1" and "key b = key a" and "ver b = ver a"
  shows "update t2 b s1 = Inl conflict"
proof -
  from update_get[OF assms(1,2)] obtain r where "get (key b) s1 = Inr r" "ver r = ver a"
    using assms(3) by auto
  then show ?thesis using assms(4) by (intro update_conflict) auto
qed

lemma update_version_grows:
  assumes "invar s" and "update now r s = Inr s'" and "get k s = Inr c"
  obtains c' where "get k s' = Inr c'" "ver c \<le> ver c'"
    "ver c' = ver c \<longrightarrow> c' = c"
proof (cases "k = key r")
  case True
  from assms(2) obtain c0 where "get (key r) s = Inr c0" "ver r = ver c0 + 1"
    using update_ok_iff by blast
  with True assms(3) have "ver r = ver c + 1" by simp
  moreover from update_get[OF assms(1,2)] obtain r' where "get k s' = Inr r'" "ver r' = ver r"
    using True by auto
  ultimately show ?thesis by (intro that[of r']) auto
next
  case False
  then have "get k s' = Inr c" using update_get[OF assms(1,2)] assms(3) by auto
  then show ?thesis by (intro that[of c]) auto
qed

end

section \<open>In-memory stores\<close>

text \<open>
  The map every in-memory store keeps, with its invariant: a record is stored under its own id.
\<close>

definition keyed :: "('r \<Rightarrow> string) \<Rightarrow> 'r gomap \<Rightarrow> bool" where
  "keyed key m \<longleftrightarrow> gm_wf m \<and> (\<forall>(k, r) \<in> set m. key r = k)"

definition by_owner :: "('r \<Rightarrow> string) \<Rightarrow> string \<Rightarrow> 'r gomap \<Rightarrow> 'r list" where
  "by_owner owner sid m = filter (\<lambda>r. sid = [] \<or> owner r = sid) (gm_vals m)"

lemma keyed_empty [simp]: "keyed key []"
  by (simp add: keyed_def)

lemma keyed_put [simp, intro]:
  assumes "keyed key m" and "key r = k"
  shows "keyed key (gm_put k r m)"
proof -
  have wf: "gm_wf (gm_put k r m)" using assms by (simp add: keyed_def)
  moreover have "key r' = k'" if "(k', r') \<in> set (gm_put k r m)" for k' r'
  proof -
    from wf that have "gm_get (gm_put k r m) k' = Some r'" by (rule map_of_is_SomeI)
    then have "(k' = k \<and> r' = r) \<or> gm_get m k' = Some r'" by (auto split: if_splits)
    then show ?thesis using assms by (auto simp: keyed_def dest: gm_get_in)
  qed
  ultimately show ?thesis by (auto simp: keyed_def)
qed

lemma keyed_get: "keyed key m \<Longrightarrow> gm_get m k = Some r \<Longrightarrow> key r = k"
  by (auto simp: keyed_def dest!: gm_get_in)

lemma keyed_vals:
  assumes "keyed key m"
  shows "r \<in> set (gm_vals m) \<longleftrightarrow> gm_get m (key r) = Some r"
proof
  assume "r \<in> set (gm_vals m)"
  then obtain k where "(k, r) \<in> set m" by auto
  moreover from this have "key r = k" using assms by (auto simp: keyed_def)
  ultimately show "gm_get m (key r) = Some r" using assms by (simp add: keyed_def)
next
  assume "gm_get m (key r) = Some r"
  then show "r \<in> set (gm_vals m)" by (force dest: gm_get_in)
qed

lemma keyed_distinct_keys:
  assumes "keyed key m"
  shows "distinct (map key (gm_vals m))"
proof -
  have "map key (gm_vals m) = map fst m"
    using assms by (auto simp: keyed_def intro!: map_cong[OF refl] simp: case_prod_beta)
  moreover have "gm_wf m" using assms by (simp add: keyed_def)
  ultimately show ?thesis by metis
qed

lemma by_owner_set:
  "keyed key m \<Longrightarrow> r \<in> set (by_owner owner sid m) \<longleftrightarrow> gm_get m (key r) = Some r \<and> (sid = [] \<or> owner r = sid)"
  by (auto simp: by_owner_def keyed_vals simp del: set_map)

lemma by_owner_distinct: "keyed key m \<Longrightarrow> distinct (map key (by_owner owner sid m))"
  unfolding by_owner_def by (drule keyed_distinct_keys) (rule distinct_map_filter)

lemma distinct_map_go_sort: "distinct (map f xs) \<Longrightarrow> distinct (map f (go_sort lt xs))"
  by (simp add: distinct_map)

definition mem_get :: "goerr \<Rightarrow> string \<Rightarrow> 'r gomap \<Rightarrow> goerr + 'r" where
  "mem_get missing k m = (case gm_get m k of None \<Rightarrow> Inl missing | Some r \<Rightarrow> Inr r)"

lemma mem_get_Inr [simp]: "mem_get e k m = Inr r \<longleftrightarrow> gm_get m k = Some r"
  by (simp add: mem_get_def split: option.splits)

lemma mem_get_put [simp]: "mem_get e k (gm_put k' r m) = (if k = k' then Inr r else mem_get e k m)"
  by (simp add: mem_get_def)

text \<open>Every in-memory store that lists its records in a sorted order is a \<open>record_store\<close>.\<close>

lemma mem_record_store:
  "record_store (keyed key) key owner (mem_get e) (\<lambda>sid m. go_sort lt (by_owner owner sid m))"
  by unfold_locales
    (auto simp: keyed_get by_owner_set intro: by_owner_distinct distinct_map_go_sort)

end
