(* ===== verification/Task.thy ===== *)
theory Task
  imports Store_Interfaces
begin

text \<open>Tasks: \<^verbatim>\<open>pkg/harness/task\<close> (spec.go, store.go).\<close>

datatype TaskStatus =
    TaskReceived | TaskRunning | TaskCompleted | TaskFailed | TaskAborted | TaskOther string

record task_spec =
  ts_TaskID :: string
  ts_TaskType :: string
  ts_Goal :: string
  ts_Constraints :: meta
  ts_Metadata :: meta

record task =
  tk_TaskID :: string
  tk_TaskType :: string
  tk_Goal :: string
  tk_Status :: TaskStatus
  tk_SessionID :: string
  tk_Constraints :: meta
  tk_Metadata :: meta
  tk_CreatedAt :: int
  tk_UpdatedAt :: int

type_synonym task_map = "task gomap"

abbreviation task_wf :: "task_map \<Rightarrow> bool" where
  "task_wf \<equiv> keyed tk_TaskID"

definition task_Create :: "string \<Rightarrow> int \<Rightarrow> task_spec \<Rightarrow> task_map \<Rightarrow> task \<times> task_map" where
  "task_Create uuid now spec m =
     (let tid = (if ts_TaskID spec = [] then uuid else ts_TaskID spec);
          rec = \<lparr>tk_TaskID = tid, tk_TaskType = ts_TaskType spec, tk_Goal = ts_Goal spec,
                 tk_Status = TaskReceived, tk_SessionID = [], tk_Constraints = ts_Constraints spec,
                 tk_Metadata = ts_Metadata spec, tk_CreatedAt = now, tk_UpdatedAt = now\<rparr>
      in (rec, gm_put (tk_TaskID rec) rec m))"

definition task_Get :: "string \<Rightarrow> task_map \<Rightarrow> goerr + task" where
  "task_Get = mem_get ErrTaskNotFound"

definition task_Update :: "int \<Rightarrow> task \<Rightarrow> task_map \<Rightarrow> goerr + task_map" where
  "task_Update now next m = (case gm_get m (tk_TaskID next) of
     None \<Rightarrow> Inl ErrTaskNotFound
   | Some _ \<Rightarrow> let next = next\<lparr>tk_UpdatedAt := now\<rparr> in Inr (gm_put (tk_TaskID next) next m))"

definition task_List :: "task_map \<Rightarrow> task list" where
  "task_List m = gm_vals m"

lemmas task_store_defs = task_Create_def task_Get_def task_Update_def task_List_def Let_def

lemma task_Create_wf: "task_wf m \<Longrightarrow> task_wf (snd (task_Create u now spec m))"
  by (auto simp: task_store_defs)

lemma task_Update_wf: "task_wf m \<Longrightarrow> task_Update now t m = Inr m' \<Longrightarrow> task_wf m'"
  by (auto simp: task_store_defs split: option.splits)

lemma task_Update_get:
  assumes "task_Update now t m = Inr m'"
  shows "task_Get k m' = (if k = tk_TaskID t then Inr (t\<lparr>tk_UpdatedAt := now\<rparr>) else task_Get k m)"
  using assms by (auto simp: task_store_defs split: option.splits)

lemma task_Update_ok: "task_Get (tk_TaskID t) m = Inr c \<Longrightarrow> \<exists>m'. task_Update now t m = Inr m'"
  by (auto simp: task_store_defs)

end
