(* ===== verification/Session.thy ===== *)
theory Session
  imports Store_Interfaces
begin

text \<open>
  Sessions: \<^verbatim>\<open>pkg/harness/session\<close> (state.go, recovery.go, store.go). The state record, the test
  for recoverable sessions and the in-memory store with its optimistic version check and its
  leases. Every method of the store runs under the store's mutex, so concurrent callers are
  sequences of operations; \<open>session_exec\<close> runs one operation and \<open>session_run\<close> a sequence.
\<close>

section \<open>State\<close>

datatype Phase =
    PhaseReceived | PhasePrepare | PhasePlan | PhaseExecute | PhaseVerify | PhaseRecover
  | PhaseComplete | PhaseFailed | PhaseAborted | PhaseOther string

datatype ExecutionState =
    ExecutionIdle | ExecutionInFlight | ExecutionInterrupted | ExecutionAwaitingApproval
  | ExecutionBlocked | ExecutionOther string

datatype ClaimMode = ClaimModeRunnable | ClaimModeRecoverable | ClaimModeOther string

record session =
  st_SessionID :: string
  st_TaskID :: string
  st_Title :: string
  st_Goal :: string
  st_Phase :: Phase
  st_CurrentStepID :: string
  st_Summary :: string
  st_RetryCount :: int
  st_ExecutionState :: ExecutionState
  st_InFlightStepID :: string
  st_PendingApprovalID :: string
  st_LeaseID :: string
  st_LeaseClaimedAt :: int
  st_LeaseExpiresAt :: int
  st_LastHeartbeatAt :: int
  st_InterruptedAt :: int
  st_RuntimeStartedAt :: int
  st_Metadata :: meta
  st_Version :: int
  st_CreatedAt :: int
  st_UpdatedAt :: int

text \<open>Go's zero value \<^verbatim>\<open>State{}\<close>.\<close>

definition zero_session :: session where
  "zero_session = \<lparr>
     st_SessionID = [], st_TaskID = [], st_Title = [], st_Goal = [], st_Phase = PhaseOther [],
     st_CurrentStepID = [], st_Summary = [], st_RetryCount = 0,
     st_ExecutionState = ExecutionOther [], st_InFlightStepID = [], st_PendingApprovalID = [],
     st_LeaseID = [], st_LeaseClaimedAt = 0, st_LeaseExpiresAt = 0, st_LastHeartbeatAt = 0,
     st_InterruptedAt = 0, st_RuntimeStartedAt = 0, st_Metadata = [], st_Version = 0,
     st_CreatedAt = 0, st_UpdatedAt = 0\<rparr>"

definition IsRecoverableState :: "session \<Rightarrow> bool" where
  "IsRecoverableState st = (case st_ExecutionState st of
     ExecutionInFlight \<Rightarrow> True
   | ExecutionInterrupted \<Rightarrow> True
   | ExecutionIdle \<Rightarrow>
       if st_Phase st \<noteq> PhaseRecover then False
       else st_InterruptedAt st \<noteq> 0 \<or> st_InFlightStepID st \<noteq> []
   | _ \<Rightarrow> False)"

definition leaseActiveAt :: "session \<Rightarrow> int \<Rightarrow> bool" where
  "leaseActiveAt st now \<longleftrightarrow> st_LeaseID st \<noteq> [] \<and> st_LeaseExpiresAt st > now"

definition leaseHeldAt :: "session \<Rightarrow> string \<Rightarrow> int \<Rightarrow> bool" where
  "leaseHeldAt st leaseID now \<longleftrightarrow>
     leaseID \<noteq> [] \<and> st_LeaseID st = leaseID \<and> leaseActiveAt st now"

definition claimableState :: "session \<Rightarrow> ClaimMode \<Rightarrow> int \<Rightarrow> bool" where
  "claimableState st mode now =
     (if leaseActiveAt st now then False
      else if st_ExecutionState st = ExecutionAwaitingApproval
            \<or> st_ExecutionState st = ExecutionBlocked then False
      else (case mode of
          ClaimModeRunnable \<Rightarrow>
            if st_ExecutionState st \<noteq> ExecutionIdle then False
            else st_Phase st \<noteq> PhaseComplete \<and> st_Phase st \<noteq> PhaseFailed
               \<and> st_Phase st \<noteq> PhaseAborted
        | ClaimModeRecoverable \<Rightarrow> IsRecoverableState st
        | ClaimModeOther _ \<Rightarrow> False))"

section \<open>The in-memory store\<close>

type_synonym session_map = "session gomap"

definition session_Create :: "string \<Rightarrow> int \<Rightarrow> string \<Rightarrow> string \<Rightarrow> session_map \<Rightarrow> session \<times> session_map" where
  "session_Create uuid now title goal m =
     (let st = zero_session\<lparr>
        st_SessionID := uuid, st_Title := title, st_Goal := goal, st_Phase := PhaseReceived,
        st_RetryCount := 0, st_ExecutionState := ExecutionIdle, st_LastHeartbeatAt := now,
        st_Version := 1, st_CreatedAt := now, st_UpdatedAt := now\<rparr>
      in (st, gm_put (st_SessionID st) st m))"

definition session_Get :: "string \<Rightarrow> session_map \<Rightarrow> goerr + session" where
  "session_Get = mem_get ErrSessionNotFound"

definition session_Update :: "int \<Rightarrow> session \<Rightarrow> session_map \<Rightarrow> goerr + session_map" where
  "session_Update now next m = (case gm_get m (st_SessionID next) of
     None \<Rightarrow> Inl ErrSessionNotFound
   | Some current \<Rightarrow>
       if st_Version next \<noteq> st_Version current + 1 then Inl ErrSessionVersionConflict
       else
         let next = (if st_CreatedAt next = 0
                     then next\<lparr>st_CreatedAt := st_CreatedAt current\<rparr> else next);
             next = (if st_RuntimeStartedAt next = 0
                     then next\<lparr>st_RuntimeStartedAt := st_RuntimeStartedAt current\<rparr> else next);
             next = next\<lparr>st_UpdatedAt := now\<rparr>
         in Inr (gm_put (st_SessionID next) next m))"

definition session_List :: "session_map \<Rightarrow> session list" where
  "session_List m = gm_vals m"

definition claim_less :: "session \<Rightarrow> session \<Rightarrow> bool" where
  "claim_less a b = (if st_CreatedAt a = st_CreatedAt b then st_SessionID a < st_SessionID b
                     else st_CreatedAt a < st_CreatedAt b)"

definition claim_write :: "string \<Rightarrow> int \<Rightarrow> int \<Rightarrow> session \<Rightarrow> session" where
  "claim_write leaseID claimedAt expiresAt st =
     st\<lparr>st_LeaseID := leaseID, st_LeaseClaimedAt := claimedAt, st_LeaseExpiresAt := expiresAt,
        st_LastHeartbeatAt := claimedAt, st_Version := st_Version st + 1, st_UpdatedAt := claimedAt\<rparr>"

fun claim_loop :: "ClaimMode \<Rightarrow> string \<Rightarrow> int \<Rightarrow> int \<Rightarrow> session list \<Rightarrow> session_map
    \<Rightarrow> session option \<times> session_map" where
  "claim_loop mode leaseID claimedAt expiresAt [] m = (None, m)"
| "claim_loop mode leaseID claimedAt expiresAt (o1 # os) m =
     (let st = (case gm_get m (st_SessionID o1) of None \<Rightarrow> zero_session | Some st \<Rightarrow> st)
      in if \<not> claimableState st mode claimedAt
         then claim_loop mode leaseID claimedAt expiresAt os m
         else let st = claim_write leaseID claimedAt expiresAt st
              in (Some st, gm_put (st_SessionID st) st m))"

definition session_ClaimNext :: "ClaimMode \<Rightarrow> string \<Rightarrow> int \<Rightarrow> int \<Rightarrow> session_map
    \<Rightarrow> session option \<times> session_map" where
  "session_ClaimNext mode leaseID claimedAt expiresAt m =
     claim_loop mode leaseID claimedAt expiresAt (go_sort claim_less (gm_vals m)) m"

definition session_RenewLease :: "string \<Rightarrow> string \<Rightarrow> int \<Rightarrow> int \<Rightarrow> session_map
    \<Rightarrow> goerr + (session \<times> session_map)" where
  "session_RenewLease sessionID leaseID now expiresAt m = (case gm_get m sessionID of
     None \<Rightarrow> Inl ErrSessionNotFound
   | Some st \<Rightarrow>
       if \<not> leaseHeldAt st leaseID now then Inl ErrSessionLeaseNotHeld
       else let st = st\<lparr>st_LeaseExpiresAt := expiresAt, st_LastHeartbeatAt := now,
                        st_Version := st_Version st + 1, st_UpdatedAt := now\<rparr>
            in Inr (st, gm_put sessionID st m))"

definition session_ReleaseLease :: "string \<Rightarrow> string \<Rightarrow> int \<Rightarrow> session_map
    \<Rightarrow> goerr + (session \<times> session_map)" where
  "session_ReleaseLease sessionID leaseID now m = (case gm_get m sessionID of
     None \<Rightarrow> Inl ErrSessionNotFound
   | Some st \<Rightarrow>
       if \<not> leaseHeldAt st leaseID now then Inl ErrSessionLeaseNotHeld
       else let st = st\<lparr>st_LeaseID := [], st_LeaseClaimedAt := 0, st_LeaseExpiresAt := 0,
                        st_Version := st_Version st + 1, st_UpdatedAt := now\<rparr>
            in Inr (st, gm_put sessionID st m))"

lemmas session_store_defs = session_Create_def session_Get_def session_Update_def
  session_ClaimNext_def session_RenewLease_def session_ReleaseLease_def session_List_def Let_def

section \<open>Operations as values\<close>

datatype session_op =
    OpCreate string int string string
  | OpUpdate int session
  | OpClaim ClaimMode string int int
  | OpRenew string string int int
  | OpRelease string string int

text \<open>The session an operation returns (\<open>None\<close> for an error or nothing found) and the new map.\<close>

fun session_exec :: "session_op \<Rightarrow> session_map \<Rightarrow> session option \<times> session_map" where
  "session_exec (OpCreate uuid now title goal) m =
     (case session_Create uuid now title goal m of (st, m') \<Rightarrow> (Some st, m'))"
| "session_exec (OpUpdate now next) m =
     (case session_Update now next m of Inl _ \<Rightarrow> (None, m) | Inr m' \<Rightarrow> (Some next, m'))"
| "session_exec (OpClaim mode leaseID claimedAt expiresAt) m =
     session_ClaimNext mode leaseID claimedAt expiresAt m"
| "session_exec (OpRenew sid leaseID now expiresAt) m =
     (case session_RenewLease sid leaseID now expiresAt m of
        Inl _ \<Rightarrow> (None, m) | Inr (st, m') \<Rightarrow> (Some st, m'))"
| "session_exec (OpRelease sid leaseID now) m =
     (case session_ReleaseLease sid leaseID now m of
        Inl _ \<Rightarrow> (None, m) | Inr (st, m') \<Rightarrow> (Some st, m'))"

primrec session_run :: "session_op list \<Rightarrow> session_map \<Rightarrow> session_map" where
  "session_run [] m = m"
| "session_run (op # ops) m = session_run ops (snd (session_exec op m))"

text \<open>Ids drawn from \<^verbatim>\<open>uuid.NewString\<close> are fresh: a creation does not reuse an id of the store.\<close>

fun fresh_op :: "session_op \<Rightarrow> session_map \<Rightarrow> bool" where
  "fresh_op (OpCreate uuid now title goal) m \<longleftrightarrow> gm_get m uuid = None"
| "fresh_op _ m \<longleftrightarrow> True"

primrec fresh_run :: "session_op list \<Rightarrow> session_map \<Rightarrow> bool" where
  "fresh_run [] m \<longleftrightarrow> True"
| "fresh_run (op # ops) m \<longleftrightarrow> fresh_op op m \<and> fresh_run ops (snd (session_exec op m))"

abbreviation session_wf :: "session_map \<Rightarrow> bool" where
  "session_wf \<equiv> keyed st_SessionID"

section \<open>Laws of the store\<close>

interpretation claim_order: sort_by_key claim_less "\<lambda>s. (st_CreatedAt s, st_SessionID s)"
  by unfold_locales (auto simp: claim_less_def)

interpretation sess: versioned_store session_wf st_SessionID st_Version session_Get
  session_Update ErrSessionVersionConflict
proof
  show "session_Get (st_SessionID r) s = Inl e \<Longrightarrow> session_Update now r s = Inl e" for r s e now
    by (auto simp: session_store_defs mem_get_def split: option.splits)
qed (auto simp: session_store_defs split: option.splits if_splits)

lemma claim_loop_find:
  assumes "session_wf m" and "set os \<subseteq> set (gm_vals m)"
  shows "claim_loop mode L t e os m =
    (case List.find (\<lambda>s. claimableState s mode t) os of
       None \<Rightarrow> (None, m)
     | Some s \<Rightarrow> (Some (claim_write L t e s), gm_put (st_SessionID s) (claim_write L t e s) m))"
  using assms(2)
proof (induction os)
  case Nil
  then show ?case by simp
next
  case (Cons o1 os)
  then have "gm_get m (st_SessionID o1) = Some o1" using keyed_vals[OF assms(1)] by auto
  with Cons show ?case by (simp add: Let_def claim_write_def)
qed

lemma ClaimNext_find:
  assumes "session_wf m"
  shows "session_ClaimNext mode L t e m =
    (case List.find (\<lambda>s. claimableState s mode t) (go_sort claim_less (gm_vals m)) of
       None \<Rightarrow> (None, m)
     | Some s \<Rightarrow> (Some (claim_write L t e s), gm_put (st_SessionID s) (claim_write L t e s) m))"
  unfolding session_ClaimNext_def by (rule claim_loop_find[OF assms]) simp

lemma ClaimNext_None:
  assumes "session_wf m" and "session_ClaimNext mode L t e m = (None, m')"
  shows "m' = m" and "s \<in> set (session_List m) \<Longrightarrow> \<not> claimableState s mode t"
  using assms by (auto simp: ClaimNext_find session_List_def find_None_iff split: option.splits)

lemma ClaimNext_Some:
  assumes "session_wf m" and "session_ClaimNext mode L t e m = (Some st, m')"
  obtains s where "gm_get m (st_SessionID s) = Some s" "claimableState s mode t"
    "st = claim_write L t e s" "m' = gm_put (st_SessionID s) st m"
    "\<And>s'. s' \<in> set (session_List m) \<Longrightarrow> claimableState s' mode t \<Longrightarrow>
       (st_CreatedAt s, st_SessionID s) \<le> (st_CreatedAt s', st_SessionID s')"
proof -
  let ?xs = "go_sort claim_less (gm_vals m)"
  from assms obtain s where f: "List.find (\<lambda>s. claimableState s mode t) ?xs = Some s"
    and st: "st = claim_write L t e s" "m' = gm_put (st_SessionID s) st m"
    by (auto simp: ClaimNext_find split: option.splits)
  from f obtain ys zs where sp: "?xs = ys @ s # zs" and c: "claimableState s mode t"
    and ys: "\<And>y. y \<in> set ys \<Longrightarrow> \<not> claimableState y mode t"
    by (rule find_first) blast
  have "s \<in> set ?xs" using sp by simp
  then have g: "gm_get m (st_SessionID s) = Some s"
    using keyed_vals[OF assms(1)] by (simp del: set_map)
  have "(st_CreatedAt s, st_SessionID s) \<le> (st_CreatedAt s', st_SessionID s')"
    if "s' \<in> set (session_List m)" "claimableState s' mode t" for s'
  proof -
    have "s' \<in> set ?xs" using that(1) by (simp add: session_List_def)
    with sp ys that(2) have "s' = s \<or> s' \<in> set zs" by auto
    moreover have "sorted (map (\<lambda>s. (st_CreatedAt s, st_SessionID s)) (ys @ s # zs))"
      using claim_order.sorted_go_sort[of "gm_vals m"] sp by simp
    ultimately show ?thesis by (auto simp: sorted_append simp del: less_eq_prod_def)
  qed
  with g c st that show thesis by blast
qed

lemma RenewLease_Inr:
  assumes "session_RenewLease sid L now e m = Inr (st, m')"
  obtains c where "gm_get m sid = Some c" "leaseHeldAt c L now" "m' = gm_put sid st m"
    "st = c\<lparr>st_LeaseExpiresAt := e, st_LastHeartbeatAt := now,
            st_Version := st_Version c + 1, st_UpdatedAt := now\<rparr>"
proof (cases "gm_get m sid")
  case None
  with assms show thesis by (simp add: session_RenewLease_def)
next
  case (Some c)
  with assms have h: "leaseHeldAt c L now"
    by (simp add: session_RenewLease_def split: if_splits)
  show thesis
    by (rule that[OF Some h]) (use assms Some h in \<open>force simp: session_RenewLease_def Let_def\<close>)+
qed

lemma ReleaseLease_Inr:
  assumes "session_ReleaseLease sid L now m = Inr (st, m')"
  obtains c where "gm_get m sid = Some c" "leaseHeldAt c L now" "m' = gm_put sid st m"
    "st = c\<lparr>st_LeaseID := [], st_LeaseClaimedAt := 0, st_LeaseExpiresAt := 0,
            st_Version := st_Version c + 1, st_UpdatedAt := now\<rparr>"
proof (cases "gm_get m sid")
  case None
  with assms show thesis by (simp add: session_ReleaseLease_def)
next
  case (Some c)
  with assms have h: "leaseHeldAt c L now"
    by (simp add: session_ReleaseLease_def split: if_splits)
  show thesis
    by (rule that[OF Some h]) (use assms Some h in \<open>force simp: session_ReleaseLease_def Let_def\<close>)+
qed

lemma Update_Inr:
  assumes "session_Update now nx m = Inr m'"
  obtains c st where "gm_get m (st_SessionID nx) = Some c" "st_Version nx = st_Version c + 1"
    "m' = gm_put (st_SessionID nx) st m" "st_SessionID st = st_SessionID nx"
    "st_Version st = st_Version nx" "st_LeaseID st = st_LeaseID nx"
    "st_LeaseExpiresAt st = st_LeaseExpiresAt nx" "st_LeaseClaimedAt st = st_LeaseClaimedAt nx"
proof -
  from assms obtain c where c: "gm_get m (st_SessionID nx) = Some c" "st_Version nx = st_Version c + 1"
    by (auto simp: session_Update_def split: option.splits if_splits)
  show thesis
    by (rule that[of c "(if st_RuntimeStartedAt nx = 0
           then (if st_CreatedAt nx = 0 then nx\<lparr>st_CreatedAt := st_CreatedAt c\<rparr> else nx)
                  \<lparr>st_RuntimeStartedAt := st_RuntimeStartedAt c\<rparr>
           else (if st_CreatedAt nx = 0 then nx\<lparr>st_CreatedAt := st_CreatedAt c\<rparr> else nx))
           \<lparr>st_UpdatedAt := now\<rparr>"])
      (use assms c in \<open>auto simp: session_Update_def Let_def split: if_splits\<close>)
qed

section \<open>An abstract store that the operations refine\<close>

text \<open>
  A map of versioned registers: a step leaves it alone, adds a register under a new key, or
  writes one register and raises its version by exactly one.
\<close>

inductive session_step :: "session_map \<Rightarrow> session_map \<Rightarrow> bool" where
  step_stay: "session_step m m"
| step_create: "gm_get m k = None \<Longrightarrow> st_SessionID s = k \<Longrightarrow> session_step m (gm_put k s m)"
| step_write: "gm_get m k = Some c \<Longrightarrow> st_SessionID s = k \<Longrightarrow> st_Version s = st_Version c + 1 \<Longrightarrow>
    session_step m (gm_put k s m)"

lemma session_step_wf: "session_step m m' \<Longrightarrow> session_wf m \<Longrightarrow> session_wf m'"
  by (induction rule: session_step.induct) auto

lemma session_step_version:
  "session_step m m' \<Longrightarrow> gm_get m k = Some c \<Longrightarrow>
   \<exists>c'. gm_get m' k = Some c' \<and> st_Version c \<le> st_Version c' \<and> (st_Version c' = st_Version c \<longrightarrow> c' = c)"
  by (induction rule: session_step.induct) auto

lemma session_exec_refines:
  assumes "session_wf m" and "fresh_op op m"
  shows "session_step m (snd (session_exec op m))"
proof (cases op)
  case (OpCreate uuid now title goal)
  with assms show ?thesis
    by (auto simp: session_Create_def Let_def intro!: session_step.step_create)
next
  case (OpUpdate now nx)
  with assms show ?thesis
    by (auto split: sum.splits elim!: Update_Inr intro: session_step.step_stay session_step.step_write)
next
  case (OpClaim mode L t e)
  obtain r m' where cl: "session_ClaimNext mode L t e m = (r, m')" by (metis surj_pair)
  show ?thesis
  proof (cases r)
    case None
    with cl have "m' = m" using ClaimNext_None(1)[OF assms(1)] by simp
    with cl OpClaim show ?thesis by (simp add: session_step.step_stay)
  next
    case (Some st)
    with cl obtain s where "gm_get m (st_SessionID s) = Some s"
      "st = claim_write L t e s" "m' = gm_put (st_SessionID s) st m"
      using ClaimNext_Some[OF assms(1)] by metis
    with cl OpClaim show ?thesis
      by (simp add: session_step.step_write claim_write_def)
  qed
next
  case (OpRenew sid L now e)
  then show ?thesis
    using keyed_get[OF assms(1)]
    by (auto split: sum.splits elim!: RenewLease_Inr intro: session_step.step_stay session_step.step_write)
next
  case (OpRelease sid L now)
  then show ?thesis
    using keyed_get[OF assms(1)]
    by (auto split: sum.splits elim!: ReleaseLease_Inr intro: session_step.step_stay session_step.step_write)
qed

lemma session_exec_wf: "session_wf m \<Longrightarrow> fresh_op op m \<Longrightarrow> session_wf (snd (session_exec op m))"
  by (rule session_step_wf[OF session_exec_refines])

lemma session_run_wf: "session_wf m \<Longrightarrow> fresh_run ops m \<Longrightarrow> session_wf (session_run ops m)"
  by (induction ops arbitrary: m) (auto simp: session_exec_wf)

lemma session_run_version:
  assumes "session_wf m" and "fresh_run ops m" and "gm_get m k = Some c"
  shows "\<exists>c'. gm_get (session_run ops m) k = Some c' \<and> st_Version c \<le> st_Version c'
    \<and> (st_Version c' = st_Version c \<longrightarrow> c' = c)"
  using assms
proof (induction ops arbitrary: m c)
  case Nil
  then show ?case by simp
next
  case (Cons op ops)
  let ?m = "snd (session_exec op m)"
  from Cons.prems have step: "session_step m ?m" by (auto intro: session_exec_refines)
  from session_step_version[OF step Cons.prems(3)] obtain c1 where
    c1: "gm_get ?m k = Some c1" "st_Version c \<le> st_Version c1" "st_Version c1 = st_Version c \<longrightarrow> c1 = c"
    by blast
  from Cons.prems have "session_wf ?m" "fresh_run ops ?m" by (auto simp: session_exec_wf)
  from Cons.IH[OF this c1(1)] c1 show ?case by force
qed

section \<open>Leases\<close>

text \<open>
  What other workers may do while a lease \<open>L\<close> on session \<open>sid\<close> is held: create sessions, claim
  before the lease expires, renew or release leases of their own, and update sessions without
  touching the lease columns of \<open>sid\<close> (the runtime always writes back the lease it read).
\<close>

fun foreign_op :: "string \<Rightarrow> string \<Rightarrow> int \<Rightarrow> session_op \<Rightarrow> bool" where
  "foreign_op sid L e (OpCreate uuid now title goal) \<longleftrightarrow> uuid \<noteq> sid"
| "foreign_op sid L e (OpUpdate now nx) \<longleftrightarrow>
     (st_SessionID nx = sid \<longrightarrow> st_LeaseID nx = L \<and> st_LeaseExpiresAt nx = e)"
| "foreign_op sid L e (OpClaim mode L' t e') \<longleftrightarrow> t < e"
| "foreign_op sid L e (OpRenew sid' L' now e') \<longleftrightarrow> L' \<noteq> L"
| "foreign_op sid L e (OpRelease sid' L' now) \<longleftrightarrow> L' \<noteq> L"

definition leased :: "string \<Rightarrow> string \<Rightarrow> int \<Rightarrow> session_map \<Rightarrow> bool" where
  "leased sid L e m \<longleftrightarrow>
     (\<exists>s. gm_get m sid = Some s \<and> st_LeaseID s = L \<and> st_LeaseExpiresAt s = e)"

lemma leased_put:
  "leased sid L e m \<Longrightarrow> (k = sid \<Longrightarrow> st_LeaseID s = L \<and> st_LeaseExpiresAt s = e) \<Longrightarrow>
   leased sid L e (gm_put k s m)"
  by (auto simp: leased_def)

lemma claim_not_leased:
  assumes "session_wf m" and "leased sid L e m" and "L \<noteq> []" and "t < e"
    and "session_ClaimNext mode L' t e' m = (Some st, m')"
  shows "st_SessionID st \<noteq> sid \<and> leased sid L e m'"
proof -
  from assms(5) obtain s where s: "gm_get m (st_SessionID s) = Some s" "claimableState s mode t"
    "st = claim_write L' t e' s" "m' = gm_put (st_SessionID s) st m"
    using ClaimNext_Some[OF assms(1)] by metis
  have "st_SessionID s \<noteq> sid"
    using s(1,2) assms(2-4) by (auto simp: leased_def claimableState_def leaseActiveAt_def)
  with s assms(2) show ?thesis by (auto simp: claim_write_def intro: leased_put)
qed

lemma foreign_op_leased:
  assumes "session_wf m" and "leased sid L e m" and "L \<noteq> []" and "foreign_op sid L e op"
  shows "leased sid L e (snd (session_exec op m))"
proof (cases op)
  case (OpClaim mode L' t e')
  obtain r m' where cl: "session_ClaimNext mode L' t e' m = (r, m')" by (metis surj_pair)
  show ?thesis
  proof (cases r)
    case None
    with cl have "m' = m" using ClaimNext_None(1)[OF assms(1)] by simp
    with cl OpClaim assms show ?thesis by simp
  next
    case (Some st)
    with cl OpClaim assms claim_not_leased[OF assms(1-3)] show ?thesis by auto
  qed
next
  case (OpCreate uuid now title goal)
  with assms show ?thesis by (auto simp: session_Create_def Let_def intro!: leased_put)
next
  case (OpUpdate now nx)
  with assms show ?thesis by (auto split: sum.splits elim!: Update_Inr intro!: leased_put)
next
  case (OpRenew sid' L' now e')
  with assms show ?thesis
    by (auto split: sum.splits elim!: RenewLease_Inr intro!: leased_put simp: leased_def leaseHeldAt_def)
next
  case (OpRelease sid' L' now)
  with assms show ?thesis
    by (auto split: sum.splits elim!: ReleaseLease_Inr intro!: leased_put simp: leased_def leaseHeldAt_def)
qed

lemma foreign_run_leased:
  "session_wf m \<Longrightarrow> fresh_run ops m \<Longrightarrow> leased sid L e m \<Longrightarrow> L \<noteq> [] \<Longrightarrow>
   list_all (foreign_op sid L e) ops \<Longrightarrow> leased sid L e (session_run ops m)"
  by (induction ops arbitrary: m) (auto simp: session_exec_wf foreign_op_leased)

section \<open>Properties\<close>

text \<open>
  C13. Claiming hands out the oldest claimable session. If \<^verbatim>\<open>ClaimNext\<close> returns a session, that
  session was claimable, no claimable session has a smaller creation time (ties broken by id),
  it is returned and stored with the new lease and a version one higher, and no other session
  changes. If it returns none, no session was claimable and the store is unchanged.
\<close>

theorem ClaimNext_oldest:
  assumes "session_wf m"
  shows "case session_ClaimNext mode L t e m of
      (None, m') \<Rightarrow> m' = m \<and> (\<forall>s \<in> set (session_List m). \<not> claimableState s mode t)
    | (Some st, m') \<Rightarrow>
        \<exists>s \<in> set (session_List m). claimableState s mode t
          \<and> (\<forall>s' \<in> set (session_List m). claimableState s' mode t \<longrightarrow>
               (st_CreatedAt s, st_SessionID s) \<le> (st_CreatedAt s', st_SessionID s'))
          \<and> st = s\<lparr>st_LeaseID := L, st_LeaseClaimedAt := t, st_LeaseExpiresAt := e,
                   st_LastHeartbeatAt := t, st_Version := st_Version s + 1, st_UpdatedAt := t\<rparr>
          \<and> (\<forall>k. session_Get k m' = (if k = st_SessionID s then Inr st else session_Get k m))"
proof (cases "session_ClaimNext mode L t e m")
  case (Pair r m')
  show ?thesis
  proof (cases r)
    case None
    with Pair show ?thesis using ClaimNext_None[OF assms] by auto
  next
    case (Some st)
    with Pair obtain s where s: "gm_get m (st_SessionID s) = Some s" "claimableState s mode t"
      "st = claim_write L t e s" "m' = gm_put (st_SessionID s) st m"
      "\<And>s'. s' \<in> set (session_List m) \<Longrightarrow> claimableState s' mode t \<Longrightarrow>
         (st_CreatedAt s, st_SessionID s) \<le> (st_CreatedAt s', st_SessionID s')"
      using ClaimNext_Some[OF assms] by metis
    have "s \<in> set (session_List m)"
      using s(1) keyed_vals[OF assms] by (simp add: session_List_def del: set_map)
    then show ?thesis using s Pair Some
      by (auto simp: session_Get_def claim_write_def simp del: less_eq_prod_def intro!: bexI[of _ s])
  qed
qed

text \<open>
  C12. No lost updates. A writer reads session \<open>c\<close>, any sequence of store operations by anyone
  runs, and then the writer's update (with the version it read plus one) is accepted: then no
  operation in between changed the session.
\<close>

theorem session_no_lost_update:
  assumes "session_wf m" and "session_Get k m = Inr c" and "fresh_run ops m"
    and "st_SessionID next = k" and "st_Version next = st_Version c + 1"
    and "session_Update now next (session_run ops m) = Inr m'"
  shows "session_Get k (session_run ops m) = Inr c"
proof -
  from assms(2) have "gm_get m k = Some c" by (simp add: session_Get_def)
  from session_run_version[OF assms(1,3) this] obtain c' where
    c': "gm_get (session_run ops m) k = Some c'" "st_Version c' = st_Version c \<longrightarrow> c' = c"
    by auto
  from assms(6) obtain d where "session_Get (st_SessionID next) (session_run ops m) = Inr d"
    "st_Version next = st_Version d + 1"
    using sess.update_ok_iff by blast
  with c' assms(4,5) have "c' = c" by (simp add: session_Get_def)
  with c'(1) show ?thesis by (simp add: session_Get_def)
qed

text \<open>
  C11. Leases exclude other workers. A worker claims a session with a non-empty lease id \<open>L\<close> that
  expires at \<open>e\<close>; then any sequence of operations of other workers runs, all their claims before
  \<open>e\<close>. Afterwards the session still carries the lease \<open>L\<close> up to \<open>e\<close>, and no claim made before \<open>e\<close>
  is given the session.
\<close>

theorem lease_exclusive:
  assumes "session_wf m" and "L \<noteq> []"
    and "session_ClaimNext mode L t0 e m = (Some st, m0)"
    and "list_all (foreign_op (st_SessionID st) L e) ops" and "fresh_run ops m0"
    and "t < e"
  shows "(\<exists>s. session_Get (st_SessionID st) (session_run ops m0) = Inr s
             \<and> leaseHeldAt s L t \<and> st_LeaseExpiresAt s = e)
         \<and> (\<forall>mode' L' e' st' m1.
               session_ClaimNext mode' L' t e' (session_run ops m0) = (Some st', m1)
               \<longrightarrow> st_SessionID st' \<noteq> st_SessionID st)"
proof -
  from assms(3) obtain s where s: "gm_get m (st_SessionID s) = Some s"
    "st = claim_write L t0 e s" "m0 = gm_put (st_SessionID s) st m"
    using ClaimNext_Some[OF assms(1)] by metis
  then have l0: "leased (st_SessionID st) L e m0" and w0: "session_wf m0"
    using assms(1) by (auto simp: leased_def claim_write_def)
  note l = foreign_run_leased[OF w0 assms(5) l0 assms(2,4)]
  then have "\<exists>s. session_Get (st_SessionID st) (session_run ops m0) = Inr s
      \<and> leaseHeldAt s L t \<and> st_LeaseExpiresAt s = e"
    using assms(2,6) by (auto simp: leased_def session_Get_def leaseHeldAt_def leaseActiveAt_def)
  moreover have "st_SessionID st' \<noteq> st_SessionID st"
    if "session_ClaimNext mode' L' t e' (session_run ops m0) = (Some st', m1)" for mode' L' e' st' m1
    using claim_not_leased[OF session_run_wf[OF w0 assms(5)] l assms(2,6) that] by blast
  ultimately show ?thesis by blast
qed

text \<open>A store with two sessions, the second older, and a run of foreign operations on it.\<close>

definition ex_sessions :: session_map where
  "ex_sessions =
     [(''b'', snd (hd (snd (session_Create ''b'' 20 ''t'' ''g'' [])))),
      (''a'', snd (hd (snd (session_Create ''a'' 10 ''t'' ''g'' []))))]"

definition ex_claimed :: session where
  "ex_claimed = the (fst (session_ClaimNext ClaimModeRunnable ''L1'' 100 200 ex_sessions))"

definition ex_ops :: "session_op list" where
  "ex_ops = [OpClaim ClaimModeRunnable ''L2'' 120 220, OpRenew ''a'' ''L2'' 130 300,
             OpRelease ''a'' ''L3'' 140, OpCreate ''c'' 150 ''t'' ''g'',
             OpUpdate 160 (ex_claimed\<lparr>st_Version := 3, st_Title := ''x''\<rparr>)]"

theorem lease_exclusive_witness:
  "\<exists>s. session_Get ''a'' (session_run ex_ops
        (snd (session_ClaimNext ClaimModeRunnable ''L1'' 100 200 ex_sessions))) = Inr s
     \<and> leaseHeldAt s ''L1'' 150 \<and> st_Title s = ''x''"
proof -
  let ?m0 = "snd (session_ClaimNext ClaimModeRunnable ''L1'' 100 200 ex_sessions)"
  have "session_wf ex_sessions" by code_simp
  moreover have "session_ClaimNext ClaimModeRunnable ''L1'' 100 200 ex_sessions = (Some ex_claimed, ?m0)"
    by code_simp
  moreover have id: "st_SessionID ex_claimed = ''a''" by code_simp
  moreover have "list_all (foreign_op (st_SessionID ex_claimed) ''L1'' 200) ex_ops" by code_simp
  moreover have "fresh_run ex_ops ?m0" by code_simp
  ultimately have "\<exists>s. session_Get (st_SessionID ex_claimed) (session_run ex_ops ?m0) = Inr s
      \<and> leaseHeldAt s ''L1'' 150 \<and> st_LeaseExpiresAt s = 200"
    using lease_exclusive[of ex_sessions "''L1''" ClaimModeRunnable 100 200 ex_claimed ?m0 ex_ops 150]
    by simp
  moreover have "map_option st_Title (gm_get (session_run ex_ops ?m0) ''a'') = Some ''x''" by code_simp
  ultimately show ?thesis unfolding id by (auto simp: session_Get_def)
qed

theorem ClaimNext_oldest_witness:
  "\<exists>s \<in> set (session_List ex_sessions). claimableState s ClaimModeRunnable 100
     \<and> st_SessionID s = ''a'' \<and> st_CreatedAt s \<le> 20"
proof -
  have wf: "session_wf ex_sessions" by code_simp
  have cl: "session_ClaimNext ClaimModeRunnable ''L1'' 100 200 ex_sessions =
      (Some ex_claimed, snd (session_ClaimNext ClaimModeRunnable ''L1'' 100 200 ex_sessions))"
    by code_simp
  have id: "st_SessionID ex_claimed = ''a''" and cr: "st_CreatedAt ex_claimed \<le> 20" by code_simp+
  from ClaimNext_oldest[OF wf, where mode = ClaimModeRunnable and L = "''L1''" and t = 100 and e = 200]
  obtain s where s: "s \<in> set (session_List ex_sessions)" "claimableState s ClaimModeRunnable 100"
    and eq: "ex_claimed = s\<lparr>st_LeaseID := ''L1'', st_LeaseClaimedAt := 100, st_LeaseExpiresAt := 200,
       st_LastHeartbeatAt := 100, st_Version := st_Version s + 1, st_UpdatedAt := 100\<rparr>"
    by (subst (asm) cl) auto
  have "st_SessionID s = st_SessionID ex_claimed" "st_CreatedAt s = st_CreatedAt ex_claimed"
    by (simp_all add: eq)
  with s id cr show ?thesis by metis
qed

theorem session_no_lost_update_witness:
  "session_Get ''b'' (session_run [OpClaim ClaimModeRunnable ''L1'' 100 200] ex_sessions)
     = Inr (snd (hd ex_sessions))"
proof -
  let ?c = "snd (hd ex_sessions)" and ?ops = "[OpClaim ClaimModeRunnable ''L1'' 100 200]"
  have "session_wf ex_sessions" by code_simp
  moreover have "session_Get ''b'' ex_sessions = Inr ?c" by code_simp
  moreover have "fresh_run ?ops ex_sessions" by code_simp
  moreover have "st_SessionID (?c\<lparr>st_Version := 2\<rparr>) = ''b''
      \<and> st_Version (?c\<lparr>st_Version := 2\<rparr>) = st_Version ?c + 1" by code_simp
  moreover have "\<exists>m'. session_Update 300 (?c\<lparr>st_Version := 2\<rparr>) (session_run ?ops ex_sessions) = Inr m'"
  proof -
    have "isl (session_Update 300 (?c\<lparr>st_Version := 2\<rparr>) (session_run ?ops ex_sessions)) = False"
      by code_simp
    then show ?thesis by (metis isl_def old.sum.exhaust)
  qed
  ultimately show ?thesis
    using session_no_lost_update[of ex_sessions "''b''" ?c ?ops "?c\<lparr>st_Version := 2\<rparr>" 300]
    by blast
qed

end
