(* ===== verification/Plan.thy ===== *)
theory Plan
  imports Store_Interfaces
begin

text \<open>
  Actions, verification specifications, steps and plans: \<^verbatim>\<open>pkg/harness/action/spec.go\<close>,
  \<^verbatim>\<open>pkg/harness/verify/spec.go\<close>, \<^verbatim>\<open>verify/result.go\<close>, \<^verbatim>\<open>pkg/harness/plan\<close> (spec.go, store.go).
  \<^verbatim>\<open>MemoryStore.Create\<close> of the plan store reads the latest revision before it takes the lock
  under which it inserts the plan, so a creation is two atomic steps, \<open>plan_next_revision\<close> and
  \<open>plan_insert\<close>; \<open>plan_Create\<close> is their uninterrupted sequence.
\<close>

section \<open>Actions and verification specifications\<close>

record action_spec =
  an_ToolName :: string
  an_ToolVersion :: string
  an_Args :: meta

record action_error =
  ae_Code :: string
  ae_Message :: string

record action_result =
  ar_OK :: bool
  ar_Data :: meta
  ar_Meta :: meta
  ar_Error :: "action_error option"

datatype VerifyMode = ModeAll | ModeAny | ModeOther string

record check =
  ck_Kind :: string
  ck_Args :: meta

record verify_spec =
  vs_Mode :: VerifyMode
  vs_Checks :: "check list"

record verify_result =
  vr_Success :: bool
  vr_Details :: meta
  vr_Reason :: string

section \<open>Steps and plans\<close>

datatype PlanStatus =
    StatusDraft | StatusActive | StatusSuperseded | StatusCompleted | StatusFailed
  | StatusOther string

datatype StepStatus =
    StepPending | StepRunning | StepBlocked | StepCompleted | StepFailed | StepSkipped
  | StepOther string

record on_fail =
  of_Strategy :: string
  of_MaxRetries :: int
  of_BackoffMS :: int

record step =
  sp_PlanID :: string
  sp_PlanRevision :: int
  sp_StepID :: string
  sp_Title :: string
  sp_Action :: action_spec
  sp_Verify :: verify_spec
  sp_OnFail :: on_fail
  sp_Status :: StepStatus
  sp_Attempt :: int
  sp_Reason :: string
  sp_Metadata :: meta
  sp_StartedAt :: int
  sp_FinishedAt :: int

record plan =
  pl_PlanID :: string
  pl_SessionID :: string
  pl_Revision :: int
  pl_Status :: PlanStatus
  pl_ChangeReason :: string
  pl_Steps :: "step list"
  pl_CreatedAt :: int
  pl_UpdatedAt :: int

text \<open>The empty status is Go's zero value.\<close>

abbreviation "StepUnset \<equiv> StepOther []"

definition zero_action_spec :: action_spec where
  "zero_action_spec = \<lparr>an_ToolName = [], an_ToolVersion = [], an_Args = []\<rparr>"

definition zero_verify_spec :: verify_spec where
  "zero_verify_spec = \<lparr>vs_Mode = ModeOther [], vs_Checks = []\<rparr>"

definition zero_step :: step where
  "zero_step = \<lparr>sp_PlanID = [], sp_PlanRevision = 0, sp_StepID = [], sp_Title = [],
     sp_Action = zero_action_spec, sp_Verify = zero_verify_spec,
     sp_OnFail = \<lparr>of_Strategy = [], of_MaxRetries = 0, of_BackoffMS = 0\<rparr>,
     sp_Status = StepUnset, sp_Attempt = 0, sp_Reason = [], sp_Metadata = [],
     sp_StartedAt = 0, sp_FinishedAt = 0\<rparr>"

section \<open>The in-memory plan store\<close>

type_synonym plan_map = "plan gomap"

abbreviation plan_wf :: "plan_map \<Rightarrow> bool" where
  "plan_wf \<equiv> keyed pl_PlanID"

definition plan_Get :: "string \<Rightarrow> plan_map \<Rightarrow> goerr + plan" where
  "plan_Get = mem_get ErrPlanNotFound"

definition plan_ListBySession :: "string \<Rightarrow> plan_map \<Rightarrow> plan list" where
  "plan_ListBySession sid m = filter (\<lambda>p. pl_SessionID p = sid) (gm_vals m)"

definition plan_LatestBySession :: "string \<Rightarrow> plan_map \<Rightarrow> plan option" where
  "plan_LatestBySession sid m = (case plan_ListBySession sid m of
     [] \<Rightarrow> None
   | p # ps \<Rightarrow> Some (fold (\<lambda>q latest. if pl_Revision q > pl_Revision latest then q else latest) ps p))"

definition plan_next_revision :: "string \<Rightarrow> plan_map \<Rightarrow> int" where
  "plan_next_revision sid m =
     (case plan_LatestBySession sid m of None \<Rightarrow> 1 | Some latest \<Rightarrow> pl_Revision latest + 1)"

definition default_step_status :: "step \<Rightarrow> step" where
  "default_step_status s = (if sp_Status s = StepUnset then s\<lparr>sp_Status := StepPending\<rparr> else s)"

definition plan_insert :: "string \<Rightarrow> int \<Rightarrow> int \<Rightarrow> string \<Rightarrow> string \<Rightarrow> step list \<Rightarrow> plan_map
    \<Rightarrow> plan \<times> plan_map" where
  "plan_insert uuid now revision sid changeReason steps m =
     (let p = \<lparr>pl_PlanID = uuid, pl_SessionID = sid, pl_Revision = revision,
               pl_Status = StatusActive, pl_ChangeReason = changeReason,
               pl_Steps = map default_step_status steps, pl_CreatedAt = now, pl_UpdatedAt = now\<rparr>
      in (p, gm_put (pl_PlanID p) p m))"

definition plan_Create :: "string \<Rightarrow> int \<Rightarrow> string \<Rightarrow> string \<Rightarrow> step list \<Rightarrow> plan_map
    \<Rightarrow> plan \<times> plan_map" where
  "plan_Create uuid now sid changeReason steps m =
     plan_insert uuid now (plan_next_revision sid m) sid changeReason steps m"

definition plan_Update :: "int \<Rightarrow> plan \<Rightarrow> plan_map \<Rightarrow> goerr + plan_map" where
  "plan_Update now next m = (case gm_get m (pl_PlanID next) of
     None \<Rightarrow> Inl ErrPlanNotFound
   | Some _ \<Rightarrow> let next = next\<lparr>pl_UpdatedAt := now\<rparr> in Inr (gm_put (pl_PlanID next) next m))"

lemmas plan_store_defs = plan_Get_def plan_ListBySession_def plan_LatestBySession_def
  plan_next_revision_def plan_insert_def plan_Create_def plan_Update_def Let_def

section \<open>Laws of the store\<close>

lemma fold_max_revision:
  fixes p :: plan and ps :: "plan list"
  defines "r \<equiv> fold (\<lambda>q latest. if pl_Revision q > pl_Revision latest then q else latest) ps p"
  shows "r \<in> set (p # ps) \<and> (\<forall>q \<in> set (p # ps). pl_Revision q \<le> pl_Revision r)"
  unfolding r_def
proof (induction ps arbitrary: p)
  case Nil
  then show ?case by simp
next
  case (Cons q ps)
  let ?p' = "if pl_Revision q > pl_Revision p then q else p"
  from Cons.IH[of ?p'] show ?case by (auto split: if_splits)
qed

lemma plan_ListBySession_iff:
  "plan_wf m \<Longrightarrow> p \<in> set (plan_ListBySession sid m) \<longleftrightarrow>
   gm_get m (pl_PlanID p) = Some p \<and> pl_SessionID p = sid"
  by (auto simp: plan_ListBySession_def keyed_vals simp del: set_map)

lemma LatestBySession_None: "plan_LatestBySession sid m = None \<longleftrightarrow> plan_ListBySession sid m = []"
  by (auto simp: plan_LatestBySession_def split: list.splits)

lemma LatestBySession_Some:
  assumes "plan_LatestBySession sid m = Some p"
  shows "p \<in> set (plan_ListBySession sid m)"
    and "q \<in> set (plan_ListBySession sid m) \<Longrightarrow> pl_Revision q \<le> pl_Revision p"
  using assms fold_max_revision
  by (auto simp: plan_LatestBySession_def split: list.splits)

lemma plan_next_revision_above:
  "q \<in> set (plan_ListBySession sid m) \<Longrightarrow> pl_Revision q < plan_next_revision sid m"
proof (cases "plan_LatestBySession sid m")
  case None
  assume "q \<in> set (plan_ListBySession sid m)"
  with None show ?thesis by (simp add: LatestBySession_None)
next
  case (Some p)
  assume "q \<in> set (plan_ListBySession sid m)"
  with LatestBySession_Some(2)[OF Some] Some show ?thesis by (fastforce simp: plan_next_revision_def)
qed

lemma plan_insert_wf: "plan_wf m \<Longrightarrow> plan_wf (snd (plan_insert u now r sid c steps m))"
  by (auto simp: plan_insert_def Let_def)

lemma plan_insert_ListBySession:
  assumes "plan_wf m" and "gm_get m u = None"
  shows "set (plan_ListBySession sid' (snd (plan_insert u now r sid c steps m))) =
    (if sid' = sid then {fst (plan_insert u now r sid c steps m)} else {})
      \<union> set (plan_ListBySession sid' m)"
proof -
  let ?m = "snd (plan_insert u now r sid c steps m)" and ?p = "fst (plan_insert u now r sid c steps m)"
  have get: "gm_get ?m k = (if k = u then Some ?p else gm_get m k)" for k
    by (simp add: plan_insert_def Let_def)
  have id: "pl_PlanID ?p = u" "pl_SessionID ?p = sid" by (simp_all add: plan_insert_def Let_def)
  have wf: "plan_wf ?m" by (rule plan_insert_wf[OF assms(1)])
  have "q \<in> set (plan_ListBySession sid' ?m) \<longleftrightarrow>
      (sid' = sid \<and> q = ?p) \<or> q \<in> set (plan_ListBySession sid' m)" for q
  proof (cases "pl_PlanID q = u")
    case True
    then show ?thesis unfolding plan_ListBySession_iff[OF wf] plan_ListBySession_iff[OF assms(1)] get
      using assms(2) id by auto
  next
    case False
    then show ?thesis unfolding plan_ListBySession_iff[OF wf] plan_ListBySession_iff[OF assms(1)] get
      using id by auto
  qed
  then show ?thesis by auto
qed

lemma plan_Update_wf: "plan_wf m \<Longrightarrow> plan_Update now p m = Inr m' \<Longrightarrow> plan_wf m'"
  by (auto simp: plan_Update_def Let_def split: option.splits)

lemma plan_Update_get:
  assumes "plan_Update now p m = Inr m'"
  shows "plan_Get k m' = (if k = pl_PlanID p then Inr (p\<lparr>pl_UpdatedAt := now\<rparr>) else plan_Get k m)"
  using assms by (auto simp: plan_store_defs split: option.splits)

section \<open>Revisions\<close>

text \<open>Within a session no two plans share a revision, and every revision is positive.\<close>

definition revisions_unique :: "plan_map \<Rightarrow> bool" where
  "revisions_unique m \<longleftrightarrow>
     (\<forall>sid p q. p \<in> set (plan_ListBySession sid m) \<longrightarrow> q \<in> set (plan_ListBySession sid m) \<longrightarrow>
        pl_Revision p = pl_Revision q \<longrightarrow> p = q)"

text \<open>
  A plan creation that is not interrupted gets the next revision of its session: larger than
  every revision the session has, and the store becomes one in which it is the latest plan. If
  revisions were unique within each session, they still are.
\<close>

theorem plan_Create_revision:
  assumes "plan_wf m" and "gm_get m u = None" and "revisions_unique m"
    and "plan_Create u now sid reason steps m = (p, m')"
  shows "(\<forall>q \<in> set (plan_ListBySession sid m). pl_Revision q < pl_Revision p)
    \<and> plan_LatestBySession sid m' = Some p \<and> plan_Get u m' = Inr p
    \<and> plan_wf m' \<and> revisions_unique m'
    \<and> (\<forall>s \<in> set (pl_Steps p). sp_Status s \<noteq> StepUnset)"
proof -
  let ?r = "plan_next_revision sid m"
  from assms(4) have p: "p = fst (plan_insert u now ?r sid reason steps m)"
    and m': "m' = snd (plan_insert u now ?r sid reason steps m)"
    by (auto simp: plan_Create_def)
  have pf: "pl_Revision p = ?r" "pl_SessionID p = sid" "pl_PlanID p = u"
    by (simp_all add: p plan_insert_def Let_def)
  have above: "\<forall>q \<in> set (plan_ListBySession sid m). pl_Revision q < pl_Revision p"
    using plan_next_revision_above pf by auto
  have lst: "set (plan_ListBySession sid' m') =
      (if sid' = sid then {p} else {}) \<union> set (plan_ListBySession sid' m)" for sid'
    unfolding m' p by (rule plan_insert_ListBySession[OF assms(1,2)])
  have wf: "plan_wf m'" unfolding m' by (rule plan_insert_wf[OF assms(1)])
  have "plan_LatestBySession sid m' \<noteq> None" using lst[of sid] by (auto simp: LatestBySession_None)
  then obtain l where l: "plan_LatestBySession sid m' = Some l" by auto
  have "pl_Revision p \<le> pl_Revision l" using LatestBySession_Some(2)[OF l, of p] lst[of sid] by simp
  moreover have "l = p \<or> l \<in> set (plan_ListBySession sid m)"
    using LatestBySession_Some(1)[OF l] lst[of sid] by auto
  ultimately have "l = p" using above by fastforce
  moreover have "revisions_unique m'"
    using assms(3) above lst unfolding revisions_unique_def by (auto split: if_splits)
  moreover have "plan_Get u m' = Inr p" by (simp add: m' p plan_insert_def plan_Get_def Let_def)
  moreover have "\<forall>s \<in> set (pl_Steps p). sp_Status s \<noteq> StepUnset"
    by (auto simp: p plan_insert_def Let_def default_step_status_def)
  ultimately show ?thesis using above l wf by blast
qed

theorem plan_Create_revision_witness:
  "pl_Revision (fst (plan_Create ''p2'' 7 ''s'' ''replan'' [zero_step]
      (snd (plan_Create ''p1'' 5 ''s'' ''init'' [] [])))) = 2
   \<and> plan_LatestBySession ''s'' (snd (plan_Create ''p2'' 7 ''s'' ''replan'' [zero_step]
      (snd (plan_Create ''p1'' 5 ''s'' ''init'' [] []))))
     = Some (fst (plan_Create ''p2'' 7 ''s'' ''replan'' [zero_step]
      (snd (plan_Create ''p1'' 5 ''s'' ''init'' [] []))))"
proof -
  let ?m = "snd (plan_Create ''p1'' 5 ''s'' ''init'' [] [])"
  have "plan_wf ?m" "gm_get ?m ''p2'' = None" by code_simp+
  moreover have "revisions_unique ?m"
    by (auto simp: revisions_unique_def plan_store_defs)
  ultimately have "plan_LatestBySession ''s'' (snd (plan_Create ''p2'' 7 ''s'' ''replan'' [zero_step] ?m))
      = Some (fst (plan_Create ''p2'' 7 ''s'' ''replan'' [zero_step] ?m))"
    using plan_Create_revision[of ?m "''p2''" 7 "''s''" "''replan''" "[zero_step]"] by force
  moreover have "pl_Revision (fst (plan_Create ''p2'' 7 ''s'' ''replan'' [zero_step] ?m)) = 2" by code_simp
  ultimately show ?thesis by blast
qed

text \<open>
  The read of the latest revision and the insertion are separate critical sections. Two
  creations for the same session that both read before either inserts store two different plans
  with the same revision, so revisions are no longer unique.
\<close>

theorem plan_Create_race:
  assumes "plan_wf m" and "u1 \<noteq> u2" and "gm_get m u1 = None" and "gm_get m u2 = None"
    and "plan_insert u1 t1 (plan_next_revision sid m) sid c1 steps1 m = (p1, m1)"
    and "plan_insert u2 t2 (plan_next_revision sid m) sid c2 steps2 m1 = (p2, m2)"
  shows "p1 \<noteq> p2 \<and> pl_Revision p1 = pl_Revision p2
    \<and> plan_Get u1 m2 = Inr p1 \<and> plan_Get u2 m2 = Inr p2 \<and> \<not> revisions_unique m2"
proof -
  have p: "pl_PlanID p1 = u1" "pl_PlanID p2 = u2" "pl_Revision p1 = pl_Revision p2"
    "pl_SessionID p1 = sid" "pl_SessionID p2 = sid" "plan_Get u1 m2 = Inr p1" "plan_Get u2 m2 = Inr p2"
    using assms(2,5,6) by (auto simp: plan_insert_def plan_Get_def Let_def)
  have "plan_wf m1" using plan_insert_wf[OF assms(1)] assms(5) by (metis snd_conv)
  then have wf: "plan_wf m2" using plan_insert_wf assms(6) by (metis snd_conv)
  have "p1 \<noteq> p2" using p assms(2) by auto
  moreover have "p1 \<in> set (plan_ListBySession sid m2)" "p2 \<in> set (plan_ListBySession sid m2)"
    using p plan_ListBySession_iff[OF wf] by (auto simp: plan_Get_def)
  ultimately have "\<not> revisions_unique m2" using p(3) unfolding revisions_unique_def by blast
  with p \<open>p1 \<noteq> p2\<close> show ?thesis by blast
qed

theorem plan_Create_race_witness:
  "let m1 = snd (plan_insert ''p1'' 5 (plan_next_revision ''s'' []) ''s'' ''a'' [] []);
       m2 = snd (plan_insert ''p2'' 6 (plan_next_revision ''s'' []) ''s'' ''b'' [] m1)
   in map pl_Revision (plan_ListBySession ''s'' m2) = [1, 1] \<and> \<not> revisions_unique m2"
proof -
  let ?m1 = "snd (plan_insert ''p1'' 5 (plan_next_revision ''s'' []) ''s'' ''a'' [] [])"
  let ?m2 = "snd (plan_insert ''p2'' 6 (plan_next_revision ''s'' []) ''s'' ''b'' [] ?m1)"
  have "\<not> revisions_unique ?m2"
  proof (rule plan_Create_race[THEN conjunct2, THEN conjunct2, THEN conjunct2, THEN conjunct2])
    show "plan_insert ''p1'' 5 (plan_next_revision ''s'' []) ''s'' ''a'' [] [] =
        (fst (plan_insert ''p1'' 5 (plan_next_revision ''s'' []) ''s'' ''a'' [] []), ?m1)" by simp
    show "plan_insert ''p2'' 6 (plan_next_revision ''s'' []) ''s'' ''b'' [] ?m1 =
        (fst (plan_insert ''p2'' 6 (plan_next_revision ''s'' []) ''s'' ''b'' [] ?m1), ?m2)" by simp
  qed simp_all
  moreover have "map pl_Revision (plan_ListBySession ''s'' ?m2) = [1, 1]" by code_simp
  ultimately show ?thesis by (simp add: Let_def)
qed

end
