(* ===== verification/Permission.thy ===== *)
theory Permission
  imports Session Plan
begin

text \<open>
  Policy evaluation: \<^verbatim>\<open>pkg/harness/permission\<close> (policy.go, evaluator.go, rules_evaluator.go).
  An evaluator is a function from the session and the step to a decision or an error; the
  context argument of the Go interface plays no role in the two evaluators of the package.
\<close>

datatype PermAction = Allow | Ask | Deny | PermOther string

record rule =
  ru_Permission :: string
  ru_Pattern :: string
  ru_Action :: PermAction

record decision =
  de_Action :: PermAction
  de_Reason :: string
  de_MatchedRule :: string

type_synonym evaluator = "session \<Rightarrow> step \<Rightarrow> goerr + decision"

definition mk_decision :: "PermAction \<Rightarrow> string \<Rightarrow> string \<Rightarrow> decision" where
  "mk_decision a r ru = \<lparr>de_Action = a, de_Reason = r, de_MatchedRule = ru\<rparr>"

definition DefaultEvaluator :: evaluator where
  "DefaultEvaluator st step =
     (let name = an_ToolName (sp_Action step) in
      if name = [] then Inr (mk_decision Deny ''missing tool name'' [])
      else if has_prefix name ''windows.'' then
        Inr (mk_decision Ask ''windows executor is high risk by default'' ''default/windows/*'')
      else if name = ''shell.exec'' then
        (if as_string (gm_get (an_Args (sp_Action step)) ''mode'') = ''pipe'' then
           Inr (mk_decision Allow ''shell.exec in pipe mode allowed by default in v1''
                  ''default/shell.exec:pipe'')
         else Inr (mk_decision Ask ''non-pipe shell execution requires approval''
                  ''default/shell.exec:*''))
      else Inr (mk_decision Allow ''default allow for registered low-risk tools'' ''default/*''))"

text \<open>
  \<^verbatim>\<open>fmt.Sprint\<close> of an argument: strings as they are, integers in decimal, booleans and nil by
  name. How it renders floats, slices, maps and structs is the parameter \<open>other\<close>.
\<close>

fun nat_digits :: "nat \<Rightarrow> string" where
  "nat_digits n = (if n < 10 then [char_of (48 + n)] else nat_digits (n div 10) @ [char_of (48 + n mod 10)])"

declare nat_digits.simps [simp del]

definition int_digits :: "int \<Rightarrow> string" where
  "int_digits n = (if n < 0 then CHR ''-'' # nat_digits (nat (- n)) else nat_digits (nat n))"

fun go_sprint :: "(gval \<Rightarrow> string) \<Rightarrow> gval \<Rightarrow> string" where
  "go_sprint other (VStr s) = s"
| "go_sprint other (VInt n) = int_digits n"
| "go_sprint other (VInt32 n) = int_digits n"
| "go_sprint other (VInt64 n) = int_digits n"
| "go_sprint other (VBool b) = (if b then ''true'' else ''false'')"
| "go_sprint other VNil = ''<nil>''"
| "go_sprint other v = other v"

definition clause_matches :: "(gval \<Rightarrow> string) \<Rightarrow> meta \<Rightarrow> string \<Rightarrow> bool" where
  "clause_matches other args clause =
     (case split2 (CHR ''='') (trim_space clause) of
        [k, v] \<Rightarrow>
          (case gm_get args (trim_space k) of
             None \<Rightarrow> False
           | Some actual \<Rightarrow> go_sprint other actual = trim_space v)
      | _ \<Rightarrow> False)"

definition matchesRulePattern :: "(gval \<Rightarrow> string) \<Rightarrow> string \<Rightarrow> meta \<Rightarrow> bool" where
  "matchesRulePattern other pattern args =
     (let trimmed = trim_space pattern in
      if trimmed = [] \<or> trimmed = ''*'' then True
      else list_all (clause_matches other args) (split_on (CHR '','') trimmed))"

fun rules_loop :: "(gval \<Rightarrow> string) \<Rightarrow> string \<Rightarrow> meta \<Rightarrow> rule list \<Rightarrow> decision option" where
  "rules_loop other name args [] = None"
| "rules_loop other name args (r # rs) =
     (if ru_Permission r \<noteq> name then rules_loop other name args rs
      else if \<not> matchesRulePattern other (ru_Pattern r) args then rules_loop other name args rs
      else Some (mk_decision (ru_Action r)
             (''matched module default policy rule for '' @ ru_Permission r)
             (''module/'' @ ru_Permission r @ '':'' @ ru_Pattern r)))"

definition RulesEvaluator :: "(gval \<Rightarrow> string) \<Rightarrow> rule list \<Rightarrow> evaluator option \<Rightarrow> evaluator" where
  "RulesEvaluator other rules fallback st step =
     (let name = an_ToolName (sp_Action step) in
      if name = [] then
        (case fallback of
           Some ev \<Rightarrow> ev st step
         | None \<Rightarrow> Inr (mk_decision Deny ''missing tool name'' []))
      else
        (case rules_loop other name (an_Args (sp_Action step)) rules of
           Some d \<Rightarrow> Inr d
         | None \<Rightarrow>
             (case fallback of
                Some ev \<Rightarrow> ev st step
              | None \<Rightarrow> Inr (mk_decision Allow ''default allow'' ''default/*''))))"

section \<open>Lemmas\<close>

definition rule_applies :: "(gval \<Rightarrow> string) \<Rightarrow> step \<Rightarrow> rule \<Rightarrow> bool" where
  "rule_applies other step r \<longleftrightarrow> ru_Permission r = an_ToolName (sp_Action step)
     \<and> matchesRulePattern other (ru_Pattern r) (an_Args (sp_Action step))"

lemma rules_loop_find:
  "rules_loop other (an_ToolName (sp_Action step)) (an_Args (sp_Action step)) rs =
     map_option (\<lambda>r. mk_decision (ru_Action r)
         (''matched module default policy rule for '' @ ru_Permission r)
         (''module/'' @ ru_Permission r @ '':'' @ ru_Pattern r))
       (List.find (rule_applies other step) rs)"
  by (induction rs) (auto simp: rule_applies_def)

lemma split_on_append:
  assumes "c \<notin> set xs"
  shows "split_on c (xs @ c # ys) = xs # split_on c ys"
  using assms by (induction xs) auto

lemma split_on_single: "c \<notin> set xs \<Longrightarrow> split_on c xs = [xs]"
  by (induction xs) auto

section \<open>Properties\<close>

text \<open>
  The rule evaluator answers with the first rule whose permission is the tool's name and whose
  pattern matches the arguments; only if no rule applies, or the tool has no name, does the
  fallback decide; without a fallback a nameless tool is denied and any other tool allowed. The
  evaluator itself never fails.
\<close>

theorem RulesEvaluator_first_match:
  "RulesEvaluator other rules fallback st step =
     (if an_ToolName (sp_Action step) = [] then
        (case fallback of Some ev \<Rightarrow> ev st step | None \<Rightarrow> Inr (mk_decision Deny ''missing tool name'' []))
      else case List.find (rule_applies other step) rules of
        Some r \<Rightarrow> Inr (mk_decision (ru_Action r)
            (''matched module default policy rule for '' @ ru_Permission r)
            (''module/'' @ ru_Permission r @ '':'' @ ru_Pattern r))
      | None \<Rightarrow> (case fallback of Some ev \<Rightarrow> ev st step
                | None \<Rightarrow> Inr (mk_decision Allow ''default allow'' ''default/*'')))"
  unfolding RulesEvaluator_def Let_def rules_loop_find by (simp split: option.split)

text \<open>
  The default policy never fails, and it allows a step without asking only if the tool is
  named, is not a Windows tool and, when it is the shell, runs in pipe mode; it denies exactly
  the steps without a tool name.
\<close>

theorem DefaultEvaluator_safe:
  "\<exists>d. DefaultEvaluator st step = Inr d
     \<and> (de_Action d = Allow \<longleftrightarrow>
          an_ToolName (sp_Action step) \<noteq> []
          \<and> \<not> has_prefix (an_ToolName (sp_Action step)) ''windows.''
          \<and> \<not> (an_ToolName (sp_Action step) = ''shell.exec''
               \<and> as_string (gm_get (an_Args (sp_Action step)) ''mode'') \<noteq> ''pipe''))
     \<and> (de_Action d = Deny \<longleftrightarrow> an_ToolName (sp_Action step) = [])"
  by (auto simp: DefaultEvaluator_def mk_decision_def Let_def has_prefix_def)

end
