(* ===== verification/Approval.thy ===== *)
theory Approval
  imports Permission
begin

text \<open>
  Approvals: \<^verbatim>\<open>pkg/harness/approval/store.go\<close>. The record, the default resume policy and the
  in-memory store.
\<close>

datatype Reply = ReplyOnce | ReplyAlways | ReplyReject | ReplyOther string

datatype ApprovalStatus =
    ApprovalPending | ApprovalApproved | ApprovalRejected | ApprovalConsumed | ApprovalOther string

record approval_request =
  rq_SessionID :: string
  rq_TaskID :: string
  rq_StepID :: string
  rq_ToolName :: string
  rq_Reason :: string
  rq_MatchedRule :: string
  rq_Step :: step
  rq_Metadata :: meta

record approval_response =
  rs_Reply :: Reply
  rs_Metadata :: "meta option"

record approval =
  ap_ApprovalID :: string
  ap_SessionID :: string
  ap_TaskID :: string
  ap_StepID :: string
  ap_ToolName :: string
  ap_Reason :: string
  ap_MatchedRule :: string
  ap_Status :: ApprovalStatus
  ap_Reply :: Reply
  ap_Step :: step
  ap_Metadata :: meta
  ap_RequestedAt :: int
  ap_RespondedAt :: int
  ap_ConsumedAt :: int
  ap_Version :: int
  ap_CreatedAt :: int
  ap_UpdatedAt :: int

fun ValidReply :: "Reply \<Rightarrow> bool" where
  "ValidReply ReplyOnce = True"
| "ValidReply ReplyAlways = True"
| "ValidReply ReplyReject = True"
| "ValidReply (ReplyOther _) = False"

definition DefaultResumePolicy :: "approval \<Rightarrow> step \<Rightarrow> decision option" where
  "DefaultResumePolicy rec step =
     (if ap_Status rec \<noteq> ApprovalApproved then None
      else if ap_StepID rec \<noteq> sp_StepID step \<or> ap_ToolName rec \<noteq> an_ToolName (sp_Action step) then None
      else (case ap_Reply rec of
          ReplyOnce \<Rightarrow> Some (mk_decision Allow ''approval granted'' ''approval/once'')
        | ReplyAlways \<Rightarrow> Some (mk_decision Allow ''approval previously granted'' ''approval/always'')
        | ReplyReject \<Rightarrow> Some (mk_decision Deny ''approval rejected'' ''approval/reject'')
        | ReplyOther _ \<Rightarrow> None))"

type_synonym approval_map = "approval gomap"

abbreviation approval_wf :: "approval_map \<Rightarrow> bool" where
  "approval_wf \<equiv> keyed ap_ApprovalID"

definition approval_CreatePending :: "string \<Rightarrow> int \<Rightarrow> approval_request \<Rightarrow> approval_map
    \<Rightarrow> approval \<times> approval_map" where
  "approval_CreatePending uuid now req m =
     (let rec = \<lparr>ap_ApprovalID = uuid, ap_SessionID = rq_SessionID req, ap_TaskID = rq_TaskID req,
                 ap_StepID = rq_StepID req, ap_ToolName = rq_ToolName req, ap_Reason = rq_Reason req,
                 ap_MatchedRule = rq_MatchedRule req, ap_Status = ApprovalPending,
                 ap_Reply = ReplyOther [], ap_Step = rq_Step req, ap_Metadata = rq_Metadata req,
                 ap_RequestedAt = now, ap_RespondedAt = 0, ap_ConsumedAt = 0, ap_Version = 1,
                 ap_CreatedAt = now, ap_UpdatedAt = now\<rparr>
      in (rec, gm_put (ap_ApprovalID rec) rec m))"

definition approval_Get :: "string \<Rightarrow> approval_map \<Rightarrow> goerr + approval" where
  "approval_Get = mem_get ErrApprovalNotFound"

definition approval_Update :: "int \<Rightarrow> approval \<Rightarrow> approval_map \<Rightarrow> goerr + approval_map" where
  "approval_Update now next m = (case gm_get m (ap_ApprovalID next) of
     None \<Rightarrow> Inl ErrApprovalNotFound
   | Some current \<Rightarrow>
       if ap_Version next \<noteq> ap_Version current + 1 then Inl ErrApprovalVersionConflict
       else
         let next = (if ap_CreatedAt next = 0
                     then next\<lparr>ap_CreatedAt := ap_CreatedAt current\<rparr> else next);
             next = next\<lparr>ap_UpdatedAt := now\<rparr>
         in Inr (gm_put (ap_ApprovalID next) next m))"

definition approval_less :: "approval \<Rightarrow> approval \<Rightarrow> bool" where
  "approval_less a b =
     (if ap_RequestedAt a = ap_RequestedAt b then ap_ApprovalID a < ap_ApprovalID b
      else ap_RequestedAt a < ap_RequestedAt b)"

definition approval_List :: "string \<Rightarrow> approval_map \<Rightarrow> approval list" where
  "approval_List sid m = go_sort approval_less (by_owner ap_SessionID sid m)"

lemmas approval_store_defs = approval_CreatePending_def approval_Get_def approval_Update_def
  approval_List_def Let_def

section \<open>Laws of the store\<close>

interpretation approval_order: sort_by_key approval_less "\<lambda>a. (ap_RequestedAt a, ap_ApprovalID a)"
  by unfold_locales (auto simp: approval_less_def)

interpretation approvals: record_store approval_wf ap_ApprovalID ap_SessionID approval_Get approval_List
  using mem_record_store[of ap_ApprovalID ap_SessionID ErrApprovalNotFound approval_less]
  by (simp add: approval_Get_def approval_List_def[abs_def])

interpretation approval_versions: versioned_store approval_wf ap_ApprovalID ap_Version approval_Get
  approval_Update ErrApprovalVersionConflict
proof
  show "approval_Get (ap_ApprovalID r) s = Inl e \<Longrightarrow> approval_Update now r s = Inl e" for r s e now
    by (auto simp: approval_store_defs mem_get_def split: option.splits)
qed (auto simp: approval_store_defs split: option.splits if_splits)

lemma mset_by_owner: "mset m = mset m' \<Longrightarrow> mset (by_owner owner sid m) = mset (by_owner owner sid m')"
  by (simp add: by_owner_def mset_filter mset_map)

section \<open>Properties\<close>

text \<open>
  Listing approvals does not depend on the order in which Go's map iteration visits them: two
  association lists of the same entries give the same list, which is sorted by request time and
  id, without duplicates, and contains exactly the approvals of the session.
\<close>

theorem approval_List_deterministic:
  assumes "approval_wf m" and "mset m = mset m'"
  shows "approval_List sid m = approval_List sid m'
    \<and> sorted (map (\<lambda>a. (ap_RequestedAt a, ap_ApprovalID a)) (approval_List sid m))
    \<and> distinct (map ap_ApprovalID (approval_List sid m))
    \<and> (\<forall>a. a \<in> set (approval_List sid m) \<longleftrightarrow>
          approval_Get (ap_ApprovalID a) m = Inr a \<and> (sid = [] \<or> ap_SessionID a = sid))"
proof -
  have d: "distinct (map ap_ApprovalID (by_owner ap_SessionID sid m))"
    by (rule by_owner_distinct[OF assms(1)])
  then have "inj_on (\<lambda>a. (ap_RequestedAt a, ap_ApprovalID a)) (set (by_owner ap_SessionID sid m))"
    by (auto simp: distinct_map inj_on_def)
  then have "approval_List sid m = approval_List sid m'"
    unfolding approval_List_def
    by (intro approval_order.go_sort_unique mset_by_owner assms(2))
  moreover have "sorted (map (\<lambda>a. (ap_RequestedAt a, ap_ApprovalID a)) (approval_List sid m))"
    unfolding approval_List_def by (rule approval_order.sorted_go_sort)
  ultimately show ?thesis
    using approvals.list_distinct[OF assms(1)] approvals.list_get[OF assms(1)] by blast
qed

definition ex_request :: "string \<Rightarrow> approval_request" where
  "ex_request sid = \<lparr>rq_SessionID = sid, rq_TaskID = ''t'', rq_StepID = ''s1'',
     rq_ToolName = ''shell.exec'', rq_Reason = ''r'', rq_MatchedRule = ''m'', rq_Step = zero_step,
     rq_Metadata = []\<rparr>"

definition ex_approvals :: approval_map where
  "ex_approvals = snd (approval_CreatePending ''a2'' 7 (ex_request ''sess'')
     (snd (approval_CreatePending ''a1'' 7 (ex_request ''sess'') [])))"

theorem approval_List_deterministic_witness:
  "map ap_ApprovalID (approval_List ''sess'' (rev ex_approvals)) = [''a1'', ''a2'']"
proof -
  have "approval_wf ex_approvals" by code_simp
  then have "approval_List ''sess'' ex_approvals = approval_List ''sess'' (rev ex_approvals)"
    using approval_List_deterministic[of ex_approvals "rev ex_approvals" "''sess''"] by simp
  moreover have "map ap_ApprovalID (approval_List ''sess'' ex_approvals) = [''a1'', ''a2'']" by code_simp
  ultimately show ?thesis by simp
qed

text \<open>
  The default resume policy turns an approval into a decision only if it was approved for this
  very step and tool; it allows the step exactly if the reply was once or always, so a pending,
  rejected or consumed approval never lets a step run.
\<close>

theorem DefaultResumePolicy_allows_iff:
  "(\<exists>d. DefaultResumePolicy rec step = Some d \<and> de_Action d = Allow) \<longleftrightarrow>
     ap_Status rec = ApprovalApproved \<and> ap_StepID rec = sp_StepID step
     \<and> ap_ToolName rec = an_ToolName (sp_Action step)
     \<and> (ap_Reply rec = ReplyOnce \<or> ap_Reply rec = ReplyAlways)"
  by (cases "ap_Reply rec") (auto simp: DefaultResumePolicy_def mk_decision_def)

end
