(* ===== verification/Execution.thy ===== *)
theory Execution
  imports Approval
begin

text \<open>
  Execution facts: \<^verbatim>\<open>pkg/harness/execution\<close> types.go, target.go, blocked_runtime.go, stores.go and
  blocked_runtime_store.go. The records of attempts, actions, verifications, artifacts, runtime
  handles and blocked runtimes, and their in-memory stores, each an interpretation of the store
  interfaces.
\<close>

section \<open>Records\<close>

datatype AttemptStatus = AttemptBlocked | AttemptCompleted | AttemptFailed | AttemptOther string
datatype ActionStatus = ActionCompleted | ActionFailed | ActionOther string
datatype VerificationStatus = VerificationCompleted | VerificationFailed | VerificationOther string
datatype RuntimeHandleStatus =
  RuntimeHandleActive | RuntimeHandleClosed | RuntimeHandleInvalidated | RuntimeHandleOther string

record attempt =
  at_AttemptID :: string
  at_SessionID :: string
  at_TaskID :: string
  at_StepID :: string
  at_ApprovalID :: string
  at_CycleID :: string
  at_TraceID :: string
  at_Status :: AttemptStatus
  at_Step :: step
  at_Metadata :: meta
  at_StartedAt :: int
  at_FinishedAt :: int

record action_record =
  ac_ActionID :: string
  ac_AttemptID :: string
  ac_SessionID :: string
  ac_TaskID :: string
  ac_StepID :: string
  ac_CycleID :: string
  ac_ToolName :: string
  ac_TraceID :: string
  ac_CausationID :: string
  ac_Status :: ActionStatus
  ac_Result :: action_result
  ac_Metadata :: meta
  ac_StartedAt :: int
  ac_FinishedAt :: int

record verification_record =
  vf_VerificationID :: string
  vf_AttemptID :: string
  vf_SessionID :: string
  vf_TaskID :: string
  vf_StepID :: string
  vf_ActionID :: string
  vf_CycleID :: string
  vf_TraceID :: string
  vf_CausationID :: string
  vf_Status :: VerificationStatus
  vf_Spec :: verify_spec
  vf_Result :: verify_result
  vf_Metadata :: meta
  vf_StartedAt :: int
  vf_FinishedAt :: int

record artifact =
  af_ArtifactID :: string
  af_SessionID :: string
  af_TaskID :: string
  af_StepID :: string
  af_AttemptID :: string
  af_ActionID :: string
  af_VerificationID :: string
  af_CycleID :: string
  af_TraceID :: string
  af_Name :: string
  af_Kind :: string
  af_Payload :: meta
  af_Metadata :: meta
  af_CreatedAt :: int

record runtime_handle =
  rh_HandleID :: string
  rh_SessionID :: string
  rh_TaskID :: string
  rh_AttemptID :: string
  rh_CycleID :: string
  rh_TraceID :: string
  rh_Kind :: string
  rh_Value :: string
  rh_Status :: RuntimeHandleStatus
  rh_StatusReason :: string
  rh_Metadata :: meta
  rh_Version :: int
  rh_CreatedAt :: int
  rh_UpdatedAt :: int
  rh_ClosedAt :: int
  rh_InvalidatedAt :: int

record target_ref =
  tr_TargetID :: string
  tr_Kind :: string

datatype BlockedRuntimeKind =
    BlockedRuntimeApproval | BlockedRuntimeConfirmation | BlockedRuntimeExternal
  | BlockedRuntimeInteractive | BlockedKindOther string

datatype BlockedRuntimeStatus =
    BlockedRuntimePending | BlockedRuntimeApproved | BlockedRuntimeRejected
  | BlockedRuntimeConfirmed | BlockedRuntimeResumed | BlockedRuntimeAborted
  | BlockedStatusOther string

datatype BlockedRuntimeConditionKind =
    BlockedRuntimeConditionApproval | BlockedRuntimeConditionConfirmation
  | BlockedRuntimeConditionExternal | BlockedRuntimeConditionInteractive | ConditionOther string

record blocked_subject =
  bs_StepID :: string
  bs_ActionID :: string
  bs_AttemptID :: string
  bs_CycleID :: string
  bs_Target :: target_ref
  bs_Metadata :: meta

record blocked_condition =
  bc_Kind :: BlockedRuntimeConditionKind
  bc_ReferenceID :: string
  bc_WaitingFor :: string
  bc_Metadata :: meta

record blocked_record =
  br_BlockedRuntimeID :: string
  br_Kind :: BlockedRuntimeKind
  br_Status :: BlockedRuntimeStatus
  br_SessionID :: string
  br_TaskID :: string
  br_Subject :: blocked_subject
  br_Condition :: blocked_condition
  br_Metadata :: meta
  br_RequestedAt :: int
  br_UpdatedAt :: int
  br_ResolvedAt :: int

text \<open>The default an empty field takes: \<^verbatim>\<open>if spec.X == "" { spec.X = ... }\<close>.\<close>

abbreviation or_str :: "string \<Rightarrow> string \<Rightarrow> string" where
  "or_str s d \<equiv> (if s = [] then d else s)"

abbreviation or_int :: "int \<Rightarrow> int \<Rightarrow> int" where
  "or_int n d \<equiv> (if n = 0 then d else n)"

section \<open>Stores\<close>

definition attempt_Create :: "string \<Rightarrow> int \<Rightarrow> attempt \<Rightarrow> attempt gomap \<Rightarrow> attempt \<times> attempt gomap" where
  "attempt_Create uuid now spec m =
     (let spec = spec\<lparr>at_AttemptID := or_str (at_AttemptID spec) uuid,
                      at_StartedAt := or_int (at_StartedAt spec) now\<rparr>
      in (spec, gm_put (at_AttemptID spec) spec m))"

definition attempt_Get :: "string \<Rightarrow> attempt gomap \<Rightarrow> goerr + attempt" where
  "attempt_Get = mem_get ErrRecordNotFound"

definition attempt_Update :: "attempt \<Rightarrow> attempt gomap \<Rightarrow> goerr + attempt gomap" where
  "attempt_Update next m = (case gm_get m (at_AttemptID next) of
     None \<Rightarrow> Inl ErrRecordNotFound | Some _ \<Rightarrow> Inr (gm_put (at_AttemptID next) next m))"

definition attempt_less :: "attempt \<Rightarrow> attempt \<Rightarrow> bool" where
  "attempt_less a b =
     (if at_StartedAt a \<noteq> at_StartedAt b then at_StartedAt a < at_StartedAt b
      else if at_StepID a \<noteq> at_StepID b then at_StepID a < at_StepID b
      else at_AttemptID a < at_AttemptID b)"

definition attempt_List :: "string \<Rightarrow> attempt gomap \<Rightarrow> attempt list" where
  "attempt_List sid m = go_sort attempt_less (by_owner at_SessionID sid m)"

definition action_Create :: "string \<Rightarrow> int \<Rightarrow> action_record \<Rightarrow> action_record gomap
    \<Rightarrow> action_record \<times> action_record gomap" where
  "action_Create uuid now spec m =
     (let spec = spec\<lparr>ac_ActionID := or_str (ac_ActionID spec) uuid,
                      ac_StartedAt := or_int (ac_StartedAt spec) now\<rparr>
      in (spec, gm_put (ac_ActionID spec) spec m))"

definition action_Get :: "string \<Rightarrow> action_record gomap \<Rightarrow> goerr + action_record" where
  "action_Get = mem_get ErrRecordNotFound"

definition action_Update :: "action_record \<Rightarrow> action_record gomap \<Rightarrow> goerr + action_record gomap" where
  "action_Update next m = (case gm_get m (ac_ActionID next) of
     None \<Rightarrow> Inl ErrRecordNotFound | Some _ \<Rightarrow> Inr (gm_put (ac_ActionID next) next m))"

definition action_less :: "action_record \<Rightarrow> action_record \<Rightarrow> bool" where
  "action_less a b =
     (if ac_StartedAt a \<noteq> ac_StartedAt b then ac_StartedAt a < ac_StartedAt b
      else if ac_StepID a \<noteq> ac_StepID b then ac_StepID a < ac_StepID b
      else ac_ActionID a < ac_ActionID b)"

definition action_List :: "string \<Rightarrow> action_record gomap \<Rightarrow> action_record list" where
  "action_List sid m = go_sort action_less (by_owner ac_SessionID sid m)"

definition verification_Create :: "string \<Rightarrow> int \<Rightarrow> verification_record \<Rightarrow> verification_record gomap
    \<Rightarrow> verification_record \<times> verification_record gomap" where
  "verification_Create uuid now spec m =
     (let spec = spec\<lparr>vf_VerificationID := or_str (vf_VerificationID spec) uuid,
                      vf_StartedAt := or_int (vf_StartedAt spec) now\<rparr>
      in (spec, gm_put (vf_VerificationID spec) spec m))"

definition verification_Get :: "string \<Rightarrow> verification_record gomap \<Rightarrow> goerr + verification_record" where
  "verification_Get = mem_get ErrRecordNotFound"

definition verification_Update :: "verification_record \<Rightarrow> verification_record gomap
    \<Rightarrow> goerr + verification_record gomap" where
  "verification_Update next m = (case gm_get m (vf_VerificationID next) of
     None \<Rightarrow> Inl ErrRecordNotFound | Some _ \<Rightarrow> Inr (gm_put (vf_VerificationID next) next m))"

definition verification_less :: "verification_record \<Rightarrow> verification_record \<Rightarrow> bool" where
  "verification_less a b =
     (if vf_StartedAt a \<noteq> vf_StartedAt b then vf_StartedAt a < vf_StartedAt b
      else if vf_StepID a \<noteq> vf_StepID b then vf_StepID a < vf_StepID b
      else vf_VerificationID a < vf_VerificationID b)"

definition verification_List :: "string \<Rightarrow> verification_record gomap \<Rightarrow> verification_record list" where
  "verification_List sid m = go_sort verification_less (by_owner vf_SessionID sid m)"

definition artifact_Create :: "string \<Rightarrow> int \<Rightarrow> artifact \<Rightarrow> artifact gomap
    \<Rightarrow> artifact \<times> artifact gomap" where
  "artifact_Create uuid now spec m =
     (let spec = spec\<lparr>af_ArtifactID := or_str (af_ArtifactID spec) uuid,
                      af_CreatedAt := or_int (af_CreatedAt spec) now\<rparr>
      in (spec, gm_put (af_ArtifactID spec) spec m))"

definition artifact_Get :: "string \<Rightarrow> artifact gomap \<Rightarrow> goerr + artifact" where
  "artifact_Get = mem_get ErrRecordNotFound"

definition artifact_Update :: "artifact \<Rightarrow> artifact gomap \<Rightarrow> goerr + artifact gomap" where
  "artifact_Update next m = (case gm_get m (af_ArtifactID next) of
     None \<Rightarrow> Inl ErrRecordNotFound | Some _ \<Rightarrow> Inr (gm_put (af_ArtifactID next) next m))"

definition artifact_List :: "string \<Rightarrow> artifact gomap \<Rightarrow> artifact list" where
  "artifact_List sid m =
     go_sort (\<lambda>a b. af_CreatedAt a < af_CreatedAt b) (by_owner af_SessionID sid m)"

definition handle_Create :: "string \<Rightarrow> int \<Rightarrow> runtime_handle \<Rightarrow> runtime_handle gomap
    \<Rightarrow> runtime_handle \<times> runtime_handle gomap" where
  "handle_Create uuid now spec m =
     (let spec = spec\<lparr>rh_HandleID := or_str (rh_HandleID spec) uuid,
            rh_Status := (if rh_Status spec = RuntimeHandleOther [] then RuntimeHandleActive
                          else rh_Status spec),
            rh_CreatedAt := or_int (rh_CreatedAt spec) now,
            rh_UpdatedAt := or_int (rh_UpdatedAt spec) now,
            rh_Version := or_int (rh_Version spec) 1\<rparr>
      in (spec, gm_put (rh_HandleID spec) spec m))"

definition handle_Get :: "string \<Rightarrow> runtime_handle gomap \<Rightarrow> goerr + runtime_handle" where
  "handle_Get = mem_get ErrRecordNotFound"

definition handle_Update :: "int \<Rightarrow> runtime_handle \<Rightarrow> runtime_handle gomap
    \<Rightarrow> goerr + runtime_handle gomap" where
  "handle_Update now next m = (case gm_get m (rh_HandleID next) of
     None \<Rightarrow> Inl ErrRecordNotFound
   | Some current \<Rightarrow>
       if rh_Version next \<noteq> rh_Version current + 1 then Inl ErrRuntimeHandleVersionConflict
       else let next = (if rh_Status next = RuntimeHandleOther []
                        then next\<lparr>rh_Status := RuntimeHandleActive\<rparr> else next);
                next = next\<lparr>rh_UpdatedAt := now\<rparr>
            in Inr (gm_put (rh_HandleID next) next m))"

definition handle_List :: "string \<Rightarrow> runtime_handle gomap \<Rightarrow> runtime_handle list" where
  "handle_List sid m =
     go_sort (\<lambda>a b. rh_CreatedAt a < rh_CreatedAt b) (by_owner rh_SessionID sid m)"

definition blocked_Create :: "string \<Rightarrow> int \<Rightarrow> blocked_record \<Rightarrow> blocked_record gomap
    \<Rightarrow> blocked_record \<times> blocked_record gomap" where
  "blocked_Create uuid now spec m =
     (let spec = spec\<lparr>br_BlockedRuntimeID := or_str (br_BlockedRuntimeID spec) (''blocked_'' @ uuid),
                      br_RequestedAt := or_int (br_RequestedAt spec) now\<rparr>;
          spec = spec\<lparr>br_UpdatedAt := or_int (br_UpdatedAt spec) (br_RequestedAt spec)\<rparr>
      in (spec, gm_put (br_BlockedRuntimeID spec) spec m))"

definition blocked_Get :: "string \<Rightarrow> blocked_record gomap \<Rightarrow> goerr + blocked_record" where
  "blocked_Get = mem_get ErrRecordNotFound"

definition blocked_Update :: "int \<Rightarrow> blocked_record \<Rightarrow> blocked_record gomap
    \<Rightarrow> goerr + blocked_record gomap" where
  "blocked_Update now next m = (case gm_get m (br_BlockedRuntimeID next) of
     None \<Rightarrow> Inl ErrRecordNotFound
   | Some _ \<Rightarrow>
       let next = next\<lparr>br_UpdatedAt := or_int (br_UpdatedAt next) now\<rparr>
       in Inr (gm_put (br_BlockedRuntimeID next) next m))"

definition blocked_less :: "blocked_record \<Rightarrow> blocked_record \<Rightarrow> bool" where
  "blocked_less a b =
     (if br_RequestedAt a \<noteq> br_RequestedAt b then br_RequestedAt a < br_RequestedAt b
      else br_BlockedRuntimeID a < br_BlockedRuntimeID b)"

definition blocked_List :: "string \<Rightarrow> blocked_record gomap \<Rightarrow> blocked_record list" where
  "blocked_List sid m = go_sort blocked_less (by_owner br_SessionID sid m)"

lemmas [store_defs] =
  attempt_Create_def attempt_Get_def attempt_Update_def attempt_List_def
  action_Create_def action_Get_def action_Update_def action_List_def
  verification_Create_def verification_Get_def verification_Update_def verification_List_def
  artifact_Create_def artifact_Get_def artifact_Update_def artifact_List_def
  handle_Create_def handle_Get_def handle_Update_def handle_List_def
  blocked_Create_def blocked_Get_def blocked_Update_def blocked_List_def Let_def

section \<open>Laws of the stores\<close>

text \<open>One rule discharges the laws of \<open>creating_store\<close> for a map store whose creation is a put.\<close>

lemma mem_creating_store:
  assumes "\<And>u now x m. create u now x m = (fill u now x, gm_put (key (fill u now x)) (fill u now x) m)"
  shows "creating_store (keyed key) key owner (mem_get e)
           (\<lambda>sid m. go_sort lt (by_owner owner sid m)) create"
  by (rule creating_store.intro[OF mem_record_store], unfold_locales) (auto simp: assms)

interpretation attempts: creating_store "keyed at_AttemptID" at_AttemptID at_SessionID attempt_Get
  attempt_List attempt_Create
  unfolding attempt_Get_def attempt_List_def[abs_def]
  by (rule mem_creating_store[where fill = "\<lambda>u now spec. fst (attempt_Create u now spec [])"])
    (simp add: attempt_Create_def Let_def)

interpretation actions: creating_store "keyed ac_ActionID" ac_ActionID ac_SessionID action_Get
  action_List action_Create
  unfolding action_Get_def action_List_def[abs_def]
  by (rule mem_creating_store[where fill = "\<lambda>u now spec. fst (action_Create u now spec [])"])
    (simp add: action_Create_def Let_def)

interpretation verifications: creating_store "keyed vf_VerificationID" vf_VerificationID vf_SessionID
  verification_Get verification_List verification_Create
  unfolding verification_Get_def verification_List_def[abs_def]
  by (rule mem_creating_store[where fill = "\<lambda>u now spec. fst (verification_Create u now spec [])"])
    (simp add: verification_Create_def Let_def)

interpretation artifacts: creating_store "keyed af_ArtifactID" af_ArtifactID af_SessionID artifact_Get
  artifact_List artifact_Create
  unfolding artifact_Get_def artifact_List_def[abs_def]
  by (rule mem_creating_store[where fill = "\<lambda>u now spec. fst (artifact_Create u now spec [])"])
    (simp add: artifact_Create_def Let_def)

interpretation handles: creating_store "keyed rh_HandleID" rh_HandleID rh_SessionID handle_Get
  handle_List handle_Create
  unfolding handle_Get_def handle_List_def[abs_def]
  by (rule mem_creating_store[where fill = "\<lambda>u now spec. fst (handle_Create u now spec [])"])
    (simp add: handle_Create_def Let_def)

interpretation blockeds: creating_store "keyed br_BlockedRuntimeID" br_BlockedRuntimeID br_SessionID
  blocked_Get blocked_List blocked_Create
  unfolding blocked_Get_def blocked_List_def[abs_def]
  by (rule mem_creating_store[where fill = "\<lambda>u now spec. fst (blocked_Create u now spec [])"])
    (simp add: blocked_Create_def Let_def)

interpretation handle_versions: versioned_store "keyed rh_HandleID" rh_HandleID rh_Version handle_Get
  handle_Update ErrRuntimeHandleVersionConflict
proof
  show "handle_Get (rh_HandleID r) s = Inl e \<Longrightarrow> handle_Update now r s = Inl e" for r s e now
    by (auto simp: handle_Get_def handle_Update_def mem_get_def split: option.splits)
qed (auto simp: handle_Get_def handle_Update_def Let_def split: option.splits if_splits)

interpretation attempt_order: sort_by_key attempt_less
  "\<lambda>a. (at_StartedAt a, at_StepID a, at_AttemptID a)"
  by unfold_locales (auto simp: attempt_less_def)

interpretation blocked_order: sort_by_key blocked_less "\<lambda>b. (br_RequestedAt b, br_BlockedRuntimeID b)"
  by unfold_locales (auto simp: blocked_less_def)

lemma attempt_Update_get:
  "attempt_Update a m = Inr m' \<Longrightarrow> attempt_Get k m' = (if k = at_AttemptID a then Inr a else attempt_Get k m)"
  by (auto simp: attempt_Get_def attempt_Update_def split: option.splits)

lemma attempt_Update_wf: "keyed at_AttemptID m \<Longrightarrow> attempt_Update a m = Inr m' \<Longrightarrow> keyed at_AttemptID m'"
  by (auto simp: attempt_Update_def split: option.splits)

lemma blocked_Update_get:
  "blocked_Update now b m = Inr m' \<Longrightarrow>
   blocked_Get k m' = (if k = br_BlockedRuntimeID b
     then Inr (b\<lparr>br_UpdatedAt := or_int (br_UpdatedAt b) now\<rparr>) else blocked_Get k m)"
  by (auto simp: blocked_Get_def blocked_Update_def Let_def split: option.splits)

lemma blocked_Update_wf:
  "keyed br_BlockedRuntimeID m \<Longrightarrow> blocked_Update now b m = Inr m' \<Longrightarrow> keyed br_BlockedRuntimeID m'"
  by (auto simp: blocked_Update_def Let_def split: option.splits)

section \<open>Properties\<close>

text \<open>
  Attempts are recorded faithfully. After \<^verbatim>\<open>Create\<close> the attempt is found under its id (a fresh
  one if the caller gave none), every other attempt is unchanged, the new attempt is listed for
  its session and for no other, and listing is sorted by start time, step and id.
\<close>

theorem attempt_Create_recorded:
  assumes "keyed at_AttemptID m" and "attempt_Create u now spec m = (a, m')"
  shows "attempt_Get (at_AttemptID a) m' = Inr a
    \<and> at_AttemptID a = (if at_AttemptID spec = [] then u else at_AttemptID spec)
    \<and> (\<forall>k. k \<noteq> at_AttemptID a \<longrightarrow> attempt_Get k m' = attempt_Get k m)
    \<and> (\<forall>sid. a \<in> set (attempt_List sid m') \<longleftrightarrow> sid = [] \<or> at_SessionID spec = sid)
    \<and> sorted (map (\<lambda>a. (at_StartedAt a, at_StepID a, at_AttemptID a)) (attempt_List sid m'))"
proof -
  have sid: "at_SessionID a = at_SessionID spec" and
    id: "at_AttemptID a = (if at_AttemptID spec = [] then u else at_AttemptID spec)"
    using assms(2) by (auto simp: attempt_Create_def Let_def)
  show ?thesis
    using attempts.create_get[OF assms] attempts.created_is_listed[OF assms] sid id
      attempt_order.sorted_go_sort by (simp add: attempt_List_def)
qed

definition ex_attempt :: attempt where
  "ex_attempt = \<lparr>at_AttemptID = [], at_SessionID = ''s'', at_TaskID = [], at_StepID = ''st'',
     at_ApprovalID = [], at_CycleID = [], at_TraceID = [], at_Status = AttemptBlocked,
     at_Step = zero_step, at_Metadata = [], at_StartedAt = 0, at_FinishedAt = 0\<rparr>"

theorem attempt_Create_recorded_witness:
  "map at_AttemptID (attempt_List ''s'' (snd (attempt_Create ''u1'' 9 ex_attempt []))) = [''u1'']
   \<and> fst (attempt_Create ''u1'' 9 ex_attempt []) \<in> set (attempt_List ''s'' (snd (attempt_Create ''u1'' 9 ex_attempt [])))"
proof -
  have "fst (attempt_Create ''u1'' 9 ex_attempt [])
      \<in> set (attempt_List ''s'' (snd (attempt_Create ''u1'' 9 ex_attempt [])))"
    using attempt_Create_recorded[of "[]" "''u1''" 9 ex_attempt
        "fst (attempt_Create ''u1'' 9 ex_attempt [])" "snd (attempt_Create ''u1'' 9 ex_attempt [])"]
    by (simp add: ex_attempt_def)
  moreover have "map at_AttemptID (attempt_List ''s'' (snd (attempt_Create ''u1'' 9 ex_attempt []))) = [''u1'']"
    by code_simp
  ultimately show ?thesis by blast
qed

end
