(* ===== verification/Targets.thy ===== *)
theory Targets
  imports Execution
begin

text \<open>
  Target fan-out data: \<^verbatim>\<open>pkg/harness/execution\<close> target.go, target_fact.go and aggregate.go. A
  fan-out step is expanded into one step per target; the steps carry their target and the id of
  their aggregate in the metadata, and \<^verbatim>\<open>AggregateResultsFromSteps\<close> folds them back into one
  result per aggregate. The lemmas show that metadata written is metadata read, and that the
  one-pass fold with its buckets computes the declarative summary of each group of steps.
\<close>

section \<open>Targets and target metadata\<close>

record target =
  tg_TargetID :: string
  tg_Kind :: string
  tg_DisplayName :: string
  tg_Metadata :: meta

datatype TargetSelectionMode =
    TargetSelectionSingle | TargetSelectionFanoutExplicit | TargetSelectionFanoutAll
  | SelectionOther string

text \<open>The failure strategy and the aggregate scope travel as strings in step metadata.\<close>

type_synonym TargetFailureStrategy = string
type_synonym AggregateScope = string

abbreviation "TargetFailureAbort \<equiv> ''abort''"
abbreviation "TargetFailureContinue \<equiv> ''continue''"
abbreviation "AggregateScopeTargetFanout \<equiv> ''target_fanout''"

record target_selection =
  sel_Mode :: TargetSelectionMode
  sel_Targets :: "target list"
  sel_MaxConcurrency :: int
  sel_OnPartialFailure :: TargetFailureStrategy
  sel_Metadata :: meta

definition MultiTargetRequested :: "target_selection \<Rightarrow> bool" where
  "MultiTargetRequested s \<longleftrightarrow>
     (if 1 < length (sel_Targets s) then True
      else case sel_Mode s of
        TargetSelectionFanoutExplicit \<Rightarrow> True | TargetSelectionFanoutAll \<Rightarrow> True | _ \<Rightarrow> False)"

definition EffectiveMaxConcurrency :: "target_selection \<Rightarrow> int \<Rightarrow> int" where
  "EffectiveMaxConcurrency s targetCount =
     (if targetCount \<le> 0 then 0
      else if sel_MaxConcurrency s \<le> 0 \<or> targetCount < sel_MaxConcurrency s then targetCount
      else sel_MaxConcurrency s)"

text \<open>A conditional write \<^verbatim>\<open>if c { metadata[k] = v }\<close>.\<close>

definition put_if :: "bool \<Rightarrow> string \<Rightarrow> gval \<Rightarrow> meta \<Rightarrow> meta" where
  "put_if c k v md = (if c then gm_put k v md else md)"

definition ApplyTargetMetadata :: "meta \<Rightarrow> target \<Rightarrow> int \<Rightarrow> int \<Rightarrow> meta" where
  "ApplyTargetMetadata metadata t index cnt =
     put_if (0 < cnt) ''target_count'' (VInt cnt)
      (put_if (0 < index) ''target_index'' (VInt index)
       (put_if (tg_DisplayName t \<noteq> []) ''target_display_name'' (VStr (tg_DisplayName t))
        (put_if (tg_Kind t \<noteq> []) ''target_kind'' (VStr (tg_Kind t))
         (put_if (tg_TargetID t \<noteq> []) ''target_id'' (VStr (tg_TargetID t)) metadata))))"

definition TargetRefFromMetadata :: "meta \<Rightarrow> target_ref option" where
  "TargetRefFromMetadata metadata =
     (if metadata = [] then None
      else let targetID = as_string (gm_get metadata ''target_id'')
           in if targetID = [] then None
              else Some \<lparr>tr_TargetID = targetID, tr_Kind = as_string (gm_get metadata ''target_kind'')\<rparr>)"

definition TargetArgValue :: "target \<Rightarrow> meta" where
  "TargetArgValue t =
     put_if (tg_Metadata t \<noteq> []) ''metadata'' (VMap (tg_Metadata t))
      (put_if (tg_DisplayName t \<noteq> []) ''target_display_name'' (VStr (tg_DisplayName t))
       (put_if (tg_Kind t \<noteq> []) ''target_kind'' (VStr (tg_Kind t))
        [(''target_id'', VStr (tg_TargetID t))]))"

definition TargetFromStep :: "step \<Rightarrow> target_ref option" where
  "TargetFromStep s = TargetRefFromMetadata (sp_Metadata s)"

section \<open>Aggregates\<close>

datatype AggregateStatus =
    AggregateStatusPending | AggregateStatusCompleted | AggregateStatusPartialFailed
  | AggregateStatusFailed

record aggregate_target =
  gt_Target :: target_ref
  gt_StepID :: string
  gt_Status :: StepStatus
  gt_Attempt :: int
  gt_Reason :: string

record aggregate_result =
  ag_AggregateID :: string
  ag_Scope :: AggregateScope
  ag_Strategy :: TargetFailureStrategy
  ag_ProgramID :: string
  ag_NodeID :: string
  ag_Title :: string
  ag_MaxConcurrency :: int
  ag_Status :: AggregateStatus
  ag_Expected :: int
  ag_Completed :: int
  ag_Failed :: int
  ag_Pending :: int
  ag_Targets :: "aggregate_target list"

definition ApplyAggregateMetadata :: "meta \<Rightarrow> AggregateScope \<Rightarrow> string \<Rightarrow> string \<Rightarrow> string \<Rightarrow> string
    \<Rightarrow> TargetFailureStrategy \<Rightarrow> int \<Rightarrow> meta" where
  "ApplyAggregateMetadata metadata scope aggregateID programID nodeID title strategy expected =
     put_if (nodeID \<noteq> []) ''program_node_id'' (VStr nodeID)
      (put_if (programID \<noteq> []) ''program_id'' (VStr programID)
       (put_if (title \<noteq> []) ''aggregate_title'' (VStr title)
        (put_if (0 < expected) ''aggregate_expected'' (VInt expected)
         (put_if (strategy \<noteq> []) ''aggregate_strategy'' (VStr strategy)
          (put_if (scope \<noteq> []) ''aggregate_scope'' (VStr scope)
           (put_if (aggregateID \<noteq> []) ''aggregate_id'' (VStr aggregateID) metadata))))))"

definition ApplyAggregateConcurrencyMetadata :: "meta \<Rightarrow> int \<Rightarrow> meta" where
  "ApplyAggregateConcurrencyMetadata metadata maxConcurrency =
     (if maxConcurrency \<le> 0 then metadata
      else gm_put ''aggregate_max_concurrency'' (VInt maxConcurrency) metadata)"

definition AggregateRefFromMetadata :: "meta \<Rightarrow> (string \<times> AggregateScope) option" where
  "AggregateRefFromMetadata metadata =
     (if metadata = [] then None
      else let aggregateID = as_string (gm_get metadata ''aggregate_id'')
           in if aggregateID = [] then None
              else Some (aggregateID, as_string (gm_get metadata ''aggregate_scope'')))"

text \<open>The type switch over \<^verbatim>\<open>int\<close>, \<^verbatim>\<open>int64\<close>, \<^verbatim>\<open>float64\<close>.\<close>

fun int_case :: "gval option \<Rightarrow> int option" where
  "int_case (Some (VInt n)) = Some n"
| "int_case (Some (VInt64 n)) = Some n"
| "int_case (Some (VFloat64 q)) = Some (rat_trunc q)"
| "int_case _ = None"

definition AggregateMaxConcurrencyFromMetadata :: "meta \<Rightarrow> int option" where
  "AggregateMaxConcurrencyFromMetadata metadata = int_case (gm_get metadata ''aggregate_max_concurrency'')"

definition stringFromMetadata :: "meta \<Rightarrow> string \<Rightarrow> string" where
  "stringFromMetadata metadata key = as_string (gm_get metadata key)"

definition intFromMetadata :: "meta \<Rightarrow> string \<Rightarrow> int" where
  "intFromMetadata metadata key = (case int_case (gm_get metadata key) of Some n \<Rightarrow> n | None \<Rightarrow> 0)"

text \<open>
  The loop of \<^verbatim>\<open>AggregateResultsFromSteps\<close>: a bucket per aggregate id with the index of the step
  that opened it, and the ids in the order they were met. \<open>new_bucket\<close> opens a bucket,
  \<open>bucket_add\<close> appends the step's target and counts its status, \<open>agg_finish\<close> is the second loop's body.
\<close>

definition new_bucket :: "string \<Rightarrow> AggregateScope \<Rightarrow> step \<Rightarrow> aggregate_result" where
  "new_bucket aggregateID scope s = \<lparr>
     ag_AggregateID = aggregateID, ag_Scope = scope,
     ag_Strategy = stringFromMetadata (sp_Metadata s) ''aggregate_strategy'',
     ag_ProgramID = stringFromMetadata (sp_Metadata s) ''program_id'',
     ag_NodeID = stringFromMetadata (sp_Metadata s) ''program_node_id'',
     ag_Title = stringFromMetadata (sp_Metadata s) ''aggregate_title'',
     ag_MaxConcurrency = intFromMetadata (sp_Metadata s) ''aggregate_max_concurrency'',
     ag_Status = AggregateStatusPending,
     ag_Expected = intFromMetadata (sp_Metadata s) ''aggregate_expected'',
     ag_Completed = 0, ag_Failed = 0, ag_Pending = 0, ag_Targets = []\<rparr>"

definition step_target :: "step \<Rightarrow> aggregate_target" where
  "step_target s = \<lparr>
     gt_Target = (case TargetFromStep s of Some t \<Rightarrow> t | None \<Rightarrow> \<lparr>tr_TargetID = [], tr_Kind = []\<rparr>),
     gt_StepID = sp_StepID s, gt_Status = sp_Status s, gt_Attempt = sp_Attempt s,
     gt_Reason = sp_Reason s\<rparr>"

definition bucket_add :: "aggregate_result \<Rightarrow> step \<Rightarrow> aggregate_result" where
  "bucket_add r s =
     (let r = r\<lparr>ag_Targets := ag_Targets r @ [step_target s]\<rparr>
      in case sp_Status s of
           StepCompleted \<Rightarrow> r\<lparr>ag_Completed := ag_Completed r + 1\<rparr>
         | StepFailed \<Rightarrow> r\<lparr>ag_Failed := ag_Failed r + 1\<rparr>
         | _ \<Rightarrow> r\<lparr>ag_Pending := ag_Pending r + 1\<rparr>)"

type_synonym buckets = "(aggregate_result \<times> nat) gomap"

definition agg_step :: "buckets \<times> string list \<Rightarrow> nat \<times> step \<Rightarrow> buckets \<times> string list" where
  "agg_step st is = (case is of (idx, s) \<Rightarrow> case st of (buckets, order) \<Rightarrow>
     (case AggregateRefFromMetadata (sp_Metadata s) of
        None \<Rightarrow> (buckets, order)
      | Some (aggregateID, scope) \<Rightarrow>
          (case gm_get buckets aggregateID of
             None \<Rightarrow> (gm_put aggregateID (bucket_add (new_bucket aggregateID scope s) s, idx) buckets,
                      order @ [aggregateID])
           | Some (r, i) \<Rightarrow> (gm_put aggregateID (bucket_add r s, i) buckets, order))))"

definition target_less :: "aggregate_target \<Rightarrow> aggregate_target \<Rightarrow> bool" where
  "target_less left right =
     (if tr_TargetID (gt_Target left) = tr_TargetID (gt_Target right)
        then gt_StepID left < gt_StepID right
      else if tr_TargetID (gt_Target left) = [] then False
      else if tr_TargetID (gt_Target right) = [] then True
      else tr_TargetID (gt_Target left) < tr_TargetID (gt_Target right))"

definition agg_finish :: "aggregate_result \<Rightarrow> aggregate_result" where
  "agg_finish r =
     (let r = (if ag_Expected r \<le> 0 then r\<lparr>ag_Expected := int (length (ag_Targets r))\<rparr> else r);
          r = r\<lparr>ag_Targets := go_sort target_less (ag_Targets r)\<rparr>
      in if 0 < ag_Pending r then r\<lparr>ag_Status := AggregateStatusPending\<rparr>
         else if ag_Failed r = 0 then r\<lparr>ag_Status := AggregateStatusCompleted\<rparr>
         else if 0 < ag_Completed r then r\<lparr>ag_Status := AggregateStatusPartialFailed\<rparr>
         else r\<lparr>ag_Status := AggregateStatusFailed\<rparr>)"

definition AggregateResultsFromSteps :: "step list \<Rightarrow> aggregate_result list" where
  "AggregateResultsFromSteps steps =
     (case foldl agg_step ([], []) (enumerate 0 steps) of (buckets, order) \<Rightarrow>
        map (\<lambda>aggregateID. agg_finish (fst (the (gm_get buckets aggregateID))))
          (go_sort (\<lambda>a b. snd (the (gm_get buckets a)) < snd (the (gm_get buckets b))) order))"

definition AggregateResultsFromPlan :: "plan \<Rightarrow> aggregate_result list" where
  "AggregateResultsFromPlan spec = AggregateResultsFromSteps (pl_Steps spec)"

section \<open>Metadata written is metadata read\<close>

lemma put_if_get: "gm_get (put_if c k v md) k' = (if k' = k \<and> c then Some v else gm_get md k')"
  by (simp add: put_if_def)

lemma TargetRefFromMetadata_alt:
  "TargetRefFromMetadata md =
     (if as_string (gm_get md ''target_id'') = [] then None
      else Some \<lparr>tr_TargetID = as_string (gm_get md ''target_id''),
                 tr_Kind = as_string (gm_get md ''target_kind'')\<rparr>)"
  by (auto simp: TargetRefFromMetadata_def)

lemma AggregateRefFromMetadata_alt:
  "AggregateRefFromMetadata md =
     (if as_string (gm_get md ''aggregate_id'') = [] then None
      else Some (as_string (gm_get md ''aggregate_id''), as_string (gm_get md ''aggregate_scope'')))"
  by (auto simp: AggregateRefFromMetadata_def)

lemma ApplyTargetMetadata_get:
  "gm_get (ApplyTargetMetadata md t i n) k =
     (if k = ''target_count'' \<and> 0 < n then Some (VInt n)
      else if k = ''target_index'' \<and> 0 < i then Some (VInt i)
      else if k = ''target_display_name'' \<and> tg_DisplayName t \<noteq> [] then Some (VStr (tg_DisplayName t))
      else if k = ''target_kind'' \<and> tg_Kind t \<noteq> [] then Some (VStr (tg_Kind t))
      else if k = ''target_id'' \<and> tg_TargetID t \<noteq> [] then Some (VStr (tg_TargetID t))
      else gm_get md k)"
  unfolding ApplyTargetMetadata_def by (simp only: put_if_get)

lemma ApplyAggregateMetadata_get:
  "gm_get (ApplyAggregateMetadata md scope aid pid nid title strategy n) k =
     (if k = ''program_node_id'' \<and> nid \<noteq> [] then Some (VStr nid)
      else if k = ''program_id'' \<and> pid \<noteq> [] then Some (VStr pid)
      else if k = ''aggregate_title'' \<and> title \<noteq> [] then Some (VStr title)
      else if k = ''aggregate_expected'' \<and> 0 < n then Some (VInt n)
      else if k = ''aggregate_strategy'' \<and> strategy \<noteq> [] then Some (VStr strategy)
      else if k = ''aggregate_scope'' \<and> scope \<noteq> [] then Some (VStr scope)
      else if k = ''aggregate_id'' \<and> aid \<noteq> [] then Some (VStr aid)
      else gm_get md k)"
  unfolding ApplyAggregateMetadata_def by (simp only: put_if_get)

text \<open>Marking a step with its target does not disturb its aggregate reference, and conversely.\<close>

lemma AggregateRef_ApplyTarget [simp]:
  "AggregateRefFromMetadata (ApplyTargetMetadata md t i n) = AggregateRefFromMetadata md"
  by (simp add: AggregateRefFromMetadata_alt ApplyTargetMetadata_get)

lemma TargetRef_ApplyAggregate [simp]:
  "TargetRefFromMetadata (ApplyAggregateMetadata md scope aid pid nid title strategy n)
     = TargetRefFromMetadata md"
  by (simp add: TargetRefFromMetadata_alt ApplyAggregateMetadata_get)

section \<open>The buckets hold one summary per aggregate\<close>

text \<open>The aggregate id of a step, the steps of an aggregate, and the ids in order of first occurrence.\<close>

definition step_aggregate :: "step \<Rightarrow> string option" where
  "step_aggregate s = map_option fst (AggregateRefFromMetadata (sp_Metadata s))"

definition aggregate_steps :: "string \<Rightarrow> step list \<Rightarrow> step list" where
  "aggregate_steps aid steps = filter (\<lambda>s. step_aggregate s = Some aid) steps"

definition aggregate_ids :: "step list \<Rightarrow> string list" where
  "aggregate_ids steps = rev (remdups (rev (List.map_filter step_aggregate steps)))"

text \<open>The summary of a non-empty group of steps: header of the first, every step added.\<close>

definition group_bucket :: "string \<Rightarrow> step list \<Rightarrow> aggregate_result" where
  "group_bucket aid ss =
     foldl bucket_add (new_bucket aid (as_string (gm_get (sp_Metadata (hd ss)) ''aggregate_scope'')) (hd ss)) ss"

lemma group_bucket_snoc: "ss \<noteq> [] \<Longrightarrow> group_bucket aid (ss @ [s]) = bucket_add (group_bucket aid ss) s"
  by (simp add: group_bucket_def)

lemma aggregate_steps_snoc:
  "aggregate_steps aid (ss @ [s]) =
     (if step_aggregate s = Some aid then aggregate_steps aid ss @ [s] else aggregate_steps aid ss)"
  by (simp add: aggregate_steps_def)

lemma aggregate_ids_snoc:
  "aggregate_ids (ss @ [s]) =
     (case step_aggregate s of
        None \<Rightarrow> aggregate_ids ss
      | Some aid \<Rightarrow> if aid \<in> set (aggregate_ids ss) then aggregate_ids ss else aggregate_ids ss @ [aid])"
  by (auto simp: aggregate_ids_def List.map_filter_def split: option.splits)

lemma set_aggregate_ids: "aid \<in> set (aggregate_ids ss) \<longleftrightarrow> aggregate_steps aid ss \<noteq> []"
  by (induction ss rule: rev_induct)
    (auto simp: aggregate_ids_snoc aggregate_steps_snoc split: option.splits,
     simp_all add: aggregate_ids_def aggregate_steps_def List.map_filter_def)

text \<open>
  The loop's invariant: after a prefix of the steps, \<open>order\<close> lists the ids met, each bucket is the
  summary of its group, and bucket indices grow along \<open>order\<close>.
\<close>

definition buckets_ok :: "step list \<Rightarrow> buckets \<times> string list \<Rightarrow> bool" where
  "buckets_ok ss st \<longleftrightarrow> (case st of (b, order) \<Rightarrow>
     order = aggregate_ids ss
     \<and> (\<forall>aid. map_option fst (gm_get b aid) =
          (if aggregate_steps aid ss = [] then None else Some (group_bucket aid (aggregate_steps aid ss))))
     \<and> sorted (map (\<lambda>aid. snd (the (gm_get b aid))) order)
     \<and> (\<forall>aid r i. gm_get b aid = Some (r, i) \<longrightarrow> i < length ss))"

lemma step_aggregate_ref:
  "AggregateRefFromMetadata (sp_Metadata s) =
     map_option (\<lambda>aid. (aid, as_string (gm_get (sp_Metadata s) ''aggregate_scope''))) (step_aggregate s)"
  by (simp add: step_aggregate_def AggregateRefFromMetadata_alt)

lemma group_bucket_single:
  "group_bucket aid [s] = bucket_add (new_bucket aid (as_string (gm_get (sp_Metadata s) ''aggregate_scope'')) s) s"
  by (simp add: group_bucket_def)

lemma buckets_ok_step:
  assumes "buckets_ok ss (b, order)"
  shows "buckets_ok (ss @ [s]) (agg_step (b, order) (length ss, s))"
proof (cases "step_aggregate s")
  case None
  then have "agg_step (b, order) (length ss, s) = (b, order)"
    by (simp add: agg_step_def step_aggregate_ref)
  with assms None show ?thesis
    by (auto simp: buckets_ok_def aggregate_ids_snoc aggregate_steps_snoc less_Suc_eq)
next
  case (Some aid)
  from assms have order: "order = aggregate_ids ss"
    and b: "map_option fst (gm_get b a) = (if aggregate_steps a ss = [] then None
        else Some (group_bucket a (aggregate_steps a ss)))"
    and srt: "sorted (map (\<lambda>a. snd (the (gm_get b a))) order)"
    and idx: "gm_get b a = Some (r, i) \<Longrightarrow> i < length ss" for a r i
    by (auto simp: buckets_ok_def)
  show ?thesis
  proof (cases "gm_get b aid")
    case None
    with b[of aid] have e: "aggregate_steps aid ss = []" by (auto split: if_splits)
    then have new: "aid \<notin> set order" by (simp add: order set_aggregate_ids)
    let ?v = "(group_bucket aid [s], length ss)"
    have st: "agg_step (b, order) (length ss, s) = (gm_put aid ?v b, order @ [aid])"
      using Some None by (simp add: agg_step_def step_aggregate_ref group_bucket_single)
    have "snd (the (gm_get b a)) \<le> length ss" if "a \<in> set order" for a
    proof -
      from that have "gm_get b a \<noteq> None" using b[of a] by (auto simp: order set_aggregate_ids)
      then show ?thesis using idx[of a] by (cases "gm_get b a") (auto simp: less_imp_le)
    qed
    moreover define g where "g = (\<lambda>a. snd (the (gm_get (gm_put aid ?v b) a)))"
    moreover have "map g order = map (\<lambda>a. snd (the (gm_get b a))) order" "g aid = length ss"
      using new by (auto simp: g_def)
    ultimately have "sorted (map g (order @ [aid]))"
      using srt by (simp add: sorted_append) (metis (no_types, lifting) in_set_conv_nth map_eq_conv)
    then have "sorted (map (\<lambda>a. snd (the (gm_get (gm_put aid ?v b) a))) (order @ [aid]))"
      unfolding g_def .
    moreover have "order @ [aid] = aggregate_ids (ss @ [s])"
      using new Some by (simp add: aggregate_ids_snoc order)
    moreover have "\<forall>a. map_option fst (gm_get (gm_put aid ?v b) a) = (if aggregate_steps a (ss @ [s]) = []
        then None else Some (group_bucket a (aggregate_steps a (ss @ [s]))))"
    proof
      fix a
      show "map_option fst (gm_get (gm_put aid ?v b) a) = (if aggregate_steps a (ss @ [s]) = []
        then None else Some (group_bucket a (aggregate_steps a (ss @ [s]))))"
        using b[of a] e Some by (cases "a = aid") (auto simp: aggregate_steps_snoc)
    qed
    moreover have "\<forall>a r i. gm_get (gm_put aid ?v b) a = Some (r, i) \<longrightarrow> i < length (ss @ [s])"
      using idx by (auto simp: less_Suc_eq split: if_splits)
    ultimately show ?thesis unfolding st buckets_ok_def by simp
  next
    case (Some ri)
    then obtain r i where ri: "gm_get b aid = Some (r, i)" by (cases ri) auto
    with b[of aid] have e: "aggregate_steps aid ss \<noteq> []" and r: "r = group_bucket aid (aggregate_steps aid ss)"
      by (auto split: if_splits)
    let ?v = "(bucket_add r s, i)"
    have st: "agg_step (b, order) (length ss, s) = (gm_put aid ?v b, order)"
      using \<open>step_aggregate s = Some aid\<close> ri by (simp add: agg_step_def step_aggregate_ref)
    have "map (\<lambda>a. snd (the (gm_get (gm_put aid ?v b) a))) order = map (\<lambda>a. snd (the (gm_get b a))) order"
      using ri by auto
    with srt have "sorted (map (\<lambda>a. snd (the (gm_get (gm_put aid ?v b) a))) order)" by (simp only:)
    moreover have "order = aggregate_ids (ss @ [s])"
      using e \<open>step_aggregate s = Some aid\<close> by (simp add: aggregate_ids_snoc order set_aggregate_ids)
    moreover have "\<forall>a. map_option fst (gm_get (gm_put aid ?v b) a) = (if aggregate_steps a (ss @ [s]) = []
        then None else Some (group_bucket a (aggregate_steps a (ss @ [s]))))"
    proof
      fix a
      show "map_option fst (gm_get (gm_put aid ?v b) a) = (if aggregate_steps a (ss @ [s]) = []
        then None else Some (group_bucket a (aggregate_steps a (ss @ [s]))))"
        using b[of a] e r \<open>step_aggregate s = Some aid\<close>
        by (cases "a = aid") (auto simp: aggregate_steps_snoc group_bucket_snoc)
    qed
    moreover have "\<forall>a r' j. gm_get (gm_put aid ?v b) a = Some (r', j) \<longrightarrow> j < length (ss @ [s])"
      using idx ri by (auto simp: less_Suc_eq split: if_splits)
    ultimately show ?thesis unfolding st buckets_ok_def by simp
  qed
qed

lemma buckets_ok_fold: "buckets_ok ss (foldl agg_step ([], []) (enumerate 0 ss))"
proof (induction ss rule: rev_induct)
  case Nil
  show ?case by (simp add: buckets_ok_def aggregate_ids_def aggregate_steps_def List.map_filter_def)
next
  case (snoc s ss)
  then show ?case
    by (cases "foldl agg_step ([], []) (enumerate 0 ss)") (simp add: enumerate_append_eq buckets_ok_step)
qed

text \<open>The one-pass fold computes the summary of every group, in order of first occurrence.\<close>

lemma AggregateResults_groups:
  "AggregateResultsFromSteps steps =
     map (\<lambda>aid. agg_finish (group_bucket aid (aggregate_steps aid steps))) (aggregate_ids steps)"
proof -
  obtain b order where f: "foldl agg_step ([], []) (enumerate 0 steps) = (b, order)" by fastforce
  with buckets_ok_fold[of steps] have ok: "buckets_ok steps (b, order)" by simp
  let ?lt = "\<lambda>a c. snd (the (gm_get b a)) < snd (the (gm_get b c))"
  have "go_sort ?lt order = sort_key (\<lambda>a. snd (the (gm_get b a))) order"
    by (rule sort_by_key.go_sort_key) (unfold_locales, simp)
  also have "\<dots> = order" using ok by (intro sort_key_id_if_sorted) (auto simp: buckets_ok_def)
  finally have srt: "go_sort ?lt order = order" .
  have "fst (the (gm_get b aid)) = group_bucket aid (aggregate_steps aid steps)"
    if "aid \<in> set (aggregate_ids steps)" for aid
  proof -
    from ok that have "map_option fst (gm_get b aid) = Some (group_bucket aid (aggregate_steps aid steps))"
      by (auto simp: buckets_ok_def set_aggregate_ids)
    then show ?thesis by auto
  qed
  moreover have "order = aggregate_ids steps" using ok by (simp add: buckets_ok_def)
  ultimately show ?thesis using srt f by (simp add: AggregateResultsFromSteps_def)
qed

section \<open>What a summary says\<close>

lemma bucket_add_fold:
  "ag_Completed (foldl bucket_add r ss) = ag_Completed r + int (length (filter (\<lambda>s. sp_Status s = StepCompleted) ss))"
  "ag_Failed (foldl bucket_add r ss) = ag_Failed r + int (length (filter (\<lambda>s. sp_Status s = StepFailed) ss))"
  "ag_Pending (foldl bucket_add r ss) = ag_Pending r
     + int (length (filter (\<lambda>s. sp_Status s \<noteq> StepCompleted \<and> sp_Status s \<noteq> StepFailed) ss))"
  "ag_Targets (foldl bucket_add r ss) = ag_Targets r @ map step_target ss"
  "ag_AggregateID (foldl bucket_add r ss) = ag_AggregateID r"
  "ag_Expected (foldl bucket_add r ss) = ag_Expected r"
  by (induction ss arbitrary: r) (auto simp: bucket_add_def Let_def split: StepStatus.splits)

lemma agg_finish_fields:
  "ag_AggregateID (agg_finish r) = ag_AggregateID r" "ag_Completed (agg_finish r) = ag_Completed r"
  "ag_Failed (agg_finish r) = ag_Failed r" "ag_Pending (agg_finish r) = ag_Pending r"
  "ag_Targets (agg_finish r) = go_sort target_less (ag_Targets r)"
  "ag_Expected (agg_finish r) = (if ag_Expected r \<le> 0 then int (length (ag_Targets r)) else ag_Expected r)"
  "ag_Status (agg_finish r) =
     (if 0 < ag_Pending r then AggregateStatusPending else if ag_Failed r = 0 then AggregateStatusCompleted
      else if 0 < ag_Completed r then AggregateStatusPartialFailed else AggregateStatusFailed)"
  by (simp_all add: agg_finish_def Let_def)

interpretation target_order: sort_by_key target_less
  "\<lambda>t. (tr_TargetID (gt_Target t) = [], tr_TargetID (gt_Target t), gt_StepID t)"
  by unfold_locales (auto simp: target_less_def)

lemmas group_fields = bucket_add_fold agg_finish_fields group_bucket_def new_bucket_def

lemma length_filter_pos_iff: "0 < length (filter P xs) \<longleftrightarrow> (\<exists>x \<in> set xs. P x)"
  by (simp add: filter_empty_conv)

lemma length_filter_zero_iff: "length (filter P xs) = 0 \<longleftrightarrow> (\<forall>x \<in> set xs. \<not> P x)"
  by (simp add: filter_empty_conv)

text \<open>The status of a group, read off its steps.\<close>

lemma group_status:
  "ag_Status (agg_finish (group_bucket aid ss)) =
     (if \<exists>s \<in> set ss. sp_Status s \<noteq> StepCompleted \<and> sp_Status s \<noteq> StepFailed then AggregateStatusPending
      else if \<forall>s \<in> set ss. sp_Status s = StepCompleted then AggregateStatusCompleted
      else if \<exists>s \<in> set ss. sp_Status s = StepCompleted then AggregateStatusPartialFailed
      else AggregateStatusFailed)"
  unfolding group_fields
  by (simp add: length_filter_pos_iff length_filter_zero_iff filter_empty_conv)

lemma group_counts:
  "ag_Completed (agg_finish (group_bucket aid ss)) + ag_Failed (agg_finish (group_bucket aid ss))
     + ag_Pending (agg_finish (group_bucket aid ss)) = int (length ss)"
  unfolding group_fields by (induction ss) auto

section \<open>Properties\<close>

text \<open>
  C16. Aggregation summarises the steps of a plan. There is one result per aggregate id, in the order
  the ids first occur; each result lists exactly the targets of the steps of that aggregate, sorted
  by target and step with unnamed targets last, its counters add up to the number of those steps,
  and its status is pending while a step is neither completed nor failed, completed if all
  completed, failed if none did, and partially failed otherwise.
\<close>

theorem AggregateResults_summarise:
  "map ag_AggregateID (AggregateResultsFromSteps steps) = aggregate_ids steps
   \<and> distinct (map ag_AggregateID (AggregateResultsFromSteps steps))
   \<and> (\<forall>r \<in> set (AggregateResultsFromSteps steps).
        let ss = aggregate_steps (ag_AggregateID r) steps in
        mset (ag_Targets r) = mset (map step_target ss)
        \<and> sorted (map (\<lambda>t. (tr_TargetID (gt_Target t) = [], tr_TargetID (gt_Target t), gt_StepID t)) (ag_Targets r))
        \<and> ag_Completed r = int (length (filter (\<lambda>s. sp_Status s = StepCompleted) ss))
        \<and> ag_Failed r = int (length (filter (\<lambda>s. sp_Status s = StepFailed) ss))
        \<and> ag_Completed r + ag_Failed r + ag_Pending r = int (length ss)
        \<and> ag_Status r =
            (if \<exists>s \<in> set ss. sp_Status s \<noteq> StepCompleted \<and> sp_Status s \<noteq> StepFailed then AggregateStatusPending
             else if \<forall>s \<in> set ss. sp_Status s = StepCompleted then AggregateStatusCompleted
             else if \<exists>s \<in> set ss. sp_Status s = StepCompleted then AggregateStatusPartialFailed
             else AggregateStatusFailed))"
proof -
  have id: "ag_AggregateID (agg_finish (group_bucket aid ss)) = aid" for aid ss
    unfolding group_fields by simp
  then have "map ag_AggregateID (AggregateResultsFromSteps steps) = aggregate_ids steps"
    by (simp add: AggregateResults_groups comp_def)
  moreover have "distinct (aggregate_ids steps)" by (simp add: aggregate_ids_def)
  moreover have "mset (ag_Targets (agg_finish (group_bucket aid ss))) = mset (map step_target ss)"
    "ag_Completed (agg_finish (group_bucket aid ss)) = int (length (filter (\<lambda>s. sp_Status s = StepCompleted) ss))"
    "ag_Failed (agg_finish (group_bucket aid ss)) = int (length (filter (\<lambda>s. sp_Status s = StepFailed) ss))"
    "sorted (map (\<lambda>t. (tr_TargetID (gt_Target t) = [], tr_TargetID (gt_Target t), gt_StepID t))
       (ag_Targets (agg_finish (group_bucket aid ss))))" for aid ss
    unfolding group_fields using target_order.sorted_go_sort by simp_all
  ultimately show ?thesis
    using group_status group_counts by (auto simp: AggregateResults_groups Let_def id)
qed

definition ex_fanout_step :: "string \<Rightarrow> string \<Rightarrow> StepStatus \<Rightarrow> step" where
  "ex_fanout_step sid tid status = zero_step\<lparr>sp_StepID := sid, sp_Status := status,
     sp_Metadata := ApplyTargetMetadata
       (ApplyAggregateMetadata [] AggregateScopeTargetFanout ''agg'' ''p'' ''n'' ''t'' ''continue'' 2)
       \<lparr>tg_TargetID = tid, tg_Kind = ''host'', tg_DisplayName = [], tg_Metadata = []\<rparr> 1 2\<rparr>"

theorem AggregateResults_summarise_witness:
  "let steps = [ex_fanout_step ''s1'' ''b'' StepFailed, zero_step, ex_fanout_step ''s2'' ''a'' StepCompleted] in
   map ag_AggregateID (AggregateResultsFromSteps steps) = [''agg'']
   \<and> map ag_Status (AggregateResultsFromSteps steps) = [AggregateStatusPartialFailed]
   \<and> map gt_StepID (ag_Targets (hd (AggregateResultsFromSteps steps))) = [''s2'', ''s1'']
   \<and> ag_Completed (hd (AggregateResultsFromSteps steps)) + ag_Failed (hd (AggregateResultsFromSteps steps))
       + ag_Pending (hd (AggregateResultsFromSteps steps))
     = int (length (aggregate_steps (ag_AggregateID (hd (AggregateResultsFromSteps steps))) steps))"
proof -
  let ?steps = "[ex_fanout_step ''s1'' ''b'' StepFailed, zero_step, ex_fanout_step ''s2'' ''a'' StepCompleted]"
  have "AggregateResultsFromSteps ?steps \<noteq> []" by code_simp
  from conjunct2[OF conjunct2[OF AggregateResults_summarise], THEN bspec, OF hd_in_set[OF this]]
  have "ag_Completed (hd (AggregateResultsFromSteps ?steps)) + ag_Failed (hd (AggregateResultsFromSteps ?steps))
       + ag_Pending (hd (AggregateResultsFromSteps ?steps))
     = int (length (aggregate_steps (ag_AggregateID (hd (AggregateResultsFromSteps ?steps))) ?steps))"
    unfolding Let_def by (elim conjE)
  moreover have "map ag_AggregateID (AggregateResultsFromSteps ?steps) = [''agg'']" by code_simp
  moreover have "map ag_Status (AggregateResultsFromSteps ?steps) = [AggregateStatusPartialFailed]" by code_simp
  moreover have "map gt_StepID (ag_Targets (hd (AggregateResultsFromSteps ?steps))) = [''s2'', ''s1'']" by code_simp
  ultimately show ?thesis unfolding Let_def by blast
qed

end
