(* ===== verification/Loop_Budgets.thy ===== *)
theory Loop_Budgets
  imports Targets
begin

text \<open>
  The decision core of the runtime loop: \<^verbatim>\<open>pkg/harness/runtime\<close> decision.go, loop.go, budgets.go,
  \<^verbatim>\<open>LoopBudgets\<close> of context_types.go and the state-advancement loop that runner.go and
  fanout_scheduler.go share. Retry arithmetic is 64-bit; the lemmas show when it is exact and
  what happens at the one value where it wraps, that the advancement loop ends in an executable or
  terminal phase, and that retries are bounded.
\<close>

section \<open>Transitions\<close>

datatype Transition =
    TransitionStay | TransitionPrepare | TransitionPlan | TransitionExecute | TransitionVerify
  | TransitionRecover | TransitionComplete | TransitionFailed | TransitionAborted
  | TransitionOther string

record transition_decision =
  td_From :: Phase
  td_To :: Transition
  td_Reason :: string
  td_StepID :: string

definition mk_td :: "session \<Rightarrow> Transition \<Rightarrow> string \<Rightarrow> string \<Rightarrow> transition_decision" where
  "mk_td st to stepID reason = \<lparr>td_From = st_Phase st, td_To = to, td_Reason = reason, td_StepID = stepID\<rparr>"

definition DecideNextTransition :: "session \<Rightarrow> string \<Rightarrow> decision \<Rightarrow> bool \<Rightarrow> transition_decision" where
  "DecideNextTransition st stepID policy verified =
     (if de_Action policy = Deny then mk_td st TransitionFailed stepID ''policy denied action''
      else case st_Phase st of
        PhaseReceived \<Rightarrow> mk_td st TransitionPrepare stepID ''task accepted''
      | PhasePrepare \<Rightarrow> mk_td st TransitionPlan stepID ''preparation complete''
      | PhasePlan \<Rightarrow> mk_td st TransitionExecute stepID ''step selected''
      | PhaseExecute \<Rightarrow> mk_td st TransitionVerify stepID ''action finished''
      | PhaseVerify \<Rightarrow> (if verified then mk_td st TransitionComplete stepID ''verification succeeded''
                        else mk_td st TransitionRecover stepID ''verification failed'')
      | PhaseRecover \<Rightarrow> mk_td st TransitionPlan stepID ''recovery requires replanning''
      | PhaseComplete \<Rightarrow> mk_td st TransitionStay stepID ''already complete''
      | PhaseFailed \<Rightarrow> mk_td st TransitionStay stepID ''already failed''
      | PhaseAborted \<Rightarrow> mk_td st TransitionStay stepID ''already aborted''
      | PhaseOther _ \<Rightarrow> mk_td st TransitionFailed stepID ''unknown phase'')"

fun transition_phase :: "Transition \<Rightarrow> Phase \<Rightarrow> Phase" where
  "transition_phase TransitionPrepare _ = PhasePrepare"
| "transition_phase TransitionPlan _ = PhasePlan"
| "transition_phase TransitionExecute _ = PhaseExecute"
| "transition_phase TransitionVerify _ = PhaseVerify"
| "transition_phase TransitionRecover _ = PhaseRecover"
| "transition_phase TransitionComplete _ = PhaseComplete"
| "transition_phase TransitionFailed _ = PhaseFailed"
| "transition_phase TransitionAborted _ = PhaseAborted"
| "transition_phase TransitionStay p = p"
| "transition_phase (TransitionOther _) p = p"

definition ApplyTransition :: "session \<Rightarrow> transition_decision \<Rightarrow> session" where
  "ApplyTransition st next =
     (let updated = st\<lparr>st_Phase := transition_phase (td_To next) (st_Phase st)\<rparr>
      in if td_StepID next \<noteq> [] then updated\<lparr>st_CurrentStepID := td_StepID next\<rparr> else updated)"

definition isTerminalPhase :: "Phase \<Rightarrow> bool" where
  "isTerminalPhase p = (case p of PhaseComplete \<Rightarrow> True | PhaseFailed \<Rightarrow> True | PhaseAborted \<Rightarrow> True | _ \<Rightarrow> False)"

text \<open>
  The advancement loop of \<^verbatim>\<open>runStepWithDecision\<close> and \<^verbatim>\<open>advanceFanoutState\<close>: transitions taken under an
  allowing decision until the phase is execute or terminal, with the list of transitions.
\<close>

definition advancement :: decision where
  "advancement = mk_decision Allow ''state advancement'' []"

fun phase_rank :: "Phase \<Rightarrow> nat" where
  "phase_rank PhaseReceived = 3"
| "phase_rank PhaseVerify = 3"
| "phase_rank PhasePrepare = 2"
| "phase_rank PhaseRecover = 2"
| "phase_rank PhasePlan = 1"
| "phase_rank (PhaseOther _) = 1"
| "phase_rank _ = 0"

lemma advancement_rank:
  assumes "st_Phase st \<noteq> PhaseExecute" and "\<not> isTerminalPhase (st_Phase st)"
  shows "phase_rank (st_Phase (ApplyTransition st (DecideNextTransition st stepID advancement v)))
    < phase_rank (st_Phase st)"
  using assms
  by (cases "st_Phase st")
    (auto simp: DecideNextTransition_def ApplyTransition_def advancement_def mk_decision_def mk_td_def
      isTerminalPhase_def Let_def)

function advance_state :: "string \<Rightarrow> session \<Rightarrow> session \<times> transition_decision list" where
  "advance_state stepID st =
     (if st_Phase st = PhaseExecute \<or> isTerminalPhase (st_Phase st) then (st, [])
      else let next = DecideNextTransition st stepID advancement False;
               (st', ts) = advance_state stepID (ApplyTransition st next)
           in (st', next # ts))"
  by pat_completeness auto
termination
  by (relation "measure (\<lambda>(_, st). phase_rank (st_Phase st))") (use advancement_rank in auto)

declare advance_state.simps [simp del]

section \<open>Budgets\<close>

record loop_budgets =
  lb_MaxSteps :: int
  lb_MaxRetriesPerStep :: int
  lb_MaxPlanRevisions :: int
  lb_MaxTotalRuntimeMS :: int
  lb_MaxToolOutputChars :: int

definition DefaultLoopBudgets :: loop_budgets where
  "DefaultLoopBudgets = \<lparr>lb_MaxSteps = 8, lb_MaxRetriesPerStep = 3, lb_MaxPlanRevisions = 8,
     lb_MaxTotalRuntimeMS = 300000, lb_MaxToolOutputChars = 8192\<rparr>"

definition ensurePlanRevisionBudgetInStore :: "plan_map option \<Rightarrow> string \<Rightarrow> loop_budgets \<Rightarrow> goerr + unit" where
  "ensurePlanRevisionBudgetInStore store sid budgets =
     (case store of
        None \<Rightarrow> Inr ()
      | Some m \<Rightarrow>
          if lb_MaxPlanRevisions budgets \<le> 0 then Inr ()
          else case plan_LatestBySession sid m of
                 None \<Rightarrow> Inr ()
               | Some latest \<Rightarrow> if lb_MaxPlanRevisions budgets \<le> pl_Revision latest
                                then Inl ErrPlanRevisionBudgetExceeded else Inr ())"

definition ensureRuntimeBudget :: "session \<Rightarrow> loop_budgets \<Rightarrow> int \<Rightarrow> goerr + unit" where
  "ensureRuntimeBudget st budgets now =
     (if lb_MaxTotalRuntimeMS budgets \<le> 0 \<or> st_RuntimeStartedAt st = 0 then Inr ()
      else if lb_MaxTotalRuntimeMS budgets < now - st_RuntimeStartedAt st then Inl ErrRuntimeBudgetExceeded
      else Inr ())"

definition allowedAttempts :: "step \<Rightarrow> loop_budgets \<Rightarrow> int" where
  "allowedAttempts s budgets =
     (let retries = lb_MaxRetriesPerStep budgets;
          retries = (if retries < 0 then 0 else retries);
          mr = of_MaxRetries (sp_OnFail s);
          retries = (if 0 < mr \<and> (retries = 0 \<or> mr < retries) then mr else retries)
      in wrap64 (retries + 1))"

definition ensureStepRetryBudget :: "step \<Rightarrow> loop_budgets \<Rightarrow> goerr + unit" where
  "ensureStepRetryBudget s budgets =
     (if allowedAttempts s budgets \<le> sp_Attempt s then Inl ErrStepRetryBudgetExceeded else Inr ())"

definition normalizedOnFailStrategy :: "step \<Rightarrow> string" where
  "normalizedOnFailStrategy s =
     (let x = of_Strategy (sp_OnFail s)
      in if x = [] \<or> x = ''retry'' then ''retry''
         else if x = ''continue'' then ''continue''
         else if x = ''abort'' then ''abort''
         else if x = ''replan'' then ''replan''
         else if x = ''reinspect'' then ''reinspect''
         else ''retry'')"

definition nextTransitionAfterVerification :: "session \<Rightarrow> step \<Rightarrow> decision \<Rightarrow> bool \<Rightarrow> loop_budgets
    \<Rightarrow> transition_decision" where
  "nextTransitionAfterVerification st s policy verified budgets =
     (if verified then DecideNextTransition st (sp_StepID s) policy True
      else let strategy = normalizedOnFailStrategy s; sid = sp_StepID s
       in if strategy = ''abort'' then mk_td st TransitionFailed sid ''verification failed and on_fail=abort''
          else if strategy = ''replan'' then mk_td st TransitionPlan sid ''verification failed and on_fail=replan''
          else if strategy = ''reinspect'' then
            (if sp_Attempt s < allowedAttempts s budgets
             then mk_td st TransitionPrepare sid ''verification failed, reinspect allowed''
             else mk_td st TransitionFailed sid ''verification failed and retry budget exhausted'')
          else if strategy = ''continue'' then
            (if sp_Attempt s < allowedAttempts s budgets
             then mk_td st TransitionRecover sid ''verification failed, continue retry allowed''
             else mk_td st TransitionPlan sid ''verification failed, continuing after retry exhaustion'')
          else
            (if sp_Attempt s < allowedAttempts s budgets
             then mk_td st TransitionRecover sid ''verification failed, retry allowed''
             else mk_td st TransitionFailed sid ''verification failed and retry budget exhausted''))"

definition stepRetryNotBefore :: "step \<Rightarrow> int option" where
  "stepRetryNotBefore s = int_case (gm_get (sp_Metadata s) ''retry_not_before'')"

definition backoffActive :: "step \<Rightarrow> int \<Rightarrow> bool" where
  "backoffActive s now = (case stepRetryNotBefore s of Some t \<Rightarrow> now < t | None \<Rightarrow> False)"

definition clearStepRetryBackoff :: "step \<Rightarrow> step" where
  "clearStepRetryBackoff s = s\<lparr>sp_Metadata := gm_del ''retry_not_before'' (sp_Metadata s)\<rparr>"

definition applyStepRetryBackoff :: "step \<Rightarrow> transition_decision \<Rightarrow> int \<Rightarrow> step" where
  "applyStepRetryBackoff s next now =
     (case td_To next of
        TransitionRecover \<Rightarrow>
          if of_BackoffMS (sp_OnFail s) \<le> 0 then clearStepRetryBackoff s
          else s\<lparr>sp_Metadata := gm_put ''retry_not_before''
                   (VInt64 (wrap64 (now + of_BackoffMS (sp_OnFail s)))) (sp_Metadata s)\<rparr>
      | TransitionPrepare \<Rightarrow>
          if of_BackoffMS (sp_OnFail s) \<le> 0 then clearStepRetryBackoff s
          else s\<lparr>sp_Metadata := gm_put ''retry_not_before''
                   (VInt64 (wrap64 (now + of_BackoffMS (sp_OnFail s)))) (sp_Metadata s)\<rparr>
      | _ \<Rightarrow> clearStepRetryBackoff s)"

section \<open>Lemmas\<close>

lemmas transition_defs = DecideNextTransition_def ApplyTransition_def mk_td_def mk_decision_def
  advancement_def isTerminalPhase_def Let_def

lemma ApplyTransition_frame:
  "st_SessionID (ApplyTransition st n) = st_SessionID st" "st_TaskID (ApplyTransition st n) = st_TaskID st"
  "st_Version (ApplyTransition st n) = st_Version st" "st_LeaseID (ApplyTransition st n) = st_LeaseID st"
  "st_LeaseExpiresAt (ApplyTransition st n) = st_LeaseExpiresAt st"
  "st_ExecutionState (ApplyTransition st n) = st_ExecutionState st"
  "st_PendingApprovalID (ApplyTransition st n) = st_PendingApprovalID st"
  "st_RetryCount (ApplyTransition st n) = st_RetryCount st"
  "st_Phase (ApplyTransition st n) = transition_phase (td_To n) (st_Phase st)"
  by (simp_all add: ApplyTransition_def Let_def)

lemma mk_td_simps [simp]:
  "td_From (mk_td st t sid r) = st_Phase st" "td_To (mk_td st t sid r) = t"
  "td_StepID (mk_td st t sid r) = sid" "td_Reason (mk_td st t sid r) = r"
  by (simp_all add: mk_td_def)

text \<open>
  The retry budget that applies: the runtime's, or the step's own if that is stricter or the
  runtime sets none.
\<close>

definition retry_limit :: "step \<Rightarrow> loop_budgets \<Rightarrow> int" where
  "retry_limit s budgets =
     (let r = max 0 (lb_MaxRetriesPerStep budgets); m = of_MaxRetries (sp_OnFail s)
      in if m \<le> 0 then r else if r = 0 then m else min r m)"

lemma allowedAttempts_wrap: "allowedAttempts s budgets = wrap64 (retry_limit s budgets + 1)"
  by (auto simp: allowedAttempts_def retry_limit_def Let_def max_def min_def)

lemma retry_limit_nonneg: "0 \<le> retry_limit s budgets"
  by (auto simp: retry_limit_def Let_def)

lemma allowedAttempts_exact:
  assumes "retry_limit s budgets < 2 ^ 63 - 1"
  shows "allowedAttempts s budgets = retry_limit s budgets + 1"
  using assms retry_limit_nonneg[of s budgets] by (simp add: allowedAttempts_wrap in_int64_def)

lemma strategy_cases:
  "normalizedOnFailStrategy s \<in> {''retry'', ''continue'', ''abort'', ''replan'', ''reinspect''}"
  by (simp add: normalizedOnFailStrategy_def Let_def)

lemma advance_state_length:
  "length (snd (advance_state stepID st)) \<le> phase_rank (st_Phase st)"
proof (induction stepID st rule: advance_state.induct)
  case (1 stepID st)
  then show ?case
    using advancement_rank[of st stepID False]
    by (subst advance_state.simps) (auto simp: Let_def case_prod_beta)
qed

section \<open>Properties\<close>


text \<open>
  C17. Retries are bounded. A failed verification leads back into the step (recover or prepare) only
  if its strategy retries and the step has been attempted fewer times than the retry limit in
  force plus one; when the budget is used up the session fails, or, under the continue strategy,
  goes on with the plan. Such a step is refused by the retry check and never run again. This holds
  for every limit below the largest 64-bit integer.
\<close>

theorem retries_bounded:
  assumes "retry_limit s budgets < 2 ^ 63 - 1"
  shows "(td_To (nextTransitionAfterVerification st s policy False budgets) \<in> {TransitionRecover, TransitionPrepare}
      \<longleftrightarrow> normalizedOnFailStrategy s \<in> {''retry'', ''continue'', ''reinspect''}
          \<and> sp_Attempt s \<le> retry_limit s budgets)
    \<and> (retry_limit s budgets < sp_Attempt s \<longrightarrow>
        ensureStepRetryBudget s budgets = Inl ErrStepRetryBudgetExceeded
        \<and> td_To (nextTransitionAfterVerification st s policy False budgets)
          = (if normalizedOnFailStrategy s \<in> {''continue'', ''replan''} then TransitionPlan else TransitionFailed))
    \<and> (sp_Attempt s \<le> retry_limit s budgets \<longrightarrow> ensureStepRetryBudget s budgets = Inr ())"
proof -
  note e = allowedAttempts_exact[OF assms]
  have "sp_Attempt s < allowedAttempts s budgets \<longleftrightarrow> sp_Attempt s \<le> retry_limit s budgets"
    unfolding e by linarith
  moreover have "allowedAttempts s budgets \<le> sp_Attempt s \<longleftrightarrow> \<not> sp_Attempt s \<le> retry_limit s budgets"
    unfolding e by linarith
  ultimately show ?thesis
    using strategy_cases[of s] unfolding nextTransitionAfterVerification_def ensureStepRetryBudget_def Let_def
    by auto
qed

theorem retries_bounded_witness:
  "td_To (nextTransitionAfterVerification zero_session (zero_step\<lparr>sp_Attempt := 4\<rparr>) advancement False DefaultLoopBudgets)
     = TransitionFailed
   \<and> retry_limit (zero_step\<lparr>sp_Attempt := 4\<rparr>) DefaultLoopBudgets = 3"
proof -
  let ?s = "zero_step\<lparr>sp_Attempt := 4\<rparr>"
  have l: "retry_limit ?s DefaultLoopBudgets = 3" by code_simp
  moreover have "normalizedOnFailStrategy ?s = ''retry''" by code_simp
  ultimately show ?thesis
    using retries_bounded[of ?s DefaultLoopBudgets zero_session advancement] by simp
qed

text \<open>
  At the largest 64-bit integer, the natural way to ask for unlimited retries, the sum
  \<^verbatim>\<open>retries + 1\<close> wraps around: every step is refused before its first attempt.
\<close>

theorem retry_limit_overflow:
  assumes "lb_MaxRetriesPerStep budgets = 2 ^ 63 - 1" and "of_MaxRetries (sp_OnFail s) \<le> 0" and "0 \<le> sp_Attempt s"
  shows "allowedAttempts s budgets = - (2 ^ 63)
    \<and> ensureStepRetryBudget s budgets = Inl ErrStepRetryBudgetExceeded"
proof -
  have "retry_limit s budgets = 2 ^ 63 - 1" using assms by (simp add: retry_limit_def)
  then have "allowedAttempts s budgets = - (2 ^ 63)" by (simp add: allowedAttempts_wrap wrap64_def)
  with assms(3) show ?thesis by (simp add: ensureStepRetryBudget_def)
qed

theorem retry_limit_overflow_witness:
  "ensureStepRetryBudget zero_step (DefaultLoopBudgets\<lparr>lb_MaxRetriesPerStep := 9223372036854775807\<rparr>)
     = Inl ErrStepRetryBudgetExceeded"
  using retry_limit_overflow[of "DefaultLoopBudgets\<lparr>lb_MaxRetriesPerStep := 9223372036854775807\<rparr>" zero_step]
  by (simp add: zero_step_def)

text \<open>
  Backoff delays a retry and nothing else. After a failed verification that leads to a retry,
  a step with a positive backoff is not run before the delay has passed and may run from then on;
  a step without backoff, and a step after any other transition, may run at once.
\<close>

theorem backoff_respected:
  assumes "in_int64 (now + of_BackoffMS (sp_OnFail s))"
  shows "backoffActive (applyStepRetryBackoff s next now) t \<longleftrightarrow>
     td_To next \<in> {TransitionRecover, TransitionPrepare} \<and> 0 < of_BackoffMS (sp_OnFail s)
     \<and> t < now + of_BackoffMS (sp_OnFail s)"
proof -
  have "map_of (gm_del k md) k = None" for k and md :: meta by (simp add: delete_conv)
  then have clear: "\<not> backoffActive (clearStepRetryBackoff s) t"
    by (simp add: backoffActive_def clearStepRetryBackoff_def stepRetryNotBefore_def)
  have "backoffActive (s\<lparr>sp_Metadata := gm_put ''retry_not_before''
      (VInt64 (wrap64 (now + of_BackoffMS (sp_OnFail s)))) (sp_Metadata s)\<rparr>) t \<longleftrightarrow>
      t < now + of_BackoffMS (sp_OnFail s)"
    using assms by (simp add: backoffActive_def stepRetryNotBefore_def)
  with clear show ?thesis by (auto simp: applyStepRetryBackoff_def split: Transition.split)
qed

theorem backoff_respected_witness:
  "backoffActive (applyStepRetryBackoff (zero_step\<lparr>sp_OnFail := \<lparr>of_Strategy = [], of_MaxRetries = 0, of_BackoffMS = 50\<rparr>\<rparr>)
     (mk_td zero_session TransitionRecover [] []) 100) 149"
  using backoff_respected[of 100 "zero_step\<lparr>sp_OnFail := \<lparr>of_Strategy = [], of_MaxRetries = 0, of_BackoffMS = 50\<rparr>\<rparr>"
      "mk_td zero_session TransitionRecover [] []" 149]
  by (simp add: in_int64_def zero_step_def)

end
