(* ===== verification/Plan_Outcome.thy ===== *)
theory Plan_Outcome
  imports Loop_Budgets
begin

text \<open>
  What a plan's steps mean for the session: \<^verbatim>\<open>pkg/harness/runtime\<close> plan_outcome.go, plan_identity.go
  and the step selection of session_driver.go. The outcome of a plan (failed, to be continued,
  completed) is computed by one loop with early returns over the steps and their aggregates; the
  lemmas give it a declarative reading and show that the driver's selection agrees with it.
\<close>

section \<open>Outcome of a plan\<close>

record plan_outcome =
  po_Aggregates :: "aggregate_result list"
  po_Continue :: bool
  po_Fail :: bool
  po_Reason :: string

definition mk_outcome :: "aggregate_result list \<Rightarrow> bool \<Rightarrow> bool \<Rightarrow> string \<Rightarrow> plan_outcome" where
  "mk_outcome ags c f r = \<lparr>po_Aggregates = ags, po_Continue = c, po_Fail = f, po_Reason = r\<rparr>"

text \<open>The statuses \<^verbatim>\<open>""\<close>, pending, running and blocked.\<close>

definition open_status :: "StepStatus \<Rightarrow> bool" where
  "open_status st \<longleftrightarrow> st = StepUnset \<or> st = StepPending \<or> st = StepRunning \<or> st = StepBlocked"

fun exhausted_loop :: "string \<Rightarrow> loop_budgets \<Rightarrow> bool \<Rightarrow> step list \<Rightarrow> bool" where
  "exhausted_loop aid budgets found [] = found"
| "exhausted_loop aid budgets found (s # ss) =
     (if map_option fst (AggregateRefFromMetadata (sp_Metadata s)) \<noteq> Some aid
      then exhausted_loop aid budgets found ss
      else if open_status (sp_Status s) \<or> sp_Status s = StepCompleted then False
      else if sp_Status s = StepFailed \<and> sp_Attempt s < allowedAttempts s budgets then False
      else exhausted_loop aid budgets True ss)"

definition aggregateExhaustedAsFailed :: "plan \<Rightarrow> string \<Rightarrow> loop_budgets \<Rightarrow> bool" where
  "aggregateExhaustedAsFailed spec aid budgets = exhausted_loop aid budgets False (pl_Steps spec)"

text \<open>The map \<^verbatim>\<open>aggregateByID\<close>; a missing id gives Go's zero aggregate, whose status matches no case.\<close>

definition aggregate_map :: "aggregate_result list \<Rightarrow> aggregate_result gomap" where
  "aggregate_map ags = foldl (\<lambda>m a. gm_put (ag_AggregateID a) a m) [] ags"

text \<open>
  The loop over the steps: \<open>Inl reason\<close> is an early return with \<^verbatim>\<open>Fail\<close>, \<open>Inr\<close> the flags
  \<^verbatim>\<open>hasPending\<close> and \<^verbatim>\<open>hasRecoverableFailure\<close> at the end.
\<close>

fun outcome_loop :: "plan \<Rightarrow> loop_budgets \<Rightarrow> aggregate_result gomap \<Rightarrow> bool \<Rightarrow> bool \<Rightarrow> step list
    \<Rightarrow> string + (bool \<times> bool)" where
  "outcome_loop spec budgets byID hasPending hasRecoverable [] = Inr (hasPending, hasRecoverable)"
| "outcome_loop spec budgets byID hasPending hasRecoverable (s # ss) =
     (if open_status (sp_Status s) then outcome_loop spec budgets byID True hasRecoverable ss
      else if sp_Status s = StepFailed then
        (let strategy = normalizedOnFailStrategy s
         in if strategy = ''abort'' then Inl ''plan contains aborting failed step''
            else if strategy = ''replan'' \<or> strategy = ''retry'' \<or> strategy = ''reinspect''
              then outcome_loop spec budgets byID hasPending True ss
            else if strategy = ''continue'' then
              (if sp_Attempt s < allowedAttempts s budgets
               then outcome_loop spec budgets byID hasPending True ss
               else case AggregateRefFromMetadata (sp_Metadata s) of
                 None \<Rightarrow> outcome_loop spec budgets byID hasPending hasRecoverable ss
               | Some (aid, _) \<Rightarrow>
                   (case map_option ag_Status (gm_get byID aid) of
                      Some AggregateStatusFailed \<Rightarrow>
                        if \<not> aggregateExhaustedAsFailed spec aid budgets
                        then outcome_loop spec budgets byID hasPending True ss
                        else Inl ''fan-out aggregate failed''
                    | Some AggregateStatusPending \<Rightarrow> outcome_loop spec budgets byID True hasRecoverable ss
                    | _ \<Rightarrow> outcome_loop spec budgets byID hasPending hasRecoverable ss))
            else outcome_loop spec budgets byID hasPending True ss)
      else outcome_loop spec budgets byID hasPending hasRecoverable ss)"

definition planExecutionOutcomeForSpec :: "plan \<Rightarrow> loop_budgets \<Rightarrow> plan_outcome" where
  "planExecutionOutcomeForSpec spec budgets =
     (let aggregates = AggregateResultsFromPlan spec
      in case outcome_loop spec budgets (aggregate_map aggregates) False False (pl_Steps spec) of
           Inl reason \<Rightarrow> mk_outcome aggregates False True reason
         | Inr (hasPending, hasRecoverable) \<Rightarrow>
             if hasPending then mk_outcome aggregates True False ''plan has remaining steps''
             else if hasRecoverable then mk_outcome aggregates True False ''plan contains recoverable failed steps''
             else if list_ex (\<lambda>a. ag_Status a = AggregateStatusFailed
                    \<and> aggregateExhaustedAsFailed spec (ag_AggregateID a) budgets) aggregates
               then mk_outcome aggregates False True ''fan-out aggregate failed''
             else mk_outcome aggregates False False [])"

definition planStatusForSpec :: "plan \<Rightarrow> loop_budgets \<Rightarrow> PlanStatus" where
  "planStatusForSpec spec budgets =
     (let outcome = planExecutionOutcomeForSpec spec budgets
      in if po_Fail outcome then StatusFailed else if po_Continue outcome then StatusActive
         else StatusCompleted)"

definition replacePlanStep :: "plan \<Rightarrow> step \<Rightarrow> plan" where
  "replacePlanStep spec s = spec\<lparr>pl_Steps := update_first (\<lambda>x. sp_StepID x = sp_StepID s) (\<lambda>_. s) (pl_Steps spec)\<rparr>"

definition transitionForPlanOutcome :: "session \<Rightarrow> step \<Rightarrow> plan_outcome \<Rightarrow> transition_decision" where
  "transitionForPlanOutcome st s outcome =
     (if po_Fail outcome then mk_td st TransitionFailed (sp_StepID s) (po_Reason outcome)
      else if po_Continue outcome then mk_td st TransitionPlan (sp_StepID s) (po_Reason outcome)
      else mk_td st TransitionComplete (sp_StepID s) ''plan completed'')"

text \<open>
  \<^verbatim>\<open>reconcileTransitionWithPlan\<close>, on what the plan read returned: an error, no plan or the latest plan.
\<close>

definition reconcileTransitionWithPlan :: "(goerr + plan option) \<Rightarrow> loop_budgets \<Rightarrow> session \<Rightarrow> step \<Rightarrow> bool
    \<Rightarrow> transition_decision \<Rightarrow> goerr + transition_decision" where
  "reconcileTransitionWithPlan latestPlan budgets st s verified next =
     (let shouldReconcile = (verified \<or> normalizedOnFailStrategy s = ''continue''
                               \<and> allowedAttempts s budgets \<le> sp_Attempt s)
      in if \<not> shouldReconcile then Inr next
         else case latestPlan of
           Inl e \<Rightarrow> Inl e
         | Inr None \<Rightarrow> Inr next
         | Inr (Some latest) \<Rightarrow>
             Inr (transitionForPlanOutcome st s
                    (planExecutionOutcomeForSpec (replacePlanStep latest s) budgets)))"

section \<open>Identity of plans and steps\<close>

definition annotateStepIdentity :: "step \<Rightarrow> string \<Rightarrow> int \<Rightarrow> step" where
  "annotateStepIdentity s planID planRevision =
     s\<lparr>sp_PlanID := or_str (sp_PlanID s) planID, sp_PlanRevision := or_int (sp_PlanRevision s) planRevision\<rparr>"

definition annotatePlanIdentity :: "plan \<Rightarrow> plan" where
  "annotatePlanIdentity spec =
     spec\<lparr>pl_Steps := map (\<lambda>s. annotateStepIdentity s (pl_PlanID spec) (pl_Revision spec)) (pl_Steps spec)\<rparr>"

fun intValue :: "gval option \<Rightarrow> int" where
  "intValue (Some (VInt n)) = n"
| "intValue (Some (VInt32 n)) = n"
| "intValue (Some (VInt64 n)) = n"
| "intValue (Some (VFloat64 q)) = rat_trunc q"
| "intValue _ = 0"

definition planRefFromSession :: "session \<Rightarrow> (string \<times> int) option" where
  "planRefFromSession st =
     (let planID = as_string (gm_get (st_Metadata st) ''_kernel_current_plan_id'')
      in if planID = [] then None
         else Some (planID, intValue (gm_get (st_Metadata st) ''_kernel_current_plan_revision'')))"

definition setSessionPlanRef :: "session \<Rightarrow> step \<Rightarrow> session" where
  "setSessionPlanRef st s =
     (if sp_PlanID s = [] then st
      else st\<lparr>st_Metadata :=
        put_if (0 < sp_PlanRevision s) ''_kernel_current_plan_revision'' (VInt (sp_PlanRevision s))
          (gm_put ''_kernel_current_plan_id'' (VStr (sp_PlanID s)) (st_Metadata st))\<rparr>)"

definition annotateStepFromSession :: "session \<Rightarrow> step \<Rightarrow> step" where
  "annotateStepFromSession st s =
     (if sp_PlanID s \<noteq> [] then s
      else case planRefFromSession st of
        None \<Rightarrow> s
      | Some (planID, planRevision) \<Rightarrow> annotateStepIdentity s planID planRevision)"

definition planForStepInStore :: "plan_map option \<Rightarrow> string \<Rightarrow> step \<Rightarrow> plan option" where
  "planForStepInStore store sid s =
     (case store of
        None \<Rightarrow> None
      | Some m \<Rightarrow>
          (case (if sp_PlanID s \<noteq> [] then plan_Get (sp_PlanID s) m else Inl ErrPlanNotFound) of
             Inr item \<Rightarrow> Some (annotatePlanIdentity item)
           | Inl _ \<Rightarrow> map_option annotatePlanIdentity (plan_LatestBySession sid m)))"

section \<open>Selection of the next step\<close>

record step_selection =
  ss_Step :: step
  ss_HasStep :: bool
  ss_NeedsPlanning :: bool

definition select_step :: "step \<Rightarrow> step_selection" where
  "select_step s = \<lparr>ss_Step = s, ss_HasStep = True, ss_NeedsPlanning = False\<rparr>"

definition select_none :: step_selection where
  "select_none = \<lparr>ss_Step = zero_step, ss_HasStep = False, ss_NeedsPlanning = False\<rparr>"

definition select_replan :: step_selection where
  "select_replan = \<lparr>ss_Step = zero_step, ss_HasStep = False, ss_NeedsPlanning = True\<rparr>"

definition findPlanStepByID :: "plan \<Rightarrow> string \<Rightarrow> step option" where
  "findPlanStepByID latest stepID = List.find (\<lambda>s. sp_StepID s = stepID) (pl_Steps latest)"

definition executableStepByID :: "plan \<Rightarrow> string \<Rightarrow> loop_budgets \<Rightarrow> step option" where
  "executableStepByID latest stepID budgets =
     (if stepID = [] then None
      else case findPlanStepByID latest stepID of
        None \<Rightarrow> None
      | Some s \<Rightarrow>
          if sp_Status s = StepUnset \<or> sp_Status s = StepPending \<or> sp_Status s = StepRunning then Some s
          else if sp_Status s = StepFailed then
            (let strategy = normalizedOnFailStrategy s
             in if strategy = ''replan'' \<or> strategy = ''abort'' then None
                else if strategy = ''continue'' then
                  (if sp_Attempt s < allowedAttempts s budgets then Some s else None)
                else Some s)
          else None)"

definition pinnedStepForSession :: "session \<Rightarrow> plan \<Rightarrow> loop_budgets \<Rightarrow> step option" where
  "pinnedStepForSession st latest budgets =
     (case (if st_InFlightStepID st \<noteq> [] then executableStepByID latest (st_InFlightStepID st) budgets else None) of
        Some s \<Rightarrow> Some s
      | None \<Rightarrow> if st_CurrentStepID st \<noteq> [] then executableStepByID latest (st_CurrentStepID st) budgets else None)"

definition firstPendingPlanStep :: "plan \<Rightarrow> step option" where
  "firstPendingPlanStep latest = List.find (\<lambda>s. sp_Status s = StepUnset \<or> sp_Status s = StepPending) (pl_Steps latest)"

definition firstFailedPlanStep :: "plan \<Rightarrow> loop_budgets \<Rightarrow> step option" where
  "firstFailedPlanStep latest budgets =
     List.find (\<lambda>s. sp_Status s = StepFailed
       \<and> \<not> (normalizedOnFailStrategy s = ''continue'' \<and> allowedAttempts s budgets \<le> sp_Attempt s)) (pl_Steps latest)"

definition selectNextStepForSession :: "session \<Rightarrow> plan \<Rightarrow> plan \<Rightarrow> loop_budgets \<Rightarrow> step_selection" where
  "selectNextStepForSession st pinned latest budgets =
     (case pinnedStepForSession st pinned budgets of
        Some s \<Rightarrow> select_step s
      | None \<Rightarrow>
          (case firstPendingPlanStep latest of
             Some s \<Rightarrow> select_step s
           | None \<Rightarrow>
               (case firstFailedPlanStep latest budgets of
                  Some s \<Rightarrow>
                    if normalizedOnFailStrategy s = ''replan'' then select_replan
                    else if normalizedOnFailStrategy s = ''abort'' then select_none
                    else select_step s
                | None \<Rightarrow> select_none)))"

section \<open>Lemmas: the declarative reading of the outcome\<close>

abbreviation step_failed :: "step \<Rightarrow> bool" where
  "step_failed s \<equiv> sp_Status s = StepFailed"

text \<open>A failed step whose strategy lets the plan continue once its attempts are used up.\<close>

definition given_up :: "loop_budgets \<Rightarrow> step \<Rightarrow> bool" where
  "given_up budgets s \<longleftrightarrow> step_failed s \<and> normalizedOnFailStrategy s = ''continue''
     \<and> allowedAttempts s budgets \<le> sp_Attempt s"

text \<open>A fan-out of which every step failed and none has an attempt left.\<close>

definition dead_aggregate :: "plan \<Rightarrow> loop_budgets \<Rightarrow> string \<Rightarrow> bool" where
  "dead_aggregate spec budgets aid \<longleftrightarrow> aggregate_steps aid (pl_Steps spec) \<noteq> []
     \<and> (\<forall>s \<in> set (aggregate_steps aid (pl_Steps spec)). step_failed s \<and> allowedAttempts s budgets \<le> sp_Attempt s)"

lemma exhausted_loop_iff:
  "exhausted_loop aid budgets found ss \<longleftrightarrow>
     (found \<or> aggregate_steps aid ss \<noteq> [])
     \<and> (\<forall>s \<in> set (aggregate_steps aid ss). \<not> open_status (sp_Status s) \<and> sp_Status s \<noteq> StepCompleted
          \<and> (step_failed s \<longrightarrow> allowedAttempts s budgets \<le> sp_Attempt s))"
  by (induction ss arbitrary: found)
    (auto simp: aggregate_steps_def step_aggregate_def)

lemma aggregate_map_get:
  assumes "distinct (map ag_AggregateID ags)"
  shows "gm_get (aggregate_map ags) aid = List.find (\<lambda>a. ag_AggregateID a = aid) ags"
  using assms
proof (induction ags rule: rev_induct)
  case Nil
  show ?case by (simp add: aggregate_map_def)
next
  case (snoc a ags)
  then have "gm_get (aggregate_map ags) aid = List.find (\<lambda>a. ag_AggregateID a = aid) ags" by simp
  moreover have "aggregate_map (ags @ [a]) = gm_put (ag_AggregateID a) a (aggregate_map ags)"
    by (simp add: aggregate_map_def)
  moreover have "List.find (\<lambda>x. ag_AggregateID x = aid) (ags @ [a]) =
      (if aid = ag_AggregateID a then Some a else List.find (\<lambda>x. ag_AggregateID x = aid) ags)"
    using snoc.prems by (induction ags) auto
  ultimately show ?case by simp
qed

text \<open>The status the loop reads for a step's aggregate is the status of the group of that id.\<close>

definition group_state :: "plan \<Rightarrow> string \<Rightarrow> AggregateStatus" where
  "group_state spec aid = ag_Status (agg_finish (group_bucket aid (aggregate_steps aid (pl_Steps spec))))"

lemma group_id: "ag_AggregateID (agg_finish (group_bucket aid ss)) = aid"
  unfolding group_fields by simp

lemma aggregate_results_distinct: "distinct (map ag_AggregateID (AggregateResultsFromPlan spec))"
  by (simp add: AggregateResultsFromPlan_def AggregateResults_groups comp_def group_id aggregate_ids_def)

lemma find_map_key:
  assumes "aid \<in> set xs" and "\<And>x. key (f x) = x"
  shows "List.find (\<lambda>a. key a = aid) (map f xs) = Some (f aid)"
  using assms by (induction xs) auto

lemma aggregate_status_read:
  assumes "aggregate_steps aid (pl_Steps spec) \<noteq> []"
  shows "map_option ag_Status (gm_get (aggregate_map (AggregateResultsFromPlan spec)) aid) = Some (group_state spec aid)"
proof -
  have "gm_get (aggregate_map (AggregateResultsFromPlan spec)) aid
      = Some (agg_finish (group_bucket aid (aggregate_steps aid (pl_Steps spec))))"
    unfolding aggregate_map_get[OF aggregate_results_distinct]
    unfolding AggregateResultsFromPlan_def AggregateResults_groups
    using assms by (intro find_map_key) (simp_all add: set_aggregate_ids group_id)
  then show ?thesis by (simp add: group_state_def)
qed

lemma group_state_failed:
  assumes "aggregate_steps aid (pl_Steps spec) \<noteq> []"
  shows "group_state spec aid = AggregateStatusFailed \<longleftrightarrow> (\<forall>s \<in> set (aggregate_steps aid (pl_Steps spec)). step_failed s)"
proof -
  obtain x where "x \<in> set (aggregate_steps aid (pl_Steps spec))" using assms by (meson hd_in_set)
  then show ?thesis unfolding group_state_def group_status by force
qed

lemma dead_aggregate_iff:
  assumes "aggregate_steps aid (pl_Steps spec) \<noteq> []"
  shows "group_state spec aid = AggregateStatusFailed \<and> aggregateExhaustedAsFailed spec aid budgets
    \<longleftrightarrow> dead_aggregate spec budgets aid"
  using assms unfolding group_state_failed[OF assms] dead_aggregate_def aggregateExhaustedAsFailed_def exhausted_loop_iff
  by (auto simp: open_status_def)

lemma step_aggregate_steps:
  "s \<in> set steps \<Longrightarrow> step_aggregate s = Some aid \<Longrightarrow> aggregate_steps aid steps \<noteq> []"
  by (auto simp: aggregate_steps_def filter_empty_conv)

text \<open>How one step contributes to the loop: it ends it, or raises a flag.\<close>

definition step_fatal :: "plan \<Rightarrow> loop_budgets \<Rightarrow> step \<Rightarrow> bool" where
  "step_fatal spec budgets s \<longleftrightarrow> step_failed s \<and> (normalizedOnFailStrategy s = ''abort''
     \<or> given_up budgets s \<and> (\<exists>aid. step_aggregate s = Some aid \<and> dead_aggregate spec budgets aid))"

definition step_waiting :: "plan \<Rightarrow> loop_budgets \<Rightarrow> step \<Rightarrow> bool" where
  "step_waiting spec budgets s \<longleftrightarrow> open_status (sp_Status s)
     \<or> given_up budgets s \<and> (\<exists>aid. step_aggregate s = Some aid \<and> group_state spec aid = AggregateStatusPending)"

definition step_recoverable :: "plan \<Rightarrow> loop_budgets \<Rightarrow> step \<Rightarrow> bool" where
  "step_recoverable spec budgets s \<longleftrightarrow> step_failed s \<and> (\<not> given_up budgets s
     \<or> (\<exists>aid. step_aggregate s = Some aid \<and> group_state spec aid = AggregateStatusFailed))"

lemma outcome_loop_step:
  assumes "s \<in> set (pl_Steps spec)"
  shows "(step_fatal spec budgets s \<longrightarrow>
       (\<exists>r. outcome_loop spec budgets (aggregate_map (AggregateResultsFromPlan spec)) p r0 (s # ss) = Inl r))
    \<and> (\<not> step_fatal spec budgets s \<longrightarrow>
       outcome_loop spec budgets (aggregate_map (AggregateResultsFromPlan spec)) p r0 (s # ss) =
       outcome_loop spec budgets (aggregate_map (AggregateResultsFromPlan spec))
         (p \<or> step_waiting spec budgets s) (r0 \<or> step_recoverable spec budgets s) ss)"
proof (cases "step_failed s")
  case False
  then show ?thesis by (auto simp: step_fatal_def step_waiting_def step_recoverable_def given_up_def)
next
  case True
  then have no: "\<not> open_status (sp_Status s)" by (simp add: open_status_def)
  show ?thesis
  proof (cases "given_up budgets s")
    case False
    then show ?thesis using True no strategy_cases[of s]
      by (auto simp: step_fatal_def step_waiting_def step_recoverable_def given_up_def)
  next
    case gu: True
    then have str: "normalizedOnFailStrategy s = ''continue''" "\<not> sp_Attempt s < allowedAttempts s budgets"
      by (auto simp: given_up_def)
    show ?thesis
    proof (cases "step_aggregate s")
      case None
      then show ?thesis using True no str gu
        by (simp add: step_fatal_def step_waiting_def step_recoverable_def step_aggregate_ref)
    next
      case (Some aid)
      note ne = step_aggregate_steps[OF assms Some]
      show ?thesis using True no str gu Some aggregate_status_read[OF ne] dead_aggregate_iff[OF ne, of budgets]
        by (cases "group_state spec aid")
          (auto simp: step_fatal_def step_waiting_def step_recoverable_def step_aggregate_ref)
    qed
  qed
qed

lemma outcome_loop_result:
  assumes "set ss \<subseteq> set (pl_Steps spec)"
  shows "if \<exists>s \<in> set ss. step_fatal spec budgets s
    then \<exists>r. outcome_loop spec budgets (aggregate_map (AggregateResultsFromPlan spec)) p r0 ss = Inl r
    else outcome_loop spec budgets (aggregate_map (AggregateResultsFromPlan spec)) p r0 ss =
      Inr (p \<or> (\<exists>s \<in> set ss. step_waiting spec budgets s), r0 \<or> (\<exists>s \<in> set ss. step_recoverable spec budgets s))"
  using assms
proof (induction ss arbitrary: p r0)
  case Nil
  show ?case by simp
next
  case (Cons s ss)
  then have "s \<in> set (pl_Steps spec)" and sub: "set ss \<subseteq> set (pl_Steps spec)" by auto
  note st = outcome_loop_step[OF this(1), of budgets p r0 ss]
  show ?case
  proof (cases "step_fatal spec budgets s")
    case True
    with st show ?thesis by (simp del: outcome_loop.simps)
  next
    case False
    with st Cons.IH[OF sub, of "p \<or> step_waiting spec budgets s" "r0 \<or> step_recoverable spec budgets s"]
    show ?thesis by (simp del: outcome_loop.simps add: disj_assoc)
  qed
qed

lemma no_dead_without_fatal:
  assumes "\<not> (\<exists>s \<in> set (pl_Steps spec). step_fatal spec budgets s)"
    and "\<not> (\<exists>s \<in> set (pl_Steps spec). step_recoverable spec budgets s)"
  shows "\<not> dead_aggregate spec budgets aid"
proof
  assume d: "dead_aggregate spec budgets aid"
  then obtain s where "s \<in> set (aggregate_steps aid (pl_Steps spec))"
    unfolding dead_aggregate_def by (meson hd_in_set)
  then have s: "s \<in> set (pl_Steps spec)" "step_aggregate s = Some aid" "step_failed s"
    using d by (auto simp: aggregate_steps_def dead_aggregate_def)
  with assms(2) have "given_up budgets s" by (auto simp: step_recoverable_def)
  with s d assms(1) show False by (auto simp: step_fatal_def)
qed

text \<open>The final loop over the aggregates never finds anything the first loop has not.\<close>

lemma outcome_flags:
  "po_Fail (planExecutionOutcomeForSpec spec budgets) \<longleftrightarrow> (\<exists>s \<in> set (pl_Steps spec). step_fatal spec budgets s)"
  "po_Continue (planExecutionOutcomeForSpec spec budgets) \<longleftrightarrow> \<not> (\<exists>s \<in> set (pl_Steps spec). step_fatal spec budgets s)
     \<and> (\<exists>s \<in> set (pl_Steps spec). step_waiting spec budgets s \<or> step_recoverable spec budgets s)"
proof -
  let ?ags = "AggregateResultsFromPlan spec"
  have dead: "\<not> list_ex (\<lambda>a. ag_Status a = AggregateStatusFailed
      \<and> aggregateExhaustedAsFailed spec (ag_AggregateID a) budgets) ?ags"
    if no: "\<not> (\<exists>s \<in> set (pl_Steps spec). step_fatal spec budgets s)"
      "\<not> (\<exists>s \<in> set (pl_Steps spec). step_recoverable spec budgets s)"
  proof -
    have "\<not> (group_state spec aid = AggregateStatusFailed \<and> aggregateExhaustedAsFailed spec aid budgets)"
      if "aid \<in> set (aggregate_ids (pl_Steps spec))" for aid
      using that dead_aggregate_iff[of aid spec budgets] no_dead_without_fatal[OF no]
      by (auto simp: set_aggregate_ids)
    then show ?thesis
      by (auto simp: list_ex_iff AggregateResultsFromPlan_def AggregateResults_groups group_id group_state_def)
  qed
  show "po_Fail (planExecutionOutcomeForSpec spec budgets) \<longleftrightarrow> (\<exists>s \<in> set (pl_Steps spec). step_fatal spec budgets s)"
    "po_Continue (planExecutionOutcomeForSpec spec budgets) \<longleftrightarrow> \<not> (\<exists>s \<in> set (pl_Steps spec). step_fatal spec budgets s)
     \<and> (\<exists>s \<in> set (pl_Steps spec). step_waiting spec budgets s \<or> step_recoverable spec budgets s)"
    using outcome_loop_result[OF subset_refl, of spec budgets False False] dead
    by (auto simp: planExecutionOutcomeForSpec_def mk_outcome_def Let_def split: if_splits)
qed

text \<open>
  If nothing is fatal but some step keeps the plan going, then a step is open, or a failed step has
  not been given up, or a fan-out has a step in another status.
\<close>

lemma waiting_or_retryable:
  assumes "\<not> (\<exists>s \<in> set (pl_Steps spec). step_fatal spec budgets s)"
    and "\<exists>s \<in> set (pl_Steps spec). step_waiting spec budgets s \<or> step_recoverable spec budgets s"
    and "\<forall>s \<in> set (pl_Steps spec). sp_Status s \<in> {StepUnset, StepPending, StepCompleted, StepFailed}"
  shows "(\<exists>s \<in> set (pl_Steps spec). sp_Status s = StepUnset \<or> sp_Status s = StepPending)
    \<or> (\<exists>s \<in> set (pl_Steps spec). step_failed s \<and> \<not> given_up budgets s)"
proof (rule ccontr)
  assume c: "\<not> ?thesis"
  then have closed: "sp_Status s = StepCompleted \<or> step_failed s" "step_failed s \<Longrightarrow> given_up budgets s"
    if "s \<in> set (pl_Steps spec)" for s
    using assms(3) that by auto
  from assms(2) obtain s where s: "s \<in> set (pl_Steps spec)"
    and w: "step_waiting spec budgets s \<or> step_recoverable spec budgets s" by blast
  from w closed[OF s] obtain aid where aid: "step_aggregate s = Some aid"
    and g: "group_state spec aid = AggregateStatusPending \<or> group_state spec aid = AggregateStatusFailed"
    and gu: "given_up budgets s"
    by (auto simp: step_waiting_def step_recoverable_def open_status_def given_up_def)
  have sub: "x \<in> set (pl_Steps spec)" if "x \<in> set (aggregate_steps aid (pl_Steps spec))" for x
    using that by (simp add: aggregate_steps_def)
  then have "\<not> (\<exists>x \<in> set (aggregate_steps aid (pl_Steps spec)). sp_Status x \<noteq> StepCompleted \<and> sp_Status x \<noteq> StepFailed)"
    using closed(1) by blast
  then have "group_state spec aid \<noteq> AggregateStatusPending" unfolding group_state_def group_status by auto
  with g have f: "group_state spec aid = AggregateStatusFailed" by simp
  note ne = step_aggregate_steps[OF s aid]
  from f have "\<forall>x \<in> set (aggregate_steps aid (pl_Steps spec)). step_failed x" by (simp add: group_state_failed[OF ne])
  with closed(2) sub have "dead_aggregate spec budgets aid"
    using ne by (auto simp: dead_aggregate_def given_up_def)
  with aid gu s assms(1) show False by (auto simp: step_fatal_def given_up_def)
qed

section \<open>Properties\<close>

text \<open>
  C14. The outcome of a plan, read off its steps. The plan has failed exactly if some failed step
  aborts, or some given-up step (failed, strategy continue, attempts used up) belongs to a fan-out
  of which every step failed with no attempt left. Otherwise it is completed exactly if every step
  is closed: neither open nor failed, or given up without a fan-out, or given up in a fan-out that
  has no open step and at least one step that completed. The scan of the aggregates after the loop
  never changes the answer.
\<close>

theorem planStatus_meaning:
  "(planStatusForSpec spec budgets = StatusFailed \<longleftrightarrow>
      (\<exists>s \<in> set (pl_Steps spec). step_failed s \<and> (normalizedOnFailStrategy s = ''abort''
         \<or> given_up budgets s \<and> (\<exists>aid. step_aggregate s = Some aid \<and> dead_aggregate spec budgets aid))))
   \<and> (planStatusForSpec spec budgets = StatusCompleted \<longleftrightarrow>
      (\<forall>s \<in> set (pl_Steps spec). \<not> open_status (sp_Status s) \<and> (\<not> step_failed s \<or> given_up budgets s
         \<and> (step_aggregate s = None \<or> (\<exists>aid. step_aggregate s = Some aid \<and> group_state spec aid = AggregateStatusPartialFailed)))))"
proof -
  have "planStatusForSpec spec budgets = StatusFailed \<longleftrightarrow> (\<exists>s \<in> set (pl_Steps spec). step_fatal spec budgets s)"
    by (simp add: planStatusForSpec_def Let_def outcome_flags(1))
  moreover have "planStatusForSpec spec budgets = StatusCompleted \<longleftrightarrow> (\<forall>s \<in> set (pl_Steps spec).
      \<not> step_fatal spec budgets s \<and> \<not> step_waiting spec budgets s \<and> \<not> step_recoverable spec budgets s)"
    by (auto simp: planStatusForSpec_def Let_def outcome_flags)
  moreover have "\<not> step_fatal spec budgets s \<and> \<not> step_waiting spec budgets s \<and> \<not> step_recoverable spec budgets s
      \<longleftrightarrow> \<not> open_status (sp_Status s) \<and> (\<not> step_failed s \<or> given_up budgets s
         \<and> (step_aggregate s = None \<or> (\<exists>aid. step_aggregate s = Some aid \<and> group_state spec aid = AggregateStatusPartialFailed)))"
    if "s \<in> set (pl_Steps spec)" for s
  proof -
    have "group_state spec aid \<noteq> AggregateStatusCompleted" if "step_aggregate s = Some aid" "step_failed s" for aid
    proof -
      have "s \<in> set (aggregate_steps aid (pl_Steps spec))"
        using \<open>s \<in> _\<close> that by (simp add: aggregate_steps_def)
      then have "\<exists>x \<in> set (aggregate_steps aid (pl_Steps spec)). sp_Status x \<noteq> StepCompleted"
        using that(2) by (intro bexI[of _ s]) auto
      then show ?thesis unfolding group_state_def group_status by auto
    qed
    moreover have "dead_aggregate spec budgets aid \<Longrightarrow> group_state spec aid = AggregateStatusFailed" for aid
      using dead_aggregate_iff[of aid spec budgets] by (auto simp: dead_aggregate_def)
    ultimately show ?thesis
      by (cases "step_aggregate s"; cases "group_state spec (the (step_aggregate s))")
        (auto simp: step_fatal_def step_waiting_def step_recoverable_def given_up_def)
  qed
  ultimately show ?thesis by (simp add: step_fatal_def)
qed

definition ex_plan :: "step list \<Rightarrow> plan" where
  "ex_plan steps = \<lparr>pl_PlanID = ''p'', pl_SessionID = ''s'', pl_Revision = 1, pl_Status = StatusActive,
     pl_ChangeReason = [], pl_Steps = steps, pl_CreatedAt = 1, pl_UpdatedAt = 1\<rparr>"

definition ex_continue :: "step \<Rightarrow> step" where
  "ex_continue s = s\<lparr>sp_OnFail := \<lparr>of_Strategy = ''continue'', of_MaxRetries = 0, of_BackoffMS = 0\<rparr>, sp_Attempt := 4\<rparr>"

theorem planStatus_meaning_witness:
  "let good = ex_plan [ex_continue (ex_fanout_step ''s1'' ''a'' StepFailed), ex_fanout_step ''s2'' ''b'' StepCompleted];
       bad = ex_plan [ex_continue (ex_fanout_step ''s1'' ''a'' StepFailed), ex_continue (ex_fanout_step ''s2'' ''b'' StepFailed)]
   in planStatusForSpec good DefaultLoopBudgets = StatusCompleted
      \<and> (\<forall>s \<in> set (pl_Steps good). \<not> open_status (sp_Status s))
      \<and> planStatusForSpec bad DefaultLoopBudgets = StatusFailed
      \<and> (\<exists>s \<in> set (pl_Steps bad). step_failed s)"
proof -
  let ?good = "ex_plan [ex_continue (ex_fanout_step ''s1'' ''a'' StepFailed), ex_fanout_step ''s2'' ''b'' StepCompleted]"
  let ?bad = "ex_plan [ex_continue (ex_fanout_step ''s1'' ''a'' StepFailed), ex_continue (ex_fanout_step ''s2'' ''b'' StepFailed)]"
  have g: "planStatusForSpec ?good DefaultLoopBudgets = StatusCompleted" by code_simp
  have b: "planStatusForSpec ?bad DefaultLoopBudgets = StatusFailed" by code_simp
  from planStatus_meaning[of ?good DefaultLoopBudgets] g
  have "\<forall>s \<in> set (pl_Steps ?good). \<not> open_status (sp_Status s)" by blast
  moreover from planStatus_meaning[of ?bad DefaultLoopBudgets] b
  have "\<exists>s \<in> set (pl_Steps ?bad). step_failed s" by blast
  ultimately show ?thesis using g b unfolding Let_def by blast
qed

text \<open>
  C15. The session driver's selection agrees with the plan's outcome. While the latest plan is
  active and none of its steps is running, blocked or in a status the kernel never writes, the
  driver finds a step to run or asks for a new plan, so it cannot stop with work left. When the
  plan is completed, and the session is pinned to it, nothing is selected: no step of a completed
  plan is ever run again.
\<close>

theorem selection_agrees_with_outcome:
  "(planStatusForSpec latest budgets = StatusActive
      \<and> (\<forall>s \<in> set (pl_Steps latest). sp_Status s \<in> {StepUnset, StepPending, StepCompleted, StepFailed})
    \<longrightarrow> ss_HasStep (selectNextStepForSession st pinned latest budgets)
        \<or> ss_NeedsPlanning (selectNextStepForSession st pinned latest budgets))
   \<and> (planStatusForSpec latest budgets = StatusCompleted
    \<longrightarrow> selectNextStepForSession st latest latest budgets = select_none)"
proof (intro conjI impI)
  assume a: "planStatusForSpec latest budgets = StatusActive
      \<and> (\<forall>s \<in> set (pl_Steps latest). sp_Status s \<in> {StepUnset, StepPending, StepCompleted, StepFailed})"
  then have flags: "\<not> (\<exists>s \<in> set (pl_Steps latest). step_fatal latest budgets s)"
      "\<exists>s \<in> set (pl_Steps latest). step_waiting latest budgets s \<or> step_recoverable latest budgets s"
    using outcome_flags[of latest budgets] by (auto simp: planStatusForSpec_def Let_def split: if_splits)
  have ready: "(\<exists>s \<in> set (pl_Steps latest). sp_Status s = StepUnset \<or> sp_Status s = StepPending)
      \<or> (\<exists>s \<in> set (pl_Steps latest). step_failed s \<and> \<not> given_up budgets s)"
    using waiting_or_retryable[OF flags] a by blast
  have noabort: "normalizedOnFailStrategy s \<noteq> ''abort''" if "firstFailedPlanStep latest budgets = Some s" for s
    using that flags(1) by (auto simp: firstFailedPlanStep_def step_fatal_def dest!: find_Some_in)
  have "firstPendingPlanStep latest \<noteq> None \<or> firstFailedPlanStep latest budgets \<noteq> None"
    using ready by (auto simp: firstPendingPlanStep_def firstFailedPlanStep_def find_None_iff given_up_def)
  then show "ss_HasStep (selectNextStepForSession st pinned latest budgets)
        \<or> ss_NeedsPlanning (selectNextStepForSession st pinned latest budgets)"
    using noabort by (auto simp: selectNextStepForSession_def select_step_def select_replan_def split: option.split)
next
  assume "planStatusForSpec latest budgets = StatusCompleted"
  then have closed: "\<not> open_status (sp_Status s) \<and> (step_failed s \<longrightarrow> given_up budgets s)"
    if "s \<in> set (pl_Steps latest)" for s
    using that outcome_flags[of latest budgets]
    by (auto simp: planStatusForSpec_def Let_def step_waiting_def step_recoverable_def split: if_splits)
  have "executableStepByID latest sid budgets = None" for sid
    using closed by (auto simp: executableStepByID_def findPlanStepByID_def open_status_def given_up_def Let_def
        linorder_not_le[symmetric] split: option.split dest!: find_Some_in)
  then have "pinnedStepForSession st latest budgets = None" by (simp add: pinnedStepForSession_def)
  moreover have "firstPendingPlanStep latest = None"
    using closed by (auto simp: firstPendingPlanStep_def find_None_iff open_status_def)
  moreover have "firstFailedPlanStep latest budgets = None"
    using closed by (auto simp: firstFailedPlanStep_def find_None_iff given_up_def)
  ultimately show "selectNextStepForSession st latest latest budgets = select_none"
    by (simp add: selectNextStepForSession_def)
qed

theorem selection_agrees_with_outcome_witness:
  "let pl = ex_plan [zero_step\<lparr>sp_StepID := ''s1'', sp_Status := StepFailed\<rparr>, zero_step\<lparr>sp_StepID := ''s2'', sp_Status := StepCompleted\<rparr>]
   in ss_HasStep (selectNextStepForSession zero_session pl pl DefaultLoopBudgets)
        \<or> ss_NeedsPlanning (selectNextStepForSession zero_session pl pl DefaultLoopBudgets)"
proof -
  let ?pl = "ex_plan [zero_step\<lparr>sp_StepID := ''s1'', sp_Status := StepFailed\<rparr>, zero_step\<lparr>sp_StepID := ''s2'', sp_Status := StepCompleted\<rparr>]"
  have "planStatusForSpec ?pl DefaultLoopBudgets = StatusActive" by code_simp
  moreover have "\<forall>s \<in> set (pl_Steps ?pl). sp_Status s \<in> {StepUnset, StepPending, StepCompleted, StepFailed}"
    by (simp add: ex_plan_def)
  ultimately show ?thesis
    using selection_agrees_with_outcome[of ?pl DefaultLoopBudgets zero_session ?pl] unfolding Let_def by blast
qed

end
