(* ===== verification/Interactive.thy ===== *)
theory Interactive
  imports Targets
begin

text \<open>
  Interactive runtimes and target slices: \<^verbatim>\<open>pkg/harness/execution\<close> interactive.go and
  projection.go, with \<^verbatim>\<open>ExecutionCycle\<close> of types.go. A runtime handle is projected to an
  interactive runtime through its metadata; the lemmas show that the projection reads back what
  \<^verbatim>\<open>ApplyInteractiveRuntimeMetadata\<close> wrote, and that the slices of an execution cycle distribute
  its facts over the targets without loss, duplication or reordering.
\<close>

section \<open>Records\<close>

record interactive_caps =
  ic_Reopen :: bool
  ic_View :: bool
  ic_Write :: bool
  ic_Close :: bool

record interactive_snapshot =
  is_ArtifactID :: string
  is_Metadata :: meta

record interactive_observation =
  io_NextOffset :: int
  io_Closed :: bool
  io_ExitCode :: "int option"
  io_Status :: string
  io_StatusReason :: string
  io_Snapshot :: interactive_snapshot
  io_UpdatedAt :: int
  io_Metadata :: meta

record interactive_operation =
  ip_Kind :: string
  ip_At :: int
  ip_Offset :: int
  ip_Bytes :: int
  ip_Metadata :: meta

record interactive_runtime =
  ir_Handle :: runtime_handle
  ir_Target :: target_ref
  ir_Capabilities :: interactive_caps
  ir_Observation :: interactive_observation
  ir_LastOperation :: interactive_operation
  ir_Metadata :: meta

definition zero_target_ref :: target_ref where
  "zero_target_ref = \<lparr>tr_TargetID = [], tr_Kind = []\<rparr>"

fun handle_status_string :: "RuntimeHandleStatus \<Rightarrow> string" where
  "handle_status_string RuntimeHandleActive = ''active''"
| "handle_status_string RuntimeHandleClosed = ''closed''"
| "handle_status_string RuntimeHandleInvalidated = ''invalidated''"
| "handle_status_string (RuntimeHandleOther s) = s"

section \<open>Reading metadata\<close>

definition interactiveBool :: "meta \<Rightarrow> string \<Rightarrow> bool" where
  "interactiveBool md key = as_bool (gm_get md key)"

fun int64_case :: "gval option \<Rightarrow> int option" where
  "int64_case (Some (VInt n)) = Some n"
| "int64_case (Some (VInt32 n)) = Some n"
| "int64_case (Some (VInt64 n)) = Some n"
| "int64_case (Some (VFloat32 q)) = Some (rat_trunc q)"
| "int64_case (Some (VFloat64 q)) = Some (rat_trunc q)"
| "int64_case _ = None"

definition interactiveInt64 :: "meta \<Rightarrow> string \<Rightarrow> int option" where
  "interactiveInt64 md key = int64_case (gm_get md key)"

definition interactiveInt :: "meta \<Rightarrow> string \<Rightarrow> int option" where
  "interactiveInt md key = interactiveInt64 md key"

definition maxRuntimeHandleTimestamp :: "runtime_handle \<Rightarrow> int" where
  "maxRuntimeHandleTimestamp h =
     (let maxTS = rh_UpdatedAt h;
          maxTS = (if maxTS < rh_CreatedAt h then rh_CreatedAt h else maxTS);
          maxTS = (if maxTS < rh_ClosedAt h then rh_ClosedAt h else maxTS);
          maxTS = (if maxTS < rh_InvalidatedAt h then rh_InvalidatedAt h else maxTS)
      in maxTS)"

definition interactive_keys :: "string list" where
  "interactive_keys =
     [''interactive_supports_reopen'', ''interactive_supports_view'', ''interactive_supports_write'',
      ''interactive_supports_close'', ''interactive_next_offset'', ''interactive_closed'',
      ''interactive_exit_code'', ''interactive_status'', ''interactive_status_reason'',
      ''interactive_snapshot_artifact_id'', ''interactive_last_operation_kind'',
      ''interactive_last_operation_at'']"

definition isInteractiveHandle :: "runtime_handle \<Rightarrow> bool" where
  "isInteractiveHandle h =
     (let md = rh_Metadata h
      in if md = [] then rh_Kind h = ''pty''
         else if interactiveBool md ''interactive'' then True
         else if list_ex (\<lambda>key. gm_get md key \<noteq> None) interactive_keys then True
         else if as_string (gm_get md ''mode'') = ''pty'' then True
         else rh_Kind h = ''pty'')"

text \<open>\<^verbatim>\<open>if v, ok := ...; ok { x = v }\<close> on a field whose zero value is 0.\<close>

abbreviation or_zero :: "int option \<Rightarrow> int" where
  "or_zero v \<equiv> (case v of Some n \<Rightarrow> n | None \<Rightarrow> 0)"

definition InteractiveRuntimeFromHandle :: "runtime_handle \<Rightarrow> interactive_runtime option" where
  "InteractiveRuntimeFromHandle h =
     (if \<not> isInteractiveHandle h then None
      else let md = rh_Metadata h;
               caps = \<lparr>ic_Reopen = interactiveBool md ''interactive_supports_reopen'',
                       ic_View = interactiveBool md ''interactive_supports_view'',
                       ic_Write = interactiveBool md ''interactive_supports_write'',
                       ic_Close = interactiveBool md ''interactive_supports_close''\<rparr>;
               obs = \<lparr>io_NextOffset = or_zero (interactiveInt64 md ''interactive_next_offset''),
                      io_Closed = interactiveBool md ''interactive_closed'',
                      io_ExitCode = interactiveInt md ''interactive_exit_code'',
                      io_Status = as_string (gm_get md ''interactive_status''),
                      io_StatusReason = as_string (gm_get md ''interactive_status_reason''),
                      io_Snapshot = \<lparr>is_ArtifactID = as_string (gm_get md ''interactive_snapshot_artifact_id''), is_Metadata = []\<rparr>,
                      io_UpdatedAt = maxRuntimeHandleTimestamp h, io_Metadata = []\<rparr>;
               obs = obs\<lparr>io_Status := or_str (io_Status obs) (handle_status_string (rh_Status h)),
                         io_StatusReason := or_str (io_StatusReason obs) (rh_StatusReason h),
                         io_Closed := (io_Closed obs \<or> rh_Status h = RuntimeHandleClosed)\<rparr>;
               lop = \<lparr>ip_Kind = as_string (gm_get md ''interactive_last_operation_kind''),
                     ip_At = or_zero (interactiveInt64 md ''interactive_last_operation_at''),
                     ip_Offset = or_zero (interactiveInt64 md ''interactive_last_operation_offset''),
                     ip_Bytes = or_zero (interactiveInt64 md ''interactive_last_operation_bytes''), ip_Metadata = []\<rparr>;
               lop = (if ip_Kind lop = [] \<and> rh_Status h = RuntimeHandleClosed \<and> 0 < rh_ClosedAt h
                     then lop\<lparr>ip_Kind := ''close'', ip_At := rh_ClosedAt h\<rparr> else lop)
           in Some \<lparr>ir_Handle = h,
                    ir_Target = (case TargetRefFromMetadata md of Some r \<Rightarrow> r | None \<Rightarrow> zero_target_ref),
                    ir_Capabilities = caps, ir_Observation = obs, ir_LastOperation = lop,
                    ir_Metadata = md\<rparr>)"

definition InteractiveRuntimesFromHandles :: "runtime_handle list \<Rightarrow> interactive_runtime list" where
  "InteractiveRuntimesFromHandles handles = List.map_filter InteractiveRuntimeFromHandle handles"

section \<open>Writing metadata\<close>

definition apply_caps :: "interactive_caps option \<Rightarrow> meta \<Rightarrow> meta" where
  "apply_caps caps out = (case caps of None \<Rightarrow> out | Some c \<Rightarrow>
     put_if True ''interactive_supports_close'' (VBool (ic_Close c))
      (put_if True ''interactive_supports_write'' (VBool (ic_Write c))
       (put_if True ''interactive_supports_view'' (VBool (ic_View c))
        (put_if True ''interactive_supports_reopen'' (VBool (ic_Reopen c)) out))))"

definition apply_observation :: "interactive_observation option \<Rightarrow> meta \<Rightarrow> meta" where
  "apply_observation obs out = (case obs of None \<Rightarrow> out | Some b \<Rightarrow>
     put_if (is_ArtifactID (io_Snapshot b) \<noteq> []) ''interactive_snapshot_artifact_id'' (VStr (is_ArtifactID (io_Snapshot b)))
      (put_if (io_StatusReason b \<noteq> []) ''interactive_status_reason'' (VStr (io_StatusReason b))
       (put_if (io_Status b \<noteq> []) ''interactive_status'' (VStr (io_Status b))
        (put_if (io_ExitCode b \<noteq> None) ''interactive_exit_code'' (VInt (the (io_ExitCode b)))
         (put_if True ''interactive_closed'' (VBool (io_Closed b))
          (put_if True ''interactive_next_offset'' (VInt64 (io_NextOffset b)) out))))))"

definition apply_operation :: "interactive_operation option \<Rightarrow> meta \<Rightarrow> meta" where
  "apply_operation lop out = (case lop of None \<Rightarrow> out | Some p \<Rightarrow>
     put_if (0 < ip_Bytes p) ''interactive_last_operation_bytes'' (VInt64 (ip_Bytes p))
      (put_if (0 < ip_Offset p) ''interactive_last_operation_offset'' (VInt64 (ip_Offset p))
       (put_if (0 < ip_At p) ''interactive_last_operation_at'' (VInt64 (ip_At p))
        (put_if (ip_Kind p \<noteq> []) ''interactive_last_operation_kind'' (VStr (ip_Kind p)) out))))"

definition ApplyInteractiveRuntimeMetadata :: "meta \<Rightarrow> interactive_caps option
    \<Rightarrow> interactive_observation option \<Rightarrow> interactive_operation option \<Rightarrow> meta" where
  "ApplyInteractiveRuntimeMetadata metadata caps obs lop =
     apply_operation lop (apply_observation obs (apply_caps caps
       (gm_put ''interactive'' (VBool True) metadata)))"

section \<open>Target slices of an execution cycle\<close>

record execution_cycle =
  ec_CycleID :: string
  ec_SessionID :: string
  ec_TaskID :: string
  ec_StepID :: string
  ec_ApprovalID :: string
  ec_TraceID :: string
  ec_StartedAt :: int
  ec_FinishedAt :: int
  ec_Attempts :: "attempt list"
  ec_Actions :: "action_record list"
  ec_Verifications :: "verification_record list"
  ec_Artifacts :: "artifact list"
  ec_RuntimeHandles :: "runtime_handle list"

record target_slice =
  sl_Target :: target_ref
  sl_Attempts :: "attempt list"
  sl_Actions :: "action_record list"
  sl_Verifications :: "verification_record list"
  sl_Artifacts :: "artifact list"
  sl_RuntimeHandles :: "runtime_handle list"
  sl_InteractiveRuntimes :: "interactive_runtime list"
  sl_Metadata :: meta

definition HasTarget :: "target_slice \<Rightarrow> bool" where
  "HasTarget s \<longleftrightarrow> tr_TargetID (sl_Target s) \<noteq> []"

definition HasExecutionFacts :: "target_slice \<Rightarrow> bool" where
  "HasExecutionFacts s \<longleftrightarrow> sl_Attempts s \<noteq> [] \<or> sl_Actions s \<noteq> [] \<or> sl_Verifications s \<noteq> []
     \<or> sl_Artifacts s \<noteq> [] \<or> sl_RuntimeHandles s \<noteq> [] \<or> sl_InteractiveRuntimes s \<noteq> []"

definition slice_key :: "target_ref \<Rightarrow> string" where
  "slice_key r = tr_TargetID r @ CHR 0x00 # tr_Kind r"

definition new_slice :: "target_ref \<Rightarrow> target_slice" where
  "new_slice r = \<lparr>sl_Target = r, sl_Attempts = [], sl_Actions = [], sl_Verifications = [],
     sl_Artifacts = [], sl_RuntimeHandles = [], sl_InteractiveRuntimes = [], sl_Metadata = []\<rparr>"

text \<open>The state of the loops: the index from key to position, and the slices.\<close>

type_synonym slices_state = "nat gomap \<times> target_slice list"

definition slice_ensure :: "target_ref \<Rightarrow> slices_state \<Rightarrow> nat \<times> slices_state" where
  "slice_ensure r st = (case st of (index, slices) \<Rightarrow>
     (case gm_get index (slice_key r) of
        Some pos \<Rightarrow> (pos, st)
      | None \<Rightarrow> (length slices, gm_put (slice_key r) (length slices) index, slices @ [new_slice r])))"

text \<open>One iteration of each of the five loops; \<open>push\<close> appends the fact to the slice.\<close>

definition slice_put :: "('f \<Rightarrow> meta) \<Rightarrow> ('f \<Rightarrow> target_slice \<Rightarrow> target_slice) \<Rightarrow> slices_state \<Rightarrow> 'f \<Rightarrow> slices_state" where
  "slice_put md push st x =
     (case TargetRefFromMetadata (md x) of
        None \<Rightarrow> st
      | Some r \<Rightarrow> (case slice_ensure r st of (pos, index, slices) \<Rightarrow>
                     (index, slices[pos := push x (slices ! pos)])))"

definition TargetSlicesFromCycle :: "execution_cycle \<Rightarrow> target_slice list" where
  "TargetSlicesFromCycle cycle =
     (let st = foldl (slice_put at_Metadata (\<lambda>x. sl_Attempts_update (\<lambda>xs. xs @ [x]))) ([], []) (ec_Attempts cycle);
          st = foldl (slice_put ac_Metadata (\<lambda>x. sl_Actions_update (\<lambda>xs. xs @ [x]))) st (ec_Actions cycle);
          st = foldl (slice_put vf_Metadata (\<lambda>x. sl_Verifications_update (\<lambda>xs. xs @ [x]))) st (ec_Verifications cycle);
          st = foldl (slice_put af_Metadata (\<lambda>x. sl_Artifacts_update (\<lambda>xs. xs @ [x]))) st (ec_Artifacts cycle);
          st = foldl (slice_put rh_Metadata (\<lambda>x. sl_RuntimeHandles_update (\<lambda>xs. xs @ [x]))) st (ec_RuntimeHandles cycle)
      in map (\<lambda>s. s\<lparr>sl_InteractiveRuntimes := InteractiveRuntimesFromHandles (sl_RuntimeHandles s)\<rparr>) (snd st))"

section \<open>The projection reads what was written\<close>

lemma apply_caps_get:
  "gm_get (apply_caps (Some c) md) k =
     (if k = ''interactive_supports_close'' \<and> True then Some (VBool (ic_Close c))
      else if k = ''interactive_supports_write'' \<and> True then Some (VBool (ic_Write c))
      else if k = ''interactive_supports_view'' \<and> True then Some (VBool (ic_View c))
      else if k = ''interactive_supports_reopen'' \<and> True then Some (VBool (ic_Reopen c)) else gm_get md k)"
  unfolding apply_caps_def option.case by (simp only: put_if_get)

lemma apply_observation_get:
  "gm_get (apply_observation (Some b) md) k =
     (if k = ''interactive_snapshot_artifact_id'' \<and> is_ArtifactID (io_Snapshot b) \<noteq> []
        then Some (VStr (is_ArtifactID (io_Snapshot b)))
      else if k = ''interactive_status_reason'' \<and> io_StatusReason b \<noteq> [] then Some (VStr (io_StatusReason b))
      else if k = ''interactive_status'' \<and> io_Status b \<noteq> [] then Some (VStr (io_Status b))
      else if k = ''interactive_exit_code'' \<and> io_ExitCode b \<noteq> None then Some (VInt (the (io_ExitCode b)))
      else if k = ''interactive_closed'' \<and> True then Some (VBool (io_Closed b))
      else if k = ''interactive_next_offset'' \<and> True then Some (VInt64 (io_NextOffset b)) else gm_get md k)"
  unfolding apply_observation_def option.case by (simp only: put_if_get)

lemma apply_operation_get:
  "gm_get (apply_operation (Some p) md) k =
     (if k = ''interactive_last_operation_bytes'' \<and> 0 < ip_Bytes p then Some (VInt64 (ip_Bytes p))
      else if k = ''interactive_last_operation_offset'' \<and> 0 < ip_Offset p then Some (VInt64 (ip_Offset p))
      else if k = ''interactive_last_operation_at'' \<and> 0 < ip_At p then Some (VInt64 (ip_At p))
      else if k = ''interactive_last_operation_kind'' \<and> ip_Kind p \<noteq> [] then Some (VStr (ip_Kind p))
      else gm_get md k)"
  unfolding apply_operation_def option.case by (simp only: put_if_get)

lemmas apply_get = apply_caps_get apply_observation_get apply_operation_get

lemma put_if_nonempty: "md \<noteq> [] \<Longrightarrow> put_if c k v md \<noteq> []"
  by (auto simp: put_if_def update_nonempty)

text \<open>The value of every key after the write, and the fields of a projection.\<close>

lemma ApplyInteractive_gets:
  assumes "n = ApplyInteractiveRuntimeMetadata md (Some c) (Some b) (Some p)"
  shows "gm_get n ''interactive'' = Some (VBool True)"
    "gm_get n ''interactive_supports_reopen'' = Some (VBool (ic_Reopen c))"
    "gm_get n ''interactive_supports_view'' = Some (VBool (ic_View c))"
    "gm_get n ''interactive_supports_write'' = Some (VBool (ic_Write c))"
    "gm_get n ''interactive_supports_close'' = Some (VBool (ic_Close c))"
    "gm_get n ''interactive_next_offset'' = Some (VInt64 (io_NextOffset b))"
    "gm_get n ''interactive_closed'' = Some (VBool (io_Closed b))"
    "gm_get n ''interactive_exit_code'' =
       (if io_ExitCode b \<noteq> None then Some (VInt (the (io_ExitCode b))) else gm_get md ''interactive_exit_code'')"
    "gm_get n ''interactive_status'' =
       (if io_Status b \<noteq> [] then Some (VStr (io_Status b)) else gm_get md ''interactive_status'')"
    "gm_get n ''interactive_status_reason'' =
       (if io_StatusReason b \<noteq> [] then Some (VStr (io_StatusReason b)) else gm_get md ''interactive_status_reason'')"
    "gm_get n ''interactive_snapshot_artifact_id'' =
       (if is_ArtifactID (io_Snapshot b) \<noteq> [] then Some (VStr (is_ArtifactID (io_Snapshot b)))
        else gm_get md ''interactive_snapshot_artifact_id'')"
    "gm_get n ''interactive_last_operation_kind'' =
       (if ip_Kind p \<noteq> [] then Some (VStr (ip_Kind p)) else gm_get md ''interactive_last_operation_kind'')"
    "gm_get n ''interactive_last_operation_at'' =
       (if 0 < ip_At p then Some (VInt64 (ip_At p)) else gm_get md ''interactive_last_operation_at'')"
    "gm_get n ''interactive_last_operation_offset'' =
       (if 0 < ip_Offset p then Some (VInt64 (ip_Offset p)) else gm_get md ''interactive_last_operation_offset'')"
    "gm_get n ''interactive_last_operation_bytes'' =
       (if 0 < ip_Bytes p then Some (VInt64 (ip_Bytes p)) else gm_get md ''interactive_last_operation_bytes'')"
  unfolding assms ApplyInteractiveRuntimeMetadata_def by (simp_all add: apply_get)

lemma projection_fields:
  assumes "isInteractiveHandle h"
  obtains ir where "InteractiveRuntimeFromHandle h = Some ir"
    "ir_Capabilities ir = \<lparr>ic_Reopen = as_bool (gm_get (rh_Metadata h) ''interactive_supports_reopen''),
       ic_View = as_bool (gm_get (rh_Metadata h) ''interactive_supports_view''),
       ic_Write = as_bool (gm_get (rh_Metadata h) ''interactive_supports_write''),
       ic_Close = as_bool (gm_get (rh_Metadata h) ''interactive_supports_close'')\<rparr>"
    "io_NextOffset (ir_Observation ir) = or_zero (int64_case (gm_get (rh_Metadata h) ''interactive_next_offset''))"
    "io_Closed (ir_Observation ir) \<longleftrightarrow>
       as_bool (gm_get (rh_Metadata h) ''interactive_closed'') \<or> rh_Status h = RuntimeHandleClosed"
    "io_ExitCode (ir_Observation ir) = int64_case (gm_get (rh_Metadata h) ''interactive_exit_code'')"
    "io_Status (ir_Observation ir) =
       or_str (as_string (gm_get (rh_Metadata h) ''interactive_status'')) (handle_status_string (rh_Status h))"
    "io_StatusReason (ir_Observation ir) =
       or_str (as_string (gm_get (rh_Metadata h) ''interactive_status_reason'')) (rh_StatusReason h)"
    "is_ArtifactID (io_Snapshot (ir_Observation ir)) =
       as_string (gm_get (rh_Metadata h) ''interactive_snapshot_artifact_id'')"
    "as_string (gm_get (rh_Metadata h) ''interactive_last_operation_kind'') \<noteq> [] \<Longrightarrow>
       ip_Kind (ir_LastOperation ir) = as_string (gm_get (rh_Metadata h) ''interactive_last_operation_kind'')
       \<and> ip_At (ir_LastOperation ir) = or_zero (int64_case (gm_get (rh_Metadata h) ''interactive_last_operation_at''))"
    "ip_Offset (ir_LastOperation ir) = or_zero (int64_case (gm_get (rh_Metadata h) ''interactive_last_operation_offset''))"
    "ip_Bytes (ir_LastOperation ir) = or_zero (int64_case (gm_get (rh_Metadata h) ''interactive_last_operation_bytes''))"
  using assms
  by (intro that[of "the (InteractiveRuntimeFromHandle h)"])
    (simp_all add: InteractiveRuntimeFromHandle_def Let_def interactiveBool_def interactiveInt64_def interactiveInt_def)

text \<open>
  Round trip of interactive metadata. Whatever a handle's metadata was, after
  \<^verbatim>\<open>ApplyInteractiveRuntimeMetadata\<close> wrote capabilities, an observation and an operation, the handle
  is recognised as interactive and its projection has exactly those capabilities and that offset;
  it is closed if the observation is or the handle's status is; exit code, status, reason, snapshot
  and the operation's fields are the ones written where they were set, and otherwise the earlier
  ones (with the handle's own status and reason as last resort).
\<close>

theorem interactive_metadata_roundtrip:
  "\<exists>ir. InteractiveRuntimeFromHandle
       (h\<lparr>rh_Metadata := ApplyInteractiveRuntimeMetadata md (Some c) (Some b) (Some p)\<rparr>) = Some ir
     \<and> ir_Capabilities ir = c
     \<and> io_NextOffset (ir_Observation ir) = io_NextOffset b
     \<and> (io_Closed (ir_Observation ir) \<longleftrightarrow> io_Closed b \<or> rh_Status h = RuntimeHandleClosed)
     \<and> io_ExitCode (ir_Observation ir) =
         (case io_ExitCode b of Some n \<Rightarrow> Some n | None \<Rightarrow> interactiveInt md ''interactive_exit_code'')
     \<and> io_Status (ir_Observation ir) = or_str (or_str (io_Status b)
         (as_string (gm_get md ''interactive_status''))) (handle_status_string (rh_Status h))
     \<and> io_StatusReason (ir_Observation ir) = or_str (or_str (io_StatusReason b)
         (as_string (gm_get md ''interactive_status_reason''))) (rh_StatusReason h)
     \<and> is_ArtifactID (io_Snapshot (ir_Observation ir)) = or_str (is_ArtifactID (io_Snapshot b))
         (as_string (gm_get md ''interactive_snapshot_artifact_id''))
     \<and> (ip_Kind p = [] \<or> ip_Kind (ir_LastOperation ir) = ip_Kind p)
     \<and> (ip_Kind p = [] \<or> ip_At p \<le> 0 \<or> ip_At (ir_LastOperation ir) = ip_At p)
     \<and> (ip_Offset p \<le> 0 \<or> ip_Offset (ir_LastOperation ir) = ip_Offset p)
     \<and> (ip_Bytes p \<le> 0 \<or> ip_Bytes (ir_LastOperation ir) = ip_Bytes p)"
proof -
  define n where "n = ApplyInteractiveRuntimeMetadata md (Some c) (Some b) (Some p)"
  note g = ApplyInteractive_gets[OF n_def]
  let ?h = "h\<lparr>rh_Metadata := n\<rparr>"
  have "isInteractiveHandle ?h"
    using g(1) by (auto simp: isInteractiveHandle_def interactiveBool_def Let_def)
  then obtain ir where ir: "InteractiveRuntimeFromHandle ?h = Some ir"
    and f: "ir_Capabilities ir = \<lparr>ic_Reopen = as_bool (gm_get n ''interactive_supports_reopen''),
       ic_View = as_bool (gm_get n ''interactive_supports_view''),
       ic_Write = as_bool (gm_get n ''interactive_supports_write''),
       ic_Close = as_bool (gm_get n ''interactive_supports_close'')\<rparr>"
    "io_NextOffset (ir_Observation ir) = or_zero (int64_case (gm_get n ''interactive_next_offset''))"
    "io_Closed (ir_Observation ir) \<longleftrightarrow>
       as_bool (gm_get n ''interactive_closed'') \<or> rh_Status h = RuntimeHandleClosed"
    "io_ExitCode (ir_Observation ir) = int64_case (gm_get n ''interactive_exit_code'')"
    "io_Status (ir_Observation ir) =
       or_str (as_string (gm_get n ''interactive_status'')) (handle_status_string (rh_Status h))"
    "io_StatusReason (ir_Observation ir) =
       or_str (as_string (gm_get n ''interactive_status_reason'')) (rh_StatusReason h)"
    "is_ArtifactID (io_Snapshot (ir_Observation ir)) = as_string (gm_get n ''interactive_snapshot_artifact_id'')"
    "as_string (gm_get n ''interactive_last_operation_kind'') \<noteq> [] \<Longrightarrow>
       ip_Kind (ir_LastOperation ir) = as_string (gm_get n ''interactive_last_operation_kind'')
       \<and> ip_At (ir_LastOperation ir) = or_zero (int64_case (gm_get n ''interactive_last_operation_at''))"
    "ip_Offset (ir_LastOperation ir) = or_zero (int64_case (gm_get n ''interactive_last_operation_offset''))"
    "ip_Bytes (ir_LastOperation ir) = or_zero (int64_case (gm_get n ''interactive_last_operation_bytes''))"
    by (rule projection_fields) simp
  have k: "ip_Kind p = [] \<or> ip_Kind (ir_LastOperation ir) = ip_Kind p"
    "ip_Kind p = [] \<or> ip_At p \<le> 0 \<or> ip_At (ir_LastOperation ir) = ip_At p"
    using f(8) by (cases "ip_Kind p = []"; simp add: g)+
  show ?thesis
  proof (intro exI[of _ ir] conjI)
    show "InteractiveRuntimeFromHandle (h\<lparr>rh_Metadata := ApplyInteractiveRuntimeMetadata md (Some c) (Some b) (Some p)\<rparr>)
        = Some ir" using ir by (simp add: n_def)
  qed (use k in \<open>simp_all add: f(1-7,9,10) g interactiveInt_def interactiveInt64_def split: option.split\<close>)
qed

section \<open>Slices distribute the facts of a cycle\<close>

text \<open>
  The key of a slice joins target id and kind with a NUL byte; it identifies the target as long as
  no target id contains one.
\<close>

definition nul_free :: "target_ref \<Rightarrow> bool" where
  "nul_free r \<longleftrightarrow> CHR 0x00 \<notin> set (tr_TargetID r)"

lemma slice_key_inj:
  assumes "nul_free a" "nul_free b" "slice_key a = slice_key b"
  shows "a = b"
proof -
  have "CHR 0x00 \<notin> set l \<Longrightarrow> takeWhile (\<lambda>c. c \<noteq> CHR 0x00) (l @ CHR 0x00 # k) = l" for l k :: string
    by (induction l) auto
  then have "takeWhile (\<lambda>c. c \<noteq> CHR 0x00) (slice_key r) = tr_TargetID r" if "nul_free r" for r
    using that by (simp add: slice_key_def nul_free_def)
  with assms have "tr_TargetID a = tr_TargetID b" by metis
  with assms(3) show ?thesis by (simp add: slice_key_def)
qed

definition slices_inv :: "slices_state \<Rightarrow> bool" where
  "slices_inv st \<longleftrightarrow> (case st of (index, slices) \<Rightarrow>
     (\<forall>k pos. gm_get index k = Some pos \<longleftrightarrow> pos < length slices \<and> slice_key (sl_Target (slices ! pos)) = k)
     \<and> (\<forall>s \<in> set slices. nul_free (sl_Target s)))"

text \<open>The slice a state holds for a target, and the targets that have one.\<close>

definition slice_at :: "slices_state \<Rightarrow> target_ref \<Rightarrow> target_slice" where
  "slice_at st r = (case List.find (\<lambda>s. sl_Target s = r) (snd st) of Some s \<Rightarrow> s | None \<Rightarrow> new_slice r)"

abbreviation slice_targets :: "slices_state \<Rightarrow> target_ref set" where
  "slice_targets st \<equiv> sl_Target ` set (snd st)"

lemma slices_inv_distinct:
  assumes "slices_inv (index, slices)"
  shows "distinct (map sl_Target slices)"
proof (rule distinct_conv_nth[THEN iffD2], intro allI impI)
  fix i j assume ij: "i < length (map sl_Target slices)" "j < length (map sl_Target slices)" "i \<noteq> j"
  have "gm_get index (slice_key (sl_Target (slices ! i))) = Some i"
    "gm_get index (slice_key (sl_Target (slices ! j))) = Some j"
    using assms ij by (auto simp: slices_inv_def)
  with ij show "map sl_Target slices ! i \<noteq> map sl_Target slices ! j" by auto
qed

lemma slice_at_nth:
  assumes "distinct (map sl_Target slices)" "pos < length slices"
  shows "slice_at (index, slices) (sl_Target (slices ! pos)) = slices ! pos"
proof -
  have "List.find (\<lambda>s. sl_Target s = sl_Target (slices ! pos)) slices = Some (slices ! pos)"
    unfolding find_Some_iff using assms
    by (intro exI[of _ pos]) (auto simp: distinct_conv_nth)
  then show ?thesis by (simp add: slice_at_def)
qed

lemma find_snoc:
  "List.find P (xs @ [x]) = (case List.find P xs of Some y \<Rightarrow> Some y | None \<Rightarrow> if P x then Some x else None)"
  by (induction xs) auto

lemma slice_at_append_new:
  "slice_at (i, slices @ [new_slice r]) r' = slice_at (j, slices) r'"
  by (auto simp: slice_at_def find_snoc new_slice_def split: option.split)

lemma slice_ensure_inv:
  assumes "slices_inv st" "nul_free r" "slice_ensure r st = (pos, st')"
  shows "slices_inv st' \<and> pos < length (snd st') \<and> sl_Target (snd st' ! pos) = r
    \<and> slice_targets st' = insert r (slice_targets st) \<and> (\<forall>r'. slice_at st' r' = slice_at st r')"
proof -
  obtain index slices where st: "st = (index, slices)" by (cases st)
  note i = assms(1)[unfolded st slices_inv_def, simplified]
  show ?thesis
  proof (cases "gm_get index (slice_key r)")
    case None
    then have st': "pos = length slices" "st' = (gm_put (slice_key r) (length slices) index, slices @ [new_slice r])"
      using assms(3) by (auto simp: slice_ensure_def st)
    have "slice_key (sl_Target (slices ! p)) \<noteq> slice_key r" if "p < length slices" for p
      using None i that by (metis option.distinct(1))
    then have "slices_inv st'"
      unfolding st'(2) slices_inv_def using i assms(2)
      by (auto simp: new_slice_def nth_append less_Suc_eq)
    then show ?thesis using slice_at_append_new by (auto simp: st' st new_slice_def)
  next
    case (Some p)
    then have st': "pos = p" "st' = st" using assms(3) by (auto simp: slice_ensure_def st)
    from Some i have p: "p < length slices" "slice_key (sl_Target (slices ! p)) = slice_key r" by auto
    moreover have "nul_free (sl_Target (slices ! p))" using i p(1) by auto
    ultimately have "sl_Target (slices ! p) = r" using slice_key_inj assms(2) by blast
    moreover from this p(1) have "r \<in> slice_targets st" by (metis image_eqI nth_mem snd_conv st)
    ultimately show ?thesis using p(1) assms(1) by (simp add: st' st insert_absorb)
  qed
qed

lemma slices_inv_update:
  assumes "slices_inv (index, slices)" "pos < length slices" "sl_Target s = sl_Target (slices ! pos)"
  shows "slices_inv (index, slices[pos := s])"
  using assms by (auto simp: slices_inv_def nth_list_update dest!: set_update_subset_insert[THEN subsetD])

lemma slice_at_update:
  assumes "slices_inv (index, slices)" "pos < length slices" "sl_Target s = sl_Target (slices ! pos)"
  shows "slice_at (index, slices[pos := s]) r = (if r = sl_Target s then s else slice_at (index, slices) r)"
proof -
  have d: "distinct (map sl_Target (slices[pos := s]))"
    by (rule slices_inv_distinct[OF slices_inv_update[OF assms]])
  show ?thesis
  proof (cases "r = sl_Target s")
    case True
    then show ?thesis using slice_at_nth[OF d, of pos index] assms(2) by simp
  next
    case False
    have "List.find (\<lambda>x. sl_Target x = r) (slices[pos := s]) = List.find (\<lambda>x. sl_Target x = r) slices"
      using False assms(2,3)
      by (induction slices arbitrary: pos) (auto split: nat.splits simp: list_update.simps)
    with False show ?thesis by (simp add: slice_at_def)
  qed
qed

text \<open>One iteration adds the fact to the slice of its target and touches no other.\<close>

lemma slice_put_spec:
  assumes "slices_inv st" and "\<And>r. TargetRefFromMetadata (md x) = Some r \<Longrightarrow> nul_free r"
    and push: "\<And>s. sl_Target (push x s) = sl_Target s"
  shows "slices_inv (slice_put md push st x)
    \<and> slice_targets (slice_put md push st x) =
        slice_targets st \<union> set_option (TargetRefFromMetadata (md x))
    \<and> slice_at (slice_put md push st x) r =
        (if TargetRefFromMetadata (md x) = Some r then push x (slice_at st r) else slice_at st r)"
proof (cases "TargetRefFromMetadata (md x)")
  case None
  with assms(1) show ?thesis by (simp add: slice_put_def)
next
  case (Some t)
  obtain pos index slices where e: "slice_ensure t st = (pos, index, slices)" by (metis prod_cases3)
  from slice_ensure_inv[OF assms(1) assms(2)[OF Some] e]
  have i: "slices_inv (index, slices)" "pos < length slices" "sl_Target (slices ! pos) = t"
    and t: "sl_Target ` set slices = insert t (slice_targets st)"
    and a: "\<And>r. slice_at (index, slices) r = slice_at st r" by auto
  let ?s = "push x (slices ! pos)"
  have p: "slice_put md push st x = (index, slices[pos := ?s])"
    using Some e by (simp add: slice_put_def)
  have "slices ! pos = slice_at st t"
    using slice_at_nth[OF slices_inv_distinct[OF i(1)] i(2), of index] i(3) a by simp
  moreover have "map sl_Target (slices[pos := ?s]) = map sl_Target slices"
    using push i(2) by (metis list_update_id map_update)
  then have "sl_Target ` set (slices[pos := ?s]) = sl_Target ` set slices" by (metis list.set_map)
  ultimately show ?thesis
    using slices_inv_update[OF i(1,2)] slice_at_update[OF i(1,2)] push i(3) a t Some by (auto simp: p)
qed

lemma slice_fold_spec:
  assumes "slices_inv st" and "\<And>x r. x \<in> set xs \<Longrightarrow> TargetRefFromMetadata (md x) = Some r \<Longrightarrow> nul_free r"
    and push: "\<And>x s. sl_Target (push x s) = sl_Target s"
  shows "slices_inv (foldl (slice_put md push) st xs)
    \<and> slice_targets (foldl (slice_put md push) st xs) =
        slice_targets st \<union> {r. \<exists>x \<in> set xs. TargetRefFromMetadata (md x) = Some r}
    \<and> slice_at (foldl (slice_put md push) st xs) r =
        foldl (\<lambda>s x. push x s) (slice_at st r) (filter (\<lambda>x. TargetRefFromMetadata (md x) = Some r) xs)"
  using assms(1,2)
proof (induction xs arbitrary: st)
  case Nil
  then show ?case by simp
next
  case (Cons x xs)
  let ?st = "slice_put md push st x"
  from slice_put_spec[of st md x push r, OF Cons.prems(1) _ push] Cons.prems(2)[of x]
  have one: "slices_inv ?st" "slice_targets ?st = slice_targets st \<union> set_option (TargetRefFromMetadata (md x))"
    "slice_at ?st r = (if TargetRefFromMetadata (md x) = Some r then push x (slice_at st r) else slice_at st r)"
    by auto
  from Cons.IH[OF one(1) Cons.prems(2)[OF list.set_intros(2)]] one(2,3) show ?case
    by (auto simp: set_eq_iff)
qed

lemma slice_loop:
  assumes "slices_inv st" and "\<And>x r. x \<in> set xs \<Longrightarrow> TargetRefFromMetadata (md x) = Some r \<Longrightarrow> nul_free r"
    and "\<And>x s. sl_Target (push x s) = sl_Target s"
    and app: "\<And>s0 ys. foldl (\<lambda>s x. push x s) s0 ys = app ys s0"
    and st': "st' = foldl (slice_put md push) st xs"
  shows "slices_inv st'
    \<and> slice_targets st' = slice_targets st \<union> {r. \<exists>x \<in> set xs. TargetRefFromMetadata (md x) = Some r}
    \<and> (\<forall>r. slice_at st' r = app (filter (\<lambda>x. TargetRefFromMetadata (md x) = Some r) xs) (slice_at st r))"
  unfolding st' app[symmetric] using slice_fold_spec[of st xs md push, OF assms(1-3)] by simp

lemma push_folds:
  "foldl (\<lambda>s x. sl_Attempts_update (\<lambda>xs. xs @ [x]) s) s0 as = sl_Attempts_update (\<lambda>xs. xs @ as) s0"
  "foldl (\<lambda>s x. sl_Actions_update (\<lambda>xs. xs @ [x]) s) s0 cs = sl_Actions_update (\<lambda>xs. xs @ cs) s0"
  "foldl (\<lambda>s x. sl_Verifications_update (\<lambda>xs. xs @ [x]) s) s0 vs = sl_Verifications_update (\<lambda>xs. xs @ vs) s0"
  "foldl (\<lambda>s x. sl_Artifacts_update (\<lambda>xs. xs @ [x]) s) s0 fs = sl_Artifacts_update (\<lambda>xs. xs @ fs) s0"
  "foldl (\<lambda>s x. sl_RuntimeHandles_update (\<lambda>xs. xs @ [x]) s) s0 hs = sl_RuntimeHandles_update (\<lambda>xs. xs @ hs) s0"
  by (induction as arbitrary: s0, simp_all add: comp_def) (induction cs arbitrary: s0, simp_all add: comp_def,
      induction vs arbitrary: s0, simp_all add: comp_def, induction fs arbitrary: s0, simp_all add: comp_def,
      induction hs arbitrary: s0, simp_all add: comp_def)

text \<open>The target of a fact, and the facts of a cycle that carry a target.\<close>

definition of_target :: "('f \<Rightarrow> meta) \<Rightarrow> target_ref \<Rightarrow> 'f list \<Rightarrow> 'f list" where
  "of_target md r xs = filter (\<lambda>x. TargetRefFromMetadata (md x) = Some r) xs"

definition cycle_targets :: "execution_cycle \<Rightarrow> target_ref set" where
  "cycle_targets c = {r. (\<exists>x \<in> set (ec_Attempts c). TargetRefFromMetadata (at_Metadata x) = Some r)}
     \<union> {r. (\<exists>x \<in> set (ec_Actions c). TargetRefFromMetadata (ac_Metadata x) = Some r)}
     \<union> {r. (\<exists>x \<in> set (ec_Verifications c). TargetRefFromMetadata (vf_Metadata x) = Some r)}
     \<union> {r. (\<exists>x \<in> set (ec_Artifacts c). TargetRefFromMetadata (af_Metadata x) = Some r)}
     \<union> {r. (\<exists>x \<in> set (ec_RuntimeHandles c). TargetRefFromMetadata (rh_Metadata x) = Some r)}"

text \<open>
  The slices of an execution cycle partition its targeted facts. As long as no target id
  contains a NUL byte, there is exactly one slice per target that occurs in the cycle, and it holds
  all attempts, actions, verifications, artifacts and handles of that target in their original
  order, together with the interactive projections of its handles.
\<close>

theorem TargetSlices_partition:
  assumes "\<forall>r \<in> cycle_targets c. nul_free r"
  shows "distinct (map sl_Target (TargetSlicesFromCycle c))
    \<and> set (map sl_Target (TargetSlicesFromCycle c)) = cycle_targets c
    \<and> (\<forall>s \<in> set (TargetSlicesFromCycle c).
         sl_Attempts s = of_target at_Metadata (sl_Target s) (ec_Attempts c)
         \<and> sl_Actions s = of_target ac_Metadata (sl_Target s) (ec_Actions c)
         \<and> sl_Verifications s = of_target vf_Metadata (sl_Target s) (ec_Verifications c)
         \<and> sl_Artifacts s = of_target af_Metadata (sl_Target s) (ec_Artifacts c)
         \<and> sl_RuntimeHandles s = of_target rh_Metadata (sl_Target s) (ec_RuntimeHandles c)
         \<and> sl_InteractiveRuntimes s = InteractiveRuntimesFromHandles (sl_RuntimeHandles s))"
proof -
  define s0 :: slices_state where "s0 = ([], [])"
  define s1 where "s1 = foldl (slice_put at_Metadata (\<lambda>x. sl_Attempts_update (\<lambda>xs. xs @ [x]))) s0 (ec_Attempts c)"
  define s2 where "s2 = foldl (slice_put ac_Metadata (\<lambda>x. sl_Actions_update (\<lambda>xs. xs @ [x]))) s1 (ec_Actions c)"
  define s3 where "s3 = foldl (slice_put vf_Metadata (\<lambda>x. sl_Verifications_update (\<lambda>xs. xs @ [x]))) s2 (ec_Verifications c)"
  define s4 where "s4 = foldl (slice_put af_Metadata (\<lambda>x. sl_Artifacts_update (\<lambda>xs. xs @ [x]))) s3 (ec_Artifacts c)"
  define s5 where "s5 = foldl (slice_put rh_Metadata (\<lambda>x. sl_RuntimeHandles_update (\<lambda>xs. xs @ [x]))) s4 (ec_RuntimeHandles c)"
  note nf = assms[unfolded cycle_targets_def]
  have i0: "slices_inv s0" by (simp add: s0_def slices_inv_def)
  have f1: "slices_inv s1 \<and> slice_targets s1 = slice_targets s0
        \<union> {r. \<exists>x \<in> set (ec_Attempts c). TargetRefFromMetadata (at_Metadata x) = Some r}
     \<and> (\<forall>r. slice_at s1 r = sl_Attempts_update (\<lambda>xs. xs @ of_target at_Metadata r (ec_Attempts c)) (slice_at s0 r))"
    unfolding of_target_def by (rule slice_loop[OF i0 _ _ push_folds(1) s1_def]) (use nf in auto)
  have f2: "slices_inv s2 \<and> slice_targets s2 = slice_targets s1
        \<union> {r. \<exists>x \<in> set (ec_Actions c). TargetRefFromMetadata (ac_Metadata x) = Some r}
     \<and> (\<forall>r. slice_at s2 r = sl_Actions_update (\<lambda>xs. xs @ of_target ac_Metadata r (ec_Actions c)) (slice_at s1 r))"
    unfolding of_target_def by (rule slice_loop[OF conjunct1[OF f1] _ _ push_folds(2) s2_def]) (use nf in auto)
  have f3: "slices_inv s3 \<and> slice_targets s3 = slice_targets s2
        \<union> {r. \<exists>x \<in> set (ec_Verifications c). TargetRefFromMetadata (vf_Metadata x) = Some r}
     \<and> (\<forall>r. slice_at s3 r = sl_Verifications_update (\<lambda>xs. xs @ of_target vf_Metadata r (ec_Verifications c)) (slice_at s2 r))"
    unfolding of_target_def by (rule slice_loop[OF conjunct1[OF f2] _ _ push_folds(3) s3_def]) (use nf in auto)
  have f4: "slices_inv s4 \<and> slice_targets s4 = slice_targets s3
        \<union> {r. \<exists>x \<in> set (ec_Artifacts c). TargetRefFromMetadata (af_Metadata x) = Some r}
     \<and> (\<forall>r. slice_at s4 r = sl_Artifacts_update (\<lambda>xs. xs @ of_target af_Metadata r (ec_Artifacts c)) (slice_at s3 r))"
    unfolding of_target_def by (rule slice_loop[OF conjunct1[OF f3] _ _ push_folds(4) s4_def]) (use nf in auto)
  have f5: "slices_inv s5 \<and> slice_targets s5 = slice_targets s4
        \<union> {r. \<exists>x \<in> set (ec_RuntimeHandles c). TargetRefFromMetadata (rh_Metadata x) = Some r}
     \<and> (\<forall>r. slice_at s5 r = sl_RuntimeHandles_update (\<lambda>xs. xs @ of_target rh_Metadata r (ec_RuntimeHandles c)) (slice_at s4 r))"
    unfolding of_target_def by (rule slice_loop[OF conjunct1[OF f4] _ _ push_folds(5) s5_def]) (use nf in auto)
  obtain index slices where s5: "s5 = (index, slices)" by (cases s5)
  have res: "TargetSlicesFromCycle c =
      map (\<lambda>s. s\<lparr>sl_InteractiveRuntimes := InteractiveRuntimesFromHandles (sl_RuntimeHandles s)\<rparr>) slices"
    using s5 by (simp add: TargetSlicesFromCycle_def Let_def s1_def s2_def s3_def s4_def s5_def s0_def)
  have "slices_inv (index, slices)" using f5 s5 by simp
  from slices_inv_distinct[OF this] have d: "distinct (map sl_Target slices)" .
  have "sl_Target ` set slices = cycle_targets c"
    using f1 f2 f3 f4 f5 by (simp add: cycle_targets_def s5 s0_def Un_assoc)
  moreover have at: "slice_at s5 (sl_Target s) = s" if "s \<in> set slices" for s
    using that slice_at_nth[OF d] unfolding s5 by (metis in_set_conv_nth)
  moreover have "slice_at s0 r = new_slice r" for r by (simp add: s0_def slice_at_def)
  then have all: "slice_at s5 r = \<lparr>sl_Target = r, sl_Attempts = of_target at_Metadata r (ec_Attempts c),
      sl_Actions = of_target ac_Metadata r (ec_Actions c),
      sl_Verifications = of_target vf_Metadata r (ec_Verifications c),
      sl_Artifacts = of_target af_Metadata r (ec_Artifacts c),
      sl_RuntimeHandles = of_target rh_Metadata r (ec_RuntimeHandles c),
      sl_InteractiveRuntimes = [], sl_Metadata = []\<rparr>" for r
    using f1 f2 f3 f4 f5 by (simp add: new_slice_def)
  have "sl_Attempts s = of_target at_Metadata (sl_Target s) (ec_Attempts c)"
    "sl_Actions s = of_target ac_Metadata (sl_Target s) (ec_Actions c)"
    "sl_Verifications s = of_target vf_Metadata (sl_Target s) (ec_Verifications c)"
    "sl_Artifacts s = of_target af_Metadata (sl_Target s) (ec_Artifacts c)"
    "sl_RuntimeHandles s = of_target rh_Metadata (sl_Target s) (ec_RuntimeHandles c)" if "s \<in> set slices" for s
    by (subst at[OF that, symmetric], simp add: all)+
  ultimately show ?thesis using d unfolding res by (auto simp: comp_def image_image)
qed

definition ex_targeted :: "string \<Rightarrow> string \<Rightarrow> attempt" where
  "ex_targeted aid tid = ex_attempt\<lparr>at_AttemptID := aid, at_Metadata := [(''target_id'', VStr tid)]\<rparr>"

definition ex_cycle :: execution_cycle where
  "ex_cycle = \<lparr>ec_CycleID = ''c'', ec_SessionID = ''s'', ec_TaskID = [], ec_StepID = [], ec_ApprovalID = [],
     ec_TraceID = [], ec_StartedAt = 1, ec_FinishedAt = 2,
     ec_Attempts = [ex_targeted ''a1'' ''h1'', ex_targeted ''a2'' ''h2'', ex_targeted ''a3'' ''h1'', ex_attempt],
     ec_Actions = [], ec_Verifications = [], ec_Artifacts = [], ec_RuntimeHandles = []\<rparr>"

theorem TargetSlices_partition_witness:
  "distinct (map sl_Target (TargetSlicesFromCycle ex_cycle))
   \<and> map (\<lambda>s. map at_AttemptID (sl_Attempts s)) (TargetSlicesFromCycle ex_cycle) = [[''a1'', ''a3''], [''a2'']]"
proof -
  have "\<forall>r \<in> cycle_targets ex_cycle. nul_free r"
    by (auto simp: cycle_targets_def ex_cycle_def ex_targeted_def ex_attempt_def TargetRefFromMetadata_alt nul_free_def)
  then have "distinct (map sl_Target (TargetSlicesFromCycle ex_cycle))"
    using TargetSlices_partition[of ex_cycle] by blast
  moreover have "map (\<lambda>s. map at_AttemptID (sl_Attempts s)) (TargetSlicesFromCycle ex_cycle)
      = [[''a1'', ''a3''], [''a2'']]" by code_simp
  ultimately show ?thesis by blast
qed

end
