(* ===== verification/Tool_Registry.thy ===== *)
theory Tool_Registry
  imports Plan
begin

text \<open>
  The tool registry: \<^verbatim>\<open>pkg/harness/tool\<close> definition.go and registry.go. Tools are registered under
  a name and a version; resolution without a version takes the last version in the order of
  \<^verbatim>\<open>compareVersion\<close>. A handler is code of the embedding application: a function from arguments
  to a result and an optional error.
\<close>

section \<open>Definitions and entries\<close>

datatype RiskLevel = RiskLow | RiskMedium | RiskHigh | RiskOther string

record tool_definition =
  tf_ToolName :: string
  tf_Version :: string
  tf_CapabilityType :: string
  tf_InputSchema :: meta
  tf_ResultSchema :: meta
  tf_VerifySchema :: meta
  tf_RiskLevel :: RiskLevel
  tf_Enabled :: bool
  tf_Metadata :: meta

type_synonym handler = "meta \<Rightarrow> action_result \<times> goerr option"

record tool_entry =
  te_Definition :: tool_definition
  te_Handler :: "handler option"

type_synonym tool_map = "tool_entry gomap gomap"

section \<open>Versions\<close>

definition versionKey :: "string \<Rightarrow> string" where
  "versionKey version = (let trimmed = trim_space version in if trimmed = [] then ''__default__'' else trimmed)"

text \<open>\<^verbatim>\<open>strconv.Atoi\<close>: an optional sign and at least one decimal digit, within 64 bits.\<close>

definition is_digit :: "char \<Rightarrow> bool" where
  "is_digit c \<longleftrightarrow> 48 \<le> (of_char c :: nat) \<and> (of_char c :: nat) \<le> 57"

definition digits_value :: "string \<Rightarrow> int" where
  "digits_value s = foldl (\<lambda>n c. 10 * n + (of_char c - 48)) 0 s"

definition Atoi :: "string \<Rightarrow> int option" where
  "Atoi s =
     (let (neg, ds) = (case s of [] \<Rightarrow> (False, [])
                       | c # cs \<Rightarrow> if c = CHR ''-'' then (True, cs) else if c = CHR ''+'' then (False, cs) else (False, s));
          v = (if neg then - digits_value ds else digits_value ds)
      in if ds = [] \<or> \<not> list_all is_digit ds \<or> \<not> in_int64 v then None else Some v)"

definition parseNumericVersion :: "string \<Rightarrow> int option" where
  "parseNumericVersion version =
     (let trimmed = trim_space version
      in if trimmed = [] \<or> trimmed = ''__default__'' then None
         else let trimmed = (if 1 < length trimmed \<and> (hd trimmed = CHR ''v'' \<or> hd trimmed = CHR ''V'')
                             then tl trimmed else trimmed)
              in Atoi trimmed)"

definition compareVersion :: "string \<Rightarrow> string \<Rightarrow> int" where
  "compareVersion left right =
     (case (parseNumericVersion left, parseNumericVersion right) of
        (Some li, Some ri) \<Rightarrow> if li < ri then -1 else if ri < li then 1 else 0
      | _ \<Rightarrow> if left < right then -1 else if right < left then 1 else 0)"

section \<open>Operations\<close>

definition tool_Register :: "tool_definition \<Rightarrow> handler option \<Rightarrow> tool_map \<Rightarrow> tool_map" where
  "tool_Register def h m =
     (let versions = (case gm_get m (tf_ToolName def) of Some vs \<Rightarrow> vs | None \<Rightarrow> [])
      in gm_put (tf_ToolName def)
           (gm_put (versionKey (tf_Version def)) \<lparr>te_Definition = def, te_Handler = h\<rparr> versions) m)"

definition tool_GetVersion :: "string \<Rightarrow> string \<Rightarrow> tool_map \<Rightarrow> tool_entry option" where
  "tool_GetVersion name version m =
     (case gm_get m name of None \<Rightarrow> None | Some versions \<Rightarrow> gm_get versions (versionKey version))"

definition tool_Resolve :: "string \<Rightarrow> string \<Rightarrow> tool_map \<Rightarrow> tool_entry option" where
  "tool_Resolve name version m =
     (case gm_get m name of
        None \<Rightarrow> None
      | Some versions \<Rightarrow>
          if length versions = 0 then None
          else if trim_space version \<noteq> [] then gm_get versions (versionKey version)
          else let keys = go_sort (\<lambda>a b. compareVersion a b < 0) (map fst versions)
               in gm_get versions (last keys))"

definition tool_Get :: "string \<Rightarrow> tool_map \<Rightarrow> tool_entry option" where
  "tool_Get name m = tool_Resolve name [] m"

definition definition_less :: "tool_definition \<Rightarrow> tool_definition \<Rightarrow> bool" where
  "definition_less a b =
     (if tf_ToolName a = tf_ToolName b then compareVersion (tf_Version a) (tf_Version b) < 0
      else tf_ToolName a < tf_ToolName b)"

definition tool_List :: "tool_map \<Rightarrow> tool_definition list" where
  "tool_List m = go_sort definition_less (concat (map (\<lambda>versions. map te_Definition (gm_vals versions)) (gm_vals m)))"

definition failed_result :: "string \<Rightarrow> string \<Rightarrow> action_result" where
  "failed_result code msg = \<lparr>ar_OK = False, ar_Data = [], ar_Meta = [],
     ar_Error = Some \<lparr>ae_Code = code, ae_Message = msg\<rparr>\<rparr>"

definition tool_Invoke :: "action_spec \<Rightarrow> tool_map \<Rightarrow> action_result \<times> goerr option" where
  "tool_Invoke spec m =
     (case tool_Resolve (an_ToolName spec) (an_ToolVersion spec) m of
        None \<Rightarrow> (failed_result ''TOOL_NOT_REGISTERED'' (an_ToolName spec), Some ErrToolNotRegistered)
      | Some entry \<Rightarrow>
          if \<not> tf_Enabled (te_Definition entry)
          then (failed_result ''TOOL_DISABLED'' (an_ToolName spec), Some ErrToolDisabled)
          else case te_Handler entry of
                 None \<Rightarrow> (failed_result ''TOOL_NOT_IMPLEMENTED'' (an_ToolName spec), None)
               | Some h \<Rightarrow> h (an_Args spec))"

section \<open>Lemmas\<close>

text \<open>
  The registry's invariant: names and version keys are unique, every name has a version, and an
  entry stands under its own name and version key.
\<close>

definition tools_wf :: "tool_map \<Rightarrow> bool" where
  "tools_wf m \<longleftrightarrow> gm_wf m \<and> (\<forall>(name, versions) \<in> set m. versions \<noteq> [] \<and> gm_wf versions
     \<and> (\<forall>(k, e) \<in> set versions. tf_ToolName (te_Definition e) = name \<and> versionKey (tf_Version (te_Definition e)) = k))"

lemma tools_wf_versions:
  assumes "tools_wf m" and "gm_get m name = Some versions"
  shows "versions \<noteq> [] \<and> gm_wf versions \<and> (\<forall>(k, e) \<in> set versions.
     tf_ToolName (te_Definition e) = name \<and> versionKey (tf_Version (te_Definition e)) = k)"
  using assms gm_get_in[OF assms(2)] by (auto simp: tools_wf_def)

lemma gm_put_nonempty [simp]: "gm_put k v m \<noteq> []"
  by (cases m) auto

lemma in_put_cases:
  assumes "gm_wf m" and "(k', v') \<in> set (gm_put k v m)"
  shows "(k' = k \<and> v' = v) \<or> (k' \<noteq> k \<and> (k', v') \<in> set m)"
proof -
  have "gm_get (gm_put k v m) k' = Some v'"
    using assms gm_wf_put[OF assms(1)] map_of_is_SomeI by fastforce
  then show ?thesis by (auto split: if_splits dest: gm_get_in)
qed

lemma tool_Register_wf:
  assumes "tools_wf m"
  shows "tools_wf (tool_Register def h m)"
proof -
  let ?vs = "case gm_get m (tf_ToolName def) of Some vs \<Rightarrow> vs | None \<Rightarrow> []"
  have wf: "gm_wf m" using assms by (simp add: tools_wf_def)
  have vs: "gm_wf ?vs \<and> (\<forall>(k, e) \<in> set ?vs. tf_ToolName (te_Definition e) = tf_ToolName def
      \<and> versionKey (tf_Version (te_Definition e)) = k)"
    using tools_wf_versions[OF assms, of "tf_ToolName def"] by (auto split: option.split)
  define vs' where "vs' = gm_put (versionKey (tf_Version def)) \<lparr>te_Definition = def, te_Handler = h\<rparr> ?vs"
  have vs': "vs' \<noteq> [] \<and> gm_wf vs' \<and> (\<forall>(k, e) \<in> set vs'. tf_ToolName (te_Definition e) = tf_ToolName def
      \<and> versionKey (tf_Version (te_Definition e)) = k)"
    unfolding vs'_def using vs by (auto dest!: in_put_cases[OF conjunct1[OF vs]])
  have "\<forall>(name, versions) \<in> set (gm_put (tf_ToolName def) vs' m). versions \<noteq> [] \<and> gm_wf versions
     \<and> (\<forall>(k, e) \<in> set versions. tf_ToolName (te_Definition e) = name \<and> versionKey (tf_Version (te_Definition e)) = k)"
  proof (rule ballI, rule case_prodI2)
    fix nv name versions
    assume "nv \<in> set (gm_put (tf_ToolName def) vs' m)" "nv = (name, versions)"
    then have "(name = tf_ToolName def \<and> versions = vs') \<or> (name, versions) \<in> set m"
      using in_put_cases[OF wf] by blast
    then show "versions \<noteq> [] \<and> gm_wf versions
     \<and> (\<forall>(k, e) \<in> set versions. tf_ToolName (te_Definition e) = name \<and> versionKey (tf_Version (te_Definition e)) = k)"
      using vs' assms unfolding tools_wf_def by blast
  qed
  then show ?thesis unfolding tools_wf_def tool_Register_def Let_def vs'_def[symmetric]
    using gm_wf_put[OF wf] by blast
qed

lemma versionKey_idem: "versionKey (versionKey v) = versionKey v"
  by (auto simp: versionKey_def Let_def) (simp add: trim_space_def is_space_def)

lemma tool_Register_GetVersion:
  "tool_GetVersion name v (tool_Register def h m) =
     (if name = tf_ToolName def \<and> versionKey v = versionKey (tf_Version def)
      then Some \<lparr>te_Definition = def, te_Handler = h\<rparr> else tool_GetVersion name v m)"
  by (auto simp: tool_GetVersion_def tool_Register_def Let_def split: option.split)

text \<open>The number of a version that parses as one.\<close>

definition version_number :: "string \<Rightarrow> int" where
  "version_number v = (case parseNumericVersion v of Some n \<Rightarrow> n | None \<Rightarrow> 0)"

interpretation version_order: sort_by_key "\<lambda>a b. version_number a < version_number b" version_number
  by unfold_locales simp

lemma compareVersion_numeric:
  assumes "parseNumericVersion a \<noteq> None" "parseNumericVersion b \<noteq> None"
  shows "compareVersion a b < 0 \<longleftrightarrow> version_number a < version_number b"
  using assms by (auto simp: compareVersion_def version_number_def split: if_splits)

lemma sorted_last_max: "sorted (map f xs) \<Longrightarrow> x \<in> set xs \<Longrightarrow> f x \<le> f (last xs)"
  by (induction xs rule: rev_induct) (auto simp: sorted_append)

lemma cycle_not_sorted:
  assumes "{a, b, d} = {x, y, z}" and "compareVersion x y < 0" "compareVersion y z < 0" "compareVersion z x < 0"
    and "\<not> compareVersion b a < 0" "\<not> compareVersion d a < 0" and "x \<noteq> y" "y \<noteq> z" "z \<noteq> x"
  shows False
  using assms by (metis insert_iff singletonD)

section \<open>Properties\<close>

text \<open>
  Resolution of a tool. With a version given, exactly the entry last registered under that
  version (up to surrounding white space) is found. Without one, if all registered versions of the
  tool are numbers (with or without a leading v), the entry found is registered for that tool and
  no registered version has a larger number, so 10 wins over 9 although it comes first as a string.
\<close>

theorem tool_Resolve_latest:
  assumes "tools_wf m" and "gm_get m name = Some versions"
    and "\<forall>k \<in> set (map fst versions). parseNumericVersion k \<noteq> None"
  shows "(\<exists>k e. tool_Resolve name [] m = Some e \<and> gm_get versions k = Some e
           \<and> tf_ToolName (te_Definition e) = name \<and> versionKey (tf_Version (te_Definition e)) = k
           \<and> (\<forall>k' \<in> set (map fst versions). version_number k' \<le> version_number k))
    \<and> (\<forall>v def h. trim_space v \<noteq> [] \<longrightarrow> tf_ToolName def = name \<longrightarrow> versionKey (tf_Version def) = versionKey v
         \<longrightarrow> tool_Resolve name v (tool_Register def h m) = Some \<lparr>te_Definition = def, te_Handler = h\<rparr>)"
proof
  note wf = tools_wf_versions[OF assms(1,2)]
  let ?keys = "go_sort (\<lambda>a b. compareVersion a b < 0) (map fst versions)"
  have keys: "?keys = go_sort (\<lambda>a b. version_number a < version_number b) (map fst versions)"
  proof (rule go_sort_cong)
    fix x y
    assume "x \<in> set (map fst versions)" "y \<in> set (map fst versions)"
    then have "parseNumericVersion x \<noteq> None" "parseNumericVersion y \<noteq> None" using assms(3) by blast+
    then show "(compareVersion x y < 0) = (version_number x < version_number y)" by (rule compareVersion_numeric)
  qed
  have set: "set ?keys = set (map fst versions)" by simp
  moreover have "length versions \<noteq> 0" using wf by blast
  then have "length ?keys \<noteq> 0" by (simp only: length_go_sort length_map not_False_eq_True)
  then have "?keys \<noteq> []" by (simp only: length_0_conv not_False_eq_True)
  then have "last ?keys \<in> set ?keys" by (rule last_in_set)
  ultimately have "last ?keys \<in> set (map fst versions)" by blast
  then obtain e where e: "(last ?keys, e) \<in> set versions" by auto
  then have get: "gm_get versions (last ?keys) = Some e" using wf by simp
  have "sorted (map version_number ?keys)" unfolding keys by (rule version_order.sorted_go_sort)
  then have "\<forall>k' \<in> set (map fst versions). version_number k' \<le> version_number (last ?keys)"
    using sorted_last_max set by metis
  moreover have "tool_Resolve name [] m = Some e"
    using assms(2) wf get by (simp add: tool_Resolve_def trim_space_def Let_def)
  ultimately show "\<exists>k e. tool_Resolve name [] m = Some e \<and> gm_get versions k = Some e
           \<and> tf_ToolName (te_Definition e) = name \<and> versionKey (tf_Version (te_Definition e)) = k
           \<and> (\<forall>k' \<in> set (map fst versions). version_number k' \<le> version_number k)"
    using e get wf by fast
next
  show "\<forall>v def h. trim_space v \<noteq> [] \<longrightarrow> tf_ToolName def = name \<longrightarrow> versionKey (tf_Version def) = versionKey v
         \<longrightarrow> tool_Resolve name v (tool_Register def h m) = Some \<lparr>te_Definition = def, te_Handler = h\<rparr>"
    by (auto simp: tool_Resolve_def tool_Register_def Let_def split: option.split)
qed

definition ex_definition :: "string \<Rightarrow> string \<Rightarrow> tool_definition" where
  "ex_definition name version = \<lparr>tf_ToolName = name, tf_Version = version, tf_CapabilityType = ''executor'',
     tf_InputSchema = [], tf_ResultSchema = [], tf_VerifySchema = [], tf_RiskLevel = RiskLow,
     tf_Enabled = True, tf_Metadata = []\<rparr>"

definition ex_tools :: tool_map where
  "ex_tools = tool_Register (ex_definition ''t'' ''v9'') None (tool_Register (ex_definition ''t'' ''v10'') None [])"

theorem tool_Resolve_latest_witness:
  "\<exists>e. tool_Resolve ''t'' [] ex_tools = Some e \<and> version_number (tf_Version (te_Definition e)) = 10
     \<and> (\<exists>k. versionKey (tf_Version (te_Definition e)) = k)"
proof -
  have "tools_wf ex_tools" unfolding ex_tools_def by (intro tool_Register_wf) (simp add: tools_wf_def)
  moreover have "map_option (map fst) (gm_get ex_tools ''t'') = Some [''v10'', ''v9'']" by code_simp
  then obtain versions where "gm_get ex_tools ''t'' = Some versions" "map fst versions = [''v10'', ''v9'']"
    by auto
  moreover have "\<forall>k \<in> set [''v10'', ''v9'']. parseNumericVersion k \<noteq> None" by code_simp
  ultimately obtain k e where e: "tool_Resolve ''t'' [] ex_tools = Some e"
    "versionKey (tf_Version (te_Definition e)) = k"
    using tool_Resolve_latest[of ex_tools "''t''" versions] by metis
  moreover have "map_option (\<lambda>e. version_number (tf_Version (te_Definition e))) (tool_Resolve ''t'' [] ex_tools) = Some 10"
    by code_simp
  ultimately show ?thesis by auto
qed

text \<open>
  With versions that are not all numbers the comparison is cyclic: 9 is below 10 as a number,
  10 below 1a and 1a below 9 as strings. No order of these three versions is sorted, so which of
  them resolution without a version finds depends on the order in which the map is visited.
\<close>

theorem compareVersion_cyclic:
  "compareVersion ''9'' ''10'' < 0 \<and> compareVersion ''10'' ''1a'' < 0 \<and> compareVersion ''1a'' ''9'' < 0
   \<and> \<not> (\<exists>keys. mset keys = {#''9'', ''10'', ''1a''#} \<and> sorted_wrt (\<lambda>a b. \<not> compareVersion b a < 0) keys)"
proof -
  have c: "compareVersion ''9'' ''10'' < 0" "compareVersion ''10'' ''1a'' < 0" "compareVersion ''1a'' ''9'' < 0"
    by code_simp+
  have False if m: "mset keys = {#''9'', ''10'', ''1a''#}" and s: "sorted_wrt (\<lambda>a b. \<not> compareVersion b a < 0) keys" for keys
  proof -
    from m have "length keys = 3" by (metis size_mset size_add_mset size_empty numeral_3_eq_3)
    then obtain a b d where k: "keys = [a, b, d]" by (auto simp: numeral_3_eq_3 length_Suc_conv)
    from m have "set keys = {''9'', ''10'', ''1a''}" by (metis set_mset_add_mset_insert set_mset_empty set_mset_mset)
    then have "{a, b, d} = {''9'', ''10'', ''1a''}" by (simp add: k)
    moreover have "\<not> compareVersion b a < 0" "\<not> compareVersion d a < 0" using s by (simp_all add: k)
    ultimately show False by (rule cycle_not_sorted[OF _ c(1,2,3)]) simp_all
  qed
  with c show ?thesis by blast
qed

end
