(* ===== verification/Capability.thy ===== *)
theory Capability
  imports Execution Tool_Registry
begin

text \<open>
  Capabilities: \<^verbatim>\<open>pkg/harness/capability\<close> types.go, resolver.go, match.go, freezer.go and store.go.
  A request is resolved against the tool registry to a snapshot with definition and handler;
  matching also compares the features a request needs with those the tool advertises; freezing
  snapshots every enabled tool; the snapshot store is one more creating store.
\<close>

section \<open>Records\<close>

datatype SnapshotScope = SnapshotScopePlan | SnapshotScopeAction | ScopeOther string

record requirements =
  sr_MultiTargetFanout :: bool
  sr_PreplannedToolGraph :: bool
  sr_InteractiveReopen :: bool
  sr_ArtifactInput :: bool

record cap_request =
  cr_SessionID :: string
  cr_TaskID :: string
  cr_StepID :: string
  cr_Action :: action_spec
  cr_Requirements :: "requirements option"

record snapshot =
  sn_SnapshotID :: string
  sn_SessionID :: string
  sn_TaskID :: string
  sn_PlanID :: string
  sn_StepID :: string
  sn_ViewID :: string
  sn_Scope :: SnapshotScope
  sn_ToolName :: string
  sn_Version :: string
  sn_CapabilityType :: string
  sn_RiskLevel :: RiskLevel
  sn_Metadata :: meta
  sn_ResolvedAt :: int

record cap_view =
  cv_ViewID :: string
  cv_SessionID :: string
  cv_TaskID :: string
  cv_Entries :: "snapshot list"
  cv_FrozenAt :: int

record resolution =
  re_Snapshot :: snapshot
  re_Definition :: tool_definition
  re_Handler :: "handler option"

datatype UnsupportedReasonCode =
    ReasonCapabilityNotFound | ReasonCapabilityDisabled | ReasonCapabilityVersionNotFound
  | ReasonCapabilityViewNotFound | ReasonCapabilityViewDrift | ReasonMultiTargetFanoutUnsupported
  | ReasonPreplannedToolGraphUnsupported | ReasonInteractiveReopenUnsupported
  | ReasonArtifactInputUnsupported

record unsupported_reason =
  ur_Code :: UnsupportedReasonCode
  ur_Message :: string
  ur_Metadata :: meta

record match_result =
  mr_Supported :: bool
  mr_Resolution :: "resolution option"
  mr_Reasons :: "unsupported_reason list"

section \<open>Resolving and matching\<close>

text \<open>\<open>errText\<close> stands for \<^verbatim>\<open>err.Error()\<close>, the text of an error.\<close>

definition UnsupportedReasonFromError :: "(goerr \<Rightarrow> string) \<Rightarrow> goerr \<Rightarrow> cap_request \<Rightarrow> unsupported_reason option" where
  "UnsupportedReasonFromError errText err req =
     (let metadata = (if an_ToolVersion (cr_Action req) \<noteq> []
                      then gm_put ''tool_version'' (VStr (an_ToolVersion (cr_Action req))) else id)
                     ((if an_ToolName (cr_Action req) \<noteq> []
                       then gm_put ''tool_name'' (VStr (an_ToolName (cr_Action req))) else id) []);
          mk = (\<lambda>code. Some \<lparr>ur_Code = code, ur_Message = errText err, ur_Metadata = metadata\<rparr>)
      in if errors_is err ErrCapabilityNotFound then mk ReasonCapabilityNotFound
         else if errors_is err ErrCapabilityDisabled then mk ReasonCapabilityDisabled
         else if errors_is err ErrCapabilityVersionNotFound then mk ReasonCapabilityVersionNotFound
         else if errors_is err ErrCapabilityViewNotFound then mk ReasonCapabilityViewNotFound
         else if errors_is err ErrCapabilityViewDrift then mk ReasonCapabilityViewDrift
         else None)"

definition supportFlag :: "meta \<Rightarrow> string \<Rightarrow> bool" where
  "supportFlag metadata key = as_bool (gm_get metadata key)"

text \<open>The four feature checks: what the request asks, the tool's metadata key, code and message.\<close>

definition support_checks :: "((requirements \<Rightarrow> bool) \<times> string \<times> UnsupportedReasonCode \<times> string) list" where
  "support_checks =
     [(sr_MultiTargetFanout, ''supports_multi_target_fanout'', ReasonMultiTargetFanoutUnsupported,
       ''capability does not advertise multi-target fan-out support''),
      (sr_PreplannedToolGraph, ''supports_preplanned_tool_graph'', ReasonPreplannedToolGraphUnsupported,
       ''capability does not advertise preplanned tool-graph support''),
      (sr_InteractiveReopen, ''supports_interactive_reopen'', ReasonInteractiveReopenUnsupported,
       ''capability does not advertise interactive reopen support''),
      (sr_ArtifactInput, ''supports_artifact_input'', ReasonArtifactInputUnsupported,
       ''capability does not advertise artifact input support'')]"

definition UnsupportedReasonsForDefinition :: "tool_definition \<Rightarrow> requirements option \<Rightarrow> unsupported_reason list" where
  "UnsupportedReasonsForDefinition def reqs =
     (case reqs of
        None \<Rightarrow> []
      | Some r \<Rightarrow> concat (map (\<lambda>(needs, key, code, msg).
           if needs r \<and> \<not> supportFlag (tf_Metadata def) key
           then [\<lparr>ur_Code = code, ur_Message = msg,
                  ur_Metadata = [(''tool_name'', VStr (tf_ToolName def)), (''tool_version'', VStr (tf_Version def))]\<rparr>]
           else []) support_checks))"

text \<open>\<open>registry = None\<close> is the nil registry.\<close>

definition cap_Resolve :: "string \<Rightarrow> int \<Rightarrow> tool_map option \<Rightarrow> cap_request \<Rightarrow> goerr + resolution" where
  "cap_Resolve uuid now registry req =
     (case registry of
        None \<Rightarrow> Inl ErrCapabilityNotFound
      | Some m \<Rightarrow>
          (case tool_Resolve (an_ToolName (cr_Action req)) (an_ToolVersion (cr_Action req)) m of
             None \<Rightarrow> if an_ToolVersion (cr_Action req) \<noteq> [] then Inl ErrCapabilityVersionNotFound
                     else Inl ErrCapabilityNotFound
           | Some entry \<Rightarrow>
               let def = te_Definition entry
               in if \<not> tf_Enabled def then Inl ErrCapabilityDisabled
                  else Inr \<lparr>re_Snapshot = \<lparr>
                         sn_SnapshotID = ''cap_'' @ uuid, sn_SessionID = cr_SessionID req,
                         sn_TaskID = cr_TaskID req, sn_PlanID = [], sn_StepID = cr_StepID req, sn_ViewID = [],
                         sn_Scope = SnapshotScopeAction, sn_ToolName = tf_ToolName def,
                         sn_Version = tf_Version def, sn_CapabilityType = tf_CapabilityType def,
                         sn_RiskLevel = tf_RiskLevel def, sn_Metadata = tf_Metadata def,
                         sn_ResolvedAt = now\<rparr>,
                       re_Definition = def, re_Handler = te_Handler entry\<rparr>))"

definition cap_Match :: "(goerr \<Rightarrow> string) \<Rightarrow> string \<Rightarrow> int \<Rightarrow> tool_map option \<Rightarrow> cap_request \<Rightarrow> goerr + match_result" where
  "cap_Match errText uuid now registry req =
     (case cap_Resolve uuid now registry req of
        Inl err \<Rightarrow>
          (case UnsupportedReasonFromError errText err req of
             Some reason \<Rightarrow> Inr \<lparr>mr_Supported = False, mr_Resolution = None, mr_Reasons = [reason]\<rparr>
           | None \<Rightarrow> Inl err)
      | Inr r \<Rightarrow>
          let reasons = UnsupportedReasonsForDefinition (re_Definition r) (cr_Requirements req)
          in if 0 < length reasons then Inr \<lparr>mr_Supported = False, mr_Resolution = None, mr_Reasons = reasons\<rparr>
             else Inr \<lparr>mr_Supported = True, mr_Resolution = Some r, mr_Reasons = []\<rparr>)"

definition freeze_entry :: "string \<Rightarrow> string \<Rightarrow> string \<Rightarrow> int \<Rightarrow> tool_definition \<Rightarrow> snapshot" where
  "freeze_entry sid tid viewID now def = \<lparr>
     sn_SnapshotID = [], sn_SessionID = sid, sn_TaskID = tid, sn_PlanID = [], sn_StepID = [],
     sn_ViewID = viewID, sn_Scope = SnapshotScopePlan, sn_ToolName = tf_ToolName def,
     sn_Version = tf_Version def, sn_CapabilityType = tf_CapabilityType def,
     sn_RiskLevel = tf_RiskLevel def, sn_Metadata = tf_Metadata def, sn_ResolvedAt = now\<rparr>"

definition Freeze :: "string \<Rightarrow> int \<Rightarrow> tool_map option \<Rightarrow> string \<Rightarrow> string \<Rightarrow> cap_view" where
  "Freeze uuid now registry sid tid =
     \<lparr>cv_ViewID = ''capv_'' @ uuid, cv_SessionID = sid, cv_TaskID = tid,
      cv_Entries = (case registry of None \<Rightarrow> []
        | Some m \<Rightarrow> map (freeze_entry sid tid (''capv_'' @ uuid) now) (filter tf_Enabled (tool_List m))),
      cv_FrozenAt = now\<rparr>"

section \<open>The snapshot store\<close>

definition snapshot_Create :: "string \<Rightarrow> int \<Rightarrow> snapshot \<Rightarrow> snapshot gomap \<Rightarrow> snapshot \<times> snapshot gomap" where
  "snapshot_Create uuid now spec m =
     (let spec = spec\<lparr>sn_SnapshotID := or_str (sn_SnapshotID spec) (''cap_'' @ uuid),
                      sn_Scope := (if sn_Scope spec = ScopeOther [] then SnapshotScopeAction else sn_Scope spec),
                      sn_ResolvedAt := or_int (sn_ResolvedAt spec) now\<rparr>
      in (spec, gm_put (sn_SnapshotID spec) spec m))"

definition snapshot_Get :: "string \<Rightarrow> snapshot gomap \<Rightarrow> goerr + snapshot" where
  "snapshot_Get = mem_get ErrSnapshotNotFound"

definition snapshot_List :: "string \<Rightarrow> snapshot gomap \<Rightarrow> snapshot list" where
  "snapshot_List sid m = go_sort (\<lambda>a b. sn_ResolvedAt a < sn_ResolvedAt b) (by_owner sn_SessionID sid m)"

interpretation snapshots: creating_store "keyed sn_SnapshotID" sn_SnapshotID sn_SessionID snapshot_Get
  snapshot_List snapshot_Create
  unfolding snapshot_Get_def snapshot_List_def[abs_def]
  by (rule mem_creating_store[where fill = "\<lambda>u now spec. fst (snapshot_Create u now spec [])"])
    (simp add: snapshot_Create_def Let_def)

section \<open>Lemmas\<close>

lemma UnsupportedReasonFromError_capability:
  "e \<in> {ErrCapabilityNotFound, ErrCapabilityDisabled, ErrCapabilityVersionNotFound} \<Longrightarrow>
   \<exists>r. UnsupportedReasonFromError errText e req = Some r"
  by (auto simp: UnsupportedReasonFromError_def errors_is_def error_parts.simps Let_def)

lemma cap_Resolve_errors:
  "cap_Resolve uuid now registry req = Inl e \<Longrightarrow>
     e \<in> {ErrCapabilityNotFound, ErrCapabilityDisabled, ErrCapabilityVersionNotFound}"
  by (auto simp: cap_Resolve_def Let_def split: option.splits if_splits)

lemma unsupported_codes:
  "map ur_Code (UnsupportedReasonsForDefinition def (Some r)) =
     map (\<lambda>(_, _, code, _). code)
       (filter (\<lambda>(needs, key, _). needs r \<and> \<not> supportFlag (tf_Metadata def) key) support_checks)"
  by (simp add: UnsupportedReasonsForDefinition_def support_checks_def)

section \<open>Properties\<close>

text \<open>
  Matching never fails and answers whether the step can run. It reports support exactly if the
  registry resolves the tool and version to an enabled entry and the entry advertises every
  feature the request needs; the resolution is then that entry, definition and handler, with a
  snapshot of the same tool and version. Otherwise there is at least one reason, and a tool that is
  disabled is never matched.
\<close>

theorem cap_Match_supported:
  "\<exists>r. cap_Match errText uuid now registry req = Inr r
     \<and> (mr_Supported r \<longleftrightarrow> (\<exists>m e. registry = Some m
          \<and> tool_Resolve (an_ToolName (cr_Action req)) (an_ToolVersion (cr_Action req)) m = Some e
          \<and> tf_Enabled (te_Definition e)
          \<and> mr_Resolution r = Some (\<lparr>re_Snapshot = re_Snapshot (the (mr_Resolution r)),
               re_Definition = te_Definition e, re_Handler = te_Handler e\<rparr>)
          \<and> sn_ToolName (re_Snapshot (the (mr_Resolution r))) = tf_ToolName (te_Definition e)
          \<and> sn_Version (re_Snapshot (the (mr_Resolution r))) = tf_Version (te_Definition e)
          \<and> list_all (\<lambda>(needs, key, _). case cr_Requirements req of None \<Rightarrow> True
               | Some q \<Rightarrow> if needs q then supportFlag (tf_Metadata (te_Definition e)) key else True) support_checks))
     \<and> (mr_Supported r \<longleftrightarrow> mr_Reasons r = [])"
proof (cases "cap_Resolve uuid now registry req")
  case (Inl e)
  then obtain reason where "UnsupportedReasonFromError errText e req = Some reason"
    using UnsupportedReasonFromError_capability[OF cap_Resolve_errors] by blast
  with Inl show ?thesis
    by (auto simp: cap_Match_def cap_Resolve_def Let_def split: option.splits if_splits)
next
  case (Inr res)
  then obtain m e where me: "registry = Some m"
    "tool_Resolve (an_ToolName (cr_Action req)) (an_ToolVersion (cr_Action req)) m = Some e"
    "tf_Enabled (te_Definition e)"
    and res: "res = \<lparr>re_Snapshot = re_Snapshot res, re_Definition = te_Definition e, re_Handler = te_Handler e\<rparr>"
    "sn_ToolName (re_Snapshot res) = tf_ToolName (te_Definition e)"
    "sn_Version (re_Snapshot res) = tf_Version (te_Definition e)"
    by (auto simp: cap_Resolve_def Let_def split: option.splits if_splits)
  have empty: "UnsupportedReasonsForDefinition (te_Definition e) (cr_Requirements req) = [] \<longleftrightarrow>
      list_all (\<lambda>(needs, key, _). case cr_Requirements req of None \<Rightarrow> True
               | Some q \<Rightarrow> if needs q then supportFlag (tf_Metadata (te_Definition e)) key else True) support_checks"
    by (auto simp: UnsupportedReasonsForDefinition_def support_checks_def split: option.splits)
  have "re_Definition res = te_Definition e" using res(1) by (metis resolution.select_convs(2))
  then show ?thesis using Inr me res empty
    by (auto simp: cap_Match_def Let_def)
qed

end
