(* ===== verification/Verify_Registry.thy ===== *)
theory Verify_Registry
  imports Plan Session
begin

text \<open>
  The verifier registry: \<^verbatim>\<open>pkg/harness/verify\<close> registry.go. A checker is a function of the
  application from arguments, action result and session to a result and an optional error.
  \<^verbatim>\<open>Evaluate\<close> runs every check of a specification, registered or not, and combines the results by
  the mode; the property gives the combination declaratively.
\<close>

type_synonym checker = "meta \<Rightarrow> action_result \<Rightarrow> session \<Rightarrow> verify_result \<times> goerr option"

record verifier_definition =
  vd_Kind :: string
  vd_Description :: string
  vd_ArgsSchema :: meta

record verifier_entry =
  ve_Definition :: verifier_definition
  ve_Checker :: "checker option"

type_synonym verifier_map = "verifier_entry gomap"

definition verifier_Register :: "verifier_definition \<Rightarrow> checker option \<Rightarrow> verifier_map \<Rightarrow> verifier_map" where
  "verifier_Register def checker m = gm_put (vd_Kind def) \<lparr>ve_Definition = def, ve_Checker = checker\<rparr> m"

definition verifier_Get :: "string \<Rightarrow> verifier_map \<Rightarrow> verifier_entry option" where
  "verifier_Get kind m = gm_get m kind"

definition verifier_List :: "verifier_map \<Rightarrow> verifier_definition list" where
  "verifier_List m = go_sort (\<lambda>a b. vd_Kind a < vd_Kind b) (map ve_Definition (gm_vals m))"

text \<open>A result stored as a detail: a value of type \<^verbatim>\<open>verify.Result\<close>.\<close>

definition result_value :: "verify_result \<Rightarrow> gval" where
  "result_value r = VStruct ''verify.Result''
     [(''success'', VBool (vr_Success r)), (''details'', VMap (vr_Details r)), (''reason'', VStr (vr_Reason r))]"

record eval_state =
  ev_aggregated :: meta
  ev_anySuccess :: bool
  ev_allSuccess :: bool
  ev_firstError :: "goerr option"
  ev_lastReason :: string

definition eval_check :: "verifier_map \<Rightarrow> action_result \<Rightarrow> session \<Rightarrow> eval_state \<Rightarrow> check \<Rightarrow> eval_state" where
  "eval_check m result st ev c =
     (case verifier_Get (ck_Kind c) m of
        None \<Rightarrow> ev\<lparr>ev_allSuccess := False, ev_lastReason := ''verifier not registered: '' @ ck_Kind c,
                   ev_firstError := (case ev_firstError ev of None \<Rightarrow> Some ErrVerifierNotRegistered | e \<Rightarrow> e)\<rparr>
      | Some entry \<Rightarrow>
          (case ve_Checker entry of
             None \<Rightarrow> ev\<lparr>ev_allSuccess := False, ev_lastReason := ''verifier has no checker: '' @ ck_Kind c\<rparr>
           | Some checker \<Rightarrow>
               (case checker (ck_Args c) result st of (res, err) \<Rightarrow>
                  let ev = ev\<lparr>ev_aggregated := gm_put (ck_Kind c) (result_value res) (ev_aggregated ev),
                              ev_firstError := (case ev_firstError ev of None \<Rightarrow> err | e \<Rightarrow> e)\<rparr>
                  in if vr_Success res then ev\<lparr>ev_anySuccess := True\<rparr>
                     else ev\<lparr>ev_allSuccess := False,
                             ev_lastReason := (if vr_Reason res \<noteq> [] then vr_Reason res else ev_lastReason ev)\<rparr>)))"

definition Evaluate :: "verifier_map \<Rightarrow> verify_spec \<Rightarrow> action_result \<Rightarrow> session \<Rightarrow> verify_result \<times> goerr option" where
  "Evaluate m spec result st =
     (if vs_Checks spec = []
      then (\<lparr>vr_Success = True, vr_Details = [], vr_Reason = ''no checks configured''\<rparr>, None)
      else let mode = (if vs_Mode spec = ModeOther [] then ModeAll else vs_Mode spec);
               ev = foldl (eval_check m result st)
                      \<lparr>ev_aggregated = [], ev_anySuccess = False, ev_allSuccess = True,
                       ev_firstError = None, ev_lastReason = []\<rparr> (vs_Checks spec);
               success = (case mode of ModeAny \<Rightarrow> ev_anySuccess ev | _ \<Rightarrow> ev_allSuccess ev)
           in (\<lparr>vr_Success = success, vr_Details = ev_aggregated ev, vr_Reason = ev_lastReason ev\<rparr>,
               ev_firstError ev))"

section \<open>Lemmas\<close>

text \<open>What one check yields on its own: whether it passes, and its error.\<close>

definition check_outcome :: "verifier_map \<Rightarrow> action_result \<Rightarrow> session \<Rightarrow> check \<Rightarrow> bool \<times> goerr option" where
  "check_outcome m result st c =
     (case gm_get m (ck_Kind c) of
        None \<Rightarrow> (False, Some ErrVerifierNotRegistered)
      | Some entry \<Rightarrow> (case ve_Checker entry of
           None \<Rightarrow> (False, None)
         | Some checker \<Rightarrow> map_prod vr_Success id (checker (ck_Args c) result st)))"

abbreviation check_passes :: "verifier_map \<Rightarrow> action_result \<Rightarrow> session \<Rightarrow> check \<Rightarrow> bool" where
  "check_passes m result st c \<equiv> fst (check_outcome m result st c)"

definition first_error :: "goerr option list \<Rightarrow> goerr option" where
  "first_error es = (case List.map_filter id es of [] \<Rightarrow> None | e # _ \<Rightarrow> Some e)"

lemma first_error_Cons: "first_error (e # es) = (case e of Some x \<Rightarrow> Some x | None \<Rightarrow> first_error es)"
  by (simp add: first_error_def List.map_filter_simps split: option.split)

lemma eval_check_step:
  "ev_anySuccess (eval_check m result st ev c) \<longleftrightarrow> ev_anySuccess ev \<or> check_passes m result st c"
  "ev_allSuccess (eval_check m result st ev c) \<longleftrightarrow> ev_allSuccess ev \<and> check_passes m result st c"
  "ev_firstError (eval_check m result st ev c) =
     (case ev_firstError ev of Some e \<Rightarrow> Some e | None \<Rightarrow> snd (check_outcome m result st c))"
  by (auto simp: eval_check_def check_outcome_def verifier_Get_def Let_def split: option.split prod.split)

lemma eval_checks:
  "ev_anySuccess (foldl (eval_check m result st) ev cs) \<longleftrightarrow> ev_anySuccess ev \<or> (\<exists>c \<in> set cs. check_passes m result st c)"
  "ev_allSuccess (foldl (eval_check m result st) ev cs) \<longleftrightarrow> ev_allSuccess ev \<and> (\<forall>c \<in> set cs. check_passes m result st c)"
  "ev_firstError (foldl (eval_check m result st) ev cs) =
     (case ev_firstError ev of Some e \<Rightarrow> Some e | None \<Rightarrow> first_error (map (\<lambda>c. snd (check_outcome m result st c)) cs))"
  by (induction cs arbitrary: ev)
    (auto simp: eval_check_step first_error_Cons first_error_def[of "[]"] List.map_filter_simps split: option.split)

section \<open>Properties\<close>

text \<open>
  Evaluation of a verification specification. Without checks it succeeds. In mode any it succeeds
  exactly if some check passes, in every other mode exactly if all do; a check passes only if its
  kind is registered with a checker that reports success. All checks are run, and the error returned
  is that of the first check that has one, where an unregistered kind counts as an error, whatever
  the verdict is.
\<close>

theorem Evaluate_verdict:
  "(vr_Success (fst (Evaluate m spec result st)) \<longleftrightarrow>
      (if vs_Checks spec = [] then True
       else if vs_Mode spec = ModeAny then \<exists>c \<in> set (vs_Checks spec). check_passes m result st c
       else \<forall>c \<in> set (vs_Checks spec). check_passes m result st c))
   \<and> snd (Evaluate m spec result st) = first_error (map (\<lambda>c. snd (check_outcome m result st c)) (vs_Checks spec))"
  by (cases "vs_Mode spec")
    (auto simp: Evaluate_def eval_checks Let_def first_error_def[of "[]"] List.map_filter_simps)

definition ex_verifiers :: verifier_map where
  "ex_verifiers = verifier_Register \<lparr>vd_Kind = ''ok'', vd_Description = [], vd_ArgsSchema = []\<rparr>
     (Some (\<lambda>_ _ _. (\<lparr>vr_Success = True, vr_Details = [], vr_Reason = []\<rparr>, None))) []"

theorem Evaluate_verdict_witness:
  "let spec = \<lparr>vs_Mode = ModeAny, vs_Checks = [\<lparr>ck_Kind = ''missing'', ck_Args = []\<rparr>, \<lparr>ck_Kind = ''ok'', ck_Args = []\<rparr>]\<rparr>;
       res = \<lparr>ar_OK = True, ar_Data = [], ar_Meta = [], ar_Error = None\<rparr>
   in vr_Success (fst (Evaluate ex_verifiers spec res zero_session))
      \<and> snd (Evaluate ex_verifiers spec res zero_session) = Some ErrVerifierNotRegistered
      \<and> (\<exists>c \<in> set (vs_Checks spec). check_passes ex_verifiers res zero_session c)"
proof -
  let ?spec = "\<lparr>vs_Mode = ModeAny, vs_Checks = [\<lparr>ck_Kind = ''missing'', ck_Args = []\<rparr>, \<lparr>ck_Kind = ''ok'', ck_Args = []\<rparr>]\<rparr>"
  let ?res = "\<lparr>ar_OK = True, ar_Data = [], ar_Meta = [], ar_Error = None\<rparr>"
  have "\<exists>c \<in> set (vs_Checks ?spec). check_passes ex_verifiers ?res zero_session c"
    "first_error (map (\<lambda>c. snd (check_outcome ex_verifiers ?res zero_session c)) (vs_Checks ?spec)) = Some ErrVerifierNotRegistered"
    by (simp_all add: ex_verifiers_def verifier_Register_def check_outcome_def first_error_def List.map_filter_simps)
  then show ?thesis using Evaluate_verdict[of ex_verifiers ?spec ?res zero_session] by (simp add: Let_def)
qed

end
