(* ===== verification/Journal.thy ===== *)
theory Journal
  imports Execution
begin

text \<open>
  The append-only records: audit events (\<^verbatim>\<open>pkg/harness/audit\<close>), planning records
  (\<^verbatim>\<open>pkg/harness/planning\<close>) and context summaries (\<^verbatim>\<open>pkg/harness/contextsummary\<close>), with their
  in-memory stores. Planning and summary stores are creating stores like those of the execution
  facts; the audit store numbers its events.
\<close>

section \<open>Audit events\<close>

record audit_event =
  au_EventID :: string
  au_Sequence :: int
  au_Type :: string
  au_SessionID :: string
  au_TaskID :: string
  au_PlanningID :: string
  au_ApprovalID :: string
  au_StepID :: string
  au_AttemptID :: string
  au_ActionID :: string
  au_VerificationID :: string
  au_CycleID :: string
  au_TraceID :: string
  au_CausationID :: string
  au_Payload :: meta
  au_CreatedAt :: int

record audit_store =
  as_events :: "audit_event list"
  as_nextSeq :: int

definition audit_empty :: audit_store where
  "audit_empty = \<lparr>as_events = [], as_nextSeq = 0\<rparr>"

definition audit_Emit :: "audit_event \<Rightarrow> audit_store \<Rightarrow> audit_store" where
  "audit_Emit event s =
     (if au_Sequence event = 0
      then let n = as_nextSeq s + 1
           in s\<lparr>as_nextSeq := n, as_events := as_events s @ [event\<lparr>au_Sequence := n\<rparr>]\<rparr>
      else s\<lparr>as_events := as_events s @ [event]\<rparr>)"

definition audit_List :: "string \<Rightarrow> audit_store \<Rightarrow> audit_event list" where
  "audit_List sid s = filter (\<lambda>e. sid = [] \<or> au_SessionID e = sid) (as_events s)"

section \<open>Planning records\<close>

datatype PlanningStatus = PlanningCompleted | PlanningFailed | PlanningOther string

record planning_record =
  pr_PlanningID :: string
  pr_SessionID :: string
  pr_TaskID :: string
  pr_Status :: PlanningStatus
  pr_Reason :: string
  pr_Error :: string
  pr_PlanID :: string
  pr_PlanRevision :: int
  pr_CapabilityViewID :: string
  pr_ContextSummaryID :: string
  pr_Metadata :: meta
  pr_StartedAt :: int
  pr_FinishedAt :: int

definition planning_Create :: "string \<Rightarrow> int \<Rightarrow> planning_record \<Rightarrow> planning_record gomap
    \<Rightarrow> planning_record \<times> planning_record gomap" where
  "planning_Create uuid now spec m =
     (let spec = spec\<lparr>pr_PlanningID := or_str (pr_PlanningID spec) (''pln_'' @ uuid),
                      pr_StartedAt := or_int (pr_StartedAt spec) now\<rparr>;
          spec = spec\<lparr>pr_FinishedAt := or_int (pr_FinishedAt spec) (pr_StartedAt spec)\<rparr>
      in (spec, gm_put (pr_PlanningID spec) spec m))"

definition planning_Get :: "string \<Rightarrow> planning_record gomap \<Rightarrow> goerr + planning_record" where
  "planning_Get = mem_get ErrPlanningRecordNotFound"

definition planning_less :: "planning_record \<Rightarrow> planning_record \<Rightarrow> bool" where
  "planning_less a b =
     (if pr_StartedAt a = pr_StartedAt b
      then (if pr_PlanRevision a = pr_PlanRevision b then pr_PlanningID a < pr_PlanningID b
            else pr_PlanRevision a < pr_PlanRevision b)
      else pr_StartedAt a < pr_StartedAt b)"

definition planning_List :: "string \<Rightarrow> planning_record gomap \<Rightarrow> planning_record list" where
  "planning_List sid m = go_sort planning_less (by_owner pr_SessionID sid m)"

interpretation plannings: creating_store "keyed pr_PlanningID" pr_PlanningID pr_SessionID planning_Get
  planning_List planning_Create
  unfolding planning_Get_def planning_List_def[abs_def]
  by (rule mem_creating_store[where fill = "\<lambda>u now spec. fst (planning_Create u now spec [])"])
    (simp add: planning_Create_def Let_def)

interpretation planning_order: sort_by_key planning_less
  "\<lambda>p. (pr_StartedAt p, pr_PlanRevision p, pr_PlanningID p)"
  by unfold_locales (auto simp: planning_less_def)

section \<open>Context summaries\<close>

record summary =
  su_SummaryID :: string
  su_SessionID :: string
  su_TaskID :: string
  su_Sequence :: int
  su_Trigger :: string
  su_SupersedesSummaryID :: string
  su_Strategy :: string
  su_Summary :: meta
  su_Metadata :: meta
  su_OriginalBytes :: int
  su_CompactedBytes :: int
  su_CreatedAt :: int

record summary_store =
  ss_items :: "summary gomap"
  ss_nextSequence :: int

definition summary_Create :: "string \<Rightarrow> int \<Rightarrow> summary \<Rightarrow> summary_store \<Rightarrow> summary \<times> summary_store" where
  "summary_Create uuid now spec s =
     (let spec = spec\<lparr>su_SummaryID := or_str (su_SummaryID spec) (''ctx_'' @ uuid),
                      su_CreatedAt := or_int (su_CreatedAt spec) now\<rparr>;
          n = (if su_Sequence spec = 0 then ss_nextSequence s + 1 else ss_nextSequence s);
          spec = (if su_Sequence spec = 0 then spec\<lparr>su_Sequence := n\<rparr> else spec)
      in (spec, s\<lparr>ss_nextSequence := n, ss_items := gm_put (su_SummaryID spec) spec (ss_items s)\<rparr>))"

definition summary_Get :: "string \<Rightarrow> summary_store \<Rightarrow> goerr + summary" where
  "summary_Get k s = mem_get ErrContextSummaryNotFound k (ss_items s)"

definition summary_less :: "summary \<Rightarrow> summary \<Rightarrow> bool" where
  "summary_less a b =
     (if su_CreatedAt a = su_CreatedAt b
      then (if su_Sequence a = su_Sequence b then su_SummaryID a < su_SummaryID b
            else su_Sequence a < su_Sequence b)
      else su_CreatedAt a < su_CreatedAt b)"

definition summary_List :: "string \<Rightarrow> summary_store \<Rightarrow> summary list" where
  "summary_List sid s = go_sort summary_less (by_owner su_SessionID sid (ss_items s))"

interpretation summaries: creating_store "\<lambda>s. keyed su_SummaryID (ss_items s)" su_SummaryID su_SessionID
  summary_Get summary_List summary_Create
proof
  fix s :: summary_store and r k sid u now x s'
  assume k: "keyed su_SummaryID (ss_items s)"
  show "summary_Get k s = Inr r \<Longrightarrow> su_SummaryID r = k"
    using k by (auto simp: summary_Get_def keyed_get)
  show "(r \<in> set (summary_List sid s)) = (summary_Get (su_SummaryID r) s = Inr r \<and> (sid = [] \<or> su_SessionID r = sid))"
    using k by (auto simp: summary_Get_def summary_List_def by_owner_set)
  show "distinct (map su_SummaryID (summary_List sid s))"
    using k by (auto simp: summary_List_def intro: by_owner_distinct distinct_map_go_sort)
  show "summary_Create u now x s = (r, s') \<Longrightarrow> keyed su_SummaryID (ss_items s')"
    using k by (auto simp: summary_Create_def Let_def)
  show "summary_Create u now x s = (r, s') \<Longrightarrow> summary_Get k s' = (if k = su_SummaryID r then Inr r else summary_Get k s)"
    by (auto simp: summary_Create_def summary_Get_def Let_def)
qed

section \<open>Properties\<close>

text \<open>Every event emitted without a number of its own gets the next one.\<close>

definition audit_ok :: "audit_store \<Rightarrow> bool" where
  "audit_ok s \<longleftrightarrow> map au_Sequence (as_events s) = map int [1..<Suc (length (as_events s))]
     \<and> as_nextSeq s = int (length (as_events s))"

lemma audit_Emit_ok: "audit_ok s \<Longrightarrow> au_Sequence e = 0 \<Longrightarrow> audit_ok (audit_Emit e s)"
  by (simp add: audit_ok_def audit_Emit_def Let_def)

lemma audit_run_ok:
  "audit_ok s \<Longrightarrow> list_all (\<lambda>e. au_Sequence e = 0) es \<Longrightarrow> audit_ok (foldl (\<lambda>s e. audit_Emit e s) s es)"
  by (induction es arbitrary: s) (auto simp: audit_Emit_ok)

lemma audit_run_events:
  "list_all (\<lambda>e. au_Sequence e = 0) es \<Longrightarrow>
   map (au_Sequence_update (\<lambda>_. 0)) (as_events (foldl (\<lambda>s e. audit_Emit e s) s es))
     = map (au_Sequence_update (\<lambda>_. 0)) (as_events s) @ es"
  by (induction es arbitrary: s) (auto simp: audit_Emit_def Let_def)

lemma sorted_wrt_filter_map:
  "sorted_wrt R (map f xs) \<Longrightarrow> sorted_wrt R (map f (filter P xs))"
  by (induction xs) auto

text \<open>
  The audit log is complete, ordered and numbered. Whatever events are emitted (none with a
  number of its own), the log holds exactly these events in the order of emission, numbered 1, 2,
  3 and so on; the events of one session come in strictly increasing numbers, without loss.
\<close>

theorem audit_log_ordered:
  assumes "list_all (\<lambda>e. au_Sequence e = 0) es" and "lg = foldl (\<lambda>s e. audit_Emit e s) audit_empty es"
  shows "map (au_Sequence_update (\<lambda>_. 0)) (audit_List [] lg) = es
    \<and> map au_Sequence (audit_List [] lg) = map int [1..<Suc (length es)]
    \<and> sorted_wrt (<) (map au_Sequence (audit_List sid lg))
    \<and> map (au_Sequence_update (\<lambda>_. 0)) (audit_List sid lg) = filter (\<lambda>e. sid = [] \<or> au_SessionID e = sid) es"
proof -
  have ok: "audit_ok lg" unfolding assms(2) by (rule audit_run_ok[OF _ assms(1)]) (simp add: audit_ok_def audit_empty_def)
  have ev: "map (au_Sequence_update (\<lambda>_. 0)) (as_events lg) = es"
    unfolding assms(2) audit_run_events[OF assms(1)] by (simp add: audit_empty_def)
  then have len: "length (as_events lg) = length es" by (metis length_map)
  have seq: "map au_Sequence (as_events lg) = map int [1..<Suc (length es)]"
    using ok by (simp add: audit_ok_def len)
  have "sorted_wrt (<) (map au_Sequence (as_events lg))"
    unfolding seq by (simp add: sorted_wrt_map del: upt_Suc)
  moreover have "map (au_Sequence_update (\<lambda>_. 0)) (filter (\<lambda>e. sid = [] \<or> au_SessionID e = sid) (as_events lg))
      = filter (\<lambda>e. sid = [] \<or> au_SessionID e = sid) es"
    unfolding ev[symmetric] by (simp add: filter_map comp_def)
  ultimately show ?thesis using ev seq by (simp add: audit_List_def sorted_wrt_filter_map del: upt_Suc)
qed

definition ex_event :: "string \<Rightarrow> audit_event" where
  "ex_event sid = \<lparr>au_EventID = [], au_Sequence = 0, au_Type = ''state.changed'', au_SessionID = sid, au_TaskID = [],
     au_PlanningID = [], au_ApprovalID = [], au_StepID = [], au_AttemptID = [], au_ActionID = [],
     au_VerificationID = [], au_CycleID = [], au_TraceID = [], au_CausationID = [], au_Payload = [], au_CreatedAt = 0\<rparr>"

theorem audit_log_ordered_witness:
  "let lg = foldl (\<lambda>s e. audit_Emit e s) audit_empty [ex_event ''a'', ex_event ''b'', ex_event ''a'']
   in sorted_wrt (<) (map au_Sequence (audit_List ''a'' lg)) \<and> map au_Sequence (audit_List ''a'' lg) = [1, 3]"
proof -
  let ?es = "[ex_event ''a'', ex_event ''b'', ex_event ''a'']"
  have "list_all (\<lambda>e. au_Sequence e = 0) ?es" by (simp add: ex_event_def)
  then have "sorted_wrt (<) (map au_Sequence (audit_List ''a'' (foldl (\<lambda>s e. audit_Emit e s) audit_empty ?es)))"
    using audit_log_ordered[of ?es, OF _ refl, of "''a''"] by blast
  moreover have "map au_Sequence (audit_List ''a'' (foldl (\<lambda>s e. audit_Emit e s) audit_empty ?es)) = [1, 3]" by code_simp
  ultimately show ?thesis by (simp add: Let_def)
qed

end
