(* ===== verification/Session_Update.thy ===== *)
theory Session_Update
  imports Session
begin

text \<open>
  How the runtime writes sessions: \<^verbatim>\<open>pkg/harness/runtime\<close> session_update.go, with the lease check of
  recovery.go. A lease holder reads the stored session, merges its desired state into it and
  retries the write on a version conflict, at most four times. Other workers act on the store in
  between: \<open>pre\<close> and \<open>mid\<close> say what they do before the read and between read and write of each
  attempt. What they do is only assumed to be a sequence of steps of the store's specification.
\<close>

section \<open>Operations\<close>

definition requireSessionLease :: "session \<Rightarrow> string \<Rightarrow> int \<Rightarrow> goerr + unit" where
  "requireSessionLease st leaseID now =
     (if leaseID = []
      then if st_LeaseID st \<noteq> [] \<and> now < st_LeaseExpiresAt st then Inl ErrSessionLeaseNotHeld else Inr ()
      else if st_LeaseID st \<noteq> leaseID \<or> st_LeaseExpiresAt st \<le> now then Inl ErrSessionLeaseNotHeld
      else Inr ())"

definition mergeSessionUpdate :: "session \<Rightarrow> session \<Rightarrow> string \<Rightarrow> session" where
  "mergeSessionUpdate current desired leaseID =
     (let candidate = desired\<lparr>st_Version := st_Version current + 1, st_CreatedAt := st_CreatedAt current\<rparr>;
          candidate = (if st_RuntimeStartedAt candidate = 0
                       then candidate\<lparr>st_RuntimeStartedAt := st_RuntimeStartedAt current\<rparr> else candidate);
          candidate = (if st_LeaseID current \<noteq> [] \<and> (leaseID = [] \<or> st_LeaseID current = leaseID)
             then let c = candidate\<lparr>st_LeaseID := st_LeaseID current, st_LeaseClaimedAt := st_LeaseClaimedAt current,
                                    st_LeaseExpiresAt := st_LeaseExpiresAt current\<rparr>
                  in if st_LastHeartbeatAt c < st_LastHeartbeatAt current
                     then c\<lparr>st_LastHeartbeatAt := st_LastHeartbeatAt current\<rparr> else c
             else candidate)
      in if st_LastHeartbeatAt candidate = 0
         then candidate\<lparr>st_LastHeartbeatAt := st_LastHeartbeatAt current\<rparr> else candidate)"

definition maxSessionUpdateAttempts :: nat where
  "maxSessionUpdateAttempts = 4"

text \<open>
  The loop of \<^verbatim>\<open>updateSessionWithRetry\<close>, with \<open>n\<close> attempts left and the number \<open>k\<close> of the next one;
  \<open>updAt k\<close> is the store's clock at the write.
\<close>

fun update_loop :: "(nat \<Rightarrow> session_map \<Rightarrow> session_map) \<Rightarrow> (nat \<Rightarrow> session_map \<Rightarrow> session_map) \<Rightarrow> (nat \<Rightarrow> int)
    \<Rightarrow> nat \<Rightarrow> nat \<Rightarrow> session \<Rightarrow> string \<Rightarrow> int \<Rightarrow> session_map \<Rightarrow> (goerr + session) \<times> session_map" where
  "update_loop pre mid updAt 0 k desired leaseID now m = (Inl ErrSessionVersionConflict, m)"
| "update_loop pre mid updAt (Suc n) k desired leaseID now m =
     (let m = pre k m
      in case session_Get (st_SessionID desired) m of
           Inl e \<Rightarrow> (Inl e, m)
         | Inr current \<Rightarrow>
             (case requireSessionLease current leaseID now of
                Inl e \<Rightarrow> (Inl e, m)
              | Inr _ \<Rightarrow>
                  let candidate = mergeSessionUpdate current desired leaseID; m = mid k m
                  in case session_Update (updAt k) candidate m of
                       Inl e \<Rightarrow> if errors_is e ErrSessionVersionConflict
                                then update_loop pre mid updAt n (Suc k) desired leaseID now m
                                else (Inl e, m)
                     | Inr m' \<Rightarrow> (Inr candidate, m')))"

definition updateSessionWithRetry :: "(nat \<Rightarrow> session_map \<Rightarrow> session_map) \<Rightarrow> (nat \<Rightarrow> session_map \<Rightarrow> session_map) \<Rightarrow> (nat \<Rightarrow> int)
    \<Rightarrow> int \<Rightarrow> session \<Rightarrow> string \<Rightarrow> int \<Rightarrow> session_map \<Rightarrow> (goerr + session) \<times> session_map" where
  "updateSessionWithRetry pre mid updAt sysNow desired leaseID now m =
     (let now = (if now = 0 then sysNow else now)
      in update_loop pre mid updAt maxSessionUpdateAttempts 0 desired leaseID now m)"

definition persistSessionUpdateAt :: "(nat \<Rightarrow> session_map \<Rightarrow> session_map) \<Rightarrow> (nat \<Rightarrow> session_map \<Rightarrow> session_map) \<Rightarrow> (nat \<Rightarrow> int)
    \<Rightarrow> int \<Rightarrow> session \<Rightarrow> string \<Rightarrow> int \<Rightarrow> session_map \<Rightarrow> (goerr + session) \<times> session_map" where
  "persistSessionUpdateAt pre mid updAt sysNow desired leaseID now m =
     (if leaseID = []
      then let desired = desired\<lparr>st_Version := st_Version desired + 1\<rparr>
           in case session_Update (updAt 0) desired m of
                Inl e \<Rightarrow> (Inl e, m)
              | Inr m' \<Rightarrow> (Inr desired, m')
      else updateSessionWithRetry pre mid updAt sysNow desired leaseID now m)"

definition persistSessionUpdate :: "(nat \<Rightarrow> session_map \<Rightarrow> session_map) \<Rightarrow> (nat \<Rightarrow> session_map \<Rightarrow> session_map) \<Rightarrow> (nat \<Rightarrow> int)
    \<Rightarrow> int \<Rightarrow> session \<Rightarrow> string \<Rightarrow> session_map \<Rightarrow> (goerr + session) \<times> session_map" where
  "persistSessionUpdate pre mid updAt sysNow desired leaseID m =
     persistSessionUpdateAt pre mid updAt sysNow desired leaseID 0 m"

section \<open>Lemmas\<close>

lemma requireSessionLease_ok:
  "requireSessionLease st leaseID now = Inr () \<longleftrightarrow>
     (if leaseID = [] then \<not> leaseActiveAt st now else leaseHeldAt st leaseID now)"
  by (auto simp: requireSessionLease_def leaseActiveAt_def leaseHeldAt_def)

lemma requireSessionLease_cases: "requireSessionLease st leaseID now \<in> {Inl ErrSessionLeaseNotHeld, Inr ()}"
  by (simp add: requireSessionLease_def)

text \<open>What the merge takes from the stored session while the lease is held.\<close>

lemma merge_fields:
  assumes "leaseHeldAt c L now"
  shows "st_SessionID (mergeSessionUpdate c d L) = st_SessionID d"
    "st_Version (mergeSessionUpdate c d L) = st_Version c + 1"
    "st_CreatedAt (mergeSessionUpdate c d L) = st_CreatedAt c"
    "st_LeaseID (mergeSessionUpdate c d L) = st_LeaseID c"
    "st_LeaseClaimedAt (mergeSessionUpdate c d L) = st_LeaseClaimedAt c"
    "st_LeaseExpiresAt (mergeSessionUpdate c d L) = st_LeaseExpiresAt c"
    "st_LastHeartbeatAt c \<le> st_LastHeartbeatAt (mergeSessionUpdate c d L)"
    "st_Phase (mergeSessionUpdate c d L) = st_Phase d"
    "st_ExecutionState (mergeSessionUpdate c d L) = st_ExecutionState d"
    "st_CurrentStepID (mergeSessionUpdate c d L) = st_CurrentStepID d"
    "st_InFlightStepID (mergeSessionUpdate c d L) = st_InFlightStepID d"
    "st_PendingApprovalID (mergeSessionUpdate c d L) = st_PendingApprovalID d"
    "st_RetryCount (mergeSessionUpdate c d L) = st_RetryCount d"
    "st_Metadata (mergeSessionUpdate c d L) = st_Metadata d"
    "st_TaskID (mergeSessionUpdate c d L) = st_TaskID d"
  using assms by (auto simp: mergeSessionUpdate_def leaseHeldAt_def Let_def)

text \<open>Sequences of steps of the store's specification.\<close>

abbreviation session_steps :: "session_map \<Rightarrow> session_map \<Rightarrow> bool" where
  "session_steps \<equiv> session_step\<^sup>*\<^sup>*"

lemma session_steps_wf: "session_steps m m' \<Longrightarrow> session_wf m \<Longrightarrow> session_wf m'"
  by (induction rule: rtranclp_induct) (auto simp: session_step_wf)

lemma session_steps_version:
  assumes "session_steps m m'" and "gm_get m k = Some c"
  shows "\<exists>c'. gm_get m' k = Some c' \<and> st_Version c \<le> st_Version c' \<and> (st_Version c' = st_Version c \<longrightarrow> c' = c)"
  using assms
proof (induction rule: rtranclp_induct)
  case base
  then show ?case by simp
next
  case (step y z)
  then obtain c1 where c1: "gm_get y k = Some c1" "st_Version c \<le> st_Version c1" "st_Version c1 = st_Version c \<longrightarrow> c1 = c"
    by blast
  from session_step_version[OF step(2) c1(1)] c1 show ?case by force
qed

lemma session_run_steps: "session_wf m \<Longrightarrow> fresh_run ops m \<Longrightarrow> session_steps m (session_run ops m)"
proof (induction ops arbitrary: m)
  case (Cons op ops)
  then have "session_step m (snd (session_exec op m))" by (intro session_exec_refines) auto
  moreover have "session_steps (snd (session_exec op m)) (session_run ops (snd (session_exec op m)))"
    using Cons by (auto simp: session_exec_wf)
  ultimately show ?case by (simp add: converse_rtranclp_into_rtranclp)
qed simp

text \<open>The environment of the loop: each disturbance is a sequence of store steps.\<close>

definition store_env :: "(nat \<Rightarrow> session_map \<Rightarrow> session_map) \<Rightarrow> bool" where
  "store_env f \<longleftrightarrow> (\<forall>k m. session_wf m \<longrightarrow> session_steps m (f k m))"

lemma update_accepts_current:
  assumes "session_wf m" and "session_Get sid m = Inr cur" and "session_steps m m1"
    and "st_SessionID cand = sid" and "st_Version cand = st_Version cur + 1"
    and "session_Update t cand m1 = Inr m'"
  shows "session_Get sid m1 = Inr cur"
proof -
  from assms(2) have "gm_get m sid = Some cur" by (simp add: session_Get_def)
  from session_steps_version[OF assms(3) this] obtain c1 where
    c1: "gm_get m1 sid = Some c1" "st_Version c1 = st_Version cur \<longrightarrow> c1 = cur" by auto
  from assms(6) obtain d where "session_Get (st_SessionID cand) m1 = Inr d" "st_Version cand = st_Version d + 1"
    using sess.update_ok_iff by blast
  with c1 assms(4,5) show ?thesis by (simp add: session_Get_def)
qed

lemma update_loop_safe:
  assumes "session_wf m" and "store_env pre" and "store_env mid" and "L \<noteq> []"
    and "update_loop pre mid updAt n k d L now m = (Inr st, m')"
  shows "\<exists>m1 cur t. session_steps m m1 \<and> session_Get (st_SessionID d) m1 = Inr cur \<and> leaseHeldAt cur L now
    \<and> st = mergeSessionUpdate cur d L \<and> session_Update t st m1 = Inr m'"
  using assms(1,5)
proof (induction n arbitrary: k m)
  case 0
  then show ?case by simp
next
  case (Suc n)
  let ?m0 = "pre k m"
  have s0: "session_steps m ?m0" using assms(2) Suc.prems(1) by (simp add: store_env_def)
  have wf0: "session_wf ?m0" by (rule session_steps_wf[OF s0 Suc.prems(1)])
  from Suc.prems(2) obtain cur where cur: "session_Get (st_SessionID d) ?m0 = Inr cur"
    by (cases "session_Get (st_SessionID d) ?m0") auto
  with Suc.prems(2) have "requireSessionLease cur L now = Inr ()"
    using requireSessionLease_cases[of cur L now] by auto
  then have held: "leaseHeldAt cur L now" using assms(4) by (simp add: requireSessionLease_ok)
  let ?c = "mergeSessionUpdate cur d L" and ?m1 = "mid k ?m0"
  have s1: "session_steps ?m0 ?m1" using assms(3) wf0 by (simp add: store_env_def)
  show ?case
  proof (cases "session_Update (updAt k) ?c ?m1")
    case (Inl e)
    with Suc.prems(2) cur \<open>requireSessionLease cur L now = Inr ()\<close>
    have "update_loop pre mid updAt n (Suc k) d L now ?m1 = (Inr st, m')" by (auto simp: Let_def split: if_splits)
    from Suc.IH[OF session_steps_wf[OF s1 wf0] this] obtain m2 cur' t where
      "session_steps ?m1 m2" and r: "session_Get (st_SessionID d) m2 = Inr cur'" "leaseHeldAt cur' L now"
        "st = mergeSessionUpdate cur' d L" "session_Update t st m2 = Inr m'"
      by blast
    then have "session_steps m m2" using rtranclp_trans[OF rtranclp_trans[OF s0 s1]] by blast
    with r show ?thesis by blast
  next
    case (Inr m2)
    with Suc.prems(2) cur \<open>requireSessionLease cur L now = Inr ()\<close> have r: "st = ?c" "m' = m2" by auto
    have "session_Get (st_SessionID d) ?m1 = Inr cur"
      by (rule update_accepts_current[OF wf0 cur s1 merge_fields(1,2)[OF held] Inr])
    moreover have "session_steps m ?m1" using s0 s1 by (rule rtranclp_trans)
    ultimately show ?thesis using held r Inr by blast
  qed
qed

section \<open>Properties\<close>


text \<open>Progress of the loop.\<close>

definition lease_held :: "string \<Rightarrow> string \<Rightarrow> int \<Rightarrow> session_map \<Rightarrow> bool" where
  "lease_held sid L now m \<longleftrightarrow> (\<exists>c. session_Get sid m = Inr c \<and> leaseHeldAt c L now)"

lemma update_loop_succeeds:
  assumes "L \<noteq> []" and "lease_held (st_SessionID d) L now m"
    and "\<And>j m. lease_held (st_SessionID d) L now m \<Longrightarrow> lease_held (st_SessionID d) L now (pre j m)"
    and "\<And>j m. lease_held (st_SessionID d) L now m \<Longrightarrow> lease_held (st_SessionID d) L now (mid j m)"
    and "k \<le> q" and "q < k + n" and "\<And>m. mid q m = m"
  shows "\<exists>st m'. update_loop pre mid updAt n k d L now m = (Inr st, m')"
  using assms(2,5,6)
proof (induction n arbitrary: k m)
  case 0
  then show ?case by simp
next
  case (Suc n)
  let ?m0 = "pre k m"
  from assms(3)[OF Suc.prems(1)] obtain cur where cur: "session_Get (st_SessionID d) ?m0 = Inr cur" "leaseHeldAt cur L now"
    by (auto simp: lease_held_def)
  then have ok: "requireSessionLease cur L now = Inr ()" using assms(1) by (simp add: requireSessionLease_ok)
  let ?c = "mergeSessionUpdate cur d L" and ?m1 = "mid k ?m0"
  have held1: "lease_held (st_SessionID d) L now ?m1" using assms(3,4) Suc.prems(1) by blast
  then obtain c1 where c1: "session_Get (st_SessionID d) ?m1 = Inr c1" by (auto simp: lease_held_def)
  show ?case
  proof (cases "session_Update (updAt k) ?c ?m1")
    case (Inr m2)
    then show ?thesis using cur ok by simp
  next
    case (Inl e)
    have "e = ErrSessionVersionConflict"
      using Inl c1 merge_fields(1)[OF cur(2), of d] sess.update_conflict sess.update_fresh
      by (metis Inl_Inr_False sum.inject(1))
    moreover have "k \<noteq> q"
    proof
      assume "k = q"
      then have "?m1 = ?m0" using assms(7) by simp
      with cur merge_fields(1,2)[OF cur(2), of d] Inl show False
        using sess.update_fresh[of ?c ?m0 cur "updAt k"] by auto
    qed
    ultimately show ?thesis
      using Suc.IH[OF held1, of "Suc k"] Suc.prems cur ok Inl by (simp add: errors_is_def error_parts.simps)
  qed
qed


definition ex_leased :: session_map where
  "ex_leased = [(''s'', zero_session\<lparr>st_SessionID := ''s'', st_Version := 3, st_LeaseID := ''L'', st_LeaseExpiresAt := 100\<rparr>)]"

text \<open>Another worker's heartbeat, disturbing the first attempt only.\<close>

definition ex_disturb :: "nat \<Rightarrow> session_map \<Rightarrow> session_map" where
  "ex_disturb k m = (if k = 0 then snd (session_exec (OpRenew ''s'' ''L'' 5 100) m) else m)"

lemma store_env_id: "store_env (\<lambda>_ m. m)"
  by (simp add: store_env_def)

lemma store_env_disturb: "store_env ex_disturb"
  unfolding store_env_def ex_disturb_def
  by (auto intro!: r_into_rtranclp[of session_step] session_exec_refines simp del: session_exec.simps)



end
