(* ===== verification/Service.thy ===== *)
theory Service
  imports Task Plan_Outcome Interactive Capability Verify_Registry Journal Session_Update
begin

text \<open>
  The world the runtime service works in: \<^verbatim>\<open>persistence.RepositorySet\<close> with the in-memory stores,
  the unit-of-work runners of \<^verbatim>\<open>pkg/harness/persistence\<close> (memory.go, tx.go), the clock and the
  supply of ids, the event sinks of \<^verbatim>\<open>pkg/harness/runtime\<close> eventsink.go, and the read helpers of
  service_reads.go. A service operation is a computation that reads and writes the world and ends
  in a value or an error; the rules collected in \<open>wp\<close> compute what it does.
\<close>

section \<open>The world\<close>

record repos =
  rp_Sessions :: "session gomap"
  rp_Tasks :: "task gomap"
  rp_Plans :: "plan gomap"
  rp_Audits :: audit_store
  rp_Attempts :: "attempt gomap"
  rp_Actions :: "action_record gomap"
  rp_Verifications :: "verification_record gomap"
  rp_Artifacts :: "artifact gomap"
  rp_BlockedRuntimes :: "blocked_record gomap"
  rp_RuntimeHandles :: "runtime_handle gomap"
  rp_Approvals :: "approval gomap"
  rp_CapabilitySnapshots :: "snapshot gomap"
  rp_ContextSummaries :: summary_store
  rp_PlanningRecords :: "planning_record gomap"

text \<open>
  The clock and \<^verbatim>\<open>uuid.NewString\<close> are supplies: the \<open>i\<close>-th reading and the \<open>i\<close>-th id.
\<close>

record world =
  w_Repos :: repos
  w_Clock :: "nat \<Rightarrow> int"
  w_Uuids :: "nat \<Rightarrow> string"
  w_Reads :: nat
  w_Drawn :: nat

type_synonym 'a svc = "world \<Rightarrow> (goerr + 'a) \<times> world"

definition sret :: "'a \<Rightarrow> 'a svc" where
  "sret x = (\<lambda>w. (Inr x, w))"

definition sfail :: "goerr \<Rightarrow> 'a svc" where
  "sfail e = (\<lambda>w. (Inl e, w))"

definition sbind :: "'a svc \<Rightarrow> ('a \<Rightarrow> 'b svc) \<Rightarrow> 'b svc" where
  "sbind m f = (\<lambda>w. case m w of (Inl e, w') \<Rightarrow> (Inl e, w') | (Inr x, w') \<Rightarrow> f x w')"

definition slift :: "goerr + 'a \<Rightarrow> 'a svc" where
  "slift r = (\<lambda>w. (r, w))"

text \<open>Reading a value off the repositories, and an operation that may change them.\<close>

definition sread :: "(repos \<Rightarrow> 'a) \<Rightarrow> 'a svc" where
  "sread f = (\<lambda>w. (Inr (f (w_Repos w)), w))"

definition sexec :: "(repos \<Rightarrow> goerr + ('a \<times> repos)) \<Rightarrow> 'a svc" where
  "sexec f = (\<lambda>w. case f (w_Repos w) of Inl e \<Rightarrow> (Inl e, w) | Inr (x, r) \<Rightarrow> (Inr x, w\<lparr>w_Repos := r\<rparr>))"

definition nowMilli :: "int svc" where
  "nowMilli = (\<lambda>w. (Inr (w_Clock w (w_Reads w)), w\<lparr>w_Reads := Suc (w_Reads w)\<rparr>))"

definition newUUID :: "string svc" where
  "newUUID = (\<lambda>w. (Inr (w_Uuids w (w_Drawn w)), w\<lparr>w_Drawn := Suc (w_Drawn w)\<rparr>))"

section \<open>Runners\<close>

text \<open>
  No runner, the in-memory unit of work, or a transactional runner with the outcomes of its
  manager's \<^verbatim>\<open>Begin\<close> and of \<^verbatim>\<open>Commit\<close>. A rollback restores the repositories.
\<close>

datatype runner = NoRunner | MemoryUnitOfWork | TransactionalRunner "goerr option" "goerr option"

definition Within :: "runner \<Rightarrow> 'a svc \<Rightarrow> 'a svc" where
  "Within r fn = (case r of
     TransactionalRunner beginErr commitErr \<Rightarrow>
       (\<lambda>w. case beginErr of
          Some e \<Rightarrow> (Inl e, w)
        | None \<Rightarrow>
            (case fn w of
               (Inl e, w') \<Rightarrow> (Inl e, w'\<lparr>w_Repos := w_Repos w\<rparr>)
             | (Inr x, w') \<Rightarrow>
                 (case commitErr of
                    None \<Rightarrow> (Inr x, w')
                  | Some e \<Rightarrow> (Inl e, w'\<lparr>w_Repos := w_Repos w\<rparr>))))
   | _ \<Rightarrow> fn)"

section \<open>The service and its events\<close>

text \<open>
  The configuration an operation uses. \<open>sv_Hook\<close> is the application's own event sink, if any: its
  answer to an event. Every event also goes to the audit store, which never fails.
\<close>

record service =
  sv_Runner :: runner
  sv_Hook :: "(audit_event \<Rightarrow> goerr option) option"
  sv_Budgets :: loop_budgets

definition newAuditEventAt :: "int \<Rightarrow> string \<Rightarrow> string \<Rightarrow> string \<Rightarrow> string \<Rightarrow> meta \<Rightarrow> audit_event svc" where
  "newAuditEventAt now eventType sid tid stepID payload =
     sbind newUUID (\<lambda>uuid. sret \<lparr>au_EventID = ''evt_'' @ uuid, au_Sequence = 0, au_Type = eventType,
       au_SessionID = sid, au_TaskID = tid, au_PlanningID = [], au_ApprovalID = [], au_StepID = stepID,
       au_AttemptID = [], au_ActionID = [], au_VerificationID = [], au_CycleID = [], au_TraceID = [],
       au_CausationID = [], au_Payload = payload, au_CreatedAt = now\<rparr>)"

text \<open>\<^verbatim>\<open>FanoutEventSink.Emit\<close> on the application's sink and the audit store; the store is always reached.\<close>

definition sink_Emit :: "service \<Rightarrow> audit_event \<Rightarrow> unit svc" where
  "sink_Emit sv ev =
     (\<lambda>w. let w' = w\<lparr>w_Repos := (w_Repos w)\<lparr>rp_Audits := audit_Emit ev (rp_Audits (w_Repos w))\<rparr>\<rparr>
          in case sv_Hook sv of
               None \<Rightarrow> (Inr (), w')
             | Some hook \<Rightarrow> (case hook ev of None \<Rightarrow> (Inr (), w') | Some e \<Rightarrow> (Inl (ErrWrap [] e), w')))"

fun emitEventsWithSink :: "service \<Rightarrow> audit_event list \<Rightarrow> unit svc" where
  "emitEventsWithSink sv [] = sret ()"
| "emitEventsWithSink sv (ev # evs) = sbind (sink_Emit sv ev) (\<lambda>_. emitEventsWithSink sv evs)"

fun emitEventsBestEffort :: "service \<Rightarrow> audit_event list \<Rightarrow> unit svc" where
  "emitEventsBestEffort sv [] = sret ()"
| "emitEventsBestEffort sv (ev # evs) = (\<lambda>w. emitEventsBestEffort sv evs (snd (sink_Emit sv ev w)))"

text \<open>
  The common shape of the operations: inside the runner with its sink, or, without a runner,
  directly and with best-effort events. The flag says whether there is a sink to report to.
\<close>

definition with_runner :: "service \<Rightarrow> (bool \<Rightarrow> (audit_event list \<Rightarrow> unit svc) \<Rightarrow> 'a svc) \<Rightarrow> 'a svc" where
  "with_runner sv body =
     (case sv_Runner sv of
        NoRunner \<Rightarrow> body False (emitEventsBestEffort sv)
      | r \<Rightarrow> Within r (body True (emitEventsWithSink sv)))"

text \<open>\<^verbatim>\<open>readRepositories\<close>: a read inside the runner; it changes nothing.\<close>

definition readRepositories :: "service \<Rightarrow> (repos \<Rightarrow> goerr + 'a) \<Rightarrow> 'a svc" where
  "readRepositories sv f =
     (case sv_Runner sv of
        NoRunner \<Rightarrow> (\<lambda>w. (f (w_Repos w), w))
      | r \<Rightarrow> Within r (\<lambda>w. (f (w_Repos w), w)))"

definition getSessionRecord :: "service \<Rightarrow> string \<Rightarrow> session svc" where
  "getSessionRecord sv sid = readRepositories sv (\<lambda>r. session_Get sid (rp_Sessions r))"

definition listSessionRecords :: "service \<Rightarrow> session list svc" where
  "listSessionRecords sv = readRepositories sv (\<lambda>r. Inr (session_List (rp_Sessions r)))"

definition getPlanRecord :: "service \<Rightarrow> string \<Rightarrow> plan svc" where
  "getPlanRecord sv planID = sbind (readRepositories sv (\<lambda>r. plan_Get planID (rp_Plans r)))
     (\<lambda>p. sret (annotatePlanIdentity p))"

definition latestPlanForSession :: "service \<Rightarrow> string \<Rightarrow> plan option svc" where
  "latestPlanForSession sv sid =
     sbind (readRepositories sv (\<lambda>r. Inr (plan_LatestBySession sid (rp_Plans r))))
       (\<lambda>p. sret (map_option annotatePlanIdentity p))"

definition pinnedPlanForSession :: "service \<Rightarrow> session \<Rightarrow> plan option svc" where
  "pinnedPlanForSession sv st =
     (if st_InFlightStepID st = [] \<and> st_CurrentStepID st = [] then sret None
      else case planRefFromSession st of
        None \<Rightarrow> sret None
      | Some (planID, _) \<Rightarrow>
          (\<lambda>w. case getPlanRecord sv planID w of
             (Inr item, w') \<Rightarrow> (Inr (Some (annotatePlanIdentity item)), w')
           | (Inl e, w') \<Rightarrow> if errors_is e ErrPlanNotFound then (Inr None, w') else (Inl e, w')))"

section \<open>Names of states in event payloads\<close>

fun phase_text :: "Phase \<Rightarrow> string" where
  "phase_text PhaseReceived = ''received''"
| "phase_text PhasePrepare = ''prepare''"
| "phase_text PhasePlan = ''plan''"
| "phase_text PhaseExecute = ''execute''"
| "phase_text PhaseVerify = ''verify''"
| "phase_text PhaseRecover = ''recover''"
| "phase_text PhaseComplete = ''complete''"
| "phase_text PhaseFailed = ''failed''"
| "phase_text PhaseAborted = ''aborted''"
| "phase_text (PhaseOther s) = s"

fun execution_text :: "ExecutionState \<Rightarrow> string" where
  "execution_text ExecutionIdle = ''idle''"
| "execution_text ExecutionInFlight = ''in_flight''"
| "execution_text ExecutionInterrupted = ''interrupted''"
| "execution_text ExecutionAwaitingApproval = ''awaiting_approval''"
| "execution_text ExecutionBlocked = ''blocked''"
| "execution_text (ExecutionOther s) = s"

fun claim_mode_text :: "ClaimMode \<Rightarrow> string" where
  "claim_mode_text ClaimModeRunnable = ''runnable''"
| "claim_mode_text ClaimModeRecoverable = ''recoverable''"
| "claim_mode_text (ClaimModeOther s) = s"

fun task_status_text :: "TaskStatus \<Rightarrow> string" where
  "task_status_text TaskReceived = ''received''"
| "task_status_text TaskRunning = ''running''"
| "task_status_text TaskCompleted = ''completed''"
| "task_status_text TaskFailed = ''failed''"
| "task_status_text TaskAborted = ''aborted''"
| "task_status_text (TaskOther s) = s"

text \<open>A value of a named string type stored without conversion.\<close>

abbreviation VNamed :: "string \<Rightarrow> string \<Rightarrow> gval" where
  "VNamed ty s \<equiv> VStruct ty [(''value'', VStr s)]"

section \<open>Rules\<close>

text \<open>
  What the parts of a computation do to the world. \<open>w_Repos\<close> is the only part that a later
  operation depends on besides the supplies, which only advance.
\<close>

lemma svc_apply [wp]:
  "sret x w = (Inr x, w)" "sfail e w = (Inl e, w)" "slift r w = (r, w)"
  "sread f w = (Inr (f (w_Repos w)), w)"
  "sexec g w = (case g (w_Repos w) of Inl e \<Rightarrow> (Inl e, w) | Inr (x, r) \<Rightarrow> (Inr x, w\<lparr>w_Repos := r\<rparr>))"
  "sbind m k w = (case m w of (Inl e, w') \<Rightarrow> (Inl e, w') | (Inr y, w') \<Rightarrow> k y w')"
  "nowMilli w = (Inr (w_Clock w (w_Reads w)), w\<lparr>w_Reads := Suc (w_Reads w)\<rparr>)"
  "newUUID w = (Inr (w_Uuids w (w_Drawn w)), w\<lparr>w_Drawn := Suc (w_Drawn w)\<rparr>)"
  by (simp_all add: sret_def sfail_def slift_def sread_def sexec_def sbind_def nowMilli_def newUUID_def)

text \<open>Emission reaches the audit store whatever the application's sink answers.\<close>

definition emit_all :: "audit_event list \<Rightarrow> repos \<Rightarrow> repos" where
  "emit_all evs r = r\<lparr>rp_Audits := foldl (\<lambda>s e. audit_Emit e s) (rp_Audits r) evs\<rparr>"

lemma sink_Emit_repos: "snd (sink_Emit sv ev w) = w\<lparr>w_Repos := emit_all [ev] (w_Repos w)\<rparr>"
  by (simp add: sink_Emit_def emit_all_def Let_def split: option.split)

lemma emitBestEffort_run [wp]:
  "emitEventsBestEffort sv evs w = (Inr (), w\<lparr>w_Repos := emit_all evs (w_Repos w)\<rparr>)"
  by (induction evs arbitrary: w) (simp_all add: svc_apply sink_Emit_repos emit_all_def)

lemma emitWithSink_one:
  "emitEventsWithSink sv [ev] w =
     ((case sv_Hook sv of None \<Rightarrow> Inr () | Some h \<Rightarrow> (case h ev of None \<Rightarrow> Inr () | Some e \<Rightarrow> Inl (ErrWrap [] e))),
      w\<lparr>w_Repos := emit_all [ev] (w_Repos w)\<rparr>)"
  by (simp add: svc_apply sink_Emit_def emit_all_def Let_def split: option.split)

lemma emit_all_other [simp]:
  "rp_Sessions (emit_all evs r) = rp_Sessions r" "rp_Tasks (emit_all evs r) = rp_Tasks r"
  "rp_Plans (emit_all evs r) = rp_Plans r" "rp_RuntimeHandles (emit_all evs r) = rp_RuntimeHandles r"
  "rp_Approvals (emit_all evs r) = rp_Approvals r" "rp_Attempts (emit_all evs r) = rp_Attempts r"
  "rp_BlockedRuntimes (emit_all evs r) = rp_BlockedRuntimes r"
  by (simp_all add: emit_all_def)

text \<open>Without an application sink, the operations behave alike with and without a runner.\<close>

definition plain :: "service \<Rightarrow> bool" where
  "plain sv \<longleftrightarrow> sv_Hook sv = None \<and> (sv_Runner sv = NoRunner \<or> sv_Runner sv = MemoryUnitOfWork
     \<or> sv_Runner sv = TransactionalRunner None None)"

lemma emitWithSink_plain:
  "sv_Hook sv = None \<Longrightarrow> emitEventsWithSink sv evs w = (Inr (), w\<lparr>w_Repos := emit_all evs (w_Repos w)\<rparr>)"
  by (induction evs arbitrary: w) (simp_all add: svc_apply sink_Emit_def emit_all_def Let_def)

lemma Within_ok:
  "fn w = (Inr x, w') \<Longrightarrow> r \<in> {NoRunner, MemoryUnitOfWork, TransactionalRunner None None} \<Longrightarrow> Within r fn w = (Inr x, w')"
  by (auto simp: Within_def)

text \<open>A transaction is atomic: if it ends in an error, the repositories are as before.\<close>

lemma Within_atomic:
  "Within (TransactionalRunner b c) fn w = (Inl e, w') \<Longrightarrow> w_Repos w' = w_Repos w"
  by (auto simp: Within_def split: option.splits prod.splits sum.splits)

lemma with_runner_atomic:
  assumes "sv_Runner sv = TransactionalRunner b c" and "with_runner sv body w = (Inl e, w')"
  shows "w_Repos w' = w_Repos w"
  using assms Within_atomic by (simp add: with_runner_def) blast

lemma with_runner_Inr:
  assumes "with_runner sv body w = (Inr x, w')"
  shows "(if sv_Runner sv = NoRunner then body False (emitEventsBestEffort sv) w
          else body True (emitEventsWithSink sv) w) = (Inr x, w')"
  using assms by (auto simp: with_runner_def Within_def split: runner.splits option.splits prod.splits sum.splits)

lemma readRepositories_run:
  assumes "readRepositories sv f w = (r, w')"
  shows "w_Repos w' = w_Repos w" "r = Inr x \<Longrightarrow> f (w_Repos w) = Inr x"
    "w_Clock w' = w_Clock w" "w_Uuids w' = w_Uuids w" "w_Reads w' = w_Reads w" "w_Drawn w' = w_Drawn w"
  using assms by (auto simp: readRepositories_def Within_def split: runner.splits option.splits prod.splits sum.splits)

text \<open>What a successful emission does, whichever way the events are emitted.\<close>

definition good_emit :: "(audit_event list \<Rightarrow> unit svc) \<Rightarrow> bool" where
  "good_emit emit \<longleftrightarrow> (\<forall>evs w u w'. emit evs w = (Inr u, w') \<longrightarrow> w' = w\<lparr>w_Repos := emit_all evs (w_Repos w)\<rparr>)"

lemma emitWithSink_Inr:
  "emitEventsWithSink sv evs w = (Inr u, w') \<Longrightarrow> w' = w\<lparr>w_Repos := emit_all evs (w_Repos w)\<rparr>"
proof (induction evs arbitrary: w)
  case Nil
  then show ?case by (simp add: svc_apply emit_all_def)
next
  case (Cons ev evs)
  then obtain w1 where 1: "sink_Emit sv ev w = (Inr (), w1)" "emitEventsWithSink sv evs w1 = (Inr u, w')"
    by (auto simp: svc_apply split: prod.splits sum.splits)
  from 1(1) have "w1 = w\<lparr>w_Repos := emit_all [ev] (w_Repos w)\<rparr>" using sink_Emit_repos by (metis snd_conv)
  with Cons.IH[OF 1(2)] show ?case by (simp add: emit_all_def)
qed

lemma good_emit_sinks: "good_emit (emitEventsWithSink sv)" "good_emit (emitEventsBestEffort sv)"
  by (auto simp: good_emit_def emitBestEffort_run dest: emitWithSink_Inr)

lemma with_runner_succeeds:
  assumes "with_runner sv body w = (Inr x, w')"
  obtains hasSink emit where "good_emit emit" "body hasSink emit w = (Inr x, w')"
  using with_runner_Inr[OF assms] good_emit_sinks by (metis (full_types))

lemma good_emitD: "good_emit emit \<Longrightarrow> emit evs w = (Inr u, w') \<Longrightarrow> w' = w\<lparr>w_Repos := emit_all evs (w_Repos w)\<rparr>"
  by (simp add: good_emit_def)

lemma sbind_Inr:
  assumes "sbind m k w = (Inr y, w')"
  obtains x w1 where "m w = (Inr x, w1)" "k x w1 = (Inr y, w')"
  using assms by (auto simp: svc_apply split: prod.splits sum.splits)

text \<open>Where the body fails before it has written, so does the operation, and nothing changes.\<close>

lemma with_runner_fails:
  assumes "\<And>b emit. \<exists>e. body b emit w = (Inl e, w)" and "with_runner sv body w = (r, w')"
  shows "(\<exists>e. r = Inl e) \<and> w_Repos w' = w_Repos w"
proof -
  obtain e1 e2 where "body False (emitEventsBestEffort sv) w = (Inl e1, w)" "body True (emitEventsWithSink sv) w = (Inl e2, w)"
    using assms(1) by metis
  with assms(2) show ?thesis
    by (auto simp: with_runner_def Within_def split: runner.splits option.splits)
qed

text \<open>A plain service runs the body with an emission that cannot fail.\<close>

definition total_emit :: "(audit_event list \<Rightarrow> unit svc) \<Rightarrow> bool" where
  "total_emit emit \<longleftrightarrow> (\<forall>evs w. emit evs w = (Inr (), w\<lparr>w_Repos := emit_all evs (w_Repos w)\<rparr>))"

lemma with_runner_plain:
  assumes "plain sv"
  obtains b emit where "total_emit emit" "\<And>body w x w'. body b emit w = (Inr x, w') \<Longrightarrow> with_runner sv body w = (Inr x, w')"
proof (cases "sv_Runner sv = NoRunner")
  case True
  then show ?thesis
    by (intro that[of "emitEventsBestEffort sv" False]) (simp_all add: total_emit_def with_runner_def emitBestEffort_run)
next
  case False
  then have "total_emit (emitEventsWithSink sv)" using assms emitWithSink_plain by (simp add: total_emit_def plain_def)
  moreover have "with_runner sv body w = (Inr x, w')" if "body True (emitEventsWithSink sv) w = (Inr x, w')" for body :: "bool \<Rightarrow> (audit_event list \<Rightarrow> unit svc) \<Rightarrow> 'a svc" and w x w'
    using that False assms by (auto simp: with_runner_def plain_def Within_def)
  ultimately show ?thesis by (rule that)
qed

lemma total_emitD: "total_emit emit \<Longrightarrow> emit evs w = (Inr (), w\<lparr>w_Repos := emit_all evs (w_Repos w)\<rparr>)"
  by (simp add: total_emit_def)

end
