(* ===== verification/Coordination.thy ===== *)
theory Coordination
  imports Service
begin

text \<open>
  Work coordination: \<^verbatim>\<open>pkg/harness/runtime\<close> coordination.go. Workers claim, renew and release
  session leases through the service; each operation is one unit of work on the session store and
  records an event. Durations are in nanoseconds and are converted to milliseconds as Go does.
\<close>

section \<open>Operations\<close>

definition Milliseconds :: "int \<Rightarrow> int" where
  "Milliseconds ttl = (if 0 \<le> ttl then ttl div 1000000 else - ((- ttl) div 1000000))"

definition claim_payload :: "session \<Rightarrow> ClaimMode \<Rightarrow> int \<Rightarrow> meta" where
  "claim_payload claimed mode ttl =
     [(''lease_id'', VStr (st_LeaseID claimed)), (''claim_mode'', VStr (claim_mode_text mode)),
      (''lease_claimed_at'', VInt64 (st_LeaseClaimedAt claimed)),
      (''lease_expires_at'', VInt64 (st_LeaseExpiresAt claimed)), (''ttl_ms'', VInt64 (Milliseconds ttl))]"

text \<open>\<open>None\<close> is the answer \<^verbatim>\<open>ok = false\<close>: nothing to claim.\<close>

definition claimSession :: "service \<Rightarrow> ClaimMode \<Rightarrow> int \<Rightarrow> session option svc" where
  "claimSession sv mode leaseTTL =
     (if leaseTTL \<le> 0 then sfail ErrInvalidLeaseTTL
      else sbind nowMilli (\<lambda>startedAt. sbind nowMilli (\<lambda>now. sbind newUUID (\<lambda>uuid.
        let expiresAt = now + Milliseconds leaseTTL; leaseID = ''lse_'' @ uuid
        in sbind (with_runner sv (\<lambda>_ emit.
             sbind (sexec (\<lambda>r. case session_ClaimNext mode leaseID now expiresAt (rp_Sessions r) of
                                 (res, m) \<Rightarrow> Inr (res, r\<lparr>rp_Sessions := m\<rparr>)))
               (\<lambda>found. case found of
                  None \<Rightarrow> sret None
                | Some claimed \<Rightarrow>
                    sbind nowMilli (\<lambda>t. sbind (newAuditEventAt t ''lease.claimed'' (st_SessionID claimed)
                        (st_TaskID claimed) (st_InFlightStepID claimed) (claim_payload claimed mode leaseTTL)) (\<lambda>ev.
                      sbind (emit [ev]) (\<lambda>_. sret (Some claimed)))))))
           (\<lambda>res. sbind nowMilli (\<lambda>_. sret res))))))"

definition ClaimRunnableSession :: "service \<Rightarrow> int \<Rightarrow> session option svc" where
  "ClaimRunnableSession sv leaseTTL = claimSession sv ClaimModeRunnable leaseTTL"

definition ClaimRecoverableSession :: "service \<Rightarrow> int \<Rightarrow> session option svc" where
  "ClaimRecoverableSession sv leaseTTL = claimSession sv ClaimModeRecoverable leaseTTL"

definition RenewSessionLease :: "service \<Rightarrow> string \<Rightarrow> string \<Rightarrow> int \<Rightarrow> session svc" where
  "RenewSessionLease sv sid leaseID leaseTTL =
     (if leaseTTL \<le> 0 then sfail ErrInvalidLeaseTTL
      else sbind nowMilli (\<lambda>startedAt. sbind nowMilli (\<lambda>now.
        let expiresAt = now + Milliseconds leaseTTL
        in sbind (with_runner sv (\<lambda>_ emit.
             sbind (sexec (\<lambda>r. case session_RenewLease sid leaseID now expiresAt (rp_Sessions r) of
                                 Inl e \<Rightarrow> Inl e | Inr (st, m) \<Rightarrow> Inr (st, r\<lparr>rp_Sessions := m\<rparr>)))
               (\<lambda>updated. sbind nowMilli (\<lambda>t. sbind (newAuditEventAt t ''lease.renewed'' (st_SessionID updated)
                    (st_TaskID updated) (st_InFlightStepID updated)
                    [(''lease_id'', VStr leaseID), (''lease_claimed_at'', VInt64 (st_LeaseClaimedAt updated)),
                     (''lease_expires_at'', VInt64 (st_LeaseExpiresAt updated)),
                     (''ttl_ms'', VInt64 (Milliseconds leaseTTL))]) (\<lambda>ev.
                  sbind (emit [ev]) (\<lambda>_. sret updated))))))
           (\<lambda>res. sbind nowMilli (\<lambda>_. sret res)))))"

definition ReleaseSessionLease :: "service \<Rightarrow> string \<Rightarrow> string \<Rightarrow> session svc" where
  "ReleaseSessionLease sv sid leaseID =
     sbind nowMilli (\<lambda>startedAt. sbind nowMilli (\<lambda>now.
       sbind (with_runner sv (\<lambda>_ emit.
           sbind (sexec (\<lambda>r. case session_ReleaseLease sid leaseID now (rp_Sessions r) of
                               Inl e \<Rightarrow> Inl e | Inr (st, m) \<Rightarrow> Inr (st, r\<lparr>rp_Sessions := m\<rparr>)))
             (\<lambda>updated. sbind nowMilli (\<lambda>t. sbind (newAuditEventAt t ''lease.released'' sid
                  (st_TaskID updated) (st_InFlightStepID updated)
                  [(''lease_id'', VStr leaseID), (''released_at'', VInt64 now),
                   (''lease_claimed_at'', VInt64 (st_LeaseClaimedAt updated)),
                   (''lease_expires_at'', VInt64 (st_LeaseExpiresAt updated))]) (\<lambda>ev.
                sbind (emit [ev]) (\<lambda>_. sret updated))))))
         (\<lambda>res. sbind nowMilli (\<lambda>_. sret res))))"

section \<open>Lemmas\<close>

text \<open>The event a successful claim records.\<close>

definition claim_event :: "world \<Rightarrow> session \<Rightarrow> ClaimMode \<Rightarrow> int \<Rightarrow> audit_event" where
  "claim_event w st mode ttl = \<lparr>au_EventID = ''evt_'' @ w_Uuids w (Suc (w_Drawn w)), au_Sequence = 0,
     au_Type = ''lease.claimed'', au_SessionID = st_SessionID st, au_TaskID = st_TaskID st, au_PlanningID = [],
     au_ApprovalID = [], au_StepID = st_InFlightStepID st, au_AttemptID = [], au_ActionID = [],
     au_VerificationID = [], au_CycleID = [], au_TraceID = [], au_CausationID = [],
     au_Payload = claim_payload st mode ttl, au_CreatedAt = w_Clock w (Suc (Suc (w_Reads w)))\<rparr>"

lemma claimSession_Some:
  assumes "claimSession sv mode ttl w = (Inr (Some st), w')"
  shows "0 < ttl \<and> (\<exists>m. session_ClaimNext mode (''lse_'' @ w_Uuids w (w_Drawn w)) (w_Clock w (Suc (w_Reads w)))
      (w_Clock w (Suc (w_Reads w)) + Milliseconds ttl) (rp_Sessions (w_Repos w)) = (Some st, m)
    \<and> w_Repos w' = emit_all [claim_event w st mode ttl] ((w_Repos w)\<lparr>rp_Sessions := m\<rparr>))"
proof -
  from assms have ttl: "0 < ttl" by (auto simp: claimSession_def svc_apply split: if_splits)
  let ?w = "w\<lparr>w_Reads := Suc (Suc (w_Reads w)), w_Drawn := Suc (w_Drawn w)\<rparr>"
  define claim where "claim = session_ClaimNext mode (''lse_'' @ w_Uuids w (w_Drawn w)) (w_Clock w (Suc (w_Reads w)))
      (w_Clock w (Suc (w_Reads w)) + Milliseconds ttl)"
  define body where "body = (\<lambda>(_ :: bool) (emit :: audit_event list \<Rightarrow> unit svc).
     sbind (sexec (\<lambda>r. case claim (rp_Sessions r) of (res, m) \<Rightarrow> Inr (res, r\<lparr>rp_Sessions := m\<rparr>)))
       (\<lambda>found. case found of None \<Rightarrow> sret None | Some claimed \<Rightarrow>
          sbind nowMilli (\<lambda>t. sbind (newAuditEventAt t ''lease.claimed'' (st_SessionID claimed)
              (st_TaskID claimed) (st_InFlightStepID claimed) (claim_payload claimed mode ttl)) (\<lambda>ev.
            sbind (emit [ev]) (\<lambda>_. sret (Some claimed))))))"
  have "sbind (with_runner sv body) (\<lambda>res. sbind nowMilli (\<lambda>_. sret res)) ?w = (Inr (Some st), w')"
    using assms ttl by (simp add: claimSession_def body_def claim_def svc_apply Let_def)
  then obtain x w1 where "with_runner sv body ?w = (Inr x, w1)" "sbind nowMilli (\<lambda>_. sret x) w1 = (Inr (Some st), w')"
    by (rule sbind_Inr)
  then have w1: "with_runner sv body ?w = (Inr (Some st), w1)" and w': "w_Repos w' = w_Repos w1"
    by (auto simp: svc_apply)
  from with_runner_succeeds[OF w1] obtain b emit where g: "good_emit emit" and run: "body b emit ?w = (Inr (Some st), w1)" .
  obtain res m where m: "claim (rp_Sessions (w_Repos w)) = (res, m)" by fastforce
  let ?w2 = "?w\<lparr>w_Repos := (w_Repos w)\<lparr>rp_Sessions := m\<rparr>, w_Reads := Suc (Suc (Suc (w_Reads w))), w_Drawn := Suc (Suc (w_Drawn w))\<rparr>"
  have "body b emit ?w = (case res of None \<Rightarrow> (Inr None, ?w\<lparr>w_Repos := (w_Repos w)\<lparr>rp_Sessions := m\<rparr>\<rparr>)
      | Some c \<Rightarrow> sbind (emit [claim_event w c mode ttl]) (\<lambda>_. sret (Some c)) ?w2)"
    by (cases res) (simp_all add: body_def svc_apply m newAuditEventAt_def claim_event_def)
  with run obtain c where res: "res = Some c"
    and "sbind (emit [claim_event w c mode ttl]) (\<lambda>_. sret (Some c)) ?w2 = (Inr (Some st), w1)"
    by (cases res) auto
  from this(2) obtain u w3 where em: "emit [claim_event w c mode ttl] ?w2 = (Inr u, w3)"
    and "sret (Some c) w3 = (Inr (Some st), w1)" by (rule sbind_Inr)
  then have "c = st" "w1 = w3" by (auto simp: svc_apply)
  moreover have "w_Repos w3 = emit_all [claim_event w c mode ttl] ((w_Repos w)\<lparr>rp_Sessions := m\<rparr>)"
    unfolding good_emitD[OF g em] by simp
  ultimately have repos: "w_Repos w1 = emit_all [claim_event w st mode ttl] ((w_Repos w)\<lparr>rp_Sessions := m\<rparr>)"
    by (simp only:)
  have "claim (rp_Sessions (w_Repos w)) = (Some st, m)" using m res \<open>c = st\<close> by (simp only:)
  with repos w' ttl show ?thesis unfolding claim_def by (simp only:) blast
qed

section \<open>Properties\<close>

text \<open>
  C21. A worker that is given a session holds it. If a claim succeeds, the session returned was
  claimable and is stored with the new lease, which expires the requested time after the claim; all
  other sessions are untouched, exactly one event is appended to the audit log, naming session and
  lease, and the lease is in force at the time of the claim exactly if the requested time is at
  least a millisecond.
\<close>

theorem claimSession_grants:
  assumes "session_wf (rp_Sessions (w_Repos w))" and "claimSession sv mode ttl w = (Inr (Some st), w')"
  shows "\<exists>now before ev. session_Get (st_SessionID st) (rp_Sessions (w_Repos w)) = Inr before
     \<and> claimableState before mode now \<and> st = claim_write (st_LeaseID st) now (now + ttl div 1000000) before
     \<and> session_Get (st_SessionID st) (rp_Sessions (w_Repos w')) = Inr st
     \<and> (\<forall>k. k \<noteq> st_SessionID st \<longrightarrow> session_Get k (rp_Sessions (w_Repos w')) = session_Get k (rp_Sessions (w_Repos w)))
     \<and> rp_Audits (w_Repos w') = audit_Emit ev (rp_Audits (w_Repos w))
     \<and> au_Type ev = ''lease.claimed'' \<and> au_SessionID ev = st_SessionID st
     \<and> gm_get (au_Payload ev) ''lease_id'' = Some (VStr (st_LeaseID st))
     \<and> (leaseHeldAt st (st_LeaseID st) now \<longleftrightarrow> 1000000 \<le> ttl)"
proof -
  let ?L = "''lse_'' @ w_Uuids w (w_Drawn w)" and ?now = "w_Clock w (Suc (w_Reads w))"
  from claimSession_Some[OF assms(2)] obtain m where ttl: "0 < ttl"
    and c: "session_ClaimNext mode ?L ?now (?now + Milliseconds ttl) (rp_Sessions (w_Repos w)) = (Some st, m)"
    and r: "w_Repos w' = emit_all [claim_event w st mode ttl] ((w_Repos w)\<lparr>rp_Sessions := m\<rparr>)" by blast
  have ms: "Milliseconds ttl = ttl div 1000000" using ttl by (simp add: Milliseconds_def)
  from ClaimNext_Some[OF assms(1) c] obtain s where
    s: "gm_get (rp_Sessions (w_Repos w)) (st_SessionID s) = Some s" "claimableState s mode ?now"
    "st = claim_write ?L ?now (?now + Milliseconds ttl) s" "m = gm_put (st_SessionID s) st (rp_Sessions (w_Repos w))"
    by metis
  have id: "st_SessionID st = st_SessionID s" "st_LeaseID st = ?L" using s(3) by (simp_all add: claim_write_def)
  have "leaseHeldAt st (st_LeaseID st) ?now \<longleftrightarrow> 0 < ttl div 1000000"
    using s(3) by (simp add: leaseHeldAt_def leaseActiveAt_def claim_write_def ms)
  then have held: "leaseHeldAt st (st_LeaseID st) ?now \<longleftrightarrow> 1000000 \<le> ttl"
    using ttl pos_imp_zdiv_pos_iff[of 1000000 ttl] by simp
  show ?thesis
    by (rule exI[of _ ?now], rule exI[of _ s], rule exI[of _ "claim_event w st mode ttl"])
      (use s id held ms in \<open>simp add: r session_Get_def emit_all_def claim_event_def claim_payload_def\<close>)
qed

definition ex_repos :: repos where
  "ex_repos = \<lparr>rp_Sessions = snd (session_Create ''s1'' 5 ''t'' ''g'' []), rp_Tasks = [], rp_Plans = [],
     rp_Audits = audit_empty, rp_Attempts = [], rp_Actions = [], rp_Verifications = [], rp_Artifacts = [],
     rp_BlockedRuntimes = [], rp_RuntimeHandles = [], rp_Approvals = [], rp_CapabilitySnapshots = [],
     rp_ContextSummaries = \<lparr>ss_items = [], ss_nextSequence = 0\<rparr>, rp_PlanningRecords = []\<rparr>"

definition ex_world :: world where
  "ex_world = \<lparr>w_Repos = ex_repos, w_Clock = (\<lambda>i. 100), w_Uuids = (\<lambda>i. replicate i CHR ''u''), w_Reads = 0, w_Drawn = 0\<rparr>"

definition ex_service :: service where
  "ex_service = \<lparr>sv_Runner = MemoryUnitOfWork, sv_Hook = None, sv_Budgets = DefaultLoopBudgets\<rparr>"

theorem claimSession_grants_witness:
  "\<exists>st w'. claimSession ex_service ClaimModeRunnable 2000000000 ex_world = (Inr (Some st), w')
     \<and> session_Get ''s1'' (rp_Sessions (w_Repos w')) = Inr st \<and> st_LeaseExpiresAt st = 2100"
proof -
  let ?r = "claimSession ex_service ClaimModeRunnable 2000000000 ex_world"
  have v: "(case fst ?r of Inr (Some st) \<Rightarrow> st_SessionID st = ''s1'' \<and> st_LeaseExpiresAt st = 2100 | _ \<Rightarrow> False)" by code_simp
  then obtain st w' where r: "?r = (Inr (Some st), w')" by (cases ?r) (auto split: sum.splits option.splits)
  have "session_wf (rp_Sessions (w_Repos ex_world))" by code_simp
  from claimSession_grants[OF this r] r v show ?thesis by force
qed

text \<open>
  A positive lease time below a millisecond is accepted but gives no lease: two workers that
  claim one after the other at the same instant are given the same session.
\<close>

theorem submillisecond_claim_shared:
  "case claimSession ex_service ClaimModeRunnable 999999 ex_world of
     (Inr (Some a), w1) \<Rightarrow>
       (case claimSession ex_service ClaimModeRunnable 999999 w1 of
          (Inr (Some b), _) \<Rightarrow> st_SessionID a = st_SessionID b \<and> st_LeaseID a \<noteq> st_LeaseID b
        | _ \<Rightarrow> False)
   | _ \<Rightarrow> False"
  by code_simp

end
