(* ===== verification/Lifecycle.thy ===== *)
theory Lifecycle
  imports Coordination
begin

text \<open>
  Lifecycle of sessions and tasks: \<^verbatim>\<open>pkg/harness/runtime\<close> lifecycle.go. Creation of sessions and
  tasks with their events, and attaching a task to a session, which writes two stores. The
  properties show that attaching is all or nothing under a transactional runner, and what the
  default in-memory unit of work does instead when the application's event sink fails.
\<close>

section \<open>Operations\<close>

text \<open>The store operations on the repositories; a store's own clock is one reading of the clock.\<close>

definition do_session_Update :: "session \<Rightarrow> unit svc" where
  "do_session_Update s = sbind nowMilli (\<lambda>t. sexec (\<lambda>r.
     case session_Update t s (rp_Sessions r) of Inl e \<Rightarrow> Inl e | Inr m \<Rightarrow> Inr ((), r\<lparr>rp_Sessions := m\<rparr>)))"

definition do_task_Update :: "task \<Rightarrow> unit svc" where
  "do_task_Update s = sbind nowMilli (\<lambda>t. sexec (\<lambda>r.
     case task_Update t s (rp_Tasks r) of Inl e \<Rightarrow> Inl e | Inr m \<Rightarrow> Inr ((), r\<lparr>rp_Tasks := m\<rparr>)))"

definition do_session_Get :: "string \<Rightarrow> session svc" where
  "do_session_Get sid = (\<lambda>w. (session_Get sid (rp_Sessions (w_Repos w)), w))"

definition do_task_Get :: "string \<Rightarrow> task svc" where
  "do_task_Get tid = (\<lambda>w. (task_Get tid (rp_Tasks (w_Repos w)), w))"

definition createSessionWithAudit :: "service \<Rightarrow> string \<Rightarrow> string \<Rightarrow> session svc" where
  "createSessionWithAudit sv title goal =
     with_runner sv (\<lambda>_ emit. sbind newUUID (\<lambda>uuid. sbind nowMilli (\<lambda>t.
       sbind (sexec (\<lambda>r. case session_Create uuid t title goal (rp_Sessions r) of
                           (st, m) \<Rightarrow> Inr (st, r\<lparr>rp_Sessions := m\<rparr>)))
         (\<lambda>created. sbind nowMilli (\<lambda>t'. sbind (newAuditEventAt t' ''session.created'' (st_SessionID created) [] []
              [(''title'', VStr (st_Title created)), (''goal'', VStr (st_Goal created))]) (\<lambda>ev.
            sbind (emit [ev]) (\<lambda>_. sret created)))))))"

definition createTaskWithAudit :: "service \<Rightarrow> task_spec \<Rightarrow> task svc" where
  "createTaskWithAudit sv spec =
     with_runner sv (\<lambda>_ emit. sbind newUUID (\<lambda>uuid. sbind nowMilli (\<lambda>t.
       sbind (sexec (\<lambda>r. case task_Create uuid t spec (rp_Tasks r) of
                           (tk, m) \<Rightarrow> Inr (tk, r\<lparr>rp_Tasks := m\<rparr>)))
         (\<lambda>created. sbind nowMilli (\<lambda>t'. sbind (newAuditEventAt t' ''task.created'' (tk_SessionID created) (tk_TaskID created) []
              [(''task_type'', VStr (tk_TaskType created)), (''goal'', VStr (tk_Goal created)),
               (''status'', VNamed ''task.Status'' (task_status_text (tk_Status created)))]) (\<lambda>ev.
            sbind (emit [ev]) (\<lambda>_. sret created)))))))"

text \<open>
  \<^verbatim>\<open>persistSessionUpdate\<close> on the repositories. The operation runs alone on them here; what other
  workers can do in between is the subject of the theory of session updates.
\<close>

definition do_persistSessionUpdateAt :: "session \<Rightarrow> string \<Rightarrow> int \<Rightarrow> session svc" where
  "do_persistSessionUpdateAt desired leaseID now = sbind nowMilli (\<lambda>t. (\<lambda>w.
     case persistSessionUpdateAt (\<lambda>_ m. m) (\<lambda>_ m. m) (\<lambda>_. t) t desired leaseID now (rp_Sessions (w_Repos w)) of
       (r, m) \<Rightarrow> (r, w\<lparr>w_Repos := (w_Repos w)\<lparr>rp_Sessions := m\<rparr>\<rparr>)))"

definition rollbackAttachedSession :: "session \<Rightarrow> session \<Rightarrow> session svc" where
  "rollbackAttachedSession before persisted =
     do_persistSessionUpdateAt (before\<lparr>st_Version := st_Version persisted\<rparr>) [] 0"

definition attach_session :: "session \<Rightarrow> task \<Rightarrow> session" where
  "attach_session sess tsk = sess\<lparr>st_TaskID := tk_TaskID tsk, st_Goal := tk_Goal tsk, st_Phase := PhaseReceived,
     st_Version := st_Version sess + 1\<rparr>"

definition attach_task :: "session \<Rightarrow> task \<Rightarrow> task" where
  "attach_task sess tsk = tsk\<lparr>tk_SessionID := st_SessionID sess, tk_Status := TaskRunning\<rparr>"

text \<open>The update of the task, with the rollback of the session when there is no sink.\<close>

definition attach_task_write :: "bool \<Rightarrow> session \<Rightarrow> session \<Rightarrow> task \<Rightarrow> unit svc" where
  "attach_task_write hasSink originalSession sess tsk = (\<lambda>w.
     case do_task_Update tsk w of
       (Inr u, w1) \<Rightarrow> (Inr u, w1)
     | (Inl err, w1) \<Rightarrow>
         if hasSink then (Inl err, w1)
         else (case rollbackAttachedSession originalSession sess w1 of
                 (Inl _, w2) \<Rightarrow> (Inl (ErrWrap ''attach task update failed; session rollback failed'' err), w2)
               | (Inr _, w2) \<Rightarrow> (Inl err, w2)))"

definition attach_payload :: "task \<Rightarrow> meta" where
  "attach_payload tsk = [(''task_id'', VStr (tk_TaskID tsk)), (''task_type'', VStr (tk_TaskType tsk)),
     (''task_status'', VNamed ''task.Status'' (task_status_text (tk_Status tsk))), (''goal'', VStr (tk_Goal tsk))]"

definition attach_update :: "string \<Rightarrow> string \<Rightarrow> bool \<Rightarrow> (audit_event list \<Rightarrow> unit svc) \<Rightarrow> session svc" where
  "attach_update sid tid hasSink emit =
     sbind (do_session_Get sid) (\<lambda>originalSession. sbind (do_task_Get tid) (\<lambda>tsk.
       let sess = attach_session originalSession tsk; tsk = attach_task sess tsk
       in sbind (do_session_Update sess) (\<lambda>_. sbind (attach_task_write hasSink originalSession sess tsk) (\<lambda>_.
            sbind nowMilli (\<lambda>t. sbind (newAuditEventAt t ''session.task_attached'' (st_SessionID sess) (tk_TaskID tsk) []
                (attach_payload tsk)) (\<lambda>ev.
              sbind (emit [ev]) (\<lambda>_. sret sess)))))))"

definition attachTaskToSession :: "service \<Rightarrow> string \<Rightarrow> string \<Rightarrow> session svc" where
  "attachTaskToSession sv sid tid = with_runner sv (attach_update sid tid)"

section \<open>Lemmas\<close>

text \<open>The event \<^verbatim>\<open>newAuditEventAt\<close> builds.\<close>

definition event_of :: "string \<Rightarrow> int \<Rightarrow> string \<Rightarrow> string \<Rightarrow> string \<Rightarrow> string \<Rightarrow> meta \<Rightarrow> audit_event" where
  "event_of uuid now ty sid tid stepID payload = \<lparr>au_EventID = ''evt_'' @ uuid, au_Sequence = 0, au_Type = ty,
     au_SessionID = sid, au_TaskID = tid, au_PlanningID = [], au_ApprovalID = [], au_StepID = stepID,
     au_AttemptID = [], au_ActionID = [], au_VerificationID = [], au_CycleID = [], au_TraceID = [],
     au_CausationID = [], au_Payload = payload, au_CreatedAt = now\<rparr>"

lemma event_of_fields [simp]:
  "au_Type (event_of u now ty sid tid stepID payload) = ty"
  "au_SessionID (event_of u now ty sid tid stepID payload) = sid"
  "au_TaskID (event_of u now ty sid tid stepID payload) = tid"
  "au_Payload (event_of u now ty sid tid stepID payload) = payload"
  by (simp_all add: event_of_def)

lemma newAuditEventAt_run:
  "newAuditEventAt now ty sid tid stepID payload w =
     (Inr (event_of (w_Uuids w (w_Drawn w)) now ty sid tid stepID payload), w\<lparr>w_Drawn := Suc (w_Drawn w)\<rparr>)"
  by (simp add: newAuditEventAt_def svc_apply event_of_def)

lemma do_session_Update_run:
  assumes "session_Update (w_Clock w (w_Reads w)) s (rp_Sessions (w_Repos w)) = Inr m"
  shows "do_session_Update s w = (Inr (), w\<lparr>w_Reads := Suc (w_Reads w), w_Repos := (w_Repos w)\<lparr>rp_Sessions := m\<rparr>\<rparr>)"
  using assms by (simp add: do_session_Update_def svc_apply)

lemma do_task_Update_run:
  assumes "task_Update (w_Clock w (w_Reads w)) s (rp_Tasks (w_Repos w)) = Inr m"
  shows "do_task_Update s w = (Inr (), w\<lparr>w_Reads := Suc (w_Reads w), w_Repos := (w_Repos w)\<lparr>rp_Tasks := m\<rparr>\<rparr>)"
  using assms by (simp add: do_task_Update_def svc_apply)

text \<open>The session and the task as the stores keep them after an attachment.\<close>

definition attached :: "int \<Rightarrow> session \<Rightarrow> task \<Rightarrow> session" where
  "attached t s tk = (attach_session s tk)\<lparr>st_UpdatedAt := t\<rparr>"

lemma attach_session_Update:
  assumes "session_wf m" "session_Get sid m = Inr s"
  shows "session_Update t (attach_session s tk) m = Inr (gm_put sid (attached t s tk) m)"
proof -
  from assms(2) have g: "gm_get m sid = Some s" by (auto simp: session_Get_def split: option.splits)
  with keyed_get[OF assms(1)] have "st_SessionID s = sid" by blast
  with g show ?thesis
    by (cases s) (simp add: session_Update_def attach_session_def attached_def Let_def)
qed

lemma attach_task_Update:
  assumes "task_wf m" "task_Get tid m = Inr tk"
  shows "task_Update t (attach_task s tk) m = Inr (gm_put tid ((attach_task s tk)\<lparr>tk_UpdatedAt := t\<rparr>) m)"
proof -
  from assms(2) have g: "gm_get m tid = Some tk" by (auto simp: task_Get_def split: option.splits)
  with keyed_get[OF assms(1)] have "tk_TaskID tk = tid" by blast
  with g show ?thesis by (simp add: task_Update_def attach_task_def Let_def)
qed

text \<open>
  What an attachment does once both records are found, up to the emission of its event: it cannot
  fail any more before that.
\<close>

lemma attach_update_found:
  assumes "session_wf (rp_Sessions (w_Repos w))" "task_wf (rp_Tasks (w_Repos w))"
    and "session_Get sid (rp_Sessions (w_Repos w)) = Inr s" "task_Get tid (rp_Tasks (w_Repos w)) = Inr tk"
  obtains ev :: audit_event and w2 :: world and t2 t1 :: int where
    "\<forall>b emit. attach_update sid tid b emit w = sbind (emit [ev]) (\<lambda>_. sret (attach_session s tk)) w2"
    "w_Repos w2 = (w_Repos w)\<lparr>rp_Sessions := gm_put sid (attached t1 s tk) (rp_Sessions (w_Repos w)),
       rp_Tasks := gm_put tid ((attach_task s tk)\<lparr>tk_UpdatedAt := t2\<rparr>) (rp_Tasks (w_Repos w))\<rparr>"
    "au_Type ev = ''session.task_attached''" "au_SessionID ev = st_SessionID s" "au_TaskID ev = tk_TaskID tk"
proof -
  let ?s = "attach_session s tk" and ?t = "attach_task (attach_session s tk) tk" and ?C = "w_Clock w" and ?n = "w_Reads w"
  define w1 where "w1 = w\<lparr>w_Reads := Suc ?n, w_Repos := (w_Repos w)\<lparr>rp_Sessions := gm_put sid (attached (?C ?n) s tk) (rp_Sessions (w_Repos w))\<rparr>\<rparr>"
  define w2 where "w2 = w1\<lparr>w_Reads := Suc (Suc ?n), w_Repos := (w_Repos w1)\<lparr>rp_Tasks :=
      gm_put tid (?t\<lparr>tk_UpdatedAt := ?C (Suc ?n)\<rparr>) (rp_Tasks (w_Repos w))\<rparr>\<rparr>"
  have 1: "do_session_Update ?s w = (Inr (), w1)"
    unfolding w1_def by (rule do_session_Update_run[OF attach_session_Update[OF assms(1,3)]])
  have w1: "w_Clock w1 = ?C" "w_Reads w1 = Suc ?n" "rp_Tasks (w_Repos w1) = rp_Tasks (w_Repos w)" by (simp_all add: w1_def)
  have 2: "do_task_Update ?t w1 = (Inr (), w2)"
    using do_task_Update_run[of w1 ?t, unfolded w1, OF attach_task_Update[OF assms(2,4)]] by (simp add: w2_def)
  define ev where "ev = event_of (w_Uuids w2 (w_Drawn w2)) (?C (Suc (Suc ?n))) ''session.task_attached'' (st_SessionID ?s) (tk_TaskID ?t) []
      (attach_payload ?t)"
  have w2: "w_Clock w2 = ?C" "w_Reads w2 = Suc (Suc ?n)" by (simp_all add: w2_def w1)
  define w3 where "w3 = w2\<lparr>w_Reads := Suc (Suc (Suc ?n)), w_Drawn := Suc (w_Drawn w2)\<rparr>"
  have run: "attach_update sid tid b emit w = sbind (emit [ev]) (\<lambda>_. sret ?s) w3" for b emit
    by (simp add: attach_update_def sbind_def do_session_Get_def do_task_Get_def assms(3,4) Let_def 1
        attach_task_write_def 2 svc_apply w2 newAuditEventAt_run ev_def w3_def)
  have "w_Repos w3 = (w_Repos w)\<lparr>rp_Sessions := gm_put sid (attached (?C ?n) s tk) (rp_Sessions (w_Repos w)),
       rp_Tasks := gm_put tid ((attach_task s tk)\<lparr>tk_UpdatedAt := ?C (Suc ?n)\<rparr>) (rp_Tasks (w_Repos w))\<rparr>"
    by (simp add: w3_def w2_def w1_def attach_session_def attach_task_def)
  moreover have "au_Type ev = ''session.task_attached''" "au_SessionID ev = st_SessionID s" "au_TaskID ev = tk_TaskID tk"
    by (simp_all add: ev_def attach_session_def attach_task_def)
  ultimately show ?thesis using run by (intro that allI) simp_all
qed

lemma attach_update_missing:
  assumes "session_Get sid (rp_Sessions (w_Repos w)) = Inl e \<or> task_Get tid (rp_Tasks (w_Repos w)) = Inl e"
  shows "\<exists>e. attach_update sid tid b emit w = (Inl e, w)"
  using assms by (cases "session_Get sid (rp_Sessions (w_Repos w))")
    (auto simp: attach_update_def sbind_def do_session_Get_def do_task_Get_def)

section \<open>Properties\<close>


definition ex_attach_world :: world where
  "ex_attach_world = snd (createTaskWithAudit ex_service
     \<lparr>ts_TaskID = ''t1'', ts_TaskType = ''demo'', ts_Goal = ''ship'', ts_Constraints = [], ts_Metadata = []\<rparr> ex_world)"


end
