(* ===== verification/Service_Logic.thy ===== *)
theory Service_Logic
  imports Lifecycle
begin

text \<open>
  A small program logic for service computations. \<open>triple P m Q E\<close>: started in repositories that
  satisfy \<open>P\<close>, a computation ends in repositories and a value that satisfy \<open>Q\<close>, or with an error in
  repositories that satisfy \<open>E\<close>. \<open>keeps P m\<close> is the special case of an invariant, \<open>quiet m\<close> that of a
  computation that writes nothing. The rules for the building blocks are collected in \<open>svc_rules\<close>.
\<close>

named_theorems svc_rules \<open>invariant rules for service computations\<close>

section \<open>Triples\<close>

definition triple :: "(repos \<Rightarrow> bool) \<Rightarrow> 'a svc \<Rightarrow> ('a \<Rightarrow> repos \<Rightarrow> bool) \<Rightarrow> (repos \<Rightarrow> bool) \<Rightarrow> bool" where
  "triple P m Q E \<longleftrightarrow> (\<forall>w. P (w_Repos w) \<longrightarrow>
     (case m w of (Inl _, w') \<Rightarrow> E (w_Repos w') | (Inr x, w') \<Rightarrow> Q x (w_Repos w')))"

abbreviation keeps :: "(repos \<Rightarrow> bool) \<Rightarrow> 'a svc \<Rightarrow> bool" where
  "keeps P m \<equiv> triple P m (\<lambda>_. P) P"

definition quiet :: "'a svc \<Rightarrow> bool" where
  "quiet m \<longleftrightarrow> (\<forall>w. w_Repos (snd (m w)) = w_Repos w)"

lemma triple_sret [svc_rules]: "(\<And>r. P r \<Longrightarrow> Q x r) \<Longrightarrow> triple P (sret x) Q E"
  by (simp add: triple_def svc_apply)

lemma triple_sfail [svc_rules]: "(\<And>r. P r \<Longrightarrow> E r) \<Longrightarrow> triple P (sfail e) Q E"
  by (simp add: triple_def svc_apply)

lemma triple_slift [svc_rules]:
  "(\<And>x r. c = Inr x \<Longrightarrow> P r \<Longrightarrow> Q x r) \<Longrightarrow> (\<And>r. P r \<Longrightarrow> E r) \<Longrightarrow> triple P (slift c) Q E"
  by (auto simp: triple_def svc_apply split: sum.split)

lemma triple_bind:
  "triple P m Q E \<Longrightarrow> (\<And>x. triple (Q x) (k x) R E) \<Longrightarrow> triple P (sbind m k) R E"
  by (fastforce simp: triple_def svc_apply split: prod.splits sum.splits)

lemma triple_nowMilli [svc_rules]: "(\<And>t r. P r \<Longrightarrow> Q t r) \<Longrightarrow> triple P nowMilli Q E"
  by (simp add: triple_def svc_apply)

lemma triple_newUUID [svc_rules]: "(\<And>u r. P r \<Longrightarrow> Q u r) \<Longrightarrow> triple P newUUID Q E"
  by (simp add: triple_def svc_apply)

lemma triple_sread [svc_rules]: "(\<And>r. P r \<Longrightarrow> Q (f r) r) \<Longrightarrow> triple P (sread f) Q E"
  by (simp add: triple_def svc_apply)

lemma triple_sexec:
  "(\<And>r x r'. P r \<Longrightarrow> f r = Inr (x, r') \<Longrightarrow> Q x r') \<Longrightarrow> (\<And>r. P r \<Longrightarrow> E r) \<Longrightarrow> triple P (sexec f) Q E"
  by (auto simp: triple_def svc_apply split: sum.split)

lemma triple_weaken:
  "triple P m Q E \<Longrightarrow> (\<And>r. P' r \<Longrightarrow> P r) \<Longrightarrow> (\<And>x r. Q x r \<Longrightarrow> Q' x r) \<Longrightarrow> (\<And>r. E r \<Longrightarrow> E' r) \<Longrightarrow> triple P' m Q' E'"
  by (fastforce simp: triple_def split: prod.splits sum.splits)

lemma triple_assume: "(b \<Longrightarrow> triple P m Q E) \<Longrightarrow> triple (\<lambda>r. b \<and> P r) m Q E"
  by (auto simp: triple_def)

lemma triple_if [svc_rules]:
  "(b \<Longrightarrow> triple P m Q E) \<Longrightarrow> (\<not> b \<Longrightarrow> triple P n Q E) \<Longrightarrow> triple P (if b then m else n) Q E"
  by simp

lemma triple_option [svc_rules]:
  "(c = None \<Longrightarrow> triple P m Q E) \<Longrightarrow> (\<And>x. c = Some x \<Longrightarrow> triple P (n x) Q E) \<Longrightarrow>
     triple P (case c of None \<Rightarrow> m | Some x \<Rightarrow> n x) Q E"
  by (cases c) simp_all

lemma keeps_bind [svc_rules]: "keeps P m \<Longrightarrow> (\<And>x. triple P (k x) R P) \<Longrightarrow> triple P (sbind m k) R P"
  by (rule triple_bind)

lemma keepsD: "triple P m Q E \<Longrightarrow> P (w_Repos w) \<Longrightarrow> m w = (Inl e, w') \<Longrightarrow> E (w_Repos w')"
  "triple P m Q E \<Longrightarrow> P (w_Repos w) \<Longrightarrow> m w = (Inr x, w') \<Longrightarrow> Q x (w_Repos w')"
  unfolding triple_def by fastforce+

lemma keeps_run: "keeps P m \<Longrightarrow> P (w_Repos w) \<Longrightarrow> P (w_Repos (snd (m w)))"
  by (cases "m w"; cases "fst (m w)") (auto simp: triple_def split: prod.splits sum.splits)

lemma quiet_keeps: "quiet m \<Longrightarrow> keeps P m"
  by (auto simp: triple_def quiet_def split: prod.splits sum.splits) (metis snd_conv)+

section \<open>Events, runners and reads\<close>

definition audit_blind :: "(repos \<Rightarrow> bool) \<Rightarrow> bool" where
  "audit_blind P \<longleftrightarrow> (\<forall>r s. P (r\<lparr>rp_Audits := s\<rparr>) = P r)"

lemma keeps_sink_Emit: "audit_blind P \<Longrightarrow> keeps P (sink_Emit sv ev)"
  by (auto simp: triple_def sink_Emit_def audit_blind_def Let_def split: option.split)

lemma keeps_emit:
  assumes "audit_blind P"
  shows "keeps P (emitEventsWithSink sv evs)" "keeps P (emitEventsBestEffort sv evs)"
proof -
  show "keeps P (emitEventsWithSink sv evs)"
    by (induction evs) (auto intro!: svc_rules keeps_sink_Emit assms)
  show "keeps P (emitEventsBestEffort sv evs)"
    using assms by (simp add: triple_def emitBestEffort_run emit_all_def audit_blind_def)
qed

lemma keeps_Within: "keeps P fn \<Longrightarrow> keeps P (Within r fn)"
  by (cases r) (auto simp: triple_def Within_def split: prod.splits sum.splits option.splits)

lemma keeps_with_runner:
  assumes "\<And>b. keeps P (body b (emitEventsWithSink sv))" "\<And>b. keeps P (body b (emitEventsBestEffort sv))"
  shows "keeps P (with_runner sv body)"
  unfolding with_runner_def using assms by (auto split: runner.split intro!: keeps_Within)

lemma keeps_newAuditEventAt [svc_rules]: "keeps P (newAuditEventAt now ty sid tid stepID payload)"
  by (simp add: triple_def newAuditEventAt_run)

lemma quiet_readRepositories: "quiet (readRepositories sv f)"
  using readRepositories_run(1) by (metis quiet_def prod.collapse)

lemma keeps_readRepositories [svc_rules]: "keeps P (readRepositories sv f)"
  by (rule quiet_keeps) (rule quiet_readRepositories)

lemma keeps_getSessionRecord [svc_rules]: "keeps P (getSessionRecord sv sid)"
  unfolding getSessionRecord_def by (rule keeps_readRepositories)

lemma keeps_Get [svc_rules]: "keeps P (do_session_Get sid)" "keeps P (do_task_Get tid)"
  by (simp_all add: triple_def do_session_Get_def do_task_Get_def split: sum.split)

section \<open>Facts that a lease does not touch\<close>

text \<open>Claiming, renewing and releasing write the lease, the heartbeat, the version and the time of the update.\<close>

definition leased_as :: "session \<Rightarrow> session \<Rightarrow> bool" where
  "leased_as c0 c \<longleftrightarrow> (\<exists>L a b h v u. c = c0\<lparr>st_LeaseID := L, st_LeaseClaimedAt := a, st_LeaseExpiresAt := b,
     st_LastHeartbeatAt := h, st_Version := v, st_UpdatedAt := u\<rparr>)"

lemma leased_asI:
  "leased_as c0 (claim_write L t e c0)"
  "leased_as c0 (c0\<lparr>st_LeaseExpiresAt := b, st_LastHeartbeatAt := h, st_Version := v, st_UpdatedAt := u\<rparr>)"
  "leased_as c0 (c0\<lparr>st_LeaseID := L, st_LeaseClaimedAt := a, st_LeaseExpiresAt := b, st_Version := v, st_UpdatedAt := u\<rparr>)"
  unfolding leased_as_def claim_write_def by (cases c0; force)+

locale lease_blind =
  fixes P :: "repos \<Rightarrow> bool"
  assumes blind: "audit_blind P"
    and sessions: "P r \<Longrightarrow> session_wf (rp_Sessions r)"
    and put: "P r \<Longrightarrow> gm_get (rp_Sessions r) k = Some c0 \<Longrightarrow> leased_as c0 c \<Longrightarrow> P (r\<lparr>rp_Sessions := gm_put k c (rp_Sessions r)\<rparr>)"
begin

lemma keeps_RenewSessionLease: "keeps P (RenewSessionLease sv sid L ttl)"
proof -
  have "P r \<Longrightarrow> session_RenewLease sid L n e (rp_Sessions r) = Inr (st, m) \<Longrightarrow> P (r\<lparr>rp_Sessions := m\<rparr>)" for r n e st m
    by (auto simp: session_RenewLease_def Let_def intro!: put leased_asI split: option.splits if_splits)
  then show ?thesis unfolding RenewSessionLease_def Let_def
    by (intro svc_rules keeps_with_runner triple_sexec keeps_emit[OF blind]) (auto split: sum.splits)
qed

lemma keeps_ReleaseSessionLease: "keeps P (ReleaseSessionLease sv sid L)"
proof -
  have "P r \<Longrightarrow> session_ReleaseLease sid L n (rp_Sessions r) = Inr (st, m) \<Longrightarrow> P (r\<lparr>rp_Sessions := m\<rparr>)" for r n st m
    by (auto simp: session_ReleaseLease_def Let_def intro!: put leased_asI split: option.splits if_splits)
  then show ?thesis unfolding ReleaseSessionLease_def
    by (intro svc_rules keeps_with_runner triple_sexec keeps_emit[OF blind]) (auto split: sum.splits)
qed

lemma keeps_claimSession: "keeps P (claimSession sv mode ttl)"
proof -
  have "P (r\<lparr>rp_Sessions := m\<rparr>)" if "P r" and c: "session_ClaimNext mode L t e (rp_Sessions r) = (res, m)" for r L t e res m
  proof (cases res)
    case None
    then have "m = rp_Sessions r" using ClaimNext_find[OF sessions[OF that(1)], of mode L t e] c by (auto split: option.splits)
    then show ?thesis using that(1) by simp
  next
    case (Some st)
    from ClaimNext_Some[OF sessions[OF that(1)] c[unfolded Some]] obtain s where "gm_get (rp_Sessions r) (st_SessionID s) = Some s"
      "st = claim_write L t e s" "m = gm_put (st_SessionID s) st (rp_Sessions r)" by metis
    then show ?thesis using put[OF that(1)] leased_asI(1) by simp
  qed
  then show ?thesis unfolding claimSession_def Let_def
    by (intro svc_rules keeps_with_runner triple_sexec keeps_emit[OF blind]) (auto split: prod.splits)
qed

lemmas keeps_leases = keeps_claimSession keeps_RenewSessionLease keeps_ReleaseSessionLease

end

end
