(* ===== verification/Runtime_Handles.thy ===== *)
theory Runtime_Handles
  imports Service_Logic
begin

text \<open>
  Runtime handles of the service: \<^verbatim>\<open>pkg/harness/runtime\<close> runtime_handles.go and the upsert of
  runner.go. A handle names a resource of the host (a shell, a stream) and lives until it is closed
  or invalidated. The properties show that only an active handle of a session whose lease the
  caller holds can be changed, that an ended handle is never changed again, and that
  reconciliation ends exactly the active handles of one session.
\<close>

section \<open>Operations\<close>

record handle_update =
  hu_Kind :: "string option"
  hu_Value :: "string option"
  hu_Metadata :: meta

record handle_end_request =
  he_Reason :: string
  he_Metadata :: meta

definition mergeMaps :: "meta \<Rightarrow> meta \<Rightarrow> meta" where
  "mergeMaps base extra = foldl (\<lambda>m (k, v). gm_put k v m) base extra"

definition isRuntimeHandleActive :: "runtime_handle \<Rightarrow> bool" where
  "isRuntimeHandleActive h \<longleftrightarrow> rh_Status h = RuntimeHandleOther [] \<or> rh_Status h = RuntimeHandleActive"

definition runtimeHandleReasonOrDefault :: "string \<Rightarrow> string \<Rightarrow> string" where
  "runtimeHandleReasonOrDefault reason fallback = (if reason \<noteq> [] then reason else fallback)"

definition handle_payload :: "runtime_handle \<Rightarrow> meta" where
  "handle_payload h =
     [(''handle_id'', VStr (rh_HandleID h)), (''kind'', VStr (rh_Kind h)), (''value'', VStr (rh_Value h)),
      (''status'', VNamed ''execution.RuntimeHandleStatus'' (handle_status_string (rh_Status h))),
      (''status_reason'', VStr (rh_StatusReason h)), (''closed_at'', VInt64 (rh_ClosedAt h)),
      (''invalidated_at'', VInt64 (rh_InvalidatedAt h)), (''version'', VInt64 (rh_Version h))]"

fun runtimeHandleAuditEvents :: "int \<Rightarrow> string \<Rightarrow> runtime_handle list \<Rightarrow> audit_event list svc" where
  "runtimeHandleAuditEvents now eventType [] = sret []"
| "runtimeHandleAuditEvents now eventType (h # hs) =
     sbind newUUID (\<lambda>uuid. sbind (runtimeHandleAuditEvents now eventType hs) (\<lambda>evs.
       sret (\<lparr>au_EventID = ''evt_'' @ uuid, au_Sequence = 0, au_Type = eventType, au_SessionID = rh_SessionID h,
         au_TaskID = rh_TaskID h, au_PlanningID = [], au_ApprovalID = [], au_StepID = [],
         au_AttemptID = rh_AttemptID h, au_ActionID = [], au_VerificationID = [], au_CycleID = rh_CycleID h,
         au_TraceID = rh_TraceID h, au_CausationID = rh_HandleID h, au_Payload = handle_payload h,
         au_CreatedAt = now\<rparr> # evs)))"

definition do_handle_Get :: "string \<Rightarrow> runtime_handle svc" where
  "do_handle_Get hid = (\<lambda>w. (handle_Get hid (rp_RuntimeHandles (w_Repos w)), w))"

definition do_handle_Update :: "runtime_handle \<Rightarrow> unit svc" where
  "do_handle_Update h = sbind nowMilli (\<lambda>t. sexec (\<lambda>r.
     case handle_Update t h (rp_RuntimeHandles r) of Inl e \<Rightarrow> Inl e | Inr m \<Rightarrow> Inr ((), r\<lparr>rp_RuntimeHandles := m\<rparr>)))"

definition do_handle_Create :: "runtime_handle \<Rightarrow> runtime_handle svc" where
  "do_handle_Create h = sbind nowMilli (\<lambda>t. sbind newUUID (\<lambda>uuid. sexec (\<lambda>r.
     case handle_Create uuid t h (rp_RuntimeHandles r) of (h', m) \<Rightarrow> Inr (h', r\<lparr>rp_RuntimeHandles := m\<rparr>))))"

text \<open>The fields a mutation cannot erase, the next version and the time of the change.\<close>

definition keep_handle_ids :: "runtime_handle \<Rightarrow> int \<Rightarrow> runtime_handle \<Rightarrow> runtime_handle" where
  "keep_handle_ids current now updated =
     updated\<lparr>rh_HandleID := rh_HandleID current, rh_SessionID := or_str (rh_SessionID updated) (rh_SessionID current),
       rh_TaskID := or_str (rh_TaskID updated) (rh_TaskID current),
       rh_AttemptID := or_str (rh_AttemptID updated) (rh_AttemptID current),
       rh_CycleID := or_str (rh_CycleID updated) (rh_CycleID current),
       rh_TraceID := or_str (rh_TraceID updated) (rh_TraceID current),
       rh_Status := (if rh_Status updated = RuntimeHandleOther [] then RuntimeHandleActive else rh_Status updated),
       rh_CreatedAt := or_int (rh_CreatedAt updated) (rh_CreatedAt current),
       rh_Version := rh_Version current + 1, rh_UpdatedAt := now\<rparr>"

text \<open>The session of a handle must not be leased to somebody else.\<close>

definition check_handle_lease :: "runtime_handle \<Rightarrow> string \<Rightarrow> unit svc" where
  "check_handle_lease current leaseID =
     (if rh_SessionID current = [] then sret ()
      else sbind (do_session_Get (rh_SessionID current)) (\<lambda>st. sbind nowMilli (\<lambda>t.
        slift (requireSessionLease st leaseID t))))"

definition mutate_apply :: "string \<Rightarrow> string \<Rightarrow> string \<Rightarrow> (runtime_handle \<Rightarrow> runtime_handle svc)
    \<Rightarrow> (audit_event list \<Rightarrow> unit svc) \<Rightarrow> runtime_handle svc" where
  "mutate_apply handleID leaseID eventType mutate emit =
     sbind (do_handle_Get handleID) (\<lambda>current. sbind (check_handle_lease current leaseID) (\<lambda>_.
       if \<not> isRuntimeHandleActive current then sfail ErrRuntimeHandleNotActive
       else sbind (mutate current) (\<lambda>m. sbind nowMilli (\<lambda>now.
         let updated = keep_handle_ids current now m
         in sbind (do_handle_Update updated) (\<lambda>_. sbind nowMilli (\<lambda>t.
              sbind (runtimeHandleAuditEvents t eventType [updated]) (\<lambda>evs.
                sbind (emit evs) (\<lambda>_. sret updated))))))))"

definition mutateRuntimeHandle :: "service \<Rightarrow> string \<Rightarrow> string \<Rightarrow> string \<Rightarrow> (runtime_handle \<Rightarrow> runtime_handle svc)
    \<Rightarrow> runtime_handle svc" where
  "mutateRuntimeHandle sv handleID leaseID eventType mutate =
     with_runner sv (\<lambda>_ emit. mutate_apply handleID leaseID eventType mutate emit)"

definition update_mutation :: "handle_update \<Rightarrow> runtime_handle \<Rightarrow> runtime_handle svc" where
  "update_mutation upd h =
     (let h = (case hu_Kind upd of None \<Rightarrow> h | Some k \<Rightarrow> h\<lparr>rh_Kind := k\<rparr>);
          h = (case hu_Value upd of None \<Rightarrow> h | Some v \<Rightarrow> h\<lparr>rh_Value := v\<rparr>);
          h = (if hu_Metadata upd \<noteq> [] then h\<lparr>rh_Metadata := mergeMaps (rh_Metadata h) (hu_Metadata upd)\<rparr> else h);
          h = (if rh_Status h = RuntimeHandleOther [] then h\<lparr>rh_Status := RuntimeHandleActive\<rparr> else h)
      in sret h)"

definition close_mutation :: "handle_end_request \<Rightarrow> runtime_handle \<Rightarrow> runtime_handle svc" where
  "close_mutation req h =
     sbind nowMilli (\<lambda>t. let h = h\<lparr>rh_Status := RuntimeHandleClosed,
         rh_StatusReason := runtimeHandleReasonOrDefault (he_Reason req) ''runtime handle closed'', rh_ClosedAt := t\<rparr>
       in sret (if he_Metadata req \<noteq> [] then h\<lparr>rh_Metadata := mergeMaps (rh_Metadata h) (he_Metadata req)\<rparr> else h))"

definition invalidate_mutation :: "handle_end_request \<Rightarrow> runtime_handle \<Rightarrow> runtime_handle svc" where
  "invalidate_mutation req h =
     sbind nowMilli (\<lambda>t. let h = h\<lparr>rh_Status := RuntimeHandleInvalidated,
         rh_StatusReason := runtimeHandleReasonOrDefault (he_Reason req) ''runtime handle invalidated'', rh_InvalidatedAt := t\<rparr>
       in sret (if he_Metadata req \<noteq> [] then h\<lparr>rh_Metadata := mergeMaps (rh_Metadata h) (he_Metadata req)\<rparr> else h))"

definition UpdateRuntimeHandle :: "service \<Rightarrow> string \<Rightarrow> handle_update \<Rightarrow> runtime_handle svc" where
  "UpdateRuntimeHandle sv handleID upd = mutateRuntimeHandle sv handleID [] ''runtime_handle.updated'' (update_mutation upd)"

definition UpdateClaimedRuntimeHandle :: "service \<Rightarrow> string \<Rightarrow> string \<Rightarrow> handle_update \<Rightarrow> runtime_handle svc" where
  "UpdateClaimedRuntimeHandle sv handleID leaseID upd =
     (if leaseID = [] then sfail ErrSessionLeaseNotHeld
      else mutateRuntimeHandle sv handleID leaseID ''runtime_handle.updated'' (update_mutation upd))"

definition CloseRuntimeHandle :: "service \<Rightarrow> string \<Rightarrow> handle_end_request \<Rightarrow> runtime_handle svc" where
  "CloseRuntimeHandle sv handleID req = mutateRuntimeHandle sv handleID [] ''runtime_handle.closed'' (close_mutation req)"

definition CloseClaimedRuntimeHandle :: "service \<Rightarrow> string \<Rightarrow> string \<Rightarrow> handle_end_request \<Rightarrow> runtime_handle svc" where
  "CloseClaimedRuntimeHandle sv handleID leaseID req =
     (if leaseID = [] then sfail ErrSessionLeaseNotHeld
      else mutateRuntimeHandle sv handleID leaseID ''runtime_handle.closed'' (close_mutation req))"

definition InvalidateRuntimeHandle :: "service \<Rightarrow> string \<Rightarrow> handle_end_request \<Rightarrow> runtime_handle svc" where
  "InvalidateRuntimeHandle sv handleID req =
     mutateRuntimeHandle sv handleID [] ''runtime_handle.invalidated'' (invalidate_mutation req)"

definition InvalidateClaimedRuntimeHandle :: "service \<Rightarrow> string \<Rightarrow> string \<Rightarrow> handle_end_request \<Rightarrow> runtime_handle svc" where
  "InvalidateClaimedRuntimeHandle sv handleID leaseID req =
     (if leaseID = [] then sfail ErrSessionLeaseNotHeld
      else mutateRuntimeHandle sv handleID leaseID ''runtime_handle.invalidated'' (invalidate_mutation req))"

definition invalidated_handle :: "string \<Rightarrow> int \<Rightarrow> runtime_handle \<Rightarrow> runtime_handle" where
  "invalidated_handle reason now h = h\<lparr>rh_Status := RuntimeHandleInvalidated, rh_StatusReason := reason,
     rh_InvalidatedAt := now, rh_UpdatedAt := now, rh_Version := rh_Version h + 1\<rparr>"

fun reconcile_loop :: "string \<Rightarrow> int \<Rightarrow> runtime_handle list \<Rightarrow> runtime_handle list svc" where
  "reconcile_loop reason now [] = sret []"
| "reconcile_loop reason now (h # hs) =
     (if \<not> isRuntimeHandleActive h then reconcile_loop reason now hs
      else let h' = invalidated_handle reason now h
           in sbind (do_handle_Update h') (\<lambda>_. sbind (reconcile_loop reason now hs) (\<lambda>us. sret (h' # us))))"

definition reconcileActiveRuntimeHandlesInStore :: "string \<Rightarrow> string \<Rightarrow> int \<Rightarrow> runtime_handle list svc" where
  "reconcileActiveRuntimeHandlesInStore sid reason now =
     (if sid = [] then sret []
      else sbind (sread (\<lambda>r. handle_List sid (rp_RuntimeHandles r))) (reconcile_loop reason now))"

text \<open>
  \<^verbatim>\<open>upsertRuntimeHandle\<close>: the update is tried when the store refuses to create, which the in-memory
  store never does.
\<close>

definition upsertRuntimeHandle :: "runtime_handle \<Rightarrow> unit svc" where
  "upsertRuntimeHandle h =
     (let h = (if rh_Status h = RuntimeHandleOther [] then h\<lparr>rh_Status := RuntimeHandleActive\<rparr> else h)
      in (\<lambda>w. case do_handle_Create h w of
            (Inr _, w') \<Rightarrow> (Inr (), w')
          | (Inl err, w') \<Rightarrow>
              (case do_handle_Get (rh_HandleID h) w' of
                 (Inl _, w2) \<Rightarrow> (Inl err, w2)
               | (Inr current, w2) \<Rightarrow>
                   do_handle_Update (h\<lparr>rh_Version := rh_Version current + 1,
                     rh_CreatedAt := or_int (rh_CreatedAt h) (rh_CreatedAt current),
                     rh_UpdatedAt := or_int (rh_UpdatedAt h) (rh_UpdatedAt current)\<rparr>) w2)))"

section \<open>Lemmas\<close>

subsection \<open>Ended handles\<close>

definition frozen :: "string \<Rightarrow> runtime_handle \<Rightarrow> repos \<Rightarrow> bool" where
  "frozen k h r \<longleftrightarrow> keyed rh_HandleID (rp_RuntimeHandles r) \<and> handle_Get k (rp_RuntimeHandles r) = Inr h"

lemma audit_blind_frozen: "audit_blind (frozen k h)"
  by (simp add: audit_blind_def frozen_def)

lemma frozen_do_handle_Update:
  assumes "rh_HandleID u \<noteq> k"
  shows "keeps (frozen k h) (do_handle_Update u)"
proof -
  have "frozen k h (r\<lparr>rp_RuntimeHandles := m\<rparr>)" if "frozen k h r" "handle_Update t u (rp_RuntimeHandles r) = Inr m" for r t m
    using that handle_versions.update_get[of "rp_RuntimeHandles r" t u m] handle_versions.update_invar[of "rp_RuntimeHandles r" t u m] assms
    by (simp add: frozen_def)
  then show ?thesis
    unfolding do_handle_Update_def by (intro svc_rules triple_sexec) (auto split: sum.splits)
qed

lemma frozen_do_handle_Get:
  "triple (frozen k h) (do_handle_Get hid)
     (\<lambda>cur r. (rh_HandleID cur = hid \<and> (hid = k \<longrightarrow> cur = h)) \<and> frozen k h r) (frozen k h)"
  by (auto simp: triple_def do_handle_Get_def frozen_def dest: handles.get_key split: sum.split)

lemma quiet_mutations:
  "quiet (update_mutation u h)" "quiet (close_mutation q h)" "quiet (invalidate_mutation q h)"
  by (simp_all add: quiet_def update_mutation_def close_mutation_def invalidate_mutation_def svc_apply Let_def)

lemma keeps_handle_events [svc_rules]: "keeps P (runtimeHandleAuditEvents now ty hs)"
  by (induction hs) (auto intro!: svc_rules)

lemma keeps_check_handle_lease [svc_rules]: "keeps P (check_handle_lease h leaseID)"
  unfolding check_handle_lease_def by (intro svc_rules)

lemma frozen_mutate_apply:
  assumes "\<not> isRuntimeHandleActive h" and "\<And>cur. quiet (mutate cur)" and "\<And>evs. keeps (frozen k h) (emit evs)"
  shows "keeps (frozen k h) (mutate_apply hid leaseID ty mutate emit)"
  unfolding mutate_apply_def
proof (rule triple_bind[OF frozen_do_handle_Get], rule triple_assume)
  fix cur assume cur: "rh_HandleID cur = hid \<and> (hid = k \<longrightarrow> cur = h)"
  then have "keeps (frozen k h) (do_handle_Update (keep_handle_ids cur now m))" if "isRuntimeHandleActive cur" for now m
    using that assms(1) by (intro frozen_do_handle_Update) (auto simp: keep_handle_ids_def)
  then show "keeps (frozen k h) (sbind (check_handle_lease cur leaseID) (\<lambda>_.
       if \<not> isRuntimeHandleActive cur then sfail ErrRuntimeHandleNotActive
       else sbind (mutate cur) (\<lambda>m. sbind nowMilli (\<lambda>now.
         let updated = keep_handle_ids cur now m
         in sbind (do_handle_Update updated) (\<lambda>_. sbind nowMilli (\<lambda>t.
              sbind (runtimeHandleAuditEvents t ty [updated]) (\<lambda>evs. sbind (emit evs) (\<lambda>_. sret updated))))))))"
    unfolding Let_def by (intro svc_rules quiet_keeps[OF assms(2)] assms(3)) auto
qed

lemma frozen_mutate:
  assumes "\<not> isRuntimeHandleActive h" and "\<And>cur. quiet (mutate cur)"
  shows "keeps (frozen k h) (mutateRuntimeHandle sv hid leaseID ty mutate)"
  unfolding mutateRuntimeHandle_def
  by (intro keeps_with_runner frozen_mutate_apply assms keeps_emit audit_blind_frozen)

subsection \<open>Reconciliation\<close>

lemma frozen_reconcile_loop:
  assumes "\<not> isRuntimeHandleActive h" and "\<forall>x \<in> set hs. rh_HandleID x = k \<longrightarrow> x = h"
  shows "keeps (frozen k h) (reconcile_loop reason now hs)"
  using assms(2)
proof (induction hs)
  case Nil
  then show ?case by (auto intro: svc_rules)
next
  case (Cons x hs)
  have "keeps (frozen k h) (do_handle_Update (invalidated_handle reason now x))" if "isRuntimeHandleActive x"
    using that Cons.prems assms(1) by (intro frozen_do_handle_Update) (auto simp: invalidated_handle_def)
  with Cons show ?case by (auto simp: Let_def intro!: svc_rules)
qed

lemma frozen_reconcile:
  assumes "\<not> isRuntimeHandleActive h"
  shows "keeps (frozen k h) (reconcileActiveRuntimeHandlesInStore sid reason now)"
proof -
  have "triple (frozen k h) (sread (\<lambda>r. handle_List sid (rp_RuntimeHandles r)))
     (\<lambda>hs r. (\<forall>x \<in> set hs. rh_HandleID x = k \<longrightarrow> x = h) \<and> frozen k h r) (frozen k h)"
    by (rule svc_rules) (auto simp: frozen_def handles.list_get)
  then show ?thesis
    unfolding reconcileActiveRuntimeHandlesInStore_def
    by (intro triple_if triple_bind[OF _ triple_assume[OF frozen_reconcile_loop[OF assms]]]) (auto intro: svc_rules)
qed

text \<open>What reconciliation makes of a stored handle; \<open>T\<close> gives the store's clock at each write.\<close>

definition ended :: "string \<Rightarrow> int \<Rightarrow> int \<Rightarrow> runtime_handle \<Rightarrow> runtime_handle" where
  "ended reason now t h = (invalidated_handle reason now h)\<lparr>rh_UpdatedAt := t\<rparr>"

lemma do_handle_Update_run:
  assumes "handle_Update (w_Clock w (w_Reads w)) u (rp_RuntimeHandles (w_Repos w)) = Inr m"
  shows "do_handle_Update u w = (Inr (), w\<lparr>w_Reads := Suc (w_Reads w), w_Repos := (w_Repos w)\<lparr>rp_RuntimeHandles := m\<rparr>\<rparr>)"
  using assms by (simp add: do_handle_Update_def svc_apply)

lemma handle_Update_ended:
  assumes "handle_Get (rh_HandleID h) m = Inr h"
  shows "handle_Update t (invalidated_handle reason now h) m = Inr (gm_put (rh_HandleID h) (ended reason now t h) m)"
  using assms by (auto simp: handle_Update_def handle_Get_def mem_get_def invalidated_handle_def ended_def Let_def split: option.splits)

lemma reconcile_loop_run:
  assumes "distinct (map rh_HandleID hs)" and "\<forall>h \<in> set hs. handle_Get (rh_HandleID h) (rp_RuntimeHandles (w_Repos w)) = Inr h"
  shows "\<exists>T w'. reconcile_loop reason now hs w = (Inr (map (invalidated_handle reason now) (filter isRuntimeHandleActive hs)), w')
    \<and> w_Repos w' = (w_Repos w)\<lparr>rp_RuntimeHandles := foldl (\<lambda>m h. gm_put (rh_HandleID h) (ended reason now (T (rh_HandleID h)) h) m)
         (rp_RuntimeHandles (w_Repos w)) (filter isRuntimeHandleActive hs)\<rparr>
    \<and> w_Clock w' = w_Clock w"
  using assms
proof (induction hs arbitrary: w)
  case Nil
  then show ?case by (intro exI) (simp add: svc_apply)
next
  case (Cons h hs)
  show ?case
  proof (cases "isRuntimeHandleActive h")
    case False
    with Cons show ?thesis by simp
  next
    case True
    let ?t = "w_Clock w (w_Reads w)" and ?k = "rh_HandleID h"
    define m where "m = gm_put ?k (ended reason now ?t h) (rp_RuntimeHandles (w_Repos w))"
    define w1 where "w1 = w\<lparr>w_Reads := Suc (w_Reads w), w_Repos := (w_Repos w)\<lparr>rp_RuntimeHandles := m\<rparr>\<rparr>"
    have "do_handle_Update (invalidated_handle reason now h) w = (Inr (), w1)"
      unfolding w1_def m_def by (rule do_handle_Update_run, rule handle_Update_ended) (use Cons.prems in simp)
    moreover have cur: "\<forall>x \<in> set hs. handle_Get (rh_HandleID x) (rp_RuntimeHandles (w_Repos w1)) = Inr x"
    proof
      fix x assume x: "x \<in> set hs"
      then have "rh_HandleID x \<noteq> ?k" using Cons.prems(1) by (metis distinct.simps(2) image_eqI list.set_map list.simps(9))
      with x Cons.prems(2) show "handle_Get (rh_HandleID x) (rp_RuntimeHandles (w_Repos w1)) = Inr x"
        by (simp add: w1_def m_def handle_Get_def)
    qed
    from Cons.prems(1) have "distinct (map rh_HandleID hs)" by simp
    from Cons.IH[OF this cur] obtain T w' where IH: "reconcile_loop reason now hs w1 = (Inr (map (invalidated_handle reason now) (filter isRuntimeHandleActive hs)), w')"
      "w_Repos w' = (w_Repos w1)\<lparr>rp_RuntimeHandles := foldl (\<lambda>m h. gm_put (rh_HandleID h) (ended reason now (T (rh_HandleID h)) h) m)
         (rp_RuntimeHandles (w_Repos w1)) (filter isRuntimeHandleActive hs)\<rparr>" "w_Clock w' = w_Clock w1" by blast
    moreover have "foldl (\<lambda>m h. gm_put (rh_HandleID h) (ended reason now ((T(?k := ?t)) (rh_HandleID h)) h) m) m (filter isRuntimeHandleActive hs)
        = foldl (\<lambda>m h. gm_put (rh_HandleID h) (ended reason now (T (rh_HandleID h)) h) m) m (filter isRuntimeHandleActive hs)"
      using Cons.prems(1) by (intro foldl_cong refl) (auto simp: rev_image_eqI)
    ultimately show ?thesis using True
      by (intro exI[of _ "T(?k := ?t)"] exI[of _ w']) (simp add: svc_apply Let_def w1_def m_def)
  qed
qed

lemma foldl_put_get:
  "distinct (map key hs) \<Longrightarrow>
   gm_get (foldl (\<lambda>m h. gm_put (key h) (f h) m) m hs) k =
     (case List.find (\<lambda>h. key h = k) hs of None \<Rightarrow> gm_get m k | Some h \<Rightarrow> Some (f h))"
proof (induction hs arbitrary: m)
  case (Cons h hs)
  then have "key h = k \<Longrightarrow> List.find (\<lambda>h. key h = k) hs = None" by (auto simp: find_None_iff rev_image_eqI)
  with Cons show ?case by (auto split: option.split)
qed simp

lemma reconcile_get:
  assumes wf: "keyed rh_HandleID m" and "hs = filter isRuntimeHandleActive (handle_List sid m)" and "sid \<noteq> []"
  shows "handle_Get k (foldl (\<lambda>m h. gm_put (rh_HandleID h) (f h) m) m hs) =
    (case handle_Get k m of Inl e \<Rightarrow> Inl e
     | Inr h \<Rightarrow> if rh_SessionID h = sid \<and> isRuntimeHandleActive h then Inr (f h) else Inr h)"
proof -
  have dist: "distinct (map rh_HandleID hs)"
    using handles.list_distinct[OF wf, of sid] assms(2) by (simp add: distinct_map_filter)
  have mem: "h \<in> set hs \<longleftrightarrow> handle_Get (rh_HandleID h) m = Inr h \<and> rh_SessionID h = sid \<and> isRuntimeHandleActive h" for h
    using handles.list_get[OF wf, of h sid] assms(2,3) by auto
  show ?thesis
  proof (cases "List.find (\<lambda>h. rh_HandleID h = k) hs")
    case None
    then have "\<forall>h \<in> set hs. rh_HandleID h \<noteq> k" by (auto simp: find_None_iff)
    then have "\<not> (rh_SessionID h = sid \<and> isRuntimeHandleActive h)" if "handle_Get k m = Inr h" for h
      using mem[of h] handles.get_key[OF wf that] that by blast
    then show ?thesis
      using foldl_put_get[OF dist, of f m k] None by (cases "handle_Get k m") (auto simp: handle_Get_def mem_get_def split: option.splits)
  next
    case (Some h)
    then have "h \<in> set hs" "rh_HandleID h = k" by (auto simp: find_Some_iff)
    with mem[of h] have "handle_Get k m = Inr h" "rh_SessionID h = sid" "isRuntimeHandleActive h" by auto
    then show ?thesis using foldl_put_get[OF dist, of f m k] Some by (simp add: handle_Get_def mem_get_def)
  qed
qed

lemma reconcile_run:
  assumes "keyed rh_HandleID (rp_RuntimeHandles (w_Repos w))" and "sid \<noteq> []"
  shows "\<exists>hs T w'. reconcileActiveRuntimeHandlesInStore sid reason now w = (Inr hs, w')
    \<and> (\<forall>k. handle_Get k (rp_RuntimeHandles (w_Repos w')) =
         (case handle_Get k (rp_RuntimeHandles (w_Repos w)) of Inl e \<Rightarrow> Inl e
          | Inr h \<Rightarrow> if rh_SessionID h = sid \<and> isRuntimeHandleActive h
                    then Inr (h\<lparr>rh_Status := RuntimeHandleInvalidated, rh_StatusReason := reason, rh_InvalidatedAt := now,
                                rh_UpdatedAt := T k, rh_Version := rh_Version h + 1\<rparr>)
                    else Inr h))
    \<and> w_Repos w' = (w_Repos w)\<lparr>rp_RuntimeHandles := rp_RuntimeHandles (w_Repos w')\<rparr>
    \<and> distinct (map rh_HandleID hs)
    \<and> rh_HandleID ` set hs = {k. \<exists>h. handle_Get k (rp_RuntimeHandles (w_Repos w)) = Inr h \<and> rh_SessionID h = sid \<and> isRuntimeHandleActive h}
    \<and> w_Clock w' = w_Clock w"
proof -
  let ?m = "rp_RuntimeHandles (w_Repos w)"
  define as where "as = filter isRuntimeHandleActive (handle_List sid ?m)"
  have "\<forall>h \<in> set (handle_List sid ?m). handle_Get (rh_HandleID h) ?m = Inr h"
    using handles.list_get[OF assms(1)] by blast
  from reconcile_loop_run[OF handles.list_distinct[OF assms(1)] this, of reason now] obtain T w' where
    run: "reconcile_loop reason now (handle_List sid ?m) w = (Inr (map (invalidated_handle reason now) as), w')"
    and w': "w_Repos w' = (w_Repos w)\<lparr>rp_RuntimeHandles :=
       foldl (\<lambda>m h. gm_put (rh_HandleID h) (ended reason now (T (rh_HandleID h)) h) m) ?m as\<rparr>" and clk: "w_Clock w' = w_Clock w"
    unfolding as_def by blast
  have ids: "map rh_HandleID (map (invalidated_handle reason now) as) = map rh_HandleID as"
    by (simp add: invalidated_handle_def)
  have "reconcileActiveRuntimeHandlesInStore sid reason now w = (Inr (map (invalidated_handle reason now) as), w')"
    using run assms(2) by (simp add: reconcileActiveRuntimeHandlesInStore_def svc_apply)
  moreover have "handle_Get k (rp_RuntimeHandles (w_Repos w')) =
       (case handle_Get k ?m of Inl e \<Rightarrow> Inl e
        | Inr h \<Rightarrow> if rh_SessionID h = sid \<and> isRuntimeHandleActive h
                  then Inr (h\<lparr>rh_Status := RuntimeHandleInvalidated, rh_StatusReason := reason, rh_InvalidatedAt := now,
                              rh_UpdatedAt := T k, rh_Version := rh_Version h + 1\<rparr>)
                  else Inr h)" for k
    using reconcile_get[OF assms(1) as_def assms(2), of k "\<lambda>h. ended reason now (T (rh_HandleID h)) h"] handles.get_key[OF assms(1), of k]
    by (auto simp: w' ended_def invalidated_handle_def split: sum.splits)
  moreover have "distinct (map rh_HandleID as)"
    using handles.list_distinct[OF assms(1), of sid] by (simp add: as_def distinct_map_filter)
  moreover have "rh_HandleID ` set as = {k. \<exists>h. handle_Get k ?m = Inr h \<and> rh_SessionID h = sid \<and> isRuntimeHandleActive h}"
    using handles.list_get[OF assms(1), of _ sid] handles.get_key[OF assms(1)] assms(2) unfolding as_def by fastforce
  ultimately show ?thesis
    by (intro exI[of _ "map (invalidated_handle reason now) as"] exI[of _ T] exI[of _ w'])
      (simp add: w' clk ids[symmetric] image_image[symmetric] flip: set_map)
qed

section \<open>Properties\<close>

text \<open>
  Reconciliation ends exactly the active handles of the session. On a well-formed store it
  always succeeds; afterwards every handle of the session that was active is invalidated at its next
  version with the given reason, every other handle is as before, no other store has changed and
  the result lists the handles ended, once each.
\<close>

theorem reconcile_ends_active:
  assumes "keyed rh_HandleID (rp_RuntimeHandles (w_Repos w))" and "sid \<noteq> []"
  shows "\<exists>hs T w'. reconcileActiveRuntimeHandlesInStore sid reason now w = (Inr hs, w')
    \<and> (\<forall>k. handle_Get k (rp_RuntimeHandles (w_Repos w')) =
         (case handle_Get k (rp_RuntimeHandles (w_Repos w)) of Inl e \<Rightarrow> Inl e
          | Inr h \<Rightarrow> if rh_SessionID h = sid \<and> isRuntimeHandleActive h
                    then Inr (h\<lparr>rh_Status := RuntimeHandleInvalidated, rh_StatusReason := reason, rh_InvalidatedAt := now,
                                rh_UpdatedAt := T k, rh_Version := rh_Version h + 1\<rparr>)
                    else Inr h))
    \<and> w_Repos w' = (w_Repos w)\<lparr>rp_RuntimeHandles := rp_RuntimeHandles (w_Repos w')\<rparr>
    \<and> distinct (map rh_HandleID hs)
    \<and> rh_HandleID ` set hs = {k. \<exists>h. handle_Get k (rp_RuntimeHandles (w_Repos w)) = Inr h \<and> rh_SessionID h = sid \<and> isRuntimeHandleActive h}"
  using reconcile_run[OF assms, of reason now] by blast

definition ex_handle :: "string \<Rightarrow> runtime_handle" where
  "ex_handle hid = \<lparr>rh_HandleID = hid, rh_SessionID = ''s1'', rh_TaskID = [], rh_AttemptID = [], rh_CycleID = [],
     rh_TraceID = [], rh_Kind = ''pty'', rh_Value = ''1'', rh_Status = RuntimeHandleOther [], rh_StatusReason = [],
     rh_Metadata = [], rh_Version = 0, rh_CreatedAt = 0, rh_UpdatedAt = 0, rh_ClosedAt = 0, rh_InvalidatedAt = 0\<rparr>"

definition ex_handle_world :: world where
  "ex_handle_world = snd (upsertRuntimeHandle (ex_handle ''h2'') (snd (upsertRuntimeHandle (ex_handle ''h1'') ex_world)))"

theorem reconcile_ends_active_witness:
  "\<exists>hs w' h. reconcileActiveRuntimeHandlesInStore ''s1'' ''gone'' 7 ex_handle_world = (Inr hs, w')
     \<and> handle_Get ''h1'' (rp_RuntimeHandles (w_Repos w')) = Inr h \<and> rh_Status h = RuntimeHandleInvalidated"
proof -
  have wf: "keyed rh_HandleID (rp_RuntimeHandles (w_Repos ex_handle_world))" by code_simp
  have g: "case handle_Get ''h1'' (rp_RuntimeHandles (w_Repos ex_handle_world)) of
      Inr h \<Rightarrow> rh_SessionID h = ''s1'' \<and> isRuntimeHandleActive h | Inl e \<Rightarrow> False" by code_simp
  then obtain h where h: "handle_Get ''h1'' (rp_RuntimeHandles (w_Repos ex_handle_world)) = Inr h"
    "rh_SessionID h = ''s1''" "isRuntimeHandleActive h" by (auto split: sum.splits)
  from reconcile_ends_active[OF wf, of "''s1''" "''gone''" 7] obtain hs T w' where
    run: "reconcileActiveRuntimeHandlesInStore ''s1'' ''gone'' 7 ex_handle_world = (Inr hs, w')"
    and k: "\<forall>k. handle_Get k (rp_RuntimeHandles (w_Repos w')) =
         (case handle_Get k (rp_RuntimeHandles (w_Repos ex_handle_world)) of Inl e \<Rightarrow> Inl e
          | Inr h \<Rightarrow> if rh_SessionID h = ''s1'' \<and> isRuntimeHandleActive h
                    then Inr (h\<lparr>rh_Status := RuntimeHandleInvalidated, rh_StatusReason := ''gone'', rh_InvalidatedAt := 7,
                                rh_UpdatedAt := T k, rh_Version := rh_Version h + 1\<rparr>)
                    else Inr h)" by blast
  from k[rule_format, of "''h1''"] h run show ?thesis by force
qed

text \<open>The calls a client can make on handles.\<close>

datatype handle_op =
    UpdateOp string string handle_update
  | CloseOp string string handle_end_request
  | InvalidateOp string string handle_end_request
  | ReconcileOp string string int

fun handle_exec :: "service \<Rightarrow> handle_op \<Rightarrow> world \<Rightarrow> world" where
  "handle_exec sv (UpdateOp hid L u) w =
     snd ((if L = [] then UpdateRuntimeHandle sv hid u else UpdateClaimedRuntimeHandle sv hid L u) w)"
| "handle_exec sv (CloseOp hid L q) w =
     snd ((if L = [] then CloseRuntimeHandle sv hid q else CloseClaimedRuntimeHandle sv hid L q) w)"
| "handle_exec sv (InvalidateOp hid L q) w =
     snd ((if L = [] then InvalidateRuntimeHandle sv hid q else InvalidateClaimedRuntimeHandle sv hid L q) w)"
| "handle_exec sv (ReconcileOp sid reason now) w = snd (reconcileActiveRuntimeHandlesInStore sid reason now w)"

lemma frozen_calls:
  assumes "\<not> isRuntimeHandleActive h"
  shows "keeps (frozen k h) (if L = [] then UpdateRuntimeHandle sv hid u else UpdateClaimedRuntimeHandle sv hid L u)"
    "keeps (frozen k h) (if L = [] then CloseRuntimeHandle sv hid q else CloseClaimedRuntimeHandle sv hid L q)"
    "keeps (frozen k h) (if L = [] then InvalidateRuntimeHandle sv hid q else InvalidateClaimedRuntimeHandle sv hid L q)"
  unfolding UpdateRuntimeHandle_def UpdateClaimedRuntimeHandle_def CloseRuntimeHandle_def
    CloseClaimedRuntimeHandle_def InvalidateRuntimeHandle_def InvalidateClaimedRuntimeHandle_def
  by (intro triple_if triple_sfail frozen_mutate assms quiet_mutations, assumption)+

lemma frozen_handle_exec:
  assumes "\<not> isRuntimeHandleActive h" and "frozen k h (w_Repos w)"
  shows "frozen k h (w_Repos (handle_exec sv op w))"
  by (cases op) (simp_all only: handle_exec.simps keeps_run[OF frozen_calls(1)] keeps_run[OF frozen_calls(2)]
      keeps_run[OF frozen_calls(3)] keeps_run[OF frozen_reconcile] assms not_False_eq_True)

text \<open>
  C30. A handle that has ended stays as it is. Whatever sequence of updates, closings, invalidations
  and reconciliations follows, by any caller, under any runner and any answers of the application's
  sink, a closed or invalidated handle is never written again.
\<close>

theorem ended_handle_final:
  assumes "keyed rh_HandleID (rp_RuntimeHandles (w_Repos w))"
    and "handle_Get k (rp_RuntimeHandles (w_Repos w)) = Inr h" and "rh_Status h \<in> {RuntimeHandleClosed, RuntimeHandleInvalidated}"
  shows "handle_Get k (rp_RuntimeHandles (w_Repos (fold (handle_exec sv) ops w))) = Inr h"
proof -
  have "\<not> isRuntimeHandleActive h" using assms(3) by (auto simp: isRuntimeHandleActive_def)
  moreover have "frozen k h (w_Repos w)" using assms by (simp add: frozen_def)
  ultimately have "frozen k h (w_Repos (fold (handle_exec sv) ops w))"
    by (induction ops arbitrary: w) (auto intro: frozen_handle_exec)
  then show ?thesis by (simp add: frozen_def)
qed

definition ex_closed_world :: world where
  "ex_closed_world = snd (CloseRuntimeHandle ex_service ''h1'' \<lparr>he_Reason = [], he_Metadata = []\<rparr> ex_handle_world)"

theorem ended_handle_final_witness:
  "\<exists>h. rh_StatusReason h = ''runtime handle closed'' \<and> handle_Get ''h1'' (rp_RuntimeHandles (w_Repos (fold (handle_exec ex_service)
     [ReconcileOp ''s1'' ''gone'' 7, UpdateOp ''h1'' [] \<lparr>hu_Kind = Some ''x'', hu_Value = None, hu_Metadata = []\<rparr>] ex_closed_world))) = Inr h"
proof -
  have wf: "keyed rh_HandleID (rp_RuntimeHandles (w_Repos ex_closed_world))" by code_simp
  have g: "case handle_Get ''h1'' (rp_RuntimeHandles (w_Repos ex_closed_world)) of
      Inr h \<Rightarrow> rh_Status h = RuntimeHandleClosed \<and> rh_StatusReason h = ''runtime handle closed'' | Inl e \<Rightarrow> False" by code_simp
  then obtain h where h: "handle_Get ''h1'' (rp_RuntimeHandles (w_Repos ex_closed_world)) = Inr h"
    "rh_Status h = RuntimeHandleClosed" "rh_StatusReason h = ''runtime handle closed''" by (auto split: sum.splits)
  from ended_handle_final[OF wf h(1), of ex_service] h show ?thesis by blast
qed

text \<open>
  The upsert that records the handles a tool returns does not respect an ended handle on the
  in-memory store. Its \<^verbatim>\<open>Create\<close> replaces a stored handle instead of refusing, so the branch that
  continues the version is never taken: a handle that was closed at version 2 is active again at
  version 1 when a tool reports its id once more.
\<close>

theorem upsert_revives_handle:
  "(case handle_Get ''h1'' (rp_RuntimeHandles (w_Repos ex_closed_world)) of
      Inr h \<Rightarrow> rh_Status h = RuntimeHandleClosed \<and> rh_Version h = 2 | Inl e \<Rightarrow> False)
   \<and> (case handle_Get ''h1'' (rp_RuntimeHandles (w_Repos (snd (upsertRuntimeHandle (ex_handle ''h1'') ex_closed_world)))) of
      Inr h \<Rightarrow> rh_Status h = RuntimeHandleActive \<and> rh_Version h = 1 | Inl e \<Rightarrow> False)"
  by code_simp

end
