(* ===== verification/Recovery.thy ===== *)
theory Recovery
  imports Runtime_Handles
begin

text \<open>
  Recovery state of sessions: \<^verbatim>\<open>pkg/harness/runtime\<close> recovery.go (marking a session as in flight or
  interrupted, listing what can be recovered, bringing a session back to a state from which it can
  run) and runtime_budget_anchor.go. \<^verbatim>\<open>recoverSession\<close> itself, which goes on to run the session, is not
  part of this theory.
\<close>

section \<open>Operations\<close>

definition ensureSessionLease :: "service \<Rightarrow> string \<Rightarrow> string \<Rightarrow> session svc" where
  "ensureSessionLease sv sid leaseID =
     sbind (getSessionRecord sv sid) (\<lambda>st. sbind nowMilli (\<lambda>t.
       sbind (slift (requireSessionLease st leaseID t)) (\<lambda>_. sret st)))"

definition stepRefForSession :: "service \<Rightarrow> session \<Rightarrow> string \<Rightarrow> step option svc" where
  "stepRefForSession sv st stepID =
     (if stepID = [] then sret None
      else sbind (pinnedPlanForSession sv st) (\<lambda>pinned.
        case Option.bind pinned (\<lambda>p. findPlanStepByID p stepID) of
          Some s \<Rightarrow> sret (Some s)
        | None \<Rightarrow> sbind (latestPlanForSession sv (st_SessionID st)) (\<lambda>latest.
            sret (Option.bind latest (\<lambda>p. findPlanStepByID p stepID)))))"

definition recoveryStepID :: "session \<Rightarrow> string" where
  "recoveryStepID st = (if st_InFlightStepID st \<noteq> [] then st_InFlightStepID st else st_CurrentStepID st)"

definition recoveryStatePayload :: "session \<Rightarrow> session \<Rightarrow> string \<Rightarrow> meta" where
  "recoveryStatePayload before after mutation =
     [(''mutation'', VStr mutation), (''from_phase'', VStr (phase_text (st_Phase before))),
      (''to_phase'', VStr (phase_text (st_Phase after))),
      (''from_execution_state'', VStr (execution_text (st_ExecutionState before))),
      (''to_execution_state'', VStr (execution_text (st_ExecutionState after))),
      (''from_current_step_id'', VStr (st_CurrentStepID before)), (''to_current_step_id'', VStr (st_CurrentStepID after)),
      (''from_in_flight_step_id'', VStr (st_InFlightStepID before)),
      (''to_in_flight_step_id'', VStr (st_InFlightStepID after)),
      (''pending_approval_id'', VStr (st_PendingApprovalID after)), (''runtime_started_at'', VInt64 (st_RuntimeStartedAt after)),
      (''last_heartbeat_at'', VInt64 (st_LastHeartbeatAt after)), (''interrupted_at'', VInt64 (st_InterruptedAt after))]"

definition recovery_event :: "session \<Rightarrow> session \<Rightarrow> string \<Rightarrow> audit_event svc" where
  "recovery_event before after mutation = sbind nowMilli (\<lambda>t.
     newAuditEventAt t ''recovery.state_changed'' (st_SessionID after) (st_TaskID after) (recoveryStepID after)
       (recoveryStatePayload before after mutation))"

definition update_recovery :: "string \<Rightarrow> string \<Rightarrow> string \<Rightarrow> (session \<Rightarrow> session) \<Rightarrow> (audit_event list \<Rightarrow> unit svc) \<Rightarrow> session svc" where
  "update_recovery sid leaseID mutation mutate emit =
     sbind (do_session_Get sid) (\<lambda>st. sbind nowMilli (\<lambda>t1. sbind (slift (requireSessionLease st leaseID t1)) (\<lambda>_.
       sbind nowMilli (\<lambda>t2. sbind (do_persistSessionUpdateAt (mutate st) leaseID t2) (\<lambda>updated.
         sbind (recovery_event st updated mutation) (\<lambda>ev. sbind (emit [ev]) (\<lambda>_. sret updated)))))))"

definition updateRecoveryState :: "service \<Rightarrow> string \<Rightarrow> string \<Rightarrow> string \<Rightarrow> (session \<Rightarrow> session) \<Rightarrow> session svc" where
  "updateRecoveryState sv sid leaseID mutation mutate = with_runner sv (\<lambda>_ emit. update_recovery sid leaseID mutation mutate emit)"

definition in_flight :: "string \<Rightarrow> int \<Rightarrow> step option \<Rightarrow> session \<Rightarrow> session" where
  "in_flight stepID now stepRef st =
     (let st = (if st_RuntimeStartedAt st = 0 then st\<lparr>st_RuntimeStartedAt := now\<rparr> else st);
          st = st\<lparr>st_ExecutionState := ExecutionInFlight, st_InFlightStepID := stepID\<rparr>;
          st = (case stepRef of None \<Rightarrow> st | Some s \<Rightarrow> setSessionPlanRef st s)
      in st\<lparr>st_LastHeartbeatAt := now\<rparr>)"

definition markSessionInFlight :: "service \<Rightarrow> string \<Rightarrow> string \<Rightarrow> string \<Rightarrow> session svc" where
  "markSessionInFlight sv sid leaseID stepID =
     sbind nowMilli (\<lambda>now. sbind (ensureSessionLease sv sid leaseID) (\<lambda>state.
       sbind (slift (ensureRuntimeBudget state (sv_Budgets sv) now)) (\<lambda>_.
         sbind (stepRefForSession sv state stepID) (\<lambda>stepRef.
           updateRecoveryState sv sid leaseID ''in_flight'' (in_flight stepID now stepRef)))))"

definition MarkSessionInFlight :: "service \<Rightarrow> string \<Rightarrow> string \<Rightarrow> session svc" where
  "MarkSessionInFlight sv sid stepID = markSessionInFlight sv sid [] stepID"

definition MarkClaimedSessionInFlight :: "service \<Rightarrow> string \<Rightarrow> string \<Rightarrow> string \<Rightarrow> session svc" where
  "MarkClaimedSessionInFlight sv sid leaseID stepID = markSessionInFlight sv sid leaseID stepID"

definition interrupted :: "int \<Rightarrow> session \<Rightarrow> session" where
  "interrupted now st = st\<lparr>st_ExecutionState := ExecutionInterrupted, st_InterruptedAt := now, st_Phase := PhaseRecover\<rparr>"

definition markSessionInterrupted :: "service \<Rightarrow> string \<Rightarrow> string \<Rightarrow> session svc" where
  "markSessionInterrupted sv sid leaseID =
     sbind nowMilli (\<lambda>now. updateRecoveryState sv sid leaseID ''interrupted'' (interrupted now))"

definition MarkSessionInterrupted :: "service \<Rightarrow> string \<Rightarrow> session svc" where
  "MarkSessionInterrupted sv sid = markSessionInterrupted sv sid []"

definition MarkClaimedSessionInterrupted :: "service \<Rightarrow> string \<Rightarrow> string \<Rightarrow> session svc" where
  "MarkClaimedSessionInterrupted sv sid leaseID = markSessionInterrupted sv sid leaseID"

definition ListRecoverableSessions :: "service \<Rightarrow> session list svc" where
  "ListRecoverableSessions sv = sbind (listSessionRecords sv) (\<lambda>items. sret (filter IsRecoverableState items))"

text \<open>The state from which a session runs again.\<close>

definition recovered :: "session \<Rightarrow> session" where
  "recovered st =
     (if st_ExecutionState st = ExecutionInFlight \<or> st_ExecutionState st = ExecutionInterrupted
      then let nxt = st\<lparr>st_ExecutionState := ExecutionIdle\<rparr>;
               nxt = (if \<not> isTerminalPhase (st_Phase st) then nxt\<lparr>st_Phase := PhaseRecover\<rparr> else nxt)
           in if st_CurrentStepID nxt = [] \<and> st_InFlightStepID nxt \<noteq> []
              then nxt\<lparr>st_CurrentStepID := st_InFlightStepID nxt\<rparr> else nxt
      else st)"

definition needs_reconcile :: "session \<Rightarrow> bool" where
  "needs_reconcile st \<longleftrightarrow> st_ExecutionState st = ExecutionInFlight \<or> st_ExecutionState st = ExecutionInterrupted
     \<or> st_Phase st = PhaseRecover"

definition normalize_handles :: "string \<Rightarrow> bool \<Rightarrow> audit_event list svc" where
  "normalize_handles sid should =
     (if should
      then sbind nowMilli (\<lambda>t. sbind (reconcileActiveRuntimeHandlesInStore sid ''session recovered'' t) (\<lambda>hs.
             sbind nowMilli (\<lambda>t'. runtimeHandleAuditEvents t' ''runtime_handle.invalidated'' hs)))
      else sret [])"

definition normalize_session :: "session \<Rightarrow> audit_event list \<Rightarrow> (session \<times> audit_event list) svc" where
  "normalize_session st events =
     (let nxt = recovered st
      in if st_ExecutionState nxt = st_ExecutionState st \<and> st_Phase nxt = st_Phase st \<and> st_CurrentStepID nxt = st_CurrentStepID st
         then sret (st, events)
         else sbind (do_persistSessionUpdateAt nxt (st_LeaseID st) 0) (\<lambda>updated.
                sbind (recovery_event st updated ''recovered'') (\<lambda>ev. sret (updated, events @ [ev]))))"

definition normalize :: "string \<Rightarrow> bool \<Rightarrow> (audit_event list \<Rightarrow> unit svc) \<Rightarrow> session svc" where
  "normalize sid should emit =
     sbind (do_session_Get sid) (\<lambda>st. sbind (normalize_handles sid should) (\<lambda>hevents.
       sbind (normalize_session st hevents) (\<lambda>(updated, events).
         if events = [] then sret updated else sbind (emit events) (\<lambda>_. sret updated))))"

definition normalizeSessionForRecovery :: "service \<Rightarrow> string \<Rightarrow> session svc" where
  "normalizeSessionForRecovery sv sid =
     sbind (getSessionRecord sv sid) (\<lambda>current.
       with_runner sv (\<lambda>_ emit. normalize sid (needs_reconcile current) emit))"

definition ensureRuntimeBudgetAnchor :: "service \<Rightarrow> session \<Rightarrow> string \<Rightarrow> int \<Rightarrow> session svc" where
  "ensureRuntimeBudgetAnchor sv state leaseID startedAt =
     (if st_RuntimeStartedAt state \<noteq> 0 then sret state
      else with_runner sv (\<lambda>_ _. do_persistSessionUpdateAt (state\<lparr>st_RuntimeStartedAt := startedAt\<rparr>) leaseID startedAt))"

section \<open>Lemmas\<close>

text \<open>Writing a session with no other worker interfering: with a lease, and without.\<close>

lemma persist_leased:
  assumes "leaseID \<noteq> []" and "session_Get (st_SessionID d) m = Inr c"
  shows "persistSessionUpdateAt (\<lambda>_ m. m) (\<lambda>_ m. m) updAt sysNow d leaseID now m =
    (if leaseHeldAt c leaseID (if now = 0 then sysNow else now)
     then (Inr (mergeSessionUpdate c d leaseID),
           case session_Update (updAt 0) (mergeSessionUpdate c d leaseID) m of Inr m' \<Rightarrow> m' | Inl _ \<Rightarrow> m)
     else (Inl ErrSessionLeaseNotHeld, m))"
proof -
  let ?n = "if now = 0 then sysNow else now"
  have four: "(4 :: nat) = Suc 3" by simp
  note unfold4 = update_loop.simps(2)[where n = 3, folded four]
  show ?thesis
  proof (cases "leaseHeldAt c leaseID ?n")
    case True
    then have ok: "requireSessionLease c leaseID ?n = Inr ()" using assms(1) by (simp add: requireSessionLease_ok)
    obtain m' where "session_Update (updAt 0) (mergeSessionUpdate c d leaseID) m = Inr m'"
      using sess.update_fresh[of "mergeSessionUpdate c d leaseID" m c] merge_fields(1,2)[OF True, of d] assms(2) by auto
    with True ok assms show ?thesis
      by (simp add: persistSessionUpdateAt_def updateSessionWithRetry_def maxSessionUpdateAttempts_def unfold4 Let_def
          del: if_split)
  next
    case False
    then have "requireSessionLease c leaseID ?n = Inl ErrSessionLeaseNotHeld"
      using requireSessionLease_cases[of c leaseID ?n] assms(1) by (auto simp: requireSessionLease_ok)
    with False assms show ?thesis
      by (simp add: persistSessionUpdateAt_def updateSessionWithRetry_def maxSessionUpdateAttempts_def unfold4 Let_def
          del: if_split)
  qed
qed

lemma persist_unleased:
  assumes "session_Get (st_SessionID d) m = Inr c" and "st_Version d = st_Version c"
  shows "persistSessionUpdateAt pre mid updAt sysNow d [] now m =
    (Inr (d\<lparr>st_Version := st_Version c + 1\<rparr>),
     case session_Update (updAt 0) (d\<lparr>st_Version := st_Version c + 1\<rparr>) m of Inr m' \<Rightarrow> m' | Inl _ \<Rightarrow> m)"
proof -
  have "\<exists>m'. session_Update (updAt 0) (d\<lparr>st_Version := st_Version c + 1\<rparr>) m = Inr m'"
    using sess.update_fresh[of "d\<lparr>st_Version := st_Version c + 1\<rparr>" m c] assms by simp
  then show ?thesis using assms(2) by (auto simp: persistSessionUpdateAt_def Let_def)
qed

lemma do_persist_run:
  assumes "persistSessionUpdateAt (\<lambda>_ m. m) (\<lambda>_ m. m) (\<lambda>_. w_Clock w (w_Reads w)) (w_Clock w (w_Reads w)) d leaseID now
     (rp_Sessions (w_Repos w)) = (r, m)"
  shows "do_persistSessionUpdateAt d leaseID now w = (r, w\<lparr>w_Reads := Suc (w_Reads w), w_Repos := (w_Repos w)\<lparr>rp_Sessions := m\<rparr>\<rparr>)"
  using assms by (simp add: do_persistSessionUpdateAt_def svc_apply)

lemma recovered_fields:
  assumes "st_ExecutionState st \<in> {ExecutionInFlight, ExecutionInterrupted}"
  shows "st_ExecutionState (recovered st) = ExecutionIdle"
    "st_Phase (recovered st) = (if isTerminalPhase (st_Phase st) then st_Phase st else PhaseRecover)"
    "st_CurrentStepID (recovered st) = (if st_CurrentStepID st = [] then st_InFlightStepID st else st_CurrentStepID st)"
    "st_SessionID (recovered st) = st_SessionID st" "st_Version (recovered st) = st_Version st"
    "st_LeaseID (recovered st) = st_LeaseID st"
  using assms by (auto simp: recovered_def Let_def)

lemma handle_events_run: "\<exists>evs n. runtimeHandleAuditEvents now ty hs w = (Inr evs, w\<lparr>w_Drawn := n\<rparr>) \<and> length evs = length hs"
proof (induction hs arbitrary: w)
  case Nil
  then show ?case by (intro exI[of _ "[]"] exI[of _ "w_Drawn w"]) (simp add: svc_apply)
next
  case (Cons h hs)
  from Cons[of "w\<lparr>w_Drawn := Suc (w_Drawn w)\<rparr>"] obtain evs n where
    "runtimeHandleAuditEvents now ty hs (w\<lparr>w_Drawn := Suc (w_Drawn w)\<rparr>) = (Inr evs, w\<lparr>w_Drawn := n\<rparr>)" "length evs = length hs" by auto
  then show ?case by (intro exI[of _ "_ # evs"] exI[of _ n]) (simp add: svc_apply)
qed

lemma normalize_handles_run:
  assumes "keyed rh_HandleID (rp_RuntimeHandles (w_Repos w))" and "sid \<noteq> []"
  obtains evs w' m where "normalize_handles sid True w = (Inr evs, w')" "w_Clock w' = w_Clock w"
    "w_Repos w' = (w_Repos w)\<lparr>rp_RuntimeHandles := m\<rparr>"
    "\<forall>k h. handle_Get k m = Inr h \<longrightarrow> rh_SessionID h = sid \<longrightarrow> \<not> isRuntimeHandleActive h"
proof -
  let ?t = "w_Clock w (w_Reads w)"
  define w0 where "w0 = w\<lparr>w_Reads := Suc (w_Reads w)\<rparr>"
  have w0: "w_Repos w0 = w_Repos w" "w_Clock w0 = w_Clock w" by (simp_all add: w0_def)
  from assms have wf: "keyed rh_HandleID (rp_RuntimeHandles (w_Repos w0))" by (simp add: w0)
  from reconcile_run[OF wf assms(2), of "''session recovered''" ?t, unfolded w0] obtain hs T w1 where
    run: "reconcileActiveRuntimeHandlesInStore sid ''session recovered'' ?t w0 = (Inr hs, w1)"
    and g: "\<forall>k. handle_Get k (rp_RuntimeHandles (w_Repos w1)) =
         (case handle_Get k (rp_RuntimeHandles (w_Repos w)) of Inl e \<Rightarrow> Inl e
          | Inr h \<Rightarrow> if rh_SessionID h = sid \<and> isRuntimeHandleActive h
                    then Inr (h\<lparr>rh_Status := RuntimeHandleInvalidated, rh_StatusReason := ''session recovered'', rh_InvalidatedAt := ?t,
                                rh_UpdatedAt := T k, rh_Version := rh_Version h + 1\<rparr>)
                    else Inr h)"
    and r: "w_Repos w1 = (w_Repos w)\<lparr>rp_RuntimeHandles := rp_RuntimeHandles (w_Repos w1)\<rparr>" "w_Clock w1 = w_Clock w"
    by blast
  from handle_events_run[of "w_Clock w1 (w_Reads w1)" "''runtime_handle.invalidated''" hs "w1\<lparr>w_Reads := Suc (w_Reads w1)\<rparr>"]
  obtain evs n where ev: "runtimeHandleAuditEvents (w_Clock w1 (w_Reads w1)) ''runtime_handle.invalidated'' hs (w1\<lparr>w_Reads := Suc (w_Reads w1)\<rparr>)
      = (Inr evs, w1\<lparr>w_Reads := Suc (w_Reads w1), w_Drawn := n\<rparr>)" by auto
  let ?w2 = "w1\<lparr>w_Reads := Suc (w_Reads w1), w_Drawn := n\<rparr>"
  have "normalize_handles sid True w = (Inr evs, ?w2)"
    using run ev by (simp add: normalize_handles_def svc_apply w0_def)
  moreover have "\<not> isRuntimeHandleActive h" if "handle_Get k (rp_RuntimeHandles (w_Repos w1)) = Inr h" "rh_SessionID h = sid" for k h
    using that g[rule_format, of k] by (auto simp: isRuntimeHandleActive_def split: sum.splits if_splits)
  ultimately show ?thesis using r by (intro that[of evs ?w2 "rp_RuntimeHandles (w_Repos w1)"]) auto
qed

text \<open>What the store keeps of a written session.\<close>

definition same_run_state :: "session \<Rightarrow> session \<Rightarrow> bool" where
  "same_run_state a b \<longleftrightarrow> st_SessionID a = st_SessionID b \<and> st_Phase a = st_Phase b \<and> st_ExecutionState a = st_ExecutionState b
     \<and> st_CurrentStepID a = st_CurrentStepID b \<and> st_InFlightStepID a = st_InFlightStepID b
     \<and> st_PendingApprovalID a = st_PendingApprovalID b \<and> st_LeaseID a = st_LeaseID b
     \<and> st_LeaseExpiresAt a = st_LeaseExpiresAt b \<and> st_Version a = st_Version b \<and> st_Metadata a = st_Metadata b
     \<and> st_TaskID a = st_TaskID b \<and> st_RetryCount a = st_RetryCount b"

lemma session_Update_stored:
  assumes "session_Update t s m = Inr m'"
  obtains c where "session_Get (st_SessionID s) m' = Inr c" "same_run_state c s"
    "\<forall>k. k \<noteq> st_SessionID s \<longrightarrow> session_Get k m' = session_Get k m"
  using assms by (auto simp: session_Update_def session_Get_def same_run_state_def Let_def split: option.splits if_splits)

definition recovered_write :: "session \<Rightarrow> session" where
  "recovered_write st = (if st_LeaseID st = [] then (recovered st)\<lparr>st_Version := st_Version st + 1\<rparr>
     else mergeSessionUpdate st (recovered st) (st_LeaseID st))"

lemma recovered_write_fields:
  assumes "st_ExecutionState st \<in> {ExecutionInFlight, ExecutionInterrupted}"
  shows "st_SessionID (recovered_write st) = st_SessionID st" "st_Version (recovered_write st) = st_Version st + 1"
    "st_ExecutionState (recovered_write st) = ExecutionIdle" "st_LeaseID (recovered_write st) = st_LeaseID st"
    "st_Phase (recovered_write st) = (if isTerminalPhase (st_Phase st) then st_Phase st else PhaseRecover)"
    "st_CurrentStepID (recovered_write st) = (if st_CurrentStepID st = [] then st_InFlightStepID st else st_CurrentStepID st)"
  using recovered_fields[OF assms] by (auto simp: recovered_write_def mergeSessionUpdate_def Let_def)

lemma persist_recovered:
  assumes "st_ExecutionState st \<in> {ExecutionInFlight, ExecutionInterrupted}" and "session_Get (st_SessionID st) m = Inr st"
  shows "if st_LeaseID st \<noteq> [] \<and> \<not> leaseActiveAt st t
    then persistSessionUpdateAt (\<lambda>_ m. m) (\<lambda>_ m. m) (\<lambda>_. t) t (recovered st) (st_LeaseID st) 0 m = (Inl ErrSessionLeaseNotHeld, m)
    else \<exists>m'. persistSessionUpdateAt (\<lambda>_ m. m) (\<lambda>_ m. m) (\<lambda>_. t) t (recovered st) (st_LeaseID st) 0 m = (Inr (recovered_write st), m')
           \<and> session_Update t (recovered_write st) m = Inr m'"
proof -
  have get: "session_Get (st_SessionID (recovered st)) m = Inr st" using assms recovered_fields(4)[OF assms(1)] by simp
  obtain m' where m': "session_Update t (recovered_write st) m = Inr m'"
    using sess.update_fresh[of "recovered_write st" m st t] assms(2) recovered_write_fields(1,2)[OF assms(1)] by auto
  have held: "leaseHeldAt st (st_LeaseID st) t \<longleftrightarrow> leaseActiveAt st t" if "st_LeaseID st \<noteq> []"
    using that by (auto simp: leaseHeldAt_def leaseActiveAt_def)
  show ?thesis
  proof (cases "st_LeaseID st = []")
    case True
    then show ?thesis
      using persist_unleased[OF get, of "\<lambda>_ m. m" "\<lambda>_ m. m" "\<lambda>_. t" t 0] recovered_fields(5)[OF assms(1)] m'
      by (simp add: recovered_write_def)
  next
    case False
    then show ?thesis
      using persist_leased[OF False get, of "\<lambda>_. t" t 0] held m' by (simp add: recovered_write_def)
  qed
qed

lemma readRepositories_plain: "plain sv \<Longrightarrow> readRepositories sv f w = (f (w_Repos w), w)"
  by (auto simp: readRepositories_def plain_def Within_def split: sum.splits)

lemma recovery_event_run: "\<exists>ev n. recovery_event a b mu w = (Inr ev, w\<lparr>w_Reads := Suc (w_Reads w), w_Drawn := n\<rparr>)"
  by (auto simp: recovery_event_def svc_apply newAuditEventAt_run)

lemma normalize_session_run:
  assumes "st_ExecutionState st \<in> {ExecutionInFlight, ExecutionInterrupted}"
    and "session_Get (st_SessionID st) (rp_Sessions (w_Repos w)) = Inr st"
  shows "if st_LeaseID st \<noteq> [] \<and> \<not> leaseActiveAt st (w_Clock w (w_Reads w))
    then \<exists>w'. normalize_session st evs w = (Inl ErrSessionLeaseNotHeld, w')
    else \<exists>m' evs' w'. normalize_session st evs w = (Inr (recovered_write st, evs'), w') \<and> evs' \<noteq> []
       \<and> session_Update (w_Clock w (w_Reads w)) (recovered_write st) (rp_Sessions (w_Repos w)) = Inr m'
       \<and> w_Repos w' = (w_Repos w)\<lparr>rp_Sessions := m'\<rparr>"
proof -
  let ?t = "w_Clock w (w_Reads w)" and ?m = "rp_Sessions (w_Repos w)"
  have chg: "st_ExecutionState (recovered st) \<noteq> st_ExecutionState st" using recovered_fields(1)[OF assms(1)] assms(1) by auto
  show ?thesis
  proof (cases "st_LeaseID st \<noteq> [] \<and> \<not> leaseActiveAt st ?t")
    case True
    with persist_recovered[OF assms, of ?t] have "do_persistSessionUpdateAt (recovered st) (st_LeaseID st) 0 w =
        (Inl ErrSessionLeaseNotHeld, w\<lparr>w_Reads := Suc (w_Reads w), w_Repos := (w_Repos w)\<lparr>rp_Sessions := ?m\<rparr>\<rparr>)"
      by (intro do_persist_run) simp
    with True chg show ?thesis by (simp add: normalize_session_def svc_apply Let_def)
  next
    case False
    with persist_recovered[OF assms, of ?t] obtain m' where
      p: "persistSessionUpdateAt (\<lambda>_ m. m) (\<lambda>_ m. m) (\<lambda>_. ?t) ?t (recovered st) (st_LeaseID st) 0 ?m = (Inr (recovered_write st), m')"
      and u: "session_Update ?t (recovered_write st) ?m = Inr m'" by auto
    let ?w1 = "w\<lparr>w_Reads := Suc (w_Reads w), w_Repos := (w_Repos w)\<lparr>rp_Sessions := m'\<rparr>\<rparr>"
    have 1: "do_persistSessionUpdateAt (recovered st) (st_LeaseID st) 0 w = (Inr (recovered_write st), ?w1)"
      by (rule do_persist_run[OF p])
    obtain ev n where 2: "recovery_event st (recovered_write st) ''recovered'' ?w1 = (Inr ev, ?w1\<lparr>w_Reads := Suc (w_Reads ?w1), w_Drawn := n\<rparr>)"
      using recovery_event_run by blast
    from False have nf: "(st_LeaseID st \<noteq> [] \<and> \<not> leaseActiveAt st ?t) = False" by simp
    have "normalize_session st evs w = (Inr (recovered_write st, evs @ [ev]), ?w1\<lparr>w_Reads := Suc (w_Reads ?w1), w_Drawn := n\<rparr>)"
      using chg 1 2 by (simp add: normalize_session_def svc_apply Let_def)
    then show ?thesis unfolding nf if_False
      by (intro exI conjI) (assumption, simp, rule u, simp)
  qed
qed

section \<open>Properties\<close>


definition ex_flight_world :: world where
  "ex_flight_world = snd (MarkSessionInFlight ex_service ''s1'' ''step1'' (snd (upsertRuntimeHandle (ex_handle ''h1'') ex_world)))"


definition ex_leased_world :: "int \<Rightarrow> world" where
  "ex_leased_world t = (let w1 = snd (ClaimRunnableSession ex_service 5000000 ex_world);
       w2 = snd (MarkClaimedSessionInFlight ex_service ''s1'' ''lse_'' ''step1'' w1)
     in w2\<lparr>w_Clock := (\<lambda>i. t)\<rparr>)"

text \<open>
  A session whose worker died is out of reach of \<^verbatim>\<open>RecoverSession\<close> until somebody claims it.
  When the lease of an in-flight session has expired, the lease check of \<^verbatim>\<open>recoverSession\<close> without a
  lease passes, as no lease is in force, but the write that brings the session back is then made in
  the name of the expired lease and refused. The same call without a caller's lease goes through
  while another worker's lease is in force, because the write takes whatever lease is stored.
\<close>

theorem recovery_lease_mismatch:
  "(case ensureSessionLease ex_service ''s1'' [] (ex_leased_world 200) of
      (Inr _, w1) \<Rightarrow> fst (normalizeSessionForRecovery ex_service ''s1'' w1) = Inl ErrSessionLeaseNotHeld
    | _ \<Rightarrow> False)
   \<and> fst (ensureSessionLease ex_service ''s1'' ''other'' (ex_leased_world 102)) = Inl ErrSessionLeaseNotHeld
   \<and> (case normalizeSessionForRecovery ex_service ''s1'' (ex_leased_world 102) of
        (Inr st, _) \<Rightarrow> st_LeaseID st = ''lse_'' \<and> st_ExecutionState st = ExecutionIdle | _ \<Rightarrow> False)"
  by code_simp

end
