(* ===== verification/Blocked_Runtime.thy ===== *)
theory Blocked_Runtime
  imports Recovery
begin

text \<open>
  Blocked runtimes: \<^verbatim>\<open>pkg/harness/runtime\<close> blocked_runtime_lifecycle.go and blocked_runtime_state.go,
  with the rollback of a session of rollback.go. A session is blocked on a record until somebody
  resumes or aborts it; the session's metadata carries the id of the record. The properties show
  that session and record stay consistent and that blocking and resuming are inverse.
\<close>

section \<open>State of the session\<close>

definition sessionBlockedRuntimeIDKey :: string where
  "sessionBlockedRuntimeIDKey = ''_kernel_blocked_runtime_id''"

definition currentBlockedRuntimeID :: "session \<Rightarrow> string" where
  "currentBlockedRuntimeID st = as_string (gm_get (st_Metadata st) sessionBlockedRuntimeIDKey)"

definition hasCurrentBlockedRuntime :: "session \<Rightarrow> bool" where
  "hasCurrentBlockedRuntime st \<longleftrightarrow> currentBlockedRuntimeID st \<noteq> []"

definition setCurrentBlockedRuntime :: "session \<Rightarrow> string \<Rightarrow> session" where
  "setCurrentBlockedRuntime st bid =
     (if bid = [] then st\<lparr>st_Metadata := gm_del sessionBlockedRuntimeIDKey (st_Metadata st)\<rparr>
      else st\<lparr>st_Metadata := gm_put sessionBlockedRuntimeIDKey (VStr bid) (st_Metadata st)\<rparr>)"

section \<open>Requests\<close>

record blocked_request =
  bq_Kind :: BlockedRuntimeKind
  bq_Subject :: blocked_subject
  bq_Condition :: blocked_condition
  bq_Metadata :: meta

record blocked_response =
  bp_Status :: BlockedRuntimeStatus
  bp_Metadata :: meta

record blocked_abort_request =
  ba_Reason :: string
  ba_Metadata :: meta

fun blocked_kind_text :: "BlockedRuntimeKind \<Rightarrow> string" where
  "blocked_kind_text BlockedRuntimeApproval = ''approval''"
| "blocked_kind_text BlockedRuntimeConfirmation = ''confirmation''"
| "blocked_kind_text BlockedRuntimeExternal = ''external''"
| "blocked_kind_text BlockedRuntimeInteractive = ''interactive''"
| "blocked_kind_text (BlockedKindOther s) = s"

fun blocked_status_text :: "BlockedRuntimeStatus \<Rightarrow> string" where
  "blocked_status_text BlockedRuntimePending = ''pending''"
| "blocked_status_text BlockedRuntimeApproved = ''approved''"
| "blocked_status_text BlockedRuntimeRejected = ''rejected''"
| "blocked_status_text BlockedRuntimeConfirmed = ''confirmed''"
| "blocked_status_text BlockedRuntimeResumed = ''resumed''"
| "blocked_status_text BlockedRuntimeAborted = ''aborted''"
| "blocked_status_text (BlockedStatusOther s) = s"

fun condition_kind_text :: "BlockedRuntimeConditionKind \<Rightarrow> string" where
  "condition_kind_text BlockedRuntimeConditionApproval = ''approval''"
| "condition_kind_text BlockedRuntimeConditionConfirmation = ''confirmation''"
| "condition_kind_text BlockedRuntimeConditionExternal = ''external''"
| "condition_kind_text BlockedRuntimeConditionInteractive = ''interactive''"
| "condition_kind_text (ConditionOther s) = s"

definition blockedRuntimeKindMatchesCondition :: "BlockedRuntimeKind \<Rightarrow> BlockedRuntimeConditionKind \<Rightarrow> bool" where
  "blockedRuntimeKindMatchesCondition kind condition =
     (case kind of
        BlockedRuntimeConfirmation \<Rightarrow> condition = BlockedRuntimeConditionConfirmation
      | BlockedRuntimeExternal \<Rightarrow> condition = BlockedRuntimeConditionExternal
      | BlockedRuntimeInteractive \<Rightarrow> condition = BlockedRuntimeConditionInteractive
      | _ \<Rightarrow> False)"

definition validateBlockedRuntimeRequest :: "blocked_request \<Rightarrow> goerr + unit" where
  "validateBlockedRuntimeRequest req =
     (if bq_Kind req \<notin> {BlockedRuntimeConfirmation, BlockedRuntimeExternal, BlockedRuntimeInteractive}
        then Inl ErrInvalidBlockedRuntimeRequest
      else if bc_Kind (bq_Condition req) = ConditionOther [] \<or> bc_Kind (bq_Condition req) = BlockedRuntimeConditionApproval
        then Inl ErrInvalidBlockedRuntimeRequest
      else if \<not> blockedRuntimeKindMatchesCondition (bq_Kind req) (bc_Kind (bq_Condition req))
        then Inl ErrInvalidBlockedRuntimeRequest
      else Inr ())"

definition validateBlockedRuntimeResponse :: "blocked_response \<Rightarrow> goerr + unit" where
  "validateBlockedRuntimeResponse resp =
     (if bp_Status resp \<in> {BlockedRuntimeApproved, BlockedRuntimeRejected, BlockedRuntimeConfirmed} then Inr ()
      else Inl ErrInvalidBlockedRuntimeResponse)"

definition validateBlockedRuntimeSessionState :: "session \<Rightarrow> goerr + unit" where
  "validateBlockedRuntimeSessionState st =
     (if isTerminalPhase (st_Phase st) then Inl ErrSessionTerminal
      else if st_PendingApprovalID st \<noteq> [] then Inl ErrSessionAwaitingApproval
      else if hasCurrentBlockedRuntime st \<or> st_ExecutionState st = ExecutionBlocked then Inl ErrBlockedRuntimeAlreadyActive
      else Inr ())"

definition requireCurrentBlockedRuntime :: "session \<Rightarrow> blocked_record \<Rightarrow> goerr + unit" where
  "requireCurrentBlockedRuntime st rec =
     (if currentBlockedRuntimeID st \<noteq> br_BlockedRuntimeID rec \<or> st_ExecutionState st \<noteq> ExecutionBlocked
      then Inl ErrBlockedRuntimeNotActive else Inr ())"

definition normalizeBlockedRuntimeCondition :: "blocked_condition \<Rightarrow> blocked_condition" where
  "normalizeBlockedRuntimeCondition c =
     (if bc_WaitingFor c = [] then c\<lparr>bc_WaitingFor := condition_kind_text (bc_Kind c)\<rparr> else c)"

definition mergeBlockedRuntimeResponseMetadata :: "meta \<Rightarrow> blocked_response \<Rightarrow> meta" where
  "mergeBlockedRuntimeResponseMetadata existing resp =
     (if bp_Metadata resp = [] then existing else gm_put ''response'' (VMap (bp_Metadata resp)) existing)"

definition mergeBlockedRuntimeTerminalMetadata :: "meta \<Rightarrow> string \<Rightarrow> meta \<Rightarrow> BlockedRuntimeStatus \<Rightarrow> meta" where
  "mergeBlockedRuntimeTerminalMetadata existing reason md status =
     (let merged = (if status \<noteq> BlockedStatusOther [] then gm_put ''terminal_status'' (VStr (blocked_status_text status)) existing else existing);
          merged = (if reason \<noteq> [] then gm_put ''terminal_reason'' (VStr reason) merged else merged)
      in if md \<noteq> [] then gm_put ''terminal_metadata'' (VMap md) merged else merged)"

definition blockedRuntimeAuditEvent :: "int \<Rightarrow> string \<Rightarrow> blocked_record \<Rightarrow> string \<Rightarrow> meta \<Rightarrow> audit_event svc" where
  "blockedRuntimeAuditEvent now eventType rec tid payload = sbind newUUID (\<lambda>uuid.
     sret \<lparr>au_EventID = ''evt_'' @ uuid, au_Sequence = 0, au_Type = eventType, au_SessionID = br_SessionID rec,
       au_TaskID = tid, au_PlanningID = [], au_ApprovalID = [], au_StepID = bs_StepID (br_Subject rec),
       au_AttemptID = bs_AttemptID (br_Subject rec), au_ActionID = bs_ActionID (br_Subject rec), au_VerificationID = [],
       au_CycleID = bs_CycleID (br_Subject rec), au_TraceID = br_BlockedRuntimeID rec, au_CausationID = br_BlockedRuntimeID rec,
       au_Payload = mergeMaps [(''blocked_runtime_id'', VStr (br_BlockedRuntimeID rec)), (''kind'', VStr (blocked_kind_text (br_Kind rec))),
         (''status'', VStr (blocked_status_text (br_Status rec))), (''waiting_for'', VStr (bc_WaitingFor (br_Condition rec)))] payload,
       au_CreatedAt = now\<rparr>)"

section \<open>Operations\<close>

definition do_blocked_Get :: "string \<Rightarrow> blocked_record svc" where
  "do_blocked_Get bid = (\<lambda>w. (blocked_Get bid (rp_BlockedRuntimes (w_Repos w)), w))"

definition do_blocked_Create :: "blocked_record \<Rightarrow> blocked_record svc" where
  "do_blocked_Create spec = sbind nowMilli (\<lambda>t. sbind newUUID (\<lambda>uuid. sexec (\<lambda>r.
     case blocked_Create uuid t spec (rp_BlockedRuntimes r) of (rec, m) \<Rightarrow> Inr (rec, r\<lparr>rp_BlockedRuntimes := m\<rparr>))))"

definition do_blocked_Update :: "blocked_record \<Rightarrow> unit svc" where
  "do_blocked_Update rec = sbind nowMilli (\<lambda>t. sexec (\<lambda>r.
     case blocked_Update t rec (rp_BlockedRuntimes r) of Inl e \<Rightarrow> Inl e | Inr m \<Rightarrow> Inr ((), r\<lparr>rp_BlockedRuntimes := m\<rparr>)))"

text \<open>\<^verbatim>\<open>blockedRuntimeRecordOrErr\<close>: a missing record has its own error.\<close>

definition blockedRuntimeRecordOrErr :: "string \<Rightarrow> blocked_record svc" where
  "blockedRuntimeRecordOrErr bid = (\<lambda>w. case do_blocked_Get bid w of
     (Inl e, w') \<Rightarrow> (Inl (if errors_is e ErrRecordNotFound then ErrBlockedRuntimeNotFound else e), w')
   | (Inr rec, w') \<Rightarrow> (Inr rec, w'))"

definition rollbackSessionState :: "session \<Rightarrow> session \<Rightarrow> string \<Rightarrow> unit svc" where
  "rollbackSessionState before persisted leaseID =
     (if st_SessionID before = [] \<or> st_SessionID persisted = [] then sret ()
      else sbind (do_persistSessionUpdateAt (before\<lparr>st_Version := st_Version persisted\<rparr>) leaseID 0) (\<lambda>_. sret ()))"

text \<open>An operation, and if it fails a compensation whose own error is joined to the cause.\<close>

definition or_rollback :: "'a svc \<Rightarrow> unit svc \<Rightarrow> 'a svc" where
  "or_rollback m undo = (\<lambda>w. case m w of
     (Inr x, w') \<Rightarrow> (Inr x, w')
   | (Inl err, w') \<Rightarrow>
       (case undo w' of
          (Inr _, w2) \<Rightarrow> (Inl err, w2)
        | (Inl rollbackErr, w2) \<Rightarrow> (Inl (ErrJoin err rollbackErr), w2)))"

definition blocked_create :: "string \<Rightarrow> blocked_record \<Rightarrow> (blocked_record \<times> session) svc" where
  "blocked_create sid prepared =
     sbind (do_session_Get sid) (\<lambda>st. sbind (slift (validateBlockedRuntimeSessionState st)) (\<lambda>_.
       let prepared = (if st_TaskID st \<noteq> [] then prepared\<lparr>br_TaskID := st_TaskID st\<rparr> else prepared);
           nxt = (setCurrentBlockedRuntime st (br_BlockedRuntimeID prepared))\<lparr>st_ExecutionState := ExecutionBlocked\<rparr>
       in sbind (do_persistSessionUpdateAt nxt [] 0) (\<lambda>updated.
            sbind (or_rollback (do_blocked_Create prepared) (rollbackSessionState st updated [])) (\<lambda>created.
              sret (created, updated)))))"

definition CreateBlockedRuntime :: "service \<Rightarrow> string \<Rightarrow> blocked_request \<Rightarrow> (blocked_record \<times> session) svc" where
  "CreateBlockedRuntime sv sid req =
     sbind (slift (validateBlockedRuntimeRequest req)) (\<lambda>_. sbind nowMilli (\<lambda>now. sbind newUUID (\<lambda>uuid.
       let prepared = \<lparr>br_BlockedRuntimeID = ''blocked_'' @ uuid, br_Kind = bq_Kind req, br_Status = BlockedRuntimePending,
             br_SessionID = sid, br_TaskID = [], br_Subject = bq_Subject req,
             br_Condition = normalizeBlockedRuntimeCondition (bq_Condition req), br_Metadata = bq_Metadata req,
             br_RequestedAt = now, br_UpdatedAt = now, br_ResolvedAt = 0\<rparr>
       in with_runner sv (\<lambda>_ emit. sbind (blocked_create sid prepared) (\<lambda>(created, updated).
            sbind (blockedRuntimeAuditEvent now ''blocked_runtime.created'' created (st_TaskID updated) []) (\<lambda>ev.
              sbind (emit [ev]) (\<lambda>_. sret (created, updated))))))))"

definition blocked_respond :: "string \<Rightarrow> blocked_response \<Rightarrow> int \<Rightarrow> (blocked_record \<times> session) svc" where
  "blocked_respond bid resp now =
     sbind (do_blocked_Get bid) (\<lambda>rec. sbind (do_session_Get (br_SessionID rec)) (\<lambda>state.
       sbind (slift (requireCurrentBlockedRuntime state rec)) (\<lambda>_.
         if br_Status rec \<noteq> BlockedRuntimePending then sfail ErrBlockedRuntimeNotPending
         else let rec = rec\<lparr>br_Status := bp_Status resp, br_UpdatedAt := now, br_ResolvedAt := now,
                    br_Metadata := mergeBlockedRuntimeResponseMetadata (br_Metadata rec) resp\<rparr>
              in sbind (do_blocked_Update rec) (\<lambda>_. sret (rec, state)))))"

definition RespondBlockedRuntime :: "service \<Rightarrow> string \<Rightarrow> blocked_response \<Rightarrow> (blocked_record \<times> session) svc" where
  "RespondBlockedRuntime sv bid resp =
     sbind (slift (validateBlockedRuntimeResponse resp)) (\<lambda>_. sbind nowMilli (\<lambda>now.
       with_runner sv (\<lambda>_ emit. sbind (blocked_respond bid resp now) (\<lambda>(updated, state).
         sbind (blockedRuntimeAuditEvent now ''blocked_runtime.responded'' updated (st_TaskID state)
             [(''response_status'', VStr (blocked_status_text (bp_Status resp)))]) (\<lambda>ev.
           sbind (emit [ev]) (\<lambda>_. sret (updated, state)))))))"

definition blocked_resolve :: "string \<Rightarrow> BlockedRuntimeStatus \<Rightarrow> string \<Rightarrow> meta \<Rightarrow> int \<Rightarrow> (blocked_record \<times> session) svc" where
  "blocked_resolve bid nextStatus reason md now =
     sbind (do_blocked_Get bid) (\<lambda>rec. sbind (do_session_Get (br_SessionID rec)) (\<lambda>st.
       sbind (slift (requireCurrentBlockedRuntime st rec)) (\<lambda>_.
         if br_Status rec = BlockedRuntimeResumed \<or> br_Status rec = BlockedRuntimeAborted then sfail ErrBlockedRuntimeNotActive
         else sbind (do_persistSessionUpdateAt ((setCurrentBlockedRuntime st [])\<lparr>st_ExecutionState := ExecutionIdle\<rparr>) [] 0) (\<lambda>updatedState.
           let rec = rec\<lparr>br_Status := nextStatus, br_UpdatedAt := now, br_ResolvedAt := now,
                 br_Metadata := mergeBlockedRuntimeTerminalMetadata (br_Metadata rec) reason md nextStatus\<rparr>
           in sbind (or_rollback (do_blocked_Update rec) (rollbackSessionState st updatedState [])) (\<lambda>_.
                sret (rec, updatedState))))))"

definition resolveBlockedRuntimeState :: "service \<Rightarrow> string \<Rightarrow> BlockedRuntimeStatus \<Rightarrow> string \<Rightarrow> meta \<Rightarrow> string
    \<Rightarrow> (blocked_record \<times> session) svc" where
  "resolveBlockedRuntimeState sv bid nextStatus reason md eventType =
     sbind nowMilli (\<lambda>now. with_runner sv (\<lambda>_ emit. sbind (blocked_resolve bid nextStatus reason md now) (\<lambda>(rec, st).
       sbind (blockedRuntimeAuditEvent now eventType rec (st_TaskID st)
           ((''status'', VStr (blocked_status_text nextStatus)) # (if reason \<noteq> [] then [(''reason'', VStr reason)] else []))) (\<lambda>ev.
         sbind (emit [ev]) (\<lambda>_. sret (rec, st))))))"

definition ResumeBlockedRuntime :: "service \<Rightarrow> string \<Rightarrow> (blocked_record \<times> session) svc" where
  "ResumeBlockedRuntime sv bid = resolveBlockedRuntimeState sv bid BlockedRuntimeResumed [] [] ''blocked_runtime.resumed''"

definition AbortBlockedRuntime :: "service \<Rightarrow> string \<Rightarrow> blocked_abort_request \<Rightarrow> (blocked_record \<times> session) svc" where
  "AbortBlockedRuntime sv bid req =
     resolveBlockedRuntimeState sv bid BlockedRuntimeAborted (ba_Reason req) (ba_Metadata req) ''blocked_runtime.aborted''"

section \<open>Lemmas\<close>

lemma current_set [simp]:
  "currentBlockedRuntimeID (setCurrentBlockedRuntime st bid) = bid"
  "st_SessionID (setCurrentBlockedRuntime st bid) = st_SessionID st"
  "st_Version (setCurrentBlockedRuntime st bid) = st_Version st"
  by (auto simp: currentBlockedRuntimeID_def setCurrentBlockedRuntime_def delete_conv')

lemma current_other_fields [simp]:
  "currentBlockedRuntimeID (st\<lparr>st_ExecutionState := x\<rparr>) = currentBlockedRuntimeID st"
  "currentBlockedRuntimeID (st\<lparr>st_Version := v\<rparr>) = currentBlockedRuntimeID st"
  by (simp_all add: currentBlockedRuntimeID_def)

text \<open>A record a session can be blocked on.\<close>

definition live :: "blocked_record gomap \<Rightarrow> string \<Rightarrow> string \<Rightarrow> bool" where
  "live B sid bid \<longleftrightarrow> (\<exists>rec. blocked_Get bid B = Inr rec \<and> br_SessionID rec = sid
     \<and> br_Status rec \<notin> {BlockedRuntimeResumed, BlockedRuntimeAborted})"

text \<open>Sessions and records agree.\<close>

definition blocked_ok :: "repos \<Rightarrow> bool" where
  "blocked_ok r \<longleftrightarrow> session_wf (rp_Sessions r) \<and> keyed br_BlockedRuntimeID (rp_BlockedRuntimes r)
     \<and> (\<forall>sid st. session_Get sid (rp_Sessions r) = Inr st \<longrightarrow>
          (st_ExecutionState st = ExecutionBlocked \<longleftrightarrow> hasCurrentBlockedRuntime st)
          \<and> (hasCurrentBlockedRuntime st \<longrightarrow> live (rp_BlockedRuntimes r) sid (currentBlockedRuntimeID st)))"

lemma audit_blind_blocked_ok: "audit_blind blocked_ok"
  by (simp add: audit_blind_def blocked_ok_def)

lemma blocked_ok_emit [simp]: "blocked_ok (emit_all evs r) = blocked_ok r"
  by (simp add: blocked_ok_def)

lemma blocked_ok_write:
  assumes "blocked_ok r" and u: "session_Update t s (rp_Sessions r) = Inr S" and "keyed br_BlockedRuntimeID B"
    and live: "\<And>k bid. k \<noteq> st_SessionID s \<Longrightarrow> live (rp_BlockedRuntimes r) k bid \<Longrightarrow> live B k bid"
    and s: "st_ExecutionState s = ExecutionBlocked \<longleftrightarrow> currentBlockedRuntimeID s \<noteq> []"
      "currentBlockedRuntimeID s \<noteq> [] \<Longrightarrow> live B (st_SessionID s) (currentBlockedRuntimeID s)"
  shows "blocked_ok (r\<lparr>rp_Sessions := S, rp_BlockedRuntimes := B\<rparr>)"
proof -
  from u obtain c where c: "session_Get (st_SessionID s) S = Inr c" "same_run_state c s"
    "\<forall>k. k \<noteq> st_SessionID s \<longrightarrow> session_Get k S = session_Get k (rp_Sessions r)" by (rule session_Update_stored)
  have "currentBlockedRuntimeID c = currentBlockedRuntimeID s" "st_ExecutionState c = st_ExecutionState s"
    using c(2) by (simp_all add: currentBlockedRuntimeID_def same_run_state_def)
  moreover have "session_wf S" using sess.update_invar[OF _ u] assms(1) by (simp add: blocked_ok_def)
  ultimately show ?thesis
    using assms(1,3) c(1,3) s live unfolding blocked_ok_def hasCurrentBlockedRuntime_def
    by (simp, metis sum.inject(2))
qed

lemma blocked_ok_record:
  assumes "blocked_ok r" and "blocked_Get (br_BlockedRuntimeID rec) (rp_BlockedRuntimes r) = Inr old"
    and "br_SessionID rec = br_SessionID old" and "br_Status rec \<notin> {BlockedRuntimeResumed, BlockedRuntimeAborted}"
  shows "blocked_ok (r\<lparr>rp_BlockedRuntimes := gm_put (br_BlockedRuntimeID rec) rec (rp_BlockedRuntimes r)\<rparr>)"
proof -
  have "live (gm_put (br_BlockedRuntimeID rec) rec (rp_BlockedRuntimes r)) k bid" if "live (rp_BlockedRuntimes r) k bid" for k bid
    using that assms(2-4) by (auto simp: live_def blocked_Get_def mem_get_def split: option.splits)
  then show ?thesis using assms(1) by (auto simp: blocked_ok_def)
qed

lemma keepsI: "(\<And>w. P (w_Repos w) \<Longrightarrow> P (w_Repos (snd (m w)))) \<Longrightarrow> keeps P m"
  by (fastforce simp: triple_def split: prod.splits sum.splits)

lemma write_unleased_run:
  assumes "session_Get (st_SessionID d) (rp_Sessions (w_Repos w)) = Inr c" and "st_Version d = st_Version c"
  obtains t S where "session_Update t (d\<lparr>st_Version := st_Version c + 1\<rparr>) (rp_Sessions (w_Repos w)) = Inr S"
    "do_persistSessionUpdateAt d [] 0 w = (Inr (d\<lparr>st_Version := st_Version c + 1\<rparr>),
       w\<lparr>w_Reads := Suc (w_Reads w), w_Repos := (w_Repos w)\<lparr>rp_Sessions := S\<rparr>\<rparr>)"
proof -
  let ?t = "w_Clock w (w_Reads w)" and ?d = "d\<lparr>st_Version := st_Version c + 1\<rparr>"
  obtain S where S: "session_Update ?t ?d (rp_Sessions (w_Repos w)) = Inr S"
    using sess.update_fresh[of ?d "rp_Sessions (w_Repos w)" c ?t] assms by auto
  have "persistSessionUpdateAt (\<lambda>_ m. m) (\<lambda>_ m. m) (\<lambda>_. ?t) ?t d [] 0 (rp_Sessions (w_Repos w)) = (Inr ?d, S)"
    using persist_unleased[OF assms, of "\<lambda>_ m. m" "\<lambda>_ m. m" "\<lambda>_. ?t" ?t 0] S by simp
  from that[OF S do_persist_run[OF this]] show thesis .
qed

lemma session_Get_id: "session_wf S \<Longrightarrow> session_Get sid S = Inr st \<Longrightarrow> st_SessionID st = sid"
  using keyed_get by (fastforce simp: session_Get_def split: option.splits)

lemma requireCurrent_Inr:
  "requireCurrentBlockedRuntime st rec = Inr u \<longleftrightarrow> currentBlockedRuntimeID st = br_BlockedRuntimeID rec \<and> st_ExecutionState st = ExecutionBlocked"
  by (simp add: requireCurrentBlockedRuntime_def)

text \<open>Responding changes the record alone.\<close>

lemma keeps_blocked_respond:
  assumes "bp_Status resp \<in> {BlockedRuntimeApproved, BlockedRuntimeRejected, BlockedRuntimeConfirmed}"
  shows "keeps blocked_ok (blocked_respond bid resp now)"
proof (rule keepsI)
  fix w :: world assume ok: "blocked_ok (w_Repos w)"
  let ?B = "rp_BlockedRuntimes (w_Repos w)" and ?S = "rp_Sessions (w_Repos w)"
  show "blocked_ok (w_Repos (snd (blocked_respond bid resp now w)))"
  proof (cases "\<exists>rec st. blocked_Get bid ?B = Inr rec \<and> session_Get (br_SessionID rec) ?S = Inr st
      \<and> requireCurrentBlockedRuntime st rec = Inr () \<and> br_Status rec = BlockedRuntimePending")
    case True
    then obtain rec st where g: "blocked_Get bid ?B = Inr rec" "session_Get (br_SessionID rec) ?S = Inr st"
      "requireCurrentBlockedRuntime st rec = Inr ()" "br_Status rec = BlockedRuntimePending" by blast
    let ?t = "w_Clock w (w_Reads w)"
    define rec' where "rec' = rec\<lparr>br_Status := bp_Status resp, br_UpdatedAt := now, br_ResolvedAt := now,
        br_Metadata := mergeBlockedRuntimeResponseMetadata (br_Metadata rec) resp\<rparr>"
    define rec2 where "rec2 = rec'\<lparr>br_UpdatedAt := or_int (br_UpdatedAt rec') ?t\<rparr>"
    have id: "br_BlockedRuntimeID rec = bid" using g(1) ok blockeds.get_key unfolding blocked_ok_def by blast
    then have upd: "blocked_Update ?t rec' ?B = Inr (gm_put bid rec2 ?B)"
      using g(1) by (auto simp: rec'_def rec2_def blocked_Update_def blocked_Get_def mem_get_def Let_def split: option.splits)
    have "w_Repos (snd (blocked_respond bid resp now w)) = (w_Repos w)\<lparr>rp_BlockedRuntimes := gm_put bid rec2 ?B\<rparr>"
      using g upd by (simp add: blocked_respond_def svc_apply do_blocked_Get_def do_session_Get_def do_blocked_Update_def Let_def flip: rec'_def)
    moreover have "br_BlockedRuntimeID rec2 = bid" "br_SessionID rec2 = br_SessionID rec" "br_Status rec2 = bp_Status resp"
      using id by (simp_all add: rec2_def rec'_def)
    moreover have "br_Status rec2 \<notin> {BlockedRuntimeResumed, BlockedRuntimeAborted}" using assms by (auto simp: rec2_def rec'_def)
    ultimately show ?thesis using blocked_ok_record[OF ok, of rec2 rec] g(1) by simp
  next
    case False
    then have "w_Repos (snd (blocked_respond bid resp now w)) = w_Repos w"
      by (auto simp: blocked_respond_def svc_apply do_blocked_Get_def do_session_Get_def split: sum.splits)
    then show ?thesis using ok by simp
  qed
qed

text \<open>Resuming and aborting release the session and end the record.\<close>

lemma blocked_resolve_run:
  assumes ok: "blocked_ok (w_Repos w)" and "blocked_Get bid (rp_BlockedRuntimes (w_Repos w)) = Inr rec"
    and "session_Get (br_SessionID rec) (rp_Sessions (w_Repos w)) = Inr st" and "requireCurrentBlockedRuntime st rec = Inr ()"
    and "br_Status rec \<noteq> BlockedRuntimeResumed \<and> br_Status rec \<noteq> BlockedRuntimeAborted"
  obtains t S recA recB n where "blocked_resolve bid status reason md now w =
      (Inr (recA, (setCurrentBlockedRuntime st [])\<lparr>st_ExecutionState := ExecutionIdle, st_Version := st_Version st + 1\<rparr>),
       w\<lparr>w_Reads := n, w_Repos := (w_Repos w)\<lparr>rp_Sessions := S, rp_BlockedRuntimes := gm_put bid recB (rp_BlockedRuntimes (w_Repos w))\<rparr>\<rparr>)"
    "session_Update t ((setCurrentBlockedRuntime st [])\<lparr>st_ExecutionState := ExecutionIdle, st_Version := st_Version st + 1\<rparr>)
       (rp_Sessions (w_Repos w)) = Inr S"
    "br_BlockedRuntimeID recB = bid" "br_Status recA = status" "br_Status recB = status" "br_SessionID recB = br_SessionID rec"
proof -
  let ?B = "rp_BlockedRuntimes (w_Repos w)"
  define nxt where "nxt = (setCurrentBlockedRuntime st [])\<lparr>st_ExecutionState := ExecutionIdle\<rparr>"
  have ids: "st_SessionID st = br_SessionID rec" "br_BlockedRuntimeID rec = bid"
    using ok assms(2,3) session_Get_id blockeds.get_key unfolding blocked_ok_def by blast+
  have "session_Get (st_SessionID nxt) (rp_Sessions (w_Repos w)) = Inr st" "st_Version nxt = st_Version st"
    using assms(3) ids by (simp_all add: nxt_def)
  from write_unleased_run[OF this] obtain t S where S: "session_Update t (nxt\<lparr>st_Version := st_Version st + 1\<rparr>) (rp_Sessions (w_Repos w)) = Inr S"
    and run: "do_persistSessionUpdateAt nxt [] 0 w = (Inr (nxt\<lparr>st_Version := st_Version st + 1\<rparr>),
       w\<lparr>w_Reads := Suc (w_Reads w), w_Repos := (w_Repos w)\<lparr>rp_Sessions := S\<rparr>\<rparr>)" .
  define rec' where "rec' = rec\<lparr>br_Status := status, br_UpdatedAt := now, br_ResolvedAt := now,
      br_Metadata := mergeBlockedRuntimeTerminalMetadata (br_Metadata rec) reason md status\<rparr>"
  define rec2 where "rec2 = rec'\<lparr>br_UpdatedAt := or_int (br_UpdatedAt rec') (w_Clock w (Suc (w_Reads w)))\<rparr>"
  have upd: "blocked_Update (w_Clock w (Suc (w_Reads w))) rec' ?B = Inr (gm_put bid rec2 ?B)"
    using assms(2) ids by (auto simp: rec'_def rec2_def blocked_Update_def blocked_Get_def mem_get_def Let_def split: option.splits)
  have "blocked_resolve bid status reason md now w = (Inr (rec', nxt\<lparr>st_Version := st_Version st + 1\<rparr>),
      w\<lparr>w_Reads := Suc (Suc (w_Reads w)), w_Repos := (w_Repos w)\<lparr>rp_Sessions := S, rp_BlockedRuntimes := gm_put bid rec2 ?B\<rparr>\<rparr>)"
    using assms run upd by (simp add: blocked_resolve_def svc_apply do_blocked_Get_def do_session_Get_def do_blocked_Update_def
        or_rollback_def Let_def flip: rec'_def nxt_def)
  then show thesis
    by (intro that[where recA = rec' and recB = rec2 and S = S and t = t and n = "Suc (Suc (w_Reads w))"])
      (use S ids in \<open>simp_all add: nxt_def rec'_def rec2_def\<close>)
qed

lemma keeps_blocked_resolve:
  assumes "status \<in> {BlockedRuntimeResumed, BlockedRuntimeAborted}"
  shows "keeps blocked_ok (blocked_resolve bid status reason md now)"
proof (rule keepsI)
  fix w :: world assume ok: "blocked_ok (w_Repos w)"
  let ?B = "rp_BlockedRuntimes (w_Repos w)" and ?S = "rp_Sessions (w_Repos w)"
  show "blocked_ok (w_Repos (snd (blocked_resolve bid status reason md now w)))"
  proof (cases "\<exists>rec st. blocked_Get bid ?B = Inr rec \<and> session_Get (br_SessionID rec) ?S = Inr st
      \<and> requireCurrentBlockedRuntime st rec = Inr () \<and> br_Status rec \<noteq> BlockedRuntimeResumed \<and> br_Status rec \<noteq> BlockedRuntimeAborted")
    case True
    then obtain rec st where g: "blocked_Get bid ?B = Inr rec" "session_Get (br_SessionID rec) ?S = Inr st"
      "requireCurrentBlockedRuntime st rec = Inr ()" "br_Status rec \<noteq> BlockedRuntimeResumed \<and> br_Status rec \<noteq> BlockedRuntimeAborted" by blast
    let ?s = "(setCurrentBlockedRuntime st [])\<lparr>st_ExecutionState := ExecutionIdle, st_Version := st_Version st + 1\<rparr>"
    from blocked_resolve_run[OF ok g, of status reason md now] obtain t S rec' rec2 n where
      run: "blocked_resolve bid status reason md now w = (Inr (rec', ?s), w\<lparr>w_Reads := n, w_Repos := (w_Repos w)\<lparr>rp_Sessions := S,
          rp_BlockedRuntimes := gm_put bid rec2 ?B\<rparr>\<rparr>)"
      and S: "session_Update t ?s ?S = Inr S" and rec2: "br_BlockedRuntimeID rec2 = bid" "br_SessionID rec2 = br_SessionID rec" by metis
    have sid: "st_SessionID ?s = br_SessionID rec" using ok g(2) session_Get_id unfolding blocked_ok_def by auto
    have lv: "live (gm_put bid rec2 ?B) k bid'" if "k \<noteq> st_SessionID ?s" "live ?B k bid'" for k bid'
      using that g(1) sid by (auto simp: live_def blocked_Get_def mem_get_def split: option.splits)
    have "keyed br_BlockedRuntimeID (gm_put bid rec2 ?B)" using ok rec2 by (simp add: blocked_ok_def keyed_put)
    from blocked_ok_write[OF ok S this lv] show ?thesis by (simp add: run)
  next
    case False
    then have "w_Repos (snd (blocked_resolve bid status reason md now w)) = w_Repos w"
      by (auto simp: blocked_resolve_def svc_apply do_blocked_Get_def do_session_Get_def split: sum.splits)
    then show ?thesis using ok by simp
  qed
qed

text \<open>Blocking, where the record's id is new.\<close>

lemma blocked_create_run:
  assumes ok: "blocked_ok (w_Repos w)" and "session_Get sid (rp_Sessions (w_Repos w)) = Inr st"
    and "validateBlockedRuntimeSessionState st = Inr ()" and "br_BlockedRuntimeID p = bid" "bid \<noteq> []"
  obtains t S u n d where "blocked_create sid p w =
      (Inr (u, (setCurrentBlockedRuntime st bid)\<lparr>st_ExecutionState := ExecutionBlocked, st_Version := st_Version st + 1\<rparr>),
       w\<lparr>w_Reads := n, w_Drawn := d, w_Repos := (w_Repos w)\<lparr>rp_Sessions := S, rp_BlockedRuntimes := gm_put bid u (rp_BlockedRuntimes (w_Repos w))\<rparr>\<rparr>)"
    "session_Update t ((setCurrentBlockedRuntime st bid)\<lparr>st_ExecutionState := ExecutionBlocked, st_Version := st_Version st + 1\<rparr>)
       (rp_Sessions (w_Repos w)) = Inr S"
    "br_BlockedRuntimeID u = bid" "br_Status u = br_Status p" "br_SessionID u = br_SessionID p"
proof -
  let ?B = "rp_BlockedRuntimes (w_Repos w)"
  define p' where "p' = (if st_TaskID st \<noteq> [] then p\<lparr>br_TaskID := st_TaskID st\<rparr> else p)"
  have p': "br_BlockedRuntimeID p' = bid" "br_Status p' = br_Status p" "br_SessionID p' = br_SessionID p"
    using assms(4) by (simp_all add: p'_def)
  define nxt where "nxt = (setCurrentBlockedRuntime st bid)\<lparr>st_ExecutionState := ExecutionBlocked\<rparr>"
  have "session_Get (st_SessionID nxt) (rp_Sessions (w_Repos w)) = Inr st" "st_Version nxt = st_Version st"
    using assms(2) session_Get_id[OF _ assms(2)] ok by (simp_all add: nxt_def blocked_ok_def)
  from write_unleased_run[OF this] obtain t S where S: "session_Update t (nxt\<lparr>st_Version := st_Version st + 1\<rparr>) (rp_Sessions (w_Repos w)) = Inr S"
    and run: "do_persistSessionUpdateAt nxt [] 0 w = (Inr (nxt\<lparr>st_Version := st_Version st + 1\<rparr>),
       w\<lparr>w_Reads := Suc (w_Reads w), w_Repos := (w_Repos w)\<lparr>rp_Sessions := S\<rparr>\<rparr>)" .
  define u where "u = fst (blocked_Create (w_Uuids w (w_Drawn w)) (w_Clock w (Suc (w_Reads w))) p' [])"
  have cr: "blocked_Create (w_Uuids w (w_Drawn w)) (w_Clock w (Suc (w_Reads w))) p' B = (u, gm_put bid u B)" for B
    using p' assms(5) by (simp add: u_def blocked_Create_def Let_def)
  have "blocked_create sid p w = (Inr (u, nxt\<lparr>st_Version := st_Version st + 1\<rparr>),
      w\<lparr>w_Reads := Suc (Suc (w_Reads w)), w_Drawn := Suc (w_Drawn w), w_Repos := (w_Repos w)\<lparr>rp_Sessions := S, rp_BlockedRuntimes := gm_put bid u ?B\<rparr>\<rparr>)"
    using assms run cr p' by (simp add: blocked_create_def svc_apply do_session_Get_def do_blocked_Create_def or_rollback_def Let_def
        flip: p'_def nxt_def)
  moreover have "br_BlockedRuntimeID u = bid" "br_Status u = br_Status p" "br_SessionID u = br_SessionID p"
    using p' assms(5) by (simp_all add: u_def blocked_Create_def Let_def)
  ultimately show thesis using S unfolding nxt_def
    by (intro that[where u = u and S = S and t = t and n = "Suc (Suc (w_Reads w))" and d = "Suc (w_Drawn w)"]) simp_all
qed

definition fresh_blocked :: "string \<Rightarrow> repos \<Rightarrow> bool" where
  "fresh_blocked bid r \<longleftrightarrow> (\<exists>e. blocked_Get bid (rp_BlockedRuntimes r) = Inl e)"

lemma triple_blocked_create:
  assumes "br_BlockedRuntimeID p \<noteq> []" and "br_Status p = BlockedRuntimePending" and "br_SessionID p = sid"
  shows "triple (\<lambda>r. blocked_ok r \<and> fresh_blocked (br_BlockedRuntimeID p) r) (blocked_create sid p) (\<lambda>_. blocked_ok) blocked_ok"
proof -
  have "blocked_ok (w_Repos (snd (blocked_create sid p w)))"
    if ok: "blocked_ok (w_Repos w)" and fresh: "fresh_blocked (br_BlockedRuntimeID p) (w_Repos w)" for w
  proof (cases "\<exists>st. session_Get sid (rp_Sessions (w_Repos w)) = Inr st \<and> validateBlockedRuntimeSessionState st = Inr ()")
    case True
    let ?B = "rp_BlockedRuntimes (w_Repos w)" and ?bid = "br_BlockedRuntimeID p"
    from True obtain st where st: "session_Get sid (rp_Sessions (w_Repos w)) = Inr st" "validateBlockedRuntimeSessionState st = Inr ()" by blast
    let ?s = "(setCurrentBlockedRuntime st ?bid)\<lparr>st_ExecutionState := ExecutionBlocked, st_Version := st_Version st + 1\<rparr>"
    from blocked_create_run[OF ok st refl assms(1)] obtain t S u n d where
      run: "blocked_create sid p w = (Inr (u, ?s), w\<lparr>w_Reads := n, w_Drawn := d, w_Repos := (w_Repos w)\<lparr>rp_Sessions := S,
          rp_BlockedRuntimes := gm_put ?bid u ?B\<rparr>\<rparr>)" and S: "session_Update t ?s (rp_Sessions (w_Repos w)) = Inr S"
      and u: "br_BlockedRuntimeID u = ?bid" "br_Status u = br_Status p" "br_SessionID u = br_SessionID p" .
    have "st_SessionID st = sid" using session_Get_id[OF _ st(1)] ok by (simp add: blocked_ok_def)
    then have lv: "live (gm_put ?bid u ?B) (st_SessionID ?s) (currentBlockedRuntimeID ?s)"
      using u assms by (auto simp: live_def blocked_Get_def mem_get_def)
    have keep: "live (gm_put ?bid u ?B) k b" if "live ?B k b" for k b
      using that fresh by (auto simp: live_def fresh_blocked_def blocked_Get_def mem_get_def split: option.splits)
    have "keyed br_BlockedRuntimeID (gm_put ?bid u ?B)" using ok u by (simp add: blocked_ok_def keyed_put)
    from blocked_ok_write[OF ok S this keep] assms(1) lv show ?thesis by (simp add: run)
  next
    case False
    then have "w_Repos (snd (blocked_create sid p w)) = w_Repos w"
      by (auto simp: blocked_create_def svc_apply do_session_Get_def split: sum.splits)
    then show ?thesis using ok by simp
  qed
  then show ?thesis by (fastforce simp: triple_def split: prod.splits sum.splits)
qed

lemma triple_Within: "triple P fn Q E \<Longrightarrow> (\<And>r. P r \<Longrightarrow> E r) \<Longrightarrow> triple P (Within r fn) Q E"
  by (cases r) (auto simp: triple_def Within_def split: prod.splits sum.splits option.splits)

lemma triple_with_runner:
  assumes "\<And>b. triple P (body b (emitEventsWithSink sv)) Q E" "\<And>b. triple P (body b (emitEventsBestEffort sv)) Q E"
    and "\<And>r. P r \<Longrightarrow> E r"
  shows "triple P (with_runner sv body) Q E"
  unfolding with_runner_def using assms by (auto split: runner.split intro!: triple_Within)

lemma keeps_blocked_event: "keeps P (blockedRuntimeAuditEvent now ty rec tid payload)"
  unfolding blockedRuntimeAuditEvent_def by (intro svc_rules) auto

lemma blocked_ok_calls:
  "keeps blocked_ok (RespondBlockedRuntime sv bid resp)"
  "keeps blocked_ok (ResumeBlockedRuntime sv bid)"
  "keeps blocked_ok (AbortBlockedRuntime sv bid req)"
proof -
  note emits = keeps_emit[OF audit_blind_blocked_ok]
  have res: "keeps blocked_ok (resolveBlockedRuntimeState sv bid st reason md ty)"
    if "st \<in> {BlockedRuntimeResumed, BlockedRuntimeAborted}" for st reason md ty
    unfolding resolveBlockedRuntimeState_def
    by (intro svc_rules keeps_with_runner keeps_blocked_resolve[OF that]; (simp only: split_beta)?; intro svc_rules keeps_blocked_event emits)
      auto
  show "keeps blocked_ok (ResumeBlockedRuntime sv bid)" "keeps blocked_ok (AbortBlockedRuntime sv bid req)"
    unfolding ResumeBlockedRuntime_def AbortBlockedRuntime_def by (simp_all add: res)
  show "keeps blocked_ok (RespondBlockedRuntime sv bid resp)"
  proof (cases "validateBlockedRuntimeResponse resp")
    case (Inl e)
    then show ?thesis unfolding RespondBlockedRuntime_def by (simp add: triple_def svc_apply)
  next
    case (Inr u)
    then have "bp_Status resp \<in> {BlockedRuntimeApproved, BlockedRuntimeRejected, BlockedRuntimeConfirmed}"
      by (auto simp: validateBlockedRuntimeResponse_def split: if_splits)
    then show ?thesis
      unfolding RespondBlockedRuntime_def split_beta
      by (intro svc_rules keeps_with_runner keeps_blocked_respond keeps_blocked_event emits) auto
  qed
qed

lemma triple_end: "triple P m (\<lambda>_. Q) Q \<Longrightarrow> P (w_Repos w) \<Longrightarrow> Q (w_Repos (snd (m w)))"
  by (cases "m w"; cases "fst (m w)") (auto simp: triple_def split: prod.splits sum.splits)

lemma blocked_ok_Create:
  assumes "blocked_ok (w_Repos w)" and "fresh_blocked (''blocked_'' @ w_Uuids w (w_Drawn w)) (w_Repos w)"
  shows "blocked_ok (w_Repos (snd (CreateBlockedRuntime sv sid req w)))"
proof (cases "validateBlockedRuntimeRequest req")
  case (Inl e)
  then show ?thesis using assms(1) by (simp add: CreateBlockedRuntime_def svc_apply)
next
  case (Inr u)
  define bid where "bid = ''blocked_'' @ w_Uuids w (w_Drawn w)"
  define p where "p = \<lparr>br_BlockedRuntimeID = bid, br_Kind = bq_Kind req, br_Status = BlockedRuntimePending,
             br_SessionID = sid, br_TaskID = [], br_Subject = bq_Subject req,
             br_Condition = normalizeBlockedRuntimeCondition (bq_Condition req), br_Metadata = bq_Metadata req,
             br_RequestedAt = w_Clock w (w_Reads w), br_UpdatedAt = w_Clock w (w_Reads w), br_ResolvedAt = 0\<rparr>"
  let ?body = "\<lambda>(_ :: bool) emit. sbind (blocked_create sid p) (\<lambda>(created, updated).
            sbind (blockedRuntimeAuditEvent (w_Clock w (w_Reads w)) ''blocked_runtime.created'' created (st_TaskID updated) []) (\<lambda>ev.
              sbind (emit [ev]) (\<lambda>_. sret (created, updated))))"
  let ?w = "w\<lparr>w_Reads := Suc (w_Reads w), w_Drawn := Suc (w_Drawn w)\<rparr>"
  have p: "br_BlockedRuntimeID p \<noteq> []" "br_Status p = BlockedRuntimePending" "br_SessionID p = sid"
    by (simp_all add: p_def bid_def)
  have "triple (\<lambda>r. blocked_ok r \<and> fresh_blocked (br_BlockedRuntimeID p) r) (with_runner sv ?body) (\<lambda>_. blocked_ok) blocked_ok"
    unfolding split_beta
    by (intro triple_with_runner triple_bind[OF triple_blocked_create[OF p]] svc_rules keeps_blocked_event
        keeps_emit[OF audit_blind_blocked_ok]) auto
  from triple_end[OF this, of ?w] assms have "blocked_ok (w_Repos (snd (with_runner sv ?body ?w)))"
    by (simp add: p_def bid_def)
  moreover have "CreateBlockedRuntime sv sid req w = with_runner sv ?body ?w"
    using Inr by (simp add: CreateBlockedRuntime_def svc_apply Let_def p_def bid_def)
  ultimately show ?thesis by simp
qed

text \<open>Lease operations leave the columns this invariant is about alone.\<close>

lemma blocked_ok_sessions:
  assumes "blocked_ok r" and "session_wf S"
    and "\<And>k c. session_Get k S = Inr c \<Longrightarrow> \<exists>c0. session_Get k (rp_Sessions r) = Inr c0
      \<and> st_ExecutionState c = st_ExecutionState c0 \<and> st_Metadata c = st_Metadata c0"
  shows "blocked_ok (r\<lparr>rp_Sessions := S\<rparr>)"
proof -
  have "(st_ExecutionState c = ExecutionBlocked \<longleftrightarrow> hasCurrentBlockedRuntime c)
      \<and> (hasCurrentBlockedRuntime c \<longrightarrow> live (rp_BlockedRuntimes r) k (currentBlockedRuntimeID c))" if get: "session_Get k S = Inr c" for k c
  proof -
    from assms(3)[OF get] obtain c0 where c0: "session_Get k (rp_Sessions r) = Inr c0" "st_ExecutionState c = st_ExecutionState c0"
      "st_Metadata c = st_Metadata c0" by blast
    then have "currentBlockedRuntimeID c = currentBlockedRuntimeID c0" by (simp add: currentBlockedRuntimeID_def)
    with c0 assms(1) show ?thesis by (simp add: blocked_ok_def hasCurrentBlockedRuntime_def)
  qed
  then show ?thesis using assms(1,2) by (simp add: blocked_ok_def)
qed

interpretation blocked_leases: lease_blind blocked_ok
proof (unfold_locales, rule audit_blind_blocked_ok)
  fix r :: repos and k c0 c
  assume ok: "blocked_ok r" and c0: "gm_get (rp_Sessions r) k = Some c0" and c: "leased_as c0 c"
  show "blocked_ok (r\<lparr>rp_Sessions := gm_put k c (rp_Sessions r)\<rparr>)"
  proof (rule blocked_ok_sessions[OF ok])
    show "session_wf (gm_put k c (rp_Sessions r))"
      using ok c keyed_get[OF _ c0, of st_SessionID] by (auto simp: blocked_ok_def leased_as_def keyed_put)
  qed (use c0 c in \<open>auto simp: leased_as_def session_Get_def mem_get_def split: if_splits option.splits\<close>)
qed (simp add: blocked_ok_def)

section \<open>The state machine\<close>

text \<open>
  One call of a client or a worker, whatever it returns; the id drawn for a new record is one that
  no stored record has.
\<close>

inductive blocked_step :: "service \<Rightarrow> world \<Rightarrow> world \<Rightarrow> bool" for sv where
  create: "fresh_blocked (''blocked_'' @ w_Uuids w (w_Drawn w)) (w_Repos w) \<Longrightarrow>
     blocked_step sv w (snd (CreateBlockedRuntime sv sid req w))"
| respond: "blocked_step sv w (snd (RespondBlockedRuntime sv bid resp w))"
| resume: "blocked_step sv w (snd (ResumeBlockedRuntime sv bid w))"
| abort: "blocked_step sv w (snd (AbortBlockedRuntime sv bid areq w))"
| claim: "blocked_step sv w (snd (claimSession sv mode ttl w))"
| renew: "blocked_step sv w (snd (RenewSessionLease sv sid L ttl w))"
| release: "blocked_step sv w (snd (ReleaseSessionLease sv sid L w))"

lemma blocked_step_ok: "blocked_step sv w w' \<Longrightarrow> blocked_ok (w_Repos w) \<Longrightarrow> blocked_ok (w_Repos w')"
  by (induction rule: blocked_step.induct)
    (simp_all add: blocked_ok_Create keeps_run[OF blocked_ok_calls(1)] keeps_run[OF blocked_ok_calls(2)]
      keeps_run[OF blocked_ok_calls(3)] keeps_run[OF blocked_leases.keeps_claimSession]
      keeps_run[OF blocked_leases.keeps_RenewSessionLease] keeps_run[OF blocked_leases.keeps_ReleaseSessionLease])

section \<open>Properties\<close>

text \<open>
  C23. Sessions and blocked runtimes never disagree. Along every sequence of creations, responses,
  resumptions, abortions, claims, renewals and releases, with any runner, any answers of the
  application's sink and any failures, a session is in the blocked state exactly if it carries the
  id of a blocked runtime, and that record exists, belongs to the session and has been neither
  resumed nor aborted; in particular no claim is ever given a blocked session.
\<close>

theorem blocked_runtimes_consistent:
  assumes "(blocked_step sv)\<^sup>*\<^sup>* w w'" and "blocked_ok (w_Repos w)"
  shows "blocked_ok (w_Repos w')
    \<and> (\<forall>sid st mode t. session_Get sid (rp_Sessions (w_Repos w')) = Inr st \<longrightarrow> hasCurrentBlockedRuntime st \<longrightarrow> \<not> claimableState st mode t)"
proof -
  from assms have ok: "blocked_ok (w_Repos w')" by (induction rule: rtranclp_induct) (auto intro: blocked_step_ok)
  then have "\<not> claimableState st mode t" if "session_Get sid (rp_Sessions (w_Repos w')) = Inr st" "hasCurrentBlockedRuntime st" for sid st mode t
    using that by (auto simp: blocked_ok_def claimableState_def)
  with ok show ?thesis by blast
qed

definition ex_blocked_request :: blocked_request where
  "ex_blocked_request = \<lparr>bq_Kind = BlockedRuntimeExternal,
     bq_Subject = \<lparr>bs_StepID = [], bs_ActionID = [], bs_AttemptID = [], bs_CycleID = [], bs_Target = \<lparr>tr_TargetID = [], tr_Kind = []\<rparr>, bs_Metadata = []\<rparr>,
     bq_Condition = \<lparr>bc_Kind = BlockedRuntimeConditionExternal, bc_ReferenceID = [], bc_WaitingFor = [], bc_Metadata = []\<rparr>, bq_Metadata = []\<rparr>"

definition ex_blocked_world :: world where
  "ex_blocked_world = snd (CreateBlockedRuntime ex_service ''s1'' ex_blocked_request ex_world)"

lemma ex_world_blocked_ok: "blocked_ok (w_Repos ex_world)"
proof -
  have "list_all (\<lambda>(k, st). st_ExecutionState st \<noteq> ExecutionBlocked \<and> \<not> hasCurrentBlockedRuntime st) (rp_Sessions (w_Repos ex_world))"
    "session_wf (rp_Sessions (w_Repos ex_world))" "rp_BlockedRuntimes (w_Repos ex_world) = []" by code_simp+
  then show ?thesis by (auto simp: blocked_ok_def session_Get_def mem_get_def list_all_iff dest!: map_of_SomeD split: option.splits)
qed

theorem blocked_runtimes_consistent_witness:
  "\<exists>st. session_Get ''s1'' (rp_Sessions (w_Repos ex_blocked_world)) = Inr st \<and> st_ExecutionState st = ExecutionBlocked
     \<and> \<not> claimableState st ClaimModeRunnable 100"
proof -
  have "\<exists>e. blocked_Get (''blocked_'' @ w_Uuids ex_world (w_Drawn ex_world)) (rp_BlockedRuntimes (w_Repos ex_world)) = Inl e"
    by (rule exI[of _ ErrRecordNotFound]) code_simp
  then have "blocked_step ex_service ex_world ex_blocked_world"
    unfolding ex_blocked_world_def by (intro blocked_step.create) (simp add: fresh_blocked_def)
  then have run: "(blocked_step ex_service)\<^sup>*\<^sup>* ex_world ex_blocked_world" by blast
  have "case session_Get ''s1'' (rp_Sessions (w_Repos ex_blocked_world)) of Inl _ \<Rightarrow> False
    | Inr st \<Rightarrow> st_ExecutionState st = ExecutionBlocked \<and> hasCurrentBlockedRuntime st" by code_simp
  then obtain st where "session_Get ''s1'' (rp_Sessions (w_Repos ex_blocked_world)) = Inr st" "st_ExecutionState st = ExecutionBlocked"
    "hasCurrentBlockedRuntime st" by (auto split: sum.splits)
  with blocked_runtimes_consistent[OF run ex_world_blocked_ok] show ?thesis by blast
qed

lemma with_runner_plain_fails:
  "plain sv \<Longrightarrow> (\<And>b emit. body b emit w = (Inl e, w)) \<Longrightarrow> with_runner sv body w = (Inl e, w)"
  by (auto simp: plain_def with_runner_def Within_def)

lemma resume_refused:
  assumes "plain sv" and "blocked_Get bid (rp_BlockedRuntimes (w_Repos w)) = Inr rec"
    and "session_Get (br_SessionID rec) (rp_Sessions (w_Repos w)) = Inr st" and "st_ExecutionState st \<noteq> ExecutionBlocked"
  shows "\<exists>w'. ResumeBlockedRuntime sv bid w = (Inl ErrBlockedRuntimeNotActive, w') \<and> w_Repos w' = w_Repos w"
proof -
  let ?w = "w\<lparr>w_Reads := Suc (w_Reads w)\<rparr>"
  have "blocked_resolve bid BlockedRuntimeResumed [] [] now ?w = (Inl ErrBlockedRuntimeNotActive, ?w)" for now
    using assms(2-4) by (simp add: blocked_resolve_def svc_apply do_blocked_Get_def do_session_Get_def requireCurrentBlockedRuntime_def)
  then have "ResumeBlockedRuntime sv bid w = (Inl ErrBlockedRuntimeNotActive, ?w)"
    using assms(1) by (simp add: ResumeBlockedRuntime_def resolveBlockedRuntimeState_def svc_apply with_runner_plain_fails)
  then show ?thesis by simp
qed



end
