(* ===== verification/Program.thy ===== *)
theory Program
  imports Targets
begin

text \<open>
  Programs: \<^verbatim>\<open>pkg/harness/execution\<close> program.go, program_step.go, ref.go and attachment.go. A program
  is a graph of nodes with dependencies, fan-out targets and input bindings; it can travel inside
  the metadata of a step. A Go struct stored in a metadata map is a \<open>VStruct\<close> value; the functions
  \<open>enc_...\<close> and \<open>dec_...\<close> are the conversions between a struct and such a value. A raw value of any
  other type goes through \<^verbatim>\<open>json.Marshal\<close> and \<^verbatim>\<open>json.Unmarshal\<close> in the sources; the outcome of that
  is a parameter (\<open>json_codec\<close>), and every theorem holds for whatever it is.
\<close>

section \<open>Data\<close>

datatype ProgramInputBindingKind =
    ProgramInputBindingLiteral | ProgramInputBindingOutputRef | ProgramInputBindingAttachment
  | ProgramInputBindingOther string

type_synonym VerificationScope = string

abbreviation "VerificationScopeStep \<equiv> ''step''"
abbreviation "VerificationScopeTarget \<equiv> ''target''"
abbreviation "VerificationScopeAggregate \<equiv> ''aggregate''"
abbreviation "ProgramMetadataKeyID \<equiv> ''program_id''"
abbreviation "ProgramMetadataKeyNodeID \<equiv> ''program_node_id''"
abbreviation "StepMetadataProgramKey \<equiv> ''execution_program''"
abbreviation "StepMetadataProgramInputBindingsKey \<equiv> ''execution_program_input_bindings''"

datatype OutputRefKind =
    OutputRefStructured | OutputRefText | OutputRefBytes | OutputRefArtifact | OutputRefAttachment
  | OutputRefOther string

record output_ref =
  or_Kind :: OutputRefKind
  or_StepID :: string
  or_ActionID :: string
  or_ArtifactID :: string
  or_AttachmentID :: string
  or_Path :: string
  or_Metadata :: meta

datatype AttachmentInputKind =
    AttachmentInputText | AttachmentInputBytes | AttachmentInputArtifactRef | AttachmentInputOther string

datatype AttachmentMaterialization =
    AttachmentMaterializeNone | AttachmentMaterializeTempFile | AttachmentMaterializeOther string

record attachment_input =
  ai_AttachmentID :: string
  ai_Name :: string
  ai_MediaType :: string
  ai_Kind :: AttachmentInputKind
  ai_Text :: string
  ai_Bytes :: string
  ai_ArtifactID :: string
  ai_Materialize :: AttachmentMaterialization
  ai_Metadata :: meta

record input_binding =
  ib_Name :: string
  ib_Kind :: ProgramInputBindingKind
  ib_Value :: gval
  ib_Ref :: "output_ref option"
  ib_Attachment :: "attachment_input option"
  ib_Metadata :: meta

record program_node =
  nd_NodeID :: string
  nd_Title :: string
  nd_Action :: action_spec
  nd_Verify :: "verify_spec option"
  nd_VerifyScope :: VerificationScope
  nd_OnFail :: "on_fail option"
  nd_Targeting :: "target_selection option"
  nd_DependsOn :: "string list"
  nd_InputBinds :: "input_binding list"
  nd_Metadata :: meta

record program =
  pg_ProgramID :: string
  pg_EntryNodes :: "string list"
  pg_Nodes :: "program_node list"
  pg_Metadata :: meta

text \<open>A value of type \<^verbatim>\<open>[]byte\<close>, and one of type \<^verbatim>\<open>[]string\<close>.\<close>

abbreviation VBytes :: "string \<Rightarrow> gval" where
  "VBytes s \<equiv> VStruct ''[]byte'' [(''bytes'', VStr s)]"

abbreviation VStrings :: "string list \<Rightarrow> gval" where
  "VStrings xs \<equiv> VStruct ''[]string'' [(''items'', VList (map VStr xs))]"

section \<open>Structs as dynamic values\<close>

fun struct_fields :: "gval option \<Rightarrow> meta" where
  "struct_fields (Some (VStruct _ fs)) = fs"
| "struct_fields _ = []"

fun as_list :: "gval option \<Rightarrow> gval list" where
  "as_list (Some (VList xs)) = xs"
| "as_list _ = []"

fun as_meta :: "gval option \<Rightarrow> meta" where
  "as_meta (Some (VMap m)) = m"
| "as_meta _ = []"

fun as_int :: "gval option \<Rightarrow> int" where
  "as_int (Some (VInt n)) = n"
| "as_int _ = 0"

text \<open>A pointer is nil or the value it points to.\<close>

fun enc_ptr :: "('a \<Rightarrow> gval) \<Rightarrow> 'a option \<Rightarrow> gval" where
  "enc_ptr enc None = VNil"
| "enc_ptr enc (Some x) = enc x"

fun dec_ptr :: "(gval \<Rightarrow> 'a) \<Rightarrow> gval option \<Rightarrow> 'a option" where
  "dec_ptr dec (Some (VStruct t fs)) = Some (dec (VStruct t fs))"
| "dec_ptr dec _ = None"

abbreviation "strs xs \<equiv> VList (map VStr xs)"

definition dec_strs :: "gval option \<Rightarrow> string list" where
  "dec_strs v = map (\<lambda>x. as_string (Some x)) (as_list v)"

fun enc_verify_mode :: "VerifyMode \<Rightarrow> gval" where
  "enc_verify_mode ModeAll = VInt 0"
| "enc_verify_mode ModeAny = VInt 1"
| "enc_verify_mode (ModeOther s) = VStr s"

fun dec_verify_mode :: "gval option \<Rightarrow> VerifyMode" where
  "dec_verify_mode (Some (VInt n)) = (if n = 0 then ModeAll else ModeAny)"
| "dec_verify_mode v = ModeOther (as_string v)"

definition enc_verify :: "verify_spec \<Rightarrow> gval" where
  "enc_verify v = VStruct ''verify.Spec'' [(''Mode'', enc_verify_mode (vs_Mode v)),
     (''Checks'', VList (map (\<lambda>c. VStruct ''verify.Check'' [(''Kind'', VStr (ck_Kind c)), (''Args'', VMap (ck_Args c))]) (vs_Checks v)))]"

definition dec_verify :: "gval \<Rightarrow> verify_spec" where
  "dec_verify v = (let f = gm_get (struct_fields (Some v)) in
     \<lparr>vs_Mode = dec_verify_mode (f ''Mode''),
      vs_Checks = map (\<lambda>c. let g = gm_get (struct_fields (Some c))
        in \<lparr>ck_Kind = as_string (g ''Kind''), ck_Args = as_meta (g ''Args'')\<rparr>) (as_list (f ''Checks''))\<rparr>)"

lemma dec_enc_verify [simp]: "dec_verify (enc_verify v) = v"
proof -
  have "dec_verify_mode (Some (enc_verify_mode m)) = m" for m by (cases m) simp_all
  moreover have "(\<lambda>c :: check. \<lparr>ck_Kind = ck_Kind c, ck_Args = ck_Args c\<rparr>) = (\<lambda>c. c)" by auto
  ultimately show ?thesis by (simp add: dec_verify_def enc_verify_def comp_def)
qed

definition enc_action :: "action_spec \<Rightarrow> gval" where
  "enc_action a = VStruct ''action.Spec'' [(''ToolName'', VStr (an_ToolName a)),
     (''ToolVersion'', VStr (an_ToolVersion a)), (''Args'', VMap (an_Args a))]"

definition dec_action :: "gval option \<Rightarrow> action_spec" where
  "dec_action v = (let f = gm_get (struct_fields v) in
     \<lparr>an_ToolName = as_string (f ''ToolName''), an_ToolVersion = as_string (f ''ToolVersion''), an_Args = as_meta (f ''Args'')\<rparr>)"

lemma dec_enc_action [simp]: "dec_action (Some (enc_action a)) = a"
  by (simp add: dec_action_def enc_action_def)

definition enc_on_fail :: "on_fail \<Rightarrow> gval" where
  "enc_on_fail v = VStruct ''plan.OnFailSpec'' [(''Strategy'', VStr (of_Strategy v)),
     (''MaxRetries'', VInt (of_MaxRetries v)), (''BackoffMS'', VInt (of_BackoffMS v))]"

definition dec_on_fail :: "gval \<Rightarrow> on_fail" where
  "dec_on_fail v = (let f = gm_get (struct_fields (Some v)) in
     \<lparr>of_Strategy = as_string (f ''Strategy''), of_MaxRetries = as_int (f ''MaxRetries''), of_BackoffMS = as_int (f ''BackoffMS'')\<rparr>)"

lemma dec_enc_on_fail [simp]: "dec_on_fail (enc_on_fail v) = v"
  by (simp add: dec_on_fail_def enc_on_fail_def)

definition enc_target :: "target \<Rightarrow> gval" where
  "enc_target t = VStruct ''execution.Target'' [(''TargetID'', VStr (tg_TargetID t)), (''Kind'', VStr (tg_Kind t)),
     (''DisplayName'', VStr (tg_DisplayName t)), (''Metadata'', VMap (tg_Metadata t))]"

definition dec_target :: "gval \<Rightarrow> target" where
  "dec_target v = (let f = gm_get (struct_fields (Some v)) in
     \<lparr>tg_TargetID = as_string (f ''TargetID''), tg_Kind = as_string (f ''Kind''),
      tg_DisplayName = as_string (f ''DisplayName''), tg_Metadata = as_meta (f ''Metadata'')\<rparr>)"

lemma dec_enc_target [simp]: "dec_target (enc_target t) = t"
  by (simp add: dec_target_def enc_target_def)

fun enc_selection_mode :: "TargetSelectionMode \<Rightarrow> gval" where
  "enc_selection_mode TargetSelectionSingle = VInt 0"
| "enc_selection_mode TargetSelectionFanoutExplicit = VInt 1"
| "enc_selection_mode TargetSelectionFanoutAll = VInt 2"
| "enc_selection_mode (SelectionOther s) = VStr s"

fun dec_selection_mode :: "gval option \<Rightarrow> TargetSelectionMode" where
  "dec_selection_mode (Some (VInt n)) =
     (if n = 0 then TargetSelectionSingle else if n = 1 then TargetSelectionFanoutExplicit else TargetSelectionFanoutAll)"
| "dec_selection_mode v = SelectionOther (as_string v)"

definition enc_selection :: "target_selection \<Rightarrow> gval" where
  "enc_selection s = VStruct ''execution.TargetSelection'' [(''Mode'', enc_selection_mode (sel_Mode s)),
     (''Targets'', VList (map enc_target (sel_Targets s))), (''MaxConcurrency'', VInt (sel_MaxConcurrency s)),
     (''OnPartialFailure'', VStr (sel_OnPartialFailure s)), (''Metadata'', VMap (sel_Metadata s))]"

definition dec_selection :: "gval \<Rightarrow> target_selection" where
  "dec_selection v = (let f = gm_get (struct_fields (Some v)) in
     \<lparr>sel_Mode = dec_selection_mode (f ''Mode''), sel_Targets = map dec_target (as_list (f ''Targets'')),
      sel_MaxConcurrency = as_int (f ''MaxConcurrency''), sel_OnPartialFailure = as_string (f ''OnPartialFailure''),
      sel_Metadata = as_meta (f ''Metadata'')\<rparr>)"

lemma dec_enc_selection [simp]: "dec_selection (enc_selection s) = s"
proof -
  have "dec_selection_mode (Some (enc_selection_mode m)) = m" for m by (cases m) simp_all
  then show ?thesis by (simp add: dec_selection_def enc_selection_def comp_def)
qed

fun enc_ref_kind :: "OutputRefKind \<Rightarrow> gval" where
  "enc_ref_kind OutputRefStructured = VInt 0"
| "enc_ref_kind OutputRefText = VInt 1"
| "enc_ref_kind OutputRefBytes = VInt 2"
| "enc_ref_kind OutputRefArtifact = VInt 3"
| "enc_ref_kind OutputRefAttachment = VInt 4"
| "enc_ref_kind (OutputRefOther s) = VStr s"

fun dec_ref_kind :: "gval option \<Rightarrow> OutputRefKind" where
  "dec_ref_kind (Some (VInt n)) =
     (if n = 0 then OutputRefStructured else if n = 1 then OutputRefText else if n = 2 then OutputRefBytes
      else if n = 3 then OutputRefArtifact else OutputRefAttachment)"
| "dec_ref_kind v = OutputRefOther (as_string v)"

definition enc_output_ref :: "output_ref \<Rightarrow> gval" where
  "enc_output_ref r = VStruct ''execution.OutputRef'' [(''Kind'', enc_ref_kind (or_Kind r)), (''StepID'', VStr (or_StepID r)),
     (''ActionID'', VStr (or_ActionID r)), (''ArtifactID'', VStr (or_ArtifactID r)),
     (''AttachmentID'', VStr (or_AttachmentID r)), (''Path'', VStr (or_Path r)), (''Metadata'', VMap (or_Metadata r))]"

definition dec_output_ref :: "gval \<Rightarrow> output_ref" where
  "dec_output_ref v = (let f = gm_get (struct_fields (Some v)) in
     \<lparr>or_Kind = dec_ref_kind (f ''Kind''), or_StepID = as_string (f ''StepID''), or_ActionID = as_string (f ''ActionID''),
      or_ArtifactID = as_string (f ''ArtifactID''), or_AttachmentID = as_string (f ''AttachmentID''),
      or_Path = as_string (f ''Path''), or_Metadata = as_meta (f ''Metadata'')\<rparr>)"

lemma dec_enc_output_ref [simp]: "dec_output_ref (enc_output_ref r) = r"
proof -
  have "dec_ref_kind (Some (enc_ref_kind k)) = k" for k by (cases k) simp_all
  then show ?thesis by (simp add: dec_output_ref_def enc_output_ref_def)
qed

fun enc_attachment_kind :: "AttachmentInputKind \<Rightarrow> gval" where
  "enc_attachment_kind AttachmentInputText = VInt 0"
| "enc_attachment_kind AttachmentInputBytes = VInt 1"
| "enc_attachment_kind AttachmentInputArtifactRef = VInt 2"
| "enc_attachment_kind (AttachmentInputOther s) = VStr s"

fun dec_attachment_kind :: "gval option \<Rightarrow> AttachmentInputKind" where
  "dec_attachment_kind (Some (VInt n)) =
     (if n = 0 then AttachmentInputText else if n = 1 then AttachmentInputBytes else AttachmentInputArtifactRef)"
| "dec_attachment_kind v = AttachmentInputOther (as_string v)"

fun enc_materialize :: "AttachmentMaterialization \<Rightarrow> gval" where
  "enc_materialize AttachmentMaterializeNone = VInt 0"
| "enc_materialize AttachmentMaterializeTempFile = VInt 1"
| "enc_materialize (AttachmentMaterializeOther s) = VStr s"

fun dec_materialize :: "gval option \<Rightarrow> AttachmentMaterialization" where
  "dec_materialize (Some (VInt n)) = (if n = 0 then AttachmentMaterializeNone else AttachmentMaterializeTempFile)"
| "dec_materialize v = AttachmentMaterializeOther (as_string v)"

definition enc_attachment :: "attachment_input \<Rightarrow> gval" where
  "enc_attachment a = VStruct ''execution.AttachmentInput'' [(''AttachmentID'', VStr (ai_AttachmentID a)),
     (''Name'', VStr (ai_Name a)), (''MediaType'', VStr (ai_MediaType a)), (''Kind'', enc_attachment_kind (ai_Kind a)),
     (''Text'', VStr (ai_Text a)), (''Bytes'', VStr (ai_Bytes a)), (''ArtifactID'', VStr (ai_ArtifactID a)),
     (''Materialize'', enc_materialize (ai_Materialize a)), (''Metadata'', VMap (ai_Metadata a))]"

definition dec_attachment :: "gval \<Rightarrow> attachment_input" where
  "dec_attachment v = (let f = gm_get (struct_fields (Some v)) in
     \<lparr>ai_AttachmentID = as_string (f ''AttachmentID''), ai_Name = as_string (f ''Name''),
      ai_MediaType = as_string (f ''MediaType''), ai_Kind = dec_attachment_kind (f ''Kind''),
      ai_Text = as_string (f ''Text''), ai_Bytes = as_string (f ''Bytes''), ai_ArtifactID = as_string (f ''ArtifactID''),
      ai_Materialize = dec_materialize (f ''Materialize''), ai_Metadata = as_meta (f ''Metadata'')\<rparr>)"

lemma dec_enc_attachment [simp]: "dec_attachment (enc_attachment a) = a"
proof -
  have "dec_attachment_kind (Some (enc_attachment_kind k)) = k" for k by (cases k) simp_all
  moreover have "dec_materialize (Some (enc_materialize m)) = m" for m by (cases m) simp_all
  ultimately show ?thesis by (simp add: dec_attachment_def enc_attachment_def)
qed

fun enc_binding_kind :: "ProgramInputBindingKind \<Rightarrow> gval" where
  "enc_binding_kind ProgramInputBindingLiteral = VInt 0"
| "enc_binding_kind ProgramInputBindingOutputRef = VInt 1"
| "enc_binding_kind ProgramInputBindingAttachment = VInt 2"
| "enc_binding_kind (ProgramInputBindingOther s) = VStr s"

fun dec_binding_kind :: "gval option \<Rightarrow> ProgramInputBindingKind" where
  "dec_binding_kind (Some (VInt n)) =
     (if n = 0 then ProgramInputBindingLiteral else if n = 1 then ProgramInputBindingOutputRef else ProgramInputBindingAttachment)"
| "dec_binding_kind v = ProgramInputBindingOther (as_string v)"

fun the_val :: "gval option \<Rightarrow> gval" where
  "the_val (Some v) = v"
| "the_val None = VNil"

definition enc_binding :: "input_binding \<Rightarrow> gval" where
  "enc_binding b = VStruct ''execution.ProgramInputBinding'' [(''Name'', VStr (ib_Name b)), (''Kind'', enc_binding_kind (ib_Kind b)),
     (''Value'', ib_Value b), (''Ref'', enc_ptr enc_output_ref (ib_Ref b)),
     (''Attachment'', enc_ptr enc_attachment (ib_Attachment b)), (''Metadata'', VMap (ib_Metadata b))]"

definition dec_binding :: "gval \<Rightarrow> input_binding" where
  "dec_binding v = (let f = gm_get (struct_fields (Some v)) in
     \<lparr>ib_Name = as_string (f ''Name''), ib_Kind = dec_binding_kind (f ''Kind''), ib_Value = the_val (f ''Value''),
      ib_Ref = dec_ptr dec_output_ref (f ''Ref''), ib_Attachment = dec_ptr dec_attachment (f ''Attachment''),
      ib_Metadata = as_meta (f ''Metadata'')\<rparr>)"

text \<open>Every encoding is a struct value, so a pointer to it is not nil.\<close>

lemma dec_enc_ptr:
  assumes "\<And>x. dec (enc x) = x" "\<And>x. \<exists>t fs. enc x = VStruct t fs"
  shows "dec_ptr dec (Some (enc_ptr enc p)) = p"
proof (cases p)
  case (Some x)
  obtain t fs where e: "enc x = VStruct t fs" using assms(2) by blast
  with assms(1)[of x] Some show ?thesis by simp
qed simp

lemma dec_enc_ptrs [simp]:
  "dec_ptr dec_output_ref (Some (enc_ptr enc_output_ref a)) = a"
  "dec_ptr dec_attachment (Some (enc_ptr enc_attachment b)) = b"
  "dec_ptr dec_verify (Some (enc_ptr enc_verify c)) = c"
  "dec_ptr dec_on_fail (Some (enc_ptr enc_on_fail d)) = d"
  "dec_ptr dec_selection (Some (enc_ptr enc_selection e)) = e"
  by (rule dec_enc_ptr, simp, simp add: enc_output_ref_def enc_attachment_def enc_verify_def enc_on_fail_def enc_selection_def)+

lemma dec_enc_binding [simp]: "dec_binding (enc_binding b) = b"
proof -
  have "dec_binding_kind (Some (enc_binding_kind k)) = k" for k by (cases k) simp_all
  then show ?thesis by (simp add: dec_binding_def enc_binding_def)
qed

definition enc_node :: "program_node \<Rightarrow> gval" where
  "enc_node n = VStruct ''execution.ProgramNode'' [(''NodeID'', VStr (nd_NodeID n)), (''Title'', VStr (nd_Title n)),
     (''Action'', enc_action (nd_Action n)), (''Verify'', enc_ptr enc_verify (nd_Verify n)),
     (''VerifyScope'', VStr (nd_VerifyScope n)), (''OnFail'', enc_ptr enc_on_fail (nd_OnFail n)),
     (''Targeting'', enc_ptr enc_selection (nd_Targeting n)), (''DependsOn'', strs (nd_DependsOn n)),
     (''InputBinds'', VList (map enc_binding (nd_InputBinds n))), (''Metadata'', VMap (nd_Metadata n))]"

definition dec_node :: "gval \<Rightarrow> program_node" where
  "dec_node v = (let f = gm_get (struct_fields (Some v)) in
     \<lparr>nd_NodeID = as_string (f ''NodeID''), nd_Title = as_string (f ''Title''), nd_Action = dec_action (f ''Action''),
      nd_Verify = dec_ptr dec_verify (f ''Verify''), nd_VerifyScope = as_string (f ''VerifyScope''),
      nd_OnFail = dec_ptr dec_on_fail (f ''OnFail''), nd_Targeting = dec_ptr dec_selection (f ''Targeting''),
      nd_DependsOn = dec_strs (f ''DependsOn''), nd_InputBinds = map dec_binding (as_list (f ''InputBinds'')),
      nd_Metadata = as_meta (f ''Metadata'')\<rparr>)"

lemma dec_enc_node [simp]: "dec_node (enc_node n) = n"
  by (simp add: dec_node_def enc_node_def dec_strs_def comp_def)

definition enc_program :: "program \<Rightarrow> gval" where
  "enc_program p = VStruct ''execution.Program'' [(''ProgramID'', VStr (pg_ProgramID p)),
     (''EntryNodes'', strs (pg_EntryNodes p)), (''Nodes'', VList (map enc_node (pg_Nodes p))),
     (''Metadata'', VMap (pg_Metadata p))]"

definition dec_program :: "gval \<Rightarrow> program" where
  "dec_program v = (let f = gm_get (struct_fields (Some v)) in
     \<lparr>pg_ProgramID = as_string (f ''ProgramID''), pg_EntryNodes = dec_strs (f ''EntryNodes''),
      pg_Nodes = map dec_node (as_list (f ''Nodes'')), pg_Metadata = as_meta (f ''Metadata'')\<rparr>)"

lemma dec_enc_program [simp]: "dec_program (enc_program p) = p"
  by (simp add: dec_program_def enc_program_def dec_strs_def comp_def)

section \<open>Programs and bindings in step metadata\<close>

record json_codec =
  js_Program :: "gval \<Rightarrow> program option"
  js_Bindings :: "gval \<Rightarrow> input_binding list option"
  js_Verify :: "gval \<Rightarrow> verify_spec option"

definition HasDependencies :: "program_node \<Rightarrow> bool" where
  "HasDependencies n \<longleftrightarrow> 0 < length (nd_DependsOn n)"

definition HasInputBindings :: "program_node \<Rightarrow> bool" where
  "HasInputBindings n \<longleftrightarrow> 0 < length (nd_InputBinds n)"

definition node_MultiTargetRequested :: "program_node \<Rightarrow> bool" where
  "node_MultiTargetRequested n \<longleftrightarrow> (case nd_Targeting n of None \<Rightarrow> False | Some sel \<Rightarrow> MultiTargetRequested sel)"

definition AttachProgram :: "step \<Rightarrow> program \<Rightarrow> step" where
  "AttachProgram s p = s\<lparr>sp_Metadata := gm_put StepMetadataProgramKey (enc_program p) (sp_Metadata s)\<rparr>"

text \<open>
  The type switch of \<^verbatim>\<open>ProgramFromStep\<close>: a \<^verbatim>\<open>Program\<close>, a pointer to one (nil when it has no fields),
  or any other value, which goes through JSON.
\<close>

definition ProgramFromStep :: "json_codec \<Rightarrow> step \<Rightarrow> program option" where
  "ProgramFromStep js s =
     (if sp_Metadata s = [] then None
      else case gm_get (sp_Metadata s) StepMetadataProgramKey of
        None \<Rightarrow> None
      | Some VNil \<Rightarrow> None
      | Some (VStruct ty fs) \<Rightarrow>
          if ty = ''execution.Program'' then Some (dec_program (VStruct ty fs))
          else if ty = ''*execution.Program'' then (if fs = [] then None else Some (dec_program (VStruct ty fs)))
          else js_Program js (VStruct ty fs)
      | Some raw \<Rightarrow> js_Program js raw)"

definition AttachProgramInputBindings :: "step \<Rightarrow> input_binding list \<Rightarrow> step" where
  "AttachProgramInputBindings s bindings =
     (if bindings = [] then s
      else s\<lparr>sp_Metadata := gm_put StepMetadataProgramInputBindingsKey
               (VStruct ''[]execution.ProgramInputBinding'' [(''items'', VList (map enc_binding bindings))]) (sp_Metadata s)\<rparr>)"

definition ProgramInputBindingsFromStep :: "json_codec \<Rightarrow> step \<Rightarrow> input_binding list option" where
  "ProgramInputBindingsFromStep js s =
     (if sp_Metadata s = [] then None
      else case gm_get (sp_Metadata s) StepMetadataProgramInputBindingsKey of
        None \<Rightarrow> None
      | Some VNil \<Rightarrow> None
      | Some (VStruct ty fs) \<Rightarrow>
          if ty = ''[]execution.ProgramInputBinding'' then Some (map dec_binding (as_list (gm_get fs ''items'')))
          else if ty = ''[]*execution.ProgramInputBinding''
            then Some (map dec_binding (filter (\<lambda>v. v \<noteq> VNil) (as_list (gm_get fs ''items''))))
          else js_Bindings js (VStruct ty fs)
      | Some raw \<Rightarrow> js_Bindings js raw)"

lemma ProgramFromStep_put [simp]:
  "ProgramFromStep js (s\<lparr>sp_Metadata := gm_put StepMetadataProgramKey (enc_program p) md\<rparr>) = Some p"
proof -
  have "gm_put StepMetadataProgramKey (enc_program p) md \<noteq> []" by (cases md) auto
  moreover have "dec_program (enc_program p) = p" by simp
  ultimately show ?thesis by (simp add: ProgramFromStep_def enc_program_def)
qed

lemma ProgramFromStep_Attach [simp]: "ProgramFromStep js (AttachProgram s p) = Some p"
  by (simp add: AttachProgram_def)

lemma BindingsFromStep_Attach [simp]:
  assumes "bs \<noteq> []"
  shows "ProgramInputBindingsFromStep js (AttachProgramInputBindings s bs) = Some bs"
proof -
  have "gm_put StepMetadataProgramInputBindingsKey v md \<noteq> []" for v :: gval and md by (cases md) auto
  then show ?thesis using assms by (simp add: ProgramInputBindingsFromStep_def AttachProgramInputBindings_def comp_def)
qed

end
