(* ===== verification/Program_Order.thy ===== *)
theory Program_Order
  imports Program
begin

text \<open>
  The order in which the nodes of a program run: \<^verbatim>\<open>orderedProgramNodes\<close> of
  \<^verbatim>\<open>pkg/harness/runtime\<close> program_compile.go and the graph loops of \<^verbatim>\<open>stepsFromProgram\<close> in program.go.
  Both count for every node the dependencies still to come and move a node to a queue when its
  count reaches zero; the second keeps the queue sorted by the position of the nodes in the
  program. The lemmas show that both loops end, and that what they return is a topological order
  of all nodes exactly if the graph is well formed and has no cycle.
\<close>

section \<open>Building the graph\<close>

abbreviation gm_int :: "int gomap \<Rightarrow> string \<Rightarrow> int" where
  "gm_int m k \<equiv> (case gm_get m k of None \<Rightarrow> 0 | Some n \<Rightarrow> n)"

abbreviation gm_list :: "'a list gomap \<Rightarrow> string \<Rightarrow> 'a list" where
  "gm_list m k \<equiv> (case gm_get m k of None \<Rightarrow> [] | Some xs \<Rightarrow> xs)"

text \<open>
  The first loop of \<^verbatim>\<open>orderedProgramNodes\<close>: the position of every node id. The text of a wrapped error
  names the node; it is shortened here.
\<close>

fun index_nodes :: "nat \<Rightarrow> program_node list \<Rightarrow> nat gomap \<Rightarrow> goerr + nat gomap" where
  "index_nodes i [] index = Inr index"
| "index_nodes i (node # nodes) index =
     (if nd_NodeID node = [] then Inl (ErrWrap ''at index'' ErrProgramMissingNodeID)
      else if gm_get index (nd_NodeID node) \<noteq> None then Inl (ErrWrap (nd_NodeID node) ErrProgramDuplicateNodeID)
      else index_nodes (Suc i) nodes (gm_put (nd_NodeID node) i index))"

text \<open>The second loop: dependencies left per node, and the nodes that wait for a node.\<close>

fun link_deps :: "nat gomap \<Rightarrow> string \<Rightarrow> string list \<Rightarrow> string list gomap \<Rightarrow> goerr + string list gomap" where
  "link_deps index nodeID [] dependents = Inr dependents"
| "link_deps index nodeID (dep # deps) dependents =
     (if gm_get index dep = None then Inl (ErrWrap nodeID ErrProgramDependencyNotFound)
      else link_deps index nodeID deps (gm_put dep (gm_list dependents dep @ [nodeID]) dependents))"

fun link_nodes :: "nat gomap \<Rightarrow> program_node list \<Rightarrow> int gomap \<Rightarrow> string list gomap
    \<Rightarrow> goerr + (int gomap \<times> string list gomap)" where
  "link_nodes index [] indegree dependents = Inr (indegree, dependents)"
| "link_nodes index (node # nodes) indegree dependents =
     (case link_deps index (nd_NodeID node) (nd_DependsOn node) dependents of
        Inl e \<Rightarrow> Inl e
      | Inr dependents' \<Rightarrow>
          link_nodes index nodes (gm_put (nd_NodeID node) (int (length (nd_DependsOn node))) indegree) dependents')"

definition initial_queue :: "program_node list \<Rightarrow> int gomap \<Rightarrow> string list" where
  "initial_queue nodes indegree = map nd_NodeID (filter (\<lambda>n. gm_int indegree (nd_NodeID n) = 0) nodes)"

section \<open>The queue\<close>

text \<open>The inner loop: one dependency of every waiting node is done.\<close>

fun release :: "string list \<Rightarrow> int gomap \<Rightarrow> string list \<Rightarrow> int gomap \<times> string list" where
  "release [] indegree queue = (indegree, queue)"
| "release (d # ds) indegree queue =
     (let n = gm_int indegree d - 1
      in release ds (gm_put d n indegree) (if n = 0 then queue @ [d] else queue))"

text \<open>A count never falls below zero by more than one step, so this bound falls with every pass.\<close>

definition open_deps :: "int gomap \<Rightarrow> nat" where
  "open_deps m = sum_list (map (\<lambda>(k, n). nat n) m)"

lemma open_deps_put: "open_deps (gm_put d (gm_int m d - 1) m) + (if 0 < gm_int m d then 1 else 0) = open_deps m"
proof (induction m)
  case Nil
  then show ?case by (simp add: open_deps_def)
next
  case (Cons kv m)
  obtain k n where kv: "kv = (k, n)" by fastforce
  show ?case
  proof (cases "k = d")
    case True
    with kv show ?thesis by (auto simp: open_deps_def)
  next
    case False
    then have "gm_put d (gm_int (kv # m) d - 1) (kv # m) = kv # gm_put d (gm_int m d - 1) m" by (simp add: kv)
    moreover from False have "gm_int (kv # m) d = gm_int m d" by (simp add: kv)
    ultimately show ?thesis using Cons.IH by (simp add: open_deps_def kv split: if_splits)
  qed
qed

lemma release_measure:
  "release ds m q = (m', q') \<Longrightarrow> open_deps m' + length q' \<le> open_deps m + length q"
proof (induction ds arbitrary: m q)
  case Nil
  then show ?case by simp
next
  case (Cons d ds)
  let ?n = "gm_int m d - 1"
  let ?q = "if ?n = 0 then q @ [d] else q"
  have "open_deps (gm_put d ?n m) + length ?q \<le> open_deps m + length q"
    using open_deps_put[of d m] by (auto split: if_splits)
  moreover from Cons.prems have "release ds (gm_put d ?n m) ?q = (m', q')" by (simp add: Let_def)
  ultimately show ?case using Cons.IH by (meson le_trans)
qed

text \<open>The loop of \<^verbatim>\<open>orderedProgramNodes\<close>: the ids in the order they leave the queue.\<close>

function node_queue :: "string list gomap \<Rightarrow> int gomap \<Rightarrow> string list \<Rightarrow> string list" where
  "node_queue dependents indegree [] = []"
| "node_queue dependents indegree (nodeID # queue) =
     (case release (gm_list dependents nodeID) indegree queue of
        (indegree', queue') \<Rightarrow> nodeID # node_queue dependents indegree' queue')"
  by pat_completeness auto
termination
  by (relation "measure (\<lambda>(_, m, q). open_deps m + length q)") (auto split: prod.splits dest!: release_measure)

text \<open>\<^verbatim>\<open>program.Nodes[index[nodeID]]\<close>: a missing id would read position 0.\<close>

definition node_at :: "program_node list \<Rightarrow> nat gomap \<Rightarrow> string \<Rightarrow> program_node" where
  "node_at nodes index nodeID = nodes ! (case gm_get index nodeID of Some i \<Rightarrow> i | None \<Rightarrow> 0)"

definition orderedProgramNodes :: "program \<Rightarrow> goerr + program_node list" where
  "orderedProgramNodes p =
     (case index_nodes 0 (pg_Nodes p) [] of
        Inl e \<Rightarrow> Inl e
      | Inr index \<Rightarrow>
          (case link_nodes index (pg_Nodes p) [] [] of
             Inl e \<Rightarrow> Inl e
           | Inr (indegree, dependents) \<Rightarrow>
               let out = map (node_at (pg_Nodes p) index) (node_queue dependents indegree (initial_queue (pg_Nodes p) indegree))
               in if length out \<noteq> length (pg_Nodes p) then Inl ErrProgramCycleDetected else Inr out))"

section \<open>The same graph in \<open>stepsFromProgram\<close>\<close>

fun steps_index :: "nat \<Rightarrow> program_node list \<Rightarrow> program_node gomap \<Rightarrow> nat gomap \<Rightarrow> int gomap
    \<Rightarrow> goerr + (program_node gomap \<times> nat gomap \<times> int gomap)" where
  "steps_index i [] nodesByID nodeOrder indegree = Inr (nodesByID, nodeOrder, indegree)"
| "steps_index i (node # nodes) nodesByID nodeOrder indegree =
     (if nd_NodeID node = [] then Inl ErrProgramMissingNodeID
      else if gm_get nodesByID (nd_NodeID node) \<noteq> None then Inl ErrProgramDuplicateNodeID
      else steps_index (Suc i) nodes (gm_put (nd_NodeID node) node nodesByID)
             (gm_put (nd_NodeID node) i nodeOrder) (gm_put (nd_NodeID node) 0 indegree))"

fun check_entries :: "program_node gomap \<Rightarrow> string list \<Rightarrow> goerr + unit" where
  "check_entries nodesByID [] = Inr ()"
| "check_entries nodesByID (entryID # rest) =
     (if gm_get nodesByID entryID = None then Inl ErrProgramEntryNodeNotFound else check_entries nodesByID rest)"

fun steps_link_deps :: "program_node gomap \<Rightarrow> string \<Rightarrow> string list \<Rightarrow> int gomap \<Rightarrow> string list gomap
    \<Rightarrow> goerr + (int gomap \<times> string list gomap)" where
  "steps_link_deps nodesByID nodeID [] indegree dependents = Inr (indegree, dependents)"
| "steps_link_deps nodesByID nodeID (depID # deps) indegree dependents =
     (if gm_get nodesByID depID = None then Inl ErrProgramDependencyNotFound
      else steps_link_deps nodesByID nodeID deps (gm_put nodeID (gm_int indegree nodeID + 1) indegree)
             (gm_put depID (gm_list dependents depID @ [nodeID]) dependents))"

fun steps_link :: "program_node gomap \<Rightarrow> program_node list \<Rightarrow> int gomap \<Rightarrow> string list gomap
    \<Rightarrow> goerr + (int gomap \<times> string list gomap)" where
  "steps_link nodesByID [] indegree dependents = Inr (indegree, dependents)"
| "steps_link nodesByID (node # nodes) indegree dependents =
     (case steps_link_deps nodesByID (nd_NodeID node) (nd_DependsOn node) indegree dependents of
        Inl e \<Rightarrow> Inl e
      | Inr (indegree', dependents') \<Rightarrow> steps_link nodesByID nodes indegree' dependents')"

definition sort_ready :: "nat gomap \<Rightarrow> string list \<Rightarrow> string list" where
  "sort_ready nodeOrder ready =
     (let pos = (\<lambda>x. case gm_get nodeOrder x of None \<Rightarrow> 0 | Some i \<Rightarrow> i)
      in go_sort (\<lambda>a b. pos a < pos b) ready)"

lemma mset_sort_ready [simp]: "mset (sort_ready nodeOrder q) = mset q"
  by (simp add: sort_ready_def)

lemma length_sort_ready [simp]: "length (sort_ready nodeOrder q) = length q"
  by (simp add: sort_ready_def)

text \<open>The ids in the order in which the loop of \<^verbatim>\<open>stepsFromProgram\<close> takes them.\<close>

function ready_queue :: "nat gomap \<Rightarrow> string list gomap \<Rightarrow> int gomap \<Rightarrow> string list \<Rightarrow> string list" where
  "ready_queue nodeOrder dependents indegree [] = []"
| "ready_queue nodeOrder dependents indegree (nodeID # queue) =
     (case release (gm_list dependents nodeID) indegree queue of
        (indegree', queue') \<Rightarrow> nodeID # ready_queue nodeOrder dependents indegree' (sort_ready nodeOrder queue'))"
  by pat_completeness auto
termination
  by (relation "measure (\<lambda>(_, _, m, q). open_deps m + length q)") (auto dest!: release_measure[OF sym])

section \<open>What the graph loops compute\<close>

definition graph_ok :: "program_node list \<Rightarrow> bool" where
  "graph_ok ns \<longleftrightarrow> [] \<notin> set (map nd_NodeID ns) \<and> distinct (map nd_NodeID ns) \<and>
     (\<forall>n\<in>set ns. set (nd_DependsOn n) \<subseteq> set (map nd_NodeID ns))"

text \<open>The nodes that wait for \<open>d\<close>, each as often as it names \<open>d\<close>.\<close>

definition waiting :: "program_node list \<Rightarrow> string \<Rightarrow> string list" where
  "waiting ns d = concat (map (\<lambda>n. map (\<lambda>_. nd_NodeID n) (filter (\<lambda>x. x = d) (nd_DependsOn n))) ns)"

lemma index_nodes_succeeds:
  "[] \<notin> set (map nd_NodeID ns) \<Longrightarrow> distinct (map nd_NodeID ns) \<Longrightarrow> \<forall>n\<in>set ns. gm_get idx (nd_NodeID n) = None \<Longrightarrow>
     \<exists>idx'. index_nodes i ns idx = Inr idx'"
proof (induction ns arbitrary: i idx)
  case (Cons n ns)
  have "\<forall>m\<in>set ns. gm_get (gm_put (nd_NodeID n) i idx) (nd_NodeID m) = None"
    using Cons.prems(2,3) by (auto simp: image_iff)
  moreover have "nd_NodeID n \<noteq> []" "gm_get idx (nd_NodeID n) = None" using Cons.prems(1,3) by auto
  ultimately show ?case using Cons.IH[of "gm_put (nd_NodeID n) i idx" "Suc i"] Cons.prems(1,2) by simp
qed simp

lemma index_nodes_result:
  assumes "index_nodes i ns idx = Inr idx'"
  shows "[] \<notin> set (map nd_NodeID ns) \<and> distinct (map nd_NodeID ns) \<and> (\<forall>n\<in>set ns. gm_get idx (nd_NodeID n) = None) \<and>
     (\<forall>j<length ns. gm_get idx' (nd_NodeID (ns ! j)) = Some (i + j)) \<and>
     (\<forall>x. x \<notin> set (map nd_NodeID ns) \<longrightarrow> gm_get idx' x = gm_get idx x)"
  using assms
proof (induction ns arbitrary: i idx)
  case Nil
  then show ?case by simp
next
  case (Cons n ns)
  let ?idx = "gm_put (nd_NodeID n) i idx"
  from Cons.prems have ne: "nd_NodeID n \<noteq> []" "gm_get idx (nd_NodeID n) = None" and r: "index_nodes (Suc i) ns ?idx = Inr idx'"
    by (auto split: if_splits)
  note IH = Cons.IH[OF r]
  from IH have fresh: "\<forall>m\<in>set ns. nd_NodeID m \<noteq> nd_NodeID n \<and> gm_get idx (nd_NodeID m) = None"
    by (metis gm_get_put option.distinct(1))
  then have nin: "nd_NodeID n \<notin> set (map nd_NodeID ns)" by auto
  with IH have n: "gm_get idx' (nd_NodeID n) = Some i" by (metis gm_get_put)
  have "gm_get idx' (nd_NodeID ((n # ns) ! j)) = Some (i + j)" if "j < length (n # ns)" for j
    using that IH n by (cases j) auto
  with IH nin fresh ne show ?case by auto
qed

lemma link_deps_result:
  "link_deps index nodeID deps dts = (if \<forall>d\<in>set deps. gm_get index d \<noteq> None
     then Inr (foldl (\<lambda>m d. gm_put d (gm_list m d @ [nodeID]) m) dts deps)
     else Inl (ErrWrap nodeID ErrProgramDependencyNotFound))"
  by (induction deps arbitrary: dts) auto

lemma fold_waiting:
  "gm_list (foldl (\<lambda>m d. gm_put d (gm_list m d @ [nodeID]) m) dts deps) x =
     gm_list dts x @ map (\<lambda>_. nodeID) (filter (\<lambda>d. d = x) deps)"
  by (induction deps arbitrary: dts) auto

lemma program_error_is [simp]:
  "errors_is (ErrWrap m (ProgramErr c)) (ProgramErr c') \<longleftrightarrow> c = c'" "errors_is (ProgramErr c) (ProgramErr c') \<longleftrightarrow> c = c'"
  by (auto simp: errors_is_def error_parts.simps[of "ErrWrap m (ProgramErr c)"] error_parts.simps[of "ProgramErr c"])

lemma link_nodes_error:
  assumes "link_nodes index ns ind dts = Inl e"
  shows "(\<exists>n\<in>set ns. \<exists>d\<in>set (nd_DependsOn n). gm_get index d = None) \<and> errors_is e ErrProgramDependencyNotFound"
  using assms by (induction ns arbitrary: ind dts) (auto simp: link_deps_result split: if_splits)

lemma link_nodes_result:
  assumes "link_nodes index ns ind dts = Inr (ind', dts')" "distinct (map nd_NodeID ns)"
  shows "(\<forall>n\<in>set ns. \<forall>d\<in>set (nd_DependsOn n). gm_get index d \<noteq> None) \<and>
     (\<forall>n\<in>set ns. gm_int ind' (nd_NodeID n) = int (length (nd_DependsOn n))) \<and>
     (\<forall>x. x \<notin> set (map nd_NodeID ns) \<longrightarrow> gm_get ind' x = gm_get ind x) \<and>
     (\<forall>x. gm_list dts' x = gm_list dts x @ waiting ns x)"
  using assms
proof (induction ns arbitrary: ind dts)
  case Nil
  then show ?case by (simp add: waiting_def)
next
  case (Cons n ns)
  define ind1 where "ind1 = gm_put (nd_NodeID n) (int (length (nd_DependsOn n))) ind"
  define dts1 where "dts1 = foldl (\<lambda>m d. gm_put d (gm_list m d @ [nd_NodeID n]) m) dts (nd_DependsOn n)"
  from Cons.prems(1) have ok: "\<forall>d\<in>set (nd_DependsOn n). gm_get index d \<noteq> None" and r: "link_nodes index ns ind1 dts1 = Inr (ind', dts')"
    by (auto simp: link_deps_result ind1_def dts1_def split: if_splits)
  note IH = Cons.IH[OF r]
  from Cons.prems(2) have nin: "nd_NodeID n \<notin> set (map nd_NodeID ns)" by simp
  with IH Cons.prems(2) have "gm_get ind' (nd_NodeID n) = gm_get ind1 (nd_NodeID n)" by auto
  then have n: "gm_int ind' (nd_NodeID n) = int (length (nd_DependsOn n))" by (simp add: ind1_def)
  have "gm_get ind' x = gm_get ind x" if "x \<notin> set (map nd_NodeID (n # ns))" for x
    using that IH Cons.prems(2) by (auto simp: ind1_def)
  moreover have "gm_list dts' x = gm_list dts x @ waiting (n # ns) x" for x
  proof -
    have "gm_list dts' x = gm_list dts1 x @ waiting ns x" using IH Cons.prems(2) by auto
    then show ?thesis by (simp only: dts1_def fold_waiting) (simp add: waiting_def)
  qed
  ultimately show ?case using IH Cons.prems(2) n ok by auto
qed

section \<open>The invariant of the queue\<close>

text \<open>Every node of \<open>D\<close> comes after the nodes it depends on.\<close>

definition topo_sorted :: "program_node list \<Rightarrow> string list \<Rightarrow> bool" where
  "topo_sorted ns D \<longleftrightarrow> (\<forall>i<length D. \<forall>n\<in>set ns. nd_NodeID n = D ! i \<longrightarrow> set (nd_DependsOn n) \<subseteq> set (take i D))"

definition queue_inv :: "program_node list \<Rightarrow> string list \<Rightarrow> int gomap \<Rightarrow> string list \<Rightarrow> bool" where
  "queue_inv ns D ind q \<longleftrightarrow> distinct (D @ q) \<and> set (D @ q) \<subseteq> set (map nd_NodeID ns) \<and> topo_sorted ns D \<and>
     (\<forall>n\<in>set ns. gm_int ind (nd_NodeID n) = int (length (filter (\<lambda>d. d \<notin> set D) (nd_DependsOn n)))) \<and>
     (\<forall>n\<in>set ns. nd_NodeID n \<in> set (D @ q) \<longleftrightarrow> set (nd_DependsOn n) \<subseteq> set D)"

lemma queue_inv_perm: "mset q = mset q' \<Longrightarrow> queue_inv ns D ind q \<longleftrightarrow> queue_inv ns D ind q'"
  using mset_eq_setD[of q q'] mset_eq_imp_distinct_iff[of q q'] by (simp add: queue_inv_def)

lemma release_result:
  assumes "\<forall>m\<in>set ds. int (count_list ds m) \<le> gm_int ind m" "release ds ind q = (ind', q')"
  shows "(\<forall>m. gm_int ind' m = gm_int ind m - int (count_list ds m)) \<and>
     (\<exists>new. q' = q @ new \<and> distinct new \<and> set new = {m\<in>set ds. gm_int ind m = int (count_list ds m)})"
  using assms
proof (induction ds arbitrary: ind q)
  case Nil
  then show ?case by auto
next
  case (Cons d ds)
  define k where "k = gm_int ind d"
  define ind1 where "ind1 = gm_put d (k - 1) ind"
  define q1 where "q1 = (if k - 1 = 0 then q @ [d] else q)"
  have ind1: "gm_int ind1 m = (if m = d then k - 1 else gm_int ind m)" for m by (simp add: ind1_def)
  have pre: "\<forall>m\<in>set ds. int (count_list ds m) \<le> gm_int ind1 m"
  proof
    fix m assume "m \<in> set ds"
    with Cons.prems(1) have "int (count_list (d # ds) m) \<le> gm_int ind m" by simp
    then show "int (count_list ds m) \<le> gm_int ind1 m" unfolding ind1 by (auto simp: k_def split: if_splits)
  qed
  have "release ds ind1 q1 = (ind', q')" using Cons.prems(2) by (simp add: Let_def ind1_def q1_def k_def)
  from Cons.IH[OF pre this] obtain new where cnt: "\<forall>m. gm_int ind' m = gm_int ind1 m - int (count_list ds m)"
    and new: "q' = q1 @ new" "distinct new" "set new = {m \<in> set ds. gm_int ind1 m = int (count_list ds m)}" by blast
  have kpos: "int (count_list ds d) + 1 \<le> k" using Cons.prems(1) by (simp add: k_def)
  have "gm_int ind' m = gm_int ind m - int (count_list (d # ds) m)" for m
    using cnt unfolding ind1 by (simp add: k_def)
  moreover have "\<exists>new. q' = q @ new \<and> distinct new \<and> set new = {m\<in>set (d # ds). gm_int ind m = int (count_list (d # ds) m)}"
  proof (cases "k = 1")
    case True
    with kpos have nin: "d \<notin> set ds" by (metis add_le_same_cancel2 count_list_0_iff of_nat_le_0_iff)
    then have c0: "count_list ds d = 0" by simp
    have "x \<in> set (d # new) \<longleftrightarrow> x \<in> set (d # ds) \<and> gm_int ind x = int (count_list (d # ds) x)" for x
    proof (cases "x = d")
      case True
      then show ?thesis using c0 \<open>k = 1\<close> by (simp add: k_def)
    next
      case False
      then show ?thesis using new(3) unfolding ind1 by simp
    qed
    then have "set (d # new) = {m\<in>set (d # ds). gm_int ind m = int (count_list (d # ds) m)}" by blast
    moreover have "distinct (d # new)" using new(2,3) nin by auto
    ultimately show ?thesis using new(1) True by (intro exI[of _ "d # new"]) (simp add: q1_def)
  next
    case False
    have d: "d \<in> set new \<longleftrightarrow> k = int (count_list (d # ds) d)"
    proof (cases "d \<in> set ds")
      case True
      then show ?thesis using new(3) unfolding ind1 by (simp, arith)
    next
      case nin: False
      then have "count_list ds d = 0" by simp
      with nin show ?thesis using new(3) False by simp
    qed
    have "x \<in> set new \<longleftrightarrow> x \<in> set (d # ds) \<and> gm_int ind x = int (count_list (d # ds) x)" for x
    proof (cases "x = d")
      case True
      then show ?thesis using d by (simp add: k_def)
    next
      case False
      then show ?thesis using new(3) unfolding ind1 by simp
    qed
    then have "set new = {m\<in>set (d # ds). gm_int ind m = int (count_list (d # ds) m)}" by blast
    then show ?thesis using new(1,2) False by (intro exI[of _ new]) (simp add: q1_def)
  qed
  ultimately show ?case by blast
qed

lemma count_waiting:
  assumes "distinct (map nd_NodeID ns)" "n \<in> set ns"
  shows "count_list (waiting ns d) (nd_NodeID n) = count_list (nd_DependsOn n) d"
  using assms
proof (induction ns)
  case (Cons m ns)
  have c: "count_list (map (\<lambda>_. y) (filter (\<lambda>x. x = d) xs)) z = (if y = z then count_list xs d else 0)" for y z :: string and xs
    by (induction xs) auto
  have w: "waiting (m # ns) d = map (\<lambda>_. nd_NodeID m) (filter (\<lambda>x. x = d) (nd_DependsOn m)) @ waiting ns d"
    by (simp add: waiting_def)
  have z: "x \<notin> set (map nd_NodeID ns) \<Longrightarrow> count_list (waiting ns d) x = 0" for x
    by (subst count_list_0_iff) (auto simp: waiting_def)
  show ?case
  proof (cases "n \<in> set ns")
    case True
    with Cons show ?thesis by (auto simp: w c)
  next
    case False
    with Cons.prems have "n = m" by simp
    with Cons.prems z show ?thesis by (simp add: w c)
  qed
qed simp

lemma set_waiting: "m \<in> set (waiting ns d) \<longleftrightarrow> (\<exists>n\<in>set ns. nd_NodeID n = m \<and> d \<in> set (nd_DependsOn n))"
  by (auto simp: waiting_def)

lemma length_filter_not_insert:
  "length (filter (\<lambda>d. d \<notin> insert m D) xs) + (if m \<in> D then 0 else count_list xs m) = length (filter (\<lambda>d. d \<notin> D) xs)"
  by (induction xs) auto

lemma queue_inv_step:
  assumes ok: "graph_ok ns" and inv: "queue_inv ns D ind (m # q)" and rel: "release (waiting ns m) ind q = (ind', q')"
  shows "queue_inv ns (D @ [m]) ind' q'"
proof -
  let ?left = "\<lambda>D n. int (length (filter (\<lambda>d. d \<notin> set D) (nd_DependsOn n)))"
  have dist: "distinct (map nd_NodeID ns)" using ok by (simp add: graph_ok_def)
  from inv have D: "distinct (D @ m # q)" "set (D @ m # q) \<subseteq> set (map nd_NodeID ns)" "topo_sorted ns D"
    and left: "\<And>n. n \<in> set ns \<Longrightarrow> gm_int ind (nd_NodeID n) = ?left D n"
    and mem: "\<And>n. n \<in> set ns \<Longrightarrow> nd_NodeID n \<in> set (D @ m # q) \<longleftrightarrow> set (nd_DependsOn n) \<subseteq> set D"
    by (auto simp: queue_inv_def)
  from D(1) have mD: "m \<notin> set D" by simp
  have split: "?left D n = ?left (D @ [m]) n + int (count_list (nd_DependsOn n) m)" for n
    using length_filter_not_insert[of m "set D" "nd_DependsOn n"] mD by simp
  have "\<forall>x\<in>set (waiting ns m). int (count_list (waiting ns m) x) \<le> gm_int ind x"
  proof
    fix x assume "x \<in> set (waiting ns m)"
    then obtain n where n: "n \<in> set ns" "x = nd_NodeID n" by (auto simp: set_waiting)
    show "int (count_list (waiting ns m) x) \<le> gm_int ind x"
      using left[OF n(1)] split[of n] count_waiting[OF dist n(1)] by (simp only: n(2))
  qed
  from release_result[OF this rel] obtain new where cnt: "\<And>x. gm_int ind' x = gm_int ind x - int (count_list (waiting ns m) x)"
    and new: "q' = q @ new" "distinct new" "set new = {x\<in>set (waiting ns m). gm_int ind x = int (count_list (waiting ns m) x)}" by blast
  have left': "gm_int ind' (nd_NodeID n) = ?left (D @ [m]) n" if "n \<in> set ns" for n
    using cnt[of "nd_NodeID n"] left[OF that] split[of n] count_waiting[OF dist that] by simp
  have new_iff: "nd_NodeID n \<in> set new \<longleftrightarrow> m \<in> set (nd_DependsOn n) \<and> set (nd_DependsOn n) \<subseteq> set (D @ [m])" if "n \<in> set ns" for n
  proof -
    have "nd_NodeID n \<in> set (waiting ns m) \<longleftrightarrow> m \<in> set (nd_DependsOn n)"
      using that dist by (auto simp: set_waiting distinct_map dest: inj_onD)
    moreover have "gm_int ind (nd_NodeID n) = int (count_list (waiting ns m) (nd_NodeID n)) \<longleftrightarrow> ?left (D @ [m]) n = 0"
      using left[OF that] split[of n] count_waiting[OF dist that] by simp
    moreover have "?left (D @ [m]) n = 0 \<longleftrightarrow> set (nd_DependsOn n) \<subseteq> set (D @ [m])" by (auto simp: filter_empty_conv)
    ultimately show ?thesis by (auto simp: new(3))
  qed
  have ids: "\<exists>n\<in>set ns. x = nd_NodeID n" if "x \<in> set new" for x using that by (auto simp: new(3) set_waiting)
  have "set new \<inter> set (D @ m # q) = {}"
  proof (rule ccontr)
    assume "set new \<inter> set (D @ m # q) \<noteq> {}"
    then obtain n where "n \<in> set ns" "nd_NodeID n \<in> set new" "nd_NodeID n \<in> set (D @ m # q)" using ids by blast
    with new_iff mem mD show False by blast
  qed
  then have "distinct ((D @ [m]) @ q')" using D(1) new(1,2) by auto
  moreover have "set ((D @ [m]) @ q') \<subseteq> set (map nd_NodeID ns)" using D(2) new(1) ids by auto
  moreover have "topo_sorted ns (D @ [m])"
  proof -
    have "set (nd_DependsOn n) \<subseteq> set D" if "n \<in> set ns" "nd_NodeID n = m" for n using mem[OF that(1)] that(2) by simp
    with D(3) show ?thesis by (auto simp: topo_sorted_def nth_append less_Suc_eq)
  qed
  moreover have "nd_NodeID n \<in> set ((D @ [m]) @ q') \<longleftrightarrow> set (nd_DependsOn n) \<subseteq> set (D @ [m])" if "n \<in> set ns" for n
    using mem[OF that] new_iff[OF that] new(1) by auto
  ultimately show ?thesis using left' by (simp add: queue_inv_def)
qed

lemma queue_inv_init:
  assumes "graph_ok ns" "\<forall>n\<in>set ns. gm_int ind (nd_NodeID n) = int (length (nd_DependsOn n))"
  shows "queue_inv ns [] ind (initial_queue ns ind)"
proof -
  have "distinct (map nd_NodeID ns)" using assms(1) by (simp add: graph_ok_def)
  then have inj: "inj_on nd_NodeID (set ns)" and "distinct (initial_queue ns ind)"
    by (auto simp: initial_queue_def distinct_map intro: inj_on_subset)
  moreover have "nd_NodeID n \<in> set (initial_queue ns ind) \<longleftrightarrow> nd_DependsOn n = []" if "n \<in> set ns" for n
    using that assms(2) inj by (auto simp: initial_queue_def image_iff dest: inj_onD)
  moreover have "set (initial_queue ns ind) \<subseteq> set (map nd_NodeID ns)" by (auto simp: initial_queue_def)
  ultimately show ?thesis using assms(2) by (auto simp: queue_inv_def topo_sorted_def)
qed

lemma node_queue_inv:
  assumes "graph_ok ns" "\<forall>x. gm_list dts x = waiting ns x" "queue_inv ns D ind q"
  shows "\<exists>ind'. queue_inv ns (D @ node_queue dts ind q) ind' []"
  using assms(2,3)
proof (induction dts ind q arbitrary: D rule: node_queue.induct)
  case (1 dts ind)
  then show ?case by auto
next
  case (2 dts' ind m q)
  obtain ind' q' where r: "release (gm_list dts' m) ind q = (ind', q')" by fastforce
  with 2 have "queue_inv ns (D @ [m]) ind' q'" using queue_inv_step[OF assms(1)] by metis
  from "2.IH"[OF r[symmetric] "2.prems"(1) this] r show ?case by simp
qed

lemma ready_queue_inv:
  assumes "graph_ok ns" "\<forall>x. gm_list dts x = waiting ns x" "queue_inv ns D ind q"
  shows "\<exists>ind'. queue_inv ns (D @ ready_queue nodeOrder dts ind q) ind' []"
  using assms(2,3)
proof (induction nodeOrder dts ind q arbitrary: D rule: ready_queue.induct)
  case (1 nodeOrder dts ind)
  then show ?case by auto
next
  case (2 nodeOrder dts' ind m q)
  obtain ind' q' where r: "release (gm_list dts' m) ind q = (ind', q')" by fastforce
  with 2 have "queue_inv ns (D @ [m]) ind' q'" using queue_inv_step[OF assms(1)] by metis
  then have "queue_inv ns (D @ [m]) ind' (sort_ready nodeOrder q')" using queue_inv_perm mset_sort_ready by metis
  from "2.IH"[OF r[symmetric] "2.prems"(1) this] r show ?case by simp
qed

section \<open>Topological orders\<close>

definition dep_rel :: "program_node list \<Rightarrow> (string \<times> string) set" where
  "dep_rel ns = {(d, nd_NodeID n) | d n. n \<in> set ns \<and> d \<in> set (nd_DependsOn n)}"

text \<open>When the queue is empty, what is missing is exactly what a cycle holds back.\<close>

lemma queue_end:
  assumes ok: "graph_ok ns" and inv: "queue_inv ns D ind []"
  shows "if acyclic (dep_rel ns) then mset D = mset (map nd_NodeID ns) \<and> topo_sorted ns D
         else length D < length ns"
proof -
  let ?ids = "set (map nd_NodeID ns)"
  from inv have D: "distinct D" "set D \<subseteq> ?ids" "topo_sorted ns D"
    and mem: "\<And>n. n \<in> set ns \<Longrightarrow> nd_NodeID n \<in> set D \<longleftrightarrow> set (nd_DependsOn n) \<subseteq> set D" by (auto simp: queue_inv_def)
  from ok have dist: "distinct (map nd_NodeID ns)" and closed: "\<And>n. n \<in> set ns \<Longrightarrow> set (nd_DependsOn n) \<subseteq> ?ids"
    by (auto simp: graph_ok_def)
  show ?thesis
  proof (cases "acyclic (dep_rel ns)")
    case True
    have "dep_rel ns \<subseteq> ?ids \<times> ?ids" using closed by (fastforce simp: dep_rel_def)
    then have "finite (dep_rel ns)" by (rule finite_subset) simp
    with True have wf: "wf (dep_rel ns)" by (simp add: finite_acyclic_wf)
    have "?ids \<subseteq> set D"
    proof
      fix x assume "x \<in> ?ids"
      with wf show "x \<in> set D"
      proof (induction x rule: wf_induct_rule)
        case (less x)
        then obtain n where n: "n \<in> set ns" "x = nd_NodeID n" by auto
        have "d \<in> set D" if "d \<in> set (nd_DependsOn n)" for d
          using less.IH[of d] closed[OF n(1)] that n by (auto simp: dep_rel_def)
        then show ?case using mem[OF n(1)] n(2) by blast
      qed
    qed
    with D(2) have "set D = ?ids" by (rule subset_antisym)
    then have "mset D = mset (map nd_NodeID ns)" using set_eq_iff_mset_eq_distinct[OF D(1) dist] by blast
    with True D(3) show ?thesis by simp
  next
    case False
    have "length D \<noteq> length ns"
    proof
      assume "length D = length ns"
      then have all: "set D = ?ids"
        using D(1,2) dist by (metis List.finite_set card_subset_eq distinct_card length_map)
      define pos where "pos x = (THE i. i < length D \<and> D ! i = x)" for x
      have pos: "pos (D ! i) = i" if "i < length D" for i
        unfolding pos_def using that D(1) by (intro the_equality) (auto simp: nth_eq_iff_index_eq)
      have "pos d < pos x" if "(d, x) \<in> dep_rel ns" for d x
      proof -
        from that obtain n where n: "n \<in> set ns" "x = nd_NodeID n" "d \<in> set (nd_DependsOn n)" by (auto simp: dep_rel_def)
        then have "x \<in> set D" using all by simp
        then obtain i where i: "i < length D" "D ! i = x" by (metis in_set_conv_nth)
        have "\<forall>n\<in>set ns. nd_NodeID n = D ! i \<longrightarrow> set (nd_DependsOn n) \<subseteq> set (take i D)"
          using D(3) i(1) by (simp add: topo_sorted_def)
        from bspec[OF this n(1)] n(2,3) i(2) have "d \<in> set (take i D)" by auto
        then obtain j where "j < i" "D ! j = d" using i(1) by (auto simp: in_set_conv_nth)
        with i pos show ?thesis by (metis less_trans)
      qed
      then have "dep_rel ns \<subseteq> measure pos" by auto
      then have "wf (dep_rel ns)" using wf_measure wf_subset by blast
      with False show False using wf_acyclic by blast
    qed
    moreover have "length D \<le> length ns" using D(1,2) dist
      by (metis List.finite_set card_mono distinct_card length_map)
    ultimately show ?thesis using False by simp
  qed
qed

lemma index_nodes_error:
  "index_nodes i ns idx = Inl e \<Longrightarrow> errors_is e ErrProgramMissingNodeID \<or> errors_is e ErrProgramDuplicateNodeID"
  by (induction ns arbitrary: i idx) (auto split: if_splits)

text \<open>The first two loops succeed exactly on a well-formed graph.\<close>

lemma graph_built:
  assumes "graph_ok ns"
  obtains idx ind dts where "index_nodes 0 ns [] = Inr idx" "link_nodes idx ns [] [] = Inr (ind, dts)"
    "\<forall>j<length ns. gm_get idx (nd_NodeID (ns ! j)) = Some j" "\<forall>x. gm_list dts x = waiting ns x"
    "\<forall>n\<in>set ns. gm_int ind (nd_NodeID n) = int (length (nd_DependsOn n))"
proof -
  from assms have g: "[] \<notin> set (map nd_NodeID ns)" "distinct (map nd_NodeID ns)"
    and closed: "\<forall>n\<in>set ns. set (nd_DependsOn n) \<subseteq> set (map nd_NodeID ns)" by (auto simp: graph_ok_def)
  obtain idx where idx: "index_nodes 0 ns [] = Inr idx" using index_nodes_succeeds[OF g, of "[]"] by auto
  note get = index_nodes_result[OF idx]
  have known: "gm_get idx x \<noteq> None" if "x \<in> set (map nd_NodeID ns)" for x
    using that get by (auto simp: in_set_conv_nth)
  have "link_nodes idx ns [] [] \<noteq> Inl e" for e using link_nodes_error[of idx ns "[]" "[]" e] closed known by blast
  then obtain ind dts where l: "link_nodes idx ns [] [] = Inr (ind, dts)" by (metis old.sum.exhaust surj_pair)
  note res = link_nodes_result[OF l g(2)]
  show ?thesis by (rule that[OF idx l]) (use get res in auto)
qed

lemma graph_refused:
  assumes "\<not> graph_ok ns"
  shows "(case index_nodes 0 ns [] of Inl e \<Rightarrow> errors_is e ErrProgramMissingNodeID \<or> errors_is e ErrProgramDuplicateNodeID
     | Inr idx \<Rightarrow> \<exists>e. link_nodes idx ns [] [] = Inl e \<and> errors_is e ErrProgramDependencyNotFound)"
proof (cases "index_nodes 0 ns []")
  case (Inl e)
  then show ?thesis using index_nodes_error by auto
next
  case (Inr idx)
  note get = index_nodes_result[OF Inr]
  then have "\<not> (\<forall>n\<in>set ns. set (nd_DependsOn n) \<subseteq> set (map nd_NodeID ns))" using assms by (auto simp: graph_ok_def)
  then obtain n d where "n \<in> set ns" "d \<in> set (nd_DependsOn n)" "d \<notin> set (map nd_NodeID ns)" by blast
  with get have "link_nodes idx ns [] [] \<noteq> Inr (ind, dts)" for ind dts
    using link_nodes_result[of idx ns "[]" "[]" ind dts] by (metis map_of.simps(1))
  then obtain e where "link_nodes idx ns [] [] = Inl e" by (metis old.sum.exhaust surj_pair)
  then show ?thesis using link_nodes_error Inr by auto
qed

lemma node_at_id:
  assumes "\<forall>j<length ns. gm_get idx (nd_NodeID (ns ! j)) = Some j"
  shows "n \<in> set ns \<Longrightarrow> node_at ns idx (nd_NodeID n) = n"
  using assms by (auto simp: node_at_def in_set_conv_nth)

lemma nodes_of_ids:
  assumes "\<And>n. n \<in> set ns \<Longrightarrow> f (nd_NodeID n) = n" "mset D = mset (map nd_NodeID ns)"
  shows "mset (map f D) = mset ns" "map nd_NodeID (map f D) = D"
proof -
  have "map f (map nd_NodeID ns) = ns" using assms(1) by (simp add: map_idI)
  with assms(2) show "mset (map f D) = mset ns" by (metis mset_map)
  from assms(2) have "set D = set (map nd_NodeID ns)" by (rule mset_eq_setD)
  with assms(1) have "nd_NodeID (f x) = x" if "x \<in> set D" for x using that by auto
  then show "map nd_NodeID (map f D) = D" by (simp add: map_idI)
qed

section \<open>The loops of \<open>stepsFromProgram\<close> build the same graph\<close>

lemma steps_index_result:
  assumes "\<forall>x. gm_get byID x = None \<longleftrightarrow> gm_get ord x = None" "\<forall>x. gm_int ind x = 0"
  shows "case index_nodes i ns ord of
      Inl e \<Rightarrow> (\<exists>e'. steps_index i ns byID ord ind = Inl e' \<and> e' \<in> {ErrProgramMissingNodeID, ErrProgramDuplicateNodeID})
    | Inr ord' \<Rightarrow> \<exists>byID' ind'. steps_index i ns byID ord ind = Inr (byID', ord', ind') \<and> (\<forall>x. gm_int ind' x = 0) \<and>
        (\<forall>x. gm_get byID' x = (case List.find (\<lambda>n. nd_NodeID n = x) ns of Some n \<Rightarrow> Some n | None \<Rightarrow> gm_get byID x))"
  using assms
proof (induction ns arbitrary: i byID ord ind)
  case Nil
  then show ?case by simp
next
  case (Cons n ns)
  let ?by = "gm_put (nd_NodeID n) n byID" and ?ord = "gm_put (nd_NodeID n) i ord" and ?ind = "gm_put (nd_NodeID n) 0 ind"
  show ?case
  proof (cases "nd_NodeID n = [] \<or> gm_get ord (nd_NodeID n) \<noteq> None")
    case True
    then show ?thesis using Cons.prems(1) by auto
  next
    case False
    then have r: "steps_index i (n # ns) byID ord ind = steps_index (Suc i) ns ?by ?ord ?ind"
      "index_nodes i (n # ns) ord = index_nodes (Suc i) ns ?ord" using Cons.prems(1) by auto
    have "\<forall>x. gm_get ?by x = None \<longleftrightarrow> gm_get ?ord x = None" "\<forall>x. gm_int ?ind x = 0" using Cons.prems by auto
    note IH = Cons.IH[OF this, of "Suc i"]
    show ?thesis
    proof (cases "index_nodes (Suc i) ns ?ord")
      case (Inl e)
      with IH r show ?thesis by simp
    next
      case (Inr ord')
      with IH obtain byID' ind' where s: "steps_index (Suc i) ns ?by ?ord ?ind = Inr (byID', ord', ind')" "\<forall>x. gm_int ind' x = 0"
        and g: "\<forall>x. gm_get byID' x = (case List.find (\<lambda>n. nd_NodeID n = x) ns of Some n \<Rightarrow> Some n | None \<Rightarrow> gm_get ?by x)" by auto
      from index_nodes_result[OF Inr] have "\<forall>m\<in>set ns. nd_NodeID m \<noteq> nd_NodeID n" by (metis gm_get_put option.distinct(1))
      then have "List.find (\<lambda>m. nd_NodeID m = nd_NodeID n) ns = None" by (auto simp: find_None_iff)
      with g have "\<forall>x. gm_get byID' x = (case List.find (\<lambda>n. nd_NodeID n = x) (n # ns) of Some n \<Rightarrow> Some n | None \<Rightarrow> gm_get byID x)"
        by (auto split: option.split)
      with r s Inr show ?thesis by simp
    qed
  qed
qed

lemma steps_link_deps_result:
  "(if \<forall>d\<in>set deps. gm_get byID d \<noteq> None
    then \<exists>ind'. steps_link_deps byID nodeID deps ind dts = Inr (ind', foldl (\<lambda>m d. gm_put d (gm_list m d @ [nodeID]) m) dts deps) \<and>
      (\<forall>x. gm_int ind' x = gm_int ind x + (if x = nodeID then int (length deps) else 0))
    else steps_link_deps byID nodeID deps ind dts = Inl ErrProgramDependencyNotFound)"
proof (induction deps arbitrary: ind dts)
  case (Cons d deps)
  from Cons.IH[of "gm_put nodeID (gm_int ind nodeID + 1) ind" "gm_put d (gm_list dts d @ [nodeID]) dts"]
  show ?case by (auto split: if_splits)
qed simp

lemma steps_link_result:
  assumes "\<forall>x. gm_get byID x = None \<longleftrightarrow> gm_get idx x = None" "distinct (map nd_NodeID ns)"
  shows "case link_nodes idx ns i0 dts of
      Inl _ \<Rightarrow> steps_link byID ns ind dts = Inl ErrProgramDependencyNotFound
    | Inr (_, dts') \<Rightarrow> \<exists>ind'. steps_link byID ns ind dts = Inr (ind', dts') \<and>
        (\<forall>n\<in>set ns. gm_int ind' (nd_NodeID n) = gm_int ind (nd_NodeID n) + int (length (nd_DependsOn n))) \<and>
        (\<forall>x. x \<notin> set (map nd_NodeID ns) \<longrightarrow> gm_int ind' x = gm_int ind x)"
  using assms(2)
proof (induction ns arbitrary: i0 ind dts)
  case Nil
  then show ?case by simp
next
  case (Cons n ns)
  show ?case
  proof (cases "\<forall>d\<in>set (nd_DependsOn n). gm_get byID d \<noteq> None")
    case False
    with steps_link_deps_result[of "nd_DependsOn n" byID "nd_NodeID n" ind dts] assms(1)
    show ?thesis by (auto simp: link_deps_result)
  next
    case True
    define dts1 where "dts1 = foldl (\<lambda>m d. gm_put d (gm_list m d @ [nd_NodeID n]) m) dts (nd_DependsOn n)"
    define i1 where "i1 = gm_put (nd_NodeID n) (int (length (nd_DependsOn n))) i0"
    from True steps_link_deps_result[of "nd_DependsOn n" byID "nd_NodeID n" ind dts] obtain ind1 where
      s: "steps_link_deps byID (nd_NodeID n) (nd_DependsOn n) ind dts = Inr (ind1, dts1)"
      "\<forall>x. gm_int ind1 x = gm_int ind x + (if x = nd_NodeID n then int (length (nd_DependsOn n)) else 0)"
      by (auto simp: dts1_def)
    have l: "link_nodes idx (n # ns) i0 dts = link_nodes idx ns i1 dts1"
      using True assms(1) by (simp add: link_deps_result dts1_def i1_def)
    have st: "steps_link byID (n # ns) ind dts = steps_link byID ns ind1 dts1" using s(1) by simp
    from Cons.prems have nin: "nd_NodeID n \<notin> set (map nd_NodeID ns)" and d: "distinct (map nd_NodeID ns)" by auto
    have other: "nd_NodeID m \<noteq> nd_NodeID n" if "m \<in> set ns" for m using nin that by (metis image_eqI set_map)
    show ?thesis
    proof (cases "link_nodes idx ns i1 dts1")
      case (Inl e)
      with Cons.IH[OF d, where ?i0.0 = i1 and dts = dts1 and ind = ind1] l st show ?thesis
        by (simp del: link_nodes.simps steps_link.simps)
    next
      case (Inr r)
      obtain a dts' where "r = (a, dts')" by fastforce
      with Inr Cons.IH[OF d, where ?i0.0 = i1 and dts = dts1 and ind = ind1] obtain ind' where h: "steps_link byID ns ind1 dts1 = Inr (ind', dts')"
        "\<forall>n\<in>set ns. gm_int ind' (nd_NodeID n) = gm_int ind1 (nd_NodeID n) + int (length (nd_DependsOn n))"
        "\<forall>x. x \<notin> set (map nd_NodeID ns) \<longrightarrow> gm_int ind' x = gm_int ind1 x" by auto
      have a: "gm_int ind' (nd_NodeID m) = gm_int ind (nd_NodeID m) + int (length (nd_DependsOn m))" if "m \<in> set (n # ns)" for m
      proof (cases "m = n")
        case True
        with h(3) nin s(2) show ?thesis by auto
      next
        case False
        with that have "m \<in> set ns" by simp
        with h(2) s(2) other show ?thesis by auto
      qed
      have b: "gm_int ind' x = gm_int ind x" if "x \<notin> set (map nd_NodeID (n # ns))" for x using that h(3) s(2) by auto
      from h(1) l st Inr \<open>r = (a, dts')\<close> a b show ?thesis by (simp del: link_nodes.simps steps_link.simps list.map)
    qed
  qed
qed

text \<open>
  C25. \<^verbatim>\<open>orderedProgramNodes\<close> sorts the nodes of a program topologically, and always ends: if the
  node ids are present and distinct, every dependency names a node and the dependencies have no
  cycle, the result is a permutation of the nodes in which every node comes after all nodes it
  depends on; if there is a cycle, the result is the cycle error; if the graph is malformed, the
  result is the error for a missing id, a duplicate id or an unknown dependency.
\<close>

theorem orderedProgramNodes_correct:
  "if graph_ok (pg_Nodes p) then
     if acyclic (dep_rel (pg_Nodes p))
     then \<exists>out. orderedProgramNodes p = Inr out \<and> mset out = mset (pg_Nodes p) \<and> topo_sorted (pg_Nodes p) (map nd_NodeID out)
     else orderedProgramNodes p = Inl ErrProgramCycleDetected
   else \<exists>e. orderedProgramNodes p = Inl e \<and>
     (errors_is e ErrProgramMissingNodeID \<or> errors_is e ErrProgramDuplicateNodeID \<or> errors_is e ErrProgramDependencyNotFound)"
proof (cases "graph_ok (pg_Nodes p)")
  case ok: True
  let ?ns = "pg_Nodes p"
  from ok obtain idx ind dts where b: "index_nodes 0 ?ns [] = Inr idx" "link_nodes idx ?ns [] [] = Inr (ind, dts)"
    "\<forall>j<length ?ns. gm_get idx (nd_NodeID (?ns ! j)) = Some j" "\<forall>x. gm_list dts x = waiting ?ns x"
    "\<forall>n\<in>set ?ns. gm_int ind (nd_NodeID n) = int (length (nd_DependsOn n))" by (rule graph_built)
  define D where "D = node_queue dts ind (initial_queue ?ns ind)"
  from node_queue_inv[OF ok b(4) queue_inv_init[OF ok b(5)]] obtain ind' where "queue_inv ?ns D ind' []" by (auto simp: D_def)
  note fin = queue_end[OF ok this]
  have res: "orderedProgramNodes p = (if length D \<noteq> length ?ns then Inl ErrProgramCycleDetected else Inr (map (node_at ?ns idx) D))"
    by (simp add: orderedProgramNodes_def b(1,2) D_def Let_def)
  show ?thesis
  proof (cases "acyclic (dep_rel ?ns)")
    case True
    with fin have m: "mset D = mset (map nd_NodeID ?ns)" "topo_sorted ?ns D" by auto
    then have "length D = length ?ns" by (metis length_map mset_eq_length)
    moreover note nodes_of_ids[OF node_at_id[OF b(3)] m(1)]
    ultimately show ?thesis using True ok res m(2) by simp
  next
    case False
    with fin ok res show ?thesis by simp
  qed
next
  case False
  with graph_refused[OF False] show ?thesis
    by (auto simp: orderedProgramNodes_def split: sum.splits)
qed

end
