(* ===== verification/Program_Compile.thy ===== *)
theory Program_Compile
  imports Program_Order Capability
begin

text \<open>
  Compilation of program nodes into steps: \<^verbatim>\<open>pkg/harness/runtime\<close> program.go (the part that needs no
  service), program_compile.go, program_fanout.go, program_binding_compile.go, program_verify_scope.go
  and the pinning of a step to a capability view of capability_freeze.go. A node becomes one step, or
  one step per target, which share an aggregate. A program can be compiled on its own
  (\<^verbatim>\<open>stepFromProgramNode\<close>) or attached to a step of a plan (\<^verbatim>\<open>compileAttachedProgramNodeStep\<close>).
\<close>

section \<open>Bindings\<close>

text \<open>\<^verbatim>\<open>applyCompiledProgramBindings\<close>: the arguments it has written and the bindings left for run time.\<close>

fun applyCompiledProgramBindings :: "meta \<Rightarrow> input_binding list \<Rightarrow> goerr + (meta \<times> input_binding list)" where
  "applyCompiledProgramBindings args [] = Inr (args, [])"
| "applyCompiledProgramBindings args (b # bs) =
     (let later = (case applyCompiledProgramBindings args bs of
                     Inl e \<Rightarrow> Inl e | Inr (args', unresolved) \<Rightarrow> Inr (args', b # unresolved))
      in if ib_Kind b = ProgramInputBindingOther [] \<or> ib_Kind b = ProgramInputBindingLiteral
         then applyCompiledProgramBindings (gm_put (ib_Name b) (ib_Value b) args) bs
         else if ib_Kind b = ProgramInputBindingOutputRef then later
         else if ib_Kind b = ProgramInputBindingAttachment then
           (case ib_Attachment b of
              None \<Rightarrow> Inl ErrProgramAttachmentUnsupported
            | Some a \<Rightarrow>
                if ai_Materialize a \<noteq> AttachmentMaterializeOther [] \<and> ai_Materialize a \<noteq> AttachmentMaterializeNone then later
                else (case ai_Kind a of
                        AttachmentInputText \<Rightarrow> applyCompiledProgramBindings (gm_put (ib_Name b) (VStr (ai_Text a)) args) bs
                      | AttachmentInputBytes \<Rightarrow> applyCompiledProgramBindings (gm_put (ib_Name b) (VBytes (ai_Bytes a)) args) bs
                      | AttachmentInputArtifactRef \<Rightarrow> later
                      | AttachmentInputOther _ \<Rightarrow> Inl ErrProgramAttachmentUnsupported))
         else Inl ErrProgramInputBindingUnsupported)"

section \<open>Fan-out and verification scope\<close>

definition normalizedProgramTargetFailureStrategy :: "target_selection option \<Rightarrow> TargetFailureStrategy" where
  "normalizedProgramTargetFailureStrategy selection =
     (case selection of None \<Rightarrow> TargetFailureAbort
      | Some s \<Rightarrow> if sel_OnPartialFailure s = [] then TargetFailureAbort else sel_OnPartialFailure s)"

definition normalizedProgramTargetMaxConcurrency :: "target_selection option \<Rightarrow> int \<Rightarrow> int" where
  "normalizedProgramTargetMaxConcurrency selection targetCount =
     (case selection of None \<Rightarrow> 0 | Some s \<Rightarrow> EffectiveMaxConcurrency s targetCount)"

definition fanout_on_fail :: "on_fail \<Rightarrow> program_node \<Rightarrow> int \<Rightarrow> on_fail" where
  "fanout_on_fail out node fanoutCount =
     (if 1 < fanoutCount \<and> normalizedProgramTargetFailureStrategy (nd_Targeting node) = TargetFailureContinue
      then out\<lparr>of_Strategy := TargetFailureContinue\<rparr> else out)"

definition compileRuntimeProgramNodeOnFail :: "program_node \<Rightarrow> int \<Rightarrow> on_fail" where
  "compileRuntimeProgramNodeOnFail node fanoutCount =
     fanout_on_fail (case nd_OnFail node of Some o' \<Rightarrow> o' | None \<Rightarrow> \<lparr>of_Strategy = [], of_MaxRetries = 0, of_BackoffMS = 0\<rparr>)
       node fanoutCount"

definition compileAttachedProgramNodeOnFail :: "on_fail \<Rightarrow> program_node \<Rightarrow> int \<Rightarrow> on_fail" where
  "compileAttachedProgramNodeOnFail parent node fanoutCount =
     fanout_on_fail (case nd_OnFail node of Some o' \<Rightarrow> o' | None \<Rightarrow> parent) node fanoutCount"

definition applyProgramNodeAggregateMetadata :: "meta \<Rightarrow> string \<Rightarrow> string \<Rightarrow> string \<Rightarrow> string
    \<Rightarrow> TargetFailureStrategy \<Rightarrow> int \<Rightarrow> int \<Rightarrow> meta" where
  "applyProgramNodeAggregateMetadata metadata aggregateID programID nodeID title strategy expected maxConcurrency =
     (if expected \<le> 1 then metadata
      else ApplyAggregateConcurrencyMetadata
             (ApplyAggregateMetadata metadata AggregateScopeTargetFanout aggregateID programID nodeID title strategy expected)
             maxConcurrency)"

definition compiledProgramVerifyScope :: "program_node \<Rightarrow> int \<Rightarrow> VerificationScope" where
  "compiledProgramVerifyScope node fanoutCount =
     (let scope = nd_VerifyScope node
      in if fanoutCount \<le> 1 then (if scope = [] then VerificationScopeStep else scope)
         else if scope = [] \<or> scope = VerificationScopeTarget then VerificationScopeTarget
         else if scope = VerificationScopeStep \<or> scope = VerificationScopeAggregate then VerificationScopeAggregate
         else scope)"

definition compileProgramNodeVerifySpec :: "program_node \<Rightarrow> int \<Rightarrow> verify_spec" where
  "compileProgramNodeVerifySpec node fanoutCount =
     (case nd_Verify node of
        None \<Rightarrow> zero_verify_spec
      | Some v \<Rightarrow> if 1 < fanoutCount \<and> compiledProgramVerifyScope node fanoutCount = VerificationScopeAggregate
                  then zero_verify_spec else v)"

abbreviation "programVerifyScopeMetadataKey \<equiv> ''program_verify_scope''"
abbreviation "programAggregateVerifyMetadataKey \<equiv> ''program_aggregate_verify''"

definition applyProgramVerifyMetadata :: "meta \<Rightarrow> program_node \<Rightarrow> int \<Rightarrow> meta" where
  "applyProgramVerifyMetadata metadata node fanoutCount =
     (let scope = compiledProgramVerifyScope node fanoutCount;
          metadata = put_if (scope \<noteq> []) programVerifyScopeMetadataKey (VStr scope) metadata
      in case nd_Verify node of
           Some v \<Rightarrow> put_if (1 < fanoutCount \<and> scope = VerificationScopeAggregate) programAggregateVerifyMetadataKey (enc_verify v) metadata
         | None \<Rightarrow> metadata)"

definition programVerifyScopeFromStep :: "step \<Rightarrow> VerificationScope" where
  "programVerifyScopeFromStep s =
     (if sp_Metadata s = [] then VerificationScopeStep
      else let scope = as_string (gm_get (sp_Metadata s) programVerifyScopeMetadataKey)
           in if scope = [] then VerificationScopeStep else scope)"

definition programAggregateVerifySpecFromStep :: "json_codec \<Rightarrow> step \<Rightarrow> verify_spec option" where
  "programAggregateVerifySpecFromStep js s =
     (if sp_Metadata s = [] then None
      else case gm_get (sp_Metadata s) programAggregateVerifyMetadataKey of
        None \<Rightarrow> None
      | Some VNil \<Rightarrow> None
      | Some (VStruct ty fs) \<Rightarrow>
          if ty = ''verify.Spec'' then Some (dec_verify (VStruct ty fs))
          else if ty = ''*verify.Spec'' then (if fs = [] then None else Some (dec_verify (VStruct ty fs)))
          else js_Verify js (VStruct ty fs)
      | Some raw \<Rightarrow> js_Verify js raw)"

section \<open>Names\<close>

definition firstNonEmptyProgramValue :: "string list \<Rightarrow> string" where
  "firstNonEmptyProgramValue values = (case List.find (\<lambda>v. v \<noteq> []) values of Some v \<Rightarrow> v | None \<Rightarrow> [])"

definition programChangeReason :: "program \<Rightarrow> string" where
  "programChangeReason p = (if pg_ProgramID p = [] then ''runtime/program'' else ''runtime/program'' @ '':'' @ pg_ProgramID p)"

definition with_target_id :: "string \<Rightarrow> target option \<Rightarrow> string" where
  "with_target_id base target = (case target of None \<Rightarrow> base
     | Some t \<Rightarrow> if tg_TargetID t = [] then base else base @ ''__'' @ tg_TargetID t)"

definition compiledRuntimeProgramNodeStepID :: "program \<Rightarrow> string \<Rightarrow> target option \<Rightarrow> string" where
  "compiledRuntimeProgramNodeStepID p nodeID target =
     with_target_id (if pg_ProgramID p \<noteq> [] then pg_ProgramID p @ ''__'' @ nodeID else nodeID) target"

definition compiledRuntimeProgramNodeTitle :: "program_node \<Rightarrow> target option \<Rightarrow> string" where
  "compiledRuntimeProgramNodeTitle node target =
     (let title = firstNonEmptyProgramValue [nd_Title node, an_ToolName (nd_Action node), nd_NodeID node]
      in case target of None \<Rightarrow> title
         | Some t \<Rightarrow> let label = firstNonEmptyProgramValue [tg_DisplayName t, tg_TargetID t]
                     in if label = [] then title else title @ '' @ '' @ label)"

definition compiledAttachedProgramNodeStepID :: "string \<Rightarrow> program \<Rightarrow> string \<Rightarrow> target option \<Rightarrow> string" where
  "compiledAttachedProgramNodeStepID parentStepID p nodeID target =
     with_target_id (if pg_ProgramID p \<noteq> [] then parentStepID @ ''__'' @ pg_ProgramID p @ ''__'' @ nodeID
                     else parentStepID @ ''__'' @ nodeID) target"

definition compiledAttachedProgramNodeTitle :: "string \<Rightarrow> program_node \<Rightarrow> target option \<Rightarrow> string" where
  "compiledAttachedProgramNodeTitle parentTitle node target =
     (if parentTitle \<noteq> [] \<and> nd_Title node \<noteq> [] then
        (if target \<noteq> None then parentTitle @ '': '' @ compiledRuntimeProgramNodeTitle node target
         else parentTitle @ '': '' @ nd_Title node)
      else if nd_Title node \<noteq> [] then
        (if target \<noteq> None then compiledRuntimeProgramNodeTitle node target else nd_Title node)
      else if parentTitle \<noteq> [] then
        (if target \<noteq> None then parentTitle @ '': '' @ compiledRuntimeProgramNodeTitle node target
         else parentTitle @ '': '' @ nd_NodeID node)
      else if target \<noteq> None then compiledRuntimeProgramNodeTitle node target else nd_NodeID node)"

definition compiledProgramID :: "step \<Rightarrow> program \<Rightarrow> string" where
  "compiledProgramID s p = (if pg_ProgramID p \<noteq> [] then pg_ProgramID p else sp_StepID s)"

section \<open>A program on its own\<close>

definition targetsForProgramNode :: "program_node \<Rightarrow> goerr + target list" where
  "targetsForProgramNode node =
     (case nd_Targeting node of
        None \<Rightarrow> Inr []
      | Some sel \<Rightarrow>
          if sel_Mode sel = TargetSelectionFanoutAll then Inl ErrProgramTargetDiscoveryUnsupported
          else if sel_Targets sel = [] then
            (if MultiTargetRequested sel then Inl ErrProgramMultiTargetUnsupported else Inr [])
          else Inr (sel_Targets sel))"

text \<open>The metadata that every compiled step of a node gets.\<close>

definition node_metadata :: "meta \<Rightarrow> string \<Rightarrow> string \<Rightarrow> program_node \<Rightarrow> target option \<Rightarrow> int \<Rightarrow> int \<Rightarrow> meta" where
  "node_metadata md aggregateID programID node target index cnt =
     (let md = applyProgramNodeAggregateMetadata md aggregateID programID (nd_NodeID node)
                 (firstNonEmptyProgramValue [nd_Title node, an_ToolName (nd_Action node), nd_NodeID node])
                 (normalizedProgramTargetFailureStrategy (nd_Targeting node)) cnt
                 (normalizedProgramTargetMaxConcurrency (nd_Targeting node) cnt);
          md = applyProgramVerifyMetadata md node cnt
      in case target of None \<Rightarrow> md | Some t \<Rightarrow> ApplyTargetMetadata md t index cnt)"

definition node_args :: "meta \<Rightarrow> target option \<Rightarrow> meta" where
  "node_args args target = (case target of None \<Rightarrow> args | Some t \<Rightarrow> gm_put ''execution_target'' (VMap (TargetArgValue t)) args)"

definition stepFromProgramNode :: "program \<Rightarrow> program_node \<Rightarrow> target option \<Rightarrow> int \<Rightarrow> int \<Rightarrow> string \<Rightarrow> goerr + step" where
  "stepFromProgramNode p node target index cnt aggregateID =
     (case applyCompiledProgramBindings (an_Args (nd_Action node)) (nd_InputBinds node) of
        Inl e \<Rightarrow> Inl e
      | Inr (args, unresolvedBindings) \<Rightarrow>
          let s = zero_step\<lparr>
                sp_StepID := compiledRuntimeProgramNodeStepID p (nd_NodeID node) target,
                sp_Title := compiledRuntimeProgramNodeTitle node target,
                sp_Action := (nd_Action node)\<lparr>an_Args := node_args args target\<rparr>,
                sp_Verify := compileProgramNodeVerifySpec node cnt,
                sp_OnFail := compileRuntimeProgramNodeOnFail node cnt,
                sp_Status := StepPending,
                sp_Metadata := nd_Metadata node\<rparr>;
              s = AttachProgramInputBindings s unresolvedBindings;
              md = put_if (pg_ProgramID p \<noteq> []) ProgramMetadataKeyID (VStr (pg_ProgramID p)) (sp_Metadata s);
              md = gm_put ProgramMetadataKeyNodeID (VStr (nd_NodeID node)) md
          in Inr (s\<lparr>sp_Metadata := node_metadata md aggregateID (pg_ProgramID p) node target index cnt\<rparr>))"

text \<open>The loops over the targets of a node; positions count from one.\<close>

fun compile_targets :: "(target option \<Rightarrow> int \<Rightarrow> goerr + step) \<Rightarrow> int \<Rightarrow> target list \<Rightarrow> goerr + step list" where
  "compile_targets f index [] = Inr []"
| "compile_targets f index (t # ts) =
     (case f (Some t) index of
        Inl e \<Rightarrow> Inl e
      | Inr s \<Rightarrow> (case compile_targets f (index + 1) ts of Inl e \<Rightarrow> Inl e | Inr ss \<Rightarrow> Inr (s # ss)))"

definition expand_targets :: "program \<Rightarrow> program_node \<Rightarrow> target list \<Rightarrow> goerr + step list" where
  "expand_targets p node targets =
     (if targets = [] then
        (case stepFromProgramNode p node None 0 0 [] of Inl e \<Rightarrow> Inl e | Inr s \<Rightarrow> Inr [s])
      else let aggregateID = compiledRuntimeProgramNodeStepID p (nd_NodeID node) None
           in compile_targets (\<lambda>target index. stepFromProgramNode p node target index (int (length targets)) aggregateID) 1 targets)"

section \<open>Capability views\<close>

abbreviation "capabilityViewMetadataKey \<equiv> ''capability_view_id''"
abbreviation "capabilityPlanReasonKey \<equiv> ''capability_plan_reason''"
abbreviation "capabilityFreezeReasonValue \<equiv> ''planner frozen capability view''"

text \<open>With a requested version the first match, without one the last entry of the tool.\<close>

fun findFrozenCapabilityEntry :: "snapshot list \<Rightarrow> string \<Rightarrow> string \<Rightarrow> snapshot option \<Rightarrow> snapshot option" where
  "findFrozenCapabilityEntry [] toolName requestedVersion matched = matched"
| "findFrozenCapabilityEntry (entry # entries) toolName requestedVersion matched =
     (if sn_ToolName entry \<noteq> toolName then findFrozenCapabilityEntry entries toolName requestedVersion matched
      else if requestedVersion \<noteq> [] then
        (if sn_Version entry = requestedVersion then Some entry
         else findFrozenCapabilityEntry entries toolName requestedVersion matched)
      else findFrozenCapabilityEntry entries toolName requestedVersion (Some entry))"

definition pinStepToCapabilityView :: "step \<Rightarrow> cap_view \<Rightarrow> step" where
  "pinStepToCapabilityView s view =
     (let s = (if cv_ViewID view \<noteq> []
               then s\<lparr>sp_Metadata := gm_put capabilityPlanReasonKey (VStr capabilityFreezeReasonValue)
                        (gm_put capabilityViewMetadataKey (VStr (cv_ViewID view)) (sp_Metadata s))\<rparr> else s)
      in if an_ToolName (sp_Action s) = [] then s
         else case findFrozenCapabilityEntry (cv_Entries view) (an_ToolName (sp_Action s)) (an_ToolVersion (sp_Action s)) None of
                Some entry \<Rightarrow> if an_ToolVersion (sp_Action s) = []
                  then s\<lparr>sp_Action := (sp_Action s)\<lparr>an_ToolVersion := sn_Version entry\<rparr>\<rparr> else s
              | None \<Rightarrow> s)"

definition capabilityViewIDFromStep :: "step \<Rightarrow> string" where
  "capabilityViewIDFromStep s = (if sp_Metadata s = [] then [] else as_string (gm_get (sp_Metadata s) capabilityViewMetadataKey))"

definition empty_view :: cap_view where
  "empty_view = \<lparr>cv_ViewID = [], cv_SessionID = [], cv_TaskID = [], cv_Entries = [], cv_FrozenAt = 0\<rparr>"

section \<open>A program attached to a step\<close>

abbreviation "programCompiledMetadataKey \<equiv> ''program_compiled''"
abbreviation "programParentStepMetadataKey \<equiv> ''program_parent_step_id''"
abbreviation "programDependsOnMetadataKey \<equiv> ''program_depends_on''"

definition compileAttachedProgramNodeStep :: "step \<Rightarrow> program \<Rightarrow> program_node \<Rightarrow> target option \<Rightarrow> int \<Rightarrow> int
    \<Rightarrow> string \<Rightarrow> cap_view \<Rightarrow> goerr + step" where
  "compileAttachedProgramNodeStep parent p node target index cnt aggregateID view =
     (case applyCompiledProgramBindings (an_Args (nd_Action node)) (nd_InputBinds node) of
        Inl e \<Rightarrow> Inl (ErrWrap (nd_NodeID node) e)
      | Inr (args, unresolvedBindings) \<Rightarrow>
          let compiled = zero_step\<lparr>
                sp_StepID := compiledAttachedProgramNodeStepID (sp_StepID parent) p (nd_NodeID node) target,
                sp_Title := compiledAttachedProgramNodeTitle (sp_Title parent) node target,
                sp_Action := \<lparr>an_ToolName = an_ToolName (nd_Action node), an_ToolVersion = an_ToolVersion (nd_Action node), an_Args = args\<rparr>,
                sp_Verify := compileProgramNodeVerifySpec node cnt,
                sp_OnFail := compileAttachedProgramNodeOnFail (sp_OnFail parent) node cnt,
                sp_Metadata := sp_Metadata parent\<rparr>;
              compiled = (if cv_ViewID view \<noteq> [] then pinStepToCapabilityView compiled view else compiled);
              md = gm_put programCompiledMetadataKey (VBool True) (sp_Metadata compiled);
              md = gm_put ProgramMetadataKeyID (VStr (compiledProgramID parent p)) md;
              md = gm_put programParentStepMetadataKey (VStr (sp_StepID parent)) md;
              md = gm_put ProgramMetadataKeyNodeID (VStr (nd_NodeID node)) md;
              md = put_if (0 < length (nd_DependsOn node)) programDependsOnMetadataKey (VStrings (nd_DependsOn node)) md;
              md = node_metadata md aggregateID (compiledProgramID parent p) node target index cnt;
              compiled = compiled\<lparr>sp_Metadata := md,
                sp_Action := (sp_Action compiled)\<lparr>an_Args := node_args (an_Args (sp_Action compiled)) target\<rparr>\<rparr>
          in Inr (AttachProgramInputBindings compiled unresolvedBindings))"

definition compileAttachedProgramNodeSteps :: "step \<Rightarrow> program \<Rightarrow> cap_view \<Rightarrow> program_node \<Rightarrow> goerr + step list" where
  "compileAttachedProgramNodeSteps parent p view node =
     (case targetsForProgramNode node of
        Inl e \<Rightarrow> Inl e
      | Inr targets \<Rightarrow>
          if targets = [] then
            (case compileAttachedProgramNodeStep parent p node None 0 0 [] view of Inl e \<Rightarrow> Inl e | Inr s \<Rightarrow> Inr [s])
          else let aggregateID = compiledAttachedProgramNodeStepID (sp_StepID parent) p (nd_NodeID node) None
               in compile_targets (\<lambda>target index.
                    compileAttachedProgramNodeStep parent p node target index (int (length targets)) aggregateID view) 1 targets)"

text \<open>Loops that expand each element and append the results, stopping at the first error.\<close>

fun expand_all :: "('a \<Rightarrow> goerr + 'b list) \<Rightarrow> 'a list \<Rightarrow> goerr + 'b list" where
  "expand_all f [] = Inr []"
| "expand_all f (x # xs) =
     (case f x of Inl e \<Rightarrow> Inl e
      | Inr ys \<Rightarrow> (case expand_all f xs of Inl e \<Rightarrow> Inl e | Inr zs \<Rightarrow> Inr (ys @ zs)))"

definition expandProgramStep :: "json_codec \<Rightarrow> cap_view \<Rightarrow> step \<Rightarrow> goerr + step list" where
  "expandProgramStep js view s =
     (case ProgramFromStep js s of
        None \<Rightarrow> if cv_ViewID view \<noteq> [] then Inr [pinStepToCapabilityView s view] else Inr [s]
      | Some p \<Rightarrow>
          (case orderedProgramNodes p of
             Inl e \<Rightarrow> Inl e
           | Inr ordered \<Rightarrow>
               if ordered = [] then Inl (ErrOther (''program step has no nodes: '' @ sp_StepID s))
               else expand_all (compileAttachedProgramNodeSteps s p view) ordered))"

definition normalizePlanStepsForStorageWithCapabilityView :: "json_codec \<Rightarrow> cap_view \<Rightarrow> step list \<Rightarrow> goerr + step list" where
  "normalizePlanStepsForStorageWithCapabilityView js view steps = expand_all (expandProgramStep js view) steps"

definition normalizePlanStepsForStorage :: "json_codec \<Rightarrow> step list \<Rightarrow> goerr + step list" where
  "normalizePlanStepsForStorage js steps = normalizePlanStepsForStorageWithCapabilityView js empty_view steps"

section \<open>What the metadata of a compiled step holds\<close>

text \<open>The keys that compilation writes; every other key of a step's metadata stays.\<close>

definition compile_keys :: "string list" where
  "compile_keys = [''program_compiled'', ''program_id'', ''program_parent_step_id'', ''program_node_id'', ''program_depends_on'',
     ''aggregate_id'', ''aggregate_scope'', ''aggregate_strategy'', ''aggregate_expected'', ''aggregate_title'',
     ''aggregate_max_concurrency'', ''program_verify_scope'', ''program_aggregate_verify'',
     ''target_id'', ''target_kind'', ''target_display_name'', ''target_index'', ''target_count'',
     ''capability_view_id'', ''capability_plan_reason'', ''execution_program_input_bindings'']"

lemma node_metadata_other:
  assumes "k \<notin> set compile_keys"
  shows "gm_get (node_metadata md aid pid node target i n) k = gm_get md k"
proof -
  have "gm_get (applyProgramNodeAggregateMetadata md a b c d e x y) k = gm_get md k" for md a b c d e x y
    using assms by (simp add: applyProgramNodeAggregateMetadata_def ApplyAggregateConcurrencyMetadata_def ApplyAggregateMetadata_get compile_keys_def)
  moreover have "gm_get (applyProgramVerifyMetadata md node n) k = gm_get md k" for md
    using assms by (simp add: applyProgramVerifyMetadata_def Let_def put_if_get compile_keys_def split: option.split)
  moreover have "gm_get (ApplyTargetMetadata md t i n) k = gm_get md k" for md t
    using assms by (simp add: ApplyTargetMetadata_get compile_keys_def)
  ultimately show ?thesis by (simp add: node_metadata_def Let_def split: option.split)
qed

lemma bindings_metadata_other:
  assumes "k \<notin> set compile_keys"
  shows "gm_get (sp_Metadata (AttachProgramInputBindings s bs)) k = gm_get (sp_Metadata s) k"
  using assms by (simp add: AttachProgramInputBindings_def compile_keys_def)

lemma pin_metadata_other:
  assumes "k \<notin> set compile_keys"
  shows "gm_get (sp_Metadata (pinStepToCapabilityView s view)) k = gm_get (sp_Metadata s) k"
  using assms by (simp add: pinStepToCapabilityView_def Let_def compile_keys_def split: option.split)

lemma compileAttached_metadata_other:
  assumes "compileAttachedProgramNodeStep parent p node target i n aid view = Inr s" "k \<notin> set compile_keys"
  shows "gm_get (sp_Metadata s) k = gm_get (sp_Metadata parent) k"
proof -
  have nk: "k \<noteq> ''program_compiled''" "k \<noteq> ''program_id''" "k \<noteq> ''program_parent_step_id''" "k \<noteq> ''program_node_id''"
    "k \<noteq> ''program_depends_on''" using assms(2) by (auto simp: compile_keys_def)
  from assms(1) show ?thesis
    by (auto simp: compileAttachedProgramNodeStep_def Let_def bindings_metadata_other[OF assms(2)] node_metadata_other[OF assms(2)]
        put_if_get nk pin_metadata_other[OF assms(2)] split: sum.splits prod.splits)
qed

lemma compile_targets_all:
  assumes "compile_targets f i ts = Inr ss"
  shows "length ss = length ts \<and> (\<forall>j<length ts. f (Some (ts ! j)) (i + int j) = Inr (ss ! j))"
  using assms
proof (induction ts arbitrary: i ss)
  case (Cons t ts)
  from Cons.prems obtain s ss' where s: "f (Some t) i = Inr s" "compile_targets f (i + 1) ts = Inr ss'" "ss = s # ss'"
    by (auto split: sum.splits)
  from Cons.IH[OF s(2)] s show ?case by (auto simp: less_Suc_eq_0_disj add_ac)
qed simp

lemma compile_targets_set:
  "compile_targets f i ts = Inr ss \<Longrightarrow> s \<in> set ss \<Longrightarrow> \<exists>t j. f (Some t) j = Inr s"
  using compile_targets_all[of f i ts ss] by (metis in_set_conv_nth)

lemma expand_all_result:
  "expand_all f xs = Inr ys \<Longrightarrow> \<exists>yss. map f xs = map Inr yss \<and> ys = concat yss"
proof (induction xs arbitrary: ys)
  case Nil
  then show ?case by (intro exI[of _ "[]"]) simp
next
  case (Cons x xs)
  from Cons.prems obtain y ys' where h: "f x = Inr y" "expand_all f xs = Inr ys'" "ys = y @ ys'" by (auto split: sum.splits)
  from Cons.IH[OF h(2)] obtain yss where "map f xs = map Inr yss" "ys' = concat yss" by blast
  with h show ?case by (intro exI[of _ "y # yss"]) simp
qed

lemma compileAttachedSteps_set:
  assumes "compileAttachedProgramNodeSteps parent p view node = Inr ss"
  shows "ss \<noteq> []" "s \<in> set ss \<Longrightarrow> \<exists>target i n aid. compileAttachedProgramNodeStep parent p node target i n aid view = Inr s"
proof -
  from assms obtain ts where ts: "targetsForProgramNode node = Inr ts"
    by (auto simp: compileAttachedProgramNodeSteps_def split: sum.splits)
  show "ss \<noteq> []"
    using assms ts compile_targets_all by (fastforce simp: compileAttachedProgramNodeSteps_def Let_def split: if_splits sum.splits)
  show "\<exists>target i n aid. compileAttachedProgramNodeStep parent p node target i n aid view = Inr s" if "s \<in> set ss"
  proof (cases "ts = []")
    case True
    with assms ts that have "compileAttachedProgramNodeStep parent p node None 0 0 [] view = Inr s"
      by (auto simp: compileAttachedProgramNodeSteps_def split: sum.splits)
    then show ?thesis by (intro exI)
  next
    case False
    with assms ts that show ?thesis
      by (auto simp: compileAttachedProgramNodeSteps_def Let_def dest!: compile_targets_set)
  qed
qed

lemma ProgramFromStep_cong:
  assumes "gm_get (sp_Metadata s) StepMetadataProgramKey = gm_get (sp_Metadata t) StepMetadataProgramKey"
  shows "ProgramFromStep js s = ProgramFromStep js t"
proof (cases "gm_get (sp_Metadata t) StepMetadataProgramKey")
  case None
  with assms show ?thesis by (simp add: ProgramFromStep_def)
next
  case (Some v)
  with assms have "sp_Metadata s \<noteq> []" "sp_Metadata t \<noteq> []" by auto
  with assms show ?thesis by (simp add: ProgramFromStep_def)
qed

section \<open>Properties\<close>

text \<open>
  An attached program is never executable. Expanding a step that carries a program gives steps
  that all still carry that program: the metadata of the parent, with the program in it, is copied
  into every compiled step. Both the step runner (runner.go, \<^verbatim>\<open>runStepWithDecision\<close>) and the fan-out
  scheduler refuse such a step with \<^verbatim>\<open>ErrProgramStepNotCompiled\<close>, and storing the steps in another plan
  expands each of them once more. The documentation presents attached programs as a supported way
  to run a program.
\<close>

theorem attached_program_stays:
  assumes "ProgramFromStep js s = Some p" "expandProgramStep js view s = Inr steps"
  shows "steps \<noteq> [] \<and> (\<forall>t\<in>set steps. ProgramFromStep js t = Some p)"
proof -
  from assms obtain ordered where o: "ordered \<noteq> []" "expand_all (compileAttachedProgramNodeSteps s p view) ordered = Inr steps"
    by (auto simp: expandProgramStep_def split: sum.splits if_splits)
  from expand_all_result[OF o(2)] obtain yss where y: "map (compileAttachedProgramNodeSteps s p view) ordered = map Inr yss" "steps = concat yss" by blast
  have each: "\<exists>node. compileAttachedProgramNodeSteps s p view node = Inr ys" if "ys \<in> set yss" for ys
  proof -
    from that have "Inr ys \<in> set (map (compileAttachedProgramNodeSteps s p view) ordered)" unfolding y(1) by simp
    then show ?thesis by auto
  qed
  have "yss \<noteq> []" using y(1) o(1) by auto
  then have "hd yss \<noteq> []" using each[of "hd yss"] compileAttachedSteps_set(1) hd_in_set by metis
  with \<open>yss \<noteq> []\<close> have "steps \<noteq> []" using y(2) by (cases yss) auto
  moreover have "ProgramFromStep js t = Some p" if "t \<in> set steps" for t
  proof -
    from that y(2) obtain ys where "ys \<in> set yss" "t \<in> set ys" by auto
    with each compileAttachedSteps_set(2) obtain node target i n aid where
      "compileAttachedProgramNodeStep s p node target i n aid view = Inr t" by blast
    then have "gm_get (sp_Metadata t) StepMetadataProgramKey = gm_get (sp_Metadata s) StepMetadataProgramKey"
      by (rule compileAttached_metadata_other) (simp add: compile_keys_def)
    then show ?thesis using ProgramFromStep_cong assms(1) by metis
  qed
  ultimately show ?thesis by blast
qed

definition ex_action :: action_spec where
  "ex_action = \<lparr>an_ToolName = ''shell'', an_ToolVersion = [], an_Args = []\<rparr>"

definition ex_node :: "string \<Rightarrow> target_selection option \<Rightarrow> string list \<Rightarrow> program_node" where
  "ex_node nid targeting deps = \<lparr>nd_NodeID = nid, nd_Title = [], nd_Action = ex_action, nd_Verify = None, nd_VerifyScope = [],
     nd_OnFail = None, nd_Targeting = targeting, nd_DependsOn = deps, nd_InputBinds = [], nd_Metadata = []\<rparr>"

definition ex_program :: program where
  "ex_program = \<lparr>pg_ProgramID = [], pg_EntryNodes = [], pg_Nodes = [ex_node ''b'' None [''a''], ex_node ''a'' None []], pg_Metadata = []\<rparr>"

definition no_json :: json_codec where
  "no_json = \<lparr>js_Program = (\<lambda>_. None), js_Bindings = (\<lambda>_. None), js_Verify = (\<lambda>_. None)\<rparr>"

lemma ex_program_expands:
  "case expandProgramStep no_json empty_view (AttachProgram (zero_step\<lparr>sp_StepID := ''s''\<rparr>) ex_program) of
     Inl _ \<Rightarrow> False | Inr steps \<Rightarrow> map sp_StepID steps = [''s__a'', ''s__b'']"
  by code_simp

theorem attached_program_stays_witness:
  "\<exists>steps. expandProgramStep no_json empty_view (AttachProgram (zero_step\<lparr>sp_StepID := ''s''\<rparr>) ex_program) = Inr steps
     \<and> map sp_StepID steps = [''s__a'', ''s__b''] \<and> (\<forall>t\<in>set steps. ProgramFromStep no_json t = Some ex_program)"
proof -
  obtain steps where s: "expandProgramStep no_json empty_view (AttachProgram (zero_step\<lparr>sp_StepID := ''s''\<rparr>) ex_program) = Inr steps"
    "map sp_StepID steps = [''s__a'', ''s__b'']" using ex_program_expands by (auto split: sum.splits)
  have "ProgramFromStep no_json (AttachProgram (zero_step\<lparr>sp_StepID := ''s''\<rparr>) ex_program) = Some ex_program" by simp
  from attached_program_stays[OF this s(1)] have "\<forall>t\<in>set steps. ProgramFromStep no_json t = Some ex_program" by (rule conjunct2)
  with s show ?thesis by (intro exI[of _ steps] conjI)
qed

section \<open>Fan-out steps and their aggregate\<close>

lemma node_metadata_aggregate:
  assumes "1 < n" "aid \<noteq> []"
  shows "gm_get (node_metadata md aid pid node target i n) ''aggregate_id'' = Some (VStr aid)"
    "gm_get (node_metadata md aid pid node target i n) ''aggregate_scope'' = Some (VStr AggregateScopeTargetFanout)"
    "gm_get (node_metadata md aid pid node target i n) ''aggregate_expected'' = Some (VInt n)"
    "gm_get (node_metadata md aid pid node target i n) ''aggregate_strategy'' =
       Some (VStr (normalizedProgramTargetFailureStrategy (nd_Targeting node)))"
    "0 < normalizedProgramTargetMaxConcurrency (nd_Targeting node) n \<Longrightarrow>
     gm_get (node_metadata md aid pid node target i n) ''aggregate_max_concurrency'' =
       Some (VInt (normalizedProgramTargetMaxConcurrency (nd_Targeting node) n))"
proof -
  have "normalizedProgramTargetFailureStrategy (nd_Targeting node) \<noteq> []"
    by (simp add: normalizedProgramTargetFailureStrategy_def split: option.split)
  then show
    "gm_get (node_metadata md aid pid node target i n) ''aggregate_id'' = Some (VStr aid)"
    "gm_get (node_metadata md aid pid node target i n) ''aggregate_scope'' = Some (VStr AggregateScopeTargetFanout)"
    "gm_get (node_metadata md aid pid node target i n) ''aggregate_expected'' = Some (VInt n)"
    "gm_get (node_metadata md aid pid node target i n) ''aggregate_strategy'' =
       Some (VStr (normalizedProgramTargetFailureStrategy (nd_Targeting node)))"
    "0 < normalizedProgramTargetMaxConcurrency (nd_Targeting node) n \<Longrightarrow>
     gm_get (node_metadata md aid pid node target i n) ''aggregate_max_concurrency'' =
       Some (VInt (normalizedProgramTargetMaxConcurrency (nd_Targeting node) n))"
    using assms by (simp_all add: node_metadata_def Let_def applyProgramNodeAggregateMetadata_def ApplyAggregateConcurrencyMetadata_def
        applyProgramVerifyMetadata_def ApplyTargetMetadata_get ApplyAggregateMetadata_get put_if_get split: option.split)
qed

lemma stepFromProgramNode_fields:
  assumes "stepFromProgramNode p node target i n aid = Inr s"
  shows "sp_StepID s = compiledRuntimeProgramNodeStepID p (nd_NodeID node) target" "sp_Status s = StepPending"
    "\<exists>md. sp_Metadata s = node_metadata md aid (pg_ProgramID p) node target i n"
  using assms by (auto simp: stepFromProgramNode_def Let_def AttachProgramInputBindings_def split: sum.splits prod.splits)

lemma single_aggregate:
  assumes "ss \<noteq> []" "\<And>s. s \<in> set ss \<Longrightarrow> step_aggregate s = Some aid"
  shows "AggregateResultsFromSteps ss = [agg_finish (group_bucket aid ss)]"
proof -
  have "aggregate_steps aid ss = ss" using assms(2) by (simp add: aggregate_steps_def)
  moreover have "aggregate_ids ss = [aid]"
    using assms
  proof (induction ss rule: rev_induct)
    case (snoc s ss)
    then show ?case by (cases "ss = []") (auto simp: aggregate_ids_snoc, simp add: aggregate_ids_def List.map_filter_def)
  qed simp
  ultimately show ?thesis by (simp add: AggregateResults_groups)
qed

lemma with_target_id_nonempty: "base \<noteq> [] \<Longrightarrow> with_target_id base target \<noteq> []"
  by (simp add: with_target_id_def split: option.split)

lemma bucket_add_fold_header:
  "ag_Strategy (foldl bucket_add r ss) = ag_Strategy r" "ag_MaxConcurrency (foldl bucket_add r ss) = ag_MaxConcurrency r"
  "ag_Strategy (agg_finish r) = ag_Strategy r" "ag_MaxConcurrency (agg_finish r) = ag_MaxConcurrency r"
  by (induction ss arbitrary: r) (simp_all add: bucket_add_def agg_finish_def Let_def split: StepStatus.split)

text \<open>
  C27. Fan-out is summarised as it was compiled: compiling a node with more than one target gives one
  pending step per target, and aggregating these steps gives exactly one result, under the id of the
  node's own step, with as many expected and pending targets as the node names, the node's failure
  strategy, its effective concurrency (at least one, at most the number of targets), and the step of
  every target.
\<close>

theorem fanout_aggregates:
  assumes "expand_targets p node targets = Inr steps" "1 < length targets" "nd_NodeID node \<noteq> []" "nd_Targeting node = Some sel"
  shows "\<exists>r. AggregateResultsFromSteps steps = [r] \<and> length steps = length targets
     \<and> ag_AggregateID r = compiledRuntimeProgramNodeStepID p (nd_NodeID node) None
     \<and> ag_Status r = AggregateStatusPending \<and> ag_Expected r = int (length targets) \<and> ag_Pending r = int (length targets)
     \<and> ag_Strategy r = normalizedProgramTargetFailureStrategy (Some sel)
     \<and> ag_MaxConcurrency r = EffectiveMaxConcurrency sel (int (length targets))
     \<and> 1 \<le> ag_MaxConcurrency r \<and> ag_MaxConcurrency r \<le> int (length targets)
     \<and> mset (map gt_StepID (ag_Targets r)) = mset (map (\<lambda>t. compiledRuntimeProgramNodeStepID p (nd_NodeID node) (Some t)) targets)"
proof -
  let ?n = "int (length targets)"
  define aid where "aid = compiledRuntimeProgramNodeStepID p (nd_NodeID node) None"
  have aid: "aid \<noteq> []" using assms(3) by (simp add: aid_def compiledRuntimeProgramNodeStepID_def with_target_id_def)
  have n: "1 < ?n" using assms(2) by simp
  have conc: "0 < EffectiveMaxConcurrency sel ?n" "EffectiveMaxConcurrency sel ?n \<le> ?n" using n by (auto simp: EffectiveMaxConcurrency_def)
  from assms(1,2) have "compile_targets (\<lambda>target i. stepFromProgramNode p node target i ?n aid) 1 targets = Inr steps"
    by (auto simp: expand_targets_def aid_def Let_def split: if_splits)
  from compile_targets_all[OF this] have len: "length steps = length targets"
    and each: "\<And>j. j < length targets \<Longrightarrow> stepFromProgramNode p node (Some (targets ! j)) (1 + int j) ?n aid = Inr (steps ! j)" by auto
  have fields: "sp_Status s = StepPending \<and> step_aggregate s = Some aid
      \<and> intFromMetadata (sp_Metadata s) ''aggregate_expected'' = ?n
      \<and> stringFromMetadata (sp_Metadata s) ''aggregate_strategy'' = normalizedProgramTargetFailureStrategy (Some sel)
      \<and> intFromMetadata (sp_Metadata s) ''aggregate_max_concurrency'' = EffectiveMaxConcurrency sel ?n" if "s \<in> set steps" for s
  proof -
    from that len obtain j where j: "j < length targets" "s = steps ! j" by (metis in_set_conv_nth)
    from stepFromProgramNode_fields(2,3)[OF each[OF j(1)]] obtain md where
      "sp_Status s = StepPending" "sp_Metadata s = node_metadata md aid (pg_ProgramID p) node (Some (targets ! j)) (1 + int j) ?n"
      using j(2) by auto
    then show ?thesis using conc node_metadata_aggregate[OF n aid] assms(4)
      by (simp add: step_aggregate_def AggregateRefFromMetadata_alt intFromMetadata_def stringFromMetadata_def
          normalizedProgramTargetMaxConcurrency_def aid)
  qed
  have ne: "steps \<noteq> []" using len assms(2) by auto
  let ?r = "agg_finish (group_bucket aid steps)"
  have "AggregateResultsFromSteps steps = [?r]" using single_aggregate[OF ne] fields by blast
  moreover have "map sp_StepID steps = map (\<lambda>t. compiledRuntimeProgramNodeStepID p (nd_NodeID node) (Some t)) targets"
    using len stepFromProgramNode_fields(1)[OF each] by (auto simp: list_eq_iff_nth_eq)
  moreover have "mset (map gt_StepID (ag_Targets ?r)) = mset (map sp_StepID steps)"
    unfolding group_fields by (simp add: image_mset.compositionality comp_def step_target_def)
  moreover have "ag_Pending ?r = ?n"
    using group_counts[of aid steps] fields len unfolding group_fields by simp
  moreover have "ag_Status ?r = AggregateStatusPending" using group_status[of aid steps] fields ne hd_in_set[OF ne] by auto
  moreover have "ag_Expected ?r = ?n" "ag_Strategy ?r = normalizedProgramTargetFailureStrategy (Some sel)"
    "ag_MaxConcurrency ?r = EffectiveMaxConcurrency sel ?n" "ag_AggregateID ?r = aid"
    using fields[OF hd_in_set[OF ne]] n unfolding group_fields bucket_add_fold_header by (simp_all, force)
  ultimately show ?thesis using len conc by (intro exI[of _ ?r]) (simp add: aid_def)
qed

definition ex_target :: "string \<Rightarrow> target" where
  "ex_target tid = \<lparr>tg_TargetID = tid, tg_Kind = [], tg_DisplayName = [], tg_Metadata = []\<rparr>"

definition ex_fanout_node :: program_node where
  "ex_fanout_node = ex_node ''n'' (Some \<lparr>sel_Mode = TargetSelectionFanoutExplicit, sel_Targets = [ex_target ''x'', ex_target ''y''],
     sel_MaxConcurrency = 0, sel_OnPartialFailure = [], sel_Metadata = []\<rparr>) []"

lemma ex_fanout_expands:
  "case expand_targets ex_program ex_fanout_node [ex_target ''x'', ex_target ''y''] of Inl _ \<Rightarrow> False | Inr steps \<Rightarrow> length steps = 2"
  by code_simp

theorem fanout_aggregates_witness:
  "\<exists>steps r. expand_targets ex_program ex_fanout_node [ex_target ''x'', ex_target ''y''] = Inr steps
     \<and> AggregateResultsFromSteps steps = [r] \<and> ag_Expected r = 2 \<and> ag_AggregateID r = ''n''"
proof -
  obtain steps where s: "expand_targets ex_program ex_fanout_node [ex_target ''x'', ex_target ''y''] = Inr steps"
    using ex_fanout_expands by (auto split: sum.splits)
  have "compiledRuntimeProgramNodeStepID ex_program (nd_NodeID ex_fanout_node) None = ''n''" by code_simp
  with fanout_aggregates[OF s] obtain r where "AggregateResultsFromSteps steps = [r]" "ag_Expected r = 2" "ag_AggregateID r = ''n''"
    by (auto simp: ex_fanout_node_def ex_node_def)
  with s show ?thesis by (intro exI[of _ steps] exI[of _ r] conjI)
qed

end
