(* ===== verification/Program_Plans.thy ===== *)
theory Program_Plans
  imports Blocked_Runtime Program_Compile
begin

text \<open>
  Programs and plans in the service: \<^verbatim>\<open>stepsFromProgram\<close>, \<^verbatim>\<open>expandProgramNodeSteps\<close> and
  \<^verbatim>\<open>CreatePlanFromProgram\<close> of \<^verbatim>\<open>pkg/harness/runtime\<close> program.go and \<^verbatim>\<open>createPlanWithAudit\<close> of lifecycle.go.
  The resolver that discovers the targets of a node belongs to the embedding application and is a
  parameter. The loop over the ready queue is shown equal to its specification: take, again and
  again, the first node of the program whose dependencies are done.
\<close>

section \<open>Operations\<close>

type_synonym target_resolver = "session \<Rightarrow> task \<Rightarrow> program \<Rightarrow> program_node \<Rightarrow> goerr + target list"

definition getTaskRecord :: "service \<Rightarrow> string \<Rightarrow> task svc" where
  "getTaskRecord sv tid = readRepositories sv (\<lambda>r. task_Get tid (rp_Tasks r))"

definition zero_task :: task where
  "zero_task = \<lparr>tk_TaskID = [], tk_TaskType = [], tk_Goal = [], tk_Status = TaskOther [], tk_SessionID = [],
     tk_Constraints = [], tk_Metadata = [], tk_CreatedAt = 0, tk_UpdatedAt = 0\<rparr>"

definition zero_node :: program_node where
  "zero_node = \<lparr>nd_NodeID = [], nd_Title = [], nd_Action = zero_action_spec, nd_Verify = None, nd_VerifyScope = [],
     nd_OnFail = None, nd_Targeting = None, nd_DependsOn = [], nd_InputBinds = [], nd_Metadata = []\<rparr>"

definition resolvedTargetsForProgramNode :: "service \<Rightarrow> target_resolver option \<Rightarrow> string \<Rightarrow> program \<Rightarrow> program_node \<Rightarrow> target list svc" where
  "resolvedTargetsForProgramNode sv resolver sid p node =
     (case nd_Targeting node of
        None \<Rightarrow> sret []
      | Some sel \<Rightarrow>
          if sel_Mode sel = TargetSelectionFanoutAll then
            (case resolver of
               None \<Rightarrow> sfail ErrProgramTargetDiscoveryUnsupported
             | Some resolve \<Rightarrow> sbind (getSessionRecord sv sid) (\<lambda>state.
                 sbind (if st_TaskID state \<noteq> [] then getTaskRecord sv (st_TaskID state) else sret zero_task) (\<lambda>spec.
                   sbind (slift (resolve state spec p node)) (\<lambda>targets.
                     if targets = [] then sfail ErrProgramTargetDiscoveryUnsupported else sret targets))))
          else slift (targetsForProgramNode node))"

definition expandProgramNodeSteps :: "service \<Rightarrow> target_resolver option \<Rightarrow> string \<Rightarrow> program \<Rightarrow> program_node \<Rightarrow> step list svc" where
  "expandProgramNodeSteps sv resolver sid p node =
     sbind (resolvedTargetsForProgramNode sv resolver sid p node) (\<lambda>targets. slift (expand_targets p node targets))"

text \<open>The loop over the ready queue: how many nodes it has taken and the steps of these nodes.\<close>

function ready_loop :: "(string \<Rightarrow> step list svc) \<Rightarrow> nat gomap \<Rightarrow> string list gomap \<Rightarrow> int gomap \<Rightarrow> string list
    \<Rightarrow> (nat \<times> step list) svc" where
  "ready_loop expand nodeOrder dependents indegree [] = sret (0, [])"
| "ready_loop expand nodeOrder dependents indegree (nodeID # ready) =
     sbind (expand nodeID) (\<lambda>compiled.
       case release (gm_list dependents nodeID) indegree ready of
         (indegree', ready') \<Rightarrow>
           sbind (ready_loop expand nodeOrder dependents indegree' (sort_ready nodeOrder ready'))
             (\<lambda>(processed, steps). sret (Suc processed, compiled @ steps)))"
  by pat_completeness auto
termination
  by (relation "measure (\<lambda>(_, _, _, m, q). open_deps m + length q)") (auto dest!: release_measure[OF sym])

definition stepsFromProgram :: "service \<Rightarrow> target_resolver option \<Rightarrow> string \<Rightarrow> program \<Rightarrow> step list svc" where
  "stepsFromProgram sv resolver sid p =
     (if pg_Nodes p = [] then sret []
      else case steps_index 0 (pg_Nodes p) [] [] [] of
        Inl e \<Rightarrow> sfail e
      | Inr (nodesByID, nodeOrder, indegree0) \<Rightarrow>
          (case check_entries nodesByID (pg_EntryNodes p) of
             Inl e \<Rightarrow> sfail e
           | Inr _ \<Rightarrow>
               (case steps_link nodesByID (pg_Nodes p) indegree0 [] of
                  Inl e \<Rightarrow> sfail e
                | Inr (indegree, dependents) \<Rightarrow>
                    sbind (ready_loop (\<lambda>nodeID. expandProgramNodeSteps sv resolver sid p
                               (case gm_get nodesByID nodeID of Some n \<Rightarrow> n | None \<Rightarrow> zero_node))
                             nodeOrder dependents indegree (sort_ready nodeOrder (initial_queue (pg_Nodes p) indegree)))
                      (\<lambda>(processedNodes, steps).
                         if processedNodes \<noteq> length (pg_Nodes p) then sfail ErrProgramCycleDetected else sret steps))))"

text \<open>\<^verbatim>\<open>createPlanWithAudit\<close>: the session is read and the steps are normalised before the unit of work.\<close>

definition do_plan_Create :: "string \<Rightarrow> string \<Rightarrow> step list \<Rightarrow> plan svc" where
  "do_plan_Create sid changeReason steps = sbind newUUID (\<lambda>uuid. sbind nowMilli (\<lambda>t. sexec (\<lambda>r.
     case plan_Create uuid t sid changeReason steps (rp_Plans r) of (pl, m) \<Rightarrow> Inr (pl, r\<lparr>rp_Plans := m\<rparr>))))"

definition plan_payload :: "plan \<Rightarrow> meta" where
  "plan_payload created = [(''plan_id'', VStr (pl_PlanID created)), (''revision'', VInt (pl_Revision created)),
     (''change_reason'', VStr (pl_ChangeReason created)), (''step_count'', VInt (int (length (pl_Steps created))))]"

definition create_plan :: "service \<Rightarrow> string \<Rightarrow> string \<Rightarrow> string \<Rightarrow> step list \<Rightarrow> bool \<Rightarrow> (audit_event list \<Rightarrow> unit svc) \<Rightarrow> plan svc" where
  "create_plan sv sid tid changeReason steps hasSink emit =
     sbind (sread rp_Plans) (\<lambda>plans.
       sbind (slift (ensurePlanRevisionBudgetInStore (Some plans) sid (sv_Budgets sv))) (\<lambda>_.
         sbind (do_plan_Create sid changeReason steps) (\<lambda>created.
           sbind nowMilli (\<lambda>t. sbind (newAuditEventAt t ''plan.generated'' sid tid [] (plan_payload created)) (\<lambda>ev.
             sbind (emit [ev]) (\<lambda>_. sret created))))))"

definition createPlanWithAudit :: "service \<Rightarrow> json_codec \<Rightarrow> string \<Rightarrow> string \<Rightarrow> step list \<Rightarrow> plan svc" where
  "createPlanWithAudit sv js sid changeReason steps =
     sbind (getSessionRecord sv sid) (\<lambda>sess.
       sbind (slift (normalizePlanStepsForStorage js steps)) (\<lambda>normalizedSteps.
         sbind (with_runner sv (create_plan sv sid (st_TaskID sess) changeReason normalizedSteps)) (\<lambda>created.
           sret (annotatePlanIdentity created))))"

definition CreatePlanFromProgram :: "service \<Rightarrow> json_codec \<Rightarrow> target_resolver option \<Rightarrow> string \<Rightarrow> string \<Rightarrow> program \<Rightarrow> plan svc" where
  "CreatePlanFromProgram sv js resolver sid changeReason p =
     sbind (stepsFromProgram sv resolver sid p) (\<lambda>steps.
       createPlanWithAudit sv js sid (firstNonEmptyProgramValue [changeReason, programChangeReason p]) steps)"

section \<open>The ready queue takes the first node that is ready\<close>

text \<open>The specification: the first node of the program that is not done and has all dependencies done.\<close>

fun first_ready :: "nat \<Rightarrow> program_node list \<Rightarrow> string list \<Rightarrow> string list" where
  "first_ready 0 ns D = []"
| "first_ready (Suc k) ns D =
     (case List.find (\<lambda>n. nd_NodeID n \<notin> set D \<and> set (nd_DependsOn n) \<subseteq> set D) ns of
        None \<Rightarrow> []
      | Some n \<Rightarrow> nd_NodeID n # first_ready k ns (D @ [nd_NodeID n]))"

definition position_of :: "nat gomap \<Rightarrow> program_node list \<Rightarrow> bool" where
  "position_of nodeOrder ns \<longleftrightarrow> (\<forall>j<length ns. gm_get nodeOrder (nd_NodeID (ns ! j)) = Some j)"

lemma sorted_sort_ready:
  "sorted (map (\<lambda>x. case gm_get nodeOrder x of None \<Rightarrow> 0 | Some i \<Rightarrow> i) (sort_ready nodeOrder q))"
  unfolding sort_ready_def Let_def by (rule sort_by_key.sorted_go_sort) (unfold_locales, simp)

lemma ready_queue_first:
  assumes "graph_ok ns" "position_of nodeOrder ns" "\<forall>x. gm_list dts x = waiting ns x" "queue_inv ns D ind q"
    "sorted (map (\<lambda>x. case gm_get nodeOrder x of None \<Rightarrow> 0 | Some i \<Rightarrow> i) q)" "length D + k = length ns"
  shows "ready_queue nodeOrder dts ind q = first_ready k ns D"
  using assms(2-)
proof (induction nodeOrder dts ind q arbitrary: D k rule: ready_queue.induct)
  case (1 nodeOrder dts ind)
  from "1.prems"(3) have "List.find (\<lambda>n. nd_NodeID n \<notin> set D \<and> set (nd_DependsOn n) \<subseteq> set D) ns = None"
    by (auto simp: find_None_iff queue_inv_def)
  then show ?case by (cases k) simp_all
next
  case (2 nodeOrder dts ind m q)
  let ?pos = "\<lambda>x. case gm_get nodeOrder x of None \<Rightarrow> 0 | Some i \<Rightarrow> i"
  let ?P = "\<lambda>n. nd_NodeID n \<notin> set D \<and> set (nd_DependsOn n) \<subseteq> set D"
  from "2.prems"(3) have inv: "distinct (D @ m # q)" "set (D @ m # q) \<subseteq> set (map nd_NodeID ns)"
    and mem: "\<And>n. n \<in> set ns \<Longrightarrow> nd_NodeID n \<in> set (D @ m # q) \<longleftrightarrow> set (nd_DependsOn n) \<subseteq> set D" by (auto simp: queue_inv_def)
  from inv(2) have "m \<in> set (map nd_NodeID ns)" by simp
  then obtain j where j: "j < length ns" "nd_NodeID (ns ! j) = m" by (auto simp: in_set_conv_nth)
  have "?P (ns ! j)" using mem[of "ns ! j"] j inv(1) by auto
  moreover have "\<not> ?P (ns ! i)" if "i < j" for i
  proof
    assume "?P (ns ! i)"
    then have "nd_NodeID (ns ! i) \<in> set (m # q)" using mem[of "ns ! i"] that j(1) by auto
    then have "?pos m \<le> ?pos (nd_NodeID (ns ! i))" using "2.prems"(4) by auto
    moreover have "?pos m = j" "?pos (nd_NodeID (ns ! i)) = i" using "2.prems"(1) that j by (auto simp: position_of_def)
    ultimately show False using that by simp
  qed
  ultimately have "List.find ?P ns = Some (ns ! j)" using j(1) by (auto simp: find_Some_iff)
  moreover have "length D < length ns"
  proof -
    have "card (set (D @ m # q)) \<le> card (set (map nd_NodeID ns))" using inv(2) by (intro card_mono) auto
    then show ?thesis using distinct_card[OF inv(1)] card_length[of "map nd_NodeID ns"] by simp
  qed
  then obtain k' where k: "k = Suc k'" using "2.prems"(5) by (cases k) auto
  ultimately have f: "first_ready k ns D = m # first_ready k' ns (D @ [m])" using j(2) by simp
  obtain ind' q' where r: "release (gm_list dts m) ind q = (ind', q')" by fastforce
  with 2 have "queue_inv ns (D @ [m]) ind' q'" using queue_inv_step[OF assms(1)] by metis
  then have "queue_inv ns (D @ [m]) ind' (sort_ready nodeOrder q')" using queue_inv_perm mset_sort_ready by metis
  from "2.IH"[OF r[symmetric] "2.prems"(1,2) this sorted_sort_ready, of k'] r f k "2.prems"(5) show ?case by simp
qed

section \<open>The loop over the ready queue\<close>

fun sconcat :: "('a \<Rightarrow> 'b list svc) \<Rightarrow> 'a list \<Rightarrow> 'b list svc" where
  "sconcat f [] = sret []"
| "sconcat f (x # xs) = sbind (f x) (\<lambda>ys. sbind (sconcat f xs) (\<lambda>zs. sret (ys @ zs)))"

lemma sbind_laws [simp]:
  "sbind (sret x) k = k x" "sbind (sfail e) k = sfail e" "sbind (sbind m k) h = sbind m (\<lambda>x. sbind (k x) h)"
  "sbind m sret = m"
  by (auto simp: fun_eq_iff svc_apply split: prod.splits sum.splits)

lemma ready_loop_run:
  "ready_loop f nodeOrder dts ind q =
     sbind (sconcat f (ready_queue nodeOrder dts ind q)) (\<lambda>steps. sret (length (ready_queue nodeOrder dts ind q), steps))"
proof (induction nodeOrder dts ind q rule: ready_queue.induct)
  case (2 nodeOrder dts ind m q)
  obtain ind' q' where r: "release (gm_list dts m) ind q = (ind', q')" by fastforce
  from "2.IH"[OF r[symmetric]] r show ?case by simp
qed simp

text \<open>What \<^verbatim>\<open>stepsFromProgram\<close> is meant to do, without counters and queue.\<close>

definition program_spec :: "service \<Rightarrow> target_resolver option \<Rightarrow> string \<Rightarrow> program \<Rightarrow> step list svc" where
  "program_spec sv resolver sid p =
     (let ids = first_ready (length (pg_Nodes p)) (pg_Nodes p) []
      in sbind (sconcat (\<lambda>nodeID. expandProgramNodeSteps sv resolver sid p
                  (case List.find (\<lambda>n. nd_NodeID n = nodeID) (pg_Nodes p) of Some n \<Rightarrow> n | None \<Rightarrow> zero_node)) ids)
           (\<lambda>steps. if length ids \<noteq> length (pg_Nodes p) then sfail ErrProgramCycleDetected else sret steps))"

lemma check_entries_iff: "check_entries m es = (if \<forall>e\<in>set es. gm_get m e \<noteq> None then Inr () else Inl ErrProgramEntryNodeNotFound)"
  by (induction es) auto

lemma steps_graph_built:
  assumes ok: "graph_ok ns"
  obtains byID nodeOrder ind0 ind dts where "steps_index 0 ns [] [] [] = Inr (byID, nodeOrder, ind0)"
    "steps_link byID ns ind0 [] = Inr (ind, dts)" "position_of nodeOrder ns" "\<forall>x. gm_list dts x = waiting ns x"
    "\<forall>n\<in>set ns. gm_int ind (nd_NodeID n) = int (length (nd_DependsOn n))"
    "\<forall>x. gm_get byID x = List.find (\<lambda>n. nd_NodeID n = x) ns"
proof -
  from ok obtain idx i dts where b: "index_nodes 0 ns [] = Inr idx" "link_nodes idx ns [] [] = Inr (i, dts)"
    "\<forall>j<length ns. gm_get idx (nd_NodeID (ns ! j)) = Some j" "\<forall>x. gm_list dts x = waiting ns x" by (rule graph_built)
  from steps_index_result[of "[]" "[]" "[]" 0 ns] b(1) obtain byID ind0 where
    s: "steps_index 0 ns [] [] [] = Inr (byID, idx, ind0)" "\<forall>x. gm_int ind0 x = 0"
      "\<forall>x. gm_get byID x = (case List.find (\<lambda>n. nd_NodeID n = x) ns of Some n \<Rightarrow> Some n | None \<Rightarrow> gm_get [] x)" by auto
  then have byf: "\<forall>x. gm_get byID x = List.find (\<lambda>n. nd_NodeID n = x) ns" by (auto split: option.splits)
  have dist: "distinct (map nd_NodeID ns)" using ok by (simp add: graph_ok_def)
  have dom: "gm_get byID x = None \<longleftrightarrow> gm_get idx x = None" for x
  proof -
    have "gm_get byID x = None \<longleftrightarrow> x \<notin> set (map nd_NodeID ns)" using byf by (auto simp: find_None_iff)
    moreover have "gm_get idx x = None \<longleftrightarrow> x \<notin> set (map nd_NodeID ns)"
      using index_nodes_result[OF b(1)] b(3) by (fastforce simp: in_set_conv_nth)
    ultimately show ?thesis by simp
  qed
  have "\<exists>ind. steps_link byID ns ind0 [] = Inr (ind, dts) \<and>
      (\<forall>n\<in>set ns. gm_int ind (nd_NodeID n) = gm_int ind0 (nd_NodeID n) + int (length (nd_DependsOn n)))"
    using steps_link_result[OF _ dist, of byID idx, where ?i0.0 = "[]" and dts = "[]" and ind = ind0] b(2) dom by auto
  then obtain ind where "steps_link byID ns ind0 [] = Inr (ind, dts)"
    "\<forall>n\<in>set ns. gm_int ind (nd_NodeID n) = int (length (nd_DependsOn n))" using s(2) by auto
  with s(1) b(3,4) byf show ?thesis by (intro that[of byID idx ind0 ind dts]) (simp_all add: position_of_def)
qed

lemma first_ready_topo:
  assumes ok: "graph_ok ns"
  shows "if acyclic (dep_rel ns) then mset (first_ready (length ns) ns []) = mset (map nd_NodeID ns) \<and> topo_sorted ns (first_ready (length ns) ns [])
         else length (first_ready (length ns) ns []) < length ns"
proof -
  from ok obtain byID nodeOrder ind0 ind dts where b: "position_of nodeOrder ns" "\<forall>x. gm_list dts x = waiting ns x"
    "\<forall>n\<in>set ns. gm_int ind (nd_NodeID n) = int (length (nd_DependsOn n))" by (rule steps_graph_built)
  have inv: "queue_inv ns [] ind (sort_ready nodeOrder (initial_queue ns ind))"
    using queue_inv_init[OF ok b(3)] queue_inv_perm mset_sort_ready by metis
  have "ready_queue nodeOrder dts ind (sort_ready nodeOrder (initial_queue ns ind)) = first_ready (length ns) ns []"
    by (rule ready_queue_first[OF ok b(1,2) inv sorted_sort_ready]) simp
  with ready_queue_inv[OF ok b(2) inv, of nodeOrder] obtain ind' where "queue_inv ns (first_ready (length ns) ns []) ind' []" by auto
  with queue_end[OF ok] show ?thesis by blast
qed


definition ex_svc :: service where
  "ex_svc = \<lparr>sv_Runner = NoRunner, sv_Hook = None, sv_Budgets = DefaultLoopBudgets\<rparr>"


section \<open>The revision budget\<close>

definition revisions_within :: "int \<Rightarrow> plan_map \<Rightarrow> bool" where
  "revisions_within k m \<longleftrightarrow> plan_wf m \<and> revisions_unique m \<and> (\<forall>p\<in>set (gm_vals m). 1 \<le> pl_Revision p \<and> pl_Revision p \<le> k)"

lemma revisions_count:
  assumes "revisions_within k m"
  shows "int (length (plan_ListBySession sid m)) \<le> max 0 k"
proof -
  let ?ps = "plan_ListBySession sid m"
  from assms have wf: "plan_wf m" and u: "revisions_unique m" by (auto simp: revisions_within_def)
  have "distinct (map pl_PlanID (gm_vals m))" by (rule keyed_distinct_keys[OF wf])
  then have "distinct (gm_vals m)" using distinct_map by blast
  then have d: "distinct ?ps" by (simp add: plan_ListBySession_def)
  have "inj_on pl_Revision (set ?ps)" using u by (auto simp: inj_on_def revisions_unique_def)
  then have "card (set ?ps) = card (pl_Revision ` set ?ps)" by (simp add: card_image)
  also have "pl_Revision ` set ?ps \<subseteq> {1..k}" using assms by (auto simp: revisions_within_def plan_ListBySession_def)
  then have "card (pl_Revision ` set ?ps) \<le> card {1..k}" by (intro card_mono) auto
  finally show ?thesis using distinct_card[OF d] by simp
qed

lemma vals_put: "v \<in> set (gm_vals (gm_put k x m)) \<Longrightarrow> v = x \<or> v \<in> set (gm_vals m)"
  by (induction m) (auto split: if_splits)

lemma plan_Create_within:
  assumes "revisions_within k m" "0 < k" "ensurePlanRevisionBudgetInStore (Some m) sid budgets = Inr u" "lb_MaxPlanRevisions budgets = k"
    "plan_Create uuid now sid reason steps m = (p, m')"
  shows "revisions_within k m'"
proof -
  let ?r = "plan_next_revision sid m"
  from assms(5) have m': "m' = gm_put uuid p m" and p: "pl_Revision p = ?r" "pl_SessionID p = sid" "pl_PlanID p = uuid"
    by (auto simp: plan_Create_def plan_insert_def Let_def)
  from assms(1) have wf: "plan_wf m" and u: "revisions_unique m" and rng: "\<forall>p\<in>set (gm_vals m). 1 \<le> pl_Revision p \<and> pl_Revision p \<le> k"
    by (auto simp: revisions_within_def)
  have above: "\<forall>q\<in>set (plan_ListBySession sid m). pl_Revision q < ?r" using plan_next_revision_above by auto
  have "1 \<le> ?r \<and> ?r \<le> k"
  proof (cases "plan_LatestBySession sid m")
    case None
    then show ?thesis using assms(2) by (simp add: plan_next_revision_def)
  next
    case (Some l)
    then have "l \<in> set (gm_vals m)" using LatestBySession_Some(1)[OF Some] by (auto simp: plan_ListBySession_def)
    with Some assms(2,3,4) rng show ?thesis
      by (auto simp: plan_next_revision_def ensurePlanRevisionBudgetInStore_def split: if_splits)
  qed
  then have "\<forall>q\<in>set (gm_vals m'). 1 \<le> pl_Revision q \<and> pl_Revision q \<le> k" using rng vals_put p(1) unfolding m' by metis
  moreover have wf': "plan_wf m'" using wf p(3) unfolding m' by auto
  moreover have "revisions_unique m'"
    unfolding revisions_unique_def
  proof (intro allI impI)
    fix s a b
    assume ab: "a \<in> set (plan_ListBySession s m')" "b \<in> set (plan_ListBySession s m')" "pl_Revision a = pl_Revision b"
    have old: "x = p \<or> x \<in> set (plan_ListBySession s m)" if "x \<in> set (plan_ListBySession s m')" for x
      using that vals_put[of x uuid p m] unfolding m' plan_ListBySession_def by auto
    have s: "pl_SessionID a = s" "pl_SessionID b = s" using ab by (auto simp: plan_ListBySession_def)
    show "a = b"
    proof (cases "s = sid")
      case True
      with old[OF ab(1)] old[OF ab(2)] above p(1) ab(3) u show ?thesis unfolding revisions_unique_def by fastforce
    next
      case False
      with s p(2) have "a \<noteq> p" "b \<noteq> p" by auto
      with old[OF ab(1)] old[OF ab(2)] ab(3) u show ?thesis unfolding revisions_unique_def by blast
    qed
  qed
  ultimately show ?thesis by (simp add: revisions_within_def)
qed

lemma triple_do_plan_Create:
  assumes "0 < k" "lb_MaxPlanRevisions budgets = k"
  shows "triple (\<lambda>r. ensurePlanRevisionBudgetInStore (Some (rp_Plans r)) sid budgets = Inr u \<and> revisions_within k (rp_Plans r))
    (do_plan_Create sid reason steps) (\<lambda>_ r. revisions_within k (rp_Plans r)) (\<lambda>r. revisions_within k (rp_Plans r))"
  unfolding triple_def
proof (intro allI impI)
  fix w :: world
  assume a: "ensurePlanRevisionBudgetInStore (Some (rp_Plans (w_Repos w))) sid budgets = Inr u \<and> revisions_within k (rp_Plans (w_Repos w))"
  obtain p m where c: "plan_Create (w_Uuids w (w_Drawn w)) (w_Clock w (w_Reads w)) sid reason steps (rp_Plans (w_Repos w)) = (p, m)" by fastforce
  with a plan_Create_within[OF _ assms(1) _ assms(2)] have "revisions_within k m" by blast
  with c show "case do_plan_Create sid reason steps w of (Inl _, w') \<Rightarrow> revisions_within k (rp_Plans (w_Repos w'))
      | (Inr _, w') \<Rightarrow> revisions_within k (rp_Plans (w_Repos w'))"
    by (simp add: do_plan_Create_def svc_apply)
qed

lemma keeps_create_plan:
  assumes em: "\<And>evs. keeps (\<lambda>r. revisions_within k (rp_Plans r)) (emit evs)"
    and k: "0 < k" "lb_MaxPlanRevisions (sv_Budgets sv) = k"
  shows "keeps (\<lambda>r. revisions_within k (rp_Plans r)) (create_plan sv sid tid reason steps b emit)"
proof -
  let ?P = "\<lambda>r. revisions_within k (rp_Plans r)"
  have 1: "triple ?P (sread rp_Plans) (\<lambda>plans r. plans = rp_Plans r \<and> ?P r) ?P" by (rule triple_sread) simp
  have 2: "triple (\<lambda>r. plans = rp_Plans r \<and> ?P r) (slift (ensurePlanRevisionBudgetInStore (Some plans) sid (sv_Budgets sv)))
      (\<lambda>u r. ensurePlanRevisionBudgetInStore (Some (rp_Plans r)) sid (sv_Budgets sv) = Inr u \<and> ?P r) ?P" for plans
    by (rule triple_slift) auto
  have 3: "triple ?P (sbind nowMilli (\<lambda>t. sbind (newAuditEventAt t ''plan.generated'' sid tid [] (plan_payload created)) (\<lambda>ev.
             sbind (emit [ev]) (\<lambda>_. sret created)))) (\<lambda>_. ?P) ?P" for created
    by (intro svc_rules em)
  show ?thesis unfolding create_plan_def
    by (rule triple_bind[OF 1 triple_bind[OF 2 triple_bind[OF triple_do_plan_Create[OF k] 3]]])
qed

lemma audit_blind_within: "audit_blind (\<lambda>r. revisions_within k (rp_Plans r))"
  by (simp add: audit_blind_def)

lemma keeps_createPlanWithAudit:
  assumes "0 < k" "lb_MaxPlanRevisions (sv_Budgets sv) = k"
  shows "keeps (\<lambda>r. revisions_within k (rp_Plans r)) (createPlanWithAudit sv js sid reason steps)"
  unfolding createPlanWithAudit_def
  by (intro svc_rules keeps_with_runner keeps_create_plan keeps_emit audit_blind_within assms)

lemma quiet_slift [svc_rules]: "keeps P (slift c)"
  by (rule triple_slift) simp_all

lemma keeps_resolved [svc_rules]: "keeps P (resolvedTargetsForProgramNode sv resolver sid p node)"
  unfolding resolvedTargetsForProgramNode_def getTaskRecord_def by (intro svc_rules)

lemma keeps_expand [svc_rules]: "keeps P (expandProgramNodeSteps sv resolver sid p node)"
  unfolding expandProgramNodeSteps_def by (intro svc_rules)

lemma keeps_sconcat: "(\<And>x. keeps P (f x)) \<Longrightarrow> keeps P (sconcat f xs)"
  by (induction xs) (auto intro!: svc_rules)

text \<open>Compiling a program reads the repositories and writes nothing.\<close>

lemma keeps_stepsFromProgram: "keeps P (stepsFromProgram sv resolver sid p)"
proof -
  have "keeps P (ready_loop (\<lambda>nodeID. expandProgramNodeSteps sv resolver sid p (f nodeID)) nodeOrder dts ind q)" for f nodeOrder dts ind q
    unfolding ready_loop_run by (intro svc_rules keeps_sconcat)
  then show ?thesis unfolding stepsFromProgram_def
    by (auto simp: split_beta split: sum.split intro!: svc_rules)
qed


definition ex_budget_svc :: service where
  "ex_budget_svc = \<lparr>sv_Runner = MemoryUnitOfWork, sv_Hook = None, sv_Budgets = DefaultLoopBudgets\<lparr>lb_MaxPlanRevisions := 1\<rparr>\<rparr>"


section \<open>Ids of compiled steps\<close>

definition ex_collision :: program where
  "ex_collision = \<lparr>pg_ProgramID = [], pg_EntryNodes = [], pg_Nodes =
     [ex_node ''a'' (Some \<lparr>sel_Mode = TargetSelectionSingle, sel_Targets = [ex_target ''b''], sel_MaxConcurrency = 0,
        sel_OnPartialFailure = [], sel_Metadata = []\<rparr>) [],
      ex_node ''a__b'' None []], pg_Metadata = []\<rparr>"

text \<open>
  Step ids of a compiled program are not unique. The id of a step joins the ids of program, node
  and target with two underscores, and node ids may contain underscores: a program with distinct
  node ids and no cycle, node a with target b and node a__b, compiles into two steps with the id
  a__b. Everything that looks a step up by its id then finds the first of them.
\<close>

theorem compiled_step_ids_collide:
  "graph_ok (pg_Nodes ex_collision) \<and>
   (case stepsFromProgram ex_svc None ''s'' ex_collision ex_world of
      (Inl _, _) \<Rightarrow> False
    | (Inr steps, _) \<Rightarrow> map sp_StepID steps = [''a__b'', ''a__b'']
        \<and> map (\<lambda>s. as_string (gm_get (sp_Metadata s) ProgramMetadataKeyNodeID)) steps = [''a'', ''a__b''])"
proof
  show "graph_ok (pg_Nodes ex_collision)" by (simp add: ex_collision_def ex_node_def graph_ok_def)
  show "case stepsFromProgram ex_svc None ''s'' ex_collision ex_world of
      (Inl _, _) \<Rightarrow> False
    | (Inr steps, _) \<Rightarrow> map sp_StepID steps = [''a__b'', ''a__b'']
        \<and> map (\<lambda>s. as_string (gm_get (sp_Metadata s) ProgramMetadataKeyNodeID)) steps = [''a'', ''a__b'']"
    by code_simp
qed

end
