(* ===== verification/Program_Runtime.thy ===== *)
theory Program_Runtime
  imports Program_Plans
begin

text \<open>
  Programs at run time: \<^verbatim>\<open>pkg/harness/runtime\<close> program_binding_resolution.go and program_verify_runtime.go.
  Before a step runs, the input bindings that were left open are resolved against the recorded
  actions and artifacts of the session; after the last step of a fan-out the aggregate is verified.
  The component that materialises attachments belongs to the application and is a parameter.
\<close>

section \<open>Values in results\<close>

definition enc_action_error :: "action_error \<Rightarrow> gval" where
  "enc_action_error e = VStruct ''action.Error'' [(''Code'', VStr (ae_Code e)), (''Message'', VStr (ae_Message e))]"

definition enc_action_result :: "action_result \<Rightarrow> gval" where
  "enc_action_result r = VStruct ''action.Result'' [(''OK'', VBool (ar_OK r)), (''Data'', VMap (ar_Data r)),
     (''Meta'', VMap (ar_Meta r)), (''Error'', enc_ptr enc_action_error (ar_Error r))]"

text \<open>
  The elements that \<^verbatim>\<open>reflect\<close> finds in a value whose kind is slice or array; a byte of a \<^verbatim>\<open>[]byte\<close> is
  a \<^verbatim>\<open>uint8\<close>.
\<close>

fun reflect_elements :: "gval \<Rightarrow> gval list option" where
  "reflect_elements (VStruct ty fs) =
     (if ty = ''[]byte'' then Some (map (\<lambda>c. VStruct ''uint8'' [(''value'', VInt (of_char c))]) (as_string (gm_get fs ''bytes'')))
      else if has_prefix ty ''['' then Some (as_list (gm_get fs ''items''))
      else None)"
| "reflect_elements _ = None"

definition index_value :: "gval list \<Rightarrow> string \<Rightarrow> gval option" where
  "index_value xs part = (case Atoi part of None \<Rightarrow> None
     | Some i \<Rightarrow> if i < 0 \<or> int (length xs) \<le> i then None else Some (xs ! nat i))"

definition child_value :: "gval \<Rightarrow> string \<Rightarrow> gval option" where
  "child_value v part = (case v of
     VMap m \<Rightarrow> gm_get m part
   | VList xs \<Rightarrow> index_value xs part
   | _ \<Rightarrow> (case reflect_elements v of None \<Rightarrow> None | Some xs \<Rightarrow> index_value xs part))"

fun descendProgramValue :: "gval \<Rightarrow> string list \<Rightarrow> gval option" where
  "descendProgramValue value [] = Some value"
| "descendProgramValue value (part # parts) =
     (case child_value value part of None \<Rightarrow> None | Some v \<Rightarrow> descendProgramValue v parts)"

definition result_field :: "action_result \<Rightarrow> string \<Rightarrow> gval option" where
  "result_field r name =
     (if name = ''ok'' then Some (VBool (ar_OK r))
      else if name = ''data'' then Some (VMap (ar_Data r))
      else if name = ''meta'' then Some (VMap (ar_Meta r))
      else if name = ''error'' then
        map_option (\<lambda>e. VMap [(''code'', VStr (ae_Code e)), (''message'', VStr (ae_Message e))]) (ar_Error r)
      else None)"

definition descendProgramResultPath :: "action_result \<Rightarrow> string list \<Rightarrow> gval option" where
  "descendProgramResultPath r parts = (case parts of
     [] \<Rightarrow> None
   | p # rest \<Rightarrow>
       if p \<noteq> ''result'' then None
       else (case rest of
               [] \<Rightarrow> Some (enc_action_result r)
             | name # rest' \<Rightarrow>
                 (case result_field r name of
                    None \<Rightarrow> None
                  | Some current \<Rightarrow> if rest' = [] then Some current else descendProgramValue current rest')))"

definition resolveProgramResultPath :: "action_result \<Rightarrow> string \<Rightarrow> gval option" where
  "resolveProgramResultPath r path =
     (let trimmed = trim_space path
      in if trimmed = [] then Some (VMap (ar_Data r))
         else let parts = split_on CHR ''.'' trimmed
              in if parts \<noteq> [] \<and> hd parts = ''result'' then descendProgramResultPath r parts
                 else descendProgramValue (VMap (ar_Data r)) parts)"

fun stringFromProgramValue :: "gval option \<Rightarrow> string option" where
  "stringFromProgramValue (Some (VStr s)) = Some s"
| "stringFromProgramValue (Some (VStruct ty fs)) = (if ty = ''[]byte'' then Some (as_string (gm_get fs ''bytes'')) else None)"
| "stringFromProgramValue _ = None"

fun bytesFromProgramValue :: "gval option \<Rightarrow> gval option" where
  "bytesFromProgramValue (Some (VStr s)) = Some (VBytes s)"
| "bytesFromProgramValue (Some (VStruct ty fs)) = (if ty = ''[]byte'' then Some (VBytes (as_string (gm_get fs ''bytes''))) else None)"
| "bytesFromProgramValue _ = None"

section \<open>Choosing the record a reference means\<close>

definition listActionRecords :: "service \<Rightarrow> string \<Rightarrow> action_record list svc" where
  "listActionRecords sv sid = readRepositories sv (\<lambda>r. Inr (action_List sid (rp_Actions r)))"

definition listArtifactRecords :: "service \<Rightarrow> string \<Rightarrow> artifact list svc" where
  "listArtifactRecords sv sid = readRepositories sv (\<lambda>r. Inr (artifact_List sid (rp_Artifacts r)))"

definition programOutputRefMatchesStep :: "action_record \<Rightarrow> string \<Rightarrow> bool" where
  "programOutputRefMatchesStep rec stepID \<longleftrightarrow>
     ac_StepID rec = stepID \<or> as_string (gm_get (ac_Metadata rec) ProgramMetadataKeyNodeID) = stepID"

definition programOutputRefMatchesArtifact :: "artifact \<Rightarrow> string \<Rightarrow> bool" where
  "programOutputRefMatchesArtifact rec stepID \<longleftrightarrow>
     af_StepID rec = stepID \<or> as_string (gm_get (af_Metadata rec) ProgramMetadataKeyNodeID) = stepID"

text \<open>A record of the step's own target is worth ten, one of another target minus five.\<close>

definition target_score :: "step \<Rightarrow> meta \<Rightarrow> int" where
  "target_score s metadata =
     (case TargetFromStep s of None \<Rightarrow> 0
      | Some currentTarget \<Rightarrow>
          (case TargetRefFromMetadata metadata of None \<Rightarrow> 0
           | Some target \<Rightarrow> if tr_TargetID target = tr_TargetID currentTarget then 10 else -5))"

definition action_matches :: "output_ref \<Rightarrow> action_record \<Rightarrow> bool" where
  "action_matches ref rec \<longleftrightarrow> \<not> (or_ActionID ref \<noteq> [] \<and> ac_ActionID rec \<noteq> or_ActionID ref)
     \<and> \<not> (or_StepID ref \<noteq> [] \<and> \<not> programOutputRefMatchesStep rec (or_StepID ref))"

definition action_score :: "step \<Rightarrow> action_record \<Rightarrow> int" where
  "action_score s rec = target_score s (ac_Metadata rec) + (if 0 < ac_FinishedAt rec then 1 else 0)"

definition action_better :: "(action_record \<times> int) \<Rightarrow> (action_record \<times> int) \<Rightarrow> bool" where
  "action_better a b =
     (if snd a \<noteq> snd b then snd b < snd a
      else if ac_FinishedAt (fst a) \<noteq> ac_FinishedAt (fst b) then ac_FinishedAt (fst b) < ac_FinishedAt (fst a)
      else ac_ActionID (fst b) < ac_ActionID (fst a))"

definition findProgramOutputAction :: "service \<Rightarrow> string \<Rightarrow> step \<Rightarrow> output_ref \<Rightarrow> action_record svc" where
  "findProgramOutputAction sv sid s ref =
     sbind (listActionRecords sv sid) (\<lambda>actions.
       case go_sort action_better (map (\<lambda>rec. (rec, action_score s rec)) (filter (action_matches ref) actions)) of
         [] \<Rightarrow> sfail (ErrWrap ''output ref'' ErrProgramBindingResolveFailed)
       | c # _ \<Rightarrow> sret (fst c))"

definition artifact_matches :: "string \<Rightarrow> string \<Rightarrow> string \<Rightarrow> artifact \<Rightarrow> bool" where
  "artifact_matches artifactID stepID actionID rec \<longleftrightarrow> \<not> (artifactID \<noteq> [] \<and> af_ArtifactID rec \<noteq> artifactID)
     \<and> \<not> (actionID \<noteq> [] \<and> af_ActionID rec \<noteq> actionID) \<and> \<not> (stepID \<noteq> [] \<and> \<not> programOutputRefMatchesArtifact rec stepID)"

definition artifact_better :: "(artifact \<times> int) \<Rightarrow> (artifact \<times> int) \<Rightarrow> bool" where
  "artifact_better a b =
     (if snd a \<noteq> snd b then snd b < snd a
      else if af_CreatedAt (fst a) \<noteq> af_CreatedAt (fst b) then af_CreatedAt (fst b) < af_CreatedAt (fst a)
      else af_ArtifactID (fst b) < af_ArtifactID (fst a))"

definition resolveProgramArtifactHandle :: "service \<Rightarrow> string \<Rightarrow> step \<Rightarrow> string \<Rightarrow> string \<Rightarrow> string \<Rightarrow> gval svc" where
  "resolveProgramArtifactHandle sv sid s artifactID stepID actionID =
     sbind (listArtifactRecords sv sid) (\<lambda>artifacts.
       case go_sort artifact_better (map (\<lambda>rec. (rec, target_score s (af_Metadata rec)))
              (filter (artifact_matches artifactID stepID actionID) artifacts)) of
         [] \<Rightarrow> sfail (ErrWrap artifactID ErrProgramBindingResolveFailed)
       | c # _ \<Rightarrow> sret (VStruct ''execution.ArtifactRef'' [(''ArtifactID'', VStr (af_ArtifactID (fst c))),
                    (''Name'', VStr (af_Name (fst c))), (''Kind'', VStr (af_Kind (fst c)))]))"

section \<open>Resolving bindings\<close>

definition or_resolve_failed :: "string \<Rightarrow> gval option \<Rightarrow> gval svc" where
  "or_resolve_failed text v = (case v of None \<Rightarrow> sfail (ErrWrap text ErrProgramBindingResolveFailed) | Some x \<Rightarrow> sret x)"

definition resolve_structured :: "action_result \<Rightarrow> string \<Rightarrow> gval svc" where
  "resolve_structured r path =
     (if trim_space path = [] then sret (VMap (ar_Data r))
      else or_resolve_failed ''output path not found'' (resolveProgramResultPath r path))"

definition resolve_text :: "action_result \<Rightarrow> string \<Rightarrow> gval svc" where
  "resolve_text r path =
     (if trim_space path \<noteq> [] then
        (case resolveProgramResultPath r path of
           None \<Rightarrow> sfail (ErrWrap ''text path not found'' ErrProgramBindingResolveFailed)
         | Some v \<Rightarrow> or_resolve_failed ''text path is not a string'' (map_option VStr (stringFromProgramValue (Some v))))
      else case stringFromProgramValue (gm_get (ar_Data r) ''stdout'') of
             Some text \<Rightarrow> sret (VStr text)
           | None \<Rightarrow> or_resolve_failed ''text output missing'' (map_option VStr (stringFromProgramValue (gm_get (ar_Data r) ''text''))))"

definition resolve_bytes :: "action_result \<Rightarrow> string \<Rightarrow> gval svc" where
  "resolve_bytes r path =
     (if trim_space path \<noteq> [] then
        (case resolveProgramResultPath r path of
           None \<Rightarrow> sfail (ErrWrap ''bytes path not found'' ErrProgramBindingResolveFailed)
         | Some v \<Rightarrow> or_resolve_failed ''bytes path is not bytes'' (bytesFromProgramValue (Some v)))
      else case bytesFromProgramValue (gm_get (ar_Data r) ''bytes'') of
             Some b \<Rightarrow> sret b
           | None \<Rightarrow> or_resolve_failed ''bytes output missing'' (map_option VBytes (stringFromProgramValue (gm_get (ar_Data r) ''stdout''))))"

definition resolveProgramOutputRef :: "service \<Rightarrow> string \<Rightarrow> step \<Rightarrow> output_ref \<Rightarrow> gval svc" where
  "resolveProgramOutputRef sv sid s ref =
     (case or_Kind ref of
        OutputRefArtifact \<Rightarrow> resolveProgramArtifactHandle sv sid s (or_ArtifactID ref) (or_StepID ref) (or_ActionID ref)
      | OutputRefAttachment \<Rightarrow>
          if or_AttachmentID ref = [] then sfail (ErrWrap ''missing attachment id'' ErrProgramBindingResolveFailed)
          else sret (VStruct ''execution.AttachmentRef'' [(''AttachmentID'', VStr (or_AttachmentID ref)), (''Name'', VStr []), (''MediaType'', VStr [])])
      | kind \<Rightarrow> sbind (findProgramOutputAction sv sid s ref) (\<lambda>rec.
          if kind = OutputRefOther [] \<or> kind = OutputRefStructured then resolve_structured (ac_Result rec) (or_Path ref)
          else if kind = OutputRefText then resolve_text (ac_Result rec) (or_Path ref)
          else if kind = OutputRefBytes then resolve_bytes (ac_Result rec) (or_Path ref)
          else sfail (ErrWrap ''output ref kind'' ErrProgramOutputRefUnsupported)))"

type_synonym materializer = "string \<Rightarrow> step \<Rightarrow> attachment_input \<Rightarrow> artifact option \<Rightarrow> goerr + gval"

definition findProgramAttachmentArtifact :: "service \<Rightarrow> string \<Rightarrow> string \<Rightarrow> artifact svc" where
  "findProgramAttachmentArtifact sv sid artifactID =
     (if trim_space artifactID = [] then sfail (ErrWrap ''missing attachment artifact id'' ErrProgramBindingResolveFailed)
      else sbind (listArtifactRecords sv sid) (\<lambda>artifacts.
        case List.find (\<lambda>rec. af_ArtifactID rec = artifactID) artifacts of
          Some rec \<Rightarrow> sret rec
        | None \<Rightarrow> sfail (ErrWrap artifactID ErrProgramBindingResolveFailed)))"

definition materializeProgramAttachment :: "service \<Rightarrow> materializer option \<Rightarrow> string \<Rightarrow> step \<Rightarrow> attachment_input \<Rightarrow> gval svc" where
  "materializeProgramAttachment sv mat sid s input =
     sbind (if ai_Kind input = AttachmentInputArtifactRef
            then sbind (findProgramAttachmentArtifact sv sid (ai_ArtifactID input)) (\<lambda>a. sret (Some a)) else sret None) (\<lambda>artifact.
       case mat of
         None \<Rightarrow> sfail (ErrWrap ''attachment materializer not configured'' ErrProgramAttachmentUnsupported)
       | Some materialize \<Rightarrow> slift (materialize sid s input artifact))"

definition resolveProgramBindingValue :: "service \<Rightarrow> materializer option \<Rightarrow> string \<Rightarrow> step \<Rightarrow> input_binding \<Rightarrow> gval svc" where
  "resolveProgramBindingValue sv mat sid s b =
     (if ib_Kind b = ProgramInputBindingOther [] \<or> ib_Kind b = ProgramInputBindingLiteral then sret (ib_Value b)
      else if ib_Kind b = ProgramInputBindingOutputRef then
        (case ib_Ref b of
           None \<Rightarrow> sfail (ErrWrap (ib_Name b) ErrProgramBindingResolveFailed)
         | Some ref \<Rightarrow> resolveProgramOutputRef sv sid s ref)
      else if ib_Kind b = ProgramInputBindingAttachment then
        (case ib_Attachment b of
           None \<Rightarrow> sfail (ErrWrap (ib_Name b) ErrProgramBindingResolveFailed)
         | Some a \<Rightarrow>
             if ai_Materialize a \<noteq> AttachmentMaterializeOther [] \<and> ai_Materialize a \<noteq> AttachmentMaterializeNone
             then materializeProgramAttachment sv mat sid s a
             else (case ai_Kind a of
                     AttachmentInputText \<Rightarrow> sret (VStr (ai_Text a))
                   | AttachmentInputBytes \<Rightarrow> sret (VBytes (ai_Bytes a))
                   | AttachmentInputArtifactRef \<Rightarrow> resolveProgramArtifactHandle sv sid s (ai_ArtifactID a) [] []
                   | AttachmentInputOther _ \<Rightarrow> sfail (ErrWrap ''attachment kind'' ErrProgramAttachmentUnsupported)))
      else sfail (ErrWrap ''binding kind'' ErrProgramInputBindingUnsupported))"

fun bind_args :: "service \<Rightarrow> materializer option \<Rightarrow> string \<Rightarrow> input_binding list \<Rightarrow> step \<Rightarrow> step svc" where
  "bind_args sv mat sid [] s = sret s"
| "bind_args sv mat sid (b # bs) s =
     sbind (resolveProgramBindingValue sv mat sid s b) (\<lambda>value.
       bind_args sv mat sid bs (s\<lparr>sp_Action := (sp_Action s)\<lparr>an_Args := gm_put (ib_Name b) value (an_Args (sp_Action s))\<rparr>\<rparr>))"

definition resolveProgramBindings :: "service \<Rightarrow> json_codec \<Rightarrow> materializer option \<Rightarrow> string \<Rightarrow> step \<Rightarrow> step svc" where
  "resolveProgramBindings sv js mat sid s =
     (case ProgramInputBindingsFromStep js s of None \<Rightarrow> sret s | Some bindings \<Rightarrow> bind_args sv mat sid bindings s)"

section \<open>Verification of an aggregate\<close>

fun step_status_text :: "StepStatus \<Rightarrow> string" where
  "step_status_text StepPending = ''pending''"
| "step_status_text StepRunning = ''running''"
| "step_status_text StepBlocked = ''blocked''"
| "step_status_text StepCompleted = ''completed''"
| "step_status_text StepFailed = ''failed''"
| "step_status_text StepSkipped = ''skipped''"
| "step_status_text (StepOther s) = s"

fun aggregate_status_text :: "AggregateStatus \<Rightarrow> string" where
  "aggregate_status_text AggregateStatusPending = ''pending''"
| "aggregate_status_text AggregateStatusCompleted = ''completed''"
| "aggregate_status_text AggregateStatusPartialFailed = ''partial_failed''"
| "aggregate_status_text AggregateStatusFailed = ''failed''"

fun aggregate_ready :: "string \<Rightarrow> loop_budgets \<Rightarrow> step list \<Rightarrow> bool" where
  "aggregate_ready aggregateID budgets [] \<longleftrightarrow> True"
| "aggregate_ready aggregateID budgets (s # ss) \<longleftrightarrow>
     (case AggregateRefFromMetadata (sp_Metadata s) of
        None \<Rightarrow> aggregate_ready aggregateID budgets ss
      | Some (i, _) \<Rightarrow>
          if i \<noteq> aggregateID then aggregate_ready aggregateID budgets ss
          else if sp_Status s = StepUnset \<or> sp_Status s = StepPending \<or> sp_Status s = StepRunning \<or> sp_Status s = StepBlocked then False
          else if sp_Status s = StepFailed \<and> sp_Attempt s < allowedAttempts s budgets then False
          else aggregate_ready aggregateID budgets ss)"

definition aggregateVerificationReady :: "plan \<Rightarrow> string \<Rightarrow> loop_budgets \<Rightarrow> bool" where
  "aggregateVerificationReady spec aggregateID budgets = aggregate_ready aggregateID budgets (pl_Steps spec)"

definition aggregate_item :: "aggregate_target \<Rightarrow> meta" where
  "aggregate_item t =
     put_if (tr_Kind (gt_Target t) \<noteq> []) ''target_kind'' (VStr (tr_Kind (gt_Target t)))
      (put_if (tr_TargetID (gt_Target t) \<noteq> []) ''target_id'' (VStr (tr_TargetID (gt_Target t)))
       [(''step_id'', VStr (gt_StepID t)), (''status'', VNamed ''plan.StepStatus'' (step_status_text (gt_Status t))),
        (''attempt'', VInt (gt_Attempt t)), (''reason'', VStr (gt_Reason t))])"

definition actionResultFromAggregate :: "aggregate_result \<Rightarrow> action_result" where
  "actionResultFromAggregate a = \<lparr>ar_OK = (ag_Status a \<noteq> AggregateStatusFailed),
     ar_Data = [(''aggregate_id'', VStr (ag_AggregateID a)), (''scope'', VNamed ''execution.AggregateScope'' (ag_Scope a)),
       (''strategy'', VNamed ''execution.TargetFailureStrategy'' (ag_Strategy a)),
       (''status'', VNamed ''execution.AggregateStatus'' (aggregate_status_text (ag_Status a))),
       (''program_id'', VStr (ag_ProgramID a)), (''node_id'', VStr (ag_NodeID a)), (''title'', VStr (ag_Title a)),
       (''expected'', VInt (ag_Expected a)), (''completed'', VInt (ag_Completed a)), (''failed'', VInt (ag_Failed a)),
       (''pending'', VInt (ag_Pending a)),
       (''targets'', VStruct ''[]map[string]any'' [(''items'', VList (map (\<lambda>t. VMap (aggregate_item t)) (ag_Targets a)))])],
     ar_Meta = [(''verification_scope'', VNamed ''execution.VerificationScope'' VerificationScopeAggregate)], ar_Error = None\<rparr>"

definition zero_result :: action_result where
  "zero_result = \<lparr>ar_OK = False, ar_Data = [], ar_Meta = [], ar_Error = None\<rparr>"

text \<open>The specification to check if there is one, the result to check it on, and whether it is time.\<close>

definition aggregateVerifyInputForStep :: "service \<Rightarrow> json_codec \<Rightarrow> string \<Rightarrow> step \<Rightarrow> bool \<Rightarrow> (verify_spec option \<times> action_result \<times> bool) svc" where
  "aggregateVerifyInputForStep sv js sid s rawSuccess =
     (if programVerifyScopeFromStep s \<noteq> VerificationScopeAggregate then sret (None, zero_result, False)
      else case programAggregateVerifySpecFromStep js s of
        None \<Rightarrow> sret (None, zero_result, False)
      | Some spec \<Rightarrow>
          (case AggregateRefFromMetadata (sp_Metadata s) of
             None \<Rightarrow> sret (None, zero_result, False)
           | Some (aggregateID, _) \<Rightarrow>
               if aggregateID = [] then sret (None, zero_result, False)
               else sbind (latestPlanForSession sv sid) (\<lambda>latest.
                 case latest of
                   None \<Rightarrow> sret (Some spec, zero_result, False)
                 | Some p \<Rightarrow>
                     let provisional = s\<lparr>sp_Status := (if rawSuccess then StepCompleted else StepFailed)\<rparr>;
                         simulated = replacePlanStep p provisional
                     in if \<not> aggregateVerificationReady simulated aggregateID (sv_Budgets sv) then sret (Some spec, zero_result, False)
                        else case List.find (\<lambda>a. ag_AggregateID a = aggregateID) (AggregateResultsFromPlan simulated) of
                               Some a \<Rightarrow> sret (Some spec, actionResultFromAggregate a, True)
                             | None \<Rightarrow> sret (Some spec, zero_result, False))))"

section \<open>The best candidate\<close>

text \<open>Candidates are sorted by a key, the greatest first; the head has the greatest key.\<close>

locale best_first =
  fixes better :: "'a \<Rightarrow> 'a \<Rightarrow> bool" and key :: "'a \<Rightarrow> 'k::linorder"
  assumes better_key: "better x y \<longleftrightarrow> key y < key x"
begin

lemma hd_insert: "hd (go_insert better x ys) = (if ys \<noteq> [] \<and> key x < key (hd ys) then hd ys else x)"
  by (cases ys) (auto simp: better_key)

lemma hd_best: "x \<in> set xs \<Longrightarrow> key x \<le> key (hd (go_sort better xs))"
proof (induction xs)
  case (Cons a xs)
  have "go_sort better xs \<noteq> []" if "xs \<noteq> []" using that by (metis length_0_conv length_go_sort)
  then show ?case using Cons by (cases "xs = []") (auto simp: hd_insert)
qed simp

end

interpretation action_order: best_first action_better "\<lambda>c. (snd c, ac_FinishedAt (fst c), ac_ActionID (fst c))"
  by unfold_locales (auto simp: action_better_def)

interpretation artifact_order: best_first artifact_better "\<lambda>c. (snd c, af_CreatedAt (fst c), af_ArtifactID (fst c))"
  by unfold_locales (auto simp: artifact_better_def)

definition action_candidates :: "step \<Rightarrow> output_ref \<Rightarrow> action_record list \<Rightarrow> (action_record \<times> int) list" where
  "action_candidates s ref actions = map (\<lambda>rec. (rec, action_score s rec)) (filter (action_matches ref) actions)"

lemma findProgramOutputAction_run:
  assumes "findProgramOutputAction sv sid s ref w = (Inr rec, w')"
  shows "\<exists>actions. actions = action_List sid (rp_Actions (w_Repos w)) \<and> rec = fst (hd (go_sort action_better (action_candidates s ref actions)))
     \<and> action_candidates s ref actions \<noteq> [] \<and> w_Repos w' = w_Repos w"
proof -
  from assms obtain actions w1 where l: "listActionRecords sv sid w = (Inr actions, w1)"
    and c: "(case go_sort action_better (action_candidates s ref actions) of
         [] \<Rightarrow> sfail (ErrWrap ''output ref'' ErrProgramBindingResolveFailed) | c # _ \<Rightarrow> sret (fst c)) w1 = (Inr rec, w')"
    by (auto simp: findProgramOutputAction_def action_candidates_def elim!: sbind_Inr)
  from l readRepositories_run(1,2)[of sv _ w _ w1] have a: "actions = action_List sid (rp_Actions (w_Repos w))" "w_Repos w1 = w_Repos w"
    unfolding listActionRecords_def by (force, blast)
  from c obtain d ds where d: "go_sort action_better (action_candidates s ref actions) = d # ds" "rec = fst d" "w' = w1"
    by (cases "go_sort action_better (action_candidates s ref actions)") (auto simp: svc_apply)
  then have "action_candidates s ref actions \<noteq> []" by auto
  with a d show ?thesis by simp
qed

text \<open>
  C29. A reference to the output of an earlier step means the best record that fits it: the record
  is one of the session's actions with the requested action and step (or node) id, no other fitting
  record has a higher score, and among those with its score none finished later. In particular a
  step of a fan-out reads the output of its own target whenever that target has a fitting record.
\<close>

theorem output_ref_best:
  assumes "findProgramOutputAction sv sid s ref w = (Inr rec, w')"
  shows "rec \<in> set (action_List sid (rp_Actions (w_Repos w))) \<and> action_matches ref rec \<and> w_Repos w' = w_Repos w
     \<and> (\<forall>other\<in>set (action_List sid (rp_Actions (w_Repos w))). action_matches ref other \<longrightarrow>
          action_score s other < action_score s rec
          \<or> action_score s other = action_score s rec \<and> ac_FinishedAt other \<le> ac_FinishedAt rec)
     \<and> (\<forall>other t. other \<in> set (action_List sid (rp_Actions (w_Repos w))) \<and> action_matches ref other \<and> TargetFromStep s = Some t
          \<and> (\<exists>t'. TargetRefFromMetadata (ac_Metadata other) = Some t' \<and> tr_TargetID t' = tr_TargetID t) \<longrightarrow>
          (\<exists>t'. TargetRefFromMetadata (ac_Metadata rec) = Some t' \<and> tr_TargetID t' = tr_TargetID t))"
proof -
  define actions where "actions = action_List sid (rp_Actions (w_Repos w))"
  let ?cs = "action_candidates s ref actions"
  from findProgramOutputAction_run[OF assms] have r: "rec = fst (hd (go_sort action_better ?cs))" "?cs \<noteq> []" "w_Repos w' = w_Repos w"
    by (auto simp: actions_def)
  have "hd (go_sort action_better ?cs) \<in> set ?cs"
    using r(2) by (metis hd_in_set length_0_conv length_go_sort set_go_sort)
  then have mem: "rec \<in> set actions" "action_matches ref rec" and sc: "snd (hd (go_sort action_better ?cs)) = action_score s rec"
    using r(1) by (auto simp: action_candidates_def)
  have best: "action_score s other < action_score s rec
          \<or> action_score s other = action_score s rec \<and> ac_FinishedAt other \<le> ac_FinishedAt rec"
    if "other \<in> set actions" "action_matches ref other" for other
  proof -
    have "(other, action_score s other) \<in> set ?cs" using that by (simp add: action_candidates_def)
    from action_order.hd_best[OF this] show ?thesis using r(1) sc by (auto simp: less_eq_prod_def)
  qed
  have own: "\<exists>t'. TargetRefFromMetadata (ac_Metadata rec) = Some t' \<and> tr_TargetID t' = tr_TargetID t"
    if "other \<in> set actions" "action_matches ref other" "TargetFromStep s = Some t"
      "TargetRefFromMetadata (ac_Metadata other) = Some t'" "tr_TargetID t' = tr_TargetID t" for other t t'
  proof -
    have "10 \<le> action_score s other" using that by (simp add: action_score_def target_score_def)
    with best[OF that(1,2)] have "10 \<le> action_score s rec" by auto
    then show ?thesis using that(3) by (auto simp: action_score_def target_score_def split: option.splits if_splits)
  qed
  show ?thesis using mem best own r(3) unfolding actions_def[symmetric] by blast
qed

definition ex_record :: "string \<Rightarrow> string \<Rightarrow> int \<Rightarrow> action_record" where
  "ex_record aid tid finished = \<lparr>ac_ActionID = aid, ac_AttemptID = [], ac_SessionID = ''s1'', ac_TaskID = [], ac_StepID = ''n'',
     ac_CycleID = [], ac_ToolName = [], ac_TraceID = [], ac_CausationID = [], ac_Status = ActionCompleted, ac_Result = zero_result,
     ac_Metadata = [(''target_id'', VStr tid)], ac_StartedAt = 1, ac_FinishedAt = finished\<rparr>"

definition ex_records_world :: world where
  "ex_records_world = ex_world\<lparr>w_Repos := (w_Repos ex_world)\<lparr>rp_Actions :=
     [(''a1'', ex_record ''a1'' ''x'' 5), (''a2'', ex_record ''a2'' ''y'' 9)]\<rparr>\<rparr>"

definition ex_ref :: output_ref where
  "ex_ref = \<lparr>or_Kind = OutputRefText, or_StepID = ''n'', or_ActionID = [], or_ArtifactID = [], or_AttachmentID = [], or_Path = [], or_Metadata = []\<rparr>"

theorem output_ref_best_witness:
  "\<exists>rec w'. findProgramOutputAction ex_service ''s1'' (zero_step\<lparr>sp_Metadata := [(''target_id'', VStr ''x'')]\<rparr>) ex_ref ex_records_world = (Inr rec, w')
     \<and> ac_ActionID rec = ''a1'' \<and> action_matches ex_ref rec"
proof -
  let ?r = "findProgramOutputAction ex_service ''s1'' (zero_step\<lparr>sp_Metadata := [(''target_id'', VStr ''x'')]\<rparr>) ex_ref ex_records_world"
  have "case fst ?r of Inl _ \<Rightarrow> False | Inr rec \<Rightarrow> ac_ActionID rec = ''a1''" by code_simp
  then obtain rec w' where r: "?r = (Inr rec, w')" "ac_ActionID rec = ''a1''" by (cases ?r) (auto split: sum.splits)
  with output_ref_best[OF r(1)] show ?thesis by blast
qed

end
