(* ===== verification/Step_Records.thy ===== *)
theory Step_Records
  imports Program_Runtime
begin

text \<open>
  What running a step records: \<^verbatim>\<open>pkg/harness/runtime\<close> execution_cycle.go, target_metadata.go, the
  helpers of runner.go that write plans, tasks, execution facts, capability snapshots and runtime
  handles and that read handles off an action's result, and the functions of rollback.go that restore
  records.
\<close>

section \<open>Cycle ids and fact metadata\<close>

abbreviation "stepExecutionCycleKey \<equiv> ''execution_cycle_id''"

definition executionCycleIDFromStep :: "step \<Rightarrow> string" where
  "executionCycleIDFromStep s =
     (if sp_Status s \<noteq> StepBlocked \<and> sp_Status s \<noteq> StepRunning then []
      else if sp_Metadata s = [] then []
      else as_string (gm_get (sp_Metadata s) stepExecutionCycleKey))"

text \<open>The id, and the step with the id in its metadata. An id is drawn only if there is none.\<close>

definition ensureExecutionCycleID :: "step \<Rightarrow> string \<Rightarrow> (string \<times> step) svc" where
  "ensureExecutionCycleID s existing =
     (let existing = (if existing = [] then executionCycleIDFromStep s else existing)
      in sbind (if existing = [] then sbind newUUID (\<lambda>u. sret (''cyc_'' @ u)) else sret existing) (\<lambda>i.
           sret (i, s\<lparr>sp_Metadata := gm_put stepExecutionCycleKey (VStr i) (sp_Metadata s)\<rparr>)))"

definition fact_keys :: "string list" where
  "fact_keys = [''program_id'', ''program_node_id'', ''aggregate_id'', ''aggregate_scope'', ''aggregate_strategy'',
     ''aggregate_expected'', ''aggregate_title'', ''aggregate_max_concurrency'', ''target_id'', ''target_kind'',
     ''target_display_name'', ''target_index'', ''target_count'']"

definition copyIfPresent :: "meta \<Rightarrow> string \<Rightarrow> meta \<Rightarrow> meta" where
  "copyIfPresent src key dst = (case gm_get src key of Some v \<Rightarrow> gm_put key v dst | None \<Rightarrow> dst)"

definition copyExecutionFactMetadata :: "meta \<Rightarrow> meta \<Rightarrow> meta" where
  "copyExecutionFactMetadata dst src = foldl (\<lambda>d k. copyIfPresent src k d) dst fact_keys"

definition applyExecutionFactMetadata :: "meta \<Rightarrow> meta \<Rightarrow> meta" where
  "applyExecutionFactMetadata dst stepMetadata = (if stepMetadata = [] then dst else copyExecutionFactMetadata dst stepMetadata)"

definition executionFactMetadata :: "meta \<Rightarrow> meta" where
  "executionFactMetadata stepMetadata = (if stepMetadata = [] then [] else copyExecutionFactMetadata [] stepMetadata)"

definition applyExecutionFactMetadataToHandles :: "runtime_handle list \<Rightarrow> meta \<Rightarrow> runtime_handle list" where
  "applyExecutionFactMetadataToHandles handles stepMetadata =
     (if stepMetadata = [] then handles
      else map (\<lambda>h. h\<lparr>rh_Metadata := copyExecutionFactMetadata (rh_Metadata h) stepMetadata\<rparr>) handles)"

section \<open>Plans and tasks\<close>

definition do_plan_Update :: "plan \<Rightarrow> unit svc" where
  "do_plan_Update p = sbind nowMilli (\<lambda>t. sexec (\<lambda>r.
     case plan_Update t p (rp_Plans r) of Inl e \<Rightarrow> Inl e | Inr m \<Rightarrow> Inr ((), r\<lparr>rp_Plans := m\<rparr>)))"

text \<open>The plan with the step in place of the first step of its id, its status computed anew.\<close>

definition plan_with_step :: "plan \<Rightarrow> step \<Rightarrow> loop_budgets \<Rightarrow> plan" where
  "plan_with_step p s budgets =
     (let p = p\<lparr>pl_Steps := update_first (\<lambda>x. sp_StepID x = sp_StepID s) (\<lambda>_. s) (pl_Steps p)\<rparr>
      in p\<lparr>pl_Status := planStatusForSpec p budgets\<rparr>)"

definition updateLatestPlanStepInStoreWithBudgets :: "string \<Rightarrow> step \<Rightarrow> loop_budgets \<Rightarrow> plan option svc" where
  "updateLatestPlanStepInStoreWithBudgets sid s budgets =
     sbind (sread rp_Plans) (\<lambda>plans.
       case planForStepInStore (Some plans) sid s of
         None \<Rightarrow> sret None
       | Some p \<Rightarrow>
           let s = annotateStepIdentity s (pl_PlanID p) (pl_Revision p)
           in if \<not> list_ex (\<lambda>x. sp_StepID x = sp_StepID s) (pl_Steps p) then sret (Some (annotatePlanIdentity p))
              else let p' = plan_with_step p s budgets
                   in sbind (do_plan_Update p') (\<lambda>_. sret (Some (annotatePlanIdentity p'))))"

definition updateLatestPlanStepInStore :: "string \<Rightarrow> step \<Rightarrow> plan option svc" where
  "updateLatestPlanStepInStore sid s = updateLatestPlanStepInStoreWithBudgets sid s DefaultLoopBudgets"

definition terminal_task_status :: "Phase \<Rightarrow> TaskStatus option" where
  "terminal_task_status ph = (case ph of PhaseComplete \<Rightarrow> Some TaskCompleted | PhaseFailed \<Rightarrow> Some TaskFailed
     | PhaseAborted \<Rightarrow> Some TaskAborted | _ \<Rightarrow> None)"

definition updateTaskForTerminalInStore :: "session \<Rightarrow> task option svc" where
  "updateTaskForTerminalInStore st =
     (if st_TaskID st = [] then sret None
      else sbind (do_task_Get (st_TaskID st)) (\<lambda>rec.
        case terminal_task_status (st_Phase st) of
          None \<Rightarrow> sret (Some rec)
        | Some status \<Rightarrow> let rec = rec\<lparr>tk_Status := status\<rparr> in sbind (do_task_Update rec) (\<lambda>_. sret (Some rec))))"

section \<open>Execution facts\<close>

definition do_attempt_Create :: "attempt \<Rightarrow> attempt svc" where
  "do_attempt_Create a = sbind newUUID (\<lambda>u. sbind nowMilli (\<lambda>t. sexec (\<lambda>r.
     case attempt_Create u t a (rp_Attempts r) of (x, m) \<Rightarrow> Inr (x, r\<lparr>rp_Attempts := m\<rparr>))))"

definition do_attempt_Update :: "attempt \<Rightarrow> unit svc" where
  "do_attempt_Update a = sexec (\<lambda>r.
     case attempt_Update a (rp_Attempts r) of Inl e \<Rightarrow> Inl e | Inr m \<Rightarrow> Inr ((), r\<lparr>rp_Attempts := m\<rparr>))"

definition do_action_Create :: "action_record \<Rightarrow> action_record svc" where
  "do_action_Create a = sbind newUUID (\<lambda>u. sbind nowMilli (\<lambda>t. sexec (\<lambda>r.
     case action_Create u t a (rp_Actions r) of (x, m) \<Rightarrow> Inr (x, r\<lparr>rp_Actions := m\<rparr>))))"

definition do_verification_Create :: "verification_record \<Rightarrow> verification_record svc" where
  "do_verification_Create a = sbind newUUID (\<lambda>u. sbind nowMilli (\<lambda>t. sexec (\<lambda>r.
     case verification_Create u t a (rp_Verifications r) of (x, m) \<Rightarrow> Inr (x, r\<lparr>rp_Verifications := m\<rparr>))))"

definition do_artifact_Create :: "artifact \<Rightarrow> artifact svc" where
  "do_artifact_Create a = sbind newUUID (\<lambda>u. sbind nowMilli (\<lambda>t. sexec (\<lambda>r.
     case artifact_Create u t a (rp_Artifacts r) of (x, m) \<Rightarrow> Inr (x, r\<lparr>rp_Artifacts := m\<rparr>))))"

definition do_snapshot_Create :: "snapshot \<Rightarrow> snapshot svc" where
  "do_snapshot_Create a = sbind newUUID (\<lambda>u. sbind nowMilli (\<lambda>t. sexec (\<lambda>r.
     case snapshot_Create u t a (rp_CapabilitySnapshots r) of (x, m) \<Rightarrow> Inr (x, r\<lparr>rp_CapabilitySnapshots := m\<rparr>))))"

fun sdo_all :: "('a \<Rightarrow> 'b svc) \<Rightarrow> 'a list \<Rightarrow> unit svc" where
  "sdo_all f [] = sret ()"
| "sdo_all f (x # xs) = sbind (f x) (\<lambda>_. sdo_all f xs)"

definition persistExecutionFacts :: "attempt \<Rightarrow> bool \<Rightarrow> action_record option \<Rightarrow> verification_record option \<Rightarrow> artifact list \<Rightarrow> unit svc" where
  "persistExecutionFacts a updateAttempt actionRecord verificationRecord artifacts =
     sbind (if updateAttempt then do_attempt_Update a else sbind (do_attempt_Create a) (\<lambda>_. sret ())) (\<lambda>_.
     sbind (case actionRecord of None \<Rightarrow> sret () | Some x \<Rightarrow> sbind (do_action_Create x) (\<lambda>_. sret ())) (\<lambda>_.
     sbind (case verificationRecord of None \<Rightarrow> sret () | Some x \<Rightarrow> sbind (do_verification_Create x) (\<lambda>_. sret ())) (\<lambda>_.
     sdo_all do_artifact_Create artifacts)))"

definition persistCapabilitySnapshot :: "snapshot option \<Rightarrow> unit svc" where
  "persistCapabilitySnapshot s = (case s of None \<Rightarrow> sret () | Some x \<Rightarrow> sbind (do_snapshot_Create x) (\<lambda>_. sret ()))"

definition persistRuntimeHandles :: "runtime_handle list \<Rightarrow> unit svc" where
  "persistRuntimeHandles handles = sdo_all upsertRuntimeHandle handles"

section \<open>Results of actions\<close>

definition trimMapStrings :: "meta \<Rightarrow> int \<Rightarrow> meta" where
  "trimMapStrings md limit =
     (if md = [] \<or> limit \<le> 0 then md
      else map (\<lambda>(k, v). (k, case v of VStr s \<Rightarrow> if limit < int (length s) then VStr (take (nat limit) s) else VStr s | _ \<Rightarrow> v)) md)"

definition trimActionResultToBudget :: "action_result \<Rightarrow> int \<Rightarrow> action_result" where
  "trimActionResultToBudget r limit =
     (if limit \<le> 0 then r
      else r\<lparr>ar_Data := trimMapStrings (ar_Data r) limit, ar_Meta := trimMapStrings (ar_Meta r) limit,
             ar_Error := map_option (\<lambda>e. if limit < int (length (ae_Message e))
               then \<lparr>ae_Code = ae_Code e, ae_Message = take (nat limit) (ae_Message e)\<rparr> else e) (ar_Error r)\<rparr>)"

definition actionErrorMessage :: "action_result \<Rightarrow> string" where
  "actionErrorMessage r = (case ar_Error r of
     Some e \<Rightarrow> if ae_Message e \<noteq> [] then ae_Message e else ''tool failed'' | None \<Rightarrow> ''tool failed'')"

definition asInt64 :: "gval option \<Rightarrow> int option" where
  "asInt64 v = int64_case v"

definition handle_status_of :: "string \<Rightarrow> RuntimeHandleStatus" where
  "handle_status_of s = (if s = ''active'' then RuntimeHandleActive else if s = ''closed'' then RuntimeHandleClosed
     else if s = ''invalidated'' then RuntimeHandleInvalidated else RuntimeHandleOther s)"

text \<open>A value of type \<^verbatim>\<open>execution.RuntimeHandle\<close>.\<close>

definition dec_handle :: "meta \<Rightarrow> runtime_handle" where
  "dec_handle fs = (let f = gm_get fs in
     \<lparr>rh_HandleID = as_string (f ''HandleID''), rh_SessionID = as_string (f ''SessionID''), rh_TaskID = as_string (f ''TaskID''),
      rh_AttemptID = as_string (f ''AttemptID''), rh_CycleID = as_string (f ''CycleID''), rh_TraceID = as_string (f ''TraceID''),
      rh_Kind = as_string (f ''Kind''), rh_Value = as_string (f ''Value''), rh_Status = handle_status_of (as_string (f ''Status'')),
      rh_StatusReason = as_string (f ''StatusReason''), rh_Metadata = as_meta (f ''Metadata''), rh_Version = as_int (f ''Version''),
      rh_CreatedAt = as_int (f ''CreatedAt''), rh_UpdatedAt = as_int (f ''UpdatedAt''), rh_ClosedAt = as_int (f ''ClosedAt''),
      rh_InvalidatedAt = as_int (f ''InvalidatedAt'')\<rparr>)"

definition with_action_id :: "action_record option \<Rightarrow> runtime_handle \<Rightarrow> runtime_handle" where
  "with_action_id act h = (case act of None \<Rightarrow> h
     | Some x \<Rightarrow> h\<lparr>rh_Metadata := gm_put ''action_id'' (VStr (ac_ActionID x)) (rh_Metadata h)\<rparr>)"

definition drop_empty :: "runtime_handle \<Rightarrow> runtime_handle option" where
  "drop_empty h = (if rh_Kind h = [] \<and> rh_Value h = [] then None else Some h)"

text \<open>The first two cases of the type switch: defaults for what the struct leaves out.\<close>

definition handle_of_struct :: "attempt \<Rightarrow> action_record option \<Rightarrow> int \<Rightarrow> runtime_handle \<Rightarrow> runtime_handle option svc" where
  "handle_of_struct a act now h =
     sbind (if rh_HandleID h = [] then sbind newUUID (\<lambda>u. sret (''hdl_'' @ u)) else sret (rh_HandleID h)) (\<lambda>i.
       let h = h\<lparr>rh_HandleID := i, rh_SessionID := or_str (rh_SessionID h) (at_SessionID a),
                 rh_TaskID := or_str (rh_TaskID h) (at_TaskID a), rh_AttemptID := or_str (rh_AttemptID h) (at_AttemptID a),
                 rh_CycleID := or_str (rh_CycleID h) (at_CycleID a), rh_TraceID := or_str (rh_TraceID h) (at_TraceID a),
                 rh_CreatedAt := or_int (rh_CreatedAt h) now\<rparr>;
           h = h\<lparr>rh_UpdatedAt := or_int (rh_UpdatedAt h) (rh_CreatedAt h),
                 rh_Status := (if rh_Status h = RuntimeHandleOther [] then RuntimeHandleActive else rh_Status h)\<rparr>
       in sret (drop_empty (with_action_id act h)))"

definition pos_time :: "gval option \<Rightarrow> int \<Rightarrow> int" where
  "pos_time v t = (case asInt64 v of Some n \<Rightarrow> if 0 < n then n else t | None \<Rightarrow> t)"

text \<open>The default case: a map, whose entries replace the values of the attempt.\<close>

definition handle_of_map :: "attempt \<Rightarrow> action_record option \<Rightarrow> int \<Rightarrow> meta \<Rightarrow> runtime_handle option svc" where
  "handle_of_map a act now m =
     (let str = (\<lambda>k d. or_str (as_string (gm_get m k)) d)
      in sbind (if as_string (gm_get m ''handle_id'') \<noteq> [] then sret (as_string (gm_get m ''handle_id''))
                else sbind newUUID (\<lambda>u. sret (''hdl_'' @ u))) (\<lambda>i.
           let status = as_string (gm_get m ''status''); createdAt = pos_time (gm_get m ''created_at'') now;
               base = (case act of None \<Rightarrow> [] | Some x \<Rightarrow> [(''action_id'', VStr (ac_ActionID x))])
           in sret (drop_empty \<lparr>rh_HandleID = i, rh_SessionID = str ''session_id'' (at_SessionID a), rh_TaskID = str ''task_id'' (at_TaskID a),
                rh_AttemptID = str ''attempt_id'' (at_AttemptID a), rh_CycleID = str ''cycle_id'' (at_CycleID a),
                rh_TraceID = str ''trace_id'' (at_TraceID a), rh_Kind = str ''kind'' [], rh_Value = str ''value'' [],
                rh_Status = (if status \<noteq> [] then handle_status_of status else RuntimeHandleActive),
                rh_StatusReason = str ''status_reason'' [],
                rh_Metadata = (case gm_get m ''metadata'' of Some (VMap md) \<Rightarrow> mergeMaps base md | _ \<Rightarrow> base),
                rh_Version = 0, rh_CreatedAt = createdAt, rh_UpdatedAt = pos_time (gm_get m ''updated_at'') createdAt,
                rh_ClosedAt = pos_time (gm_get m ''closed_at'') 0, rh_InvalidatedAt = pos_time (gm_get m ''invalidated_at'') 0\<rparr>)))"

definition runtimeHandleFromValue :: "attempt \<Rightarrow> action_record option \<Rightarrow> int \<Rightarrow> gval \<Rightarrow> runtime_handle option svc" where
  "runtimeHandleFromValue a act now raw = (case raw of
     VStruct ty fs \<Rightarrow>
       if ty = ''execution.RuntimeHandle'' \<or> ty = ''*execution.RuntimeHandle'' \<and> fs \<noteq> []
       then handle_of_struct a act now (dec_handle fs) else sret None
   | VMap m \<Rightarrow> handle_of_map a act now m
   | _ \<Rightarrow> sret None)"

fun appendRuntimeHandleSlice :: "gval \<Rightarrow> gval list" where
  "appendRuntimeHandleSlice (VList xs) = xs"
| "appendRuntimeHandleSlice (VStruct ty fs) =
     (if has_prefix ty ''[]'' then (case reflect_elements (VStruct ty fs) of Some xs \<Rightarrow> xs | None \<Rightarrow> []) else [])"
| "appendRuntimeHandleSlice _ = []"

definition handle_values :: "meta \<Rightarrow> gval list" where
  "handle_values container =
     (case gm_get container ''runtime_handle'' of Some raw \<Rightarrow> [raw] | None \<Rightarrow> [])
     @ (case gm_get container ''runtime_handles'' of Some raw \<Rightarrow> appendRuntimeHandleSlice raw | None \<Rightarrow> [])"

fun collect_handles :: "attempt \<Rightarrow> action_record option \<Rightarrow> int \<Rightarrow> gval list \<Rightarrow> runtime_handle list \<Rightarrow> runtime_handle list svc" where
  "collect_handles a act now [] out = sret out"
| "collect_handles a act now (raw # raws) out =
     sbind (runtimeHandleFromValue a act now raw) (\<lambda>r.
       case r of
         None \<Rightarrow> collect_handles a act now raws out
       | Some h \<Rightarrow> if rh_HandleID h \<in> set (map rh_HandleID out) then collect_handles a act now raws out
                   else collect_handles a act now raws (out @ [h]))"

definition extractRuntimeHandles :: "action_result \<Rightarrow> attempt \<Rightarrow> action_record option \<Rightarrow> int \<Rightarrow> runtime_handle list svc" where
  "extractRuntimeHandles r a act now = collect_handles a act now (handle_values (ar_Data r) @ handle_values (ar_Meta r)) []"

section \<open>Restoring records\<close>

definition do_approval_Get :: "string \<Rightarrow> approval svc" where
  "do_approval_Get i = (\<lambda>w. (approval_Get i (rp_Approvals (w_Repos w)), w))"

definition do_approval_Update :: "approval \<Rightarrow> unit svc" where
  "do_approval_Update a = sbind nowMilli (\<lambda>t. sexec (\<lambda>r.
     case approval_Update t a (rp_Approvals r) of Inl e \<Rightarrow> Inl e | Inr m \<Rightarrow> Inr ((), r\<lparr>rp_Approvals := m\<rparr>)))"

definition terminalizeApprovalForRollback :: "approval \<Rightarrow> string \<Rightarrow> int \<Rightarrow> unit svc" where
  "terminalizeApprovalForRollback current reason now =
     (if ap_ApprovalID current = [] then sret ()
      else do_approval_Update (current\<lparr>ap_Status := ApprovalRejected, ap_Reply := ReplyReject, ap_RespondedAt := now,
        ap_Version := ap_Version current + 1, ap_Metadata := gm_put ''terminal_reason'' (VStr reason) (ap_Metadata current)\<rparr>))"

definition restoreApprovalRecord :: "approval \<Rightarrow> unit svc" where
  "restoreApprovalRecord before =
     (if ap_ApprovalID before = [] then sret ()
      else sbind (do_approval_Get (ap_ApprovalID before)) (\<lambda>current.
        do_approval_Update (before\<lparr>ap_Version := ap_Version current + 1\<rparr>)))"

definition restoreAttemptRecord :: "attempt \<Rightarrow> unit svc" where
  "restoreAttemptRecord before = (if at_AttemptID before = [] then sret () else do_attempt_Update before)"

definition restoreBlockedRuntimeRecord :: "blocked_record \<Rightarrow> unit svc" where
  "restoreBlockedRuntimeRecord before = (if br_BlockedRuntimeID before = [] then sret () else do_blocked_Update before)"

definition restoreTaskRecord :: "task \<Rightarrow> unit svc" where
  "restoreTaskRecord before = (if tk_TaskID before = [] then sret () else do_task_Update before)"

definition restorePlanStepState :: "string \<Rightarrow> step \<Rightarrow> unit svc" where
  "restorePlanStepState sid before =
     (if sid = [] \<or> sp_StepID before = [] then sret () else sbind (updateLatestPlanStepInStore sid before) (\<lambda>_. sret ()))"

text \<open>Every handle is tried; the errors are joined.\<close>

fun restore_handles :: "runtime_handle list \<Rightarrow> goerr option \<Rightarrow> goerr option svc" where
  "restore_handles [] err = sret err"
| "restore_handles (h # hs) err = (\<lambda>w.
     case (sbind (do_handle_Get (rh_HandleID h)) (\<lambda>current. do_handle_Update (h\<lparr>rh_Version := rh_Version current + 1\<rparr>))) w of
       (Inl e, w') \<Rightarrow> restore_handles hs (joinRollbackError err (Some e)) w'
     | (Inr _, w') \<Rightarrow> restore_handles hs err w')"

definition restoreRuntimeHandles :: "runtime_handle list \<Rightarrow> unit svc" where
  "restoreRuntimeHandles before = sbind (restore_handles before None) (\<lambda>err. case err of None \<Rightarrow> sret () | Some e \<Rightarrow> sfail e)"

end
