(* ===== verification/Approval_Flow.thy ===== *)
theory Approval_Flow
  imports Step_Records
begin

text \<open>
  Answering approvals: \<^verbatim>\<open>pkg/harness/runtime\<close> approval_flow.go up to the point where a step is resumed.
  An answer writes the approval, on a rejection also the blocked attempt, the plan and the task, and
  the session; without a unit of work every failure undoes what was written before. The components of
  the application that the step runtime calls are collected in a record.
\<close>

section \<open>Components of the application\<close>

text \<open>
  The scope under which an answer may be reused. The texts of arguments and definition metadata come
  from \<^verbatim>\<open>json.Marshal\<close>, a parameter.
\<close>

record reuse_scope =
  rz_ToolName :: string
  rz_RequestedToolVersion :: string
  rz_ResolvedToolVersion :: string
  rz_MatchedRule :: string
  rz_ArgsJSON :: string
  rz_CapabilityType :: string
  rz_RiskLevel :: string
  rz_DefinitionMetadataJSON :: string

record app =
  hx_Policy :: "session \<Rightarrow> step \<Rightarrow> goerr + decision"
  hx_Resolver :: "(cap_request \<Rightarrow> resolution svc) option"
  hx_Verifiers :: verifier_map
  hx_ResumePolicy :: "approval \<Rightarrow> step \<Rightarrow> decision option"
  hx_Materializer :: "materializer option"
  hx_Json :: json_codec
  hx_JsonText :: "gval \<Rightarrow> string option"
  hx_JsonScope :: "gval \<Rightarrow> reuse_scope option"
  hx_ErrText :: "goerr \<Rightarrow> string"

definition ResolveCapability :: "app \<Rightarrow> cap_request \<Rightarrow> resolution svc" where
  "ResolveCapability hx req = (case hx_Resolver hx of None \<Rightarrow> sfail ErrCapabilityNotFound | Some resolve \<Rightarrow> resolve req)"

text \<open>The resolver that comes with the runtime, on a tool registry.\<close>

definition registry_resolver :: "tool_map \<Rightarrow> cap_request \<Rightarrow> resolution svc" where
  "registry_resolver m req = sbind newUUID (\<lambda>u. sbind nowMilli (\<lambda>t. slift (cap_Resolve u t (Some m) req)))"

section \<open>Reuse of an answer\<close>

fun risk_text :: "RiskLevel \<Rightarrow> string" where
  "risk_text RiskLow = ''low''"
| "risk_text RiskMedium = ''medium''"
| "risk_text RiskHigh = ''high''"
| "risk_text (RiskOther s) = s"

definition marshalApprovalScopeValue :: "app \<Rightarrow> gval \<Rightarrow> string" where
  "marshalApprovalScopeValue hx v = (if v = VNil then [] else case hx_JsonText hx v of None \<Rightarrow> [] | Some t \<Rightarrow> t)"

definition base_scope :: "app \<Rightarrow> step \<Rightarrow> decision \<Rightarrow> reuse_scope" where
  "base_scope hx s d = \<lparr>rz_ToolName = an_ToolName (sp_Action s), rz_RequestedToolVersion = an_ToolVersion (sp_Action s),
     rz_ResolvedToolVersion = [], rz_MatchedRule = de_MatchedRule d,
     rz_ArgsJSON = marshalApprovalScopeValue hx (VMap (an_Args (sp_Action s))), rz_CapabilityType = [], rz_RiskLevel = [],
     rz_DefinitionMetadataJSON = []\<rparr>"

definition step_request :: "session \<Rightarrow> step \<Rightarrow> cap_request" where
  "step_request st s = \<lparr>cr_SessionID = st_SessionID st, cr_TaskID = st_TaskID st, cr_StepID = sp_StepID s,
     cr_Action = sp_Action s, cr_Requirements = None\<rparr>"

definition buildApprovalReuseScope :: "app \<Rightarrow> session \<Rightarrow> step \<Rightarrow> decision \<Rightarrow> reuse_scope svc" where
  "buildApprovalReuseScope hx st s d = (\<lambda>w.
     case ResolveCapability hx (step_request st s) w of
       (Inl _, w') \<Rightarrow> (Inr (base_scope hx s d), w')
     | (Inr res, w') \<Rightarrow> (Inr ((base_scope hx s d)\<lparr>rz_ResolvedToolVersion := tf_Version (re_Definition res),
         rz_CapabilityType := tf_CapabilityType (re_Definition res), rz_RiskLevel := risk_text (tf_RiskLevel (re_Definition res)),
         rz_DefinitionMetadataJSON := marshalApprovalScopeValue hx (VMap (tf_Metadata (re_Definition res)))\<rparr>), w'))"

definition enc_scope :: "reuse_scope \<Rightarrow> gval" where
  "enc_scope z = VStruct ''runtime.approvalReuseScope'' [(''ToolName'', VStr (rz_ToolName z)),
     (''RequestedToolVersion'', VStr (rz_RequestedToolVersion z)), (''ResolvedToolVersion'', VStr (rz_ResolvedToolVersion z)),
     (''MatchedRule'', VStr (rz_MatchedRule z)), (''ArgsJSON'', VStr (rz_ArgsJSON z)), (''CapabilityType'', VStr (rz_CapabilityType z)),
     (''RiskLevel'', VStr (rz_RiskLevel z)), (''DefinitionMetadataJSON'', VStr (rz_DefinitionMetadataJSON z))]"

definition dec_scope :: "meta \<Rightarrow> reuse_scope" where
  "dec_scope fs = (let f = (\<lambda>k. as_string (gm_get fs k)) in
     \<lparr>rz_ToolName = f ''ToolName'', rz_RequestedToolVersion = f ''RequestedToolVersion'', rz_ResolvedToolVersion = f ''ResolvedToolVersion'',
      rz_MatchedRule = f ''MatchedRule'', rz_ArgsJSON = f ''ArgsJSON'', rz_CapabilityType = f ''CapabilityType'',
      rz_RiskLevel = f ''RiskLevel'', rz_DefinitionMetadataJSON = f ''DefinitionMetadataJSON''\<rparr>)"

definition approvalMetadataForRequest :: "reuse_scope \<Rightarrow> meta" where
  "approvalMetadataForRequest z = [(''request_scope'', enc_scope z)]"

text \<open>
  The scope goes through \<^verbatim>\<open>json.Marshal\<close> and \<^verbatim>\<open>json.Unmarshal\<close>, which give a struct of strings (of valid
  UTF-8) back unchanged; for a value of another type (a record loaded from a database) the outcome is
  a parameter.
\<close>

definition approvalScopeFromMetadata :: "app \<Rightarrow> meta \<Rightarrow> reuse_scope option" where
  "approvalScopeFromMetadata hx md =
     (case gm_get md ''request_scope'' of
        None \<Rightarrow> None
      | Some raw \<Rightarrow>
          (case (case raw of VStruct ty fs \<Rightarrow> if ty = ''runtime.approvalReuseScope'' then Some (dec_scope fs) else hx_JsonScope hx raw
                 | _ \<Rightarrow> hx_JsonScope hx raw) of
             None \<Rightarrow> None
           | Some z \<Rightarrow> if rz_ToolName z = [] then None else Some z))"

definition approvalReuseScopeMatches :: "app \<Rightarrow> meta \<Rightarrow> reuse_scope \<Rightarrow> bool" where
  "approvalReuseScopeMatches hx md current \<longleftrightarrow> approvalScopeFromMetadata hx md = Some current"

definition getApprovalRecord :: "service \<Rightarrow> string \<Rightarrow> approval svc" where
  "getApprovalRecord sv i = readRepositories sv (\<lambda>r. approval_Get i (rp_Approvals r))"

definition listApprovalRecords :: "service \<Rightarrow> string \<Rightarrow> approval list svc" where
  "listApprovalRecords sv sid = readRepositories sv (\<lambda>r. Inr (approval_List sid (rp_Approvals r)))"

definition reused_decision :: decision where
  "reused_decision = \<lparr>de_Action = Allow, de_Reason = ''approval previously granted'', de_MatchedRule = ''approval/always''\<rparr>"

definition findReusableApprovalDecision :: "service \<Rightarrow> app \<Rightarrow> session \<Rightarrow> step \<Rightarrow> decision \<Rightarrow> (decision \<times> approval) option svc" where
  "findReusableApprovalDecision sv hx st s d =
     sbind (buildApprovalReuseScope hx st s d) (\<lambda>scope. (\<lambda>w.
       case listApprovalRecords sv (st_SessionID st) w of
         (Inl _, w') \<Rightarrow> (Inr None, w')
       | (Inr records, w') \<Rightarrow>
           (Inr (map_option (\<lambda>rec. (reused_decision, rec))
              (List.find (\<lambda>rec. ap_Status rec = ApprovalApproved \<and> ap_Reply rec = ReplyAlways
                 \<and> approvalReuseScopeMatches hx (ap_Metadata rec) scope) records)), w')))"

section \<open>The attempt an approval blocks\<close>

definition findLatestBlockedAttemptInStore :: "attempt gomap \<Rightarrow> string \<Rightarrow> string \<Rightarrow> attempt option" where
  "findLatestBlockedAttemptInStore store sid approvalID =
     (if approvalID = [] then None
      else List.find (\<lambda>a. at_ApprovalID a = approvalID \<and> at_Status a = AttemptBlocked) (rev (attempt_List sid store)))"

definition finalizeBlockedAttemptInStore :: "string \<Rightarrow> string \<Rightarrow> AttemptStatus \<Rightarrow> step \<Rightarrow> string \<Rightarrow> int \<Rightarrow> unit svc" where
  "finalizeBlockedAttemptInStore sid approvalID status s reply now =
     sbind (sread (\<lambda>r. findLatestBlockedAttemptInStore (rp_Attempts r) sid approvalID)) (\<lambda>found.
       case found of
         None \<Rightarrow> sret ()
       | Some a \<Rightarrow> do_attempt_Update (a\<lparr>at_Status := status, at_Step := s,
           at_Metadata := gm_put ''approval_reply'' (VStr reply) (at_Metadata a), at_FinishedAt := or_int (at_FinishedAt a) now\<rparr>))"

section \<open>Answering\<close>

fun reply_text :: "Reply \<Rightarrow> string" where
  "reply_text ReplyOnce = ''once''"
| "reply_text ReplyAlways = ''always''"
| "reply_text ReplyReject = ''reject''"
| "reply_text (ReplyOther s) = s"

fun transition_text :: "Transition \<Rightarrow> string" where
  "transition_text TransitionPrepare = ''prepare''"
| "transition_text TransitionPlan = ''plan''"
| "transition_text TransitionExecute = ''execute''"
| "transition_text TransitionVerify = ''verify''"
| "transition_text TransitionRecover = ''recover''"
| "transition_text TransitionComplete = ''complete''"
| "transition_text TransitionFailed = ''failed''"
| "transition_text TransitionAborted = ''aborted''"
| "transition_text TransitionStay = ''stay''"
| "transition_text (TransitionOther s) = s"

definition transition_payload :: "session \<Rightarrow> transition_decision \<Rightarrow> meta" where
  "transition_payload st nxt = [(''from'', VNamed ''session.Phase'' (phase_text (st_Phase st))),
     (''to'', VNamed ''runtime.Transition'' (transition_text (td_To nxt))), (''reason'', VStr (td_Reason nxt))]"

definition mergeApprovalResponseMetadata :: "meta \<Rightarrow> approval_response \<Rightarrow> meta" where
  "mergeApprovalResponseMetadata existing response =
     (case rs_Metadata response of None \<Rightarrow> existing | Some md \<Rightarrow> gm_put ''response'' (VMap md) existing)"

definition approval_event :: "string \<Rightarrow> approval \<Rightarrow> string \<Rightarrow> int \<Rightarrow> meta \<Rightarrow> audit_event svc" where
  "approval_event ty rec taskID now payload = sbind newUUID (\<lambda>uuid. sret
     \<lparr>au_EventID = ''evt_'' @ uuid, au_Sequence = 0, au_Type = ty, au_SessionID = ap_SessionID rec, au_TaskID = taskID,
      au_PlanningID = [], au_ApprovalID = ap_ApprovalID rec, au_StepID = ap_StepID rec, au_AttemptID = [], au_ActionID = [],
      au_VerificationID = [], au_CycleID = executionCycleIDFromStep (ap_Step rec), au_TraceID = ap_ApprovalID rec,
      au_CausationID = ap_ApprovalID rec, au_Payload = payload, au_CreatedAt = now\<rparr>)"

text \<open>Several compensations in turn; all run, their errors are joined.\<close>

fun rollbacks :: "unit svc list \<Rightarrow> unit svc" where
  "rollbacks [] = sret ()"
| "rollbacks (m # ms) = (\<lambda>w.
     case m w of
       (Inr _, w') \<Rightarrow> rollbacks ms w'
     | (Inl e, w') \<Rightarrow> (case rollbacks ms w' of (Inr _, w2) \<Rightarrow> (Inl e, w2) | (Inl e2, w2) \<Rightarrow> (Inl (ErrJoin e e2), w2)))"

text \<open>A write; without a unit of work a failure runs the compensations.\<close>

definition guarded :: "bool \<Rightarrow> 'a svc \<Rightarrow> unit svc list \<Rightarrow> 'a svc" where
  "guarded hasSink m undo = (if hasSink then m else or_rollback m (rollbacks undo))"

text \<open>What the answer makes of approval, step and session, and the events.\<close>

definition answered :: "approval \<Rightarrow> approval_response \<Rightarrow> int \<Rightarrow> approval" where
  "answered rec response now = rec\<lparr>ap_Reply := rs_Reply response, ap_Metadata := mergeApprovalResponseMetadata (ap_Metadata rec) response,
     ap_RespondedAt := now, ap_Status := (if rs_Reply response = ReplyReject then ApprovalRejected else ApprovalApproved),
     ap_Version := ap_Version rec + 1\<rparr>"

definition rejected_transition :: "session \<Rightarrow> approval \<Rightarrow> transition_decision" where
  "rejected_transition st rec = mk_td st TransitionFailed (ap_StepID rec) ''approval rejected''"

definition answered_session :: "session \<Rightarrow> approval \<Rightarrow> Reply \<Rightarrow> session" where
  "answered_session st rec reply =
     (let st = (if reply = ReplyReject
                then (ApplyTransition st (rejected_transition st rec))\<lparr>st_PendingApprovalID := [], st_ExecutionState := ExecutionIdle, st_InFlightStepID := []\<rparr>
                else st\<lparr>st_ExecutionState := ExecutionIdle\<rparr>)
      in st\<lparr>st_Version := st_Version st + 1\<rparr>)"

definition answered_step :: "approval \<Rightarrow> Reply \<Rightarrow> int \<Rightarrow> step" where
  "answered_step rec reply now = (if reply = ReplyReject then (ap_Step rec)\<lparr>sp_Status := StepFailed, sp_FinishedAt := now\<rparr> else ap_Step rec)"

definition answer_events :: "approval \<Rightarrow> session \<Rightarrow> approval_response \<Rightarrow> int \<Rightarrow> audit_event list svc" where
  "answer_events rec st response now =
     (if rs_Reply response = ReplyReject then
        sbind (approval_event ''approval.rejected'' rec (st_TaskID st) now
            [(''approval_id'', VStr (ap_ApprovalID rec)), (''tool_name'', VStr (ap_ToolName rec)), (''reason'', VStr (ap_Reason rec))]) (\<lambda>e1.
          sbind (approval_event ''state.changed'' rec (st_TaskID st) now (transition_payload st (rejected_transition st rec))) (\<lambda>e2. sret [e1, e2]))
      else sbind (approval_event ''approval.approved'' rec (st_TaskID st) now
            [(''approval_id'', VStr (ap_ApprovalID rec)), (''reply'', VNamed ''approval.Reply'' (reply_text (rs_Reply response))),
             (''tool_name'', VStr (ap_ToolName rec))]) (\<lambda>e. sret [e]))"

text \<open>The writes, each with its compensation.\<close>

definition answer_writes :: "bool \<Rightarrow> approval \<Rightarrow> session \<Rightarrow> approval \<Rightarrow> step \<Rightarrow> session
    \<Rightarrow> attempt option \<Rightarrow> task option \<Rightarrow> int \<Rightarrow> unit svc" where
  "answer_writes hasSink rec st rec' s st' originalAttempt originalTask now =
     (let sid = ap_SessionID rec; reject = (ap_Reply rec' = ReplyReject);
          undoApproval = restoreApprovalRecord rec;
          undoAttempt = (case originalAttempt of None \<Rightarrow> [] | Some a \<Rightarrow> [restoreAttemptRecord a]);
          undoPlan = restorePlanStepState sid (ap_Step rec);
          undoTask = (case originalTask of None \<Rightarrow> [] | Some t \<Rightarrow> [restoreTaskRecord t])
      in sbind (do_approval_Update rec') (\<lambda>_.
         sbind (if reject then guarded hasSink (finalizeBlockedAttemptInStore sid (ap_ApprovalID rec) AttemptFailed s (reply_text (ap_Reply rec')) now) [undoApproval]
                else sret ()) (\<lambda>_.
         sbind (if reject then guarded hasSink (sbind (updateLatestPlanStepInStore sid s) (\<lambda>_. sret ())) (undoAttempt @ [undoApproval]) else sret ()) (\<lambda>_.
         sbind (if reject then guarded hasSink (sbind (updateTaskForTerminalInStore st') (\<lambda>_. sret ())) ([undoPlan] @ undoAttempt @ [undoApproval]) else sret ()) (\<lambda>_.
         guarded hasSink (do_session_Update st')
           (if reject then undoTask @ [undoPlan] @ undoAttempt @ [undoApproval] else [undoApproval]))))))"

definition RespondApproval :: "service \<Rightarrow> string \<Rightarrow> approval_response \<Rightarrow> (approval \<times> session) svc" where
  "RespondApproval sv approvalID response =
     sbind (getApprovalRecord sv approvalID) (\<lambda>rec.
     sbind (getSessionRecord sv (ap_SessionID rec)) (\<lambda>st.
       if ap_Status rec \<noteq> ApprovalPending \<or> st_PendingApprovalID st \<noteq> approvalID then sfail ErrApprovalNotPending
       else if \<not> ValidReply (rs_Reply response) then sfail ErrInvalidReply
       else sbind nowMilli (\<lambda>now.
         let reject = (rs_Reply response = ReplyReject) in
         sbind (if reject then sread (\<lambda>r. findLatestBlockedAttemptInStore (rp_Attempts r) (ap_SessionID rec) (ap_ApprovalID rec)) else sret None) (\<lambda>originalAttempt.
         sbind (if reject \<and> st_TaskID st \<noteq> [] then sbind (do_task_Get (st_TaskID st)) (\<lambda>t. sret (Some t)) else sret None) (\<lambda>originalTask.
         let rec' = answered rec response now; st' = answered_session st rec (rs_Reply response); s = answered_step rec (rs_Reply response) now in
         sbind (answer_events rec st response now) (\<lambda>events.
         sbind (with_runner sv (\<lambda>hasSink emit.
             sbind (answer_writes hasSink rec st rec' s st' originalAttempt originalTask now)
               (\<lambda>_. emit events))) (\<lambda>_. sret (rec', st'))))))))"

section \<open>Properties\<close>

lemma dec_enc_scope: "dec_scope [(''ToolName'', VStr (rz_ToolName z)),
     (''RequestedToolVersion'', VStr (rz_RequestedToolVersion z)), (''ResolvedToolVersion'', VStr (rz_ResolvedToolVersion z)),
     (''MatchedRule'', VStr (rz_MatchedRule z)), (''ArgsJSON'', VStr (rz_ArgsJSON z)), (''CapabilityType'', VStr (rz_CapabilityType z)),
     (''RiskLevel'', VStr (rz_RiskLevel z)), (''DefinitionMetadataJSON'', VStr (rz_DefinitionMetadataJSON z))] = z"
  by (simp add: dec_scope_def Let_def)


end
