(* ===== verification/Step_Runner.thy ===== *)
theory Step_Runner
  imports Approval_Flow
begin

text \<open>
  Running a step: \<^verbatim>\<open>runStepWithDecision\<close> of runner.go, the frozen capability checks of
  capability_freeze.go it makes, and resuming a step whose approval has been answered
  (approval_flow.go). A run asks the policy; an answer \<open>ask\<close> leaves a pending approval, \<open>deny\<close> fails the
  session, \<open>allow\<close> invokes the capability, verifies the result and moves the session on. Metrics and
  traces write nothing and are left out.
\<close>

section \<open>Results\<close>

record execution_result =
  xr_Step :: step
  xr_Action :: action_result
  xr_Verify :: verify_result
  xr_Policy :: decision
  xr_PendingApproval :: "approval option"

record step_output =
  so_Session :: session
  so_Execution :: execution_result
  so_Transitions :: "transition_decision list"
  so_Events :: "audit_event list"
  so_UpdatedPlan :: "plan option"
  so_UpdatedTask :: "task option"

definition zero_verify_result :: verify_result where
  "zero_verify_result = \<lparr>vr_Success = False, vr_Details = [], vr_Reason = []\<rparr>"

text \<open>A computation whose error is looked at, and one whose error is ignored.\<close>

definition scatch :: "'a svc \<Rightarrow> (goerr + 'a) svc" where
  "scatch m = (\<lambda>w. case m w of (r, w') \<Rightarrow> (Inr r, w'))"

definition best_effort :: "'a svc \<Rightarrow> unit svc" where
  "best_effort m = (\<lambda>w. (Inr (), snd (m w)))"

section \<open>Capabilities\<close>

definition listCapabilitySnapshotRecords :: "service \<Rightarrow> string \<Rightarrow> snapshot list svc" where
  "listCapabilitySnapshotRecords sv sid = readRepositories sv (\<lambda>r. Inr (snapshot_List sid (rp_CapabilitySnapshots r)))"

definition in_view :: "string \<Rightarrow> snapshot \<Rightarrow> bool" where
  "in_view viewID item \<longleftrightarrow> sn_Scope item = SnapshotScopePlan \<and> sn_ViewID item = viewID"

definition frozenCapabilityEntryForStep :: "service \<Rightarrow> string \<Rightarrow> step \<Rightarrow> snapshot option svc" where
  "frozenCapabilityEntryForStep sv sid s =
     (let viewID = capabilityViewIDFromStep s; tool = an_ToolName (sp_Action s); version = an_ToolVersion (sp_Action s)
      in if viewID = [] \<or> tool = [] then sret None
         else sbind (listCapabilitySnapshotRecords sv sid) (\<lambda>items.
           case List.find (\<lambda>i. in_view viewID i \<and> sn_ToolName i = tool \<and> (version = [] \<or> sn_Version i = version)) items of
             Some item \<Rightarrow> sret (Some item)
           | None \<Rightarrow> sfail (if list_ex (in_view viewID) items then ErrCapabilityViewDrift else ErrCapabilityViewNotFound)))"

definition validateFrozenCapabilityResolution :: "snapshot \<Rightarrow> resolution \<Rightarrow> goerr + unit" where
  "validateFrozenCapabilityResolution expected res =
     (let d = re_Definition res in
      if sn_ToolName expected \<noteq> tf_ToolName d then Inl ErrCapabilityViewDrift
      else if sn_Version expected \<noteq> tf_Version d then Inl ErrCapabilityViewDrift
      else if sn_CapabilityType expected \<noteq> tf_CapabilityType d then Inl ErrCapabilityViewDrift
      else if sn_RiskLevel expected \<noteq> tf_RiskLevel d then Inl ErrCapabilityViewDrift
      else if set (sn_Metadata expected) \<noteq> set (tf_Metadata d) then Inl ErrCapabilityViewDrift
      else Inr ())"

definition capability_failure :: "string \<Rightarrow> action_spec \<Rightarrow> action_result" where
  "capability_failure code spec = \<lparr>ar_OK = False, ar_Data = [], ar_Meta = [],
     ar_Error = Some \<lparr>ae_Code = code, ae_Message = an_ToolName spec\<rparr>\<rparr>"

definition capabilityErrorResult :: "action_spec \<Rightarrow> goerr \<Rightarrow> action_result" where
  "capabilityErrorResult spec err = capability_failure
     (if errors_is err ErrCapabilityDisabled then ''CAPABILITY_DISABLED''
      else if errors_is err ErrCapabilityVersionNotFound then ''CAPABILITY_VERSION_NOT_FOUND''
      else if errors_is err ErrCapabilityViewNotFound then ''CAPABILITY_VIEW_NOT_FOUND''
      else if errors_is err ErrCapabilityViewDrift then ''CAPABILITY_VIEW_DRIFT''
      else ''CAPABILITY_NOT_FOUND'') spec"

definition checked_resolution :: "app \<Rightarrow> session \<Rightarrow> step \<Rightarrow> snapshot option \<Rightarrow> resolution svc" where
  "checked_resolution hx st s entry =
     (let req = step_request st s;
          req = (case entry of None \<Rightarrow> req | Some f \<Rightarrow> req\<lparr>cr_Action := (cr_Action req)\<lparr>an_ToolVersion := sn_Version f\<rparr>\<rparr>)
      in sbind (ResolveCapability hx req) (\<lambda>res.
           case entry of None \<Rightarrow> sret res
           | Some f \<Rightarrow> sbind (slift (validateFrozenCapabilityResolution f res)) (\<lambda>_. sret res)))"

definition resolveCapabilityAndInvoke :: "service \<Rightarrow> app \<Rightarrow> session \<Rightarrow> step \<Rightarrow> (resolution option \<times> action_result \<times> goerr option) svc" where
  "resolveCapabilityAndInvoke sv hx st s =
     sbind (scatch (sbind (frozenCapabilityEntryForStep sv (st_SessionID st) s) (checked_resolution hx st s))) (\<lambda>r.
       case r of
         Inl err \<Rightarrow> sret (None, capabilityErrorResult (sp_Action s) err, Some err)
       | Inr res \<Rightarrow>
           (case re_Handler res of
              None \<Rightarrow> sret (Some res, capability_failure ''TOOL_NOT_IMPLEMENTED'' (sp_Action s), None)
            | Some h \<Rightarrow> (case h (an_Args (sp_Action s)) of (result, err) \<Rightarrow> sret (Some res, result, err))))"

section \<open>Events and the attempt\<close>

definition step_event :: "session \<Rightarrow> attempt \<Rightarrow> string \<Rightarrow> meta \<Rightarrow> string \<Rightarrow> string \<Rightarrow> audit_event svc" where
  "step_event st a ty payload actionID causationID = sbind newUUID (\<lambda>uuid. sbind nowMilli (\<lambda>t. sret
     \<lparr>au_EventID = ''evt_'' @ uuid, au_Sequence = 0, au_Type = ty, au_SessionID = at_SessionID a, au_TaskID = st_TaskID st,
      au_PlanningID = [], au_ApprovalID = [], au_StepID = at_StepID a, au_AttemptID = at_AttemptID a, au_ActionID = actionID,
      au_VerificationID = [], au_CycleID = at_CycleID a, au_TraceID = at_TraceID a, au_CausationID = causationID,
      au_Payload = payload, au_CreatedAt = t\<rparr>))"

definition changed_payload :: "transition_decision \<Rightarrow> meta" where
  "changed_payload nxt = [(''from'', VNamed ''session.Phase'' (phase_text (td_From nxt))),
     (''to'', VNamed ''runtime.Transition'' (transition_text (td_To nxt))), (''reason'', VStr (td_Reason nxt))]"

definition changed_event :: "session \<Rightarrow> attempt \<Rightarrow> transition_decision \<Rightarrow> audit_event svc" where
  "changed_event st a nxt = step_event st a ''state.changed'' (changed_payload nxt) [] (at_AttemptID a)"

fun advance_events :: "session \<Rightarrow> attempt \<Rightarrow> transition_decision list \<Rightarrow> audit_event list svc" where
  "advance_events st a [] = sret []"
| "advance_events st a (t # ts) = sbind (changed_event st a t) (\<lambda>e. sbind (advance_events st a ts) (\<lambda>es. sret (e # es)))"

definition findLatestBlockedAttempt :: "service \<Rightarrow> string \<Rightarrow> string \<Rightarrow> attempt option svc" where
  "findLatestBlockedAttempt sv sid approvalID =
     (if approvalID = [] then sret None
      else readRepositories sv (\<lambda>r. Inr (findLatestBlockedAttemptInStore (rp_Attempts r) sid approvalID)))"

definition or_fresh :: "string \<Rightarrow> string \<Rightarrow> string svc" where
  "or_fresh prefix i = (if i \<noteq> [] then sret i else sbind newUUID (\<lambda>u. sret (prefix @ u)))"

text \<open>The attempt of this run, whether it is the blocked one taken up again, and the step with its cycle id.\<close>

definition start_attempt :: "service \<Rightarrow> string \<Rightarrow> session \<Rightarrow> step \<Rightarrow> approval option \<Rightarrow> int \<Rightarrow> (attempt \<times> bool \<times> step) svc" where
  "start_attempt sv sid st s active now =
     sbind (case active of
              None \<Rightarrow> sret None
            | Some ap \<Rightarrow> if st_PendingApprovalID st \<noteq> [] \<and> st_PendingApprovalID st = ap_ApprovalID ap
                         then findLatestBlockedAttempt sv sid (ap_ApprovalID ap) else sret None) (\<lambda>existing.
     let a = (case existing of Some a \<Rightarrow> a
              | None \<Rightarrow> \<lparr>at_AttemptID = [], at_SessionID = sid, at_TaskID = st_TaskID st, at_StepID = sp_StepID s, at_ApprovalID = [],
                  at_CycleID = [], at_TraceID = [], at_Status = AttemptOther [], at_Step = s, at_Metadata = [], at_StartedAt = now,
                  at_FinishedAt = 0\<rparr>) in
     sbind (or_fresh ''att_'' (at_AttemptID a)) (\<lambda>i.
     sbind (or_fresh ''trc_'' (at_TraceID a)) (\<lambda>trace.
     sbind (ensureExecutionCycleID s (at_CycleID a)) (\<lambda>(cyc, s').
       sret (a\<lparr>at_AttemptID := i, at_TraceID := trace, at_StartedAt := or_int (at_StartedAt a) now, at_SessionID := sid,
               at_TaskID := st_TaskID st, at_StepID := sp_StepID s, at_CycleID := cyc,
               at_Metadata := applyExecutionFactMetadata (at_Metadata a) (sp_Metadata s')\<rparr>,
             existing \<noteq> None, s')))))"

definition link_approval :: "approval option \<Rightarrow> attempt \<Rightarrow> attempt" where
  "link_approval active a = (case active of None \<Rightarrow> a
     | Some ap \<Rightarrow> a\<lparr>at_ApprovalID := ap_ApprovalID ap,
         at_Metadata := gm_put ''approval_reply'' (VStr (reply_text (ap_Reply ap))) (at_Metadata a)\<rparr>)"

section \<open>The policy asks\<close>

definition do_approval_CreatePending :: "approval_request \<Rightarrow> approval svc" where
  "do_approval_CreatePending req = sbind newUUID (\<lambda>u. sbind nowMilli (\<lambda>t. sexec (\<lambda>r.
     case approval_CreatePending u t req (rp_Approvals r) of (x, m) \<Rightarrow> Inr (x, r\<lparr>rp_Approvals := m\<rparr>))))"

definition awaiting :: "session \<Rightarrow> step \<Rightarrow> string \<Rightarrow> session" where
  "awaiting st s approvalID = st\<lparr>st_ExecutionState := ExecutionAwaitingApproval, st_PendingApprovalID := approvalID,
     st_CurrentStepID := sp_StepID s\<rparr>"

definition ask_request :: "session \<Rightarrow> string \<Rightarrow> step \<Rightarrow> decision \<Rightarrow> reuse_scope \<Rightarrow> approval_request" where
  "ask_request st sid s d scope = \<lparr>rq_SessionID = sid, rq_TaskID = st_TaskID st, rq_StepID = sp_StepID s,
     rq_ToolName = an_ToolName (sp_Action s), rq_Reason = de_Reason d, rq_MatchedRule = de_MatchedRule d, rq_Step = s,
     rq_Metadata = approvalMetadataForRequest scope\<rparr>"

definition with_approval :: "audit_event \<Rightarrow> attempt \<Rightarrow> string \<Rightarrow> audit_event" where
  "with_approval ev a approvalID = ev\<lparr>au_ApprovalID := approvalID, au_CycleID := at_CycleID a,
     au_Payload := gm_put ''approval_id'' (VStr approvalID) (au_Payload ev)\<rparr>"

text \<open>
  The writes of a request. \<open>before\<close> is the session as it was read, \<open>s0\<close> the step before it was blocked.
\<close>

definition ask_writes :: "service \<Rightarrow> bool \<Rightarrow> session \<Rightarrow> step \<Rightarrow> string \<Rightarrow> string \<Rightarrow> session \<Rightarrow> step
    \<Rightarrow> attempt \<Rightarrow> approval_request \<Rightarrow> (approval \<times> plan option \<times> task option \<times> session) svc" where
  "ask_writes sv hasSink before s0 sid leaseID st s a request =
     sbind (do_approval_CreatePending request) (\<lambda>rec.
     let st = awaiting st s (ap_ApprovalID rec);
         undoApproval = sbind nowMilli (terminalizeApprovalForRollback rec ''approval_request_persistence_failed'');
         undoPlan = restorePlanStepState sid s0
     in sbind (guarded hasSink (updateLatestPlanStepInStoreWithBudgets sid s (sv_Budgets sv)) [undoApproval]) (\<lambda>pl.
        sbind (guarded hasSink (updateTaskForTerminalInStore st) [undoPlan, undoApproval]) (\<lambda>tk.
        sbind (guarded hasSink (do_persistSessionUpdateAt st leaseID 0) [undoPlan, undoApproval]) (\<lambda>st'.
        sbind (guarded hasSink (persistExecutionFacts (a\<lparr>at_ApprovalID := ap_ApprovalID rec\<rparr>) False None None [])
                 [rollbackSessionState before st' leaseID, undoPlan, undoApproval]) (\<lambda>_.
        sret (rec, pl, tk, st'))))))"

definition ask_step :: "service \<Rightarrow> app \<Rightarrow> session \<Rightarrow> string \<Rightarrow> string \<Rightarrow> session \<Rightarrow> step \<Rightarrow> attempt \<Rightarrow> decision
    \<Rightarrow> transition_decision list \<Rightarrow> audit_event list \<Rightarrow> step_output svc" where
  "ask_step sv hx before sid leaseID st s a d transitions events =
     sbind (buildApprovalReuseScope hx st s d) (\<lambda>scope.
     let blocked = s\<lparr>sp_Status := StepBlocked\<rparr> in
     sbind (step_event st a ''approval.requested'' [(''tool_name'', VStr (an_ToolName (sp_Action s))), (''reason'', VStr (de_Reason d)),
         (''matched_rule'', VStr (de_MatchedRule d))] [] (at_AttemptID a)) (\<lambda>ev.
     with_runner sv (\<lambda>hasSink emit.
       sbind (ask_writes sv hasSink before s sid leaseID st blocked
           (a\<lparr>at_Status := AttemptBlocked, at_Step := blocked, at_FinishedAt := 0\<rparr>) (ask_request st sid blocked d scope)) (\<lambda>(rec, pl, tk, st').
       let events = events @ [with_approval ev a (ap_ApprovalID rec)] in
       sbind (emit events) (\<lambda>_.
         sret \<lparr>so_Session = st',
           so_Execution = \<lparr>xr_Step = s, xr_Action = zero_result, xr_Verify = zero_verify_result, xr_Policy = d, xr_PendingApproval = Some rec\<rparr>,
           so_Transitions = transitions, so_Events = events, so_UpdatedPlan = pl, so_UpdatedTask = tk\<rparr>)))))"

section \<open>The policy denies\<close>

definition running_step :: "step \<Rightarrow> int \<Rightarrow> step" where
  "running_step s now = s\<lparr>sp_Attempt := sp_Attempt s + 1,
     sp_StartedAt := (if sp_Status s \<in> {StepUnset, StepPending, StepBlocked} then now else sp_StartedAt s),
     sp_Status := StepRunning\<rparr>"

text \<open>The session after a transition that ends the run of a step.\<close>

definition settled :: "session \<Rightarrow> transition_decision \<Rightarrow> session" where
  "settled st nxt = (ApplyTransition st nxt)\<lparr>st_ExecutionState := ExecutionIdle, st_InFlightStepID := []\<rparr>"

text \<open>Plan, task and session, in this order; then the facts, whose errors count only in a unit of work.\<close>

definition step_writes :: "service \<Rightarrow> string \<Rightarrow> string \<Rightarrow> session \<Rightarrow> step \<Rightarrow> (plan option \<times> task option \<times> session) svc" where
  "step_writes sv sid leaseID st s =
     sbind (updateLatestPlanStepInStoreWithBudgets sid s (sv_Budgets sv)) (\<lambda>pl.
     sbind (updateTaskForTerminalInStore st) (\<lambda>tk.
     sbind (do_persistSessionUpdateAt st leaseID 0) (\<lambda>st'. sret (pl, tk, st'))))"

definition fact_write :: "bool \<Rightarrow> unit svc \<Rightarrow> unit svc" where
  "fact_write hasSink m = (if hasSink then m else best_effort m)"

definition deny_step :: "service \<Rightarrow> string \<Rightarrow> string \<Rightarrow> session \<Rightarrow> step \<Rightarrow> attempt \<Rightarrow> bool \<Rightarrow> decision \<Rightarrow> approval option
    \<Rightarrow> transition_decision list \<Rightarrow> audit_event list \<Rightarrow> step_output svc" where
  "deny_step sv sid leaseID st s a reuse d active transitions events =
     sbind nowMilli (\<lambda>t.
     let failed = s\<lparr>sp_Status := StepFailed, sp_FinishedAt := t\<rparr>;
         a = link_approval active (a\<lparr>at_Status := AttemptFailed, at_Step := failed, at_FinishedAt := t\<rparr>);
         nxt = mk_td st TransitionFailed (sp_StepID s) ''policy denied action''
     in sbind (step_event st a ''policy.denied'' [(''reason'', VStr (de_Reason d)), (''matched_rule'', VStr (de_MatchedRule d))] [] (at_AttemptID a)) (\<lambda>e1.
        sbind (changed_event st a nxt) (\<lambda>e2.
        let events = events @ [e1, e2] in
        with_runner sv (\<lambda>hasSink emit.
          sbind (step_writes sv sid leaseID (settled st nxt) failed) (\<lambda>(pl, tk, st').
          sbind (fact_write hasSink (persistExecutionFacts a reuse None None [])) (\<lambda>_.
          sbind (emit events) (\<lambda>_.
            sret \<lparr>so_Session = st',
              so_Execution = \<lparr>xr_Step = s, xr_Action = zero_result, xr_Verify = zero_verify_result, xr_Policy = d, xr_PendingApproval = None\<rparr>,
              so_Transitions = transitions @ [nxt], so_Events = events, so_UpdatedPlan = pl, so_UpdatedTask = tk\<rparr>)))))))"

section \<open>The action\<close>

record acted =
  ak_Record :: action_record
  ak_Result :: action_result
  ak_Err :: "goerr option"
  ak_Snapshot :: "snapshot option"
  ak_Artifacts :: "artifact list"
  ak_Handles :: "runtime_handle list"
  ak_Events :: "audit_event list"

definition action_snapshot :: "step \<Rightarrow> resolution \<Rightarrow> snapshot" where
  "action_snapshot s res = (re_Snapshot res)\<lparr>sn_Scope := SnapshotScopeAction, sn_ViewID := capabilityViewIDFromStep s\<rparr>"

definition resolved_action :: "step \<Rightarrow> resolution option \<Rightarrow> action_record \<Rightarrow> action_record" where
  "resolved_action s resolution x = (case resolution of None \<Rightarrow> x
     | Some res \<Rightarrow>
         let sn = action_snapshot s res; d = re_Definition res;
             md = gm_put ''capability_snapshot_id'' (VStr (sn_SnapshotID sn)) (ac_Metadata x);
             md = put_if (sn_ViewID sn \<noteq> []) ''capability_view_id'' (VStr (sn_ViewID sn)) md;
             md = gm_put ''tool_version'' (VStr (tf_Version d)) md;
             md = gm_put ''capability_type'' (VStr (tf_CapabilityType d)) md;
             md = gm_put ''risk_level'' (VStr (risk_text (tf_RiskLevel d))) md
         in x\<lparr>ac_Metadata := md, ac_ToolName := tf_ToolName d\<rparr>)"

definition value_or_nil :: "meta \<Rightarrow> string \<Rightarrow> gval" where
  "value_or_nil md k = (case gm_get md k of Some v \<Rightarrow> v | None \<Rightarrow> VNil)"

definition action_artifacts :: "session \<Rightarrow> step \<Rightarrow> attempt \<Rightarrow> string \<Rightarrow> action_result \<Rightarrow> artifact list svc" where
  "action_artifacts st s a actionID r =
     (if ar_Data r = [] \<and> ar_Meta r = [] \<and> ar_Error r = None then sret []
      else sbind newUUID (\<lambda>u. sbind nowMilli (\<lambda>t. sret
        [\<lparr>af_ArtifactID = ''art_'' @ u, af_SessionID = at_SessionID a, af_TaskID = st_TaskID st, af_StepID = sp_StepID s,
          af_AttemptID = at_AttemptID a, af_ActionID = actionID, af_VerificationID = [], af_CycleID = at_CycleID a,
          af_TraceID = at_TraceID a, af_Name = ''action.result'', af_Kind = ''action_result'',
          af_Payload = [(''data'', VMap (ar_Data r)), (''meta'', VMap (ar_Meta r)), (''error'', enc_ptr enc_action_error (ar_Error r))],
          af_Metadata = executionFactMetadata (sp_Metadata s), af_CreatedAt = t\<rparr>])))"

definition action_outcome :: "app \<Rightarrow> string \<Rightarrow> action_result \<Rightarrow> goerr option \<Rightarrow> ActionStatus \<times> string \<times> meta" where
  "action_outcome hx tool r err = (case err of
     Some e \<Rightarrow> (ActionFailed, ''tool.failed'', [(''tool_name'', VStr tool), (''error'', VStr (hx_ErrText hx e))])
   | None \<Rightarrow> if ar_OK r then (ActionCompleted, ''tool.completed'', [(''tool_name'', VStr tool)])
             else (ActionFailed, ''tool.failed'', [(''tool_name'', VStr tool), (''error'', VStr (actionErrorMessage r))]))"

definition invoke_action :: "service \<Rightarrow> app \<Rightarrow> session \<Rightarrow> step \<Rightarrow> attempt \<Rightarrow> acted svc" where
  "invoke_action sv hx st s a =
     sbind newUUID (\<lambda>u. sbind nowMilli (\<lambda>started.
     let x = \<lparr>ac_ActionID = ''act_'' @ u, ac_AttemptID = at_AttemptID a, ac_SessionID = at_SessionID a, ac_TaskID = st_TaskID st,
           ac_StepID = sp_StepID s, ac_CycleID = at_CycleID a, ac_ToolName = an_ToolName (sp_Action s), ac_TraceID = at_TraceID a,
           ac_CausationID = at_AttemptID a, ac_Status = ActionOther [], ac_Result = zero_result,
           ac_Metadata = applyExecutionFactMetadata [] (sp_Metadata s), ac_StartedAt = started, ac_FinishedAt = 0\<rparr> in
     sbind (resolveCapabilityAndInvoke sv hx st s) (\<lambda>(resolution, r, err).
     let x = resolved_action s resolution x; i = ac_ActionID x; r = trimActionResultToBudget r (lb_MaxToolOutputChars (sv_Budgets sv)) in
     sbind (step_event st a ''tool.called'' [(''tool_name'', VStr (ac_ToolName x)), (''tool_version'', value_or_nil (ac_Metadata x) ''tool_version''),
         (''capability_snapshot_id'', value_or_nil (ac_Metadata x) ''capability_snapshot_id'')] i (at_AttemptID a)) (\<lambda>e1.
     sbind nowMilli (\<lambda>finished.
     case action_outcome hx (ac_ToolName x) r err of (status, ty, payload) \<Rightarrow>
     sbind (step_event st a ty payload i i) (\<lambda>e2.
     let x = x\<lparr>ac_Result := r, ac_FinishedAt := finished, ac_Status := status\<rparr> in
     sbind (action_artifacts st s a i r) (\<lambda>artifacts.
     sbind nowMilli (\<lambda>t.
     sbind (extractRuntimeHandles r a (Some x) t) (\<lambda>handles.
       sret \<lparr>ak_Record = x, ak_Result = r, ak_Err = err, ak_Snapshot = map_option (action_snapshot s) resolution,
             ak_Artifacts = artifacts, ak_Handles = applyExecutionFactMetadataToHandles handles (sp_Metadata s),
             ak_Events = [e1, e2]\<rparr>)))))))))"

section \<open>The verification\<close>

record checked =
  vq_Record :: verification_record
  vq_Result :: verify_result
  vq_Verified :: bool
  vq_Event :: audit_event

text \<open>The specification, its input, and whether it is that of a finished aggregate.\<close>

definition verify_input :: "step \<Rightarrow> action_result \<Rightarrow> verify_spec option \<times> action_result \<times> bool \<Rightarrow> verify_spec \<times> action_result \<times> bool" where
  "verify_input s r agg = (case agg of
     (None, _, _) \<Rightarrow> (sp_Verify s, r, False)
   | (Some spec, aggregate, ready) \<Rightarrow> if ready then (spec, aggregate, True) else (\<lparr>vs_Mode = ModeOther [], vs_Checks = []\<rparr>, r, False))"

definition pending_verdict :: "bool \<Rightarrow> action_result \<Rightarrow> verify_result \<times> goerr option \<Rightarrow> verify_result \<times> goerr option" where
  "pending_verdict raw r verdict =
     (if raw then (\<lparr>vr_Success = True, vr_Details = [], vr_Reason = ''aggregate pending''\<rparr>, None)
      else ((fst verdict)\<lparr>vr_Success := False, vr_Reason := or_str (vr_Reason (fst verdict)) (actionErrorMessage r)\<rparr>, snd verdict))"

definition verify_payload :: "verify_result \<Rightarrow> meta" where
  "verify_payload r = [(''success'', VBool (vr_Success r)), (''reason'', VStr (vr_Reason r))]"

definition verify_action :: "service \<Rightarrow> app \<Rightarrow> session \<Rightarrow> step \<Rightarrow> attempt \<Rightarrow> acted \<Rightarrow> checked svc" where
  "verify_action sv hx st s a k =
     (let raw = (ak_Err k = None \<and> ar_OK (ak_Result k)); scope = programVerifyScopeFromStep s; i = ac_ActionID (ak_Record k) in
      sbind (aggregateVerifyInputForStep sv (hx_Json hx) (at_SessionID a) s raw) (\<lambda>agg.
      case verify_input s (ak_Result k) agg of (spec, input, ready) \<Rightarrow>
      sbind newUUID (\<lambda>u. sbind nowMilli (\<lambda>started.
      case (let verdict = Evaluate (hx_Verifiers hx) spec input st in
            if scope = VerificationScopeAggregate \<and> \<not> ready then pending_verdict raw (ak_Result k) verdict else verdict) of (res, err) \<Rightarrow>
      sbind nowMilli (\<lambda>finished.
      sbind (step_event st a ''verify.completed'' (verify_payload res) i i) (\<lambda>ev.
      let overruled = (scope = VerificationScopeAggregate \<and> ready \<and> \<not> raw);
          res = (if overruled then res\<lparr>vr_Success := False, vr_Reason := or_str (vr_Reason res) (actionErrorMessage (ak_Result k))\<rparr> else res);
          verified = (\<not> overruled \<and> err = None \<and> vr_Success res);
          ev = ev\<lparr>au_VerificationID := ''ver_'' @ u, au_Payload := verify_payload res\<rparr>
      in sret \<lparr>vq_Record = \<lparr>vf_VerificationID = ''ver_'' @ u, vf_AttemptID = at_AttemptID a, vf_SessionID = at_SessionID a,
               vf_TaskID = st_TaskID st, vf_StepID = sp_StepID s, vf_ActionID = i, vf_CycleID = at_CycleID a, vf_TraceID = at_TraceID a,
               vf_CausationID = i, vf_Status = (if verified then VerificationCompleted else VerificationFailed), vf_Spec = spec,
               vf_Result = res, vf_Metadata = gm_put ''verification_scope'' (VStr scope) (applyExecutionFactMetadata [] (sp_Metadata s)),
               vf_StartedAt = started, vf_FinishedAt = finished\<rparr>,
             vq_Result = res, vq_Verified = verified, vq_Event = ev\<rparr>))))))"

section \<open>The end of a run\<close>

definition finalized_approval :: "approval option \<Rightarrow> approval option svc" where
  "finalized_approval active = (case active of None \<Rightarrow> sret None
     | Some ap \<Rightarrow> (case ap_Reply ap of
         ReplyOnce \<Rightarrow> sbind nowMilli (\<lambda>t. sret (Some (ap\<lparr>ap_Status := ApprovalConsumed, ap_ConsumedAt := t\<rparr>)))
       | ReplyAlways \<Rightarrow> sret (Some (ap\<lparr>ap_Status := ApprovalApproved\<rparr>))
       | _ \<Rightarrow> sret None))"

definition decide_next :: "service \<Rightarrow> string \<Rightarrow> session \<Rightarrow> step \<Rightarrow> decision \<Rightarrow> bool \<Rightarrow> transition_decision svc" where
  "decide_next sv sid st s d verified =
     sbind (scatch (latestPlanForSession sv sid)) (\<lambda>latest.
       slift (reconcileTransitionWithPlan latest (sv_Budgets sv) st s verified
         (nextTransitionAfterVerification st s d verified (sv_Budgets sv))))"

definition clear_pending :: "approval option \<Rightarrow> session \<Rightarrow> session" where
  "clear_pending active st = (case active of None \<Rightarrow> st
     | Some ap \<Rightarrow> if st_PendingApprovalID st = ap_ApprovalID ap then st\<lparr>st_PendingApprovalID := []\<rparr> else st)"

definition final_facts :: "bool \<Rightarrow> attempt \<Rightarrow> bool \<Rightarrow> acted \<Rightarrow> checked \<Rightarrow> approval option \<Rightarrow> unit svc" where
  "final_facts hasSink a reuse k q finalized =
     sbind (fact_write hasSink (persistExecutionFacts a reuse (Some (ak_Record k)) (Some (vq_Record q)) (ak_Artifacts k))) (\<lambda>_.
     sbind (fact_write hasSink (persistCapabilitySnapshot (ak_Snapshot k))) (\<lambda>_.
     sbind (fact_write hasSink (persistRuntimeHandles (ak_Handles k))) (\<lambda>_.
     case finalized of None \<Rightarrow> sret ()
     | Some ap \<Rightarrow> fact_write hasSink (do_approval_Update (ap\<lparr>ap_Version := ap_Version ap + 1\<rparr>)))))"

definition finish_step :: "service \<Rightarrow> string \<Rightarrow> string \<Rightarrow> session \<Rightarrow> step \<Rightarrow> attempt \<Rightarrow> bool \<Rightarrow> decision \<Rightarrow> approval option \<Rightarrow> acted \<Rightarrow> checked
    \<Rightarrow> transition_decision list \<Rightarrow> audit_event list \<Rightarrow> step_output svc" where
  "finish_step sv sid leaseID st s a reuse d active k q transitions events =
     (let verified = vq_Verified q;
          s = s\<lparr>sp_Status := (if verified then StepCompleted else StepFailed)\<rparr>;
          st = (if verified then st else st\<lparr>st_RetryCount := st_RetryCount st + 1\<rparr>) in
      sbind (decide_next sv sid st s d verified) (\<lambda>nxt.
      sbind nowMilli (\<lambda>t. sbind nowMilli (\<lambda>finished.
      let s = (applyStepRetryBackoff s nxt t)\<lparr>sp_FinishedAt := finished\<rparr>;
          a = link_approval active (a\<lparr>at_Step := s, at_FinishedAt := finished,
                at_Status := (if verified then AttemptCompleted else AttemptFailed)\<rparr>) in
      sbind (changed_event st a nxt) (\<lambda>ev.
      sbind (finalized_approval active) (\<lambda>finalized.
      let events = events @ ak_Events k @ [vq_Event q, ev] in
      with_runner sv (\<lambda>hasSink emit.
        sbind (step_writes sv sid leaseID (clear_pending active (settled st nxt)) s) (\<lambda>(pl, tk, st').
        sbind (final_facts hasSink a reuse k q finalized) (\<lambda>_.
        sbind (emit events) (\<lambda>_.
          sret \<lparr>so_Session = st',
            so_Execution = \<lparr>xr_Step = s, xr_Action = ak_Result k, xr_Verify = vq_Result q, xr_Policy = d, xr_PendingApproval = None\<rparr>,
            so_Transitions = transitions @ [nxt], so_Events = events, so_UpdatedPlan = pl, so_UpdatedTask = tk\<rparr>))))))))))"

definition execute_step :: "service \<Rightarrow> app \<Rightarrow> string \<Rightarrow> string \<Rightarrow> step \<Rightarrow> attempt \<Rightarrow> bool \<Rightarrow> decision \<Rightarrow> approval option
    \<Rightarrow> transition_decision list \<Rightarrow> audit_event list \<Rightarrow> step_output svc" where
  "execute_step sv hx sid leaseID s a reuse d active transitions events =
     sbind (markSessionInFlight sv sid leaseID (sp_StepID s)) (\<lambda>_.
     sbind (getSessionRecord sv sid) (\<lambda>st.
     sbind (invoke_action sv hx st s a) (\<lambda>k.
     let st = st\<lparr>st_Phase := PhaseVerify\<rparr> in
     sbind (verify_action sv hx st s a k) (\<lambda>q.
       finish_step sv sid leaseID st s a reuse d active k q transitions events))))"

section \<open>Running a step\<close>

text \<open>The conditions that end a run before anything happens.\<close>

definition run_guards :: "service \<Rightarrow> app \<Rightarrow> session \<Rightarrow> step \<Rightarrow> approval option \<Rightarrow> int \<Rightarrow> goerr + unit" where
  "run_guards sv hx st s active now =
     (if isTerminalPhase (st_Phase st) then Inl ErrSessionTerminal
      else if st_ExecutionState st = ExecutionBlocked then Inl ErrSessionBlocked
      else if st_PendingApprovalID st \<noteq> [] \<and> (case active of None \<Rightarrow> True | Some ap \<Rightarrow> st_PendingApprovalID st \<noteq> ap_ApprovalID ap)
      then Inl ErrSessionAwaitingApproval
      else if ProgramFromStep (hx_Json hx) (annotateStepFromSession st s) \<noteq> None then Inl ErrProgramStepNotCompiled
      else case ensureRuntimeBudget st (sv_Budgets sv) now of Inl e \<Rightarrow> Inl e
      | Inr _ \<Rightarrow> (case ensureStepRetryBudget (annotateStepFromSession st s) (sv_Budgets sv) of Inl e \<Rightarrow> Inl e
      | Inr _ \<Rightarrow> if backoffActive (annotateStepFromSession st s) now then Inl ErrStepBackoffActive else Inr ()))"

text \<open>The decision, and the approval it rests on.\<close>

definition decide_policy :: "service \<Rightarrow> app \<Rightarrow> session \<Rightarrow> step \<Rightarrow> decision option \<Rightarrow> approval option \<Rightarrow> (decision \<times> approval option) svc" where
  "decide_policy sv hx st s forced active = (case forced of
     Some d \<Rightarrow> sret (d, active)
   | None \<Rightarrow> sbind (slift (hx_Policy hx st s)) (\<lambda>d.
       if de_Action d \<noteq> Ask then sret (d, active)
       else sbind (findReusableApprovalDecision sv hx st s d) (\<lambda>reusable.
         case reusable of None \<Rightarrow> sret (d, active) | Some (d', rec) \<Rightarrow> sret (d', Some rec))))"

definition run_decided :: "service \<Rightarrow> app \<Rightarrow> session \<Rightarrow> string \<Rightarrow> string \<Rightarrow> session \<Rightarrow> step \<Rightarrow> attempt \<Rightarrow> bool \<Rightarrow> int \<Rightarrow> decision option
    \<Rightarrow> transition_decision list \<Rightarrow> audit_event list \<Rightarrow> decision \<times> approval option \<Rightarrow> step_output svc" where
  "run_decided sv hx before sid leaseID st s a reuse now forced transitions events = (\<lambda>(d, active).
     if de_Action d = Ask \<and> forced = None
     then ask_step sv hx before sid leaseID st s a d transitions events
     else let s = running_step s now in
       sbind (step_event st a ''step.started'' [(''title'', VStr (sp_Title s))] [] (at_AttemptID a)) (\<lambda>e.
         if de_Action d = Deny then deny_step sv sid leaseID st s a reuse d active transitions (events @ [e])
         else execute_step sv hx sid leaseID s a reuse d active transitions (events @ [e])))"

definition runStepWithDecision :: "service \<Rightarrow> app \<Rightarrow> string \<Rightarrow> string \<Rightarrow> step \<Rightarrow> decision option \<Rightarrow> approval option \<Rightarrow> step_output svc" where
  "runStepWithDecision sv hx sid leaseID s forced active =
     sbind (ensureSessionLease sv sid leaseID) (\<lambda>before.
     sbind nowMilli (\<lambda>now.
     sbind (slift (run_guards sv hx before s active now)) (\<lambda>_.
     let s = annotateStepFromSession before s; st = setSessionPlanRef before s in
     sbind (resolveProgramBindings sv (hx_Json hx) (hx_Materializer hx) sid s) (\<lambda>s.
     sbind (start_attempt sv sid st s active now) (\<lambda>(a, reuse, s).
     case advance_state (sp_StepID s) st of (st, transitions) \<Rightarrow>
     sbind (advance_events st a transitions) (\<lambda>events.
     sbind (decide_policy sv hx st s forced active) (run_decided sv hx before sid leaseID st s a reuse now forced transitions events)))))))"

definition RunStep :: "service \<Rightarrow> app \<Rightarrow> string \<Rightarrow> step \<Rightarrow> step_output svc" where
  "RunStep sv hx sid s = runStepWithDecision sv hx sid [] s None None"

definition RunClaimedStep :: "service \<Rightarrow> app \<Rightarrow> string \<Rightarrow> string \<Rightarrow> step \<Rightarrow> step_output svc" where
  "RunClaimedStep sv hx sid leaseID s = runStepWithDecision sv hx sid leaseID s None None"

section \<open>Resuming a step\<close>

definition resumePendingApprovalWithLease :: "service \<Rightarrow> app \<Rightarrow> string \<Rightarrow> string \<Rightarrow> step_output svc" where
  "resumePendingApprovalWithLease sv hx sid leaseID =
     sbind (ensureSessionLease sv sid leaseID) (\<lambda>st.
       if st_PendingApprovalID st = [] then sfail ErrNoPendingApproval
       else sbind (getApprovalRecord sv (st_PendingApprovalID st)) (\<lambda>rec.
         if ap_Status rec \<noteq> ApprovalApproved then sfail ErrApprovalNotResolved
         else case hx_ResumePolicy hx rec (ap_Step rec) of
           None \<Rightarrow> sfail ErrApprovalNotResolved
         | Some d \<Rightarrow> runStepWithDecision sv hx sid leaseID (ap_Step rec) (Some d) (Some rec)))"

definition ResumePendingApproval :: "service \<Rightarrow> app \<Rightarrow> string \<Rightarrow> step_output svc" where
  "ResumePendingApproval sv hx sid = resumePendingApprovalWithLease sv hx sid []"

definition ResumeClaimedApproval :: "service \<Rightarrow> app \<Rightarrow> string \<Rightarrow> string \<Rightarrow> step_output svc" where
  "ResumeClaimedApproval sv hx sid leaseID = resumePendingApprovalWithLease sv hx sid leaseID"

text \<open>The output of the resumed step if there is one, and whether an approval was in the way.\<close>

definition resolvePendingApprovalForSession :: "service \<Rightarrow> app \<Rightarrow> string \<Rightarrow> string \<Rightarrow> (step_output option \<times> bool) svc" where
  "resolvePendingApprovalForSession sv hx sid leaseID =
     sbind (getSessionRecord sv sid) (\<lambda>st.
       if st_PendingApprovalID st = [] then sret (None, False)
       else sbind (getApprovalRecord sv (st_PendingApprovalID st)) (\<lambda>rec.
         case ap_Status rec of
           ApprovalPending \<Rightarrow> sret (None, True)
         | ApprovalApproved \<Rightarrow> sbind (resumePendingApprovalWithLease sv hx sid leaseID) (\<lambda>out. sret (Some out, True))
         | _ \<Rightarrow> sfail ErrApprovalNotResolved))"

end
