(* ===== verification/Run_Logic.thy ===== *)
theory Run_Logic
  imports Step_Runner
begin

text \<open>
  Reasoning about whole runs. \<open>moves R m\<close>: a computation only moves the world along the relation \<open>R\<close>.
  The locale \<open>world_relation\<close> states what \<open>R\<close> must allow (the clock, fresh ids, the audit store, the
  rollback of a transaction) and derives the rules once for all building blocks. \<open>wtriple\<close> is the
  triple over worlds rather than repositories, for facts that involve the ids still to be drawn.
\<close>

section \<open>Relations between worlds\<close>

definition moves :: "(world \<Rightarrow> world \<Rightarrow> bool) \<Rightarrow> 'a svc \<Rightarrow> bool" where
  "moves R m \<longleftrightarrow> (\<forall>w. R w (snd (m w)))"

locale world_relation =
  fixes R :: "world \<Rightarrow> world \<Rightarrow> bool"
  assumes refl: "R w w"
    and trans: "R a b \<Longrightarrow> R b c \<Longrightarrow> R a c"
    and reads: "w_Reads w \<le> n \<Longrightarrow> R w (w\<lparr>w_Reads := n\<rparr>)"
    and draws: "w_Drawn w \<le> n \<Longrightarrow> R w (w\<lparr>w_Drawn := n\<rparr>)"
    and audits: "R w (w\<lparr>w_Repos := (w_Repos w)\<lparr>rp_Audits := s\<rparr>\<rparr>)"
    and undone: "R w w' \<Longrightarrow> R w (w'\<lparr>w_Repos := w_Repos w\<rparr>)"
begin

lemma mv_sret: "moves R (sret x)"
  by (simp add: moves_def svc_apply refl)

lemma mv_sfail: "moves R (sfail e)"
  by (simp add: moves_def svc_apply refl)

lemma mv_slift: "moves R (slift c)"
  by (simp add: moves_def svc_apply refl split: sum.split)

lemma mv_sread: "moves R (sread f)"
  by (simp add: moves_def svc_apply refl)

lemma mv_nowMilli: "moves R nowMilli"
  by (simp add: moves_def svc_apply reads)

lemma mv_newUUID: "moves R newUUID"
  by (simp add: moves_def svc_apply draws)

lemma mv_bind: "moves R m \<Longrightarrow> (\<And>x. moves R (k x)) \<Longrightarrow> moves R (sbind m k)"
  unfolding moves_def by (auto simp: svc_apply split: prod.split sum.split intro: trans) (metis snd_conv trans)+

lemma mv_sexec: "(\<And>w x r. f (w_Repos w) = Inr (x, r) \<Longrightarrow> R w (w\<lparr>w_Repos := r\<rparr>)) \<Longrightarrow> moves R (sexec f)"
  by (auto simp: moves_def svc_apply refl split: sum.split)

lemma mv_if: "(b \<Longrightarrow> moves R m) \<Longrightarrow> (\<not> b \<Longrightarrow> moves R n) \<Longrightarrow> moves R (if b then m else n)"
  by simp

lemma mv_option: "(c = None \<Longrightarrow> moves R m) \<Longrightarrow> (\<And>x. c = Some x \<Longrightarrow> moves R (n x)) \<Longrightarrow> moves R (case c of None \<Rightarrow> m | Some x \<Rightarrow> n x)"
  by (cases c) simp_all

lemma mv_sum: "(\<And>x. moves R (m x)) \<Longrightarrow> (\<And>x. moves R (n x)) \<Longrightarrow> moves R (case c of Inl x \<Rightarrow> m x | Inr x \<Rightarrow> n x)"
  by (cases c) simp_all

lemma mv_prod: "(\<And>x y. moves R (m x y)) \<Longrightarrow> moves R (case c of (x, y) \<Rightarrow> m x y)"
  by (cases c) simp

lemma mv_scatch: "moves R m \<Longrightarrow> moves R (scatch m)"
  by (auto simp: moves_def scatch_def split_beta)

lemma mv_best_effort: "moves R m \<Longrightarrow> moves R (best_effort m)"
  by (simp add: moves_def best_effort_def)

lemma mv_sink_Emit: "moves R (sink_Emit sv ev)"
  by (auto simp: moves_def sink_Emit_def Let_def audits split: option.split)

lemma mv_emit: "moves R (emitEventsWithSink sv evs)" "moves R (emitEventsBestEffort sv evs)"
proof -
  show "moves R (emitEventsWithSink sv evs)" by (induction evs) (auto intro: mv_sret mv_bind mv_sink_Emit)
  have "R w (snd (emitEventsBestEffort sv evs w))" for w
    by (induction evs arbitrary: w) (use mv_sink_Emit[of sv] in \<open>auto simp: svc_apply moves_def refl intro: trans\<close>)
  then show "moves R (emitEventsBestEffort sv evs)" by (simp add: moves_def)
qed

lemma mv_Within: "moves R fn \<Longrightarrow> moves R (Within r fn)"
  by (cases r) (auto simp: moves_def Within_def refl split: prod.splits sum.splits option.splits intro: undone; metis snd_conv undone)+

lemma mv_with_runner:
  assumes "\<And>b emit. (\<And>evs. moves R (emit evs)) \<Longrightarrow> moves R (body b emit)"
  shows "moves R (with_runner sv body)"
  unfolding with_runner_def using assms mv_emit by (auto split: runner.split intro!: mv_Within)

lemma mv_readRepositories: "moves R (readRepositories sv f)"
  by (auto simp: moves_def readRepositories_def Within_def refl split: runner.split option.split sum.split)

lemma mv_or_rollback: "moves R m \<Longrightarrow> moves R undo \<Longrightarrow> moves R (or_rollback m undo)"
  unfolding moves_def or_rollback_def by (auto split: prod.split sum.split) (metis snd_conv trans)+

lemma mv_rollbacks: "(\<And>m. m \<in> set ms \<Longrightarrow> moves R m) \<Longrightarrow> moves R (rollbacks ms)"
proof (induction ms)
  case (Cons m ms)
  then have m: "moves R m" and ms: "moves R (rollbacks ms)" by simp_all
  show ?case using m ms unfolding moves_def by (auto split: prod.split sum.split) (metis snd_conv trans)+
qed (simp add: mv_sret)

lemma mv_guarded: "moves R m \<Longrightarrow> (\<And>u. u \<in> set undo \<Longrightarrow> moves R u) \<Longrightarrow> moves R (guarded b m undo)"
  by (simp add: guarded_def mv_or_rollback mv_rollbacks)

lemma mv_fact_write: "moves R m \<Longrightarrow> moves R (fact_write b m)"
  by (simp add: fact_write_def mv_best_effort)

lemma mv_sdo_all: "(\<And>x. moves R (f x)) \<Longrightarrow> moves R (sdo_all f xs)"
  by (induction xs) (auto intro: mv_sret mv_bind)

lemmas mv_rules = mv_sret mv_sfail mv_slift mv_sread mv_nowMilli mv_newUUID mv_bind mv_if mv_option mv_sum mv_prod
  mv_scatch mv_best_effort mv_readRepositories mv_fact_write mv_sdo_all

end

text \<open>Part of the repositories stays as it is.\<close>

locale repo_view =
  fixes V :: "repos \<Rightarrow> 'v"
  assumes blind: "V (r\<lparr>rp_Audits := s\<rparr>) = V r"

sublocale repo_view \<subseteq> world_relation "\<lambda>w w'. V (w_Repos w') = V (w_Repos w)"
  by unfold_locales (simp_all add: blind)

section \<open>Triples over worlds\<close>

definition wtriple :: "(world \<Rightarrow> bool) \<Rightarrow> 'a svc \<Rightarrow> ('a \<Rightarrow> world \<Rightarrow> bool) \<Rightarrow> (world \<Rightarrow> bool) \<Rightarrow> bool" where
  "wtriple P m Q E \<longleftrightarrow> (\<forall>w. P w \<longrightarrow> (case m w of (Inl _, w') \<Rightarrow> E w' | (Inr x, w') \<Rightarrow> Q x w'))"

lemma wtripleI:
  "(\<And>w x w'. P w \<Longrightarrow> m w = (Inr x, w') \<Longrightarrow> Q x w') \<Longrightarrow> (\<And>w e w'. P w \<Longrightarrow> m w = (Inl e, w') \<Longrightarrow> E w') \<Longrightarrow> wtriple P m Q E"
  by (auto simp: wtriple_def split: prod.split sum.split)

lemma wtripleD:
  "wtriple P m Q E \<Longrightarrow> P w \<Longrightarrow> m w = (Inr x, w') \<Longrightarrow> Q x w'"
  "wtriple P m Q E \<Longrightarrow> P w \<Longrightarrow> m w = (Inl e, w') \<Longrightarrow> E w'"
  unfolding wtriple_def by fastforce+

lemma wtriple_end: "wtriple P m (\<lambda>_. Q) Q \<Longrightarrow> P w \<Longrightarrow> Q (snd (m w))"
  by (cases "m w"; cases "fst (m w)") (auto simp: wtriple_def split: prod.splits sum.splits)

lemma wt_bind: "wtriple P m Q E \<Longrightarrow> (\<And>x. wtriple (Q x) (k x) S E) \<Longrightarrow> wtriple P (sbind m k) S E"
  by (fastforce simp: wtriple_def svc_apply split: prod.splits sum.splits)

lemma wt_sret: "(\<And>w. P w \<Longrightarrow> Q x w) \<Longrightarrow> wtriple P (sret x) Q E"
  by (simp add: wtriple_def svc_apply)

lemma wt_sfail: "(\<And>w. P w \<Longrightarrow> E w) \<Longrightarrow> wtriple P (sfail e) Q E"
  by (simp add: wtriple_def svc_apply)

lemma wt_slift: "(\<And>x w. c = Inr x \<Longrightarrow> P w \<Longrightarrow> Q x w) \<Longrightarrow> (\<And>w. P w \<Longrightarrow> E w) \<Longrightarrow> wtriple P (slift c) Q E"
  by (auto simp: wtriple_def svc_apply split: sum.split)

lemma wt_if: "(b \<Longrightarrow> wtriple P m Q E) \<Longrightarrow> (\<not> b \<Longrightarrow> wtriple P n Q E) \<Longrightarrow> wtriple P (if b then m else n) Q E"
  by simp

lemma wt_weaken:
  "wtriple P m Q E \<Longrightarrow> (\<And>w. P' w \<Longrightarrow> P w) \<Longrightarrow> (\<And>x w. Q x w \<Longrightarrow> Q' x w) \<Longrightarrow> (\<And>w. E w \<Longrightarrow> E' w) \<Longrightarrow> wtriple P' m Q' E'"
  by (fastforce simp: wtriple_def split: prod.splits sum.splits)

lemma wt_assume: "(b \<Longrightarrow> wtriple P m Q E) \<Longrightarrow> wtriple (\<lambda>w. b \<and> P w) m Q E"
  by (auto simp: wtriple_def)

lemma wt_prod: "(\<And>x y. c = (x, y) \<Longrightarrow> wtriple P (m x y) Q E) \<Longrightarrow> wtriple P (case c of (x, y) \<Rightarrow> m x y) Q E"
  by (cases c) simp

lemma wt_opt: "(c = None \<Longrightarrow> wtriple P m Q E) \<Longrightarrow> (\<And>x. c = Some x \<Longrightarrow> wtriple P (n x) Q E) \<Longrightarrow> wtriple P (case c of None \<Rightarrow> m | Some x \<Rightarrow> n x) Q E"
  by (cases c) simp_all

lemma wt_scatch: "wtriple P m Q E \<Longrightarrow> wtriple P (scatch m) (\<lambda>r w. case r of Inl _ \<Rightarrow> E w | Inr x \<Rightarrow> Q x w) E'"
  by (auto simp: wtriple_def scatch_def split: prod.split sum.split)

lemma wt_moves: "moves R m \<Longrightarrow> (\<And>w w'. P w \<Longrightarrow> R w w' \<Longrightarrow> P w') \<Longrightarrow> (\<And>w. P w \<Longrightarrow> E w) \<Longrightarrow> wtriple P m (\<lambda>_. P) E"
  unfolding moves_def wtriple_def by (fastforce split: prod.splits sum.splits)

lemma wt_Within:
  assumes "wtriple P fn Q E" and "\<And>w w'. P w \<Longrightarrow> w_Uuids w' = w_Uuids w \<Longrightarrow> w_Drawn w \<le> w_Drawn w' \<Longrightarrow> w_Repos w' = w_Repos w \<Longrightarrow> E w'"
    and "\<And>w. w_Uuids (snd (fn w)) = w_Uuids w \<and> w_Drawn w \<le> w_Drawn (snd (fn w))"
  shows "wtriple P (Within r fn) Q E"
proof (cases r)
  case (TransactionalRunner b c)
  show ?thesis
  proof (unfold wtriple_def, intro allI impI)
    fix w assume P: "P w"
    have E: "E (w'\<lparr>w_Repos := w_Repos w\<rparr>)" if "fn w = (x, w')" for x w'
      using assms(2)[OF P, of "w'\<lparr>w_Repos := w_Repos w\<rparr>"] assms(3)[of w] that by simp
    have "E w" using assms(2)[OF P, of w] by simp
    with E wtripleD(1)[OF assms(1) P] show "case Within r fn w of (Inl _, w') \<Rightarrow> E w' | (Inr x, w') \<Rightarrow> Q x w'"
      unfolding TransactionalRunner Within_def by (auto split: option.split prod.split sum.split)
  qed
qed (use assms(1) in \<open>simp_all add: Within_def\<close>)

lemma wt_rollback:
  assumes "wtriple P m Q E0" and "wtriple E0 undo (\<lambda>_. E) E"
  shows "wtriple P (or_rollback m undo) Q E"
  using assms unfolding wtriple_def or_rollback_def by (fastforce split: prod.splits sum.splits)

lemma wt_rollbacks: "(\<And>m. m \<in> set ms \<Longrightarrow> wtriple P m (\<lambda>_. P) P) \<Longrightarrow> wtriple P (rollbacks ms) (\<lambda>_. P) P"
proof (induction ms)
  case (Cons m ms)
  then have m: "wtriple P m (\<lambda>_. P) P" and ms: "wtriple P (rollbacks ms) (\<lambda>_. P) P" by simp_all
  have "P (snd (rollbacks (m # ms) w))" if "P w" for w
    using wtriple_end[OF m that] wtriple_end[OF ms] by (auto split: prod.split sum.split) (metis snd_conv)+
  then show ?case by (fastforce simp: wtriple_def split: prod.splits sum.splits)
qed (simp add: wt_sret)

text \<open>A guarded write whose compensations repair \<open>E0\<close>, which the error may leave, to \<open>E\<close>.\<close>

lemma wt_guarded:
  assumes "wtriple P m Q E0" and "\<And>w. E0 w \<Longrightarrow> E w" and "wtriple E0 (rollbacks undo) (\<lambda>_. E) E"
  shows "wtriple P (guarded b m undo) Q E"
  unfolding guarded_def using wt_weaken[OF assms(1)] wt_rollback[OF assms(1,3)] assms(2) by (intro wt_if) blast+

text \<open>Writes may do anything to the repositories; the ids drawn so far stay drawn.\<close>

definition tame :: "world \<Rightarrow> world \<Rightarrow> bool" where
  "tame w w' \<longleftrightarrow> w_Uuids w' = w_Uuids w \<and> w_Drawn w \<le> w_Drawn w'"

interpretation ids: world_relation tame
  by unfold_locales (auto simp: tame_def)

lemma wt_with_runner:
  assumes body: "\<And>b emit. (\<And>evs. wtriple F (emit evs) (\<lambda>_. F) E) \<Longrightarrow> wtriple P (body b emit) Q E"
    and emit: "\<And>w s. F w \<Longrightarrow> F (w\<lparr>w_Repos := (w_Repos w)\<lparr>rp_Audits := s\<rparr>\<rparr>)" and FE: "\<And>w. F w \<Longrightarrow> E w"
    and undone: "\<And>w w'. P w \<Longrightarrow> tame w w' \<Longrightarrow> w_Repos w' = w_Repos w \<Longrightarrow> E w'"
    and ids: "\<And>b emit. (\<And>evs. moves tame (emit evs)) \<Longrightarrow> moves tame (body b emit)"
  shows "wtriple P (with_runner sv body) Q E"
proof -
  have one: "F (snd (sink_Emit sv ev w))" if "F w" for ev w
    using emit[OF that] by (auto simp: sink_Emit_def Let_def split: option.split)
  have F: "wtriple F (emitEventsWithSink sv evs) (\<lambda>_. F) F" for evs
  proof (induction evs)
    case (Cons ev evs)
    have "wtriple F (sink_Emit sv ev) (\<lambda>_. F) F" by (rule wtripleI) (use one in \<open>metis snd_conv\<close>)+
    then show ?case unfolding emitEventsWithSink.simps by (rule wt_bind[OF _ Cons])
  qed (simp add: wt_sret)
  have G: "F (snd (emitEventsBestEffort sv evs w))" if "F w" for evs w
    using that by (induction evs arbitrary: w) (auto simp: svc_apply one)
  have "wtriple F (emitEventsBestEffort sv evs) (\<lambda>_. F) E" for evs
    by (rule wtripleI) (use G FE in \<open>metis snd_conv\<close>)+
  moreover have "wtriple F (emitEventsWithSink sv evs) (\<lambda>_. F) E" for evs by (rule wt_weaken[OF F]) (auto intro: FE)
  moreover have "wtriple P (Within r (body True (emitEventsWithSink sv))) Q E" for r
    by (rule wt_Within) (use body calculation undone ids ids.mv_emit in \<open>auto simp: moves_def tame_def\<close>)
  ultimately show ?thesis unfolding with_runner_def using body by (auto split: runner.split)
qed

section \<open>The parts of a run that only read\<close>

text \<open>A computation that at most reads the clock and draws ids: what is asked of the application's resolver.\<close>

definition harmless :: "'a svc \<Rightarrow> bool" where
  "harmless m \<longleftrightarrow> (\<forall>w. \<exists>n d. w_Reads w \<le> n \<and> w_Drawn w \<le> d \<and> snd (m w) = w\<lparr>w_Reads := n, w_Drawn := d\<rparr>)"

definition harmless_app :: "app \<Rightarrow> bool" where
  "harmless_app hx \<longleftrightarrow> (case hx_Resolver hx of None \<Rightarrow> True | Some resolve \<Rightarrow> \<forall>req. harmless (resolve req))"

lemma harmless_registry: "harmless (registry_resolver m req)"
  unfolding harmless_def
proof
  fix w :: world
  show "\<exists>n d. w_Reads w \<le> n \<and> w_Drawn w \<le> d \<and> snd (registry_resolver m req w) = w\<lparr>w_Reads := n, w_Drawn := d\<rparr>"
    by (intro exI[of _ "Suc (w_Reads w)"] exI[of _ "Suc (w_Drawn w)"])
      (auto simp: registry_resolver_def svc_apply split: sum.split)
qed

context world_relation
begin

lemma mv_harmless:
  assumes "harmless m"
  shows "moves R m"
  unfolding moves_def
proof
  fix w
  obtain n d where d: "w_Reads w \<le> n" "w_Drawn w \<le> d" and e: "snd (m w) = w\<lparr>w_Reads := n, w_Drawn := d\<rparr>" using assms unfolding harmless_def by blast
  have "R w (w\<lparr>w_Reads := n, w_Drawn := d\<rparr>)"
    using trans[OF reads[OF d(1)] draws[of "w\<lparr>w_Reads := n\<rparr>" d]] d(2) by simp
  then show "R w (snd (m w))" by (simp add: e)
qed

lemma mv_getters:
  "moves R (getSessionRecord sv sid)" "moves R (getApprovalRecord sv aid)" "moves R (getPlanRecord sv pid)"
  "moves R (listApprovalRecords sv sid)" "moves R (listArtifactRecords sv sid)" "moves R (listActionRecords sv sid)"
  "moves R (latestPlanForSession sv sid)" "moves R (listCapabilitySnapshotRecords sv sid)"
  unfolding getSessionRecord_def getApprovalRecord_def getPlanRecord_def listApprovalRecords_def listArtifactRecords_def
    listActionRecords_def latestPlanForSession_def listCapabilitySnapshotRecords_def
  by (intro mv_rules)+

lemma mv_pinned: "moves R (pinnedPlanForSession sv st)"
proof -
  have "moves R (\<lambda>w. case getPlanRecord sv pid w of
      (Inr item, w') \<Rightarrow> (Inr (Some (annotatePlanIdentity item)), w')
    | (Inl e, w') \<Rightarrow> if errors_is e ErrPlanNotFound then (Inr None, w') else (Inl e, w'))" for pid
    using mv_getters(3)[of sv pid] by (auto simp: moves_def split: prod.split sum.split) (metis snd_conv)+
  then show ?thesis unfolding pinnedPlanForSession_def by (intro mv_rules)
qed

lemma mv_ensureSessionLease: "moves R (ensureSessionLease sv sid leaseID)"
  unfolding ensureSessionLease_def by (intro mv_rules mv_getters)

lemma mv_stepRef: "moves R (stepRefForSession sv st stepID)"
  unfolding stepRefForSession_def by (intro mv_rules mv_getters mv_pinned)

lemma mv_artifact_handle: "moves R (resolveProgramArtifactHandle sv sid s aid stepID actionID)"
  unfolding resolveProgramArtifactHandle_def by (intro mv_rules mv_getters) (auto split: list.split intro: mv_rules)

lemma mv_output_values: "moves R (resolve_structured r path)" "moves R (resolve_text r path)" "moves R (resolve_bytes r path)"
  unfolding resolve_structured_def resolve_text_def resolve_bytes_def or_resolve_failed_def by (intro mv_rules)+

lemma mv_output_action: "moves R (findProgramOutputAction sv sid s ref)"
  unfolding findProgramOutputAction_def by (intro mv_rules mv_getters) (auto split: list.split intro: mv_rules)

lemma mv_output_ref: "moves R (resolveProgramOutputRef sv sid s ref)"
  unfolding resolveProgramOutputRef_def
  by (cases "or_Kind ref"; simp only: OutputRefKind.case; intro mv_rules mv_artifact_handle mv_output_action mv_output_values)

lemma mv_materialize: "moves R (materializeProgramAttachment sv mat sid s input)"
  unfolding materializeProgramAttachment_def findProgramAttachmentArtifact_def by (intro mv_rules mv_getters)

lemma mv_binding: "moves R (resolveProgramBindingValue sv mat sid s b)"
  unfolding resolveProgramBindingValue_def
  by (intro mv_rules mv_output_ref mv_materialize)
    (auto split: AttachmentInputKind.split intro: mv_rules mv_artifact_handle)

lemma mv_resolveProgramBindings: "moves R (resolveProgramBindings sv js mat sid s)"
proof -
  have "moves R (bind_args sv mat sid bs s)" for bs
    by (induction bs arbitrary: s) (auto intro: mv_rules mv_binding)
  then show ?thesis unfolding resolveProgramBindings_def by (intro mv_rules)
qed

lemma mv_events:
  "moves R (step_event st a ty payload actionID causationID)" "moves R (changed_event st a nxt)" "moves R (advance_events st a ts)"
  "moves R (approval_event ty rec tid now payload)" "moves R (answer_events rec st response now)"
proof -
  show ev: "moves R (step_event st a ty payload actionID causationID)" for ty payload actionID causationID
    unfolding step_event_def by (intro mv_rules)
  show ch: "moves R (changed_event st a nxt)" for nxt unfolding changed_event_def by (rule ev)
  show "moves R (advance_events st a ts)" by (induction ts) (auto intro: mv_rules ch)
  show ap: "moves R (approval_event ty rec tid now payload)" for ty tid payload unfolding approval_event_def by (intro mv_rules)
  show "moves R (answer_events rec st response now)" unfolding answer_events_def by (intro mv_rules ap)
qed

lemma mv_start_attempt: "moves R (start_attempt sv sid st s active now)"
  unfolding start_attempt_def or_fresh_def ensureExecutionCycleID_def findLatestBlockedAttempt_def Let_def
  by (intro mv_rules)

lemma mv_resolve: "harmless_app hx \<Longrightarrow> moves R (ResolveCapability hx req)"
  by (auto simp: ResolveCapability_def harmless_app_def mv_sfail split: option.splits intro: mv_harmless)

lemma mv_scope:
  assumes "harmless_app hx"
  shows "moves R (buildApprovalReuseScope hx st s d)"
  using mv_resolve[OF assms, of "step_request st s"] unfolding moves_def buildApprovalReuseScope_def
  by (auto split: prod.split sum.split) (metis snd_conv)+

lemma mv_reusable:
  assumes "harmless_app hx"
  shows "moves R (findReusableApprovalDecision sv hx st s d)"
  unfolding findReusableApprovalDecision_def
proof (intro mv_bind mv_scope assms)
  fix scope
  show "moves R (\<lambda>w. case listApprovalRecords sv (st_SessionID st) w of (Inl _, w') \<Rightarrow> (Inr None, w')
      | (Inr records, w') \<Rightarrow> (Inr (map_option (\<lambda>rec. (reused_decision, rec))
          (List.find (\<lambda>rec. ap_Status rec = ApprovalApproved \<and> ap_Reply rec = ReplyAlways
             \<and> approvalReuseScopeMatches hx (ap_Metadata rec) scope) records)), w'))"
    using mv_getters(4)[of sv "st_SessionID st"] by (auto simp: moves_def split: prod.split sum.split) (metis snd_conv)+
qed

lemma mv_decide_policy: "harmless_app hx \<Longrightarrow> moves R (decide_policy sv hx st s forced active)"
  unfolding decide_policy_def by (intro mv_rules mv_reusable)

lemma mv_resolve_invoke: "harmless_app hx \<Longrightarrow> moves R (resolveCapabilityAndInvoke sv hx st s)"
  unfolding resolveCapabilityAndInvoke_def frozenCapabilityEntryForStep_def checked_resolution_def Let_def
  by (intro mv_rules mv_getters mv_resolve) assumption+

lemma mv_handles: "moves R (extractRuntimeHandles r a act now)"
proof -
  have v: "moves R (runtimeHandleFromValue a act now raw)" for raw
    unfolding runtimeHandleFromValue_def handle_of_struct_def handle_of_map_def Let_def
    by (cases raw) (auto intro!: mv_rules)
  have "moves R (collect_handles a act now raws out)" for raws out
    by (induction raws arbitrary: out) (auto intro!: mv_rules v)
  then show ?thesis by (simp add: extractRuntimeHandles_def)
qed

lemma mv_invoke_action: "harmless_app hx \<Longrightarrow> moves R (invoke_action sv hx st s a)"
  unfolding invoke_action_def action_artifacts_def Let_def
  by (intro mv_rules mv_resolve_invoke mv_events mv_handles) assumption+

lemma mv_aggregate: "moves R (aggregateVerifyInputForStep sv js sid s raw)"
  unfolding aggregateVerifyInputForStep_def Let_def by (intro mv_rules mv_getters)

lemma mv_verify_action: "moves R (verify_action sv hx st s a k)"
  unfolding verify_action_def Let_def by (intro mv_rules mv_aggregate mv_events)

lemma mv_decide_next: "moves R (decide_next sv sid st s d verified)"
  unfolding decide_next_def by (intro mv_rules mv_getters)

lemma mv_finalized: "moves R (finalized_approval active)"
  unfolding finalized_approval_def by (intro mv_rules) (auto split: Reply.split intro: mv_rules)

lemma mv_gets: "moves R (do_task_Get tid)" "moves R (do_approval_Get aid)" "moves R (do_session_Get sid)" "moves R (do_handle_Get hid)"
  by (simp_all add: moves_def do_task_Get_def do_approval_Get_def do_session_Get_def do_handle_Get_def refl)

end

section \<open>The parts of a run that write\<close>

text \<open>Relations that allow the writes of plans, tasks and attempts.\<close>

locale record_writes = world_relation +
  assumes plan_Update: "moves R (do_plan_Update p)"
    and task_Update: "moves R (do_task_Update t)"
    and attempt_Create: "moves R (do_attempt_Create a)"
    and attempt_Update: "moves R (do_attempt_Update a)"
begin

lemma mv_plan: "moves R (updateLatestPlanStepInStoreWithBudgets sid s b)" "moves R (updateLatestPlanStepInStore sid s)"
  unfolding updateLatestPlanStepInStore_def updateLatestPlanStepInStoreWithBudgets_def Let_def by (intro mv_rules plan_Update)+

lemma mv_task: "moves R (updateTaskForTerminalInStore st)"
  unfolding updateTaskForTerminalInStore_def Let_def by (intro mv_rules mv_gets task_Update)

lemma mv_attempt: "moves R (persistExecutionFacts a u None None [])"
  unfolding persistExecutionFacts_def by (auto intro!: mv_rules attempt_Create attempt_Update)

lemma mv_finalize_blocked: "moves R (finalizeBlockedAttemptInStore sid aid status s reply now)"
  unfolding finalizeBlockedAttemptInStore_def by (intro mv_rules attempt_Update)

lemma mv_restore:
  "moves R (restorePlanStepState sid s)" "moves R (restoreTaskRecord tk)" "moves R (restoreAttemptRecord a)"
  unfolding restorePlanStepState_def restoreTaskRecord_def restoreAttemptRecord_def
  by (intro mv_rules mv_plan task_Update attempt_Update)+

end

text \<open>
  Relations that also allow the writes of approvals and of sessions that are \<open>ok\<close>. That depends on the
  start of the runtime alone, and the session \<open>own\<close> is \<open>ok\<close> when it is read from a store on which the relation
  says anything.
\<close>

locale session_writes_if = record_writes +
  fixes own :: string and ok :: "session \<Rightarrow> bool"
  assumes approval_Update: "moves R (do_approval_Update ap)"
    and approval_Create: "moves R (do_approval_CreatePending req)"
    and session_persist: "ok st \<Longrightarrow> moves R (do_persistSessionUpdateAt st leaseID now)"
    and session_Update: "ok st \<Longrightarrow> moves R (do_session_Update st)"
    and ok_read: "session_Get own (rp_Sessions (w_Repos w)) = Inr st \<Longrightarrow> \<not> ok st \<Longrightarrow> R w w'"
    and ok_cong: "st_RuntimeStartedAt a = st_RuntimeStartedAt b \<Longrightarrow> ok a \<Longrightarrow> ok b"
    and ok_start: "ok st \<Longrightarrow> st_RuntimeStartedAt st = 0 \<Longrightarrow> ok (st\<lparr>st_RuntimeStartedAt := t\<rparr>)"
begin

lemma mv_undo:
  "moves R (terminalizeApprovalForRollback rec reason now)" "moves R (restoreApprovalRecord rec)"
  "ok before \<Longrightarrow> moves R (rollbackSessionState before st leaseID)"
proof -
  show "moves R (terminalizeApprovalForRollback rec reason now)" "moves R (restoreApprovalRecord rec)"
    unfolding terminalizeApprovalForRollback_def restoreApprovalRecord_def by (intro mv_rules mv_gets approval_Update)+
  assume "ok before"
  then have "ok (before\<lparr>st_Version := n\<rparr>)" for n by (rule ok_cong[rotated]) simp_all
  then show "moves R (rollbackSessionState before st leaseID)" unfolding rollbackSessionState_def by (intro mv_rules session_persist)
qed

lemma mv_step_writes: "ok st \<Longrightarrow> moves R (step_writes sv sid leaseID st s)"
  unfolding step_writes_def by (intro mv_rules mv_plan mv_task session_persist)

lemma ok_awaiting: "ok st \<Longrightarrow> ok (awaiting st s aid)"
  by (rule ok_cong[of st]) (simp_all add: awaiting_def)

lemma mv_ask_writes: "ok before \<Longrightarrow> ok st \<Longrightarrow> moves R (ask_writes sv b before s0 sid leaseID st s a req)"
  unfolding ask_writes_def Let_def
  by (intro mv_rules mv_guarded mv_plan mv_task mv_attempt approval_Create session_persist ok_awaiting)
    (auto intro!: mv_rules mv_undo mv_restore)

lemma mv_answer_writes: "ok st \<Longrightarrow> ok st' \<Longrightarrow> moves R (answer_writes b rec st rec' s st' oa ot now)"
  unfolding answer_writes_def Let_def
  by (intro mv_rules mv_guarded mv_finalize_blocked mv_plan mv_task approval_Update session_Update)
    (auto intro!: mv_undo mv_restore split: option.splits if_splits elim: ok_cong[rotated])

lemma mv_ask_step: "harmless_app hx \<Longrightarrow> ok before \<Longrightarrow> ok st \<Longrightarrow> moves R (ask_step sv hx before sid leaseID st s a d ts evs)"
  unfolding ask_step_def Let_def by (intro mv_rules mv_scope mv_events mv_with_runner mv_ask_writes) assumption+

lemma ok_settled: "ok st \<Longrightarrow> ok (settled st nxt)"
  by (rule ok_cong[of st]) (simp_all add: settled_def ApplyTransition_def Let_def)

lemma mv_deny_step: "ok st \<Longrightarrow> moves R (deny_step sv sid leaseID st s a reuse d active ts evs)"
  unfolding deny_step_def Let_def by (intro mv_rules mv_events mv_with_runner mv_step_writes mv_attempt ok_settled)

end

text \<open>Relations that allow every write of a session.\<close>

locale session_writes = record_writes +
  assumes approval_Update: "moves R (do_approval_Update ap)"
    and approval_Create: "moves R (do_approval_CreatePending req)"
    and session_persist: "moves R (do_persistSessionUpdateAt st leaseID now)"
    and session_Update: "moves R (do_session_Update st)"

sublocale session_writes \<subseteq> any: session_writes_if R "[]" "\<lambda>_. True"
  by unfold_locales (simp_all add: approval_Update approval_Create session_persist session_Update)

context session_writes
begin

lemmas mv_undo = any.mv_undo(1,2) any.mv_undo(3)[OF TrueI]
lemmas mv_step_writes = any.mv_step_writes[OF TrueI]
lemmas mv_ask_writes = any.mv_ask_writes[OF TrueI TrueI]
lemmas mv_answer_writes = any.mv_answer_writes[OF TrueI TrueI]
lemmas mv_ask_step = any.mv_ask_step[OF _ TrueI TrueI]
lemmas mv_deny_step = any.mv_deny_step[OF TrueI]

end

text \<open>Session writes change nothing but the session store.\<close>

lemma persist_moves:
  assumes "world_relation R" and "\<And>w m. R w (w\<lparr>w_Repos := (w_Repos w)\<lparr>rp_Sessions := m\<rparr>\<rparr>)"
  shows "moves R (do_persistSessionUpdateAt st leaseID now)"
proof -
  have "moves R (\<lambda>w. case persistSessionUpdateAt (\<lambda>_ m. m) (\<lambda>_ m. m) (\<lambda>_. t) t st leaseID now (rp_Sessions (w_Repos w)) of
      (r, m) \<Rightarrow> (r, w\<lparr>w_Repos := (w_Repos w)\<lparr>rp_Sessions := m\<rparr>\<rparr>))" for t
    by (auto simp: moves_def assms(2) split: prod.split)
  then show ?thesis unfolding do_persistSessionUpdateAt_def
    by (intro world_relation.mv_bind[OF assms(1)] world_relation.mv_nowMilli[OF assms(1)])
qed

lemmas write_defs = do_plan_Update_def do_task_Update_def do_attempt_Create_def do_attempt_Update_def do_approval_Update_def
  do_approval_CreatePending_def do_session_Update_def

interpretation ids: session_writes tame
proof (unfold_locales, unfold write_defs)
  show "moves tame (do_persistSessionUpdateAt st leaseID now)" for st leaseID now
    by (rule persist_moves[OF ids.world_relation_axioms]) (simp add: tame_def)
qed (intro ids.mv_rules ids.mv_sexec; auto simp: tame_def)+

end
