(* ===== verification/Step_Safety.thy ===== *)
theory Step_Safety
  imports Run_Logic
begin

text \<open>
  What a step may do without being allowed to act: nothing that counts as acting. As long as the policy asks or
  denies and no earlier answer can be reused, a run of a step records no action, no verification, no
  artifact, no runtime handle and no capability snapshot.
\<close>

definition acted_facts :: "repos \<Rightarrow> action_record gomap \<times> verification_record gomap \<times> artifact gomap \<times> runtime_handle gomap \<times> snapshot gomap" where
  "acted_facts r = (rp_Actions r, rp_Verifications r, rp_Artifacts r, rp_RuntimeHandles r, rp_CapabilitySnapshots r)"

interpretation facts: repo_view acted_facts
  by unfold_locales (simp add: acted_facts_def)

interpretation before_acting: repo_view "\<lambda>r. (acted_facts r, rp_Approvals r, rp_Sessions r)"
  by unfold_locales (simp add: acted_facts_def)

abbreviation "same_facts \<equiv> \<lambda>w w'. acted_facts (w_Repos w') = acted_facts (w_Repos w)"

interpretation facts: session_writes same_facts
proof (unfold_locales, unfold write_defs)
  show "moves same_facts (do_persistSessionUpdateAt st leaseID now)" for st leaseID now
    by (rule persist_moves[OF facts.world_relation_axioms]) (simp add: acted_facts_def)
qed (intro facts.mv_rules facts.mv_sexec; auto simp: acted_facts_def split: sum.splits prod.splits)+

lemma facts_run_decided:
  assumes "harmless_app hx" and "de_Action (fst x) \<in> {Ask, Deny}"
  shows "moves same_facts (run_decided sv hx before sid leaseID st s a reuse now None ts evs x)"
  using assms unfolding run_decided_def Let_def by (cases x) (auto intro!: facts.mv_rules facts.mv_ask_step facts.mv_events facts.mv_deny_step)

text \<open>The decision is the policy's own if no answer can be reused.\<close>

definition reusable_answer :: "string \<Rightarrow> approval_map \<Rightarrow> bool" where
  "reusable_answer sid m \<longleftrightarrow> list_ex (\<lambda>rec. ap_Status rec = ApprovalApproved \<and> ap_Reply rec = ReplyAlways) (approval_List sid m)"

abbreviation reuse_test :: "app \<Rightarrow> reuse_scope \<Rightarrow> approval \<Rightarrow> bool" where
  "reuse_test hx scope rec \<equiv> ap_Status rec = ApprovalApproved \<and> ap_Reply rec = ReplyAlways \<and> approvalReuseScopeMatches hx (ap_Metadata rec) scope"

lemma reusable_run:
  assumes "harmless_app hx"
  obtains scope w' found where "findReusableApprovalDecision sv hx st s d w = (Inr (map_option (\<lambda>rec. (reused_decision, rec)) found), w')"
    "found = None \<or> found = List.find (reuse_test hx scope) (approval_List (st_SessionID st) (rp_Approvals (w_Repos w)))"
proof -
  obtain x w1 where x: "buildApprovalReuseScope hx st s d w = (x, w1)" by fastforce
  then obtain scope where scope: "x = Inr scope"
    by (auto simp: buildApprovalReuseScope_def split: prod.splits sum.splits)
  have same: "rp_Approvals (w_Repos w1) = rp_Approvals (w_Repos w)"
    using before_acting.mv_scope[OF assms, of st s d] x unfolding moves_def by (metis prod.inject snd_conv)
  obtain l w2 where l: "listApprovalRecords sv (st_SessionID st) w1 = (l, w2)" by fastforce
  then have "(\<exists>e. l = Inl e) \<or> l = Inr (approval_List (st_SessionID st) (rp_Approvals (w_Repos w)))"
    unfolding listApprovalRecords_def readRepositories_def Within_def same[symmetric]
    by (auto split: runner.splits option.splits sum.splits)
  then show thesis using x scope l that[of None] that[of _ _ scope] by (auto simp: findReusableApprovalDecision_def svc_apply)
qed

lemma no_reuse:
  assumes "\<not> reusable_answer (st_SessionID st) (rp_Approvals (w_Repos w))" and "harmless_app hx"
  shows "\<exists>w'. findReusableApprovalDecision sv hx st s d w = (Inr None, w')"
proof -
  have "List.find (reuse_test hx scope) (approval_List (st_SessionID st) (rp_Approvals (w_Repos w))) = None" for scope
    using assms(1) by (auto simp: reusable_answer_def list_ex_iff find_None_iff)
  with reusable_run[OF assms(2), of sv st s d w] show ?thesis by (metis option.simps(8))
qed

lemma decide_policy_strict:
  assumes "\<And>st s d. hx_Policy hx st s = Inr d \<Longrightarrow> de_Action d \<in> {Ask, Deny}" and "harmless_app hx"
    and "\<not> reusable_answer (st_SessionID st) (rp_Approvals (w_Repos w))"
    and run: "decide_policy sv hx st s None None w = (Inr x, w')"
  shows "de_Action (fst x) \<in> {Ask, Deny}"
proof (cases "hx_Policy hx st s")
  case (Inl e)
  then show ?thesis using run by (simp add: decide_policy_def svc_apply)
next
  case (Inr d)
  obtain w2 where "findReusableApprovalDecision sv hx st s d w = (Inr None, w2)" using no_reuse[OF assms(3,2)] by blast
  then show ?thesis using run Inr assms(1)[OF Inr] by (auto simp: decide_policy_def svc_apply split: if_splits)
qed

lemma advance_keeps_id: "st_SessionID (fst (advance_state stepID st)) = st_SessionID st"
proof (induction stepID st rule: advance_state.induct)
  case (1 stepID st)
  then show ?case by (subst advance_state.simps) (auto simp: Let_def case_prod_beta ApplyTransition_def)
qed

lemma setSessionPlanRef_id [simp]: "st_SessionID (setSessionPlanRef st s) = st_SessionID st"
  by (simp add: setSessionPlanRef_def)

lemma ensureSessionLease_Inr:
  assumes "ensureSessionLease sv sid leaseID w = (Inr st, w')"
  shows "session_Get sid (rp_Sessions (w_Repos w)) = Inr st"
  using assms unfolding ensureSessionLease_def getSessionRecord_def readRepositories_def Within_def
  by (auto simp: svc_apply split: runner.splits option.splits sum.splits prod.splits)

section \<open>Properties\<close>


definition ex_app :: "PermAction \<Rightarrow> app" where
  "ex_app act = \<lparr>hx_Policy = (\<lambda>_ _. Inr (mk_decision act ''r'' ''m'')), hx_Resolver = Some (registry_resolver ex_tools), hx_Verifiers = ex_verifiers,
     hx_ResumePolicy = DefaultResumePolicy, hx_Materializer = None, hx_Json = no_json, hx_JsonText = (\<lambda>_. Some []),
     hx_JsonScope = (\<lambda>_. None), hx_ErrText = (\<lambda>_. [])\<rparr>"

definition ex_run_world :: world where
  "ex_run_world = ex_world\<lparr>w_Uuids := (\<lambda>i. replicate (Suc i) CHR ''u'')\<rparr>"

definition ex_step :: step where
  "ex_step = zero_step\<lparr>sp_StepID := ''st'', sp_Action := \<lparr>an_ToolName = ''t'', an_ToolVersion = [], an_Args = []\<rparr>\<rparr>"

lemma harmless_ex_app: "harmless_app (ex_app act)"
  by (simp add: harmless_app_def ex_app_def harmless_registry)


end
