(* ===== verification/Approval_Invariant.thy ===== *)
theory Approval_Invariant
  imports Step_Safety
begin

text \<open>
  Sessions and approvals agree. A session that carries the id of an approval finds it in the store, of
  this session and still pending or approved; a session that awaits an approval awaits a pending one.
  The theory shows that running steps, answering and resuming keep this, whatever fails on the way.
\<close>

section \<open>The invariant\<close>

definition pending_fits :: "approval_map \<Rightarrow> string \<Rightarrow> session \<Rightarrow> bool" where
  "pending_fits A sid st \<longleftrightarrow>
     (st_PendingApprovalID st \<noteq> [] \<longrightarrow>
        (\<exists>ap. gm_get A (st_PendingApprovalID st) = Some ap \<and> ap_SessionID ap = sid \<and> ap_Status ap \<in> {ApprovalPending, ApprovalApproved}
           \<and> (st_ExecutionState st = ExecutionAwaitingApproval \<longrightarrow> ap_Status ap = ApprovalPending)))
     \<and> (st_ExecutionState st = ExecutionAwaitingApproval \<longrightarrow> st_PendingApprovalID st \<noteq> [])"

definition approvals_fit :: "session_map \<Rightarrow> approval_map \<Rightarrow> bool" where
  "approvals_fit S A \<longleftrightarrow> session_wf S \<and> approval_wf A \<and> (\<forall>sid st. session_Get sid S = Inr st \<longrightarrow> pending_fits A sid st)"

definition records_wf :: "repos \<Rightarrow> bool" where
  "records_wf r \<longleftrightarrow> plan_wf (rp_Plans r) \<and> task_wf (rp_Tasks r) \<and> keyed at_AttemptID (rp_Attempts r)
     \<and> keyed rh_HandleID (rp_RuntimeHandles r)"

text \<open>The ids still to be drawn are new: not empty, different from each other, and no approval has one.\<close>

definition unseen :: "world \<Rightarrow> bool" where
  "unseen w \<longleftrightarrow> inj (w_Uuids w) \<and> (\<forall>n \<ge> w_Drawn w. w_Uuids w n \<noteq> [] \<and> gm_get (rp_Approvals (w_Repos w)) (w_Uuids w n) = None)"

definition fit :: "world \<Rightarrow> bool" where
  "fit w \<longleftrightarrow> approvals_fit (rp_Sessions (w_Repos w)) (rp_Approvals (w_Repos w)) \<and> records_wf (w_Repos w) \<and> unseen w"

section \<open>Computations that leave sessions and approvals alone\<close>

definition calm :: "world \<Rightarrow> world \<Rightarrow> bool" where
  "calm w w' \<longleftrightarrow> rp_Sessions (w_Repos w') = rp_Sessions (w_Repos w) \<and> rp_Approvals (w_Repos w') = rp_Approvals (w_Repos w)
     \<and> tame w w' \<and> (records_wf (w_Repos w) \<longrightarrow> records_wf (w_Repos w'))
     \<and> (\<forall>k. gm_get (rp_Tasks (w_Repos w)) k \<noteq> None \<longrightarrow> gm_get (rp_Tasks (w_Repos w')) k \<noteq> None)"

interpretation calm: world_relation calm
  by unfold_locales (auto simp: calm_def tame_def records_wf_def)

interpretation calm: record_writes calm
proof (unfold_locales, unfold write_defs)
  show "moves calm (sbind nowMilli (\<lambda>t. sexec (\<lambda>r. case plan_Update t p (rp_Plans r) of Inl e \<Rightarrow> Inl e | Inr m \<Rightarrow> Inr ((), r\<lparr>rp_Plans := m\<rparr>))))" for p
    by (intro calm.mv_rules calm.mv_sexec) (auto simp: calm_def tame_def records_wf_def plan_Update_wf split: sum.splits)
  show "moves calm (sbind nowMilli (\<lambda>t'. sexec (\<lambda>r. case task_Update t' t (rp_Tasks r) of Inl e \<Rightarrow> Inl e | Inr m \<Rightarrow> Inr ((), r\<lparr>rp_Tasks := m\<rparr>))))" for t
    by (intro calm.mv_rules calm.mv_sexec)
      (auto simp: calm_def tame_def records_wf_def task_Update_wf split: sum.splits, auto simp: task_Update_def Let_def split: option.splits if_splits)
  show "moves calm (sbind newUUID (\<lambda>u. sbind nowMilli (\<lambda>t. sexec (\<lambda>r.
     case attempt_Create u t a (rp_Attempts r) of (x, m) \<Rightarrow> Inr (x, r\<lparr>rp_Attempts := m\<rparr>)))))" for a
    by (intro calm.mv_rules calm.mv_sexec)
      (auto simp: calm_def tame_def records_wf_def attempt_Create_def Let_def split: prod.splits)
  show "moves calm (sexec (\<lambda>r. case attempt_Update a (rp_Attempts r) of Inl e \<Rightarrow> Inl e | Inr m \<Rightarrow> Inr ((), r\<lparr>rp_Attempts := m\<rparr>)))" for a
    by (intro calm.mv_sexec) (auto simp: calm_def tame_def records_wf_def attempt_Update_wf split: sum.splits)
qed

lemma calm_stores:
  "moves calm (do_action_Create x)" "moves calm (do_verification_Create v)" "moves calm (do_artifact_Create f)"
  "moves calm (do_snapshot_Create n)" "moves calm (do_handle_Create h)" "moves calm (do_handle_Update h)"
  unfolding do_action_Create_def do_verification_Create_def do_artifact_Create_def do_snapshot_Create_def do_handle_Create_def do_handle_Update_def
  by (intro calm.mv_rules calm.mv_sexec; auto simp: calm_def tame_def records_wf_def handle_Create_def handle_Update_def Let_def
      intro!: keyed_put split: prod.splits sum.splits option.splits if_splits)+

lemma calm_upsert: "moves calm (upsertRuntimeHandle h)"
proof -
  have "\<exists>x. do_handle_Create h' w = (Inr x, snd (do_handle_Create h' w))" for h' w
    by (auto simp: do_handle_Create_def svc_apply split: prod.split)
  then have "\<exists>h'. snd (upsertRuntimeHandle h w) = snd (do_handle_Create h' w)" for w
    unfolding upsertRuntimeHandle_def Let_def by (metis (no_types, lifting) old.prod.case snd_conv sum.case(2))
  then show ?thesis using calm_stores(5) by (metis moves_def)
qed

lemma calm_facts:
  "moves calm (persistExecutionFacts a u x v fs)" "moves calm (persistCapabilitySnapshot n)" "moves calm (persistRuntimeHandles hs)"
  unfolding persistExecutionFacts_def persistCapabilitySnapshot_def persistRuntimeHandles_def
  by (intro calm.mv_rules calm_stores calm_upsert calm.attempt_Create calm.attempt_Update)+

lemma fit_calm: "fit w \<Longrightarrow> calm w w' \<Longrightarrow> fit w'"
  by (auto simp: fit_def calm_def unseen_def tame_def)

section \<open>Writes of sessions and approvals\<close>

lemma fit_sessions:
  assumes "approvals_fit S A" and u: "session_Update t x S = Inr S'" and "pending_fits A' (st_SessionID x) x" and "approval_wf A'"
    and others: "\<And>k st. k \<noteq> st_SessionID x \<Longrightarrow> session_Get k S = Inr st \<Longrightarrow> pending_fits A k st \<Longrightarrow> pending_fits A' k st"
  shows "approvals_fit S' A'"
proof -
  from u obtain c where c: "session_Get (st_SessionID x) S' = Inr c" "same_run_state c x"
    "\<forall>k. k \<noteq> st_SessionID x \<longrightarrow> session_Get k S' = session_Get k S" by (rule session_Update_stored)
  have "pending_fits A' (st_SessionID x) c" using assms(3) c(2) by (simp add: pending_fits_def same_run_state_def)
  moreover have "session_wf S'" using sess.update_invar[OF _ u] assms(1) by (simp add: approvals_fit_def)
  ultimately show ?thesis using assms(1,4) c(1,3) others unfolding approvals_fit_def by (metis sum.inject(2))
qed

text \<open>An approval can be rewritten if the sessions that wait for it do not mind.\<close>

lemma fit_approval:
  assumes "approvals_fit S A" and "ap_ApprovalID ap = k"
    and "\<And>sid st. session_Get sid S = Inr st \<Longrightarrow> st_PendingApprovalID st = k \<Longrightarrow> k \<noteq> [] \<Longrightarrow>
      ap_SessionID ap = sid \<and> ap_Status ap \<in> {ApprovalPending, ApprovalApproved}
      \<and> (st_ExecutionState st = ExecutionAwaitingApproval \<longrightarrow> ap_Status ap = ApprovalPending)"
  shows "approvals_fit S (gm_put k ap A)"
  using assms unfolding approvals_fit_def pending_fits_def by (auto simp: keyed_put)

text \<open>What a session write does, with or without a lease.\<close>

lemma persist_cases:
  assumes "do_persistSessionUpdateAt d L now w = (res, w')"
  obtains (failed) e where "res = Inl e" "w' = w\<lparr>w_Reads := Suc (w_Reads w)\<rparr>"
  | (written) x t S where "res = Inr x" "session_Update t x (rp_Sessions (w_Repos w)) = Inr S"
      "w' = w\<lparr>w_Reads := Suc (w_Reads w), w_Repos := (w_Repos w)\<lparr>rp_Sessions := S\<rparr>\<rparr>"
      "st_SessionID x = st_SessionID d" "st_PendingApprovalID x = st_PendingApprovalID d" "st_ExecutionState x = st_ExecutionState d"
proof -
  let ?t = "w_Clock w (w_Reads w)" and ?S = "rp_Sessions (w_Repos w)"
  obtain r m where p: "persistSessionUpdateAt (\<lambda>_ m. m) (\<lambda>_ m. m) (\<lambda>_. ?t) ?t d L now ?S = (r, m)" by fastforce
  then have w': "res = r" "w' = w\<lparr>w_Reads := Suc (w_Reads w), w_Repos := (w_Repos w)\<lparr>rp_Sessions := m\<rparr>\<rparr>"
    using assms do_persist_run[OF p] by simp_all
  consider (bad) e where "r = Inl e" "m = ?S" | (ok) x where "r = Inr x" "session_Update ?t x ?S = Inr m"
      "st_SessionID x = st_SessionID d" "st_PendingApprovalID x = st_PendingApprovalID d" "st_ExecutionState x = st_ExecutionState d"
  proof (cases "L = []")
    case True
    then show thesis using p that by (fastforce simp: persistSessionUpdateAt_def Let_def split: sum.splits)
  next
    case False
    show thesis
    proof (cases "session_Get (st_SessionID d) ?S")
      case (Inl e)
      have four: "(4 :: nat) = Suc 3" by simp
      have "r = Inl e" "m = ?S" using p Inl False
        by (simp_all add: persistSessionUpdateAt_def updateSessionWithRetry_def maxSessionUpdateAttempts_def Let_def
            update_loop.simps(2)[where n = 3, folded four])
      then show thesis by (rule that(1))
    next
      case (Inr c)
      let ?x = "mergeSessionUpdate c d L"
      show thesis
      proof (cases "leaseHeldAt c L (if now = 0 then ?t else now)")
        case True
        then obtain m' where m': "session_Update ?t ?x ?S = Inr m'"
          using sess.update_fresh[of ?x ?S c] merge_fields(1,2)[OF True, of d] Inr by auto
        then have "r = Inr ?x" "m = m'" using p persist_leased[OF False Inr, of "\<lambda>_. ?t" ?t now] True by simp_all
        with m' show thesis by (intro that(2)[of ?x]) (simp_all add: mergeSessionUpdate_def Let_def)
      next
        case False
        then show thesis using p persist_leased[OF \<open>L \<noteq> []\<close> Inr, of "\<lambda>_. ?t" ?t now] by (intro that(1)[of ErrSessionLeaseNotHeld]) simp_all
      qed
    qed
  qed
  then show thesis
  proof cases
    case bad
    then show thesis using w' by (intro failed) simp_all
  next
    case (ok x)
    then show thesis using w' by (intro written[OF _ ok(2)]) simp_all
  qed
qed

section \<open>Running a step\<close>

text \<open>The invariant, with the approvals and the pending approval of one session pinned down.\<close>

definition fit_at :: "string \<Rightarrow> string \<Rightarrow> approval_map \<Rightarrow> world \<Rightarrow> bool" where
  "fit_at sid p A w \<longleftrightarrow> fit w \<and> rp_Approvals (w_Repos w) = A
     \<and> (\<exists>c. session_Get sid (rp_Sessions (w_Repos w)) = Inr c \<and> st_PendingApprovalID c = p)"

lemma fit_at_calm: "fit_at sid p A w \<Longrightarrow> calm w w' \<Longrightarrow> fit_at sid p A w'"
  using fit_calm by (auto simp: fit_at_def calm_def)

lemma fit_at_fit: "fit_at sid p A w \<Longrightarrow> fit w"
  by (simp add: fit_at_def)

lemma fit_same: "fit w \<Longrightarrow> tame w w' \<Longrightarrow> w_Repos w' = w_Repos w \<Longrightarrow> fit w'"
  by (auto simp: fit_def unseen_def tame_def)

lemma fit_audits: "fit_at sid p A w \<Longrightarrow> fit_at sid p A (w\<lparr>w_Repos := (w_Repos w)\<lparr>rp_Audits := s\<rparr>\<rparr>)"
  by (auto simp: fit_at_def fit_def unseen_def records_wf_def)

lemma wt_calm: "moves calm m \<Longrightarrow> wtriple (fit_at sid p A) m (\<lambda>_. fit_at sid p A) fit"
  by (rule wt_moves[of calm]) (auto intro: fit_at_calm fit_at_fit)

lemma fit_at_pending:
  assumes "fit_at sid p A w" and "session_Get sid (rp_Sessions (w_Repos w)) = Inr st"
  shows "st_SessionID st = sid" "st_PendingApprovalID st = p" "pending_fits A sid st"
  using assms session_Get_id by (auto simp: fit_at_def fit_def approvals_fit_def)

lemma wt_persist:
  assumes "st_SessionID d = sid" and "\<And>w. fit_at sid p A w \<Longrightarrow> pending_fits A sid d"
  shows "wtriple (fit_at sid p A) (do_persistSessionUpdateAt d L now) (\<lambda>_. fit_at sid (st_PendingApprovalID d) A) (fit_at sid p A)"
proof (rule wtripleI)
  fix w x w' assume w: "fit_at sid p A w" and run: "do_persistSessionUpdateAt d L now w = (Inr x, w')"
  from run show "fit_at sid (st_PendingApprovalID d) A w'"
  proof (cases rule: persist_cases)
    case (written y t S)
    have "pending_fits A (st_SessionID y) y" using assms(2)[OF w] written assms(1) by (simp add: pending_fits_def)
    moreover have "approvals_fit (rp_Sessions (w_Repos w)) A" "approval_wf A" using w by (auto simp: fit_at_def fit_def approvals_fit_def)
    ultimately have "approvals_fit S A" using fit_sessions[OF _ written(2)] by blast
    moreover obtain c where "session_Get (st_SessionID y) S = Inr c" "same_run_state c y" using session_Update_stored[OF written(2)] by metis
    ultimately show ?thesis using w written assms(1) by (auto simp: fit_at_def fit_def records_wf_def unseen_def same_run_state_def)
  qed simp
next
  fix w e w' assume w: "fit_at sid p A w" and run: "do_persistSessionUpdateAt d L now w = (Inl e, w')"
  from run w show "fit_at sid p A w'" by (cases rule: persist_cases) (auto simp: fit_at_def fit_def unseen_def)
qed

lemma wt_session_Get:
  "(\<And>w. P w \<Longrightarrow> E w) \<Longrightarrow> wtriple P (do_session_Get sid) (\<lambda>st w. session_Get sid (rp_Sessions (w_Repos w)) = Inr st \<and> P w) E"
  by (auto simp: wtriple_def do_session_Get_def split: sum.split)

lemma ids_recovery_event: "moves tame (recovery_event a b mu)" "moves calm (recovery_event a b mu)"
  unfolding recovery_event_def newAuditEventAt_def by (intro ids.mv_rules calm.mv_rules)+

lemma ids_update_recovery: "(\<And>evs. moves tame (emit evs)) \<Longrightarrow> moves tame (update_recovery sid L mu f emit)"
  unfolding update_recovery_def by (intro ids.mv_rules ids.mv_gets ids_recovery_event ids.session_persist) simp_all

lemma fit_at_same: "fit_at sid p A w \<Longrightarrow> tame w w' \<Longrightarrow> w_Repos w' = w_Repos w \<Longrightarrow> fit w'"
  using fit_same fit_at_fit by blast

lemma wt_mark:
  "wtriple (fit_at sid p A) (markSessionInFlight sv sid L stepID) (\<lambda>_. fit_at sid p A) fit"
proof -
  have upd: "wtriple (fit_at sid p A) (update_recovery sid L mu (in_flight stepID now ref) emit) (\<lambda>_. fit_at sid p A) fit"
    if emit: "\<And>evs. wtriple (fit_at sid p A) (emit evs) (\<lambda>_. fit_at sid p A) fit" for mu now ref emit
    unfolding update_recovery_def
  proof (rule wt_bind[OF wt_session_Get[where P = "fit_at sid p A" and E = fit, OF fit_at_fit]])
    fix st
    let ?Q = "\<lambda>w. session_Get sid (rp_Sessions (w_Repos w)) = Inr st \<and> fit_at sid p A w"
    have stay: "wtriple ?Q m (\<lambda>_. ?Q) fit" if "moves calm m" for m :: "'x svc"
      by (rule wt_moves[OF that]) (auto simp: calm_def intro: fit_at_calm fit_at_fit dest: fit_at_calm)
    have persist: "wtriple ?Q (do_persistSessionUpdateAt (in_flight stepID now ref st) L t) (\<lambda>_. fit_at sid p A) fit" for t
    proof (unfold wtriple_def, intro allI impI)
      fix w assume w: "?Q w"
      let ?d = "in_flight stepID now ref st"
      have d: "st_SessionID ?d = st_SessionID st" "st_PendingApprovalID ?d = st_PendingApprovalID st" "st_ExecutionState ?d = ExecutionInFlight"
        by (auto simp: in_flight_def Let_def setSessionPlanRef_def split: option.split)
      have st: "st_SessionID st = sid" "st_PendingApprovalID st = p" "pending_fits A sid st" using fit_at_pending w by blast+
      have "wtriple (fit_at sid p A) (do_persistSessionUpdateAt ?d L t) (\<lambda>_. fit_at sid (st_PendingApprovalID ?d) A) (fit_at sid p A)"
        by (rule wt_persist) (use d st in \<open>auto simp: pending_fits_def\<close>)
      with w d st show "case do_persistSessionUpdateAt ?d L t w of (Inl _, w') \<Rightarrow> fit w' | (Inr x, w') \<Rightarrow> fit_at sid p A w'"
        unfolding wtriple_def by (fastforce split: prod.splits sum.splits intro: fit_at_fit)
    qed
    show "wtriple ?Q (sbind nowMilli (\<lambda>t1. sbind (slift (requireSessionLease st L t1)) (\<lambda>_. sbind nowMilli (\<lambda>t2.
        sbind (do_persistSessionUpdateAt (in_flight stepID now ref st) L t2) (\<lambda>updated.
        sbind (recovery_event st updated mu) (\<lambda>ev. sbind (emit [ev]) (\<lambda>_. sret updated))))))) (\<lambda>_. fit_at sid p A) fit"
      by (rule wt_bind[OF stay[OF calm.mv_nowMilli]], rule wt_bind[OF stay[OF calm.mv_slift]], rule wt_bind[OF stay[OF calm.mv_nowMilli]],
          rule wt_bind[OF persist], rule wt_bind[OF wt_calm[OF ids_recovery_event(2)]], rule wt_bind[OF emit], rule wt_sret)
  qed
  have "wtriple (fit_at sid p A) (updateRecoveryState sv sid L mu (in_flight stepID now ref)) (\<lambda>_. fit_at sid p A) fit" for mu now ref
    unfolding updateRecoveryState_def
    by (rule wt_with_runner[where F = "fit_at sid p A"])
      (auto intro: upd fit_audits fit_at_fit fit_at_same ids_update_recovery)
  then show ?thesis unfolding markSessionInFlight_def
    by (intro wt_bind[OF wt_calm[OF calm.mv_nowMilli]] wt_bind[OF wt_calm[OF calm.mv_ensureSessionLease]]
        wt_bind[OF wt_calm[OF calm.mv_slift]] wt_bind[OF wt_calm[OF calm.mv_stepRef]])
qed

lemma fit_at_live:
  assumes "fit_at sid p A w" and "p \<noteq> []"
  obtains ap where "gm_get A p = Some ap" "ap_SessionID ap = sid" "ap_Status ap \<in> {ApprovalPending, ApprovalApproved}"
proof -
  from assms(1) obtain c where "session_Get sid (rp_Sessions (w_Repos w)) = Inr c" "st_PendingApprovalID c = p" by (auto simp: fit_at_def)
  with fit_at_pending(3)[OF assms(1)] assms(2) that show thesis unfolding pending_fits_def by blast
qed

lemma idle_fits:
  assumes "fit_at sid p A w" and "st_PendingApprovalID d \<in> {p, []}" and "st_ExecutionState d \<noteq> ExecutionAwaitingApproval"
  shows "pending_fits A sid d"
proof (cases "st_PendingApprovalID d = []")
  case False
  then have "p \<noteq> []" "st_PendingApprovalID d = p" using assms(2) by auto
  moreover obtain ap where "gm_get A p = Some ap" "ap_SessionID ap = sid" "ap_Status ap \<in> {ApprovalPending, ApprovalApproved}"
    using fit_at_live[OF assms(1) calculation(1)] .
  ultimately show ?thesis using assms(3) by (auto simp: pending_fits_def)
qed (use assms(3) in \<open>simp add: pending_fits_def\<close>)

lemma settled_fields [simp]:
  "st_SessionID (settled st nxt) = st_SessionID st" "st_PendingApprovalID (settled st nxt) = st_PendingApprovalID st"
  "st_ExecutionState (settled st nxt) = ExecutionIdle"
  by (auto simp: settled_def ApplyTransition_def Let_def)

lemma clear_pending_fields [simp]:
  "st_SessionID (clear_pending active st) = st_SessionID st" "st_ExecutionState (clear_pending active st) = st_ExecutionState st"
  "st_PendingApprovalID (clear_pending active st) \<in> {st_PendingApprovalID st, []}"
  by (auto simp: clear_pending_def split: option.split)

lemma wt_step_writes:
  assumes "st_SessionID st = sid" and "st_PendingApprovalID st \<in> {p, []}" and "st_ExecutionState st = ExecutionIdle"
  shows "wtriple (fit_at sid p A) (step_writes sv sid L st s) (\<lambda>_. fit_at sid (st_PendingApprovalID st) A) fit"
  unfolding step_writes_def
proof (rule wt_bind[OF wt_calm[OF calm.mv_plan(1)]], rule wt_bind[OF wt_calm[OF calm.mv_task]], rule wt_bind)
  show "wtriple (fit_at sid p A) (do_persistSessionUpdateAt st L 0) (\<lambda>_. fit_at sid (st_PendingApprovalID st) A) fit"
    by (rule wt_weaken[OF wt_persist[OF assms(1)]]) (use assms(2,3) idle_fits in \<open>auto intro: fit_at_fit\<close>)
qed (rule wt_sret)

lemma wt_best_effort: "wtriple P m (\<lambda>_. Q) Q \<Longrightarrow> wtriple P (best_effort m) (\<lambda>_. Q) E"
  using wtriple_end by (auto simp: wtriple_def best_effort_def)

lemma wt_fact_write:
  assumes "wtriple P m (\<lambda>_. Q) Q" and "\<And>w. Q w \<Longrightarrow> E w"
  shows "wtriple P (fact_write b m) (\<lambda>_. Q) E"
  using wt_best_effort[OF assms(1)] wt_weaken[OF assms(1), of P "\<lambda>_. Q" E] assms(2) by (simp add: fact_write_def)

lemma wt_calm_fact: "moves calm m \<Longrightarrow> wtriple (fit_at sid p A) (fact_write b m) (\<lambda>_. fit_at sid p A) fit"
  by (rule wt_fact_write[OF wt_moves[of calm]]) (auto intro: fit_at_calm fit_at_fit)

lemma fit_any_audits: "fit w \<Longrightarrow> fit (w\<lparr>w_Repos := (w_Repos w)\<lparr>rp_Audits := s\<rparr>\<rparr>)"
  by (auto simp: fit_def unseen_def records_wf_def)

lemma wt_deny:
  assumes "st_SessionID st = sid" and "st_PendingApprovalID st = p"
  shows "wtriple (fit_at sid p A) (deny_step sv sid L st s a reuse d active ts evs) (\<lambda>_. fit) fit"
  unfolding deny_step_def Let_def
proof (rule wt_bind[OF wt_calm[OF calm.mv_nowMilli]], rule wt_bind[OF wt_calm[OF calm.mv_events(1)]],
    rule wt_bind[OF wt_calm[OF calm.mv_events(2)]], rule wt_with_runner[where F = "fit_at sid p A"])
  fix t e1 e2 b and emit :: "audit_event list \<Rightarrow> unit svc"
  let ?n = "mk_td st TransitionFailed (sp_StepID s) ''policy denied action''" and ?s = "s\<lparr>sp_Status := StepFailed, sp_FinishedAt := t\<rparr>"
  let ?a = "link_approval active (a\<lparr>at_Status := AttemptFailed, at_Step := ?s, at_FinishedAt := t\<rparr>)"
  let ?body = "\<lambda>b emit. sbind (step_writes sv sid L (settled st ?n) ?s) (\<lambda>(pl, tk, st').
          sbind (fact_write b (persistExecutionFacts ?a reuse None None [])) (\<lambda>_.
          sbind (emit (evs @ [e1, e2])) (\<lambda>_.
            sret \<lparr>so_Session = st',
              so_Execution = \<lparr>xr_Step = s, xr_Action = zero_result, xr_Verify = zero_verify_result, xr_Policy = d, xr_PendingApproval = None\<rparr>,
              so_Transitions = ts @ [?n], so_Events = evs @ [e1, e2], so_UpdatedPlan = pl, so_UpdatedTask = tk\<rparr>)))"
  show "wtriple (fit_at sid p A) (?body b emit) (\<lambda>_. fit) fit"
    if emit: "\<And>evs. wtriple (fit_at sid p A) (emit evs) (\<lambda>_. fit_at sid p A) fit"
    using wt_step_writes[of "settled st ?n" sid p A sv L ?s] assms
    by (intro wt_bind[where Q = "\<lambda>_. fit_at sid p A"] wt_prod wt_calm_fact calm_facts(1) emit wt_sret) (auto intro: fit_at_fit)
  show "moves tame (?body b emit)" if "\<And>evs. moves tame (emit evs)"
    using that by (intro ids.mv_rules ids.mv_step_writes ids.mv_attempt) simp_all
qed (auto intro: fit_audits fit_at_fit fit_at_same)

text \<open>The approval a run rests on: stored and approved; an answer for once is that of this session's pending approval.\<close>

definition active_ok :: "string \<Rightarrow> string \<Rightarrow> approval_map \<Rightarrow> approval option \<Rightarrow> bool" where
  "active_ok sid p A active \<longleftrightarrow> (case active of None \<Rightarrow> True
     | Some ap \<Rightarrow> gm_get A (ap_ApprovalID ap) = Some ap \<and> ap_Status ap = ApprovalApproved
         \<and> (ap_Reply ap = ReplyOnce \<longrightarrow> ap_ApprovalID ap = p \<and> ap_SessionID ap = sid))"

lemma approval_Update_cases:
  assumes "do_approval_Update ap w = (res, w')"
  obtains (failed) e where "res = Inl e" "w' = w\<lparr>w_Reads := Suc (w_Reads w)\<rparr>"
  | (written) x where "res = Inr ()" "ap_ApprovalID x = ap_ApprovalID ap" "ap_SessionID x = ap_SessionID ap" "ap_Status x = ap_Status ap"
      "gm_get (rp_Approvals (w_Repos w)) (ap_ApprovalID ap) \<noteq> None" "ap_Reply x = ap_Reply ap"
      "w' = w\<lparr>w_Reads := Suc (w_Reads w), w_Repos := (w_Repos w)\<lparr>rp_Approvals := gm_put (ap_ApprovalID ap) x (rp_Approvals (w_Repos w))\<rparr>\<rparr>"
proof -
  let ?t = "w_Clock w (w_Reads w)" and ?A = "rp_Approvals (w_Repos w)"
  let ?x = "(if ap_CreatedAt ap = 0 then ap\<lparr>ap_CreatedAt := ap_CreatedAt (the (gm_get ?A (ap_ApprovalID ap)))\<rparr> else ap)\<lparr>ap_UpdatedAt := ?t\<rparr>"
  have "(\<exists>e. approval_Update ?t ap ?A = Inl e)
    \<or> approval_Update ?t ap ?A = Inr (gm_put (ap_ApprovalID ap) ?x ?A) \<and> gm_get ?A (ap_ApprovalID ap) \<noteq> None"
    by (auto simp: approval_Update_def Let_def split: option.split)
  then consider (bad) e where "approval_Update ?t ap ?A = Inl e"
    | (ok) "approval_Update ?t ap ?A = Inr (gm_put (ap_ApprovalID ap) ?x ?A)" "gm_get ?A (ap_ApprovalID ap) \<noteq> None"
    by blast
  then show thesis
  proof cases
    case bad
    then show thesis using assms by (intro failed[of e]) (auto simp: do_approval_Update_def svc_apply)
  next
    case ok
    then show thesis using assms by (intro written[of ?x]) (auto simp: do_approval_Update_def svc_apply)
  qed
qed

lemma fit_approval_put:
  assumes "fit w" and "gm_get (rp_Approvals (w_Repos w)) k \<noteq> None" and "approvals_fit (rp_Sessions (w_Repos w)) (gm_put k x (rp_Approvals (w_Repos w)))"
  shows "fit (w\<lparr>w_Reads := n, w_Repos := (w_Repos w)\<lparr>rp_Approvals := gm_put k x (rp_Approvals (w_Repos w))\<rparr>\<rparr>)"
  using assms by (auto simp: fit_def unseen_def records_wf_def)

lemma fit_at_reads: "fit_at sid p A w \<Longrightarrow> fit (w\<lparr>w_Reads := n\<rparr>)"
  by (auto simp: fit_at_def fit_def unseen_def)

lemma wt_finalize:
  assumes "active_ok sid p A (Some ap)" and "p' = (if p = ap_ApprovalID ap then [] else p)"
    and "ap_ApprovalID x = ap_ApprovalID ap" "ap_SessionID x = ap_SessionID ap"
    and "ap_Status x = ApprovalApproved \<or> ap_Reply ap = ReplyOnce"
  shows "wtriple (fit_at sid p' A) (do_approval_Update x) (\<lambda>_. fit) fit"
proof -
  have "fit w'" if w: "fit_at sid p' A w" and run: "do_approval_Update x w = (res, w')" for w res w'
    using run
  proof (cases rule: approval_Update_cases)
    case failed
    then show ?thesis using fit_at_reads[OF w] by simp
  next
    case (written y)
    let ?k = "ap_ApprovalID ap"
    have A: "rp_Approvals (w_Repos w) = A" "approvals_fit (rp_Sessions (w_Repos w)) A" using w by (auto simp: fit_at_def fit_def)
    have ap: "gm_get A ?k = Some ap" "ap_Status ap = ApprovalApproved" using assms(1) by (auto simp: active_ok_def)
    have "ap_SessionID y = sid2 \<and> ap_Status y \<in> {ApprovalPending, ApprovalApproved} \<and> (st_ExecutionState st = ExecutionAwaitingApproval \<longrightarrow> ap_Status y = ApprovalPending)"
      if st: "session_Get sid2 (rp_Sessions (w_Repos w)) = Inr st" "st_PendingApprovalID st = ?k" "?k \<noteq> []" for sid2 st
    proof -
      have s: "ap_SessionID ap = sid2" "st_ExecutionState st \<noteq> ExecutionAwaitingApproval"
        using A(2) st ap unfolding approvals_fit_def pending_fits_def by force+
      have "ap_Reply ap \<noteq> ReplyOnce"
      proof
        assume "ap_Reply ap = ReplyOnce"
        then have "sid2 = sid" "p' = []" using s assms(1,2) by (auto simp: active_ok_def)
        then show False using fit_at_pending(2)[OF w] st by simp
      qed
      then show ?thesis using s written assms(3-5) by simp
    qed
    from fit_approval[OF A(2), of y ?k, OF _ this] written assms(3)
    have "approvals_fit (rp_Sessions (w_Repos w)) (gm_put ?k y A)" by simp
    then show ?thesis using fit_approval_put[OF fit_at_fit[OF w], of ?k y "Suc (w_Reads w)"] written A(1) ap(1) assms(3) by simp
  qed
  then show ?thesis by (intro wtripleI) blast+
qed

lemma finalized_cases:
  "finalized_approval active w = (Inr fin, w') \<Longrightarrow> fin = None \<or> (\<exists>ap x. active = Some ap \<and> fin = Some x \<and> ap_ApprovalID x = ap_ApprovalID ap
     \<and> ap_SessionID x = ap_SessionID ap \<and> (ap_Status x = ApprovalApproved \<or> ap_Reply ap = ReplyOnce))"
  by (auto simp: finalized_approval_def svc_apply split: option.splits Reply.splits)

lemma wt_final_facts:
  assumes "active_ok sid p A active" and "p' = (case active of Some ap \<Rightarrow> if p = ap_ApprovalID ap then [] else p | None \<Rightarrow> p)"
    and "finalized_approval active w0 = (Inr fin, w0')"
  shows "wtriple (fit_at sid p' A) (final_facts b a reuse k q fin) (\<lambda>_. fit) fit"
  unfolding final_facts_def
proof (rule wt_bind[OF wt_calm_fact[OF calm_facts(1)]], rule wt_bind[OF wt_calm_fact[OF calm_facts(2)]], rule wt_bind[OF wt_calm_fact[OF calm_facts(3)]])
  show "wtriple (fit_at sid p' A) (case fin of None \<Rightarrow> sret () | Some ap \<Rightarrow> fact_write b (do_approval_Update (ap\<lparr>ap_Version := ap_Version ap + 1\<rparr>))) (\<lambda>_. fit) fit"
  proof (cases fin)
    case (Some x)
    then obtain ap where ap: "active = Some ap" "ap_ApprovalID x = ap_ApprovalID ap" "ap_SessionID x = ap_SessionID ap"
      "ap_Status x = ApprovalApproved \<or> ap_Reply ap = ReplyOnce" using finalized_cases[OF assms(3)] by auto
    have "wtriple (fit_at sid p' A) (do_approval_Update (x\<lparr>ap_Version := ap_Version x + 1\<rparr>)) (\<lambda>_. fit) fit"
      by (rule wt_finalize[of sid p A ap]) (use assms(1,2) ap in auto)
    then show ?thesis unfolding Some option.case by (rule wt_fact_write) simp
  qed (auto intro: wt_sret fit_at_fit)
qed

lemma calm_tame: "moves calm m \<Longrightarrow> moves tame m"
  by (simp add: moves_def calm_def)

lemma ids_final_facts: "moves tame (final_facts b a reuse k q fin)"
  unfolding final_facts_def by (intro ids.mv_rules calm_tame[OF calm_facts(1)] calm_tame[OF calm_facts(2)] calm_tame[OF calm_facts(3)] ids.approval_Update)

lemma wt_finalized:
  "wtriple (fit_at sid p A) (finalized_approval active)
     (\<lambda>fin w. (\<exists>w0 w0'. finalized_approval active w0 = (Inr fin, w0')) \<and> fit_at sid p A w) fit"
  using wt_calm[OF calm.mv_finalized, of sid p A active] unfolding wtriple_def by (fastforce split: prod.splits sum.splits)

lemma clear_pending_settled:
  assumes "st_PendingApprovalID st = p"
  shows "st_PendingApprovalID (clear_pending active (settled st nxt))
    = (case active of Some ap \<Rightarrow> if p = ap_ApprovalID ap then [] else p | None \<Rightarrow> p)"
  using assms by (auto simp: clear_pending_def split: option.split)

lemma wt_finish:
  assumes st: "st_SessionID st = sid" "st_PendingApprovalID st = p" and act: "active_ok sid p A active"
  shows "wtriple (fit_at sid p A) (finish_step sv sid L st s a reuse d active k q ts evs) (\<lambda>_. fit) fit"
proof -
  define st2 where "st2 = (if vq_Verified q then st else st\<lparr>st_RetryCount := st_RetryCount st + 1\<rparr>)"
  have st2: "st_SessionID st2 = sid" "st_PendingApprovalID st2 = p" using st by (auto simp: st2_def)
  have body: "wtriple (fit_at sid p A) (sbind (step_writes sv sid L (clear_pending active (settled st2 nxt)) s2) (\<lambda>(pl, tk, st').
        sbind (final_facts b a2 reuse k q fin) (\<lambda>_. sbind (emit evs2) (\<lambda>_. sret (out pl tk st'))))) (\<lambda>_. fit) fit"
    if emit: "\<And>evs. wtriple fit (emit evs) (\<lambda>_. fit) fit" and fin: "finalized_approval active w0 = (Inr fin, w0')"
    for emit nxt s2 a2 fin evs2 w0 w0' b and out :: "plan option \<Rightarrow> task option \<Rightarrow> session \<Rightarrow> step_output"
  proof -
    let ?p = "case active of Some ap \<Rightarrow> if p = ap_ApprovalID ap then [] else p | None \<Rightarrow> p"
    have writes: "wtriple (fit_at sid p A) (step_writes sv sid L (clear_pending active (settled st2 nxt)) s2) (\<lambda>_. fit_at sid ?p A) fit"
      using wt_step_writes[of "clear_pending active (settled st2 nxt)" sid p A sv L s2] st2 clear_pending_settled[OF st2(2), of active nxt]
        clear_pending_fields(3)[of active "settled st2 nxt"] by simp
    show ?thesis
      by (rule wt_bind[OF writes], intro wt_prod, rule wt_bind[OF wt_final_facts[OF act refl fin]], rule wt_bind[OF emit], rule wt_sret)
  qed
  show ?thesis unfolding finish_step_def Let_def st2_def[symmetric]
    by (rule wt_bind[OF wt_calm[OF calm.mv_decide_next]], rule wt_bind[OF wt_calm[OF calm.mv_nowMilli]],
        rule wt_bind[OF wt_calm[OF calm.mv_nowMilli]], rule wt_bind[OF wt_calm[OF calm.mv_events(2)]],
        rule wt_bind[OF wt_finalized], rule wt_assume, elim exE, rule wt_with_runner[where F = fit])
      (auto intro: body fit_any_audits fit_at_same intro!: ids.mv_rules ids.mv_step_writes ids_final_facts)
qed

lemma getSessionRecord_Inr:
  "getSessionRecord sv sid w = (Inr st, w') \<Longrightarrow> session_Get sid (rp_Sessions (w_Repos w)) = Inr st"
  unfolding getSessionRecord_def readRepositories_def Within_def
  by (auto split: runner.splits option.splits sum.splits)

lemma wt_getSession:
  "wtriple (fit_at sid p A) (getSessionRecord sv sid)
     (\<lambda>st w. (st_SessionID st = sid \<and> st_PendingApprovalID st = p) \<and> fit_at sid p A w) fit"
proof (rule wtripleI)
  fix w st w' assume w: "fit_at sid p A w" and run: "getSessionRecord sv sid w = (Inr st, w')"
  then show "(st_SessionID st = sid \<and> st_PendingApprovalID st = p) \<and> fit_at sid p A w'"
    using fit_at_pending[OF w getSessionRecord_Inr[OF run]] wtripleD(1)[OF wt_calm[OF calm.mv_getters(1)] w run] by blast
qed (use wtripleD(2)[OF wt_calm[OF calm.mv_getters(1)]] in blast)

lemma wt_execute:
  assumes "active_ok sid p A active" and "harmless_app hx"
  shows "wtriple (fit_at sid p A) (execute_step sv hx sid L s a reuse d active ts evs) (\<lambda>_. fit) fit"
  unfolding execute_step_def Let_def
  by (rule wt_bind[OF wt_mark], rule wt_bind[OF wt_getSession], rule wt_assume, elim conjE,
      rule wt_bind[OF wt_calm[OF calm.mv_invoke_action[OF assms(2)]]], rule wt_bind[OF wt_calm[OF calm.mv_verify_action]],
      rule wt_finish[OF _ _ assms(1)]) simp_all

subsection \<open>Asking\<close>

text \<open>A new approval that no session knows of yet.\<close>

definition fresh_request :: "string \<Rightarrow> approval_map \<Rightarrow> approval \<Rightarrow> bool" where
  "fresh_request sid A rec \<longleftrightarrow> ap_ApprovalID rec \<noteq> [] \<and> gm_get A (ap_ApprovalID rec) = None \<and> ap_SessionID rec = sid \<and> ap_Status rec = ApprovalPending"

lemma wt_request:
  assumes "rq_SessionID req = sid"
  shows "wtriple (fit_at sid p A) (do_approval_CreatePending req)
    (\<lambda>rec w. fresh_request sid A rec \<and> fit_at sid p (gm_put (ap_ApprovalID rec) rec A) w) fit"
proof (unfold wtriple_def, intro allI impI)
  fix w assume w: "fit_at sid p A w"
  let ?u = "w_Uuids w (w_Drawn w)"
  define rec where "rec = fst (approval_CreatePending ?u (w_Clock w (w_Reads w)) req A)"
  have rec: "ap_ApprovalID rec = ?u" "ap_SessionID rec = sid" "ap_Status rec = ApprovalPending"
    and put: "approval_CreatePending ?u (w_Clock w (w_Reads w)) req A = (rec, gm_put ?u rec A)"
    using assms by (simp_all add: rec_def approval_CreatePending_def Let_def)
  have run: "do_approval_CreatePending req w = (Inr rec, w\<lparr>w_Drawn := Suc (w_Drawn w), w_Reads := Suc (w_Reads w),
      w_Repos := (w_Repos w)\<lparr>rp_Approvals := gm_put ?u rec A\<rparr>\<rparr>)"
    using w put by (simp add: do_approval_CreatePending_def svc_apply fit_at_def)
  have u: "?u \<noteq> []" "gm_get A ?u = None" "inj (w_Uuids w)" using w by (auto simp: fit_at_def fit_def unseen_def)
  have A: "approvals_fit (rp_Sessions (w_Repos w)) A" "rp_Approvals (w_Repos w) = A" using w by (auto simp: fit_at_def fit_def)
  have fits: "approvals_fit (rp_Sessions (w_Repos w)) (gm_put ?u rec A)"
  proof (rule fit_approval[OF A(1) rec(1)])
    fix sid2 st assume "session_Get sid2 (rp_Sessions (w_Repos w)) = Inr st" "st_PendingApprovalID st = ?u"
    then have "gm_get A ?u \<noteq> None" using A(1) u(1) unfolding approvals_fit_def pending_fits_def by force
    then show "ap_SessionID rec = sid2 \<and> ap_Status rec \<in> {ApprovalPending, ApprovalApproved}
        \<and> (st_ExecutionState st = ExecutionAwaitingApproval \<longrightarrow> ap_Status rec = ApprovalPending)" using u(2) by simp
  qed
  have new: "w_Uuids w n \<noteq> [] \<and> gm_get (gm_put ?u rec A) (w_Uuids w n) = None" if "Suc (w_Drawn w) \<le> n" for n
    using that u(3) w by (auto simp: fit_at_def fit_def unseen_def inj_eq)
  have "fit_at sid p (gm_put ?u rec A) (w\<lparr>w_Drawn := Suc (w_Drawn w), w_Reads := Suc (w_Reads w),
      w_Repos := (w_Repos w)\<lparr>rp_Approvals := gm_put ?u rec A\<rparr>\<rparr>)"
    using w fits new u(3) by (simp add: fit_at_def fit_def unseen_def records_wf_def)
  then show "case do_approval_CreatePending req w of (Inl _, w') \<Rightarrow> fit w'
      | (Inr rec, w') \<Rightarrow> fresh_request sid A rec \<and> fit_at sid p (gm_put (ap_ApprovalID rec) rec A) w'"
    using rec u by (simp add: run fresh_request_def)
qed

lemma wt_withdraw:
  assumes "fresh_request sid A rec"
  shows "wtriple (fit_at sid [] (gm_put (ap_ApprovalID rec) rec A)) (terminalizeApprovalForRollback rec reason now) (\<lambda>_. fit) fit"
proof -
  let ?k = "ap_ApprovalID rec" and ?A = "gm_put (ap_ApprovalID rec) rec A"
  have "fit w'" if w: "fit_at sid [] ?A w" and run: "do_approval_Update x w = (res, w')" and x: "ap_ApprovalID x = ?k" for w res w' x
    using run
  proof (cases rule: approval_Update_cases)
    case failed
    then show ?thesis using fit_at_reads[OF w] by simp
  next
    case (written y)
    have A: "rp_Approvals (w_Repos w) = ?A" "approvals_fit (rp_Sessions (w_Repos w)) ?A" using w by (auto simp: fit_at_def fit_def)
    have "st_PendingApprovalID st \<noteq> ?k" if st: "session_Get sid2 (rp_Sessions (w_Repos w)) = Inr st" for sid2 st
    proof
      assume k: "st_PendingApprovalID st = ?k"
      then have "sid2 = sid" using A(2) st assms unfolding approvals_fit_def pending_fits_def fresh_request_def by force
      then show False using fit_at_pending(2)[OF w] st k assms by (auto simp: fresh_request_def)
    qed
    then have "approvals_fit (rp_Sessions (w_Repos w)) (gm_put ?k y ?A)" using written x by (intro fit_approval[OF A(2)]) auto
    then show ?thesis using fit_approval_put[OF fit_at_fit[OF w], of ?k y "Suc (w_Reads w)"] written x A(1) by simp
  qed
  then have "wtriple (fit_at sid [] ?A) (do_approval_Update x) (\<lambda>_. fit) fit" if "ap_ApprovalID x = ?k" for x
    using that by (intro wtripleI) blast+
  then show ?thesis using assms by (simp add: terminalizeApprovalForRollback_def fresh_request_def)
qed

lemma wt_rollbacks_last:
  assumes "\<And>m. m \<in> set ms \<Longrightarrow> wtriple P m (\<lambda>_. P) P" and "wtriple P l (\<lambda>_. Q) Q"
  shows "wtriple P (rollbacks (ms @ [l])) (\<lambda>_. Q) Q"
  using assms
proof (induction ms)
  case Nil
  then show ?case unfolding wtriple_def by (fastforce simp: svc_apply split: prod.splits sum.splits)
next
  case (Cons m ms)
  then have m: "wtriple P m (\<lambda>_. P) P" and ms: "wtriple P (rollbacks (ms @ [l])) (\<lambda>_. Q) Q" by simp_all
  have "Q (snd (rollbacks ((m # ms) @ [l]) w))" if "P w" for w
    using wtriple_end[OF m that] wtriple_end[OF ms] by (auto split: prod.split sum.split) (metis snd_conv)+
  then show ?case by (fastforce simp: wtriple_def split: prod.splits sum.splits)
qed

lemma facts_never_fail: "\<exists>w'. persistExecutionFacts a False None None [] w = (Inr (), w')"
  by (auto simp: persistExecutionFacts_def svc_apply do_attempt_Create_def split: prod.split)

lemma wt_ask_writes:
  assumes "st_SessionID st = sid" and "rq_SessionID req = sid"
  shows "wtriple (fit_at sid [] A) (ask_writes sv b before s0 sid L st s a req) (\<lambda>_. fit) fit"
  unfolding ask_writes_def Let_def
proof (rule wt_bind[OF wt_request[OF assms(2)]], rule wt_assume)
  fix rec assume fresh: "fresh_request sid A rec"
  let ?A = "gm_put (ap_ApprovalID rec) rec A" and ?st = "awaiting st s (ap_ApprovalID rec)"
  let ?undo = "sbind nowMilli (terminalizeApprovalForRollback rec ''approval_request_persistence_failed'')"
  let ?P = "fit_at sid [] ?A" and ?Q = "fit_at sid (ap_ApprovalID rec) ?A"
  have stay: "wtriple ?P m (\<lambda>_. ?P) ?P" if "moves calm m" for m :: "'x svc"
    by (rule wt_moves[OF that]) (auto intro: fit_at_calm)
  have undo: "wtriple ?P ?undo (\<lambda>_. fit) fit" by (rule wt_bind[OF wt_calm[OF calm.mv_nowMilli]], rule wt_withdraw[OF fresh])
  then have undo1: "wtriple ?P (rollbacks [?undo]) (\<lambda>_. fit) fit" using wt_rollbacks_last[of "[]" ?P ?undo fit] by simp
  have undo2: "wtriple ?P (rollbacks [restorePlanStepState sid s0, ?undo]) (\<lambda>_. fit) fit"
    using wt_rollbacks_last[of "[restorePlanStepState sid s0]" ?P ?undo fit] undo stay[OF calm.mv_restore(1)] by simp
  have plan: "wtriple ?P (guarded b (updateLatestPlanStepInStoreWithBudgets sid s (sv_Budgets sv)) [?undo]) (\<lambda>_. ?P) fit"
    by (rule wt_guarded[OF stay[OF calm.mv_plan(1)] _ undo1]) (auto intro: fit_at_fit)
  have tk: "wtriple ?P (guarded b (updateTaskForTerminalInStore ?st) [restorePlanStepState sid s0, ?undo]) (\<lambda>_. ?P) fit"
    by (rule wt_guarded[OF stay[OF calm.mv_task] _ undo2]) (auto intro: fit_at_fit)
  have "pending_fits ?A sid ?st" using fresh by (auto simp: pending_fits_def awaiting_def fresh_request_def)
  then have "wtriple ?P (do_persistSessionUpdateAt ?st L 0) (\<lambda>_. ?Q) ?P"
    using wt_persist[of ?st sid "[]" ?A L 0] assms(1) by (simp add: awaiting_def)
  from wt_guarded[OF this _ undo2]
  have ss: "wtriple ?P (guarded b (do_persistSessionUpdateAt ?st L 0) [restorePlanStepState sid s0, ?undo]) (\<lambda>_. ?Q) fit"
    by (auto intro: fit_at_fit)
  have "wtriple ?Q (persistExecutionFacts (a\<lparr>at_ApprovalID := ap_ApprovalID rec\<rparr>) False None None []) (\<lambda>_. ?Q) (\<lambda>_. False)"
    using wt_calm[OF calm_facts(1), of sid "ap_ApprovalID rec" ?A] facts_never_fail unfolding wtriple_def by (metis (lifting) old.prod.case sum.case(2))
  from wt_guarded[OF this]
  have facts: "wtriple ?Q (guarded b (persistExecutionFacts (a\<lparr>at_ApprovalID := ap_ApprovalID rec\<rparr>) False None None []) undo) (\<lambda>_. ?Q) fit" for undo
    by (simp add: wtriple_def)
  show "wtriple ?P (sbind (guarded b (updateLatestPlanStepInStoreWithBudgets sid s (sv_Budgets sv)) [?undo]) (\<lambda>pl.
        sbind (guarded b (updateTaskForTerminalInStore ?st) [restorePlanStepState sid s0, ?undo]) (\<lambda>tk.
        sbind (guarded b (do_persistSessionUpdateAt ?st L 0) [restorePlanStepState sid s0, ?undo]) (\<lambda>st'.
        sbind (guarded b (persistExecutionFacts (a\<lparr>at_ApprovalID := ap_ApprovalID rec\<rparr>) False None None [])
                 [rollbackSessionState before st' L, restorePlanStepState sid s0, ?undo]) (\<lambda>_.
        sret (rec, pl, tk, st')))))) (\<lambda>_. fit) fit"
    by (rule wt_bind[OF plan], rule wt_bind[OF tk], rule wt_bind[OF ss], rule wt_bind[OF facts], rule wt_sret, rule fit_at_fit)
qed

lemma wt_ask:
  assumes "st_SessionID st = sid" and "harmless_app hx"
  shows "wtriple (fit_at sid [] A) (ask_step sv hx before sid L st s a d ts evs) (\<lambda>_. fit) fit"
  unfolding ask_step_def Let_def
proof (rule wt_bind[OF wt_calm[OF calm.mv_scope[OF assms(2)]]], rule wt_bind[OF wt_calm[OF calm.mv_events(1)]], rule wt_with_runner[where F = fit])
  have req: "rq_SessionID (ask_request st sid s' d scope) = sid" for s' scope by (simp add: ask_request_def)
  fix scope ev b and emit :: "audit_event list \<Rightarrow> unit svc"
  let ?s = "s\<lparr>sp_Status := StepBlocked\<rparr>"
  let ?body = "\<lambda>b emit. sbind (ask_writes sv b before s sid L st ?s
           (a\<lparr>at_Status := AttemptBlocked, at_Step := ?s, at_FinishedAt := 0\<rparr>) (ask_request st sid ?s d scope)) (\<lambda>(rec, pl, tk, st').
       sbind (emit (evs @ [with_approval ev a (ap_ApprovalID rec)])) (\<lambda>_.
         sret \<lparr>so_Session = st',
           so_Execution = \<lparr>xr_Step = s, xr_Action = zero_result, xr_Verify = zero_verify_result, xr_Policy = d, xr_PendingApproval = Some rec\<rparr>,
           so_Transitions = ts, so_Events = evs @ [with_approval ev a (ap_ApprovalID rec)], so_UpdatedPlan = pl, so_UpdatedTask = tk\<rparr>))"
  show "wtriple (fit_at sid [] A) (?body b emit) (\<lambda>_. fit) fit" if "\<And>evs. wtriple fit (emit evs) (\<lambda>_. fit) fit"
    by (rule wt_bind[OF wt_ask_writes[OF assms(1) req]], intro wt_prod, rule wt_bind[OF that], rule wt_sret)
  show "moves tame (?body b emit)" if "\<And>evs. moves tame (emit evs)"
    using that by (intro ids.mv_rules ids.mv_ask_writes) simp_all
qed (auto intro: fit_any_audits fit_at_same)

end
