(* ===== verification/Approval_Runs.thy ===== *)
theory Approval_Runs
  imports Approval_Invariant
begin

text \<open>
  The invariant on sessions and approvals along runs, answers, resumptions and lease operations, and
  the reuse of answers.
\<close>

section \<open>Runs of a step\<close>

lemma reusable_stored:
  assumes "findReusableApprovalDecision sv hx st s d w = (Inr (Some (d', rec)), w')" and "harmless_app hx"
    and "approval_wf (rp_Approvals (w_Repos w))"
  shows "gm_get (rp_Approvals (w_Repos w)) (ap_ApprovalID rec) = Some rec \<and> ap_Status rec = ApprovalApproved \<and> ap_Reply rec = ReplyAlways"
proof -
  obtain scope found w2 where "findReusableApprovalDecision sv hx st s d w = (Inr (map_option (\<lambda>rec. (reused_decision, rec)) found), w2)"
    "found = None \<or> found = List.find (reuse_test hx scope) (approval_List (st_SessionID st) (rp_Approvals (w_Repos w)))"
    by (rule reusable_run[OF assms(2)])
  with assms(1) have "List.find (reuse_test hx scope) (approval_List (st_SessionID st) (rp_Approvals (w_Repos w))) = Some rec" by auto
  then have "rec \<in> set (approval_List (st_SessionID st) (rp_Approvals (w_Repos w)))" "reuse_test hx scope rec"
    by (auto simp: find_Some_iff)
  then show ?thesis using approvals.list_get[OF assms(3)] by (auto simp: approval_Get_def mem_get_def split: option.splits)
qed

lemma wt_decide:
  assumes "active_ok sid p A active" and "harmless_app hx"
  shows "wtriple (fit_at sid p A) (decide_policy sv hx st s forced active) (\<lambda>x w. active_ok sid p A (snd x) \<and> fit_at sid p A w) fit"
proof (rule wtripleI)
  fix w x w' assume w: "fit_at sid p A w" and run: "decide_policy sv hx st s forced active w = (Inr x, w')"
  have wf: "approval_wf (rp_Approvals (w_Repos w))" "rp_Approvals (w_Repos w) = A" using w by (auto simp: fit_at_def fit_def approvals_fit_def)
  have "active_ok sid p A (snd x)"
  proof (cases "snd x = active")
    case False
    then obtain d d' rec w1 where "findReusableApprovalDecision sv hx st s d w = (Inr (Some (d', rec)), w1)" "snd x = Some rec"
      using run by (auto simp: decide_policy_def svc_apply split: option.splits sum.splits if_splits prod.splits)
    then show ?thesis using reusable_stored[OF _ assms(2) wf(1)] wf(2) by (auto simp: active_ok_def)
  qed (use assms(1) in simp)
  then show "active_ok sid p A (snd x) \<and> fit_at sid p A w'"
    using wtripleD(1)[OF wt_calm[OF calm.mv_decide_policy[OF assms(2)]] w run] by blast
qed (use wtripleD(2)[OF wt_calm[OF calm.mv_decide_policy[OF assms(2)]]] in blast)

lemma wt_run_decided:
  assumes "harmless_app hx" and "st_SessionID st = sid" "st_PendingApprovalID st = p" and "forced = None \<Longrightarrow> p = []" and "active_ok sid p A (snd x)"
  shows "wtriple (fit_at sid p A) (run_decided sv hx before sid L st s a reuse now forced ts evs x) (\<lambda>_. fit) fit"
proof (cases x)
  case (Pair d active)
  with assms(5) have act: "active_ok sid p A active" by simp
  have ask: "wtriple (fit_at sid p A) (ask_step sv hx before sid L st s a d ts evs) (\<lambda>_. fit) fit" if "forced = None"
    using wt_ask[OF assms(2,1)] assms(4)[OF that] by simp
  show ?thesis unfolding Pair run_decided_def Let_def prod.case
    by (rule wt_if, use ask in simp, rule wt_bind[OF wt_calm[OF calm.mv_events(1)]], rule wt_if,
        rule wt_deny[OF assms(2,3)], rule wt_execute[OF act assms(1)])
qed

lemma advance_keeps_pending: "st_PendingApprovalID (fst (advance_state stepID st)) = st_PendingApprovalID st"
proof (induction stepID st rule: advance_state.induct)
  case (1 stepID st)
  then show ?case by (subst advance_state.simps) (auto simp: Let_def case_prod_beta ApplyTransition_def)
qed

lemma run_guards_pending:
  "run_guards sv hx st s active now = Inr u \<Longrightarrow> st_PendingApprovalID st = [] \<or> (\<exists>ap. active = Some ap \<and> st_PendingApprovalID st = ap_ApprovalID ap)"
  by (auto simp: run_guards_def split: if_splits option.splits)

text \<open>What a run needs of the approval it is given: stored, approved and the one the session waits for.\<close>

definition given :: "string \<Rightarrow> approval option \<Rightarrow> world \<Rightarrow> bool" where
  "given sid active w \<longleftrightarrow> (case active of None \<Rightarrow> True
     | Some ap \<Rightarrow> gm_get (rp_Approvals (w_Repos w)) (ap_ApprovalID ap) = Some ap \<and> ap_Status ap = ApprovalApproved
         \<and> ap_ApprovalID ap \<noteq> [] \<and> (\<exists>c. session_Get sid (rp_Sessions (w_Repos w)) = Inr c \<and> st_PendingApprovalID c = ap_ApprovalID ap))"

lemma given_active:
  assumes "fit_at sid p A w" and "given sid active w"
  shows "active_ok sid p A active"
proof (cases active)
  case (Some ap)
  with assms(2) obtain c where c: "session_Get sid (rp_Sessions (w_Repos w)) = Inr c" "st_PendingApprovalID c = ap_ApprovalID ap"
    and ap: "gm_get (rp_Approvals (w_Repos w)) (ap_ApprovalID ap) = Some ap" "ap_Status ap = ApprovalApproved" "ap_ApprovalID ap \<noteq> []"
    by (auto simp: given_def)
  have A: "rp_Approvals (w_Repos w) = A" using assms(1) by (simp add: fit_at_def)
  have "p = ap_ApprovalID ap" "pending_fits A sid c" using fit_at_pending[OF assms(1) c(1)] c(2) by auto
  then show ?thesis using ap c(2) A Some by (auto simp: active_ok_def pending_fits_def)
qed (simp add: active_ok_def)

lemma wt_fix: "(\<And>v. wtriple (\<lambda>w. f w = v \<and> P w) m Q E) \<Longrightarrow> wtriple P m Q E"
  by (simp add: wtriple_def)

lemma wt_run:
  assumes app: "harmless_app hx" and forced: "forced = None \<Longrightarrow> active = None"
  shows "wtriple (\<lambda>w. fit w \<and> given sid active w) (runStepWithDecision sv hx sid L s forced active) (\<lambda>_. fit) fit"
proof -
  have "wtriple (\<lambda>w. rp_Approvals (w_Repos w) = A \<and> fit w \<and> given sid active w) (runStepWithDecision sv hx sid L s forced active) (\<lambda>_. fit) fit" for A
    unfolding runStepWithDecision_def Let_def
  proof (rule wt_bind)
    let ?P = "\<lambda>w. rp_Approvals (w_Repos w) = A \<and> fit w \<and> given sid active w"
    show "wtriple ?P (ensureSessionLease sv sid L)
      (\<lambda>st w. (st_SessionID st = sid \<and> active_ok sid (st_PendingApprovalID st) A active) \<and> fit_at sid (st_PendingApprovalID st) A w) fit"
    proof (rule wtripleI)
      fix w st w' assume w: "?P w" and run: "ensureSessionLease sv sid L w = (Inr st, w')"
      from ensureSessionLease_Inr[OF run] w have at: "fit_at sid (st_PendingApprovalID st) A w" by (simp add: fit_at_def)
      then show "(st_SessionID st = sid \<and> active_ok sid (st_PendingApprovalID st) A active) \<and> fit_at sid (st_PendingApprovalID st) A w'"
        using given_active[OF at] w fit_at_pending(1)[OF at ensureSessionLease_Inr[OF run]]
          wtripleD(1)[OF wt_calm[OF calm.mv_ensureSessionLease] at run] by blast
    next
      fix w e w' assume "?P w" and "ensureSessionLease sv sid L w = (Inl e, w')"
      then show "fit w'" using calm.mv_ensureSessionLease[of sv sid L] fit_calm unfolding moves_def by (metis snd_conv)
    qed
  next
    fix before
    let ?p = "st_PendingApprovalID before" and ?s = "annotateStepFromSession before s"
    have decided: "wtriple (fit_at sid ?p A) (sbind (decide_policy sv hx st s3 forced active)
        (run_decided sv hx before sid L st s3 a reuse now forced ts evs)) (\<lambda>_. fit) fit"
      if b: "st_SessionID before = sid" "active_ok sid ?p A active"
        and g: "forced = None \<Longrightarrow> ?p = []" and adv: "advance_state (sp_StepID s3) (setSessionPlanRef before ?s) = (st, ts)"
      for st s3 a reuse now ts evs
    proof (rule wt_bind[OF wt_decide[OF b(2) app]], rule wt_assume, rule wt_run_decided[OF app])
      show "st_SessionID st = sid" using advance_keeps_id[of "sp_StepID s3" "setSessionPlanRef before ?s"] adv b(1) by simp
      show "st_PendingApprovalID st = ?p"
        using advance_keeps_pending[of "sp_StepID s3" "setSessionPlanRef before ?s"] adv by (simp add: setSessionPlanRef_def)
    qed (use g in auto)
    have guard: "wtriple (fit_at sid ?p A) (slift (run_guards sv hx before s active now)) (\<lambda>_ w. (forced = None \<longrightarrow> ?p = []) \<and> fit_at sid ?p A w) fit" for now
    proof (rule wt_slift)
      fix u w assume "run_guards sv hx before s active now = Inr u" and "fit_at sid ?p A w"
      then show "(forced = None \<longrightarrow> ?p = []) \<and> fit_at sid ?p A w" using run_guards_pending[of sv hx before s active now u] forced by auto
    qed (rule fit_at_fit)
    show "wtriple (\<lambda>w. (st_SessionID before = sid \<and> active_ok sid ?p A active) \<and> fit_at sid ?p A w)
      (sbind nowMilli (\<lambda>now. sbind (slift (run_guards sv hx before s active now)) (\<lambda>_.
        sbind (resolveProgramBindings sv (hx_Json hx) (hx_Materializer hx) sid ?s) (\<lambda>s. sbind (start_attempt sv sid (setSessionPlanRef before ?s) s active now) (\<lambda>(a, reuse, s).
        case advance_state (sp_StepID s) (setSessionPlanRef before ?s) of (st, transitions) \<Rightarrow>
        sbind (advance_events st a transitions) (\<lambda>events. sbind (decide_policy sv hx st s forced active)
          (run_decided sv hx before sid L st s a reuse now forced transitions events))))))) (\<lambda>_. fit) fit"
      by (rule wt_assume, elim conjE, rule wt_bind[OF wt_calm[OF calm.mv_nowMilli]], rule wt_bind[OF guard], rule wt_assume,
          rule wt_bind[OF wt_calm[OF calm.mv_resolveProgramBindings]], rule wt_bind[OF wt_calm[OF calm.mv_start_attempt]],
          intro wt_prod, rule wt_bind[OF wt_calm[OF calm.mv_events(3)]], rule decided) auto
  qed
  then show ?thesis by (rule wt_fix)
qed

section \<open>Resumptions\<close>

lemma wt_lease:
  "wtriple fit (ensureSessionLease sv sid L) (\<lambda>st w. session_Get sid (rp_Sessions (w_Repos w)) = Inr st \<and> fit w) fit"
proof (rule wtripleI)
  fix w st w' assume w: "fit w" and run: "ensureSessionLease sv sid L w = (Inr st, w')"
  have "calm w w'" using calm.mv_ensureSessionLease[of sv sid L] run unfolding moves_def by (metis snd_conv)
  then show "session_Get sid (rp_Sessions (w_Repos w')) = Inr st \<and> fit w'"
    using ensureSessionLease_Inr[OF run] fit_calm[OF w] by (simp add: calm_def)
next
  fix w e w' assume "fit w" "ensureSessionLease sv sid L w = (Inl e, w')"
  then show "fit w'" using calm.mv_ensureSessionLease[of sv sid L] fit_calm unfolding moves_def by (metis snd_conv)
qed

lemma getApprovalRecord_Inr:
  "getApprovalRecord sv aid w = (Inr rec, w') \<Longrightarrow> gm_get (rp_Approvals (w_Repos w)) aid = Some rec"
  unfolding getApprovalRecord_def readRepositories_def Within_def approval_Get_def mem_get_def
  by (auto split: runner.splits option.splits sum.splits)

lemma wt_getApproval:
  assumes "\<And>w w'. P w \<Longrightarrow> calm w w' \<Longrightarrow> P w'" and "\<And>w. P w \<Longrightarrow> fit w"
  shows "wtriple P (getApprovalRecord sv aid) (\<lambda>rec w. (gm_get (rp_Approvals (w_Repos w)) aid = Some rec \<and> ap_ApprovalID rec = aid) \<and> P w) fit"
proof (rule wtripleI)
  fix w rec w' assume w: "P w" and run: "getApprovalRecord sv aid w = (Inr rec, w')"
  have c: "calm w w'" using calm.mv_getters(2)[of sv aid] run unfolding moves_def by (metis snd_conv)
  have "ap_ApprovalID rec = aid"
    using keyed_get[of ap_ApprovalID, OF _ getApprovalRecord_Inr[OF run]] assms(2)[OF w] by (simp add: fit_def approvals_fit_def)
  then show "(gm_get (rp_Approvals (w_Repos w')) aid = Some rec \<and> ap_ApprovalID rec = aid) \<and> P w'"
    using getApprovalRecord_Inr[OF run] assms(1)[OF w c] c by (simp add: calm_def)
next
  fix w e w' assume "P w" "getApprovalRecord sv aid w = (Inl e, w')"
  then show "fit w'" using calm.mv_getters(2)[of sv aid] assms fit_calm unfolding moves_def by (metis snd_conv)
qed

lemma wt_resume:
  assumes "harmless_app hx"
  shows "wtriple fit (resumePendingApprovalWithLease sv hx sid L) (\<lambda>_. fit) fit"
  unfolding resumePendingApprovalWithLease_def
proof (rule wt_bind[OF wt_lease], rule wt_if)
  fix st
  let ?P = "\<lambda>w. session_Get sid (rp_Sessions (w_Repos w)) = Inr st \<and> fit w"
  assume pending: "st_PendingApprovalID st \<noteq> []"
  have get: "wtriple ?P (getApprovalRecord sv (st_PendingApprovalID st))
      (\<lambda>rec w. (gm_get (rp_Approvals (w_Repos w)) (st_PendingApprovalID st) = Some rec \<and> ap_ApprovalID rec = st_PendingApprovalID st) \<and> ?P w) fit"
    by (rule wt_getApproval) (use fit_calm in \<open>auto simp: calm_def\<close>)
  have run: "wtriple (\<lambda>w. (gm_get (rp_Approvals (w_Repos w)) (st_PendingApprovalID st) = Some rec \<and> ap_ApprovalID rec = st_PendingApprovalID st) \<and> ?P w)
      (runStepWithDecision sv hx sid L (ap_Step rec) (Some d) (Some rec)) (\<lambda>_. fit) fit" if "ap_Status rec = ApprovalApproved" for rec d
    by (rule wt_weaken[OF wt_run[OF assms, of "Some d" "Some rec" sid sv L "ap_Step rec"]]) (use that pending in \<open>auto simp: given_def\<close>)
  show "wtriple ?P (sbind (getApprovalRecord sv (st_PendingApprovalID st)) (\<lambda>rec.
         if ap_Status rec \<noteq> ApprovalApproved then sfail ErrApprovalNotResolved
         else case hx_ResumePolicy hx rec (ap_Step rec) of
           None \<Rightarrow> sfail ErrApprovalNotResolved
         | Some d \<Rightarrow> runStepWithDecision sv hx sid L (ap_Step rec) (Some d) (Some rec))) (\<lambda>_. fit) fit"
    by (rule wt_bind[OF get]) (auto intro!: wt_sfail run[unfolded conj_assoc] split: option.split)
qed (auto intro: wt_sfail)

section \<open>Answers\<close>

text \<open>On well-formed stores the writes of a rejection cannot fail.\<close>

lemma blocked_attempt_stored:
  assumes "keyed at_AttemptID m" and "findLatestBlockedAttemptInStore m sid aid = Some a"
  shows "gm_get m (at_AttemptID a) \<noteq> None"
proof -
  have "a \<in> set (attempt_List sid m)" using assms(2)
    by (auto simp: findLatestBlockedAttemptInStore_def find_Some_iff split: if_splits) (metis length_rev nth_mem set_rev)
  then show ?thesis using attempts.list_get[OF assms(1)] by (auto simp: attempt_Get_def split: option.splits)
qed

lemma finalize_blocked_ok:
  assumes "records_wf (w_Repos w)"
  shows "\<exists>w'. finalizeBlockedAttemptInStore sid aid status s reply now w = (Inr (), w')"
  using assms blocked_attempt_stored[of "rp_Attempts (w_Repos w)" sid aid]
  by (auto simp: records_wf_def finalizeBlockedAttemptInStore_def svc_apply do_attempt_Update_def attempt_Update_def split: option.split)

lemma plan_for_step_stored:
  assumes "plan_wf m" and "planForStepInStore (Some m) sid s = Some p"
  shows "gm_get m (pl_PlanID p) \<noteq> None"
proof -
  have latest: "gm_get m (pl_PlanID q) \<noteq> None" if "plan_LatestBySession sid m = Some q" for q
    using LatestBySession_Some(1)[OF that] plan_ListBySession_iff[OF assms(1)] by auto
  have got: "gm_get m (pl_PlanID q) \<noteq> None" if "plan_Get k m = Inr q" for k q
    using that keyed_get[OF assms(1)] by (fastforce simp: plan_Get_def mem_get_def split: option.splits)
  show ?thesis using assms(2) latest got
    by (auto simp: planForStepInStore_def annotatePlanIdentity_def split: sum.splits if_splits)
qed

lemma plan_step_ok:
  assumes "records_wf (w_Repos w)"
  shows "\<exists>x w'. updateLatestPlanStepInStore sid s w = (Inr x, w')"
proof (cases "planForStepInStore (Some (rp_Plans (w_Repos w))) sid s")
  case (Some p)
  have "gm_get (rp_Plans (w_Repos w)) (pl_PlanID p) \<noteq> None"
    using plan_for_step_stored[OF _ Some] assms by (simp add: records_wf_def)
  then show ?thesis using Some
    by (auto simp: updateLatestPlanStepInStore_def updateLatestPlanStepInStoreWithBudgets_def svc_apply do_plan_Update_def plan_Update_def
        plan_with_step_def Let_def split: option.split)
qed (simp add: updateLatestPlanStepInStore_def updateLatestPlanStepInStoreWithBudgets_def svc_apply)

lemma terminal_task_ok:
  assumes "records_wf (w_Repos w)" and "st_TaskID st \<noteq> [] \<Longrightarrow> gm_get (rp_Tasks (w_Repos w)) (st_TaskID st) \<noteq> None"
  shows "\<exists>x w'. updateTaskForTerminalInStore st w = (Inr x, w')"
proof (cases "st_TaskID st = []")
  case False
  then obtain rec where rec: "gm_get (rp_Tasks (w_Repos w)) (st_TaskID st) = Some rec" using assms(2) by auto
  then have "tk_TaskID rec = st_TaskID st" using keyed_get[of tk_TaskID] assms(1) by (auto simp: records_wf_def)
  with rec False show ?thesis
    by (auto simp: updateTaskForTerminalInStore_def svc_apply do_task_Get_def task_Get_def do_task_Update_def task_Update_def Let_def
        mem_get_def split: option.split)
qed (simp add: updateTaskForTerminalInStore_def svc_apply)

text \<open>
  The state between the write of the approval and that of the session: the sessions are still the
  old ones, the answered approval is in the store.
\<close>

definition answering :: "session_map \<Rightarrow> approval_map \<Rightarrow> approval \<Rightarrow> string \<Rightarrow> world \<Rightarrow> bool" where
  "answering S A rec tid w \<longleftrightarrow> rp_Sessions (w_Repos w) = S \<and> records_wf (w_Repos w) \<and> unseen w
     \<and> (tid \<noteq> [] \<longrightarrow> gm_get (rp_Tasks (w_Repos w)) tid \<noteq> None)
     \<and> (\<exists>x. rp_Approvals (w_Repos w) = gm_put (ap_ApprovalID rec) x A \<and> ap_ApprovalID x = ap_ApprovalID rec
          \<and> ap_SessionID x = ap_SessionID rec \<and> ap_Status x = ap_Status rec)"

lemma answering_calm: "answering S A rec tid w \<Longrightarrow> calm w w' \<Longrightarrow> answering S A rec tid w'"
  by (auto simp: answering_def calm_def unseen_def tame_def)

lemma wt_answering:
  assumes "moves calm m" and "\<And>w. answering S A rec tid w \<Longrightarrow> \<exists>x w'. m w = (Inr x, w')"
  shows "wtriple (answering S A rec tid) (guarded b m undo) (\<lambda>_. answering S A rec tid) fit"
proof -
  have "wtriple (answering S A rec tid) m (\<lambda>_. answering S A rec tid) (answering S A rec tid)"
    by (rule wt_moves[OF assms(1)]) (auto intro: answering_calm)
  then have "wtriple (answering S A rec tid) m (\<lambda>_. answering S A rec tid) (\<lambda>_. False)"
    using assms(2) unfolding wtriple_def by (metis (lifting) old.prod.case sum.case(2))
  from wt_guarded[OF this, of fit undo b] show ?thesis by (simp add: wtriple_def)
qed

lemma wt_answer_approval:
  assumes "gm_get A (ap_ApprovalID rec') = Some rec" and "ap_Version rec' = ap_Version rec + 1" and "ap_SessionID rec' = ap_SessionID rec"
  shows "wtriple (\<lambda>w. rp_Sessions (w_Repos w) = S \<and> rp_Approvals (w_Repos w) = A \<and> fit w
      \<and> (tid \<noteq> [] \<longrightarrow> gm_get (rp_Tasks (w_Repos w)) tid \<noteq> None))
    (do_approval_Update rec') (\<lambda>_. answering S A rec' tid) fit"
proof (unfold wtriple_def, intro allI impI)
  fix w assume w: "rp_Sessions (w_Repos w) = S \<and> rp_Approvals (w_Repos w) = A \<and> fit w
      \<and> (tid \<noteq> [] \<longrightarrow> gm_get (rp_Tasks (w_Repos w)) tid \<noteq> None)"
  obtain res w' where run: "do_approval_Update rec' w = (res, w')" by fastforce
  then have ok: "res \<noteq> Inl e" for e
    using w assms by (auto simp: do_approval_Update_def svc_apply approval_Update_def Let_def)
  from run show "case do_approval_Update rec' w of (Inl _, w') \<Rightarrow> fit w' | (Inr _, w') \<Rightarrow> answering S A rec' tid w'"
  proof (cases rule: approval_Update_cases)
    case (written x)
    then show ?thesis using w run assms(1) by (auto simp: answering_def fit_def records_wf_def unseen_def)
  qed (use ok in auto)
qed

lemma wt_answer_session:
  assumes fits: "approvals_fit S A" and rec: "gm_get A (ap_ApprovalID rec') = Some rec" "ap_SessionID rec = sid" "ap_SessionID rec' = sid"
    and st: "session_Get sid S = Inr st" and st': "st_SessionID st' = sid" "st_Version st' = st_Version st + 1" "st_ExecutionState st' = ExecutionIdle"
    and pending: "st_PendingApprovalID st' = [] \<or> st_PendingApprovalID st' = ap_ApprovalID rec' \<and> ap_Status rec' = ApprovalApproved"
  shows "wtriple (answering S A rec' tid) (guarded b (do_session_Update st') undo) (\<lambda>_. fit) fit"
proof -
  have "\<exists>w'. do_session_Update st' w = (Inr (), w') \<and> fit w'" if w: "answering S A rec' tid w" for w
  proof -
    let ?k = "ap_ApprovalID rec'"
    from w obtain x where x: "rp_Approvals (w_Repos w) = gm_put ?k x A" "ap_ApprovalID x = ?k" "ap_SessionID x = sid" "ap_Status x = ap_Status rec'"
      using rec(3) by (auto simp: answering_def)
    obtain S' where S': "session_Update (w_Clock w (w_Reads w)) st' S = Inr S'"
      using sess.update_fresh[of st' S st] st st' by auto
    have "approvals_fit S' (gm_put ?k x A)"
    proof (rule fit_sessions[OF fits S'])
      show "pending_fits (gm_put ?k x A) (st_SessionID st') st'" using pending x st' by (auto simp: pending_fits_def)
      show "approval_wf (gm_put ?k x A)" using fits x(2) by (simp add: approvals_fit_def keyed_put)
      show "pending_fits (gm_put ?k x A) k s" if "k \<noteq> st_SessionID st'" "pending_fits A k s" for k s
        using that rec st'(1) by (auto simp: pending_fits_def)
    qed
    then show ?thesis using do_session_Update_run[of w st' S'] S' w x(1) by (auto simp: answering_def fit_def records_wf_def unseen_def)
  qed
  then have "wtriple (answering S A rec' tid) (do_session_Update st') (\<lambda>_. fit) (\<lambda>_. False)"
    unfolding wtriple_def by (metis (lifting) old.prod.case sum.case(2))
  from wt_guarded[OF this, of fit undo b] show ?thesis by (simp add: wtriple_def)
qed

lemma wt_answer_writes:
  assumes fits: "approvals_fit S A" and rec: "gm_get A (ap_ApprovalID rec) = Some rec" and st: "session_Get (ap_SessionID rec) S = Inr st"
    and pending: "st_PendingApprovalID st = ap_ApprovalID rec" and reply: "ValidReply (rs_Reply response)"
  shows "wtriple (\<lambda>w. rp_Sessions (w_Repos w) = S \<and> rp_Approvals (w_Repos w) = A \<and> fit w
      \<and> ((if rs_Reply response = ReplyReject then st_TaskID st else []) \<noteq> [] \<longrightarrow>
          gm_get (rp_Tasks (w_Repos w)) (if rs_Reply response = ReplyReject then st_TaskID st else []) \<noteq> None))
    (answer_writes b rec st (answered rec response now) (answered_step rec (rs_Reply response) now) (answered_session st rec (rs_Reply response)) oa ot now)
    (\<lambda>_. fit) fit"
proof -
  let ?rec = "answered rec response now" and ?st = "answered_session st rec (rs_Reply response)" and ?sid = "ap_SessionID rec"
  let ?tid = "if rs_Reply response = ReplyReject then st_TaskID st else []"
  let ?M = "answering S A ?rec ?tid"
  have id: "st_SessionID st = ?sid" using session_Get_id[OF _ st] fits by (simp add: approvals_fit_def)
  have rec': "ap_ApprovalID ?rec = ap_ApprovalID rec" "ap_SessionID ?rec = ?sid" "ap_Version ?rec = ap_Version rec + 1" "ap_Reply ?rec = rs_Reply response"
    "ap_Status ?rec = (if rs_Reply response = ReplyReject then ApprovalRejected else ApprovalApproved)" by (simp_all add: answered_def)
  have st': "st_SessionID ?st = ?sid" "st_Version ?st = st_Version st + 1" "st_ExecutionState ?st = ExecutionIdle" "st_TaskID ?st = st_TaskID st"
    "st_PendingApprovalID ?st = (if rs_Reply response = ReplyReject then [] else st_PendingApprovalID st)"
    using id by (auto simp: answered_session_def Let_def ApplyTransition_def)
  note first = wt_answer_approval[of A ?rec rec S ?tid]
  have last: "wtriple ?M (guarded b (do_session_Update ?st) undo) (\<lambda>_. fit) fit" for undo
    by (rule wt_answer_session[OF fits _ _ _ st st'(1-3)]) (use rec rec' st' pending in auto)
  have mid1: "wtriple ?M (guarded b (finalizeBlockedAttemptInStore sid aid status s rep now) undo) (\<lambda>_. ?M) fit" for sid aid status s rep undo
    by (rule wt_answering[OF calm.mv_finalize_blocked]) (use finalize_blocked_ok in \<open>auto simp: answering_def\<close>)
  have mid2: "wtriple ?M (guarded b (sbind (updateLatestPlanStepInStore sid s) (\<lambda>_. sret ())) undo) (\<lambda>_. ?M) fit" for sid s undo
  proof (rule wt_answering)
    fix w assume "?M w"
    then obtain x w' where "updateLatestPlanStepInStore sid s w = (Inr x, w')" using plan_step_ok unfolding answering_def by blast
    then show "\<exists>x w'. sbind (updateLatestPlanStepInStore sid s) (\<lambda>_. sret ()) w = (Inr x, w')" by (simp add: svc_apply)
  qed (intro calm.mv_rules calm.mv_plan)
  have mid3: "wtriple ?M (guarded b (sbind (updateTaskForTerminalInStore ?st) (\<lambda>_. sret ())) undo) (\<lambda>_. ?M) fit" if "rs_Reply response = ReplyReject" for undo
  proof (rule wt_answering)
    fix w assume "?M w"
    then have "records_wf (w_Repos w)" "st_TaskID ?st \<noteq> [] \<Longrightarrow> gm_get (rp_Tasks (w_Repos w)) (st_TaskID ?st) \<noteq> None"
      unfolding answering_def if_P[OF that] st'(4) by simp_all
    then obtain x w' where "updateTaskForTerminalInStore ?st w = (Inr x, w')" using terminal_task_ok by blast
    then show "\<exists>x w'. sbind (updateTaskForTerminalInStore ?st) (\<lambda>_. sret ()) w = (Inr x, w')" by (simp add: svc_apply)
  qed (intro calm.mv_rules calm.mv_task)
  show ?thesis unfolding answer_writes_def Let_def rec'(4)
    by (rule wt_bind[OF first], simp_all only: rec rec', rule wt_bind, rule wt_if, rule mid1, rule wt_sret, assumption,
        rule wt_bind, rule wt_if, rule mid2, rule wt_sret, assumption,
        rule wt_bind, rule wt_if, rule mid3, assumption, rule wt_sret, assumption, rule last)
qed

lemma wt_use: "(\<And>w. P w \<Longrightarrow> c) \<Longrightarrow> (c \<Longrightarrow> wtriple P m Q E) \<Longrightarrow> wtriple P m Q E"
  by (auto simp: wtriple_def)

lemma ids_RespondApproval_body:
  "(\<And>evs. moves tame (emit evs)) \<Longrightarrow> moves tame (sbind (answer_writes b rec st rec' s st' oa ot now) (\<lambda>_. emit events))"
  by (intro ids.mv_bind ids.mv_answer_writes) simp

abbreviation holding :: "session_map \<Rightarrow> approval_map \<Rightarrow> world \<Rightarrow> bool" where
  "holding S A w \<equiv> rp_Sessions (w_Repos w) = S \<and> rp_Approvals (w_Repos w) = A \<and> fit w"

lemma holding_calm: "holding S A w \<Longrightarrow> calm w w' \<Longrightarrow> holding S A w'"
  using fit_calm by (auto simp: calm_def)

lemma wt_holding: "moves calm m \<Longrightarrow> wtriple (holding S A) m (\<lambda>_. holding S A) fit"
  by (rule wt_moves[OF _ holding_calm]) auto

lemma wt_holding_session:
  "wtriple (holding S A) (getSessionRecord sv sid) (\<lambda>st w. session_Get sid S = Inr st \<and> holding S A w) fit"
proof (rule wtripleI)
  fix w st w' assume w: "holding S A w" and run: "getSessionRecord sv sid w = (Inr st, w')"
  show "session_Get sid S = Inr st \<and> holding S A w'"
    using wtripleD(1)[OF wt_holding[OF calm.mv_getters(1)] w run] getSessionRecord_Inr[OF run] w by simp
qed (use wtripleD(2)[OF wt_holding[OF calm.mv_getters(1)]] in blast)

lemma wt_holding_approval:
  "wtriple (holding S A) (getApprovalRecord sv aid) (\<lambda>rec w. (gm_get A aid = Some rec \<and> ap_ApprovalID rec = aid) \<and> holding S A w) fit"
  by (rule wt_weaken, rule wt_getApproval[of "holding S A"], erule (1) holding_calm) (simp_all, metis)

text \<open>What an accepted answer does after its checks.\<close>

lemma wt_answer:
  assumes rec: "gm_get A (ap_ApprovalID rec) = Some rec" and st: "session_Get (ap_SessionID rec) S = Inr st" "st_PendingApprovalID st = ap_ApprovalID rec"
    and reply: "ValidReply (rs_Reply response)"
  shows "wtriple (holding S A) (sbind nowMilli (\<lambda>now.
         sbind (if rs_Reply response = ReplyReject then sread (\<lambda>r. findLatestBlockedAttemptInStore (rp_Attempts r) (ap_SessionID rec) (ap_ApprovalID rec)) else sret None) (\<lambda>oa.
         sbind (if rs_Reply response = ReplyReject \<and> st_TaskID st \<noteq> [] then sbind (do_task_Get (st_TaskID st)) (\<lambda>t. sret (Some t)) else sret None) (\<lambda>ot.
         sbind (answer_events rec st response now) (\<lambda>events.
         sbind (with_runner sv (\<lambda>hasSink emit.
             sbind (answer_writes hasSink rec st (answered rec response now) (answered_step rec (rs_Reply response) now)
               (answered_session st rec (rs_Reply response)) oa ot now)
               (\<lambda>_. emit events))) (\<lambda>_. sret (answered rec response now, answered_session st rec (rs_Reply response)))))))) (\<lambda>_. fit) fit"
proof -
  let ?tid = "if rs_Reply response = ReplyReject then st_TaskID st else []"
  let ?T = "\<lambda>w. rp_Sessions (w_Repos w) = S \<and> rp_Approvals (w_Repos w) = A \<and> fit w \<and> (?tid \<noteq> [] \<longrightarrow> gm_get (rp_Tasks (w_Repos w)) ?tid \<noteq> None)"
  have task: "wtriple (holding S A) (if rs_Reply response = ReplyReject \<and> st_TaskID st \<noteq> [] then sbind (do_task_Get (st_TaskID st)) (\<lambda>t. sret (Some t)) else sret None) (\<lambda>_. ?T) fit"
    by (auto simp: wtriple_def svc_apply do_task_Get_def task_Get_def mem_get_def split: option.splits)
  have events: "wtriple ?T (answer_events rec st response now) (\<lambda>_. ?T) fit" for now
    by (rule wt_moves[OF calm.mv_events(5)]) (use fit_calm in \<open>auto simp: calm_def\<close>)
  have fits: "approvals_fit S A" if "?T w" for w using that by (auto simp: fit_def)
  have writes: "wtriple ?T (sbind (answer_writes b rec st (answered rec response now) (answered_step rec (rs_Reply response) now)
      (answered_session st rec (rs_Reply response)) oa ot now) (\<lambda>_. emit events)) (\<lambda>_. fit) fit"
    if "\<And>evs. wtriple fit (emit evs) (\<lambda>_. fit) fit" for b emit events now oa ot
    by (rule wt_use[OF fits], assumption, rule wt_bind[OF wt_answer_writes[OF _ rec st reply]], assumption, rule that)
  have "wtriple ?T (with_runner sv (\<lambda>b emit. sbind (answer_writes b rec st (answered rec response now) (answered_step rec (rs_Reply response) now)
      (answered_session st rec (rs_Reply response)) oa ot now) (\<lambda>_. emit events))) (\<lambda>_. fit) fit" for events now oa ot
    by (rule wt_with_runner[where F = fit], erule writes) (auto intro: fit_any_audits ids_RespondApproval_body fit_same)
  then show ?thesis
    by (rule_tac wt_bind[OF wt_holding[OF calm.mv_nowMilli]], rule_tac wt_bind[OF wt_holding[OF calm.mv_if[OF calm.mv_sread calm.mv_sret]]],
        rule_tac wt_bind[OF task], rule_tac wt_bind[OF events], rule_tac wt_bind, assumption, rule_tac wt_sret)
qed

lemma wt_respond: "wtriple fit (RespondApproval sv aid response) (\<lambda>_. fit) fit"
proof (rule wt_fix[where f = "\<lambda>w. (rp_Sessions (w_Repos w), rp_Approvals (w_Repos w))"])
  fix v :: "session_map \<times> approval_map"
  obtain S A where v: "v = (S, A)" by fastforce
  show "wtriple (\<lambda>w. (rp_Sessions (w_Repos w), rp_Approvals (w_Repos w)) = v \<and> fit w) (RespondApproval sv aid response) (\<lambda>_. fit) fit"
    unfolding RespondApproval_def v prod.inject conj_assoc Let_def
    by (rule wt_bind[OF wt_holding_approval], rule wt_assume, rule wt_bind[OF wt_holding_session], rule wt_assume, rule wt_if, rule wt_sfail, simp,
        rule wt_if, rule wt_sfail, simp, rule wt_answer) auto
qed

section \<open>Leases\<close>

interpretation approval_leases: lease_blind "\<lambda>r. approvals_fit (rp_Sessions r) (rp_Approvals r) \<and> records_wf r \<and> rp_Approvals r = A" for A
proof (unfold_locales, simp add: audit_blind_def records_wf_def)
  fix r :: repos and k c0 c
  assume ok: "approvals_fit (rp_Sessions r) (rp_Approvals r) \<and> records_wf r \<and> rp_Approvals r = A"
    and c0: "gm_get (rp_Sessions r) k = Some c0" and c: "leased_as c0 c"
  have "session_wf (gm_put k c (rp_Sessions r))"
    using ok c keyed_get[OF _ c0, of st_SessionID] by (auto simp: approvals_fit_def leased_as_def keyed_put)
  moreover have "pending_fits A sid st" if st: "session_Get sid (gm_put k c (rp_Sessions r)) = Inr st" for sid st
  proof -
    have "\<exists>st0. session_Get sid (rp_Sessions r) = Inr st0 \<and> st_PendingApprovalID st = st_PendingApprovalID st0 \<and> st_ExecutionState st = st_ExecutionState st0"
      using st c0 c by (auto simp: leased_as_def session_Get_def mem_get_def split: if_splits option.splits)
    then show ?thesis using ok unfolding approvals_fit_def pending_fits_def by metis
  qed
  ultimately show "approvals_fit (rp_Sessions (r\<lparr>rp_Sessions := gm_put k c (rp_Sessions r)\<rparr>)) (rp_Approvals (r\<lparr>rp_Sessions := gm_put k c (rp_Sessions r)\<rparr>))
      \<and> records_wf (r\<lparr>rp_Sessions := gm_put k c (rp_Sessions r)\<rparr>) \<and> rp_Approvals (r\<lparr>rp_Sessions := gm_put k c (rp_Sessions r)\<rparr>) = A"
    using ok by (auto simp: approvals_fit_def records_wf_def)
qed (simp add: approvals_fit_def)

lemma ids_leases:
  "moves tame (claimSession sv mode ttl)" "moves tame (RenewSessionLease sv sid L ttl)" "moves tame (ReleaseSessionLease sv sid L)"
  unfolding claimSession_def RenewSessionLease_def ReleaseSessionLease_def Let_def newAuditEventAt_def
  by (intro ids.mv_rules ids.mv_with_runner ids.mv_sexec; simp add: tame_def)+

lemma fit_lease:
  assumes "fit w" and "moves tame m"
    and "\<And>A. keeps (\<lambda>r. approvals_fit (rp_Sessions r) (rp_Approvals r) \<and> records_wf r \<and> rp_Approvals r = A) m"
  shows "fit (snd (m w))"
proof -
  have "tame w (snd (m w))" using assms(2) by (simp add: moves_def)
  then show ?thesis using keeps_run[OF assms(3)[of "rp_Approvals (w_Repos w)"], of w] assms(1)
    by (auto simp: fit_def unseen_def tame_def)
qed

end
