(* ===== verification/Abort.thy ===== *)
theory Abort
  imports Approval_Runs
begin

text \<open>
  Aborting a session: \<^verbatim>\<open>pkg/harness/runtime\<close> abort.go. What the session waits for is ended (a pending
  approval, else a blocked runtime, else the active step), then the task, the session's runtime handles
  and the session itself. With a runner all this is one unit of work; without one, what was there
  before is read first and restored after a failure.
\<close>

section \<open>Requests and answers\<close>

record abort_request =
  aq_Code :: string
  aq_Reason :: string
  aq_Metadata :: meta

record abort_output =
  ao_Session :: session
  ao_UpdatedTask :: "task option"
  ao_Events :: "audit_event list"

definition abortStateStepID :: "session \<Rightarrow> string" where
  "abortStateStepID st = or_str (st_CurrentStepID st) (st_InFlightStepID st)"

definition abort_transition :: "session \<Rightarrow> string \<Rightarrow> transition_decision" where
  "abort_transition current reason = mk_td current TransitionAborted (abortStateStepID current) reason"

definition aborted_session :: "session \<Rightarrow> string \<Rightarrow> session" where
  "aborted_session current reason =
     (let st = (ApplyTransition current (abort_transition current reason))\<lparr>st_ExecutionState := ExecutionIdle, st_InFlightStepID := [], st_PendingApprovalID := []\<rparr>;
          st = setCurrentBlockedRuntime st []
      in st\<lparr>st_LeaseID := [], st_LeaseClaimedAt := 0, st_LeaseExpiresAt := 0, st_Version := st_Version st + 1\<rparr>)"

definition abort_event :: "string \<Rightarrow> session \<Rightarrow> string \<Rightarrow> string \<Rightarrow> int \<Rightarrow> meta \<Rightarrow> audit_event svc" where
  "abort_event ty st tid stepID now payload = sbind newUUID (\<lambda>uuid. sret (event_of uuid now ty (st_SessionID st) tid stepID payload))"

definition abort_events :: "session \<Rightarrow> abort_request \<Rightarrow> string \<Rightarrow> int \<Rightarrow> audit_event list svc" where
  "abort_events current request reason now =
     sbind (abort_event ''state.changed'' current (st_TaskID current) (abortStateStepID current) now (transition_payload current (abort_transition current reason))) (\<lambda>e1.
     sbind (abort_event ''session.aborted'' current (st_TaskID current) (abortStateStepID current) now
       ([(''code'', VStr (aq_Code request)), (''reason'', VStr reason)]
        @ (if aq_Metadata request = [] then [] else [(''metadata'', VMap (aq_Metadata request))]))) (\<lambda>e2. sret [e1, e2]))"

section \<open>What the session waits for\<close>

definition finalizeBlockedAttemptForAbortInStore :: "string \<Rightarrow> string \<Rightarrow> step \<Rightarrow> string \<Rightarrow> int \<Rightarrow> unit svc" where
  "finalizeBlockedAttemptForAbortInStore sid approvalID s reply now =
     sbind (sread (\<lambda>r. findLatestBlockedAttemptInStore (rp_Attempts r) sid approvalID)) (\<lambda>found.
       case found of
         None \<Rightarrow> sret ()
       | Some a \<Rightarrow>
           let md = gm_put ''terminal_reason'' (VStr ''session_aborted'') (at_Metadata a) in
           do_attempt_Update (a\<lparr>at_Status := AttemptFailed, at_Step := s,
             at_Metadata := (if reply \<noteq> [] then gm_put ''approval_reply'' (VStr reply) md else md),
             at_FinishedAt := or_int (at_FinishedAt a) now\<rparr>))"

definition aborted_step :: "step \<Rightarrow> int \<Rightarrow> step" where
  "aborted_step s now = s\<lparr>sp_Status := StepFailed, sp_Reason := ''session aborted'', sp_FinishedAt := or_int (sp_FinishedAt s) now\<rparr>"

definition aborted_approval :: "approval \<Rightarrow> int \<Rightarrow> approval" where
  "aborted_approval rec now =
     (let rec' = (case ap_Status rec of
            ApprovalPending \<Rightarrow> rec\<lparr>ap_Status := ApprovalRejected, ap_Reply := ReplyReject, ap_RespondedAt := now\<rparr>
          | ApprovalApproved \<Rightarrow> rec\<lparr>ap_Status := ApprovalConsumed, ap_ConsumedAt := or_int (ap_ConsumedAt rec) now\<rparr>
          | _ \<Rightarrow> rec)
      in rec'\<lparr>ap_Metadata := gm_put ''terminal_reason'' (VStr ''session_aborted'') (ap_Metadata rec'),
              ap_Step := aborted_step (ap_Step rec) now, ap_Version := ap_Version rec + 1\<rparr>)"

definition abortPendingApprovalInStore :: "string \<Rightarrow> string \<Rightarrow> int \<Rightarrow> audit_event list svc" where
  "abortPendingApprovalInStore sid approvalID now =
     (if approvalID = [] then sret []
      else sbind (do_approval_Get approvalID) (\<lambda>rec.
        let rec' = aborted_approval rec now in
        sbind (do_approval_Update rec') (\<lambda>_.
        sbind (updateLatestPlanStepInStore sid (ap_Step rec')) (\<lambda>_.
        sbind (finalizeBlockedAttemptForAbortInStore sid approvalID (ap_Step rec') (reply_text (ap_Reply rec')) now) (\<lambda>_.
          if ap_Status rec = ApprovalPending then
            sbind (approval_event ''approval.rejected'' rec' (ap_TaskID rec') now
              [(''approval_id'', VStr approvalID), (''tool_name'', VStr (ap_ToolName rec')), (''reason'', VStr ''session aborted'')]) (\<lambda>e. sret [e])
          else sret [])))))"

definition abortCurrentBlockedRuntimeInStore :: "string \<Rightarrow> string \<Rightarrow> string \<Rightarrow> int \<Rightarrow> audit_event list svc" where
  "abortCurrentBlockedRuntimeInStore sid bid reason now =
     sbind (blockedRuntimeRecordOrErr bid) (\<lambda>rec.
       if br_SessionID rec \<noteq> [] \<and> br_SessionID rec \<noteq> sid then sfail ErrBlockedRuntimeNotFound
       else if br_Status rec = BlockedRuntimeAborted then sret []
       else let rec' = rec\<lparr>br_Status := BlockedRuntimeAborted, br_UpdatedAt := now, br_ResolvedAt := now,
              br_Metadata := mergeBlockedRuntimeTerminalMetadata (br_Metadata rec) reason [] BlockedRuntimeAborted\<rparr>
            in sbind (do_blocked_Update rec') (\<lambda>_.
                 sbind (blockedRuntimeAuditEvent now ''blocked_runtime.aborted'' rec' (br_TaskID rec')
                   [(''status'', VStr (blocked_status_text (br_Status rec'))), (''reason'', VStr reason)]) (\<lambda>e. sret [e])))"

definition abortActiveStepInLatestPlanStore :: "string \<Rightarrow> string \<Rightarrow> string \<Rightarrow> int \<Rightarrow> unit svc" where
  "abortActiveStepInLatestPlanStore sid planID stepID now =
     (if sid = [] \<or> stepID = [] then sret ()
      else sbind (sread rp_Plans) (\<lambda>plans.
        case planForStepInStore (Some plans) sid (zero_step\<lparr>sp_PlanID := planID, sp_StepID := stepID\<rparr>) of
          None \<Rightarrow> sret ()
        | Some latest \<Rightarrow>
            if \<not> list_ex (\<lambda>s. sp_StepID s = stepID) (pl_Steps latest) then sret ()
            else do_plan_Update (latest\<lparr>pl_Steps := update_first (\<lambda>s. sp_StepID s = stepID) (\<lambda>s. aborted_step s now) (pl_Steps latest)\<rparr>)))"

definition end_waiting :: "session \<Rightarrow> string \<Rightarrow> string \<Rightarrow> int \<Rightarrow> audit_event list svc" where
  "end_waiting current planID reason now =
     (if st_PendingApprovalID current \<noteq> [] then abortPendingApprovalInStore (st_SessionID current) (st_PendingApprovalID current) now
      else if currentBlockedRuntimeID current \<noteq> [] then abortCurrentBlockedRuntimeInStore (st_SessionID current) (currentBlockedRuntimeID current) reason now
      else sbind (abortActiveStepInLatestPlanStore (st_SessionID current) planID (abortStateStepID current) now) (\<lambda>_. sret []))"

section \<open>What was there before\<close>

definition latestPlanStepByID :: "string \<Rightarrow> string \<Rightarrow> string \<Rightarrow> step option svc" where
  "latestPlanStepByID sid planID stepID =
     (if sid = [] \<or> stepID = [] then sret None
      else sread (\<lambda>r. case planForStepInStore (Some (rp_Plans r)) sid (zero_step\<lparr>sp_PlanID := planID, sp_StepID := stepID\<rparr>) of
        None \<Rightarrow> None
      | Some target \<Rightarrow> List.find (\<lambda>s. sp_StepID s = stepID) (pl_Steps target)))"

definition snapshotActiveRuntimeHandles :: "string \<Rightarrow> runtime_handle list svc" where
  "snapshotActiveRuntimeHandles sid = (if sid = [] then sret [] else sread (\<lambda>r. filter isRuntimeHandleActive (handle_List sid (rp_RuntimeHandles r))))"

record originals =
  og_Approval :: "approval option"
  og_Blocked :: "blocked_record option"
  og_Attempt :: "attempt option"
  og_Step :: "step option"
  og_Task :: "task option"
  og_Handles :: "runtime_handle list"

definition no_originals :: originals where
  "no_originals = \<lparr>og_Approval = None, og_Blocked = None, og_Attempt = None, og_Step = None, og_Task = None, og_Handles = []\<rparr>"

definition waiting_originals :: "session \<Rightarrow> string \<Rightarrow> originals svc" where
  "waiting_originals current planID =
     (let sid = st_SessionID current; aid = st_PendingApprovalID current; bid = currentBlockedRuntimeID current in
      if aid \<noteq> [] then
        sbind (do_approval_Get aid) (\<lambda>rec.
        sbind (sread (\<lambda>r. findLatestBlockedAttemptInStore (rp_Attempts r) sid aid)) (\<lambda>a.
          sret (no_originals\<lparr>og_Approval := Some rec, og_Attempt := a, og_Step := (if sp_StepID (ap_Step rec) \<noteq> [] then Some (ap_Step rec) else None)\<rparr>)))
      else if bid \<noteq> [] then sbind (blockedRuntimeRecordOrErr bid) (\<lambda>rec. sret (no_originals\<lparr>og_Blocked := Some rec\<rparr>))
      else sbind (latestPlanStepByID sid planID (abortStateStepID current)) (\<lambda>s. sret (no_originals\<lparr>og_Step := s\<rparr>)))"

definition abort_originals :: "session \<Rightarrow> string \<Rightarrow> originals svc" where
  "abort_originals current planID =
     sbind (waiting_originals current planID) (\<lambda>og.
     sbind (if st_TaskID current \<noteq> [] then sbind (do_task_Get (st_TaskID current)) (\<lambda>t. sret (Some t)) else sret None) (\<lambda>t.
     sbind (snapshotActiveRuntimeHandles (st_SessionID current)) (\<lambda>hs. sret (og\<lparr>og_Task := t, og_Handles := hs\<rparr>))))"

definition undo_opt :: "('a \<Rightarrow> unit svc) \<Rightarrow> 'a option \<Rightarrow> unit svc list" where
  "undo_opt restore before = (case before of None \<Rightarrow> [] | Some x \<Rightarrow> [restore x])"

definition rollbackNoRunnerAbortState :: "string \<Rightarrow> originals \<Rightarrow> bool \<Rightarrow> bool \<Rightarrow> unit svc list" where
  "rollbackNoRunnerAbortState sid og taskChanged handlesChanged =
     (if handlesChanged \<and> og_Handles og \<noteq> [] then [restoreRuntimeHandles (og_Handles og)] else [])
     @ (if taskChanged then undo_opt restoreTaskRecord (og_Task og) else [])
     @ undo_opt (restorePlanStepState sid) (og_Step og) @ undo_opt restoreAttemptRecord (og_Attempt og)
     @ undo_opt restoreBlockedRuntimeRecord (og_Blocked og) @ undo_opt restoreApprovalRecord (og_Approval og)"

section \<open>Aborting\<close>

definition task_aborted_event :: "session \<Rightarrow> task option \<Rightarrow> int \<Rightarrow> audit_event list svc" where
  "task_aborted_event aborted t now = (case t of
     None \<Rightarrow> sret []
   | Some rec \<Rightarrow> sbind (abort_event ''task.aborted'' aborted (tk_TaskID rec) (st_CurrentStepID aborted) now
       [(''task_id'', VStr (tk_TaskID rec)), (''status'', VNamed ''task.Status'' (task_status_text (tk_Status rec)))]) (\<lambda>e. sret [e]))"

definition abort_writes :: "bool \<Rightarrow> session \<Rightarrow> session \<Rightarrow> string \<Rightarrow> string \<Rightarrow> int \<Rightarrow> (task option \<times> audit_event list) svc" where
  "abort_writes hasSink current aborted planID reason now =
     (let sid = st_SessionID current in
      sbind (if hasSink then sret no_originals else abort_originals current planID) (\<lambda>og.
      sbind (end_waiting current planID reason now) (\<lambda>evs1.
      sbind (guarded hasSink (updateTaskForTerminalInStore aborted) (rollbackNoRunnerAbortState sid og False False)) (\<lambda>t.
      sbind (task_aborted_event aborted t now) (\<lambda>evs2.
      sbind (guarded hasSink (reconcileActiveRuntimeHandlesInStore sid ''session aborted'' now) (rollbackNoRunnerAbortState sid og (t \<noteq> None) False)) (\<lambda>hs.
      sbind (runtimeHandleAuditEvents now ''runtime_handle.invalidated'' hs) (\<lambda>evs3.
      sbind (guarded hasSink (do_session_Update aborted) (rollbackNoRunnerAbortState sid og (t \<noteq> None) (hs \<noteq> []))) (\<lambda>_.
        sret (t, evs1 @ evs2 @ evs3)))))))))"

definition AbortSession :: "service \<Rightarrow> string \<Rightarrow> abort_request \<Rightarrow> abort_output svc" where
  "AbortSession sv sid request =
     sbind (getSessionRecord sv sid) (\<lambda>current.
       if st_Phase current = PhaseAborted then sret \<lparr>ao_Session = current, ao_UpdatedTask = None, ao_Events = []\<rparr>
       else if isTerminalPhase (st_Phase current) then sfail ErrSessionTerminal
       else
         let reason = or_str (aq_Reason request) ''abort requested'';
             planID = (case planRefFromSession current of None \<Rightarrow> [] | Some (p, _) \<Rightarrow> p);
             aborted = aborted_session current reason
         in sbind nowMilli (\<lambda>now.
            sbind (abort_events current request reason now) (\<lambda>events.
            sbind (with_runner sv (\<lambda>hasSink emit.
              sbind (abort_writes hasSink current aborted planID reason now) (\<lambda>(t, evs).
                sbind (emit (events @ evs)) (\<lambda>_. sret (t, events @ evs))))) (\<lambda>(t, events).
            sbind nowMilli (\<lambda>_. sret \<lparr>ao_Session = aborted, ao_UpdatedTask = t, ao_Events = events\<rparr>)))))"

section \<open>Aborting and the approvals\<close>

context world_relation
begin

lemma mv_try:
  assumes "moves R m" and "\<And>e. moves R (f e)" and "\<And>x. moves R (g x)"
  shows "moves R (\<lambda>w. case m w of (Inl e, w') \<Rightarrow> f e w' | (Inr x, w') \<Rightarrow> g x w')"
  unfolding moves_def
proof
  fix w
  have "R w (snd (m w))" using assms(1) by (simp add: moves_def)
  moreover have "R (snd (m w)) (snd (f e (snd (m w))))" "R (snd (m w)) (snd (g x (snd (m w))))" for e x
    using assms(2,3) by (simp_all add: moves_def)
  ultimately show "R w (snd (case m w of (Inl e, w') \<Rightarrow> f e w' | (Inr x, w') \<Rightarrow> g x w'))"
    by (cases "m w"; cases "fst (m w)") (auto intro: trans)
qed

end

lemma calm_blocked: "moves calm (do_blocked_Update rec)"
  unfolding do_blocked_Update_def
  by (intro calm.mv_rules calm.mv_sexec; auto simp: calm_def tame_def records_wf_def split: sum.splits)

lemma calm_blockedRecord: "moves calm (blockedRuntimeRecordOrErr bid)"
  by (auto simp: moves_def blockedRuntimeRecordOrErr_def do_blocked_Get_def calm.refl split: sum.split)

lemma calm_reconcile_loop: "moves calm (reconcile_loop reason now hs)"
  by (induction hs) (auto simp: Let_def intro!: calm.mv_rules calm_stores)

lemma calm_reconcile: "moves calm (reconcileActiveRuntimeHandlesInStore sid reason now)"
  unfolding reconcileActiveRuntimeHandlesInStore_def by (intro calm.mv_rules calm_reconcile_loop)

lemma calm_restore_handles: "moves calm (restore_handles hs err)"
proof (induction hs arbitrary: err)
  case (Cons h hs)
  show ?case unfolding restore_handles.simps
    by (rule calm.mv_try) (intro calm.mv_rules calm.mv_gets calm_stores Cons)+
qed (simp add: calm.mv_rules)

lemma calm_handle_events: "moves calm (runtimeHandleAuditEvents now ty hs)"
  by (induction hs) (auto simp: Let_def intro!: calm.mv_rules)

lemma calm_abort_events:
  "moves calm (abort_event ty st tid stepID now payload)" "moves calm (abort_events current request reason now)"
  "moves calm (task_aborted_event aborted t now)" "moves calm (approval_event ty rec tid now payload)"
  "moves calm (blockedRuntimeAuditEvent now ty b tid payload)"
  unfolding abort_event_def abort_events_def task_aborted_event_def approval_event_def blockedRuntimeAuditEvent_def by (intro calm.mv_rules)+

lemma calm_originals: "moves calm (abort_originals current planID)"
  unfolding abort_originals_def waiting_originals_def latestPlanStepByID_def snapshotActiveRuntimeHandles_def Let_def
  by (intro calm.mv_rules calm.mv_gets calm_blockedRecord)

lemma calm_restore: "moves calm (restoreRuntimeHandles hs)" "moves calm (restoreBlockedRuntimeRecord b)"
  unfolding restoreRuntimeHandles_def restoreBlockedRuntimeRecord_def by (intro calm.mv_rules calm_restore_handles calm_blocked)+

lemma calm_rollback:
  assumes "og_Approval og = None"
  shows "moves calm (rollbacks (rollbackNoRunnerAbortState sid og a b))"
proof (rule calm.mv_rollbacks)
  have "list_all (moves calm) (rollbackNoRunnerAbortState sid og a b)"
    unfolding rollbackNoRunnerAbortState_def undo_opt_def
    using assms by (simp add: calm_restore calm.mv_restore split: option.split)
  then show "m \<in> set (rollbackNoRunnerAbortState sid og a b) \<Longrightarrow> moves calm m" for m by (simp add: list_all_iff)
qed

lemma calm_end_waiting: "st_PendingApprovalID st = [] \<Longrightarrow> moves calm (end_waiting st planID reason now)"
  unfolding end_waiting_def abortCurrentBlockedRuntimeInStore_def abortActiveStepInLatestPlanStore_def Let_def
  by (auto intro!: calm.mv_rules calm_blockedRecord calm_blocked calm_abort_events calm.plan_Update)

lemma finalize_for_abort_ok:
  assumes "records_wf (w_Repos w)"
  shows "\<exists>w'. finalizeBlockedAttemptForAbortInStore sid aid s reply now w = (Inr (), w')"
  using assms blocked_attempt_stored[of "rp_Attempts (w_Repos w)" sid aid]
  by (auto simp: records_wf_def finalizeBlockedAttemptForAbortInStore_def svc_apply do_attempt_Update_def attempt_Update_def Let_def split: option.split)

lemma reconcile_ok:
  assumes "records_wf (w_Repos w)"
  shows "\<exists>hs w'. reconcileActiveRuntimeHandlesInStore sid reason now w = (Inr hs, w')"
proof (cases "sid = []")
  case False
  then show ?thesis using reconcile_run[OF _ False, of w reason now] assms unfolding records_wf_def by blast
qed (simp add: reconcileActiveRuntimeHandlesInStore_def svc_apply)

lemma aborted_session_fields:
  "st_SessionID (aborted_session st reason) = st_SessionID st" "st_Version (aborted_session st reason) = st_Version st + 1"
  "st_ExecutionState (aborted_session st reason) = ExecutionIdle" "st_PendingApprovalID (aborted_session st reason) = []"
  "st_TaskID (aborted_session st reason) = st_TaskID st" "st_Phase (aborted_session st reason) = PhaseAborted"
  "st_LeaseID (aborted_session st reason) = []"
  by (simp_all add: aborted_session_def Let_def setCurrentBlockedRuntime_def ApplyTransition_def abort_transition_def mk_td_def)

lemma aborted_approval_fields:
  "ap_ApprovalID (aborted_approval rec now) = ap_ApprovalID rec" "ap_SessionID (aborted_approval rec now) = ap_SessionID rec"
  "ap_Version (aborted_approval rec now) = ap_Version rec + 1"
  by (simp_all add: aborted_approval_def Let_def split: ApprovalStatus.split)

lemma wt_answering_quiet: "moves calm m \<Longrightarrow> (\<And>w. \<exists>x w'. m w = (Inr x, w')) \<Longrightarrow> wtriple (answering S A rec tid) m (\<lambda>_. answering S A rec tid) fit"
  using wt_answering[of m S A rec tid True "[]"] by (simp add: guarded_def)

text \<open>Between the approval's write and the session's nothing can fail.\<close>

lemma wt_answering_records:
  "wtriple (answering S A rec tid) (updateLatestPlanStepInStore i s) (\<lambda>_. answering S A rec tid) fit"
  "wtriple (answering S A rec tid) (finalizeBlockedAttemptForAbortInStore i a s r now) (\<lambda>_. answering S A rec tid) fit"
proof -
  show "wtriple (answering S A rec tid) (updateLatestPlanStepInStore i s) (\<lambda>_. answering S A rec tid) fit"
    using wt_answering[OF calm.mv_plan(2), of S A rec tid i s True] plan_step_ok by (simp add: guarded_def answering_def)
  have "moves calm (finalizeBlockedAttemptForAbortInStore i a s r now)"
    unfolding finalizeBlockedAttemptForAbortInStore_def Let_def by (intro calm.mv_rules calm.attempt_Update)
  then show "wtriple (answering S A rec tid) (finalizeBlockedAttemptForAbortInStore i a s r now) (\<lambda>_. answering S A rec tid) fit"
    using wt_answering[of "finalizeBlockedAttemptForAbortInStore i a s r now" S A rec tid True] finalize_for_abort_ok
    by (simp add: guarded_def answering_def)
qed

lemma handle_events_ok: "\<exists>x w'. runtimeHandleAuditEvents now ty hs w = (Inr x, w')"
proof (induction hs arbitrary: w)
  case (Cons h hs)
  obtain x w' where "runtimeHandleAuditEvents now ty hs (w\<lparr>w_Drawn := Suc (w_Drawn w)\<rparr>) = (Inr x, w')" using Cons by blast
  then show ?case by (simp add: svc_apply)
qed (simp add: svc_apply)

lemma wt_answering_events:
  "wtriple (answering S A rec tid) (approval_event ty r t now p) (\<lambda>_. answering S A rec tid) fit"
  "wtriple (answering S A rec tid) (task_aborted_event s t' now) (\<lambda>_. answering S A rec tid) fit"
  "wtriple (answering S A rec tid) (runtimeHandleAuditEvents now ty hs) (\<lambda>_. answering S A rec tid) fit"
  by (rule wt_answering_quiet[OF calm_abort_events(4)], simp add: approval_event_def svc_apply)
    (rule wt_answering_quiet[OF calm_abort_events(3)], simp add: task_aborted_event_def abort_event_def svc_apply split: option.split,
     rule wt_answering_quiet[OF calm_handle_events handle_events_ok])

lemma wt_abort_pending:
  assumes fits: "approvals_fit S A" and st: "session_Get sid S = Inr st" and rec: "gm_get A (st_PendingApprovalID st) = Some rec"
    "ap_SessionID rec = sid" and pending: "st_PendingApprovalID st \<noteq> []"
  shows "wtriple (\<lambda>w. holding S A w \<and> (st_TaskID st \<noteq> [] \<longrightarrow> gm_get (rp_Tasks (w_Repos w)) (st_TaskID st) \<noteq> None))
    (abort_writes b st (aborted_session st reason) planID reason now) (\<lambda>_. fit) fit"
    (is "wtriple ?T _ _ _")
proof -
  let ?rec = "aborted_approval rec now"
  let ?M = "answering S A ?rec (st_TaskID st)"
  have id: "st_SessionID st = sid" using session_Get_id[OF _ st] fits by (simp add: approvals_fit_def)
  have key: "ap_ApprovalID rec = st_PendingApprovalID st" using keyed_get[OF _ rec(1)] fits by (simp add: approvals_fit_def)
  have calmT: "wtriple ?T m (\<lambda>_. ?T) fit" if "moves calm m" for m :: "'x svc"
    by (rule wt_moves[OF that], rule conjI, erule conjE, erule (1) holding_calm) (simp_all add: calm_def)
  have get: "wtriple ?T (do_approval_Get (st_PendingApprovalID st)) (\<lambda>r w. r = rec \<and> ?T w) fit"
    using rec(1) by (auto simp: wtriple_def do_approval_Get_def approval_Get_def mem_get_def)
  have upd: "wtriple ?T (do_approval_Update ?rec) (\<lambda>_. ?M) fit"
    by (rule wt_weaken[OF wt_answer_approval[of A ?rec rec S "st_TaskID st"]]) (simp_all add: aborted_approval_fields key rec)
  have wait: "wtriple ?T (end_waiting st planID reason now) (\<lambda>_. ?M) fit"
    unfolding end_waiting_def if_P[OF pending] abortPendingApprovalInStore_def if_not_P[OF pending] Let_def
    by (rule wt_bind[OF get], rule wt_assume, simp only:, rule wt_bind[OF upd], rule wt_bind[OF wt_answering_records(1)],
        rule wt_bind[OF wt_answering_records(2)], rule wt_if, rule wt_bind[OF wt_answering_events(1)], rule wt_sret, assumption, rule wt_sret)
  have task: "wtriple ?M (guarded b (updateTaskForTerminalInStore (aborted_session st reason)) undo) (\<lambda>_. ?M) fit" for undo
    by (rule wt_answering[OF calm.mv_task], rule terminal_task_ok) (simp_all add: answering_def aborted_session_fields)
  have handles: "wtriple ?M (guarded b (reconcileActiveRuntimeHandlesInStore i r now) undo) (\<lambda>_. ?M) fit" for i r undo
    by (rule wt_answering[OF calm_reconcile], rule reconcile_ok) (simp add: answering_def)
  have sess: "wtriple ?M (guarded b (do_session_Update (aborted_session st reason)) undo) (\<lambda>_. fit) fit" for undo
    by (rule wt_answer_session[OF fits _ rec(2) _ st]) (simp_all add: aborted_approval_fields aborted_session_fields key rec id)
  show ?thesis unfolding abort_writes_def Let_def
    by (rule wt_bind[OF calmT[OF calm.mv_if[OF calm.mv_sret calm_originals]]], rule wt_bind[OF wait], rule wt_bind[OF task],
        rule wt_bind[OF wt_answering_events(2)], rule wt_bind[OF handles], rule wt_bind[OF wt_answering_events(3)], rule wt_bind[OF sess], rule wt_sret)
qed

text \<open>Without one, only the session's write touches what the invariant speaks about.\<close>

lemma waiting_originals_none:
  "st_PendingApprovalID st = [] \<Longrightarrow> waiting_originals st planID w = (Inr og, w') \<Longrightarrow> og_Approval og = None"
  unfolding waiting_originals_def Let_def
  by (auto simp: svc_apply no_originals_def latestPlanStepByID_def split: if_splits sum.splits prod.splits)

lemma wt_abort_originals:
  assumes "st_PendingApprovalID st = []"
  shows "wtriple (holding S A) (abort_originals st planID) (\<lambda>og w. og_Approval og = None \<and> holding S A w) fit"
proof -
  have calm: "moves calm (waiting_originals st planID)" "moves calm (snapshotActiveRuntimeHandles i)" for i
    unfolding waiting_originals_def latestPlanStepByID_def snapshotActiveRuntimeHandles_def Let_def
    by (intro calm.mv_rules calm.mv_gets calm_blockedRecord)+
  have first: "wtriple (holding S A) (waiting_originals st planID) (\<lambda>og w. og_Approval og = None \<and> holding S A w) fit"
  proof (rule wtripleI)
    fix w og w' assume w: "holding S A w" and run: "waiting_originals st planID w = (Inr og, w')"
    show "og_Approval og = None \<and> holding S A w'"
      using waiting_originals_none[OF assms run] wtripleD(1)[OF wt_holding[OF calm(1)] w run] by (rule conjI)
  qed (rule wtripleD(2)[OF wt_holding[OF calm(1)]])
  show ?thesis unfolding abort_originals_def
    by (rule wt_bind[OF first], rule wt_assume, rule wt_bind[OF wt_holding[OF calm.mv_if[OF calm.mv_bind[OF calm.mv_gets(1) calm.mv_sret] calm.mv_sret]]],
        rule wt_bind[OF wt_holding[OF calm(2)]], rule wt_sret) simp
qed

lemma wt_fit: "moves calm m \<Longrightarrow> wtriple fit m (\<lambda>_. fit) fit"
  by (rule wt_moves[OF _ fit_calm])

lemma wt_abort_idle:
  assumes st: "session_Get sid S = Inr st" and idle: "st_PendingApprovalID st = []"
  shows "wtriple (holding S A) (abort_writes b st (aborted_session st reason) planID reason now) (\<lambda>_. fit) fit"
proof -
  let ?st = "aborted_session st reason"
  have og: "wtriple (holding S A) (if b then sret no_originals else abort_originals st planID) (\<lambda>og w. og_Approval og = None \<and> holding S A w) fit"
    by (rule wt_if[OF wt_sret wt_abort_originals[OF idle]]) (simp add: no_originals_def)
  have guard: "wtriple (holding S A) (guarded b m (rollbackNoRunnerAbortState i og x y)) (\<lambda>_. holding S A) fit"
    if "og_Approval og = None" "moves calm m" for m :: "'x svc" and i og x y
    by (rule wt_guarded[where ?E0.0 = fit]) (use wt_holding[OF that(2)] wt_fit[OF calm_rollback[OF that(1)]] in auto)
  have upd: "wtriple (holding S A) (do_session_Update ?st) (\<lambda>_. fit) fit"
  proof (unfold wtriple_def, intro allI impI)
    fix w assume w: "holding S A w"
    have "session_Get (st_SessionID ?st) S = Inr st"
      using st w session_Get_id[OF _ st] by (auto simp: aborted_session_fields fit_def approvals_fit_def)
    then obtain S' where S': "session_Update (w_Clock w (w_Reads w)) ?st S = Inr S'"
      using sess.update_fresh[of ?st S st] by (auto simp: aborted_session_fields)
    have "approvals_fit S' A"
      by (rule fit_sessions[OF _ S']) (use w in \<open>auto simp: pending_fits_def aborted_session_fields fit_def approvals_fit_def\<close>)
    then show "case do_session_Update ?st w of (Inl _, w') \<Rightarrow> fit w' | (Inr _, w') \<Rightarrow> fit w'"
      using do_session_Update_run[of w ?st S'] S' w by (auto simp: fit_def records_wf_def unseen_def)
  qed
  have last: "wtriple (holding S A) (guarded b (do_session_Update ?st) (rollbackNoRunnerAbortState i og x y)) (\<lambda>_. fit) fit"
    if "og_Approval og = None" for i og x y
    by (rule wt_guarded[OF upd]) (use wt_fit[OF calm_rollback[OF that]] in auto)
  show ?thesis unfolding abort_writes_def Let_def
    by (rule wt_bind[OF og], rule wt_assume, rule wt_bind[OF wt_holding[OF calm_end_waiting[OF idle]]], rule wt_bind[OF guard[OF _ calm.mv_task]], assumption,
        rule wt_bind[OF wt_holding[OF calm_abort_events(3)]], rule wt_bind[OF guard[OF _ calm_reconcile]], assumption,
        rule wt_bind[OF wt_holding[OF calm_handle_events]], rule wt_bind[OF last], assumption, rule wt_sret)
qed

context session_writes
begin

lemma mv_abort_writes:
  assumes handle_Update: "\<And>h. moves R (do_handle_Update h)" and blocked_Update: "\<And>b. moves R (do_blocked_Update b)"
  shows "moves R (abort_writes b current aborted planID reason now)"
proof -
  have blockedRecord: "moves R (blockedRuntimeRecordOrErr bid)" for bid
    by (auto simp: moves_def blockedRuntimeRecordOrErr_def do_blocked_Get_def refl split: sum.split)
  have loop: "moves R (reconcile_loop r now hs)" for r hs by (induction hs) (auto simp: Let_def intro!: mv_rules handle_Update)
  have restore: "moves R (restore_handles hs err)" for hs err
    by (induction hs arbitrary: err, simp add: mv_rules, unfold restore_handles.simps, rule mv_try)
      (intro mv_rules mv_gets handle_Update, assumption+)
  have events: "moves R (runtimeHandleAuditEvents now ty hs)" for ty hs by (induction hs) (auto intro!: mv_rules)
  have undo: "list_all (moves R) (rollbackNoRunnerAbortState sid og x y)" for sid og x y
    unfolding rollbackNoRunnerAbortState_def undo_opt_def restoreRuntimeHandles_def restoreBlockedRuntimeRecord_def
    by (simp add: mv_restore mv_undo split: option.split) (intro impI allI conjI mv_rules restore blocked_Update)
  have wait: "moves R (end_waiting current planID reason now)"
    unfolding end_waiting_def abortPendingApprovalInStore_def abortCurrentBlockedRuntimeInStore_def abortActiveStepInLatestPlanStore_def
      finalizeBlockedAttemptForAbortInStore_def approval_event_def blockedRuntimeAuditEvent_def Let_def
    by (intro mv_rules mv_gets mv_plan approval_Update attempt_Update plan_Update blocked_Update blockedRecord)
  have originals: "moves R (abort_originals current planID)"
    unfolding abort_originals_def waiting_originals_def latestPlanStepByID_def snapshotActiveRuntimeHandles_def Let_def
    by (intro mv_rules mv_gets blockedRecord)
  show ?thesis
    unfolding abort_writes_def reconcileActiveRuntimeHandlesInStore_def task_aborted_event_def abort_event_def Let_def
    by (intro mv_rules mv_guarded wait originals loop events mv_task session_Update) (use undo in \<open>auto simp: list_all_iff\<close>)
qed

end

lemma ids_abort_writes: "moves tame (abort_writes b current aborted planID reason now)"
  by (rule ids.mv_abort_writes; unfold do_handle_Update_def do_blocked_Update_def; intro ids.mv_rules ids.mv_sexec; auto simp: tame_def)

abbreviation abortable :: "session_map \<Rightarrow> approval_map \<Rightarrow> session \<Rightarrow> world \<Rightarrow> bool" where
  "abortable S A st w \<equiv> holding S A w \<and> (st_TaskID st \<noteq> [] \<longrightarrow> gm_get (rp_Tasks (w_Repos w)) (st_TaskID st) \<noteq> None)"

lemma wt_abortable: "moves calm m \<Longrightarrow> wtriple (abortable S A st) m (\<lambda>_. abortable S A st) fit"
  by (rule wt_moves, assumption, rule conjI, erule conjE, erule (1) holding_calm) (simp_all add: calm_def)

lemma wt_abort_writes:
  assumes st: "session_Get sid S = Inr st"
  shows "wtriple (abortable S A st) (abort_writes b st (aborted_session st reason) planID reason now) (\<lambda>_. fit) fit"
proof (cases "st_PendingApprovalID st = []")
  case True
  show ?thesis by (rule wt_weaken[OF wt_abort_idle[OF st True, of A]]) simp_all
next
  case False
  show ?thesis
  proof (rule wt_use[where c = "approvals_fit S A"])
    assume fits: "approvals_fit S A"
    then obtain rec where "gm_get A (st_PendingApprovalID st) = Some rec" "ap_SessionID rec = sid"
      using st False unfolding approvals_fit_def pending_fits_def by blast
    from wt_abort_pending[OF fits st this False]
    show "wtriple (abortable S A st) (abort_writes b st (aborted_session st reason) planID reason now) (\<lambda>_. fit) fit" .
  qed (auto simp: fit_def)
qed

lemma wt_abort_unit:
  assumes st: "session_Get sid S = Inr st"
  shows "wtriple (abortable S A st) (with_runner sv (\<lambda>hasSink emit.
      sbind (abort_writes hasSink st (aborted_session st reason) planID reason now) (\<lambda>(t, evs).
        sbind (emit (events @ evs)) (\<lambda>_. sret (t, events @ evs))))) (\<lambda>_. fit) fit"
proof (rule wt_with_runner[where F = fit])
  show "wtriple (abortable S A st) (sbind (abort_writes b st (aborted_session st reason) planID reason now) (\<lambda>(t, evs).
      sbind (emit (events @ evs)) (\<lambda>_. sret (t, events @ evs)))) (\<lambda>_. fit) fit"
    if "\<And>evs. wtriple fit (emit evs) (\<lambda>_. fit) fit" for b emit
    by (rule wt_bind[OF wt_abort_writes[OF st]], rule wt_prod, rule wt_bind[OF that], rule wt_sret)
  show "moves tame (sbind (abort_writes b st (aborted_session st reason) planID reason now) (\<lambda>(t, evs).
      sbind (emit (events @ evs)) (\<lambda>_. sret (t, events @ evs))))" if "\<And>evs. moves tame (emit evs)" for b emit
    by (intro ids.mv_rules ids_abort_writes that)
qed (auto intro: fit_any_audits fit_same)

lemma wt_abort:
  "wtriple (\<lambda>w. fit w \<and> (\<forall>st. session_Get sid (rp_Sessions (w_Repos w)) = Inr st \<longrightarrow> st_TaskID st \<noteq> [] \<longrightarrow>
      gm_get (rp_Tasks (w_Repos w)) (st_TaskID st) \<noteq> None)) (AbortSession sv sid request) (\<lambda>_. fit) fit"
    (is "wtriple ?I _ _ _")
proof (rule wt_fix[where f = "\<lambda>w. (rp_Sessions (w_Repos w), rp_Approvals (w_Repos w))"])
  fix v :: "session_map \<times> approval_map"
  obtain S A where v: "v = (S, A)" by fastforce
  have get: "wtriple (\<lambda>w. (rp_Sessions (w_Repos w), rp_Approvals (w_Repos w)) = v \<and> ?I w) (getSessionRecord sv sid)
      (\<lambda>st w. session_Get sid S = Inr st \<and> abortable S A st w) fit"
  proof (rule wtripleI)
    fix w st w' assume w: "(rp_Sessions (w_Repos w), rp_Approvals (w_Repos w)) = v \<and> ?I w" and run: "getSessionRecord sv sid w = (Inr st, w')"
    have st: "session_Get sid S = Inr st" using getSessionRecord_Inr[OF run] w v by simp
    then have "abortable S A st w" using w v by simp
    from wtripleD(1)[OF wt_abortable[OF calm.mv_getters(1)] this run] st show "session_Get sid S = Inr st \<and> abortable S A st w'" by simp
  next
    fix w e w' assume w: "(rp_Sessions (w_Repos w), rp_Approvals (w_Repos w)) = v \<and> ?I w" and run: "getSessionRecord sv sid w = (Inl e, w')"
    show "fit w'" by (rule wtripleD(2)[OF wt_fit[OF calm.mv_getters(1)] _ run]) (use w in simp)
  qed
  show "wtriple (\<lambda>w. (rp_Sessions (w_Repos w), rp_Approvals (w_Repos w)) = v \<and> ?I w) (AbortSession sv sid request) (\<lambda>_. fit) fit"
    unfolding AbortSession_def Let_def
    by (rule wt_bind[OF get], rule wt_assume, rule wt_if, rule wt_sret, simp, rule wt_if, rule wt_sfail, simp,
        rule wt_bind[OF wt_abortable[OF calm.mv_nowMilli]], rule wt_bind[OF wt_abortable[OF calm_abort_events(2)]],
        rule wt_bind[OF wt_abort_unit], assumption,
        rule wt_prod, rule wt_bind[OF wt_fit[OF calm.mv_nowMilli]], rule wt_sret)
qed

lemma fit_ex_run_world: "fit ex_run_world"
proof -
  have "approvals_fit (rp_Sessions (w_Repos ex_run_world)) (rp_Approvals (w_Repos ex_run_world))"
    unfolding approvals_fit_def pending_fits_def
    by (auto simp: ex_run_world_def ex_world_def ex_repos_def session_Create_def Let_def keyed_def zero_session_def session_Get_def mem_get_def
      split: option.splits if_splits)
  moreover have "records_wf (w_Repos ex_run_world)" unfolding records_wf_def by code_simp
  moreover have "unseen ex_run_world" by (auto simp: unseen_def ex_run_world_def ex_world_def ex_repos_def inj_def)
  ultimately show ?thesis by (simp add: fit_def)
qed

end
