(* ===== verification/Abort_Effect.thy ===== *)
theory Abort_Effect
  imports Abort
begin

text \<open>
  What a successful abortion leaves behind: nothing of the session waits, runs, holds a lease or an
  active handle.
\<close>

section \<open>What has ended\<close>

definition waiting_ended :: "session \<Rightarrow> repos \<Rightarrow> bool" where
  "waiting_ended st r \<longleftrightarrow>
     (st_PendingApprovalID st \<noteq> [] \<longrightarrow>
        (\<exists>ap. gm_get (rp_Approvals r) (st_PendingApprovalID st) = Some ap \<and> ap_Status ap \<in> {ApprovalRejected, ApprovalConsumed}))
     \<and> (st_PendingApprovalID st = [] \<and> currentBlockedRuntimeID st \<noteq> [] \<longrightarrow>
        (\<exists>b. gm_get (rp_BlockedRuntimes r) (currentBlockedRuntimeID st) = Some b \<and> br_Status b = BlockedRuntimeAborted))"

definition task_ended :: "session \<Rightarrow> repos \<Rightarrow> bool" where
  "task_ended st r \<longleftrightarrow> (st_TaskID st \<noteq> [] \<longrightarrow> (\<exists>t. gm_get (rp_Tasks r) (st_TaskID st) = Some t \<and> tk_Status t = TaskAborted))"

definition handles_ended :: "string \<Rightarrow> repos \<Rightarrow> bool" where
  "handles_ended sid r \<longleftrightarrow> (\<forall>k h. handle_Get k (rp_RuntimeHandles r) = Inr h \<longrightarrow> rh_SessionID h = sid \<longrightarrow> \<not> isRuntimeHandleActive h)"

definition session_ended :: "string \<Rightarrow> repos \<Rightarrow> bool" where
  "session_ended sid r \<longleftrightarrow> (\<exists>st. session_Get sid (rp_Sessions r) = Inr st \<and> st_Phase st = PhaseAborted \<and> st_ExecutionState st = ExecutionIdle
     \<and> st_PendingApprovalID st = [] \<and> currentBlockedRuntimeID st = [] \<and> st_InFlightStepID st = [] \<and> st_LeaseID st = [])"

section \<open>The stages\<close>

abbreviation ok :: "(world \<Rightarrow> bool) \<Rightarrow> 'a svc \<Rightarrow> (world \<Rightarrow> bool) \<Rightarrow> bool" where
  "ok P m Q \<equiv> wtriple P m (\<lambda>_. Q) (\<lambda>_. True)"

lemma ok_guarded: "ok P m Q \<Longrightarrow> ok P (guarded b m undo) Q"
  by (rule wt_guarded[where ?E0.0 = "\<lambda>_. True"]) (auto simp: wtriple_def split: prod.split sum.split)

lemma okI: "(\<And>w x w'. P w \<Longrightarrow> m w = (Inr x, w') \<Longrightarrow> Q w') \<Longrightarrow> ok P m Q"
  by (rule wtripleI) auto

definition main_records :: "repos \<Rightarrow> session_map \<times> approval_map \<times> task_map \<times> runtime_handle gomap \<times> blocked_record gomap" where
  "main_records r = (rp_Sessions r, rp_Approvals r, rp_Tasks r, rp_RuntimeHandles r, rp_BlockedRuntimes r)"

interpretation main: repo_view main_records
  by unfold_locales (simp add: main_records_def)

interpretation rest: repo_view "\<lambda>r. (rp_Sessions r, rp_Tasks r, rp_RuntimeHandles r)"
  by unfold_locales simp

interpretation appr: repo_view rp_Approvals
  by unfold_locales simp

lemma end_waiting_rest:
  "moves (\<lambda>w w'. (rp_Sessions (w_Repos w'), rp_Tasks (w_Repos w'), rp_RuntimeHandles (w_Repos w'))
     = (rp_Sessions (w_Repos w), rp_Tasks (w_Repos w), rp_RuntimeHandles (w_Repos w))) (end_waiting st planID reason now)"
proof -
  have blocked: "moves (\<lambda>w w'. (rp_Sessions (w_Repos w'), rp_Tasks (w_Repos w'), rp_RuntimeHandles (w_Repos w'))
     = (rp_Sessions (w_Repos w), rp_Tasks (w_Repos w), rp_RuntimeHandles (w_Repos w))) (blockedRuntimeRecordOrErr bid)" for bid
    by (auto simp: moves_def blockedRuntimeRecordOrErr_def do_blocked_Get_def split: sum.split)
  show ?thesis
    unfolding end_waiting_def abortPendingApprovalInStore_def abortCurrentBlockedRuntimeInStore_def abortActiveStepInLatestPlanStore_def
      finalizeBlockedAttemptForAbortInStore_def approval_event_def blockedRuntimeAuditEvent_def updateLatestPlanStepInStore_def
      updateLatestPlanStepInStoreWithBudgets_def do_plan_Update_def do_attempt_Update_def do_approval_Update_def do_blocked_Update_def Let_def
    by (intro rest.mv_rules rest.mv_gets rest.mv_sexec blocked) (auto split: sum.splits)
qed

lemma ok_end_pending:
  assumes wf: "approval_wf (rp_Approvals r0)" and rec: "gm_get (rp_Approvals r0) aid = Some rec" "ap_Status rec \<in> {ApprovalPending, ApprovalApproved}"
    and aid: "aid \<noteq> []"
  shows "ok (\<lambda>w. rp_Approvals (w_Repos w) = rp_Approvals r0) (abortPendingApprovalInStore sid aid now)
    (\<lambda>w. \<exists>ap. gm_get (rp_Approvals (w_Repos w)) aid = Some ap \<and> ap_Status ap \<in> {ApprovalRejected, ApprovalConsumed})" (is "ok ?P _ ?Q")
proof -
  have key: "ap_ApprovalID rec = aid" using keyed_get[OF wf rec(1)] .
  have status: "ap_Status (aborted_approval rec now) \<in> {ApprovalRejected, ApprovalConsumed}"
    using rec(2) by (auto simp: aborted_approval_def Let_def)
  have get: "wtriple ?P (do_approval_Get aid) (\<lambda>r w. r = rec \<and> ?P w) (\<lambda>_. True)"
    using rec(1) by (auto simp: wtriple_def do_approval_Get_def approval_Get_def mem_get_def)
  have upd: "ok ?P (do_approval_Update (aborted_approval rec now)) ?Q"
    using rec(1) key status by (auto simp: wtriple_def do_approval_Update_def svc_apply approval_Update_def Let_def aborted_approval_fields)
  have keep: "ok ?Q m ?Q" if "moves (\<lambda>w w'. rp_Approvals (w_Repos w') = rp_Approvals (w_Repos w)) m" for m :: "'x svc"
    by (rule wt_moves[OF that]) auto
  have plan: "moves (\<lambda>w w'. rp_Approvals (w_Repos w') = rp_Approvals (w_Repos w)) (updateLatestPlanStepInStore sid s)" for s
    unfolding updateLatestPlanStepInStore_def updateLatestPlanStepInStoreWithBudgets_def do_plan_Update_def Let_def
    by (intro appr.mv_rules appr.mv_sexec) (auto split: sum.splits)
  have att: "moves (\<lambda>w w'. rp_Approvals (w_Repos w') = rp_Approvals (w_Repos w)) (finalizeBlockedAttemptForAbortInStore sid aid s r now)" for s r
    unfolding finalizeBlockedAttemptForAbortInStore_def do_attempt_Update_def Let_def
    by (intro appr.mv_rules appr.mv_sexec) (auto split: sum.splits)
  show ?thesis unfolding abortPendingApprovalInStore_def if_not_P[OF aid] Let_def
    by (rule wt_bind[OF get], rule wt_assume, simp only:, rule wt_bind[OF upd], rule wt_bind[OF keep[OF plan]], rule wt_bind[OF keep[OF att]],
        rule keep, unfold approval_event_def, intro appr.mv_rules)
qed

lemma ok_end_blocked:
  assumes "keyed br_BlockedRuntimeID (rp_BlockedRuntimes r0)"
  shows "ok (\<lambda>w. rp_BlockedRuntimes (w_Repos w) = rp_BlockedRuntimes r0) (abortCurrentBlockedRuntimeInStore sid bid reason now)
    (\<lambda>w. \<exists>b. gm_get (rp_BlockedRuntimes (w_Repos w)) bid = Some b \<and> br_Status b = BlockedRuntimeAborted)"
  using keyed_get[OF assms]
  by (auto simp: wtriple_def abortCurrentBlockedRuntimeInStore_def blockedRuntimeRecordOrErr_def do_blocked_Get_def blocked_Get_def mem_get_def
      do_blocked_Update_def blocked_Update_def blockedRuntimeAuditEvent_def svc_apply Let_def split: option.split)

abbreviation rest_of :: "repos \<Rightarrow> session_map \<times> task_map \<times> runtime_handle gomap" where
  "rest_of r \<equiv> (rp_Sessions r, rp_Tasks r, rp_RuntimeHandles r)"

lemma ok_conj: "ok P m Q \<Longrightarrow> ok P m Q' \<Longrightarrow> ok P m (\<lambda>w. Q w \<and> Q' w)"
  by (auto simp: wtriple_def split: prod.splits sum.splits)

lemma ok_end_waiting:
  assumes "approvals_fit (rp_Sessions r0) (rp_Approvals r0)" and "keyed br_BlockedRuntimeID (rp_BlockedRuntimes r0)"
    and st: "session_Get sid (rp_Sessions r0) = Inr st"
  shows "ok (\<lambda>w. main_records (w_Repos w) = main_records r0) (end_waiting st planID reason now)
    (\<lambda>w. rest_of (w_Repos w) = rest_of r0 \<and> waiting_ended st (w_Repos w))"
proof (rule ok_conj)
  show "ok (\<lambda>w. main_records (w_Repos w) = main_records r0) (end_waiting st planID reason now) (\<lambda>w. rest_of (w_Repos w) = rest_of r0)"
    by (rule wt_weaken[OF wt_moves[OF end_waiting_rest, of "\<lambda>w. rest_of (w_Repos w) = rest_of r0"]]) (auto simp: main_records_def)
  have wf: "approval_wf (rp_Approvals r0)" and fits: "pending_fits (rp_Approvals r0) sid st" using assms(1) st by (auto simp: approvals_fit_def)
  consider (pending) "st_PendingApprovalID st \<noteq> []" | (blocked) "st_PendingApprovalID st = []" "currentBlockedRuntimeID st \<noteq> []"
    | (none) "st_PendingApprovalID st = []" "currentBlockedRuntimeID st = []" by blast
  then show "ok (\<lambda>w. main_records (w_Repos w) = main_records r0) (end_waiting st planID reason now) (\<lambda>w. waiting_ended st (w_Repos w))"
  proof cases
    case pending
    then obtain rec where rec: "gm_get (rp_Approvals r0) (st_PendingApprovalID st) = Some rec" "ap_Status rec \<in> {ApprovalPending, ApprovalApproved}"
      using fits unfolding pending_fits_def by blast
    show ?thesis unfolding end_waiting_def if_P[OF pending]
      by (rule wt_weaken[OF ok_end_pending[OF wf rec pending]]) (auto simp: main_records_def waiting_ended_def pending)
  next
    case blocked
    have "ok (\<lambda>w. main_records (w_Repos w) = main_records r0) (abortCurrentBlockedRuntimeInStore (st_SessionID st) (currentBlockedRuntimeID st) reason now)
        (\<lambda>w. waiting_ended st (w_Repos w))"
      by (rule wt_weaken[OF ok_end_blocked[OF assms(2)]]) (use blocked in \<open>auto simp: main_records_def waiting_ended_def\<close>)
    then show ?thesis unfolding end_waiting_def using blocked by simp
  next
    case none
    show ?thesis by (rule okI) (simp add: waiting_ended_def none)
  qed
qed

lemma ok_end_task:
  assumes wf: "task_wf (rp_Tasks r0)" and ph: "st_Phase a = PhaseAborted" and tid: "st_TaskID a = st_TaskID st"
  shows "ok (\<lambda>w. rest_of (w_Repos w) = rest_of r0 \<and> waiting_ended st (w_Repos w)) (updateTaskForTerminalInStore a)
    (\<lambda>w. rp_Sessions (w_Repos w) = rp_Sessions r0 \<and> rp_RuntimeHandles (w_Repos w) = rp_RuntimeHandles r0
       \<and> waiting_ended st (w_Repos w) \<and> task_ended st (w_Repos w))"
proof (cases "st_TaskID st = []")
  case True
  then show ?thesis using tid by (auto simp: wtriple_def updateTaskForTerminalInStore_def svc_apply task_ended_def)
next
  case False
  then show ?thesis using tid ph keyed_get[OF wf]
    by (auto simp: wtriple_def updateTaskForTerminalInStore_def svc_apply task_ended_def do_task_Get_def task_Get_def mem_get_def
        do_task_Update_def task_Update_def terminal_task_status_def waiting_ended_def Let_def split: option.split)
qed

lemma ok_end_handles:
  assumes wf: "keyed rh_HandleID (rp_RuntimeHandles r0)" and sid: "sid \<noteq> []"
  shows "ok (\<lambda>w. rp_Sessions (w_Repos w) = rp_Sessions r0 \<and> rp_RuntimeHandles (w_Repos w) = rp_RuntimeHandles r0
       \<and> waiting_ended st (w_Repos w) \<and> task_ended st (w_Repos w)) (reconcileActiveRuntimeHandlesInStore sid reason now)
    (\<lambda>w. rp_Sessions (w_Repos w) = rp_Sessions r0 \<and> waiting_ended st (w_Repos w) \<and> task_ended st (w_Repos w) \<and> handles_ended sid (w_Repos w))"
proof (rule okI)
  fix w hs w' assume w: "rp_Sessions (w_Repos w) = rp_Sessions r0 \<and> rp_RuntimeHandles (w_Repos w) = rp_RuntimeHandles r0
       \<and> waiting_ended st (w_Repos w) \<and> task_ended st (w_Repos w)"
    and run: "reconcileActiveRuntimeHandlesInStore sid reason now w = (Inr hs, w')"
  from reconcile_run[of w sid reason now] w wf sid run obtain T where
    get: "\<forall>k. handle_Get k (rp_RuntimeHandles (w_Repos w')) =
         (case handle_Get k (rp_RuntimeHandles (w_Repos w)) of Inl e \<Rightarrow> Inl e
          | Inr h \<Rightarrow> if rh_SessionID h = sid \<and> isRuntimeHandleActive h
                    then Inr (h\<lparr>rh_Status := RuntimeHandleInvalidated, rh_StatusReason := reason, rh_InvalidatedAt := now,
                                rh_UpdatedAt := T k, rh_Version := rh_Version h + 1\<rparr>)
                    else Inr h)"
    and r: "w_Repos w' = (w_Repos w)\<lparr>rp_RuntimeHandles := rp_RuntimeHandles (w_Repos w')\<rparr>" by auto
  have "handles_ended sid (w_Repos w')" unfolding handles_ended_def
    using get by (auto simp: isRuntimeHandleActive_def split: sum.splits if_splits)
  moreover have "rp_Sessions (w_Repos w') = rp_Sessions (w_Repos w)" "rp_Approvals (w_Repos w') = rp_Approvals (w_Repos w)"
    "rp_Tasks (w_Repos w') = rp_Tasks (w_Repos w)" "rp_BlockedRuntimes (w_Repos w') = rp_BlockedRuntimes (w_Repos w)"
    by (subst r, simp)+
  ultimately show "rp_Sessions (w_Repos w') = rp_Sessions r0 \<and> waiting_ended st (w_Repos w') \<and> task_ended st (w_Repos w') \<and> handles_ended sid (w_Repos w')"
    using w by (simp add: waiting_ended_def task_ended_def)
qed

abbreviation all_ended :: "string \<Rightarrow> session \<Rightarrow> repos \<Rightarrow> bool" where
  "all_ended sid st r \<equiv> session_ended sid r \<and> waiting_ended st r \<and> task_ended st r \<and> handles_ended sid r"

lemma ok_end_session:
  assumes "st_SessionID st = sid"
  shows "ok (\<lambda>w. rp_Sessions (w_Repos w) = rp_Sessions r0 \<and> waiting_ended st (w_Repos w) \<and> task_ended st (w_Repos w) \<and> handles_ended sid (w_Repos w))
    (do_session_Update (aborted_session st reason)) (\<lambda>w. all_ended sid st (w_Repos w))"
proof (rule okI)
  fix w x w' assume w: "rp_Sessions (w_Repos w) = rp_Sessions r0 \<and> waiting_ended st (w_Repos w) \<and> task_ended st (w_Repos w) \<and> handles_ended sid (w_Repos w)"
    and run: "do_session_Update (aborted_session st reason) w = (Inr x, w')"
  obtain t m where m: "session_Update t (aborted_session st reason) (rp_Sessions (w_Repos w)) = Inr m" and r: "w_Repos w' = (w_Repos w)\<lparr>rp_Sessions := m\<rparr>"
    using run by (auto simp: do_session_Update_def svc_apply split: sum.splits)
  from m obtain c where c: "session_Get (st_SessionID (aborted_session st reason)) m = Inr c" "same_run_state c (aborted_session st reason)"
    by (rule session_Update_stored)
  have "currentBlockedRuntimeID (aborted_session st reason) = []" "st_InFlightStepID (aborted_session st reason) = []"
    by (simp_all add: currentBlockedRuntimeID_def aborted_session_def setCurrentBlockedRuntime_def Let_def delete_conv)
  with c have "session_ended sid (w_Repos w')" unfolding session_ended_def r
    by (auto simp: aborted_session_fields assms same_run_state_def currentBlockedRuntimeID_def)
  then show "all_ended sid st (w_Repos w')" using w r by (simp add: waiting_ended_def task_ended_def handles_ended_def)
qed

section \<open>Properties\<close>

lemma all_ended_audits: "all_ended sid st (r\<lparr>rp_Audits := s\<rparr>) = all_ended sid st r"
  by (simp add: session_ended_def waiting_ended_def task_ended_def handles_ended_def)

lemma ok_quiet:
  assumes "quiet m"
  shows "ok (\<lambda>w. P (w_Repos w)) m (\<lambda>w. P (w_Repos w))"
proof (rule okI)
  fix w x w' assume "P (w_Repos w)" "m w = (Inr x, w')"
  then show "P (w_Repos w')" using assms unfolding quiet_def by (metis snd_conv)
qed

lemma quiet_bind: "quiet m \<Longrightarrow> (\<And>x. quiet (k x)) \<Longrightarrow> quiet (sbind m k)"
  by (auto simp: quiet_def sbind_def split: prod.split sum.split) (metis snd_conv)+

lemma quiet_basic: "quiet (sret x)" "quiet newUUID" "quiet nowMilli" "quiet (sread f)" "quiet (do_task_Get tid)" "quiet (do_approval_Get aid)"
    "quiet (blockedRuntimeRecordOrErr bid)" "quiet (getSessionRecord sv sid)"
  by (auto simp: quiet_def svc_apply do_task_Get_def do_approval_Get_def blockedRuntimeRecordOrErr_def do_blocked_Get_def split: sum.split)
    (metis quiet_readRepositories quiet_def getSessionRecord_def)

lemma quiet_events:
  "quiet (abort_events current request reason now)" "quiet (task_aborted_event aborted t now)" "quiet (runtimeHandleAuditEvents now ty hs)"
proof -
  have "quiet (abort_event ty st tid stepID now p)" for ty st tid stepID p unfolding abort_event_def by (intro quiet_bind quiet_basic)
  then show "quiet (abort_events current request reason now)" "quiet (task_aborted_event aborted t now)"
    unfolding abort_events_def task_aborted_event_def by (auto intro!: quiet_bind quiet_basic split: option.split)
  show "quiet (runtimeHandleAuditEvents now ty hs)" by (induction hs) (auto intro!: quiet_bind quiet_basic)
qed

lemma quiet_originals: "quiet (abort_originals st planID)"
  unfolding abort_originals_def waiting_originals_def latestPlanStepByID_def snapshotActiveRuntimeHandles_def Let_def
  by (auto intro!: quiet_bind quiet_basic)

lemma ok_abort_writes:
  assumes fit: "approvals_fit (rp_Sessions r0) (rp_Approvals r0)" and wf: "records_wf r0" "keyed br_BlockedRuntimeID (rp_BlockedRuntimes r0)"
    and st: "session_Get sid (rp_Sessions r0) = Inr st" and sid: "sid \<noteq> []"
  shows "ok (\<lambda>w. main_records (w_Repos w) = main_records r0) (abort_writes b st (aborted_session st reason) planID reason now) (\<lambda>w. all_ended sid st (w_Repos w))"
proof -
  have id: "st_SessionID st = sid" using session_Get_id[OF _ st] fit by (simp add: approvals_fit_def)
  have og: "quiet (if b then sret no_originals else abort_originals st planID)" by (simp add: quiet_basic quiet_originals)
  show ?thesis unfolding abort_writes_def Let_def id
    by (rule wt_bind[OF ok_quiet[OF og]], rule wt_bind[OF ok_end_waiting[OF fit wf(2) st]],
        rule wt_bind[OF ok_guarded[OF ok_end_task[of r0 _ st]]], (use wf in \<open>simp add: records_wf_def\<close>),
        rule aborted_session_fields, rule aborted_session_fields, rule wt_bind[OF ok_quiet[OF quiet_events(2)]],
        rule wt_bind[OF ok_guarded[OF ok_end_handles[of r0, OF _ sid]]], (use wf in \<open>simp add: records_wf_def\<close>),
        rule wt_bind[OF ok_quiet[OF quiet_events(3)]], rule wt_bind[OF ok_guarded[OF ok_end_session[OF id]]], rule wt_sret)
qed

lemma ok_abort_unit:
  assumes fit: "approvals_fit (rp_Sessions r0) (rp_Approvals r0)" and wf: "records_wf r0" "keyed br_BlockedRuntimeID (rp_BlockedRuntimes r0)"
    and st: "session_Get sid (rp_Sessions r0) = Inr st" and sid: "sid \<noteq> []"
  shows "ok (\<lambda>w. main_records (w_Repos w) = main_records r0) (with_runner sv (\<lambda>hasSink emit.
      sbind (abort_writes hasSink st (aborted_session st reason) planID reason now) (\<lambda>(t, evs).
        sbind (emit (events @ evs)) (\<lambda>_. sret (t, events @ evs))))) (\<lambda>w. all_ended sid st (w_Repos w))"
proof (rule wt_with_runner[where F = "\<lambda>w. all_ended sid st (w_Repos w)"])
  show "ok (\<lambda>w. main_records (w_Repos w) = main_records r0) (sbind (abort_writes b st (aborted_session st reason) planID reason now) (\<lambda>(t, evs).
      sbind (emit (events @ evs)) (\<lambda>_. sret (t, events @ evs)))) (\<lambda>w. all_ended sid st (w_Repos w))"
    if "\<And>evs. ok (\<lambda>w. all_ended sid st (w_Repos w)) (emit evs) (\<lambda>w. all_ended sid st (w_Repos w))" for b emit
    by (rule wt_bind[OF ok_abort_writes[OF assms]], rule wt_prod, rule wt_bind[OF that], rule wt_sret)
  show "moves tame (sbind (abort_writes b st (aborted_session st reason) planID reason now) (\<lambda>(t, evs).
      sbind (emit (events @ evs)) (\<lambda>_. sret (t, events @ evs))))" if "\<And>evs. moves tame (emit evs)" for b emit
    by (intro ids.mv_rules ids_abort_writes that)
qed (simp_all add: all_ended_audits)

text \<open>
  C9. An aborted session is at rest. When a session that has not ended is aborted and the call
  succeeds, with any runner and whatever the application's sink answers, the stored session is in the
  aborted phase, idle, without lease, pending approval, blocked runtime or step in flight; the
  approval it waited for is rejected or used up, or else the blocked runtime it waited for is aborted;
  its task is aborted; and none of its runtime handles is active.
\<close>

theorem abort_settles:
  assumes run: "AbortSession sv sid request w = (Inr out, w')" and st: "session_Get sid (rp_Sessions (w_Repos w)) = Inr st"
    and ph: "st_Phase st \<noteq> PhaseAborted" and sid: "sid \<noteq> []"
    and fit: "fit w" and blocked: "keyed br_BlockedRuntimeID (rp_BlockedRuntimes (w_Repos w))"
  shows "session_ended sid (w_Repos w') \<and> waiting_ended st (w_Repos w') \<and> task_ended st (w_Repos w') \<and> handles_ended sid (w_Repos w')"
proof -
  let ?P = "\<lambda>v. main_records (w_Repos v) = main_records (w_Repos w)"
  have fits: "approvals_fit (rp_Sessions (w_Repos w)) (rp_Approvals (w_Repos w))" "records_wf (w_Repos w)" using fit by (simp_all add: fit_def)
  have get: "wtriple ?P (getSessionRecord sv sid) (\<lambda>x v. x = st \<and> ?P v) (\<lambda>_. True)"
  proof (rule wtripleI)
    fix v x v' assume v: "?P v" and got: "getSessionRecord sv sid v = (Inr x, v')"
    have "x = st" using getSessionRecord_Inr[OF got] v st by (simp add: main_records_def)
    then show "x = st \<and> ?P v'" using wtripleD(1)[OF ok_quiet[OF quiet_basic(8), where P = "\<lambda>r. main_records r = main_records (w_Repos w)"] v got] by simp
  qed simp
  have "ok ?P (AbortSession sv sid request) (\<lambda>v. all_ended sid st (w_Repos v))"
    unfolding AbortSession_def Let_def
    by (rule wt_bind[OF get], rule wt_assume, simp only: ph if_False, rule wt_if, rule wt_sfail, simp,
        rule wt_bind[OF ok_quiet[OF quiet_basic(3)]], rule wt_bind[OF ok_quiet[OF quiet_events(1)]],
        rule wt_bind[OF ok_abort_unit[OF fits blocked st sid]], rule wt_prod, rule wt_bind[OF ok_quiet[OF quiet_basic(3)]], rule wt_sret)
  from wtripleD(1)[OF this _ run] show ?thesis by simp
qed

definition ex_abort_world :: world where
  "ex_abort_world = ex_run_world\<lparr>w_Repos := (w_Repos ex_run_world)\<lparr>rp_RuntimeHandles := [(''h1'', ex_handle ''h1'')]\<rparr>\<rparr>"

theorem abort_settles_witness:
  "\<exists>out w'. AbortSession ex_service ''s1'' \<lparr>aq_Code = [], aq_Reason = ''stop'', aq_Metadata = []\<rparr> ex_abort_world = (Inr out, w')
     \<and> session_ended ''s1'' (w_Repos w') \<and> handles_ended ''s1'' (w_Repos w')
     \<and> (\<exists>h. handle_Get ''h1'' (rp_RuntimeHandles (w_Repos ex_abort_world)) = Inr h \<and> rh_SessionID h = ''s1'' \<and> isRuntimeHandleActive h)"
proof -
  let ?run = "AbortSession ex_service ''s1'' \<lparr>aq_Code = [], aq_Reason = ''stop'', aq_Metadata = []\<rparr> ex_abort_world"
  have "case fst ?run of Inr _ \<Rightarrow> True | Inl _ \<Rightarrow> False" by code_simp
  then obtain out w' where run: "?run = (Inr out, w')" by (cases ?run; cases "fst ?run") auto
  have g: "case session_Get ''s1'' (rp_Sessions (w_Repos ex_abort_world)) of Inr st \<Rightarrow> st_Phase st = PhaseReceived | Inl _ \<Rightarrow> False" by code_simp
  then obtain st where st: "session_Get ''s1'' (rp_Sessions (w_Repos ex_abort_world)) = Inr st" "st_Phase st \<noteq> PhaseAborted"
    by (auto split: sum.splits)
  have "keyed rh_HandleID [(''h1'', ex_handle ''h1'')]" by code_simp
  then have fit: "fit ex_abort_world"
    using fit_ex_run_world by (auto simp: fit_def ex_abort_world_def records_wf_def unseen_def)
  have wf: "keyed br_BlockedRuntimeID (rp_BlockedRuntimes (w_Repos ex_abort_world))" by code_simp
  have h: "\<exists>h. handle_Get ''h1'' (rp_RuntimeHandles (w_Repos ex_abort_world)) = Inr h \<and> rh_SessionID h = ''s1'' \<and> isRuntimeHandleActive h"
    by (simp add: ex_abort_world_def handle_Get_def mem_get_def ex_handle_def isRuntimeHandleActive_def)
  from abort_settles[OF run st _ fit wf] run h show ?thesis by auto
qed

end
