(* ===== verification/Approval_Machine.thy ===== *)
theory Approval_Machine
  imports Abort_Effect
begin

text \<open>
  The calls on sessions and approvals as one state machine, and the invariant that holds along all
  its runs.
\<close>

section \<open>The state machine\<close>

text \<open>
  One call of a client or a worker, whatever it returns: a step run under any lease, an answer to an
  approval, a resumption, an abortion of a session whose task is stored, or a call on leases.
\<close>

inductive approval_step :: "service \<Rightarrow> app \<Rightarrow> world \<Rightarrow> world \<Rightarrow> bool" for sv hx where
  run: "approval_step sv hx w (snd (runStepWithDecision sv hx sid L s None None w))"
| respond: "approval_step sv hx w (snd (RespondApproval sv aid response w))"
| resume: "approval_step sv hx w (snd (resumePendingApprovalWithLease sv hx sid L w))"
| abort: "(\<And>st. session_Get sid (rp_Sessions (w_Repos w)) = Inr st \<Longrightarrow> st_TaskID st \<noteq> [] \<Longrightarrow> gm_get (rp_Tasks (w_Repos w)) (st_TaskID st) \<noteq> None) \<Longrightarrow>
     approval_step sv hx w (snd (AbortSession sv sid request w))"
| claim: "approval_step sv hx w (snd (claimSession sv mode ttl w))"
| renew: "approval_step sv hx w (snd (RenewSessionLease sv sid L ttl w))"
| release: "approval_step sv hx w (snd (ReleaseSessionLease sv sid L w))"

lemma approval_step_fit: "approval_step sv hx w w' \<Longrightarrow> harmless_app hx \<Longrightarrow> fit w \<Longrightarrow> fit w'"
proof (induction rule: approval_step.induct)
  case (run w sid L s)
  from wt_run[OF run(1), of None None sid sv L s] have "wtriple fit (runStepWithDecision sv hx sid L s None None) (\<lambda>_. fit) fit"
    by (simp add: given_def)
  from wtriple_end[OF this run(2)] show ?case .
next
  case (abort sid w request)
  then show ?case by (intro wtriple_end[OF wt_abort[of sid sv request]]) blast
qed (blast intro: wtriple_end[OF wt_respond] wtriple_end[OF wt_resume] fit_lease ids_leases approval_leases.keeps_leases)+

section \<open>Properties\<close>

text \<open>
  C4. Sessions and approvals never disagree. Along every sequence of step runs, answers,
  resumptions, abortions, claims, renewals and releases, with any policy, runner and answers of the
  application's sink, and whatever fails on the way, a session that names a pending approval names a
  stored one of its own that has not been rejected, consumed or withdrawn, and a session that awaits
  an approval names one that is still unanswered. (The resolver of capabilities is asked only to
  leave the repositories alone, and the ids drawn are new.)
\<close>

theorem approvals_consistent:
  assumes steps: "(approval_step sv hx)\<^sup>*\<^sup>* w w'" and app: "harmless_app hx" and start: "fit w"
  shows "fit w' \<and> (\<forall>sid st. session_Get sid (rp_Sessions (w_Repos w')) = Inr st \<longrightarrow>
     (st_PendingApprovalID st \<noteq> [] \<longrightarrow>
        (\<exists>ap. gm_get (rp_Approvals (w_Repos w')) (st_PendingApprovalID st) = Some ap \<and> ap_SessionID ap = sid
          \<and> ap_Status ap \<in> {ApprovalPending, ApprovalApproved})) \<and>
     (st_ExecutionState st = ExecutionAwaitingApproval \<longrightarrow>
        (\<exists>ap. gm_get (rp_Approvals (w_Repos w')) (st_PendingApprovalID st) = Some ap \<and> ap_SessionID ap = sid \<and> ap_Status ap = ApprovalPending)))"
proof -
  have fit: "fit w'" using steps by induction (use start approval_step_fit[OF _ app] in auto)
  then have "session_Get sid (rp_Sessions (w_Repos w')) = Inr st \<Longrightarrow> pending_fits (rp_Approvals (w_Repos w')) sid st" for sid st
    by (simp add: fit_def approvals_fit_def)
  with fit show ?thesis unfolding pending_fits_def by blast
qed

theorem approvals_consistent_witness:
  "fit (snd (RespondApproval ex_service ''a'' \<lparr>rs_Reply = ReplyOnce, rs_Metadata = None\<rparr>
     (snd (runStepWithDecision ex_service (ex_app Ask) ''s1'' [] ex_step None None ex_run_world))))"
proof -
  let ?w = "snd (runStepWithDecision ex_service (ex_app Ask) ''s1'' [] ex_step None None ex_run_world)"
  have "(approval_step ex_service (ex_app Ask))\<^sup>*\<^sup>* ex_run_world (snd (RespondApproval ex_service ''a'' \<lparr>rs_Reply = ReplyOnce, rs_Metadata = None\<rparr> ?w))"
    by (rule converse_rtranclp_into_rtranclp, rule approval_step.run, rule r_into_rtranclp, rule approval_step.respond)
  from approvals_consistent[OF this harmless_ex_app fit_ex_run_world] show ?thesis by blast
qed

end
