(* ===== verification/Verify_Builtins.thy ===== *)
theory Verify_Builtins
  imports Step_Records "HOL-Library.Sublist"
begin

text \<open>
  The verifiers that come with the runtime: \<^verbatim>\<open>pkg/harness/verify\<close> builtins.go. Nine of them judge the
  result of an action, five probe the outside world until a deadline. JSON texts, regular
  expressions, \<^verbatim>\<open>reflect.DeepEqual\<close> and the outside world are parameters; the \<open>n\<close>-th probe of the
  network or the file system sees the world at index \<open>n\<close>.
\<close>

section \<open>The environment\<close>

record check_env =
  ce_Json :: "gval \<Rightarrow> string option"
  ce_DeepEqual :: "gval \<Rightarrow> gval \<Rightarrow> bool"
  ce_Regexp :: "string \<Rightarrow> string + (string \<Rightarrow> bool)"
  ce_Dial :: "nat \<Rightarrow> string \<Rightarrow> bool"
  ce_Stat :: "nat \<Rightarrow> string \<Rightarrow> bool"
  ce_ReadFile :: "nat \<Rightarrow> string \<Rightarrow> string option"
  ce_Http :: "nat \<Rightarrow> string \<Rightarrow> (int \<times> string) option"
  ce_ParseObject :: "string \<Rightarrow> meta option"
  ce_Ticks :: "int \<Rightarrow> int \<Rightarrow> nat"
  ce_DoneText :: string

section \<open>Values and paths\<close>

definition accept :: "meta \<Rightarrow> verify_result" where
  "accept details = \<lparr>vr_Success = True, vr_Details = details, vr_Reason = []\<rparr>"

definition refuse :: "string \<Rightarrow> meta \<Rightarrow> verify_result" where
  "refuse reason details = \<lparr>vr_Success = False, vr_Details = details, vr_Reason = reason\<rparr>"

definition asInt :: "gval option \<Rightarrow> int option" where
  "asInt v = int64_case v"

text \<open>Rounding to the 53 bits of a \<^verbatim>\<open>float64\<close>, to nearest, ties to even.\<close>

definition round_half_even :: "nat \<Rightarrow> nat \<Rightarrow> nat" where
  "round_half_even n d = (let q = n div d; r = n mod d in if 2 * r < d \<or> 2 * r = d \<and> even q then q else q + 1)"

fun round53 :: "nat \<Rightarrow> nat \<Rightarrow> nat" where
  "round53 n 0 = n"
| "round53 n (Suc k) = (if n < 2 ^ (53 + k) then round53 n k else round_half_even n (2 ^ Suc k) * 2 ^ Suc k)"

definition float64_of_int :: "int \<Rightarrow> rat" where
  "float64_of_int n = of_int (sgn n * int (round53 (nat \<bar>n\<bar>) 11))"

fun asFloat64 :: "gval \<Rightarrow> rat option" where
  "asFloat64 (VInt n) = Some (float64_of_int n)"
| "asFloat64 (VInt32 n) = Some (of_int n)"
| "asFloat64 (VInt64 n) = Some (float64_of_int n)"
| "asFloat64 (VFloat64 q) = Some q"
| "asFloat64 (VFloat32 q) = Some q"
| "asFloat64 _ = None"

function stringIndex_from :: "string \<Rightarrow> string \<Rightarrow> nat \<Rightarrow> int" where
  "stringIndex_from s sep i =
     (if i + length sep \<le> length s
      then if take (length sep) (drop i s) = sep then int i else stringIndex_from s sep (i + 1)
      else - 1)"
  by auto
termination by (relation "measure (\<lambda>(s, sep, i). Suc (length s) - i)") auto

declare stringIndex_from.simps [simp del]

definition stringIndex :: "string \<Rightarrow> string \<Rightarrow> int" where
  "stringIndex s sep = stringIndex_from s sep 0"

definition contains :: "string \<Rightarrow> string \<Rightarrow> bool" where
  "contains s needle \<longleftrightarrow> 0 < length needle \<and> length needle \<le> length s \<and> 0 \<le> stringIndex s needle"

definition requiredResultPath :: "meta \<Rightarrow> string option" where
  "requiredResultPath args = (let path = trim_space (as_string (gm_get args ''path'')) in if path = [] then None else Some path)"

definition descendPathValue :: "gval \<Rightarrow> string \<Rightarrow> gval option" where
  "descendPathValue current segment = (case current of
     VMap m \<Rightarrow> gm_get m segment
   | VList xs \<Rightarrow> index_value xs segment
   | _ \<Rightarrow> (case reflect_elements current of None \<Rightarrow> None | Some xs \<Rightarrow> index_value xs segment))"

fun descend_parts :: "gval \<Rightarrow> string list \<Rightarrow> gval option" where
  "descend_parts current [] = Some current"
| "descend_parts current (part # parts) = (case descendPathValue current part of None \<Rightarrow> None | Some v \<Rightarrow> descend_parts v parts)"

definition resolveResultPath :: "action_result \<Rightarrow> string \<Rightarrow> gval option" where
  "resolveResultPath r path = (case split_on CHR ''.'' (trim_space path) of
     [] \<Rightarrow> None
   | p # rest \<Rightarrow>
       if p \<noteq> ''result'' then None
       else (case rest of
               [] \<Rightarrow> Some (enc_action_result r)
             | name # parts \<Rightarrow> (case result_field r name of None \<Rightarrow> None | Some current \<Rightarrow> descend_parts current parts)))"

definition valuesEqual :: "check_env \<Rightarrow> gval \<Rightarrow> gval \<Rightarrow> bool" where
  "valuesEqual env a b = (case (ce_Json env a, ce_Json env b) of
     (Some ja, Some jb) \<Rightarrow> ja = jb
   | _ \<Rightarrow> ce_DeepEqual env a b)"

definition compareNumbers :: "rat \<Rightarrow> rat \<Rightarrow> string \<Rightarrow> bool" where
  "compareNumbers actual expected op =
     (if op = ''eq'' then actual = expected else if op = ''ne'' then actual \<noteq> expected
      else if op = ''gt'' then actual > expected else if op = ''gte'' then actual \<ge> expected
      else if op = ''lt'' then actual < expected else if op = ''lte'' then actual \<le> expected else False)"

section \<open>Checks of results\<close>

text \<open>The shape of the checks on a path: the path is required, then what the check needs, then the value.\<close>

definition at_path :: "meta \<Rightarrow> action_result \<Rightarrow> (string \<Rightarrow> verify_result option) \<Rightarrow> (string \<Rightarrow> gval \<Rightarrow> verify_result) \<Rightarrow> verify_result" where
  "at_path args result missing judge = (case requiredResultPath args of
     None \<Rightarrow> refuse ''missing path'' []
   | Some path \<Rightarrow> (case missing path of
       Some res \<Rightarrow> res
     | None \<Rightarrow> (case resolveResultPath result path of
         None \<Rightarrow> refuse ''path not found'' [(''path'', VStr path)]
       | Some v \<Rightarrow> judge path v)))"

definition ExitCodeChecker :: "meta \<Rightarrow> action_result \<Rightarrow> verify_result" where
  "ExitCodeChecker args result = (case gm_get args ''allowed'' of
     None \<Rightarrow> refuse ''missing allowed exit codes'' []
   | Some (VList allowed) \<Rightarrow> (case gm_get (ar_Data result) ''exit_code'' of
       None \<Rightarrow> refuse ''result missing exit_code'' []
     | Some raw \<Rightarrow> (case asInt (Some raw) of
         None \<Rightarrow> refuse ''exit_code is not numeric'' []
       | Some code \<Rightarrow>
           if list_ex (\<lambda>item. asInt (Some item) = Some code) allowed then accept [(''exit_code'', VInt code)]
           else refuse (''exit_code '' @ int_digits code @ '' not allowed'') [(''exit_code'', VInt code)]))
   | Some _ \<Rightarrow> refuse ''allowed must be an array'' [])"

definition OutputContainsChecker :: "meta \<Rightarrow> action_result \<Rightarrow> verify_result" where
  "OutputContainsChecker args result =
     (let needle = as_string (gm_get args ''text'');
          stdout = as_string (gm_get (ar_Data result) ''stdout''); stderr = as_string (gm_get (ar_Data result) ''stderr'')
      in if needle = [] then refuse ''missing text'' []
         else if contains (stdout @ [CHR 0x0A] @ stderr) needle then accept [(''text'', VStr needle)]
         else refuse ''text not found in output'' [(''text'', VStr needle)])"

definition ValueExistsChecker :: "meta \<Rightarrow> action_result \<Rightarrow> verify_result" where
  "ValueExistsChecker args result = at_path args result (\<lambda>_. None) (\<lambda>path v. accept [(''path'', VStr path), (''value'', v)])"

definition ValueEqualsChecker :: "check_env \<Rightarrow> meta \<Rightarrow> action_result \<Rightarrow> verify_result" where
  "ValueEqualsChecker env args result =
     at_path args result (\<lambda>_. if gm_get args ''expected'' = None then Some (refuse ''missing expected'' []) else None)
       (\<lambda>path v. let expected = the (gm_get args ''expected'') in
          if valuesEqual env v expected then accept [(''path'', VStr path), (''actual'', v)]
          else refuse ''value mismatch'' [(''path'', VStr path), (''actual'', v), (''expected'', expected)])"

definition array_arg :: "meta \<Rightarrow> string \<Rightarrow> gval list option" where
  "array_arg args key = (case gm_get args key of Some (VList xs) \<Rightarrow> Some xs | _ \<Rightarrow> None)"

definition ValueInChecker :: "check_env \<Rightarrow> meta \<Rightarrow> action_result \<Rightarrow> verify_result" where
  "ValueInChecker env args result =
     at_path args result (\<lambda>_. if array_arg args ''allowed'' = None then Some (refuse ''allowed must be an array'' []) else None)
       (\<lambda>path v. let allowed = the (array_arg args ''allowed'') in
          if list_ex (valuesEqual env v) allowed then accept [(''path'', VStr path), (''actual'', v)]
          else refuse ''value not allowed'' [(''path'', VStr path), (''actual'', v), (''allowed'', VList allowed)])"

definition StringContainsAtChecker :: "meta \<Rightarrow> action_result \<Rightarrow> verify_result" where
  "StringContainsAtChecker args result =
     (let text = as_string (gm_get args ''text'') in
      at_path args result (\<lambda>_. if text = [] then Some (refuse ''missing text'' []) else None)
       (\<lambda>path v. case v of
          VStr s \<Rightarrow> if sublist text s then accept [(''path'', VStr path), (''text'', VStr text)]
                    else refuse ''text not found'' [(''path'', VStr path), (''text'', VStr text)]
        | _ \<Rightarrow> refuse ''value is not a string'' [(''path'', VStr path)]))"

definition StringMatchesAtChecker :: "check_env \<Rightarrow> meta \<Rightarrow> action_result \<Rightarrow> verify_result" where
  "StringMatchesAtChecker env args result =
     (let pattern = as_string (gm_get args ''pattern'') in
      at_path args result (\<lambda>_. if pattern = [] then Some (refuse ''missing pattern'' []) else None)
       (\<lambda>path v. case v of
          VStr s \<Rightarrow> (case ce_Regexp env pattern of
             Inl e \<Rightarrow> refuse e [(''pattern'', VStr pattern)]
           | Inr matches \<Rightarrow>
               if matches s then accept [(''path'', VStr path), (''pattern'', VStr pattern)]
               else refuse ''pattern did not match'' [(''path'', VStr path), (''pattern'', VStr pattern)])
        | _ \<Rightarrow> refuse ''value is not a string'' [(''path'', VStr path)]))"

definition NumberCompareChecker :: "meta \<Rightarrow> action_result \<Rightarrow> verify_result" where
  "NumberCompareChecker args result =
     (let op = as_string (gm_get args ''op'') in
      at_path args result
       (\<lambda>_. if op = [] then Some (refuse ''missing op'' [])
            else if gm_get args ''expected'' = None then Some (refuse ''missing expected'' []) else None)
       (\<lambda>path v. case asFloat64 v of
          None \<Rightarrow> refuse ''value is not numeric'' [(''path'', VStr path)]
        | Some actual \<Rightarrow> (case asFloat64 (the (gm_get args ''expected'')) of
            None \<Rightarrow> refuse ''expected is not numeric'' []
          | Some expected \<Rightarrow>
              let details = [(''path'', VStr path), (''actual'', VFloat64 actual), (''expected'', VFloat64 expected), (''op'', VStr op)] in
              if compareNumbers actual expected op then accept details else refuse ''numeric comparison failed'' details)))"

text \<open>\<^verbatim>\<open>reflect.ValueOf\<close> on a slice or an array; a \<^verbatim>\<open>[]any\<close> is one.\<close>

definition collection_items :: "gval \<Rightarrow> gval list option" where
  "collection_items v = (case v of VList xs \<Rightarrow> Some xs | _ \<Rightarrow> reflect_elements v)"

definition CollectionContainsChecker :: "check_env \<Rightarrow> meta \<Rightarrow> action_result \<Rightarrow> verify_result" where
  "CollectionContainsChecker env args result =
     at_path args result (\<lambda>_. if gm_get args ''expected'' = None then Some (refuse ''missing expected'' []) else None)
       (\<lambda>path v. let expected = the (gm_get args ''expected'') in
          case collection_items v of
            None \<Rightarrow> refuse ''value is not a collection'' [(''path'', VStr path)]
          | Some xs \<Rightarrow>
              if list_ex (\<lambda>x. valuesEqual env x expected) xs then accept [(''path'', VStr path), (''expected'', expected)]
              else refuse ''expected item not found'' [(''path'', VStr path), (''expected'', expected)])"

section \<open>Checks that wait\<close>

text \<open>
  Durations in nanoseconds wrap around like every \<^verbatim>\<open>int64\<close>. \<^verbatim>\<open>time.NewTicker\<close> panics on an interval
  that is not positive, so the outcome of polling is one of three. The environment says how many ticks
  are served before the deadline of a poll is noticed; the probe runs once before the first tick.
\<close>

definition durationFromArgs :: "meta \<Rightarrow> string \<Rightarrow> int \<Rightarrow> int" where
  "durationFromArgs args key fallback = (case asInt64 (gm_get args key) of
     Some v \<Rightarrow> if 0 < v then wrap64 (v * 1000000) else fallback
   | None \<Rightarrow> fallback)"

datatype poll_outcome = PollOk | PollDone | PollPanic

fun poll_loop :: "(nat \<Rightarrow> bool) \<Rightarrow> nat \<Rightarrow> nat \<Rightarrow> poll_outcome" where
  "poll_loop probe n 0 = (if probe n then PollOk else PollDone)"
| "poll_loop probe n (Suc ticks) = (if probe n then PollOk else poll_loop probe (Suc n) ticks)"

definition pollUntil :: "check_env \<Rightarrow> meta \<Rightarrow> (nat \<Rightarrow> bool) \<Rightarrow> poll_outcome" where
  "pollUntil env args probe =
     (let timeout = durationFromArgs args ''timeout_ms'' 1000000000; interval = durationFromArgs args ''interval_ms'' 50000000
      in if interval \<le> 0 then PollPanic else poll_loop probe 0 (ce_Ticks env timeout interval))"

definition resultFromPollError :: "string option \<Rightarrow> meta \<Rightarrow> verify_result" where
  "resultFromPollError err details = (case err of None \<Rightarrow> accept details | Some e \<Rightarrow> refuse e details)"

text \<open>The end of every waiting check; \<open>None\<close> is a panic.\<close>

definition poll_result :: "check_env \<Rightarrow> poll_outcome \<Rightarrow> meta \<Rightarrow> verify_result option" where
  "poll_result env p details = (case p of
     PollOk \<Rightarrow> Some (accept details)
   | PollDone \<Rightarrow> Some (resultFromPollError (Some (ce_DoneText env)) details)
   | PollPanic \<Rightarrow> None)"

definition JoinHostPort :: "string \<Rightarrow> string \<Rightarrow> string" where
  "JoinHostPort host port = (if CHR '':'' \<in> set host then ''['' @ host @ '']:'' @ port else host @ '':'' @ port)"

definition tcpAddressFromArgs :: "meta \<Rightarrow> string option" where
  "tcpAddressFromArgs args =
     (let address = trim_space (as_string (gm_get args ''address'')); host = trim_space (as_string (gm_get args ''host'')) in
      if address \<noteq> [] then Some address
      else case asInt (gm_get args ''port'') of
        Some port \<Rightarrow> if host = [] \<or> port \<le> 0 then None else Some (JoinHostPort host (int_digits port))
      | None \<Rightarrow> None)"

definition TCPPortOpenChecker :: "check_env \<Rightarrow> meta \<Rightarrow> verify_result option" where
  "TCPPortOpenChecker env args = (case tcpAddressFromArgs args of
     None \<Rightarrow> Some (refuse ''missing address or host/port'' [])
   | Some address \<Rightarrow> poll_result env (pollUntil env args (\<lambda>n. ce_Dial env n address)) [(''address'', VStr address)])"

definition FileExistsEventuallyChecker :: "check_env \<Rightarrow> meta \<Rightarrow> verify_result option" where
  "FileExistsEventuallyChecker env args =
     (let path = as_string (gm_get args ''path'') in
      if path = [] then Some (refuse ''missing path'' [])
      else poll_result env (pollUntil env args (\<lambda>n. ce_Stat env n path)) [(''path'', VStr path)])"

definition FileContentContainsEventuallyChecker :: "check_env \<Rightarrow> meta \<Rightarrow> verify_result option" where
  "FileContentContainsEventuallyChecker env args =
     (let path = as_string (gm_get args ''path''); text = as_string (gm_get args ''text'') in
      if path = [] then Some (refuse ''missing path'' [])
      else if text = [] then Some (refuse ''missing text'' [])
      else poll_result env (pollUntil env args (\<lambda>n. case ce_ReadFile env n path of None \<Rightarrow> False | Some body \<Rightarrow> sublist text body))
             [(''path'', VStr path), (''text'', VStr text)])"

definition HTTPEventuallyStatusCodeChecker :: "check_env \<Rightarrow> meta \<Rightarrow> verify_result option" where
  "HTTPEventuallyStatusCodeChecker env args =
     (let url = as_string (gm_get args ''url'') in
      if url = [] then Some (refuse ''missing url'' [])
      else case array_arg args ''allowed'' of
        None \<Rightarrow> Some (refuse ''allowed must be an array'' [])
      | Some allowed \<Rightarrow> poll_result env
          (pollUntil env args (\<lambda>n. case ce_Http env n url of
             None \<Rightarrow> False | Some (status, _) \<Rightarrow> list_ex (\<lambda>item. asInt (Some item) = Some status) allowed))
          [(''url'', VStr url)])"

definition HTTPEventuallyJSONFieldEqualsChecker :: "check_env \<Rightarrow> meta \<Rightarrow> verify_result option" where
  "HTTPEventuallyJSONFieldEqualsChecker env args =
     (let url = as_string (gm_get args ''url''); field = as_string (gm_get args ''field'') in
      if url = [] then Some (refuse ''missing url'' [])
      else if field = [] then Some (refuse ''missing field'' [])
      else case gm_get args ''expected'' of
        None \<Rightarrow> Some (refuse ''missing expected'' [])
      | Some expected \<Rightarrow> poll_result env
          (pollUntil env args (\<lambda>n. case ce_Http env n url of
             None \<Rightarrow> False
           | Some (_, body) \<Rightarrow> (case ce_ParseObject env body of
               None \<Rightarrow> False
             | Some parsed \<Rightarrow> (case gm_get parsed field of None \<Rightarrow> False | Some actual \<Rightarrow> valuesEqual env actual expected))))
          [(''url'', VStr url), (''field'', VStr field)])"

text \<open>The table of \<^verbatim>\<open>RegisterBuiltins\<close>.\<close>

definition builtin_checks :: "check_env \<Rightarrow> (meta \<Rightarrow> action_result \<Rightarrow> verify_result option) gomap" where
  "builtin_checks env =
     [(''exit_code'', \<lambda>args r. Some (ExitCodeChecker args r)), (''output_contains'', \<lambda>args r. Some (OutputContainsChecker args r)),
      (''value_exists'', \<lambda>args r. Some (ValueExistsChecker args r)), (''value_equals'', \<lambda>args r. Some (ValueEqualsChecker env args r)),
      (''value_in'', \<lambda>args r. Some (ValueInChecker env args r)), (''string_contains_at'', \<lambda>args r. Some (StringContainsAtChecker args r)),
      (''string_matches_at'', \<lambda>args r. Some (StringMatchesAtChecker env args r)), (''number_compare'', \<lambda>args r. Some (NumberCompareChecker args r)),
      (''collection_contains'', \<lambda>args r. Some (CollectionContainsChecker env args r)),
      (''tcp_port_open'', \<lambda>args r. TCPPortOpenChecker env args), (''file_exists_eventually'', \<lambda>args r. FileExistsEventuallyChecker env args),
      (''file_content_contains_eventually'', \<lambda>args r. FileContentContainsEventuallyChecker env args),
      (''http_eventually_status_code'', \<lambda>args r. HTTPEventuallyStatusCodeChecker env args),
      (''http_eventually_json_field_equals'', \<lambda>args r. HTTPEventuallyJSONFieldEqualsChecker env args)]"

section \<open>Lemmas\<close>

lemma stringIndex_from_nonneg:
  "0 \<le> stringIndex_from s sep i \<longleftrightarrow> (\<exists>j \<ge> i. j + length sep \<le> length s \<and> take (length sep) (drop j s) = sep)"
proof (induction s sep i rule: stringIndex_from.induct)
  case (1 s sep i)
  show ?case
  proof (cases "i + length sep \<le> length s \<and> take (length sep) (drop i s) \<noteq> sep")
    case True
    then have "(\<exists>j \<ge> i. j + length sep \<le> length s \<and> take (length sep) (drop j s) = sep)
        \<longleftrightarrow> (\<exists>j \<ge> i + 1. j + length sep \<le> length s \<and> take (length sep) (drop j s) = sep)"
      by (metis Suc_eq_plus1 Suc_leD not_less_eq_eq order_antisym_conv)
    then show ?thesis using True 1 by (subst stringIndex_from.simps) simp
  next
    case False
    then show ?thesis by (subst stringIndex_from.simps) auto
  qed
qed

lemma sublist_at: "sublist xs ys \<longleftrightarrow> (\<exists>j. j + length xs \<le> length ys \<and> take (length xs) (drop j ys) = xs)"
proof
  assume "sublist xs ys"
  then obtain ps ss where "ys = ps @ xs @ ss" unfolding sublist_def by blast
  then show "\<exists>j. j + length xs \<le> length ys \<and> take (length xs) (drop j ys) = xs" by (intro exI[of _ "length ps"]) simp
next
  assume "\<exists>j. j + length xs \<le> length ys \<and> take (length xs) (drop j ys) = xs"
  then obtain j where "take (length xs) (drop j ys) = xs" by blast
  then have "ys = take j ys @ xs @ drop (length xs) (drop j ys)" by (metis append_take_drop_id)
  then show "sublist xs ys" unfolding sublist_def by blast
qed

lemma contains_sublist: "contains s needle \<longleftrightarrow> needle \<noteq> [] \<and> sublist needle s"
  unfolding contains_def stringIndex_def stringIndex_from_nonneg sublist_at by auto

lemma poll_loop_ok: "poll_loop probe n ticks = PollOk \<longleftrightarrow> (\<exists>k \<le> ticks. probe (n + k))"
proof (induction ticks arbitrary: n)
  case (Suc ticks)
  have "(\<exists>k \<le> Suc ticks. probe (n + k)) \<longleftrightarrow> probe n \<or> (\<exists>k \<le> ticks. probe (Suc n + k))"
    by (metis (no_types, opaque_lifting) add.right_neutral add_Suc add_Suc_right le_SucE not0_implies_Suc Suc_le_mono zero_le)
  then show ?case using Suc by simp
qed simp

lemma poll_loop_total: "poll_loop probe n ticks \<noteq> PollPanic"
  by (induction ticks arbitrary: n) auto

section \<open>Properties\<close>

text \<open>
  The hand-written search is a search for a contiguous part: a step whose output is checked with
  \<^verbatim>\<open>output_contains\<close> passes exactly if the text is not empty and occurs in the standard output, a line
  break and the standard error put together. A file or an address that is waited for passes exactly if
  one of the probes up to the deadline sees it, and the check returns unless the interval overflows.
\<close>

theorem text_checks_exact:
  "(vr_Success (OutputContainsChecker args result) \<longleftrightarrow>
      as_string (gm_get args ''text'') \<noteq> []
      \<and> sublist (as_string (gm_get args ''text''))
          (as_string (gm_get (ar_Data result) ''stdout'') @ [CHR 0x0A] @ as_string (gm_get (ar_Data result) ''stderr'')))
   \<and> ((\<exists>res. FileExistsEventuallyChecker env args = Some res \<and> vr_Success res) \<longleftrightarrow>
      as_string (gm_get args ''path'') \<noteq> [] \<and> 0 < durationFromArgs args ''interval_ms'' 50000000
      \<and> (\<exists>n \<le> ce_Ticks env (durationFromArgs args ''timeout_ms'' 1000000000) (durationFromArgs args ''interval_ms'' 50000000).
           ce_Stat env n (as_string (gm_get args ''path''))))
   \<and> (FileExistsEventuallyChecker env args = None \<longleftrightarrow>
      as_string (gm_get args ''path'') \<noteq> [] \<and> durationFromArgs args ''interval_ms'' 50000000 \<le> 0)"
proof -
  let ?path = "as_string (gm_get args ''path'')" and ?i = "durationFromArgs args ''interval_ms'' 50000000"
  let ?p = "pollUntil env args (\<lambda>n. ce_Stat env n ?path)"
  have out: "vr_Success (OutputContainsChecker args result) \<longleftrightarrow> as_string (gm_get args ''text'') \<noteq> []
      \<and> sublist (as_string (gm_get args ''text''))
          (as_string (gm_get (ar_Data result) ''stdout'') @ [CHR 0x0A] @ as_string (gm_get (ar_Data result) ''stderr''))"
    by (auto simp: OutputContainsChecker_def Let_def contains_sublist accept_def refuse_def)
  have ok: "?p = PollOk \<longleftrightarrow> 0 < ?i \<and> (\<exists>n \<le> ce_Ticks env (durationFromArgs args ''timeout_ms'' 1000000000) ?i. ce_Stat env n ?path)"
    using poll_loop_ok[of "\<lambda>n. ce_Stat env n ?path" 0] by (auto simp: pollUntil_def Let_def)
  have panic: "?p = PollPanic \<longleftrightarrow> ?i \<le> 0" by (simp add: pollUntil_def Let_def poll_loop_total)
  show ?thesis using out ok panic
    by (auto simp: FileExistsEventuallyChecker_def Let_def poll_result_def resultFromPollError_def accept_def refuse_def split: poll_outcome.splits)
qed

text \<open>An interval of more than 292 years in milliseconds wraps to a negative duration, and the check panics.\<close>

theorem interval_overflow_panics:
  "FileExistsEventuallyChecker env [(''path'', VStr ''f''), (''interval_ms'', VInt64 9223372036855)] = None"
  by (simp add: FileExistsEventuallyChecker_def pollUntil_def durationFromArgs_def asInt64_def wrap64_def poll_result_def)

end
