(* ===== verification/Fanout.thy ===== *)
theory Fanout
  imports Step_Runner
begin

text \<open>
  Rounds of a fan-out: \<^verbatim>\<open>pkg/harness/runtime\<close> fanout_scheduler.go. The runnable steps of one aggregate
  are prepared one after the other, run concurrently behind a semaphore, and recorded together. The
  goroutines share the clock, the source of ids and the application's tools; which of them comes when
  is a parameter, the order in which the prepared steps take effect.
\<close>

section \<open>Data\<close>

record fanout_round =
  fr_AggregateID :: string
  fr_AnchorStepID :: string
  fr_MaxConcurrency :: int
  fr_Steps :: "step list"

record fanout_prepared =
  fp_Original :: step
  fp_Step :: step
  fp_Decision :: decision
  fp_Attempt :: attempt

text \<open>The flags and the duration that only the metrics use are left out.\<close>

record fanout_outcome =
  fo_Step :: step
  fo_Execution :: execution_result
  fo_Attempt :: attempt
  fo_Action :: "action_record option"
  fo_Verification :: "verification_record option"
  fo_Artifacts :: "artifact list"
  fo_Handles :: "runtime_handle list"
  fo_Snapshot :: "snapshot option"
  fo_Events :: "audit_event list"
  fo_Verified :: bool
  fo_ActionFailed :: bool

record fanout_output =
  fz_Session :: session
  fz_Executions :: "step_output list"
  fz_UpdatedPlan :: "plan option"
  fz_UpdatedTask :: "task option"

definition zero_attempt :: attempt where
  "zero_attempt = \<lparr>at_AttemptID = [], at_SessionID = [], at_TaskID = [], at_StepID = [], at_ApprovalID = [], at_CycleID = [],
     at_TraceID = [], at_Status = AttemptOther [], at_Step = zero_step, at_Metadata = [], at_StartedAt = 0, at_FinishedAt = 0\<rparr>"

definition new_outcome :: "step \<Rightarrow> decision \<Rightarrow> attempt \<Rightarrow> fanout_outcome" where
  "new_outcome s d a = \<lparr>fo_Step = s,
     fo_Execution = \<lparr>xr_Step = s, xr_Action = zero_result, xr_Verify = zero_verify_result, xr_Policy = d, xr_PendingApproval = None\<rparr>,
     fo_Attempt = a, fo_Action = None, fo_Verification = None, fo_Artifacts = [], fo_Handles = [], fo_Snapshot = None, fo_Events = [],
     fo_Verified = False, fo_ActionFailed = False\<rparr>"

section \<open>The round\<close>

text \<open>The time is read from the system clock, not from the service's, once for every failed step.\<close>

definition fanoutStepRunnable :: "step \<Rightarrow> loop_budgets \<Rightarrow> int \<Rightarrow> bool" where
  "fanoutStepRunnable s budgets sysNow =
     (case sp_Status s of
        StepUnset \<Rightarrow> True
      | StepPending \<Rightarrow> True
      | StepFailed \<Rightarrow> \<not> allowedAttempts s budgets \<le> sp_Attempt s \<and> \<not> backoffActive s sysNow
      | _ \<Rightarrow> False)"

definition in_fanout :: "string \<Rightarrow> step \<Rightarrow> bool" where
  "in_fanout aggregateID s = (AggregateRefFromMetadata (sp_Metadata s) = Some (aggregateID, AggregateScopeTargetFanout))"

definition fanoutRoundForSelection :: "plan \<Rightarrow> step \<Rightarrow> loop_budgets \<Rightarrow> (nat \<Rightarrow> int) \<Rightarrow> fanout_round option" where
  "fanoutRoundForSelection spec selected budgets sys =
     (case AggregateRefFromMetadata (sp_Metadata selected) of
        None \<Rightarrow> None
      | Some (aggregateID, scope) \<Rightarrow>
          if aggregateID = [] \<or> scope \<noteq> AggregateScopeTargetFanout then None
          else (case AggregateMaxConcurrencyFromMetadata (sp_Metadata selected) of
            None \<Rightarrow> None
          | Some maxConcurrency \<Rightarrow>
              if maxConcurrency \<le> 1 then None
              else let steps = map snd (filter (\<lambda>(i, s). in_fanout aggregateID s \<and> fanoutStepRunnable s budgets (sys i)) (enumerate 0 (pl_Steps spec)))
                   in if length steps \<le> 1 then None
                      else Some \<lparr>fr_AggregateID = aggregateID, fr_AnchorStepID = sp_StepID selected, fr_MaxConcurrency = maxConcurrency, fr_Steps = steps\<rparr>))"

fun fanout_changed_events :: "session \<Rightarrow> string \<Rightarrow> transition_decision list \<Rightarrow> audit_event list svc" where
  "fanout_changed_events st stepID [] = sret []"
| "fanout_changed_events st stepID (t # ts) =
     sbind newUUID (\<lambda>u. sbind nowMilli (\<lambda>n.
       sbind (fanout_changed_events st stepID ts) (\<lambda>es. sret (event_of u n ''state.changed'' (st_SessionID st) (st_TaskID st) stepID (changed_payload t) # es))))"

definition advanceStateToExecuteForFanout :: "session \<Rightarrow> string \<Rightarrow> (session \<times> transition_decision list \<times> audit_event list) svc" where
  "advanceStateToExecuteForFanout st stepID =
     (case advance_state stepID st of (working, transitions) \<Rightarrow>
        sbind (fanout_changed_events st stepID transitions) (\<lambda>events. sret (working, transitions, events)))"

definition rebaseFanoutWorkingState :: "session \<Rightarrow> session \<Rightarrow> session" where
  "rebaseFanoutWorkingState working current = working\<lparr>st_Version := st_Version current, st_CreatedAt := st_CreatedAt current,
     st_UpdatedAt := st_UpdatedAt current, st_RuntimeStartedAt := st_RuntimeStartedAt current, st_LeaseID := st_LeaseID current,
     st_LeaseClaimedAt := st_LeaseClaimedAt current, st_LeaseExpiresAt := st_LeaseExpiresAt current,
     st_LastHeartbeatAt := st_LastHeartbeatAt current\<rparr>"

section \<open>Preparation\<close>

text \<open>The decision for one step; \<open>None\<close> when the policy asks and no answer can be reused.\<close>

definition fanout_decision :: "service \<Rightarrow> app \<Rightarrow> session \<Rightarrow> step \<Rightarrow> decision option svc" where
  "fanout_decision sv hx st s =
     sbind (slift (hx_Policy hx st s)) (\<lambda>d.
       if de_Action d \<noteq> Ask then sret (Some d)
       else sbind (findReusableApprovalDecision sv hx st s d) (\<lambda>reusable. sret (map_option fst reusable)))"

definition fanout_attempt :: "string \<Rightarrow> session \<Rightarrow> step \<Rightarrow> decision \<Rightarrow> step \<Rightarrow> fanout_prepared svc" where
  "fanout_attempt sid st original d resolved =
     sbind newUUID (\<lambda>u1. sbind newUUID (\<lambda>u2. sbind nowMilli (\<lambda>t.
     sbind (ensureExecutionCycleID resolved []) (\<lambda>(cyc, s).
       sret \<lparr>fp_Original = original, fp_Step = s, fp_Decision = d,
         fp_Attempt = \<lparr>at_AttemptID = ''att_'' @ u1, at_SessionID = sid, at_TaskID = st_TaskID st, at_StepID = sp_StepID resolved,
           at_ApprovalID = [], at_CycleID = cyc, at_TraceID = ''trc_'' @ u2, at_Status = AttemptOther [], at_Step = resolved,
           at_Metadata = applyExecutionFactMetadata [] (sp_Metadata s), at_StartedAt = t, at_FinishedAt = 0\<rparr>\<rparr>))))"

fun prepare_loop :: "service \<Rightarrow> app \<Rightarrow> string \<Rightarrow> session \<Rightarrow> step list \<Rightarrow> fanout_prepared list option svc" where
  "prepare_loop sv hx sid st [] = sret (Some [])"
| "prepare_loop sv hx sid st (original # steps) =
     (let s = annotateStepFromSession st original in
      if ProgramFromStep (hx_Json hx) s \<noteq> None then sfail ErrProgramStepNotCompiled
      else sbind (slift (ensureStepRetryBudget s (sv_Budgets sv))) (\<lambda>_.
        sbind nowMilli (\<lambda>now.
        if backoffActive s now then prepare_loop sv hx sid st steps
        else sbind (resolveProgramBindings sv (hx_Json hx) (hx_Materializer hx) sid s) (\<lambda>resolved.
          sbind (fanout_decision sv hx (setSessionPlanRef st s) resolved) (\<lambda>decision.
          case decision of
            None \<Rightarrow> sret None
          | Some d \<Rightarrow> sbind (fanout_attempt sid st original d resolved) (\<lambda>p.
              sbind (prepare_loop sv hx sid st steps) (\<lambda>rest. sret (map_option ((#) p) rest)))))))) "

definition prepareFanoutRound :: "service \<Rightarrow> app \<Rightarrow> string \<Rightarrow> session \<Rightarrow> fanout_round \<Rightarrow> fanout_prepared list option svc" where
  "prepareFanoutRound sv hx sid st rnd =
     sbind (prepare_loop sv hx sid st (fr_Steps rnd)) (\<lambda>prepared.
       sret (case prepared of None \<Rightarrow> None | Some ps \<Rightarrow> if length ps \<le> 1 then None else Some ps))"

section \<open>Execution\<close>

definition executeFanoutPreparedStep :: "service \<Rightarrow> app \<Rightarrow> session \<Rightarrow> fanout_prepared \<Rightarrow> fanout_outcome svc" where
  "executeFanoutPreparedStep sv hx st p =
     (let a = fp_Attempt p; d = fp_Decision p in
      sbind nowMilli (\<lambda>now.
      let s = running_step (fp_Step p) now in
      sbind (step_event st a ''step.started'' [(''title'', VStr (sp_Title s))] [] (at_AttemptID a)) (\<lambda>e0.
      if de_Action d = Deny then
        sbind nowMilli (\<lambda>t.
        let s = s\<lparr>sp_Status := StepFailed, sp_FinishedAt := t\<rparr> in
        sbind (step_event st a ''policy.denied'' [(''reason'', VStr (de_Reason d)), (''matched_rule'', VStr (de_MatchedRule d))] [] (at_AttemptID a)) (\<lambda>e1.
          sret ((new_outcome s d (a\<lparr>at_Step := s, at_Status := AttemptFailed, at_FinishedAt := t\<rparr>))\<lparr>fo_Events := [e0, e1]\<rparr>)))
      else sbind (invoke_action sv hx st s a) (\<lambda>k.
        let out = new_outcome s d a in
        sret (out\<lparr>fo_Execution := (fo_Execution out)\<lparr>xr_Action := ak_Result k\<rparr>, fo_Action := Some (ak_Record k), fo_Artifacts := ak_Artifacts k,
                 fo_Handles := ak_Handles k, fo_Snapshot := ak_Snapshot k, fo_Events := e0 # ak_Events k,
                 fo_ActionFailed := (ak_Err k \<noteq> None \<or> \<not> ar_OK (ak_Result k))\<rparr>)))))"

text \<open>The goroutines in the order given; each stores its outcome at its own index.\<close>

fun execute_order :: "service \<Rightarrow> app \<Rightarrow> session \<Rightarrow> fanout_prepared list \<Rightarrow> nat list \<Rightarrow> fanout_outcome list \<Rightarrow> fanout_outcome list svc" where
  "execute_order sv hx st prepared [] outs = sret outs"
| "execute_order sv hx st prepared (i # is) outs =
     sbind (executeFanoutPreparedStep sv hx st (prepared ! i)) (\<lambda>out. execute_order sv hx st prepared is (outs[i := out]))"

definition zero_outcome :: fanout_outcome where
  "zero_outcome = new_outcome zero_step (mk_decision (PermOther []) [] []) zero_attempt"

definition executeFanoutPreparedSteps :: "service \<Rightarrow> app \<Rightarrow> session \<Rightarrow> fanout_prepared list \<Rightarrow> (nat \<Rightarrow> nat list) \<Rightarrow> fanout_outcome list svc" where
  "executeFanoutPreparedSteps sv hx st prepared schedule =
     execute_order sv hx st prepared (schedule (length prepared)) (replicate (length prepared) zero_outcome)"

section \<open>Verification\<close>

definition finalizeFanoutDenyOutcome :: "fanout_outcome \<Rightarrow> int \<Rightarrow> fanout_outcome" where
  "finalizeFanoutDenyOutcome out now =
     (let s = (fo_Step out)\<lparr>sp_FinishedAt := now\<rparr> in
      out\<lparr>fo_Step := s, fo_Attempt := (fo_Attempt out)\<lparr>at_Step := s, at_Status := AttemptFailed, at_FinishedAt := now\<rparr>,
          fo_Execution := (fo_Execution out)\<lparr>xr_Step := s\<rparr>, fo_Verification := None, fo_Verified := False\<rparr>)"

text \<open>Step, attempt and flags after a verdict.\<close>

definition concluded :: "session \<Rightarrow> loop_budgets \<Rightarrow> fanout_outcome \<Rightarrow> verify_result \<Rightarrow> bool \<Rightarrow> int \<Rightarrow> fanout_outcome" where
  "concluded st budgets out res verified now =
     (let s = (fo_Step out)\<lparr>sp_Status := (if verified then StepCompleted else StepFailed)\<rparr>;
          s = (applyStepRetryBackoff s (nextTransitionAfterVerification st s (xr_Policy (fo_Execution out)) verified budgets) now)\<lparr>sp_FinishedAt := now\<rparr>
      in out\<lparr>fo_Step := s, fo_Execution := (fo_Execution out)\<lparr>xr_Step := s, xr_Verify := res\<rparr>,
             fo_Attempt := (fo_Attempt out)\<lparr>at_Step := s, at_FinishedAt := now, at_Status := (if verified then AttemptCompleted else AttemptFailed)\<rparr>,
             fo_Verified := verified\<rparr>)"

definition fanout_verification :: "fanout_outcome \<Rightarrow> action_record \<Rightarrow> VerificationScope \<Rightarrow> string \<Rightarrow> int \<Rightarrow> int \<Rightarrow> verify_result \<Rightarrow> bool \<Rightarrow> verification_record" where
  "fanout_verification out x scope i started finished res verified =
     (let a = fo_Attempt out; s = fo_Step out in
      \<lparr>vf_VerificationID = i, vf_AttemptID = at_AttemptID a, vf_SessionID = at_SessionID a, vf_TaskID = at_TaskID a, vf_StepID = sp_StepID s,
       vf_ActionID = ac_ActionID x, vf_CycleID = at_CycleID a, vf_TraceID = at_TraceID a, vf_CausationID = ac_ActionID x,
       vf_Status = (if verified then VerificationCompleted else VerificationFailed), vf_Spec = sp_Verify s, vf_Result = res,
       vf_Metadata = gm_put ''verification_scope'' (VStr scope) (applyExecutionFactMetadata [] (sp_Metadata s)),
       vf_StartedAt = started, vf_FinishedAt = finished\<rparr>)"

definition verify_event :: "session \<Rightarrow> fanout_outcome \<Rightarrow> action_record \<Rightarrow> string \<Rightarrow> verify_result \<Rightarrow> audit_event svc" where
  "verify_event st out x i res =
     sbind (step_event st (fo_Attempt out) ''verify.completed'' (verify_payload res) (ac_ActionID x) (ac_ActionID x)) (\<lambda>e. sret (e\<lparr>au_VerificationID := i\<rparr>))"

definition finalizeFanoutVerifiedOutcome :: "service \<Rightarrow> app \<Rightarrow> session \<Rightarrow> fanout_outcome \<Rightarrow> action_record \<Rightarrow> action_result \<Rightarrow> int \<Rightarrow> fanout_outcome svc" where
  "finalizeFanoutVerifiedOutcome sv hx st out x input now =
     sbind newUUID (\<lambda>u. sbind nowMilli (\<lambda>started.
     case Evaluate (hx_Verifiers hx) (sp_Verify (fo_Step out)) input st of (res, err) \<Rightarrow>
     let verified = (err = None \<and> vr_Success res); i = ''ver_'' @ u in
     sbind (verify_event st out x i res) (\<lambda>e.
       sret ((concluded st (sv_Budgets sv) out res verified now)\<lparr>
         fo_Verification := Some (fanout_verification out x (programVerifyScopeFromStep (fo_Step out)) i started now res verified),
         fo_Events := fo_Events out @ [e]\<rparr>))))"

definition finalizeFanoutAggregatePendingOutcome :: "service \<Rightarrow> session \<Rightarrow> fanout_outcome \<Rightarrow> action_record \<Rightarrow> int \<Rightarrow> fanout_outcome svc" where
  "finalizeFanoutAggregatePendingOutcome sv st out x now =
     (let raw = (\<not> fo_ActionFailed out);
          res = \<lparr>vr_Success = raw, vr_Details = [], vr_Reason = (if raw then ''aggregate pending'' else actionErrorMessage (xr_Action (fo_Execution out)))\<rparr> in
      sbind newUUID (\<lambda>u. sbind nowMilli (\<lambda>started.
      let i = ''ver_'' @ u in
      sbind (verify_event st out x i res) (\<lambda>e.
        sret ((concluded (zero_session\<lparr>st_Phase := PhaseVerify\<rparr>) (sv_Budgets sv) out res raw now)\<lparr>
          fo_Verification := Some (fanout_verification out x VerificationScopeAggregate i started now res raw),
          fo_Events := fo_Events out @ [e]\<rparr>)))))"

text \<open>The steps before the final verification: outcomes, failures and the last step of an aggregate.\<close>

definition finalize_one :: "service \<Rightarrow> app \<Rightarrow> session \<Rightarrow> fanout_outcome \<Rightarrow> fanout_outcome svc" where
  "finalize_one sv hx st out =
     sbind nowMilli (\<lambda>now.
       case fo_Action out of
         None \<Rightarrow> sret (finalizeFanoutDenyOutcome out now)
       | Some x \<Rightarrow>
           if programVerifyScopeFromStep (fo_Step out) = VerificationScopeAggregate then finalizeFanoutAggregatePendingOutcome sv st out x now
           else finalizeFanoutVerifiedOutcome sv hx st out x (xr_Action (fo_Execution out)) now)"

fun finalize_all :: "service \<Rightarrow> app \<Rightarrow> session \<Rightarrow> fanout_outcome list \<Rightarrow> fanout_outcome list svc" where
  "finalize_all sv hx st [] = sret []"
| "finalize_all sv hx st (out # outs) =
     sbind (finalize_one sv hx st out) (\<lambda>out'. sbind (finalize_all sv hx st outs) (\<lambda>outs'. sret (out' # outs')))"

definition in_aggregate :: "fanout_outcome \<Rightarrow> bool" where
  "in_aggregate out \<longleftrightarrow> fo_Action out \<noteq> None \<and> programVerifyScopeFromStep (fo_Step out) = VerificationScopeAggregate"

definition lastAggregateIndex :: "fanout_outcome list \<Rightarrow> nat option" where
  "lastAggregateIndex outs = List.find (\<lambda>i. in_aggregate (outs ! i)) (rev [0..<length outs])"

text \<open>A denied step has no action and is not counted.\<close>

definition first_failures :: "fanout_outcome list \<Rightarrow> int" where
  "first_failures outs = int (length (filter (\<lambda>o1. fo_Action o1 \<noteq> None \<and> \<not> fo_Verified o1) outs))"

definition fanoutOutcomeSteps :: "fanout_outcome list \<Rightarrow> step list" where
  "fanoutOutcomeSteps outs = map fo_Step outs"

text \<open>The index map of the source: of several steps with one id the last counts.\<close>

definition replacement :: "step list \<Rightarrow> step \<Rightarrow> step option" where
  "replacement steps s = List.find (\<lambda>x. sp_StepID x = sp_StepID s) (rev steps)"

definition replacePlanSteps :: "plan \<Rightarrow> step list \<Rightarrow> plan" where
  "replacePlanSteps spec steps = spec\<lparr>pl_Steps := map (\<lambda>s. case replacement steps s of None \<Rightarrow> s | Some x \<Rightarrow> x) (pl_Steps spec)\<rparr>"

definition overwrite_verdict :: "verify_result \<Rightarrow> audit_event list \<Rightarrow> audit_event list" where
  "overwrite_verdict res evs = (if evs = [] then [] else butlast evs @
     [(last evs)\<lparr>au_Payload := gm_put ''reason'' (VStr (vr_Reason res)) (gm_put ''success'' (VBool (vr_Success res)) (au_Payload (last evs)))\<rparr>])"

definition finalizeFanoutAggregateOutcome :: "service \<Rightarrow> app \<Rightarrow> session \<Rightarrow> plan \<Rightarrow> fanout_outcome \<Rightarrow> int \<Rightarrow> fanout_outcome" where
  "finalizeFanoutAggregateOutcome sv hx st provisional out now =
     (case AggregateRefFromMetadata (sp_Metadata (fo_Step out)) of
        None \<Rightarrow> out
      | Some (aggregateID, _) \<Rightarrow>
          if aggregateID = [] then out
          else case programAggregateVerifySpecFromStep (hx_Json hx) (fo_Step out) of
            None \<Rightarrow> out
          | Some spec \<Rightarrow>
              if \<not> aggregateVerificationReady provisional aggregateID (sv_Budgets sv) then out
              else case List.find (\<lambda>item. ag_AggregateID item = aggregateID) (AggregateResultsFromPlan provisional) of
                None \<Rightarrow> out
              | Some aggregate \<Rightarrow>
                  (case Evaluate (hx_Verifiers hx) spec (actionResultFromAggregate aggregate) st of (res, err) \<Rightarrow>
                     let actOK = ar_OK (xr_Action (fo_Execution out));
                         verified = (actOK \<and> err = None \<and> vr_Success res);
                         res = (if actOK then res else res\<lparr>vr_Success := False, vr_Reason := or_str (vr_Reason res) (actionErrorMessage (xr_Action (fo_Execution out)))\<rparr>);
                         out = out\<lparr>fo_Step := (fo_Step out)\<lparr>sp_Verify := spec\<rparr>,
                           fo_Verification := map_option (\<lambda>v. v\<lparr>vf_Spec := spec, vf_Result := res,
                             vf_Status := (if verified then VerificationCompleted else VerificationFailed)\<rparr>) (fo_Verification out),
                           fo_Events := overwrite_verdict res (fo_Events out)\<rparr>
                     in concluded st (sv_Budgets sv) out res verified now))"

definition finalize_aggregate :: "service \<Rightarrow> app \<Rightarrow> session \<Rightarrow> plan \<Rightarrow> nat option \<Rightarrow> fanout_outcome list \<Rightarrow> fanout_outcome list svc" where
  "finalize_aggregate sv hx st latest lastIndex outs =
     (case lastIndex of
        None \<Rightarrow> sret outs
      | Some i \<Rightarrow> sbind nowMilli (\<lambda>now.
          sret (outs[i := finalizeFanoutAggregateOutcome sv hx st (replacePlanSteps latest (fanoutOutcomeSteps outs)) (outs ! i) now])))"

text \<open>\<open>first\<close> are the outcomes before the final verification, \<open>outs\<close> those after it.\<close>

definition retryFailures :: "nat option \<Rightarrow> fanout_outcome list \<Rightarrow> fanout_outcome list \<Rightarrow> int" where
  "retryFailures lastIndex first outs = first_failures first +
     (case lastIndex of None \<Rightarrow> 0 | Some i \<Rightarrow> if fo_Verified (outs ! i) then 0 else 1)"

section \<open>Recording the round\<close>

definition updateLatestPlanStepsInStoreWithBudgets :: "string \<Rightarrow> step list \<Rightarrow> loop_budgets \<Rightarrow> plan option svc" where
  "updateLatestPlanStepsInStoreWithBudgets sid steps budgets =
     (if steps = [] then sret None
      else sbind (sread rp_Plans) (\<lambda>plans.
        case planForStepInStore (Some plans) sid (hd steps) of
          None \<Rightarrow> sret None
        | Some target \<Rightarrow>
            let steps' = map (\<lambda>s. annotateStepIdentity s (pl_PlanID target) (pl_Revision target)) steps in
            if \<not> list_ex (\<lambda>s. replacement steps' s \<noteq> None) (pl_Steps target) then sret (Some (annotatePlanIdentity target))
            else let p = replacePlanSteps target steps'; p = p\<lparr>pl_Status := planStatusForSpec p budgets\<rparr>
                 in sbind (do_plan_Update p) (\<lambda>_. sret (Some (annotatePlanIdentity p)))))"

definition fanoutAllEvents :: "audit_event list \<Rightarrow> fanout_outcome list \<Rightarrow> audit_event list" where
  "fanoutAllEvents initial outs = initial @ concat (map fo_Events outs)"

definition fanout_facts :: "fanout_outcome \<Rightarrow> unit svc" where
  "fanout_facts out =
     sbind (persistExecutionFacts (fo_Attempt out) False (fo_Action out) (fo_Verification out) (fo_Artifacts out)) (\<lambda>_.
     sbind (persistCapabilitySnapshot (fo_Snapshot out)) (\<lambda>_. persistRuntimeHandles (fo_Handles out)))"

definition fanoutStepRunOutputs :: "fanout_outcome list \<Rightarrow> session \<Rightarrow> plan option \<Rightarrow> task option \<Rightarrow> transition_decision list \<Rightarrow> transition_decision \<Rightarrow> step_output list" where
  "fanoutStepRunOutputs outs st pl tk initial final =
     map (\<lambda>(i, out). let end = (Suc i = length outs) in
       \<lparr>so_Session = st, so_Execution = fo_Execution out,
        so_Transitions = (if i = 0 then initial else []) @ (if end then [final] else []), so_Events = fo_Events out,
        so_UpdatedPlan = (if end then pl else None), so_UpdatedTask = (if end then tk else None)\<rparr>) (enumerate 0 outs)"

definition fanout_writes :: "service \<Rightarrow> string \<Rightarrow> string \<Rightarrow> session \<Rightarrow> audit_event list \<Rightarrow> fanout_outcome list \<Rightarrow> (audit_event list \<Rightarrow> unit svc)
    \<Rightarrow> (plan option \<times> task option \<times> session) svc" where
  "fanout_writes sv sid leaseID st initialEvents outs emit =
     sbind (updateLatestPlanStepsInStoreWithBudgets sid (fanoutOutcomeSteps outs) (sv_Budgets sv)) (\<lambda>pl.
     sbind (updateTaskForTerminalInStore st) (\<lambda>tk.
     sbind (do_persistSessionUpdateAt st leaseID 0) (\<lambda>st'.
     sbind (sdo_all fanout_facts outs) (\<lambda>_.
     sbind (emit (fanoutAllEvents initialEvents outs)) (\<lambda>_. sret (pl, tk, st'))))))"

definition persistFanoutRound :: "service \<Rightarrow> app \<Rightarrow> string \<Rightarrow> string \<Rightarrow> plan \<Rightarrow> session \<Rightarrow> fanout_outcome list \<Rightarrow> transition_decision list
    \<Rightarrow> audit_event list \<Rightarrow> fanout_output svc" where
  "persistFanoutRound sv hx sid leaseID latest working outcomes initialTransitions initialEvents =
     (let verifyState = working\<lparr>st_Phase := PhaseVerify\<rparr>; lastIndex = lastAggregateIndex outcomes in
      sbind (finalize_all sv hx verifyState outcomes) (\<lambda>first.
      sbind (finalize_aggregate sv hx verifyState latest lastIndex first) (\<lambda>outs.
      let outcome = planExecutionOutcomeForSpec (replacePlanSteps latest (fanoutOutcomeSteps outs)) (sv_Budgets sv);
          st = verifyState\<lparr>st_RetryCount := st_RetryCount verifyState + retryFailures lastIndex first outs\<rparr>;
          anchor = last outs;
          nxt = transitionForPlanOutcome st (fo_Step anchor) outcome;
          final = settled st nxt
      in sbind (changed_event final (fo_Attempt anchor) nxt) (\<lambda>e.
         let outs = butlast outs @ [anchor\<lparr>fo_Events := fo_Events anchor @ [e]\<rparr>] in
         sbind (with_runner sv (\<lambda>_. fanout_writes sv sid leaseID final initialEvents outs)) (\<lambda>(pl, tk, st').
           sret \<lparr>fz_Session = st', fz_Executions = fanoutStepRunOutputs outs st' pl tk initialTransitions nxt,
                 fz_UpdatedPlan = pl, fz_UpdatedTask = tk\<rparr>)))))"

section \<open>The whole round\<close>

definition fanout_guards :: "session \<Rightarrow> goerr + unit" where
  "fanout_guards st =
     (if isTerminalPhase (st_Phase st) then Inl ErrSessionTerminal
      else if st_ExecutionState st = ExecutionBlocked then Inl ErrSessionBlocked
      else if st_PendingApprovalID st \<noteq> [] then Inl ErrSessionAwaitingApproval
      else Inr ())"

text \<open>\<open>None\<close>: the round is left to the single-step path.\<close>

definition runFanoutRound :: "service \<Rightarrow> app \<Rightarrow> (nat \<Rightarrow> nat list) \<Rightarrow> string \<Rightarrow> string \<Rightarrow> session \<Rightarrow> plan \<Rightarrow> fanout_round \<Rightarrow> fanout_output option svc" where
  "runFanoutRound sv hx schedule sid leaseID st latest rnd =
     sbind (slift (fanout_guards st)) (\<lambda>_.
     sbind nowMilli (\<lambda>now.
     sbind (slift (ensureRuntimeBudget st (sv_Budgets sv) now)) (\<lambda>_.
     sbind (advanceStateToExecuteForFanout st (fr_AnchorStepID rnd)) (\<lambda>(working, transitions, events).
     sbind (prepareFanoutRound sv hx sid working rnd) (\<lambda>prepared.
     case prepared of
       None \<Rightarrow> sret None
     | Some ps \<Rightarrow>
         sbind (markSessionInFlight sv sid leaseID (fr_AnchorStepID rnd)) (\<lambda>_.
         sbind (getSessionRecord sv sid) (\<lambda>current.
         let working = rebaseFanoutWorkingState working current in
         sbind (executeFanoutPreparedSteps sv hx working ps schedule) (\<lambda>outcomes.
         sbind (persistFanoutRound sv hx sid leaseID latest working outcomes transitions events) (\<lambda>out. sret (Some out))))))))))"

definition tryRunFanoutRound :: "service \<Rightarrow> app \<Rightarrow> (nat \<Rightarrow> int) \<Rightarrow> (nat \<Rightarrow> nat list) \<Rightarrow> string \<Rightarrow> string \<Rightarrow> session \<Rightarrow> plan \<Rightarrow> step \<Rightarrow> fanout_output option svc" where
  "tryRunFanoutRound sv hx sys schedule sid leaseID st latest selected =
     (case fanoutRoundForSelection latest selected (sv_Budgets sv) sys of
        None \<Rightarrow> sret None
      | Some rnd \<Rightarrow> runFanoutRound sv hx schedule sid leaseID st latest rnd)"

section \<open>The semaphore\<close>

text \<open>
  The loop of \<^verbatim>\<open>executeFanoutPreparedSteps\<close>: the goroutines are started in order, each after a place in
  the channel is free; one that has done its work gives its place back. A state holds the index to be
  started next, the running goroutines and the order in which the others took effect.
\<close>

type_synonym fan_state = "nat \<times> nat set \<times> nat list"

inductive fan_move :: "nat \<Rightarrow> nat \<Rightarrow> fan_state \<Rightarrow> fan_state \<Rightarrow> bool" for n c where
  start: "i < n \<Longrightarrow> card run < c \<Longrightarrow> fan_move n c (i, run, ord) (Suc i, insert i run, ord)"
| finish: "i \<in> run \<Longrightarrow> fan_move n c (k, run, ord) (k, run - {i}, ord @ [i])"

inductive_cases fan_moveE: "fan_move n c s s'"

abbreviation fan_start :: fan_state where "fan_start \<equiv> (0, {}, [])"

text \<open>What holds in every reachable state.\<close>

definition fan_ok :: "nat \<Rightarrow> nat \<Rightarrow> fan_state \<Rightarrow> bool" where
  "fan_ok n c = (\<lambda>(k, run, ord). k \<le> n \<and> finite run \<and> card run \<le> c \<and> distinct ord \<and> run \<inter> set ord = {} \<and> run \<union> set ord = {..<k})"

lemma fan_ok_move:
  assumes "fan_move n c s s'" and "fan_ok n c s"
  shows "fan_ok n c s'"
  using assms
proof cases
  case (start i run ord)
  then have ok: "finite run" "card run < c" "distinct ord" "run \<inter> set ord = {}" "run \<union> set ord = {..<i}" using assms(2) by (simp_all add: fan_ok_def)
  then have "i \<notin> run" "i \<notin> set ord" by auto
  with ok start show ?thesis by (simp add: fan_ok_def lessThan_Suc Un_insert_left)
next
  case (finish i run k ord)
  then have ok: "k \<le> n" "finite run" "card run \<le> c" "distinct ord" "run \<inter> set ord = {}" "run \<union> set ord = {..<k}" using assms(2) by (simp_all add: fan_ok_def)
  have "card (run - {i}) \<le> c" using ok(3) card_Diff1_le[of run i] by linarith
  moreover have "i \<notin> set ord" using ok(5) finish by blast
  moreover have "(run - {i}) \<inter> insert i (set ord) = {}" using ok(5) by blast
  moreover have "(run - {i}) \<union> insert i (set ord) = {..<k}" using ok(6) finish by blast
  ultimately show ?thesis using ok finish by (simp add: fan_ok_def)
qed

lemma fan_ok_reachable: "(fan_move n c)\<^sup>*\<^sup>* fan_start s \<Longrightarrow> fan_ok n c s"
  by (induction rule: rtranclp_induct) (simp add: fan_ok_def, erule (1) fan_ok_move)

lemma fan_progress:
  assumes "fan_ok n c (k, run, ord)" and "0 < c" and "\<not> (k = n \<and> run = {})"
  shows "\<exists>s. fan_move n c (k, run, ord) s"
proof (cases "run = {}")
  case True
  then have "k < n" using assms by (simp add: fan_ok_def)
  then show ?thesis using fan_move.start[of k n run c ord] True assms(2) by auto
next
  case False
  then obtain i where "i \<in> run" by blast
  then show ?thesis using fan_move.finish by blast
qed

text \<open>Every move starts or ends a goroutine.\<close>

fun fan_rank :: "nat \<Rightarrow> fan_state \<Rightarrow> nat" where
  "fan_rank n (k, run, ord) = 2 * (n - k) + card run"

lemma fan_rank_less: "fan_ok n c s \<Longrightarrow> fan_move n c s s' \<Longrightarrow> fan_rank n s' < fan_rank n s"
proof (erule fan_moveE)
  fix i run ord assume "fan_ok n c s" "s = (i, run, ord)" "s' = (Suc i, insert i run, ord)" "i < n"
  then show "fan_rank n s' < fan_rank n s" by (auto simp: fan_ok_def card_insert_if)
next
  fix i run k ord assume "fan_ok n c s" "s = (k, run, ord)" "s' = (k, run - {i}, ord @ [i])" "i \<in> run"
  then show "fan_rank n s' < fan_rank n s" using card_Diff1_less[of run i] by (auto simp: fan_ok_def)
qed

end
