(* ===== verification/Fanout_Rounds.thy ===== *)
theory Fanout_Rounds
  imports Fanout Step_Safety
begin

text \<open>
  What a round of a fan-out guarantees: the outcomes are complete and in place whatever the order of
  the goroutines, and no action runs that the policy does not allow.
\<close>

section \<open>Computations that do not fail\<close>

definition returns :: "'a svc \<Rightarrow> bool" where
  "returns m \<longleftrightarrow> (\<forall>w. \<exists>x w'. m w = (Inr x, w'))"

lemma returns_basic: "returns (sret x)" "returns newUUID" "returns nowMilli" "returns (scatch m)"
  by (auto simp: returns_def svc_apply scatch_def split: prod.split)

lemma returns_bind: "returns m \<Longrightarrow> (\<And>x. returns (k x)) \<Longrightarrow> returns (sbind m k)"
proof (unfold returns_def, intro allI)
  fix w assume "\<forall>w. \<exists>x w'. m w = (Inr x, w')" and k: "\<And>x. \<forall>w. \<exists>y w'. k x w = (Inr y, w')"
  then obtain x w1 where "m w = (Inr x, w1)" by blast
  moreover obtain y w2 where "k x w1 = (Inr y, w2)" using k by blast
  ultimately show "\<exists>y w'. sbind m k w = (Inr y, w')" by (simp add: svc_apply)
qed

lemma returns_if: "(b \<Longrightarrow> returns m) \<Longrightarrow> (\<not> b \<Longrightarrow> returns n) \<Longrightarrow> returns (if b then m else n)"
  by simp

lemma returns_prod: "(\<And>x y. returns (m x y)) \<Longrightarrow> returns (case c of (x, y) \<Rightarrow> m x y)"
  by (cases c) simp

lemma returns_option: "returns m \<Longrightarrow> (\<And>x. returns (n x)) \<Longrightarrow> returns (case c of None \<Rightarrow> m | Some x \<Rightarrow> n x)"
  by (cases c) simp_all

lemma returns_sum: "(\<And>x. returns (m x)) \<Longrightarrow> (\<And>x. returns (n x)) \<Longrightarrow> returns (case c of Inl x \<Rightarrow> m x | Inr x \<Rightarrow> n x)"
  by (cases c) simp_all

lemmas returns_rules = returns_basic returns_bind returns_if returns_prod returns_option returns_sum

lemma returns_step_event: "returns (step_event st a ty p i j)"
  unfolding step_event_def by (intro returns_rules)

lemma returns_handle: "returns (runtimeHandleFromValue a act now raw)"
proof -
  have "returns (handle_of_struct a act now h)" "returns (handle_of_map a act now m)" for h m
    unfolding handle_of_struct_def handle_of_map_def Let_def by (intro returns_rules)+
  then show ?thesis unfolding runtimeHandleFromValue_def by (simp add: returns_basic split: gval.split)
qed

lemma returns_collect: "returns (collect_handles a act now raws out)"
  by (induction raws arbitrary: out) (auto intro!: returns_rules returns_handle split: option.split)

lemma returns_invoke: "returns (invoke_action sv hx st s a)"
  unfolding invoke_action_def resolveCapabilityAndInvoke_def action_artifacts_def extractRuntimeHandles_def Let_def
  by (intro returns_rules returns_step_event returns_collect)

lemma returns_execute: "returns (executeFanoutPreparedStep sv hx st p)"
  unfolding executeFanoutPreparedStep_def Let_def by (intro returns_rules returns_step_event returns_invoke)

section \<open>Outcomes\<close>

definition outcome_of :: "fanout_prepared \<Rightarrow> fanout_outcome \<Rightarrow> bool" where
  "outcome_of p out \<longleftrightarrow> sp_StepID (fo_Step out) = sp_StepID (fp_Step p) \<and> at_AttemptID (fo_Attempt out) = at_AttemptID (fp_Attempt p)
     \<and> (fo_Action out = None \<longleftrightarrow> de_Action (fp_Decision p) = Deny)
     \<and> (\<forall>x. fo_Action out = Some x \<longrightarrow> ac_AttemptID x = at_AttemptID (fp_Attempt p) \<and> ac_StepID x = sp_StepID (fp_Step p))"

lemma wt_any: "wtriple (\<lambda>_. True) m (\<lambda>_ _. True) (\<lambda>_. True)"
  by (simp add: wtriple_def split: prod.split sum.split)

lemma resolved_action_ids [simp]:
  "ac_AttemptID (resolved_action s res x) = ac_AttemptID x" "ac_StepID (resolved_action s res x) = ac_StepID x"
  by (simp_all add: resolved_action_def Let_def split: option.split)

lemma invoke_action_record:
  "wtriple (\<lambda>_. True) (invoke_action sv hx st s a) (\<lambda>k _. ac_AttemptID (ak_Record k) = at_AttemptID a \<and> ac_StepID (ak_Record k) = sp_StepID s) (\<lambda>_. True)"
  unfolding invoke_action_def Let_def
  by ((rule wt_bind[OF wt_any] | rule wt_prod)+, rule wt_sret, simp)

lemma execute_outcome:
  "wtriple (\<lambda>_. True) (executeFanoutPreparedStep sv hx st p) (\<lambda>out _. outcome_of p out) (\<lambda>_. True)"
  unfolding executeFanoutPreparedStep_def Let_def
  by (rule wt_bind[OF wt_any], rule wt_bind[OF wt_any], rule wt_if, rule wt_bind[OF wt_any], rule wt_bind[OF wt_any],
      rule wt_sret, simp add: outcome_of_def new_outcome_def running_step_def,
      rule wt_bind[OF invoke_action_record], rule wt_sret, simp add: outcome_of_def new_outcome_def running_step_def)

lemma execute_order_run:
  assumes "distinct is" and "\<forall>i \<in> set is. i < length outs"
  shows "\<exists>outs' w'. execute_order sv hx st ps is outs w = (Inr outs', w') \<and> length outs' = length outs
    \<and> (\<forall>i \<in> set is. outcome_of (ps ! i) (outs' ! i)) \<and> (\<forall>i. i \<notin> set is \<longrightarrow> outs' ! i = outs ! i)"
  using assms
proof (induction "is" arbitrary: outs w)
  case (Cons i "is")
  obtain out w1 where run: "executeFanoutPreparedStep sv hx st (ps ! i) w = (Inr out, w1)"
    using returns_execute unfolding returns_def by blast
  have good: "outcome_of (ps ! i) out" using wtripleD(1)[OF execute_outcome _ run] by simp
  obtain outs' w' where rest: "execute_order sv hx st ps is (outs[i := out]) w1 = (Inr outs', w')" "length outs' = length outs"
    "\<forall>j \<in> set is. outcome_of (ps ! j) (outs' ! j)" "\<forall>j. j \<notin> set is \<longrightarrow> outs' ! j = outs[i := out] ! j"
    using Cons.IH[of "outs[i := out]" w1] Cons.prems by auto
  show ?case using run rest good Cons.prems by (intro exI[of _ outs'] exI[of _ w']) (auto simp: svc_apply)
qed (simp add: svc_apply)

section \<open>Rounds without permission\<close>

text \<open>The outcome of a step that did not act.\<close>

definition idle_outcome :: "fanout_outcome \<Rightarrow> bool" where
  "idle_outcome out \<longleftrightarrow> fo_Action out = None \<and> fo_Verification out = None \<and> fo_Artifacts out = [] \<and> fo_Handles out = [] \<and> fo_Snapshot out = None"

text \<open>Nothing that counts has changed, and sessions and approvals are as they were.\<close>

abbreviation as_before :: "world \<Rightarrow> world \<Rightarrow> bool" where
  "as_before w v \<equiv> (acted_facts (w_Repos v), rp_Approvals (w_Repos v), rp_Sessions (w_Repos v))
      = (acted_facts (w_Repos w), rp_Approvals (w_Repos w), rp_Sessions (w_Repos w))"

lemma wt_as_before: "moves as_before m \<Longrightarrow> wtriple (as_before w) m (\<lambda>_. as_before w) (same_facts w)"
  by (rule wt_moves[of as_before], assumption) auto

lemma fanout_decision_strict:
  assumes policy: "\<And>st s d. hx_Policy hx st s = Inr d \<Longrightarrow> de_Action d \<in> {Ask, Deny}" and app: "harmless_app hx"
    and id: "st_SessionID st = sid" and reuse: "\<not> reusable_answer sid (rp_Approvals (w_Repos w))"
  shows "wtriple (as_before w) (fanout_decision sv hx st s) (\<lambda>x v. (\<forall>d. x = Some d \<longrightarrow> de_Action d = Deny) \<and> as_before w v) (same_facts w)"
proof -
  have find: "wtriple (as_before w) (findReusableApprovalDecision sv hx st s d) (\<lambda>x v. x = None \<and> as_before w v) (same_facts w)" for d
  proof (rule wtripleI)
    fix v x v' assume v: "as_before w v" and run: "findReusableApprovalDecision sv hx st s d v = (Inr x, v')"
    have "x = None" using no_reuse[OF _ app, of st v sv s d] run v id reuse by auto
    then show "x = None \<and> as_before w v'" using wtripleD(1)[OF wt_as_before[OF before_acting.mv_reusable[OF app]] v run] by simp
  qed (rule wtripleD(2)[OF wt_as_before[OF before_acting.mv_reusable[OF app]]])
  have policy': "wtriple (as_before w) (slift (hx_Policy hx st s)) (\<lambda>d v. de_Action d \<in> {Ask, Deny} \<and> as_before w v) (same_facts w)"
    using policy by (auto simp: wtriple_def svc_apply split: sum.split)
  show ?thesis unfolding fanout_decision_def
    by (rule wt_bind[OF policy'], rule wt_assume, rule wt_if, rule wt_sret, simp, rule wt_bind[OF find], rule wt_assume, rule wt_sret, simp)
qed

lemma prepare_strict:
  assumes policy: "\<And>st s d. hx_Policy hx st s = Inr d \<Longrightarrow> de_Action d \<in> {Ask, Deny}" and app: "harmless_app hx"
    and id: "st_SessionID st = sid" and reuse: "\<not> reusable_answer sid (rp_Approvals (w_Repos w))"
  shows "wtriple (as_before w) (prepare_loop sv hx sid st steps)
    (\<lambda>x v. (\<forall>ps. x = Some ps \<longrightarrow> (\<forall>p \<in> set ps. de_Action (fp_Decision p) = Deny)) \<and> as_before w v) (same_facts w)"
proof (induction steps)
  case (Cons original steps)
  have attempt: "wtriple (as_before w) (fanout_attempt sid st original d s) (\<lambda>p v. fp_Decision p = d \<and> as_before w v) (same_facts w)" for d s
    unfolding fanout_attempt_def ensureExecutionCycleID_def Let_def
    by (rule wt_bind[OF wt_as_before[OF before_acting.mv_newUUID]], rule wt_bind[OF wt_as_before[OF before_acting.mv_newUUID]],
        rule wt_bind[OF wt_as_before[OF before_acting.mv_nowMilli]], rule wt_bind[OF wt_as_before], intro before_acting.mv_rules, rule wt_prod, rule wt_sret, simp)
  have dec: "wtriple (as_before w) (fanout_decision sv hx (setSessionPlanRef st s) r)
      (\<lambda>x v. (\<forall>d. x = Some d \<longrightarrow> de_Action d = Deny) \<and> as_before w v) (same_facts w)" for s r
    by (rule fanout_decision_strict[OF policy app _ reuse]) (simp_all add: id)
  show ?case unfolding prepare_loop.simps Let_def
  proof (rule wt_if, rule wt_sfail, simp, rule wt_bind[OF wt_as_before[OF before_acting.mv_slift]], rule wt_bind[OF wt_as_before[OF before_acting.mv_nowMilli]],
      rule wt_if, rule Cons, rule wt_bind[OF wt_as_before[OF before_acting.mv_resolveProgramBindings]], rule wt_bind[OF dec], rule wt_assume)
    fix resolved and x :: "decision option"
    assume deny: "\<forall>d. x = Some d \<longrightarrow> de_Action d = Deny"
    show "wtriple (as_before w) (case x of None \<Rightarrow> sret None | Some d \<Rightarrow> sbind (fanout_attempt sid st original d resolved) (\<lambda>p.
              sbind (prepare_loop sv hx sid st steps) (\<lambda>rest. sret (map_option ((#) p) rest))))
       (\<lambda>x v. (\<forall>ps. x = Some ps \<longrightarrow> (\<forall>p \<in> set ps. de_Action (fp_Decision p) = Deny)) \<and> as_before w v) (same_facts w)"
    proof (cases x)
      case (Some d)
      show ?thesis unfolding Some option.case
        by (rule wt_bind[OF attempt], rule wt_assume, rule wt_bind[OF Cons], rule wt_sret) (use deny Some in auto)
    qed (simp add: wt_sret)
  qed
qed (simp add: wt_sret)

text \<open>A denied step writes nothing and its outcome is idle.\<close>

lemma execute_denied:
  assumes "de_Action (fp_Decision p) = Deny"
  shows "moves same_facts (executeFanoutPreparedStep sv hx st p)"
    and "wtriple (\<lambda>_. True) (executeFanoutPreparedStep sv hx st p) (\<lambda>out _. idle_outcome out) (\<lambda>_. True)"
  unfolding executeFanoutPreparedStep_def Let_def if_P[OF assms] step_event_def
  by (intro facts.mv_rules)
    (rule wt_bind[OF wt_any], rule wt_bind[OF wt_any], rule wt_bind[OF wt_any], rule wt_bind[OF wt_any], rule wt_sret, simp add: idle_outcome_def new_outcome_def)

lemma execute_order_denied:
  assumes "\<forall>p \<in> set ps. de_Action (fp_Decision p) = Deny" and "\<forall>i \<in> set is. i < length ps" and "\<forall>out \<in> set outs. idle_outcome out"
  shows "wtriple (same_facts w) (execute_order sv hx st ps is outs) (\<lambda>outs v. (\<forall>out \<in> set outs. idle_outcome out) \<and> same_facts w v) (same_facts w)"
  using assms(2,3)
proof (induction "is" arbitrary: outs)
  case (Cons i "is")
  have d: "de_Action (fp_Decision (ps ! i)) = Deny" using assms(1) Cons.prems by simp
  have "wtriple (same_facts w) (executeFanoutPreparedStep sv hx st (ps ! i)) (\<lambda>out v. idle_outcome out \<and> same_facts w v) (same_facts w)"
  proof (rule wtripleI)
    fix v out v' assume v: "same_facts w v" and run: "executeFanoutPreparedStep sv hx st (ps ! i) v = (Inr out, v')"
    have "same_facts v v'" using execute_denied(1)[OF d] run unfolding moves_def by (metis snd_conv)
    then show "idle_outcome out \<and> same_facts w v'" using wtripleD(1)[OF execute_denied(2)[OF d] _ run] v by simp
  next
    fix v e v' assume v: "same_facts w v" and run: "executeFanoutPreparedStep sv hx st (ps ! i) v = (Inl e, v')"
    show "same_facts w v'" using execute_denied(1)[OF d] run v unfolding moves_def by (metis snd_conv)
  qed
  then show ?case unfolding execute_order.simps
    by (rule wt_bind, rule_tac wt_assume, rule_tac Cons.IH) (use Cons.prems in \<open>auto dest: set_update_subset_insert[THEN subsetD]\<close>)
qed (simp add: wt_sret)

lemma finalize_idle:
  assumes "\<forall>out \<in> set outs. idle_outcome out"
  shows "wtriple (same_facts w) (finalize_all sv hx st outs) (\<lambda>outs' v. (\<forall>out \<in> set outs'. idle_outcome out) \<and> length outs' = length outs \<and> same_facts w v) (same_facts w)"
  using assms
proof (induction outs)
  case (Cons out outs)
  have "wtriple (same_facts w) (finalize_one sv hx st out) (\<lambda>out' v. idle_outcome out' \<and> same_facts w v) (same_facts w)"
    using Cons.prems by (simp add: wtriple_def finalize_one_def svc_apply idle_outcome_def finalizeFanoutDenyOutcome_def Let_def)
  then show ?case unfolding finalize_all.simps
    by (rule wt_bind, rule_tac wt_assume, rule_tac wt_bind[OF Cons.IH], simp add: Cons.prems, rule_tac wt_assume, rule_tac wt_assume, rule_tac wt_sret, simp)
qed (simp add: wt_sret)

lemma facts_plan_steps: "moves same_facts (updateLatestPlanStepsInStoreWithBudgets sid steps b)"
  unfolding updateLatestPlanStepsInStoreWithBudgets_def Let_def by (intro facts.mv_rules facts.plan_Update)

lemma facts_idle_writes:
  assumes "\<forall>out \<in> set outs. idle_outcome out" and "\<And>evs. moves same_facts (emit evs)"
  shows "moves same_facts (fanout_writes sv sid leaseID st initial outs emit)"
proof -
  have "moves same_facts (fanout_facts out)" if "idle_outcome out" for out
    using that unfolding fanout_facts_def idle_outcome_def persistCapabilitySnapshot_def persistRuntimeHandles_def
    by (auto intro!: facts.mv_rules facts.mv_attempt)
  then have "moves same_facts (sdo_all fanout_facts outs)" using assms(1)
    by (induction outs) (auto intro!: facts.mv_rules)
  then show ?thesis unfolding fanout_writes_def
    by (rule_tac facts.mv_bind, rule_tac facts_plan_steps, rule_tac facts.mv_bind, rule_tac facts.mv_task, rule_tac facts.mv_bind,
        rule_tac facts.session_persist, rule_tac facts.mv_bind, assumption, rule_tac facts.mv_bind, rule_tac assms(2), rule_tac facts.mv_sret)
qed

lemma persist_idle:
  assumes idle: "\<forall>out \<in> set outs. idle_outcome out" and ne: "outs \<noteq> []"
  shows "wtriple (same_facts w) (persistFanoutRound sv hx sid leaseID latest working outs ts evs) (\<lambda>_. same_facts w) (same_facts w)"
proof -
  have "lastAggregateIndex outs = None"
    using idle by (auto simp: lastAggregateIndex_def find_None_iff in_aggregate_def idle_outcome_def)
  then have agg: "finalize_aggregate sv hx st latest (lastAggregateIndex outs) first = sret first" for st first by (simp add: finalize_aggregate_def)
  have keep: "wtriple (same_facts w) m (\<lambda>_. same_facts w) (same_facts w)" if "moves same_facts m" for m :: "'x svc"
    by (rule wt_moves[of same_facts, OF that]) auto
  have "moves same_facts (with_runner sv (\<lambda>_. fanout_writes sv sid leaseID final evs outs'))" if "\<forall>out \<in> set outs'. idle_outcome out" for final outs'
    by (intro facts.mv_with_runner facts_idle_writes that)
  then have unit: "wtriple (same_facts w) (with_runner sv (\<lambda>_. fanout_writes sv sid leaseID final evs outs')) (\<lambda>_. same_facts w) (same_facts w)"
    if "\<forall>out \<in> set outs'. idle_outcome out" for final outs' using keep that by blast
  have ret: "sbind (sret x) k = k x" for x :: "fanout_outcome list" and k :: "fanout_outcome list \<Rightarrow> fanout_output svc"
    by (simp add: fun_eq_iff svc_apply)
  show ?thesis unfolding persistFanoutRound_def Let_def agg ret
  proof (rule wt_bind[OF finalize_idle[OF idle]], rule wt_assume, rule wt_assume, rule wt_bind[OF keep[OF facts.mv_events(2)]], rule wt_bind[OF unit])
    fix outs' :: "fanout_outcome list" and e
    assume ok: "\<forall>out \<in> set outs'. idle_outcome out" "length outs' = length outs"
    have "idle_outcome (last outs')" using ok ne by (metis last_in_set length_0_conv)
    then show "\<forall>out \<in> set (butlast outs' @ [last outs'\<lparr>fo_Events := fo_Events (last outs') @ [e]\<rparr>]). idle_outcome out"
      using ok(1) by (auto simp: idle_outcome_def dest: in_set_butlastD)
  qed (intro wt_prod wt_sret)
qed

lemma markSessionInFlight_facts: "moves same_facts (markSessionInFlight sv sid leaseID stepID)"
  unfolding markSessionInFlight_def updateRecoveryState_def update_recovery_def recovery_event_def newAuditEventAt_def Let_def
  by (intro facts.mv_rules facts.mv_ensureSessionLease facts.mv_stepRef facts.mv_with_runner facts.mv_gets facts.session_persist)

section \<open>Properties\<close>

text \<open>
  C2. A fan-out round keeps every outcome. The semaphore lets at most as many goroutines run at once as
  it has places; every move of it starts or ends one, and as long as there is work left a move is
  possible, so the round ends. When it has ended, whatever the order in which the goroutines came, the
  execution returns one outcome per prepared step, at the index of that step and with its attempt, and
  the outcome carries an action, recorded for that attempt and step, exactly if the step was not denied.
\<close>

theorem fanout_outcomes_complete:
  assumes run: "(fan_move (length ps) c)\<^sup>*\<^sup>* fan_start (k, running, ord)" and places: "0 < c"
  shows "card running \<le> c
    \<and> (\<forall>s. fan_move (length ps) c (k, running, ord) s \<longrightarrow> fan_rank (length ps) s < fan_rank (length ps) (k, running, ord))
    \<and> (if k = length ps \<and> running = {}
       then \<exists>outs w'. executeFanoutPreparedSteps sv hx st ps (\<lambda>_. ord) w = (Inr outs, w') \<and> length outs = length ps
              \<and> (\<forall>i < length ps. outcome_of (ps ! i) (outs ! i))
       else \<exists>s. fan_move (length ps) c (k, running, ord) s)"
proof -
  have ok: "fan_ok (length ps) c (k, running, ord)" by (rule fan_ok_reachable[OF run])
  have "\<exists>outs w'. executeFanoutPreparedSteps sv hx st ps (\<lambda>_. ord) w = (Inr outs, w') \<and> length outs = length ps
      \<and> (\<forall>i < length ps. outcome_of (ps ! i) (outs ! i))" if "k = length ps" "running = {}"
  proof -
    have ord: "distinct ord" "set ord = {..<length ps}" using ok that by (auto simp: fan_ok_def)
    then show ?thesis unfolding executeFanoutPreparedSteps_def
      using execute_order_run[of ord "replicate (length ps) zero_outcome" sv hx st ps w] by auto
  qed
  moreover have "\<not> (k = length ps \<and> running = {}) \<Longrightarrow> \<exists>s. fan_move (length ps) c (k, running, ord) s" by (rule fan_progress[OF ok places])
  moreover have "card running \<le> c" using ok by (simp add: fan_ok_def)
  moreover have "fan_move (length ps) c (k, running, ord) s \<Longrightarrow> fan_rank (length ps) s < fan_rank (length ps) (k, running, ord)" for s
    by (rule fan_rank_less[OF ok])
  ultimately show ?thesis by auto
qed

definition ex_prepared :: "string \<Rightarrow> PermAction \<Rightarrow> fanout_prepared" where
  "ex_prepared i act = \<lparr>fp_Original = ex_step, fp_Step = ex_step\<lparr>sp_StepID := i\<rparr>, fp_Decision = mk_decision act [] [],
     fp_Attempt = zero_attempt\<lparr>at_AttemptID := i\<rparr>\<rparr>"

theorem fanout_outcomes_complete_witness:
  "\<exists>outs w'. executeFanoutPreparedSteps ex_service (ex_app Allow) zero_session [ex_prepared ''a'' Allow, ex_prepared ''b'' Deny] (\<lambda>_. [1, 0]) ex_run_world = (Inr outs, w')
     \<and> length outs = 2 \<and> fo_Action (outs ! 0) \<noteq> None \<and> fo_Action (outs ! 1) = None"
proof -
  let ?ps = "[ex_prepared ''a'' Allow, ex_prepared ''b'' Deny]"
  let ?m = "fan_move (length ?ps) 2"
  have "?m\<^sup>*\<^sup>* fan_start (Suc 0, {0}, [])" using fan_move.start[of 0 "length ?ps" "{}" 2 "[]"] by auto
  moreover have "?m (Suc 0, {0}, []) (2, {1, 0}, [])" using fan_move.start[of "Suc 0" "length ?ps" "{0}" 2 "[]"] by (simp add: numeral_2_eq_2)
  moreover have "?m (2, {1, 0}, []) (2, {0}, [1])" using fan_move.finish[of 1 "{1, 0}" "length ?ps" 2 2 "[]"] by simp
  moreover have "?m (2, {0}, [1]) (2, {}, [1, 0])" using fan_move.finish[of 0 "{0}" "length ?ps" 2 2 "[1]"] by simp
  ultimately have run: "?m\<^sup>*\<^sup>* fan_start (2, {}, [1, 0])" by (meson rtranclp.rtrancl_into_rtrancl)
  from fanout_outcomes_complete[OF run, of ex_service "ex_app Allow" zero_session ex_run_world]
  show ?thesis by (force simp: outcome_of_def ex_prepared_def mk_decision_def)
qed

lemma wt_same_facts: "moves same_facts m \<Longrightarrow> wtriple (same_facts w) m (\<lambda>_. same_facts w) (same_facts w)"
  by (rule wt_moves[of same_facts], assumption) auto

lemma execute_order_length:
  "wtriple (\<lambda>_. True) (execute_order sv hx st ps is outs) (\<lambda>outs' _. length outs' = length outs) (\<lambda>_. True)"
proof (induction "is" arbitrary: outs)
  case (Cons i "is")
  show ?case unfolding execute_order.simps by (rule wt_bind[OF wt_any], rule wt_weaken[OF Cons.IH]) simp_all
qed (simp add: wt_sret)

text \<open>After the preparation of steps that are all denied.\<close>

lemma denied_round:
  assumes deny: "\<forall>p \<in> set ps. de_Action (fp_Decision p) = Deny" and ne: "ps \<noteq> []" and schedule: "\<And>n. set (schedule n) \<subseteq> {..<n}"
  shows "wtriple (as_before w) (sbind (markSessionInFlight sv sid leaseID anchor) (\<lambda>_. sbind (getSessionRecord sv sid) (\<lambda>current.
      sbind (executeFanoutPreparedSteps sv hx (rebaseFanoutWorkingState working current) ps schedule) (\<lambda>outcomes.
      sbind (persistFanoutRound sv hx sid leaseID latest (rebaseFanoutWorkingState working current) outcomes ts evs) (\<lambda>out. sret (Some out))))))
    (\<lambda>_. same_facts w) (same_facts w)"
proof -
  have start: "wtriple (as_before w) (markSessionInFlight sv sid leaseID anchor) (\<lambda>_. same_facts w) (same_facts w)"
    by (rule wt_weaken[OF wt_same_facts[OF markSessionInFlight_facts]]) auto
  have exec: "wtriple (same_facts w) (executeFanoutPreparedSteps sv hx st ps schedule)
      (\<lambda>outs v. ((\<forall>out \<in> set outs. idle_outcome out) \<and> outs \<noteq> []) \<and> same_facts w v) (same_facts w)" for st
  proof -
    have idle: "\<forall>out \<in> set (replicate (length ps) zero_outcome). idle_outcome out" by (simp add: idle_outcome_def zero_outcome_def new_outcome_def)
    have "\<forall>i \<in> set (schedule (length ps)). i < length ps" using schedule by auto
    note order = execute_order_denied[OF deny this idle, of w sv hx st]
    show ?thesis unfolding executeFanoutPreparedSteps_def
    proof (rule wtripleI)
      fix v outs v' assume v: "same_facts w v" and run: "execute_order sv hx st ps (schedule (length ps)) (replicate (length ps) zero_outcome) v = (Inr outs, v')"
      show "((\<forall>out \<in> set outs. idle_outcome out) \<and> outs \<noteq> []) \<and> same_facts w v'"
        using wtripleD(1)[OF order v run] wtripleD(1)[OF execute_order_length _ run] ne by auto
    qed (rule wtripleD(2)[OF order])
  qed
  show ?thesis
    by (rule wt_bind[OF start], rule wt_bind[OF wt_same_facts[OF facts.mv_getters(1)]], rule wt_bind[OF exec], rule wt_assume,
        rule wt_bind[OF persist_idle], blast, blast, rule wt_sret)
qed

lemma wt_advance:
  assumes "st_SessionID st = sid"
  shows "wtriple (as_before w) (advanceStateToExecuteForFanout st stepID) (\<lambda>x v. st_SessionID (fst x) = sid \<and> as_before w v) (same_facts w)"
  unfolding advanceStateToExecuteForFanout_def
proof (rule wt_prod)
  fix working ts assume "advance_state stepID st = (working, ts)"
  then have "st_SessionID working = sid" using advance_keeps_id[of stepID st] assms by simp
  moreover have "moves as_before (fanout_changed_events st stepID ts)"
    by (induction ts) (simp only: fanout_changed_events.simps before_acting.mv_sret, unfold fanout_changed_events.simps, intro before_acting.mv_rules, assumption)
  ultimately show "wtriple (as_before w) (sbind (fanout_changed_events st stepID ts) (\<lambda>events. sret (working, ts, events)))
      (\<lambda>x v. st_SessionID (fst x) = sid \<and> as_before w v) (same_facts w)"
    by (intro wt_bind[OF wt_as_before] wt_sret) simp_all
qed


definition ex_fan_step :: "string \<Rightarrow> step" where
  "ex_fan_step i = ex_step\<lparr>sp_StepID := i, sp_Metadata := [(''aggregate_id'', VStr ''g''), (''aggregate_scope'', VStr AggregateScopeTargetFanout),
     (''aggregate_max_concurrency'', VInt 2)]\<rparr>"

definition ex_fan_plan :: plan where
  "ex_fan_plan = \<lparr>pl_PlanID = ''p'', pl_SessionID = ''s1'', pl_Revision = 1, pl_Status = StatusActive, pl_ChangeReason = [],
     pl_Steps = [ex_fan_step ''a'', ex_fan_step ''b''], pl_CreatedAt = 0, pl_UpdatedAt = 0\<rparr>"


text \<open>
  The last step of an aggregate is looked at twice: a failure of its action is counted before the
  aggregate is verified and again after it, whatever the verification says.
\<close>

lemma failed_action_not_verified:
  assumes "\<not> ar_OK (xr_Action (fo_Execution out))" and "\<not> fo_Verified out"
  shows "\<not> fo_Verified (finalizeFanoutAggregateOutcome sv hx st provisional out now)"
  using assms by (auto simp: finalizeFanoutAggregateOutcome_def concluded_def Let_def split: option.split prod.split)

theorem failed_aggregate_step_counts_twice:
  assumes i: "i < length outs" "fo_Action (outs ! i) \<noteq> None" "\<not> fo_Verified (outs ! i)" "\<not> ar_OK (xr_Action (fo_Execution (outs ! i)))"
    and rest: "\<And>j. j < length outs \<Longrightarrow> j \<noteq> i \<Longrightarrow> fo_Verified (outs ! j)"
    and fin: "finalize_aggregate sv hx st latest (Some i) outs w = (Inr outs', w')"
  shows "retryFailures (Some i) outs outs' = 2"
proof -
  have "{j. j < length outs \<and> fo_Action (outs ! j) \<noteq> None \<and> \<not> fo_Verified (outs ! j)} = {i}" using i rest by auto
  moreover have "\<not> fo_Verified (outs' ! i)"
    using fin i failed_action_not_verified[OF i(4) i(3)] by (auto simp: finalize_aggregate_def sbind_def sret_def nowMilli_def split: prod.splits sum.splits)
  ultimately show ?thesis by (simp add: retryFailures_def first_failures_def length_filter_conv_card)
qed

end
