(* ===== verification/Planning.thy ===== *)
theory Planning
  imports Step_Safety
begin

text \<open>
  Planning: \<^verbatim>\<open>pkg/harness/runtime\<close> planning.go, compaction.go, context.go, context_types.go and the part of
  capability_freeze.go that stores a plan together with the capabilities it was made for. The planner,
  the context assembler, the compactor and the freezer belong to the embedding application and are
  parameters; the ones that come with the runtime are defined here. Planning observability is left out.
\<close>

section \<open>Contexts\<close>

record context_task =
  ct_TaskID :: string
  ct_TaskType :: string
  ct_Goal :: string

record context_session =
  cs_SessionID :: string
  cs_Phase :: Phase
  cs_CurrentStepID :: string
  cs_RetryCount :: int
  cs_ExecutionState :: ExecutionState

record context_compaction =
  cc_SummaryID :: string
  cc_PreviousSummaryID :: string
  cc_Trigger :: string
  cc_Strategy :: string
  cc_OriginalBytes :: int
  cc_CompactedBytes :: int
  cc_Metadata :: meta

record context_package =
  cp_Task :: context_task
  cp_Session :: context_session
  cp_Constraints :: meta
  cp_Metadata :: meta
  cp_Derived :: meta
  cp_Compaction :: "context_compaction option"
  cp_Extras :: meta

record compaction_policy =
  cy_OnPlan :: bool
  cy_OnExecute :: bool
  cy_OnRecover :: bool

abbreviation CompactionTriggerPlan :: string where "CompactionTriggerPlan \<equiv> ''plan''"
abbreviation CompactionTriggerExecute :: string where "CompactionTriggerExecute \<equiv> ''execute''"
abbreviation CompactionTriggerRecover :: string where "CompactionTriggerRecover \<equiv> ''recover''"

definition DefaultCompactionPolicy :: compaction_policy where
  "DefaultCompactionPolicy = \<lparr>cy_OnPlan = True, cy_OnExecute = True, cy_OnRecover = True\<rparr>"

definition empty_package :: context_package where
  "empty_package = \<lparr>cp_Task = \<lparr>ct_TaskID = [], ct_TaskType = [], ct_Goal = []\<rparr>,
     cp_Session = \<lparr>cs_SessionID = [], cs_Phase = PhaseOther [], cs_CurrentStepID = [], cs_RetryCount = 0, cs_ExecutionState = ExecutionOther []\<rparr>,
     cp_Constraints = [], cp_Metadata = [], cp_Derived = [], cp_Compaction = None, cp_Extras = []\<rparr>"

definition opt_section :: "string \<Rightarrow> meta \<Rightarrow> meta \<Rightarrow> meta" where
  "opt_section key part out = (if part = [] then out else gm_put key (VMap part) out)"

definition context_ToMap :: "context_package \<Rightarrow> meta" where
  "context_ToMap pkg =
     (let out = [(''task'', VMap [(''task_id'', VStr (ct_TaskID (cp_Task pkg))), (''task_type'', VStr (ct_TaskType (cp_Task pkg))),
                  (''goal'', VStr (ct_Goal (cp_Task pkg)))]),
                 (''session'', VMap [(''session_id'', VStr (cs_SessionID (cp_Session pkg))),
                  (''phase'', VNamed ''session.Phase'' (phase_text (cs_Phase (cp_Session pkg)))),
                  (''current_step_id'', VStr (cs_CurrentStepID (cp_Session pkg))), (''retry_count'', VInt (cs_RetryCount (cp_Session pkg))),
                  (''execution_state'', VNamed ''session.ExecutionState'' (execution_text (cs_ExecutionState (cp_Session pkg))))])];
          out = opt_section ''derived'' (cp_Derived pkg) (opt_section ''metadata'' (cp_Metadata pkg) (opt_section ''constraints'' (cp_Constraints pkg) out));
          out = (case cp_Compaction pkg of None \<Rightarrow> out
            | Some c \<Rightarrow> gm_put ''compaction'' (VMap [(''summary_id'', VStr (cc_SummaryID c)), (''previous_summary_id'', VStr (cc_PreviousSummaryID c)),
                (''trigger'', VNamed ''contextsummary.Trigger'' (cc_Trigger c)), (''strategy'', VStr (cc_Strategy c)),
                (''original_bytes'', VInt (cc_OriginalBytes c)), (''compacted_bytes'', VInt (cc_CompactedBytes c)),
                (''metadata'', VMap (cc_Metadata c))]) out)
      in fold (\<lambda>(k, v). gm_put k v) (cp_Extras pkg) out)"

section \<open>What the application provides\<close>

record planner_app =
  px_Assemble :: "session \<Rightarrow> task_spec \<Rightarrow> context_package svc"
  px_Compactor :: "(context_package \<Rightarrow> session \<Rightarrow> task_spec \<Rightarrow> loop_budgets \<Rightarrow> (context_package \<times> summary option) svc) option"
  px_CompactionPolicy :: compaction_policy
  px_PlanNext :: "session \<Rightarrow> task_spec \<Rightarrow> context_package \<Rightarrow> step svc"
  px_Freezer :: "(string \<Rightarrow> string \<Rightarrow> cap_view svc) option"

definition DefaultContextAssembler :: "session \<Rightarrow> task_spec \<Rightarrow> context_package svc" where
  "DefaultContextAssembler st spec = sret (empty_package\<lparr>
     cp_Task := \<lparr>ct_TaskID = ts_TaskID spec, ct_TaskType = ts_TaskType spec, ct_Goal = ts_Goal spec\<rparr>,
     cp_Session := \<lparr>cs_SessionID = st_SessionID st, cs_Phase = st_Phase st, cs_CurrentStepID = st_CurrentStepID st,
       cs_RetryCount = st_RetryCount st, cs_ExecutionState = st_ExecutionState st\<rparr>,
     cp_Constraints := ts_Constraints spec, cp_Metadata := ts_Metadata spec\<rparr>)"

definition NoopCompactor :: "context_package \<Rightarrow> session \<Rightarrow> task_spec \<Rightarrow> loop_budgets \<Rightarrow> (context_package \<times> summary option) svc" where
  "NoopCompactor pkg st spec budgets = sret (pkg, None)"

definition NoopPlanner :: "session \<Rightarrow> task_spec \<Rightarrow> context_package \<Rightarrow> step svc" where
  "NoopPlanner st spec pkg = sfail ErrNoPlannerConfigured"

definition registry_freezer :: "tool_map \<Rightarrow> string \<Rightarrow> string \<Rightarrow> cap_view svc" where
  "registry_freezer m sid tid = sbind newUUID (\<lambda>u. sbind nowMilli (\<lambda>t. sret (Freeze u t (Some m) sid tid)))"

section \<open>Compaction\<close>

definition spec_of_task :: "task \<Rightarrow> task_spec" where
  "spec_of_task rec = \<lparr>ts_TaskID = tk_TaskID rec, ts_TaskType = tk_TaskType rec, ts_Goal = tk_Goal rec,
     ts_Constraints = tk_Constraints rec, ts_Metadata = tk_Metadata rec\<rparr>"

definition shouldCompact :: "planner_app \<Rightarrow> string \<Rightarrow> bool" where
  "shouldCompact px trigger =
     (if trigger = CompactionTriggerExecute then cy_OnExecute (px_CompactionPolicy px)
      else if trigger = CompactionTriggerRecover then cy_OnRecover (px_CompactionPolicy px)
      else cy_OnPlan (px_CompactionPolicy px))"

definition listContextSummaries :: "service \<Rightarrow> string \<Rightarrow> summary list svc" where
  "listContextSummaries sv sid = readRepositories sv (\<lambda>r. Inr (summary_List sid (rp_ContextSummaries r)))"

definition latestContextSummary :: "service \<Rightarrow> string \<Rightarrow> summary option svc" where
  "latestContextSummary sv sid =
     (if sid = [] then sret None
      else sbind (listContextSummaries sv sid) (\<lambda>items. sret (if items = [] then None else Some (last items))))"

definition do_summary_Create :: "summary \<Rightarrow> summary svc" where
  "do_summary_Create x = sbind newUUID (\<lambda>u. sbind nowMilli (\<lambda>t. sexec (\<lambda>r.
     case summary_Create u t x (rp_ContextSummaries r) of (y, m) \<Rightarrow> Inr (y, r\<lparr>rp_ContextSummaries := m\<rparr>))))"

definition persistContextSummary :: "service \<Rightarrow> summary \<Rightarrow> summary svc" where
  "persistContextSummary sv x = with_runner sv (\<lambda>_ _. do_summary_Create x)"

definition with_previous :: "summary option \<Rightarrow> context_package \<Rightarrow> context_package" where
  "with_previous previous pkg = (case previous of None \<Rightarrow> pkg
     | Some p \<Rightarrow> pkg\<lparr>cp_Extras := gm_put ''previous_summary'' (VMap [(''summary_id'', VStr (su_SummaryID p)),
         (''trigger'', VNamed ''contextsummary.Trigger'' (su_Trigger p)), (''summary'', VMap (su_Summary p)),
         (''metadata'', VMap (su_Metadata p))]) (cp_Extras pkg)\<rparr>)"

definition completed_summary :: "summary option \<Rightarrow> session \<Rightarrow> task_spec \<Rightarrow> string \<Rightarrow> summary \<Rightarrow> summary" where
  "completed_summary previous st spec trigger x =
     (let x = x\<lparr>su_SessionID := or_str (su_SessionID x) (st_SessionID st), su_TaskID := or_str (su_TaskID x) (ts_TaskID spec),
                su_Trigger := trigger\<rparr>
      in case previous of
           Some p \<Rightarrow> if su_SummaryID p \<noteq> [] \<and> su_SummaryID p \<noteq> su_SummaryID x then x\<lparr>su_SupersedesSummaryID := su_SummaryID p\<rparr> else x
         | None \<Rightarrow> x)"

definition compaction_of :: "summary \<Rightarrow> context_compaction" where
  "compaction_of p = \<lparr>cc_SummaryID = su_SummaryID p, cc_PreviousSummaryID = su_SupersedesSummaryID p, cc_Trigger = su_Trigger p,
     cc_Strategy = su_Strategy p, cc_OriginalBytes = su_OriginalBytes p, cc_CompactedBytes = su_CompactedBytes p,
     cc_Metadata = su_Metadata p\<rparr>"

definition compactContextPackage :: "service \<Rightarrow> planner_app \<Rightarrow> context_package \<Rightarrow> session \<Rightarrow> task_spec \<Rightarrow> string
    \<Rightarrow> (context_package \<times> summary option) svc" where
  "compactContextPackage sv px assembled st spec trigger =
     sbind (latestContextSummary sv (st_SessionID st)) (\<lambda>previous.
     let assembled = with_previous previous assembled in
     case px_Compactor px of
       None \<Rightarrow> sret (assembled, None)
     | Some shrink \<Rightarrow>
         if \<not> shouldCompact px trigger then sret (assembled, None)
         else sbind (shrink assembled st spec (sv_Budgets sv)) (\<lambda>(assembled, x).
           case x of
             None \<Rightarrow> sret (assembled, None)
           | Some x \<Rightarrow> sbind (persistContextSummary sv (completed_summary previous st spec trigger x)) (\<lambda>persisted.
               sret (assembled\<lparr>cp_Compaction := Some (compaction_of persisted)\<rparr>, Some persisted))))"

definition compactAssembledContext :: "service \<Rightarrow> planner_app \<Rightarrow> session \<Rightarrow> task_spec \<Rightarrow> string \<Rightarrow> (context_package \<times> summary option) svc" where
  "compactAssembledContext sv px st spec trigger =
     sbind (px_Assemble px st spec) (\<lambda>assembled. compactContextPackage sv px assembled st spec trigger)"

definition CompactSessionContext :: "service \<Rightarrow> planner_app \<Rightarrow> string \<Rightarrow> string \<Rightarrow> (context_package \<times> summary option) svc" where
  "CompactSessionContext sv px sid trigger =
     sbind (getSessionRecord sv sid) (\<lambda>st.
       if st_TaskID st = [] then sret (empty_package, None)
       else sbind (getTaskRecord sv (st_TaskID st)) (\<lambda>rec. compactAssembledContext sv px st (spec_of_task rec) trigger))"

definition compactSessionContextBestEffort :: "service \<Rightarrow> planner_app \<Rightarrow> string \<Rightarrow> string \<Rightarrow> unit svc" where
  "compactSessionContextBestEffort sv px sid trigger = best_effort (CompactSessionContext sv px sid trigger)"

section \<open>Frozen capabilities\<close>

definition freezeCapabilityView :: "planner_app \<Rightarrow> string \<Rightarrow> string \<Rightarrow> cap_view svc" where
  "freezeCapabilityView px sid tid = (case px_Freezer px of None \<Rightarrow> sret empty_view | Some freeze \<Rightarrow> freeze sid tid)"

definition view_entry :: "snapshot \<Rightarrow> gval" where
  "view_entry e = VMap [(''tool_name'', VStr (sn_ToolName e)), (''version'', VStr (sn_Version e)), (''capability_type'', VStr (sn_CapabilityType e)),
     (''risk_level'', VNamed ''tool.RiskLevel'' (risk_text (sn_RiskLevel e))), (''metadata'', VMap (sn_Metadata e))]"

definition attachCapabilityViewToContext :: "context_package \<Rightarrow> cap_view \<Rightarrow> context_package" where
  "attachCapabilityViewToContext pkg view =
     (if cv_ViewID view = [] then pkg
      else pkg\<lparr>cp_Extras := gm_put ''capability_view'' (VMap [(''view_id'', VStr (cv_ViewID view)), (''frozen_at'', VInt64 (cv_FrozenAt view)),
             (''entries'', VList (map view_entry (cv_Entries view)))]) (cp_Extras pkg)\<rparr>)"

definition plan_snapshot :: "plan \<Rightarrow> cap_view \<Rightarrow> snapshot \<Rightarrow> snapshot" where
  "plan_snapshot pl view e = e\<lparr>sn_SnapshotID := [], sn_SessionID := pl_SessionID pl, sn_PlanID := pl_PlanID pl,
     sn_ViewID := cv_ViewID view, sn_Scope := SnapshotScopePlan, sn_StepID := []\<rparr>"

definition persistCapabilityViewInStore :: "plan \<Rightarrow> cap_view \<Rightarrow> unit svc" where
  "persistCapabilityViewInStore pl view =
     (if cv_ViewID view = [] then sret () else sdo_all (\<lambda>e. do_snapshot_Create (plan_snapshot pl view e)) (cv_Entries view))"

definition clearCapabilityViewPin :: "step \<Rightarrow> step" where
  "clearCapabilityViewPin s = s\<lparr>sp_Metadata := gm_del ''capability_plan_reason'' (gm_del ''capability_view_id'' (sp_Metadata s))\<rparr>"

definition degradeFrozenPlanInStore :: "plan \<Rightarrow> plan svc" where
  "degradeFrozenPlanInStore created =
     (let degraded = created\<lparr>pl_Steps := map clearCapabilityViewPin (pl_Steps created)\<rparr>
      in sbind (do_plan_Update degraded) (\<lambda>_. sret degraded))"

definition do_planning_Create :: "planning_record \<Rightarrow> planning_record svc" where
  "do_planning_Create x = sbind newUUID (\<lambda>u. sbind nowMilli (\<lambda>t. sexec (\<lambda>r.
     case planning_Create u t x (rp_PlanningRecords r) of (y, m) \<Rightarrow> Inr (y, r\<lparr>rp_PlanningRecords := m\<rparr>))))"

definition link_planning :: "planning_record \<Rightarrow> plan \<Rightarrow> string \<Rightarrow> planning_record svc" where
  "link_planning rec created tid =
     (let rec = rec\<lparr>pr_SessionID := pl_SessionID created, pr_TaskID := or_str (pr_TaskID rec) tid,
                    pr_PlanID := pl_PlanID created, pr_PlanRevision := pl_Revision created\<rparr>
      in if pr_FinishedAt rec = 0 then sbind nowMilli (\<lambda>t. sret (rec\<lparr>pr_FinishedAt := t\<rparr>)) else sret rec)"

definition generated_event :: "string \<Rightarrow> string \<Rightarrow> string \<Rightarrow> plan \<Rightarrow> audit_event svc" where
  "generated_event sid tid planningID created =
     sbind nowMilli (\<lambda>t. sbind (newAuditEventAt t ''plan.generated'' sid tid []
         [(''plan_id'', VStr (pl_PlanID created)), (''planning_id'', VStr planningID), (''revision'', VInt (pl_Revision created)),
          (''change_reason'', VStr (pl_ChangeReason created)), (''step_count'', VInt (int (length (pl_Steps created))))])
       (\<lambda>ev. sret (ev\<lparr>au_PlanningID := planningID\<rparr>)))"

text \<open>
  Inside a unit of work every error ends the creation. Without one, a view that cannot be stored takes
  its pins off the plan, and the planning record and the event are best effort.
\<close>

definition create_viewed_plan :: "service \<Rightarrow> string \<Rightarrow> string \<Rightarrow> string \<Rightarrow> step list \<Rightarrow> cap_view \<Rightarrow> planning_record
    \<Rightarrow> bool \<Rightarrow> (audit_event list \<Rightarrow> unit svc) \<Rightarrow> plan svc" where
  "create_viewed_plan sv sid tid changeReason steps view rec hasSink emit =
     sbind (sread rp_Plans) (\<lambda>plans.
     sbind (slift (ensurePlanRevisionBudgetInStore (Some plans) sid (sv_Budgets sv))) (\<lambda>_.
     sbind (do_plan_Create sid changeReason steps) (\<lambda>created.
     sbind (if hasSink then sbind (persistCapabilityViewInStore created view) (\<lambda>_. sret created)
            else sbind (scatch (persistCapabilityViewInStore created view)) (\<lambda>r.
              case r of Inr _ \<Rightarrow> sret created | Inl _ \<Rightarrow> degradeFrozenPlanInStore created)) (\<lambda>created.
     sbind (link_planning rec created tid) (\<lambda>rec.
     sbind (fact_write hasSink (sbind (do_planning_Create rec) (\<lambda>_. sret ()))) (\<lambda>_.
     sbind (generated_event sid tid (pr_PlanningID rec) created) (\<lambda>ev.
     sbind (emit [ev]) (\<lambda>_. sret created))))))))"

definition createPlanWithCapabilityView :: "service \<Rightarrow> json_codec \<Rightarrow> string \<Rightarrow> string \<Rightarrow> step list \<Rightarrow> cap_view \<Rightarrow> planning_record \<Rightarrow> plan svc" where
  "createPlanWithCapabilityView sv js sid changeReason steps view rec =
     sbind (getSessionRecord sv sid) (\<lambda>sess.
     sbind (slift (normalizePlanStepsForStorageWithCapabilityView js view steps)) (\<lambda>normalizedSteps.
       with_runner sv (create_viewed_plan sv sid (st_TaskID sess) changeReason normalizedSteps view rec)))"

section \<open>Planning\<close>

definition AssembleContextForSession :: "service \<Rightarrow> planner_app \<Rightarrow> string \<Rightarrow> (context_package \<times> summary option \<times> session \<times> task_spec) svc" where
  "AssembleContextForSession sv px sid =
     sbind (getSessionRecord sv sid) (\<lambda>st.
       if st_TaskID st = [] then sfail (ErrOther ''session has no task attached'')
       else sbind (getTaskRecord sv (st_TaskID st)) (\<lambda>rec.
         sbind (CompactSessionContext sv px sid CompactionTriggerPlan) (\<lambda>(assembled, summary).
           sret (assembled, summary, st, spec_of_task rec))))"

definition persistPlanningRecord :: "service \<Rightarrow> planning_record \<Rightarrow> unit svc" where
  "persistPlanningRecord sv rec = with_runner sv (\<lambda>_ _. sbind (do_planning_Create rec) (\<lambda>_. sret ()))"

definition joinPlanningPersistenceError :: "service \<Rightarrow> goerr \<Rightarrow> planning_record \<Rightarrow> 'a svc" where
  "joinPlanningPersistenceError sv cause rec =
     sbind (scatch (persistPlanningRecord sv rec)) (\<lambda>r. sfail (case r of Inl e \<Rightarrow> ErrJoin cause e | Inr _ \<Rightarrow> cause))"

text \<open>An operation whose error ends the planning: the attempt is recorded as failed.\<close>

definition recording :: "service \<Rightarrow> (goerr \<Rightarrow> planning_record) \<Rightarrow> 'a svc \<Rightarrow> 'a svc" where
  "recording sv rec m =
     sbind (scatch m) (\<lambda>r. case r of
       Inr x \<Rightarrow> sret x
     | Inl e \<Rightarrow> sbind nowMilli (\<lambda>t. joinPlanningPersistenceError sv e ((rec e)\<lparr>pr_FinishedAt := t\<rparr>)))"

definition effective_max_steps :: "int \<Rightarrow> loop_budgets \<Rightarrow> int" where
  "effective_max_steps requested budgets =
     (let maxSteps = (if requested \<le> 0 then lb_MaxSteps budgets else requested)
      in if 0 < lb_MaxSteps budgets \<and> lb_MaxSteps budgets < maxSteps then lb_MaxSteps budgets else maxSteps)"

definition planning_metadata :: "int \<Rightarrow> int \<Rightarrow> meta" where
  "planning_metadata requested maxSteps = [(''requested_max_steps'', VInt requested), (''effective_max_steps'', VInt maxSteps)]"

definition with_count :: "nat \<Rightarrow> meta \<Rightarrow> meta" where
  "with_count n md = gm_put ''step_count'' (VInt (int n)) md"

definition planning_attempt :: "string \<Rightarrow> string \<Rightarrow> string \<Rightarrow> meta \<Rightarrow> int \<Rightarrow> planning_record" where
  "planning_attempt planningID sid reason md startedAt = \<lparr>pr_PlanningID = planningID, pr_SessionID = sid, pr_TaskID = [],
     pr_Status = PlanningFailed, pr_Reason = reason, pr_Error = [], pr_PlanID = [], pr_PlanRevision = 0, pr_CapabilityViewID = [],
     pr_ContextSummaryID = [], pr_Metadata = md, pr_StartedAt = startedAt, pr_FinishedAt = 0\<rparr>"

text \<open>
  The loop over the planner: at most \<open>n\<close> more steps. An error of the planner ends it, and the planning if
  there is no step yet. \<open>fail\<close> is the record of a failure after so many steps, in that state.
\<close>

fun plan_loop :: "service \<Rightarrow> planner_app \<Rightarrow> (nat \<Rightarrow> string \<Rightarrow> goerr \<Rightarrow> planning_record) \<Rightarrow> cap_view \<Rightarrow> task_spec \<Rightarrow> nat
    \<Rightarrow> step list \<Rightarrow> session \<Rightarrow> context_package \<Rightarrow> string \<Rightarrow> (step list \<times> string) svc" where
  "plan_loop sv px fail view spec 0 steps st pkg ctxID = sret (steps, ctxID)"
| "plan_loop sv px fail view spec (Suc n) steps st pkg ctxID =
     sbind (if steps = [] then sbind (recording sv (fail 0 ctxID) (px_PlanNext px st spec pkg)) (\<lambda>s. sret (Inr s))
            else scatch (px_PlanNext px st spec pkg)) (\<lambda>r.
     case r of
       Inl _ \<Rightarrow> sret (steps, ctxID)
     | Inr s \<Rightarrow>
         let s = pinStepToCapabilityView s view; steps = steps @ [s];
             st = st\<lparr>st_CurrentStepID := sp_StepID s, st_Phase := PhasePlan\<rparr>
         in sbind (recording sv (fail (length steps) ctxID) (compactAssembledContext sv px st spec CompactionTriggerPlan)) (\<lambda>(pkg, summary).
              plan_loop sv px fail view spec n steps st (attachCapabilityViewToContext pkg view)
                (case summary of None \<Rightarrow> ctxID | Some x \<Rightarrow> su_SummaryID x)))"

text \<open>The session a failure of the runtime anchor is recorded for: the anchor returns no session then.\<close>

definition plan_once :: "service \<Rightarrow> app \<Rightarrow> planner_app \<Rightarrow> string \<Rightarrow> string \<Rightarrow> string \<Rightarrow> int \<Rightarrow> meta \<Rightarrow> int \<Rightarrow> (plan \<times> context_package) svc" where
  "plan_once sv hx px planningID sid changeReason maxSteps md startedAt =
     (let rec = (\<lambda>e. (planning_attempt planningID sid changeReason md startedAt)\<lparr>pr_Error := hx_ErrText hx e\<rparr>) in
      sbind (recording sv rec (getSessionRecord sv sid)) (\<lambda>st.
      sbind (recording sv (\<lambda>e. (rec e)\<lparr>pr_TaskID := st_TaskID st\<rparr>) (slift (ensureRuntimeBudget st (sv_Budgets sv) startedAt))) (\<lambda>_.
      sbind (recording sv rec (AssembleContextForSession sv px sid)) (\<lambda>(assembled, summary, st, spec).
      let ctxID = (case summary of None \<Rightarrow> [] | Some x \<Rightarrow> su_SummaryID x);
          rec = (\<lambda>e. (rec e)\<lparr>pr_TaskID := ts_TaskID spec, pr_ContextSummaryID := ctxID\<rparr>) in
      sbind (recording sv (\<lambda>e. (rec e)\<lparr>pr_SessionID := []\<rparr>) (ensureRuntimeBudgetAnchor sv st [] startedAt)) (\<lambda>st.
      let rec = (\<lambda>e. (rec e)\<lparr>pr_SessionID := st_SessionID st\<rparr>) in
      sbind (recording sv rec (freezeCapabilityView px (st_SessionID st) (ts_TaskID spec))) (\<lambda>view.
      let assembled = attachCapabilityViewToContext assembled view;
          fail = (\<lambda>n ctxID e. (rec e)\<lparr>pr_CapabilityViewID := cv_ViewID view, pr_ContextSummaryID := ctxID, pr_Metadata := with_count n md\<rparr>) in
      sbind (plan_loop sv px fail view spec (nat maxSteps) [] st assembled ctxID) (\<lambda>(steps, ctxID).
      let fail = fail (length steps) ctxID in
      if steps = [] then recording sv fail (sfail (ErrOther ''planner did not produce any steps''))
      else sbind nowMilli (\<lambda>t.
        sbind (recording sv fail (createPlanWithCapabilityView sv (hx_Json hx) sid changeReason steps view
            ((planning_attempt planningID (st_SessionID st) changeReason (with_count (length steps) md) startedAt)\<lparr>
               pr_TaskID := ts_TaskID spec, pr_Status := PlanningCompleted, pr_CapabilityViewID := cv_ViewID view,
               pr_ContextSummaryID := ctxID, pr_FinishedAt := t\<rparr>))) (\<lambda>pl.
          sret (pl, assembled))))))))))"

definition CreatePlanFromPlanner :: "service \<Rightarrow> app \<Rightarrow> planner_app \<Rightarrow> string \<Rightarrow> string \<Rightarrow> int \<Rightarrow> (plan \<times> context_package) svc" where
  "CreatePlanFromPlanner sv hx px sid changeReason requested =
     (let maxSteps = effective_max_steps requested (sv_Budgets sv) in
      sbind newUUID (\<lambda>u. sbind nowMilli (\<lambda>startedAt.
        plan_once sv hx px (''pln_'' @ u) sid changeReason maxSteps (planning_metadata requested maxSteps) startedAt)))"

section \<open>Every attempt to plan is recorded\<close>

definition planning_stored :: "string \<Rightarrow> (planning_record \<Rightarrow> bool) \<Rightarrow> world \<Rightarrow> bool" where
  "planning_stored i C w \<longleftrightarrow> (\<exists>rec. gm_get (rp_PlanningRecords (w_Repos w)) i = Some rec \<and> C rec)"

abbreviation planning_failed :: "string \<Rightarrow> world \<Rightarrow> bool" where
  "planning_failed i \<equiv> planning_stored i (\<lambda>rec. pr_Status rec = PlanningFailed)"

definition untransacted :: "service \<Rightarrow> bool" where
  "untransacted sv \<longleftrightarrow> sv_Runner sv = NoRunner \<or> sv_Runner sv = MemoryUnitOfWork"

lemma wt_untransacted:
  assumes "untransacted sv" and "\<And>b emit. emit \<in> {emitEventsWithSink sv, emitEventsBestEffort sv} \<Longrightarrow> wtriple P (body b emit) Q E"
  shows "wtriple P (with_runner sv body) Q E"
  using assms(1) assms(2)[of "emitEventsWithSink sv" True] assms(2)[of "emitEventsBestEffort sv" False]
  unfolding untransacted_def with_runner_def Within_def by (elim disjE) simp_all

lemma planning_Create_stores:
  assumes "pr_PlanningID rec \<noteq> []"
  shows "wtriple P (do_planning_Create rec)
    (\<lambda>_. planning_stored (pr_PlanningID rec) (\<lambda>x. pr_Status x = pr_Status rec \<and> pr_PlanID x = pr_PlanID rec \<and> pr_PlanRevision x = pr_PlanRevision rec
       \<and> pr_Metadata x = pr_Metadata rec)) E"
  using assms by (auto simp: wtriple_def do_planning_Create_def planning_Create_def planning_stored_def svc_apply Let_def)

lemma wt_recording_failed:
  assumes "wtriple P m Q (\<lambda>_. True)" and "untransacted sv" and "\<And>e. pr_PlanningID (rec e) = i \<and> pr_Status (rec e) = PlanningFailed" and "i \<noteq> []"
  shows "wtriple P (recording sv rec m) Q (planning_failed i)"
proof -
  have store: "wtriple P' (persistPlanningRecord sv (rec e\<lparr>pr_FinishedAt := t\<rparr>)) (\<lambda>_. planning_failed i) (planning_failed i)" for P' e t
  proof -
    have "wtriple P' (do_planning_Create (rec e\<lparr>pr_FinishedAt := t\<rparr>)) (\<lambda>_. planning_failed i) (planning_failed i)"
      by (rule wt_weaken[OF planning_Create_stores]) (use assms(3)[of e] assms(4) in \<open>auto simp: planning_stored_def\<close>)
    then have "wtriple P' (sbind (do_planning_Create (rec e\<lparr>pr_FinishedAt := t\<rparr>)) (\<lambda>_. sret ())) (\<lambda>_. planning_failed i) (planning_failed i)"
      by (rule wt_bind) (rule wt_sret)
    then show ?thesis unfolding persistPlanningRecord_def by (rule wt_untransacted[OF assms(2)])
  qed
  have join: "wtriple P' (sbind nowMilli (\<lambda>t. joinPlanningPersistenceError sv e (rec e\<lparr>pr_FinishedAt := t\<rparr>))) Q (planning_failed i)" for P' e
    unfolding joinPlanningPersistenceError_def
    by (rule wt_bind[where Q = "\<lambda>_ _. True"], simp add: wtriple_def svc_apply, rule wt_bind[OF wt_scatch[OF store]], rule wt_sfail) (auto split: sum.splits)
  show ?thesis unfolding recording_def
  proof (rule wt_bind[OF wt_scatch[OF assms(1)]])
    fix r
    show "wtriple (\<lambda>w. case r of Inl _ \<Rightarrow> True | Inr x \<Rightarrow> Q x w) (case r of Inr x \<Rightarrow> sret x
        | Inl e \<Rightarrow> sbind nowMilli (\<lambda>t. joinPlanningPersistenceError sv e (rec e\<lparr>pr_FinishedAt := t\<rparr>))) Q (planning_failed i)"
      by (cases r) (auto intro: join wt_sret)
  qed
qed

lemma wt_all: "wtriple P m (\<lambda>_ _. True) (\<lambda>_. True)"
  by (simp add: wtriple_def split: prod.split sum.split)

text \<open>The steps the loop collects: some, and not more than it may ask for.\<close>

lemma plan_loop_recorded:
  assumes "untransacted sv" and "\<And>n c e. pr_PlanningID (fail n c e) = i \<and> pr_Status (fail n c e) = PlanningFailed" and "i \<noteq> []"
  shows "wtriple P (plan_loop sv px fail view spec n steps st pkg ctxID) (\<lambda>x _. length (fst x) \<le> length steps + n) (planning_failed i)"
proof (induction n arbitrary: steps st pkg ctxID P)
  case (Suc n)
  note rec = wt_recording_failed[OF wt_all assms(1) assms(2) assms(3)]
  have first: "wtriple P (if steps = [] then sbind (recording sv (fail 0 ctxID) (px_PlanNext px st spec pkg)) (\<lambda>s. sret (Inr s)) else scatch (px_PlanNext px st spec pkg))
      (\<lambda>_ _. True) (planning_failed i)"
    by (rule wt_if, rule wt_bind[OF rec], rule wt_sret, simp) (simp add: wtriple_def scatch_def split: prod.split)
  show ?case unfolding plan_loop.simps Let_def
  proof (rule wt_bind[OF first])
    fix r :: "goerr + step"
    have more: "wtriple P' (plan_loop sv px fail view spec n (steps @ [s]) st' pkg' c) (\<lambda>x _. length (fst x) \<le> length steps + Suc n) (planning_failed i)" for P' s st' pkg' c
      by (rule wt_weaken[OF Suc.IH]) auto
    show "wtriple (\<lambda>_. True) (case r of Inl _ \<Rightarrow> sret (steps, ctxID)
     | Inr s \<Rightarrow> sbind (recording sv (fail (length (steps @ [pinStepToCapabilityView s view])) ctxID)
          (compactAssembledContext sv px (st\<lparr>st_CurrentStepID := sp_StepID (pinStepToCapabilityView s view), st_Phase := PhasePlan\<rparr>) spec CompactionTriggerPlan))
        (\<lambda>(pkg, summary). plan_loop sv px fail view spec n (steps @ [pinStepToCapabilityView s view])
           (st\<lparr>st_CurrentStepID := sp_StepID (pinStepToCapabilityView s view), st_Phase := PhasePlan\<rparr>) (attachCapabilityViewToContext pkg view)
           (case summary of None \<Rightarrow> ctxID | Some x \<Rightarrow> su_SummaryID x))) (\<lambda>x _. length (fst x) \<le> length steps + Suc n) (planning_failed i)"
      by (cases r) (auto intro!: wt_sret wt_bind[OF rec] wt_prod more[unfolded add_Suc_right])
  qed
qed (simp add: wt_sret)

interpretation planning_store: repo_view rp_PlanningRecords
  by unfold_locales simp

text \<open>What is recorded of a plan that was made.\<close>

definition planned :: "string \<Rightarrow> meta \<Rightarrow> plan \<Rightarrow> world \<Rightarrow> bool" where
  "planned i md pl = planning_stored i (\<lambda>x. pr_Status x = PlanningCompleted \<and> pr_PlanID x = pl_PlanID pl \<and> pr_PlanRevision x = pl_Revision pl \<and> pr_Metadata x = md)"

lemma create_viewed_records:
  assumes "pr_PlanningID rec = i" "i \<noteq> []" "pr_Status rec = PlanningCompleted" "pr_Metadata rec = md" and emit: "emit \<in> {emitEventsWithSink sv, emitEventsBestEffort sv}"
  shows "wtriple P (create_viewed_plan sv sid tid reason steps view rec b emit) (planned i md) (\<lambda>_. True)"
proof -
  have keep: "wtriple (planned i md pl) m (\<lambda>_. planned i md pl) (\<lambda>_. True)" if "moves (\<lambda>w w'. rp_PlanningRecords (w_Repos w') = rp_PlanningRecords (w_Repos w)) m" for m :: "'x svc" and pl
    by (rule wt_moves[OF that]) (auto simp: planned_def planning_stored_def)
  have event: "wtriple (planned i md pl) (generated_event sid tid j pl) (\<lambda>_. planned i md pl) (\<lambda>_. True)" for j pl
    unfolding generated_event_def newAuditEventAt_def by (rule keep) (intro planning_store.mv_rules)
  have sent: "wtriple (planned i md pl) (emit evs) (\<lambda>_. planned i md pl) (\<lambda>_. True)" for evs pl
    using emit by (auto intro!: keep planning_store.mv_emit)
  have link: "wtriple P' (link_planning rec created tid) (\<lambda>rec' _. pr_PlanningID rec' = i \<and> pr_Status rec' = PlanningCompleted \<and> pr_Metadata rec' = md
      \<and> pr_PlanID rec' = pl_PlanID created \<and> pr_PlanRevision rec' = pl_Revision created) (\<lambda>_. True)" for P' created
    using assms(1,3,4) by (auto simp: wtriple_def link_planning_def svc_apply Let_def)
  have store: "wtriple (\<lambda>_. pr_PlanningID rec' = i \<and> pr_Status rec' = PlanningCompleted \<and> pr_Metadata rec' = md
      \<and> pr_PlanID rec' = pl_PlanID created \<and> pr_PlanRevision rec' = pl_Revision created)
      (fact_write b (sbind (do_planning_Create rec') (\<lambda>_. sret ()))) (\<lambda>_. planned i md created) (\<lambda>_. True)" for rec' created
    using assms(2) by (auto simp: wtriple_def fact_write_def best_effort_def do_planning_Create_def planning_Create_def planned_def planning_stored_def svc_apply Let_def)
  show ?thesis unfolding create_viewed_plan_def
    by (rule wt_bind[OF wt_all], rule wt_bind[OF wt_all], rule wt_bind[OF wt_all], rule wt_bind[OF wt_all], rule wt_bind[OF link], rule wt_bind[OF store],
        rule wt_bind[OF event], rule wt_bind[OF sent], rule wt_sret)
qed


definition ex_planner :: planner_app where
  "ex_planner = \<lparr>px_Assemble = DefaultContextAssembler, px_Compactor = None, px_CompactionPolicy = DefaultCompactionPolicy,
     px_PlanNext = NoopPlanner, px_Freezer = None\<rparr>"

definition ex_task_world :: world where
  "ex_task_world = ex_run_world\<lparr>w_Repos := ex_repos\<lparr>
     rp_Sessions := [(''s1'', (fst (session_Create ''s1'' 5 ''t'' ''g'' []))\<lparr>st_TaskID := ''k''\<rparr>)],
     rp_Tasks := snd (task_Create ''k'' 5 \<lparr>ts_TaskID = [], ts_TaskType = ''demo'', ts_Goal = ''g'', ts_Constraints = [], ts_Metadata = []\<rparr> [])\<rparr>\<rparr>"


end
