(* ===== verification/Session_Driver.thy ===== *)
theory Session_Driver
  imports Fanout Planning
begin

text \<open>
  The session driver: \<^verbatim>\<open>pkg/harness/runtime\<close> session_driver.go, \<^verbatim>\<open>recoverSession\<close> of recovery.go and the entry
  points of service.go. One turn of the loop reads session and plan, and returns or goes on: it resumes an
  answered approval, plans, runs a fan-out round or runs a step. The loop itself need not end by its
  form and is a partial function; the clock and the order of goroutines of the fan-out rounds are
  parameters, one per turn.
\<close>

section \<open>One turn\<close>

record run_output =
  ro_Session :: session
  ro_Plan :: "plan option"
  ro_Aggregates :: "aggregate_result list"
  ro_Executions :: "step_output list"

datatype turn = Continue run_output | Return run_output

definition empty_output :: run_output where
  "empty_output = \<lparr>ro_Session = zero_session, ro_Plan = None, ro_Aggregates = [], ro_Executions = []\<rparr>"

definition populateSessionRunAggregates :: "run_output \<Rightarrow> run_output" where
  "populateSessionRunAggregates out = out\<lparr>ro_Aggregates := (case ro_Plan out of None \<Rightarrow> [] | Some p \<Rightarrow> AggregateResultsFromPlan p)\<rparr>"

definition newer_plan :: "plan option \<Rightarrow> run_output \<Rightarrow> run_output" where
  "newer_plan pl out = (case pl of None \<Rightarrow> out | Some p \<Rightarrow> out\<lparr>ro_Plan := Some p\<rparr>)"

definition createDriverPlan :: "service \<Rightarrow> app \<Rightarrow> planner_app \<Rightarrow> string \<Rightarrow> string \<Rightarrow> plan svc" where
  "createDriverPlan sv hx px sid changeReason = sbind (CreatePlanFromPlanner sv hx px sid changeReason 0) (\<lambda>(pl, _). sret pl)"

text \<open>After steps have run: their outputs are taken over, the context is compacted, and the loop ends or goes on.\<close>

definition after_run :: "service \<Rightarrow> planner_app \<Rightarrow> string \<Rightarrow> run_output \<Rightarrow> step_output list \<Rightarrow> session \<Rightarrow> plan option \<Rightarrow> turn svc" where
  "after_run sv px sid out executions st pl =
     (let out = newer_plan pl (out\<lparr>ro_Executions := ro_Executions out @ executions, ro_Session := st\<rparr>) in
      sbind (compactSessionContextBestEffort sv px sid CompactionTriggerExecute) (\<lambda>_.
        sret (if isTerminalPhase (st_Phase st) \<or> st_PendingApprovalID st \<noteq> [] then Return (populateSessionRunAggregates out) else Continue out)))"

definition run_selected :: "service \<Rightarrow> app \<Rightarrow> planner_app \<Rightarrow> (nat \<Rightarrow> int) \<Rightarrow> (nat \<Rightarrow> nat list) \<Rightarrow> string \<Rightarrow> string \<Rightarrow> run_output
    \<Rightarrow> session \<Rightarrow> plan \<Rightarrow> step \<Rightarrow> turn svc" where
  "run_selected sv hx px sys schedule sid leaseID out st latest s =
     sbind (tryRunFanoutRound sv hx sys schedule sid leaseID st latest s) (\<lambda>rnd.
     case rnd of
       Some r \<Rightarrow> after_run sv px sid out (fz_Executions r) (fz_Session r) (fz_UpdatedPlan r)
     | None \<Rightarrow> sbind (scatch (runStepWithDecision sv hx sid leaseID s None None)) (\<lambda>r.
         case r of
           Inl e \<Rightarrow> if errors_is e ErrStepBackoffActive then sret (Return out) else sfail e
         | Inr x \<Rightarrow> after_run sv px sid out [x] (so_Session x) (so_UpdatedPlan x)))"

definition run_next :: "service \<Rightarrow> app \<Rightarrow> planner_app \<Rightarrow> (nat \<Rightarrow> int) \<Rightarrow> (nat \<Rightarrow> nat list) \<Rightarrow> string \<Rightarrow> string \<Rightarrow> run_output
    \<Rightarrow> session \<Rightarrow> plan \<Rightarrow> turn svc" where
  "run_next sv hx px sys schedule sid leaseID out st latest =
     sbind (pinnedPlanForSession sv st) (\<lambda>pinned.
     let selection = selectNextStepForSession st (case pinned of None \<Rightarrow> latest | Some p \<Rightarrow> p) latest (sv_Budgets sv) in
     if ss_NeedsPlanning selection
     then sbind (createDriverPlan sv hx px sid ''runtime/replan'') (\<lambda>pl. sret (Continue (out\<lparr>ro_Plan := Some pl\<rparr>)))
     else if \<not> ss_HasStep selection then sret (Return (populateSessionRunAggregates out))
     else run_selected sv hx px sys schedule sid leaseID out st latest (ss_Step selection))"

definition turn_from :: "service \<Rightarrow> app \<Rightarrow> planner_app \<Rightarrow> (nat \<Rightarrow> int) \<Rightarrow> (nat \<Rightarrow> nat list) \<Rightarrow> string \<Rightarrow> string \<Rightarrow> run_output \<Rightarrow> session \<Rightarrow> turn svc" where
  "turn_from sv hx px sys schedule sid leaseID out st =
     sbind (latestPlanForSession sv sid) (\<lambda>latest.
     let out = newer_plan latest (out\<lparr>ro_Session := st\<rparr>) in
     if isTerminalPhase (st_Phase st) \<or> st_ExecutionState st = ExecutionBlocked then sret (Return (populateSessionRunAggregates out))
     else sbind (if st_PendingApprovalID st = [] then sret (None, False) else resolvePendingApprovalForSession sv hx sid leaseID) (\<lambda>(resumed, handled).
       if handled then
         (case resumed of
            None \<Rightarrow> sret (Return (populateSessionRunAggregates out))
          | Some x \<Rightarrow> after_run sv px sid out [x] (so_Session x) (so_UpdatedPlan x))
       else case latest of
         Some p \<Rightarrow> run_next sv hx px sys schedule sid leaseID out st p
       | None \<Rightarrow> sbind (createDriverPlan sv hx px sid ''runtime/session-driver'') (\<lambda>p.
           run_next sv hx px sys schedule sid leaseID (out\<lparr>ro_Plan := Some p\<rparr>) st p)))"

definition drive_turn :: "service \<Rightarrow> app \<Rightarrow> planner_app \<Rightarrow> (nat \<Rightarrow> int) \<Rightarrow> (nat \<Rightarrow> nat list) \<Rightarrow> string \<Rightarrow> string \<Rightarrow> run_output \<Rightarrow> turn svc" where
  "drive_turn sv hx px sys schedule sid leaseID out =
     sbind (ensureSessionLease sv sid leaseID) (turn_from sv hx px sys schedule sid leaseID out)"

section \<open>The loop\<close>

type_synonym schedules = "nat \<Rightarrow> (nat \<Rightarrow> int) \<times> (nat \<Rightarrow> nat list)"

partial_function (option) drive :: "service \<Rightarrow> app \<Rightarrow> planner_app \<Rightarrow> schedules \<Rightarrow> string \<Rightarrow> string \<Rightarrow> nat \<Rightarrow> run_output \<Rightarrow> world
    \<Rightarrow> ((goerr + run_output) \<times> world) option" where
  "drive sv hx px env sid leaseID k out w =
     (case drive_turn sv hx px (fst (env k)) (snd (env k)) sid leaseID out w of
        (Inl e, w') \<Rightarrow> Some (Inl e, w')
      | (Inr t, w') \<Rightarrow> (case t of
          Return out' \<Rightarrow> Some (Inr out', w')
        | Continue out' \<Rightarrow> drive sv hx px env sid leaseID (Suc k) out' w'))"

definition runSession :: "service \<Rightarrow> app \<Rightarrow> planner_app \<Rightarrow> schedules \<Rightarrow> string \<Rightarrow> string \<Rightarrow> world \<Rightarrow> ((goerr + run_output) \<times> world) option" where
  "runSession sv hx px env sid leaseID w = drive sv hx px env sid leaseID 0 empty_output w"

definition mergeSessionRunOutputs :: "run_output \<Rightarrow> run_output \<Rightarrow> run_output" where
  "mergeSessionRunOutputs base nxt =
     (let out = newer_plan (ro_Plan nxt) (base\<lparr>ro_Executions := ro_Executions base @ ro_Executions nxt\<rparr>);
          out = (if ro_Aggregates nxt \<noteq> [] \<or> ro_Plan nxt \<noteq> None then out\<lparr>ro_Aggregates := ro_Aggregates nxt\<rparr> else out)
      in out\<lparr>ro_Session := ro_Session nxt\<rparr>)"

text \<open>Recovery before it drives the session: \<open>Return\<close> when there is nothing to drive.\<close>

definition recover_start :: "service \<Rightarrow> app \<Rightarrow> planner_app \<Rightarrow> string \<Rightarrow> string \<Rightarrow> turn svc" where
  "recover_start sv hx px sid leaseID =
     sbind (ensureSessionLease sv sid leaseID) (\<lambda>st.
     sbind (latestPlanForSession sv sid) (\<lambda>latest.
     let out = newer_plan latest (empty_output\<lparr>ro_Session := st\<rparr>);
         continue = (\<lambda>out. sbind (normalizeSessionForRecovery sv sid) (\<lambda>normalized.
           sbind (compactSessionContextBestEffort sv px sid CompactionTriggerRecover) (\<lambda>_. sret (Continue (out\<lparr>ro_Session := normalized\<rparr>)))))
     in if isTerminalPhase (st_Phase st) then sret (Return out)
        else if st_PendingApprovalID st = [] then continue out
        else sbind (getApprovalRecord sv (st_PendingApprovalID st)) (\<lambda>rec.
          case ap_Status rec of
            ApprovalPending \<Rightarrow> sret (Return out)
          | ApprovalApproved \<Rightarrow> sbind (resumePendingApprovalWithLease sv hx sid leaseID) (\<lambda>x.
              let out = newer_plan (so_UpdatedPlan x) (out\<lparr>ro_Executions := ro_Executions out @ [x], ro_Session := so_Session x\<rparr>)
              in if isTerminalPhase (st_Phase (so_Session x)) \<or> st_PendingApprovalID (so_Session x) \<noteq> [] then sret (Return out)
                 else continue out)
          | _ \<Rightarrow> sfail ErrApprovalNotResolved)))"

definition recoverSession :: "service \<Rightarrow> app \<Rightarrow> planner_app \<Rightarrow> schedules \<Rightarrow> string \<Rightarrow> string \<Rightarrow> world \<Rightarrow> ((goerr + run_output) \<times> world) option" where
  "recoverSession sv hx px env sid leaseID w =
     (case recover_start sv hx px sid leaseID w of
        (Inl e, w') \<Rightarrow> Some (Inl e, w')
      | (Inr t, w') \<Rightarrow> (case t of
          Return out \<Rightarrow> Some (Inr out, w')
        | Continue out \<Rightarrow> (case runSession sv hx px env sid leaseID w' of
            None \<Rightarrow> None
          | Some (Inl e, w'') \<Rightarrow> Some (Inl e, w'')
          | Some (Inr nxt, w'') \<Rightarrow> Some (Inr (mergeSessionRunOutputs out nxt), w''))))"

definition RunSession :: "service \<Rightarrow> app \<Rightarrow> planner_app \<Rightarrow> schedules \<Rightarrow> string \<Rightarrow> world \<Rightarrow> ((goerr + run_output) \<times> world) option" where
  "RunSession sv hx px env sid = runSession sv hx px env sid []"

definition RunClaimedSession :: "service \<Rightarrow> app \<Rightarrow> planner_app \<Rightarrow> schedules \<Rightarrow> string \<Rightarrow> string \<Rightarrow> world \<Rightarrow> ((goerr + run_output) \<times> world) option" where
  "RunClaimedSession sv hx px env sid leaseID = runSession sv hx px env sid leaseID"

text \<open>
  The entry points of recovery read the clock and the session for observability only; what they read
  does not change what they return.
\<close>

definition RecoverClaimedSession :: "service \<Rightarrow> app \<Rightarrow> planner_app \<Rightarrow> schedules \<Rightarrow> string \<Rightarrow> string \<Rightarrow> world \<Rightarrow> ((goerr + run_output) \<times> world) option" where
  "RecoverClaimedSession sv hx px env sid leaseID w =
     (case sbind nowMilli (\<lambda>_. scatch (getSessionRecord sv sid)) w of
        (Inl e, w') \<Rightarrow> Some (Inl e, w')
      | (Inr current, w') \<Rightarrow> (case recoverSession sv hx px env sid leaseID w' of
          None \<Rightarrow> None
        | Some (r, w'') \<Rightarrow>
            let known = (case r of Inr out \<Rightarrow> st_SessionID (ro_Session out) | Inl _ \<Rightarrow> []);
                known = or_str known (case current of Inr st \<Rightarrow> st_SessionID st | Inl _ \<Rightarrow> [])
            in Some (r, if known = [] then w'' else snd (nowMilli w''))))"

definition RecoverSession :: "service \<Rightarrow> app \<Rightarrow> planner_app \<Rightarrow> schedules \<Rightarrow> string \<Rightarrow> world \<Rightarrow> ((goerr + run_output) \<times> world) option" where
  "RecoverSession sv hx px env sid = RecoverClaimedSession sv hx px env sid []"

definition RunProgram :: "service \<Rightarrow> app \<Rightarrow> planner_app \<Rightarrow> schedules \<Rightarrow> target_resolver option \<Rightarrow> string \<Rightarrow> program \<Rightarrow> world
    \<Rightarrow> ((goerr + run_output) \<times> world) option" where
  "RunProgram sv hx px env resolver sid p w =
     (case CreatePlanFromProgram sv (hx_Json hx) resolver sid [] p w of
        (Inl e, w') \<Rightarrow> Some (Inl e, w')
      | (Inr _, w') \<Rightarrow> RunSession sv hx px env sid w')"

text \<open>\<^verbatim>\<open>WithDefaults\<close> on the loop budgets: a service has no budget that is not positive.\<close>

definition with_default_budgets :: "loop_budgets \<Rightarrow> loop_budgets" where
  "with_default_budgets b =
     \<lparr>lb_MaxSteps = (if lb_MaxSteps b \<le> 0 then lb_MaxSteps DefaultLoopBudgets else lb_MaxSteps b),
      lb_MaxRetriesPerStep = (if lb_MaxRetriesPerStep b \<le> 0 then lb_MaxRetriesPerStep DefaultLoopBudgets else lb_MaxRetriesPerStep b),
      lb_MaxPlanRevisions = (if lb_MaxPlanRevisions b \<le> 0 then lb_MaxPlanRevisions DefaultLoopBudgets else lb_MaxPlanRevisions b),
      lb_MaxTotalRuntimeMS = (if lb_MaxTotalRuntimeMS b \<le> 0 then lb_MaxTotalRuntimeMS DefaultLoopBudgets else lb_MaxTotalRuntimeMS b),
      lb_MaxToolOutputChars = (if lb_MaxToolOutputChars b \<le> 0 then lb_MaxToolOutputChars DefaultLoopBudgets else lb_MaxToolOutputChars b)\<rparr>"

end
