(* ===== verification/Driver_Logic.thy ===== *)
theory Driver_Logic
  imports Session_Driver
begin

text \<open>
  What a whole turn of the session driver does to the world, for every relation between worlds that
  allows the writes it makes: runs of steps, fan-out rounds, compaction and planning. The rules are
  proved once, in a locale that extends the one for single steps.
\<close>

section \<open>The parameters only read\<close>

definition harmless_planner :: "planner_app \<Rightarrow> bool" where
  "harmless_planner px \<longleftrightarrow> (\<forall>st spec. harmless (px_Assemble px st spec)) \<and> (\<forall>st spec pkg. harmless (px_PlanNext px st spec pkg))
     \<and> (case px_Compactor px of None \<Rightarrow> True | Some f \<Rightarrow> \<forall>pkg st spec b. harmless (f pkg st spec b))
     \<and> (case px_Freezer px of None \<Rightarrow> True | Some f \<Rightarrow> \<forall>sid tid. harmless (f sid tid))"

lemma harmless_basic: "harmless (sret x)" "harmless (sfail e)"
proof -
  have "\<exists>n d. w_Reads w \<le> n \<and> w_Drawn w \<le> d \<and> w = w\<lparr>w_Reads := n, w_Drawn := d\<rparr>" for w :: world
    by (intro exI[of _ "w_Reads w"] exI[of _ "w_Drawn w"]) simp
  then show "harmless (sret x)" "harmless (sfail e)" by (auto simp: harmless_def svc_apply)
qed

section \<open>Rules\<close>

lemma getSessionRecord_run:
  assumes "getSessionRecord sv sid w = (r, w')"
  shows "w' = w" and "r = Inr st \<Longrightarrow> session_Get sid (rp_Sessions (w_Repos w)) = Inr st"
  using assms by (auto simp: getSessionRecord_def readRepositories_def Within_def split: runner.splits option.splits sum.splits)

locale run_writes = session_writes_if +
  assumes action_Create: "moves R (do_action_Create x)"
    and verification_Create: "moves R (do_verification_Create v)"
    and artifact_Create: "moves R (do_artifact_Create i)"
    and snapshot_Create: "moves R (do_snapshot_Create sn)"
    and handle_Create: "moves R (do_handle_Create h)"
    and handle_Update: "moves R (do_handle_Update h)"
    and plan_Create: "moves R (do_plan_Create sid reason steps)"
    and summary_Create: "moves R (do_summary_Create su)"
    and planning_Create: "moves R (do_planning_Create pr)"
begin

lemma mv_prod_eq: "(\<And>x y. c = (x, y) \<Longrightarrow> moves R (m x y)) \<Longrightarrow> moves R (case c of (x, y) \<Rightarrow> m x y)"
  by (cases c) simp

lemma mv_upsert: "moves R (upsertRuntimeHandle h)"
proof -
  have "moves R (\<lambda>w. case do_handle_Create h w of (Inr _, w') \<Rightarrow> (Inr (), w')
     | (Inl err, w') \<Rightarrow> (case do_handle_Get (rh_HandleID h) w' of
          (Inl _, w2) \<Rightarrow> (Inl err, w2)
        | (Inr current, w2) \<Rightarrow> do_handle_Update (f current) w2))" for h f
    unfolding moves_def
    using handle_Create[of h] handle_Update mv_gets(4)[of "rh_HandleID h"]
    by (auto simp: moves_def split: prod.split sum.split) (metis snd_conv trans)+
  then show ?thesis unfolding upsertRuntimeHandle_def Let_def by simp
qed

lemma mv_facts: "moves R (persistExecutionFacts a u x v arts)"
  unfolding persistExecutionFacts_def
  by (auto intro!: mv_rules attempt_Create attempt_Update action_Create verification_Create artifact_Create split: option.split)

lemma mv_stored_facts: "moves R (persistCapabilitySnapshot sn)" "moves R (persistRuntimeHandles hs)"
  unfolding persistCapabilitySnapshot_def persistRuntimeHandles_def by (intro mv_rules snapshot_Create mv_upsert)+

lemma mv_final_facts: "moves R (final_facts b a reuse k q fin)"
  unfolding final_facts_def by (intro mv_rules mv_facts mv_stored_facts approval_Update)

text \<open>A session that is read may be written again.\<close>

lemma mv_read_session:
  assumes "\<And>st. ok st \<Longrightarrow> moves R (k st)"
  shows "moves R (sbind (getSessionRecord sv own) k)"
  unfolding moves_def
proof
  fix w
  show "R w (snd (sbind (getSessionRecord sv own) k w))"
  proof (cases "getSessionRecord sv own w")
    case (Pair r w')
    show ?thesis
    proof (cases r)
      case (Inr st)
      with getSessionRecord_run[OF Pair] have "w' = w" "session_Get own (rp_Sessions (w_Repos w)) = Inr st" by simp_all
      then show ?thesis using Pair Inr assms[of st] ok_read[of w st] by (cases "ok st") (auto simp: svc_apply moves_def)
    qed (use getSessionRecord_run(1)[OF Pair] Pair refl[of w] in \<open>simp add: svc_apply\<close>)
  qed
qed

lemma mv_get_session:
  assumes "\<And>st. ok st \<Longrightarrow> moves R (k st)"
  shows "moves R (sbind (do_session_Get own) k)"
  unfolding moves_def
proof
  fix w
  show "R w (snd (sbind (do_session_Get own) k w))"
  proof (cases "session_Get own (rp_Sessions (w_Repos w))")
    case (Inr st)
    then show ?thesis using assms[of st] ok_read[OF Inr] by (cases "ok st") (auto simp: svc_apply do_session_Get_def moves_def)
  qed (simp add: svc_apply do_session_Get_def refl)
qed

lemma mv_lease:
  assumes "\<And>st. ok st \<Longrightarrow> moves R (k st)"
  shows "moves R (sbind (ensureSessionLease sv own leaseID) k)"
proof -
  have "sbind (ensureSessionLease sv own leaseID) k = sbind (getSessionRecord sv own) (\<lambda>st. sbind nowMilli (\<lambda>t.
       sbind (slift (requireSessionLease st leaseID t)) (\<lambda>_. k st)))"
    unfolding ensureSessionLease_def by (simp add: fun_eq_iff svc_apply split: prod.split sum.split)
  then show ?thesis by (simp only:) (intro mv_read_session mv_rules assms)
qed

subsection \<open>Steps\<close>

lemma ok_in_flight: "ok st \<Longrightarrow> ok (in_flight stepID now ref st)"
proof -
  assume "ok st"
  then have "ok (if st_RuntimeStartedAt st = 0 then st\<lparr>st_RuntimeStartedAt := now\<rparr> else st)" using ok_start by simp
  then show ?thesis by (rule ok_cong[rotated]) (simp_all add: in_flight_def Let_def setSessionPlanRef_def split: option.split)
qed

lemma mv_mark: "moves R (markSessionInFlight sv own leaseID stepID)"
  unfolding markSessionInFlight_def updateRecoveryState_def update_recovery_def recovery_event_def newAuditEventAt_def Let_def
  by (intro mv_nowMilli mv_bind[OF mv_nowMilli] mv_lease mv_with_runner mv_get_session mv_bind[OF mv_slift] mv_bind[OF mv_stepRef])
    (intro mv_rules session_persist ok_in_flight)

lemma ok_rest: "ok st \<Longrightarrow> ok (st\<lparr>st_Phase := p\<rparr>)" "ok st \<Longrightarrow> ok (st\<lparr>st_RetryCount := n\<rparr>)" "ok st \<Longrightarrow> ok (clear_pending active st)"
    "ok st \<Longrightarrow> ok (setSessionPlanRef st s)" "ok st \<Longrightarrow> ok (fst (advance_state stepID st))"
proof -
  show "ok st \<Longrightarrow> ok (st\<lparr>st_Phase := p\<rparr>)" "ok st \<Longrightarrow> ok (st\<lparr>st_RetryCount := n\<rparr>)" "ok st \<Longrightarrow> ok (clear_pending active st)"
    "ok st \<Longrightarrow> ok (setSessionPlanRef st s)"
    by (rule ok_cong[of st]; simp add: clear_pending_def setSessionPlanRef_def split: option.split)+
  have "st_RuntimeStartedAt (fst (advance_state stepID st)) = st_RuntimeStartedAt st"
  proof (induction stepID st rule: advance_state.induct)
    case (1 stepID st)
    then show ?case by (subst advance_state.simps) (auto simp: Let_def case_prod_beta ApplyTransition_def)
  qed
  then show "ok st \<Longrightarrow> ok (fst (advance_state stepID st))" by (rule_tac ok_cong[of st]) simp_all
qed

lemma mv_finish_step: "ok st \<Longrightarrow> moves R (finish_step sv sid leaseID st s a reuse d active k q ts evs)"
  unfolding finish_step_def Let_def
  by (intro mv_bind[OF mv_decide_next] mv_bind[OF mv_nowMilli] mv_bind[OF mv_events(2)] mv_bind[OF mv_finalized] mv_with_runner
      mv_bind[OF mv_step_writes] mv_prod mv_bind[OF mv_final_facts] ok_rest(3) ok_settled)
    (auto intro!: mv_rules ok_rest(2))

text \<open>What follows once the session is marked in flight.\<close>

lemma mv_act:
  assumes "harmless_app hx"
  shows "moves R (sbind (getSessionRecord sv own) (\<lambda>st. sbind (invoke_action sv hx st s a) (\<lambda>k.
     sbind (verify_action sv hx (st\<lparr>st_Phase := PhaseVerify\<rparr>) s a k) (\<lambda>q. finish_step sv own leaseID (st\<lparr>st_Phase := PhaseVerify\<rparr>) s a reuse d active k q ts evs))))"
  by (intro mv_read_session mv_bind[OF mv_invoke_action[OF assms]] mv_bind[OF mv_verify_action] mv_finish_step ok_rest(1))

lemma mv_execute_step:
  assumes "harmless_app hx"
  shows "moves R (execute_step sv hx own leaseID s a reuse d active ts evs)"
  unfolding execute_step_def Let_def by (intro mv_bind[OF mv_mark] mv_act[OF assms])

lemma mv_run:
  assumes "harmless_app hx"
  shows "moves R (runStepWithDecision sv hx own leaseID s forced active)"
proof -
  have decided: "moves R (run_decided sv hx before own leaseID st s a reuse now forced ts evs x)" if "ok before" "ok st" for before st s a reuse now ts evs x
    unfolding run_decided_def Let_def case_prod_beta
    by (intro mv_if mv_ask_step[OF assms that] mv_bind[OF mv_events(1)] mv_deny_step[OF that(2)] mv_execute_step[OF assms])
  have advanced: "ok st" if "ok before" "advance_state i (setSessionPlanRef before s) = (st, ts)" for i before s st ts
    using ok_rest(5)[OF ok_rest(4)[OF that(1)], of i s] that(2) by simp
  show ?thesis unfolding runStepWithDecision_def Let_def
    by (intro mv_lease mv_bind[OF mv_nowMilli] mv_bind[OF mv_slift] mv_bind[OF mv_resolveProgramBindings] mv_bind[OF mv_start_attempt] mv_prod_eq
        mv_bind[OF mv_events(3)] mv_bind[OF mv_decide_policy[OF assms]] decided) (assumption, rule advanced)
qed

lemma mv_resume:
  assumes "harmless_app hx"
  shows "moves R (resumePendingApprovalWithLease sv hx own leaseID)" "moves R (resolvePendingApprovalForSession sv hx own leaseID)"
proof -
  show r: "moves R (resumePendingApprovalWithLease sv hx own leaseID)"
    unfolding resumePendingApprovalWithLease_def by (intro mv_rules mv_ensureSessionLease mv_getters mv_run assms)
  show "moves R (resolvePendingApprovalForSession sv hx own leaseID)"
    unfolding resolvePendingApprovalForSession_def
    by (intro mv_bind[OF mv_getters(1)] mv_if mv_sret mv_bind[OF mv_getters(2)]) (auto split: ApprovalStatus.split intro!: mv_rules r)
qed

subsection \<open>Fan-out rounds\<close>

lemma mv_prepare:
  assumes "harmless_app hx"
  shows "moves R (prepareFanoutRound sv hx sid st rnd)"
proof -
  have dec: "moves R (fanout_decision sv hx st' s)" for st' s
    unfolding fanout_decision_def by (intro mv_rules mv_reusable assms)
  have att: "moves R (fanout_attempt sid st o1 d s)" for o1 d s
    unfolding fanout_attempt_def ensureExecutionCycleID_def Let_def by (intro mv_rules)
  have "moves R (prepare_loop sv hx sid st steps)" for steps
    by (induction steps) (simp_all only: prepare_loop.simps Let_def, intro mv_sret, intro mv_rules mv_resolveProgramBindings dec att)
  then show ?thesis unfolding prepareFanoutRound_def by (intro mv_rules)
qed

lemma mv_execute_order:
  assumes "harmless_app hx"
  shows "moves R (executeFanoutPreparedSteps sv hx st ps schedule)"
proof -
  have one: "moves R (executeFanoutPreparedStep sv hx st p)" for p
    unfolding executeFanoutPreparedStep_def Let_def by (intro mv_rules mv_events mv_invoke_action assms)
  have "moves R (execute_order sv hx st ps is outs)" for "is" outs
    by (induction "is" arbitrary: outs) (auto intro!: mv_sret mv_bind one)
  then show ?thesis unfolding executeFanoutPreparedSteps_def .
qed

lemma mv_finalize: "moves R (finalize_all sv hx st outs)" "moves R (finalize_aggregate sv hx st latest i outs)"
proof -
  have "moves R (finalize_one sv hx st out)" for out
    unfolding finalize_one_def finalizeFanoutVerifiedOutcome_def finalizeFanoutAggregatePendingOutcome_def verify_event_def Let_def
    by (intro mv_rules mv_events)
  then show "moves R (finalize_all sv hx st outs)" by (induction outs) (auto intro!: mv_sret mv_bind)
  show "moves R (finalize_aggregate sv hx st latest i outs)" unfolding finalize_aggregate_def by (intro mv_rules)
qed

lemma mv_fanout_writes: "ok st \<Longrightarrow> (\<And>evs. moves R (emit evs)) \<Longrightarrow> moves R (fanout_writes sv sid leaseID st initial outs emit)"
  unfolding fanout_writes_def updateLatestPlanStepsInStoreWithBudgets_def fanout_facts_def Let_def
  by (intro mv_rules plan_Update mv_task session_persist mv_facts mv_stored_facts)

lemma mv_persist_round: "ok st \<Longrightarrow> moves R (persistFanoutRound sv hx sid leaseID latest st outs ts evs)"
  unfolding persistFanoutRound_def Let_def
  by (intro mv_bind[OF mv_finalize(1)] mv_bind[OF mv_finalize(2)] mv_bind[OF mv_events(2)] mv_bind[OF mv_with_runner] mv_fanout_writes mv_prod mv_sret
      ok_settled ok_rest(1,2))

lemma mv_round:
  assumes "harmless_app hx"
  shows "moves R (sbind (getSessionRecord sv own) (\<lambda>current. sbind (executeFanoutPreparedSteps sv hx (rebaseFanoutWorkingState working current) ps schedule) (\<lambda>outcomes.
     sbind (persistFanoutRound sv hx own leaseID latest (rebaseFanoutWorkingState working current) outcomes ts evs) (\<lambda>out. sret (Some out)))))"
proof -
  have persist: "moves R (persistFanoutRound sv hx own leaseID latest (rebaseFanoutWorkingState working current) outs ts evs)"
    if "ok current" for current outs
    by (rule mv_persist_round, rule ok_cong[OF _ that]) (simp add: rebaseFanoutWorkingState_def)
  show ?thesis by (intro mv_read_session mv_bind[OF mv_execute_order[OF assms]] mv_bind[OF persist] mv_sret)
qed

lemma mv_advance_fanout: "moves R (advanceStateToExecuteForFanout st stepID)"
proof -
  have "moves R (fanout_changed_events st i ts)" for i ts by (induction ts) (auto intro!: mv_rules)
  then show ?thesis unfolding advanceStateToExecuteForFanout_def by (intro mv_rules)
qed

lemma mv_fanout:
  assumes "harmless_app hx"
  shows "moves R (tryRunFanoutRound sv hx sys schedule own leaseID st latest selected)"
  unfolding tryRunFanoutRound_def runFanoutRound_def Let_def
  by (intro mv_option mv_sret mv_bind[OF mv_slift] mv_bind[OF mv_nowMilli] mv_bind[OF mv_advance_fanout] mv_prod mv_bind[OF mv_prepare]
      mv_bind[OF mv_mark] mv_round assms)

subsection \<open>Compaction and planning\<close>

lemma mv_summaries: "moves R (latestContextSummary sv sid)" "moves R (persistContextSummary sv x)"
  unfolding latestContextSummary_def listContextSummaries_def persistContextSummary_def by (intro mv_rules mv_with_runner summary_Create)+

lemma mv_compact:
  assumes "harmless_planner px"
  shows "moves R (compactAssembledContext sv px st spec trigger)" "moves R (CompactSessionContext sv px sid trigger)"
    "moves R (compactSessionContextBestEffort sv px sid trigger)"
proof -
  have shrink: "moves R (f pkg st spec b)" if "px_Compactor px = Some f" for f pkg st spec b
    using assms that by (simp add: harmless_planner_def mv_harmless)
  have assemble: "moves R (px_Assemble px st spec)" for st spec using assms by (simp add: harmless_planner_def mv_harmless)
  show c: "moves R (compactAssembledContext sv px st spec trigger)" for st spec
    unfolding compactAssembledContext_def compactContextPackage_def Let_def
    by (intro mv_bind[OF assemble] mv_bind[OF mv_summaries(1)] mv_option mv_sret mv_if mv_bind[OF shrink] mv_prod mv_bind[OF mv_summaries(2)])
  show s: "moves R (CompactSessionContext sv px sid trigger)"
    unfolding CompactSessionContext_def getTaskRecord_def by (intro mv_rules mv_getters c)
  then show "moves R (compactSessionContextBestEffort sv px sid trigger)"
    unfolding compactSessionContextBestEffort_def by (rule mv_best_effort)
qed

lemma mv_recording:
  assumes "moves R m"
  shows "moves R (recording sv rec m)"
  unfolding recording_def joinPlanningPersistenceError_def persistPlanningRecord_def
  by (intro mv_bind[OF mv_scatch[OF assms]] mv_sum mv_sret mv_bind[OF mv_nowMilli] mv_bind mv_scatch mv_with_runner planning_Create mv_sfail)

lemma mv_create_viewed: "moves R (createPlanWithCapabilityView sv js sid reason steps view rec)"
  unfolding createPlanWithCapabilityView_def create_viewed_plan_def persistCapabilityViewInStore_def degradeFrozenPlanInStore_def
    link_planning_def generated_event_def newAuditEventAt_def Let_def
  by (intro mv_rules mv_getters mv_with_runner plan_Create plan_Update snapshot_Create planning_Create)

lemma mv_plan_loop:
  assumes "harmless_planner px"
  shows "moves R (plan_loop sv px fail view spec n steps st pkg ctxID)"
proof (induction n arbitrary: steps st pkg ctxID)
  case (Suc n)
  have p: "moves R (px_PlanNext px st spec pkg)" for st pkg using assms by (simp add: harmless_planner_def mv_harmless)
  show ?case unfolding plan_loop.simps Let_def
    by (intro mv_bind[OF mv_if] mv_bind[OF mv_recording] mv_scatch mv_sum mv_sret mv_prod mv_compact(1)[OF assms] p Suc)
qed (simp add: mv_sret)

lemma mv_anchor: "ok st \<Longrightarrow> moves R (ensureRuntimeBudgetAnchor sv st leaseID t)"
  unfolding ensureRuntimeBudgetAnchor_def by (intro mv_rules mv_with_runner session_persist ok_start) simp_all

lemma mv_bind_post:
  assumes "moves R m" and "\<And>w x w'. m w = (Inr x, w') \<Longrightarrow> Q x" and "\<And>x. Q x \<Longrightarrow> moves R (k x)"
  shows "moves R (sbind m k)"
  unfolding moves_def
proof
  fix w
  obtain r w' where m: "m w = (r, w')" by fastforce
  have "R w w'" using assms(1) m unfolding moves_def by (metis snd_conv)
  then show "R w (snd (sbind m k w))" using m assms(2)[of w] assms(3) by (cases r) (auto simp: svc_apply moves_def intro: trans)
qed

lemma recording_Inr: "recording sv rec m w = (Inr x, w') \<Longrightarrow> m w = (Inr x, w')"
  unfolding recording_def joinPlanningPersistenceError_def scatch_def by (auto simp: svc_apply split: prod.splits sum.splits)

lemma mv_assemble:
  assumes px: "harmless_planner px" and k: "\<And>a su st spec. ok st \<Longrightarrow> moves R (k (a, su, st, spec))"
  shows "moves R (sbind (recording sv rec (AssembleContextForSession sv px own)) k)"
  unfolding moves_def
proof
  fix w
  define h where "h st = (if st_TaskID st = [] then sfail (ErrOther ''session has no task attached'')
       else sbind (getTaskRecord sv (st_TaskID st)) (\<lambda>rec. sbind (CompactSessionContext sv px own CompactionTriggerPlan) (\<lambda>(assembled, summary).
           sret (assembled, summary, st, spec_of_task rec))))" for st :: session
  have a: "AssembleContextForSession sv px own = sbind (getSessionRecord sv own) h"
    unfolding AssembleContextForSession_def h_def ..
  obtain r where r: "getSessionRecord sv own w = (r, w)" using getSessionRecord_run(1) by (metis surj_pair)
  show "R w (snd (sbind (recording sv rec (AssembleContextForSession sv px own)) k w))"
  proof (cases r)
    case (Inl e)
    have "sbind (recording sv rec (AssembleContextForSession sv px own)) k w = sbind (recording sv rec (sfail e)) k w"
      unfolding a recording_def scatch_def using r Inl by (simp add: svc_apply)
    moreover have "moves R (sbind (recording sv rec (sfail e)) k)"
      by (rule mv_bind_post[OF mv_recording[OF mv_sfail], where Q = "\<lambda>_. False"]) (auto dest: recording_Inr simp: svc_apply)
    ultimately show ?thesis by (simp add: moves_def)
  next
    case (Inr st)
    have "sbind (recording sv rec (AssembleContextForSession sv px own)) k w = sbind (recording sv rec (h st)) k w"
      unfolding a recording_def scatch_def using r Inr by (simp add: svc_apply)
    moreover have "moves R (sbind (recording sv rec (h st)) k)" if ok: "ok st"
    proof (rule mv_bind_post[where Q = "\<lambda>x. fst (snd (snd x)) = st"])
      show "moves R (recording sv rec (h st))"
        unfolding h_def getTaskRecord_def by (intro mv_recording mv_rules mv_compact[OF px])
      show "recording sv rec (h st) v = (Inr x, v') \<Longrightarrow> fst (snd (snd x)) = st" for v x v'
        by (drule recording_Inr) (auto simp: h_def svc_apply split: if_splits prod.splits sum.splits)
      show "fst (snd (snd x)) = st \<Longrightarrow> moves R (k x)" for x using k[of st "fst x" "fst (snd x)" "snd (snd (snd x))"] ok by (cases x) auto
    qed
    ultimately show ?thesis using ok_read[OF getSessionRecord_run(2)[OF r Inr]] by (cases "ok st") (simp_all add: moves_def)
  qed
qed

lemma mv_freeze: "harmless_planner px \<Longrightarrow> moves R (freezeCapabilityView px sid tid)"
  unfolding freezeCapabilityView_def harmless_planner_def by (auto intro!: mv_sret mv_harmless split: option.splits)

lemma mv_plan_once:
  assumes "harmless_planner px"
  shows "moves R (plan_once sv hx px planningID own reason maxSteps md startedAt)"
  unfolding plan_once_def Let_def
    by (intro mv_bind[OF mv_recording[OF mv_getters(1)]] mv_bind[OF mv_recording[OF mv_slift]] mv_assemble[OF assms],
        simp only: prod.case, intro mv_bind[OF mv_recording[OF mv_anchor]] mv_bind[OF mv_recording[OF mv_freeze[OF assms]]]
        mv_bind[OF mv_plan_loop[OF assms]] mv_prod mv_if mv_recording mv_sfail mv_bind[OF mv_nowMilli] mv_bind[OF mv_recording[OF mv_create_viewed]] mv_sret)

lemma mv_driver_plan: "harmless_planner px \<Longrightarrow> moves R (createDriverPlan sv hx px own reason)"
  unfolding createDriverPlan_def CreatePlanFromPlanner_def Let_def by (intro mv_rules mv_plan_once) simp_all

subsection \<open>A turn\<close>

lemma mv_after_run: "harmless_planner px \<Longrightarrow> moves R (after_run sv px own out xs st pl)"
  unfolding after_run_def Let_def by (intro mv_bind[OF mv_compact(3)] mv_sret)

lemma mv_run_next:
  assumes "harmless_app hx" "harmless_planner px"
  shows "moves R (run_next sv hx px sys schedule own leaseID out st latest)"
proof -
  have selected: "moves R (run_selected sv hx px sys schedule own leaseID out st latest s)" for s
    unfolding run_selected_def
    by (intro mv_bind[OF mv_fanout] mv_option mv_bind[OF mv_scatch] mv_run mv_sum mv_if mv_sret mv_sfail mv_after_run assms)
  show ?thesis unfolding run_next_def Let_def by (intro mv_bind[OF mv_pinned] mv_if mv_bind[OF mv_driver_plan] mv_sret selected assms)
qed

lemma mv_turn:
  assumes "harmless_app hx" "harmless_planner px"
  shows "moves R (turn_from sv hx px sys schedule own leaseID out st)" "moves R (drive_turn sv hx px sys schedule own leaseID out)"
proof -
  show t: "moves R (turn_from sv hx px sys schedule own leaseID out st)" for st
    unfolding turn_from_def Let_def
    by (intro mv_bind[OF mv_getters(7)] mv_if mv_sret mv_bind[OF mv_if] mv_resume mv_prod mv_option
        mv_after_run mv_bind[OF mv_driver_plan] mv_run_next assms)
  then show "moves R (drive_turn sv hx px sys schedule own leaseID out)"
    unfolding drive_turn_def by (intro mv_bind[OF mv_ensureSessionLease])
qed

subsection \<open>Recovery\<close>

lemma mv_normalize: "moves R (normalizeSessionForRecovery sv own)"
proof -
  have loop: "moves R (reconcile_loop r now hs)" for r now hs by (induction hs) (auto simp: Let_def intro!: mv_rules handle_Update)
  have events: "moves R (runtimeHandleAuditEvents now ty hs)" for now ty hs by (induction hs) (auto intro!: mv_rules)
  have handles: "moves R (normalize_handles sid b)" for sid b
    unfolding normalize_handles_def reconcileActiveRuntimeHandlesInStore_def by (intro mv_rules loop events)
  have "ok (recovered st)" if "ok st" for st
    by (rule ok_cong[OF _ that]) (simp add: recovered_def Let_def)
  then have session: "moves R (normalize_session st evs)" if "ok st" for st evs
    unfolding normalize_session_def recovery_event_def newAuditEventAt_def Let_def using that by (intro mv_rules session_persist) simp
  show ?thesis unfolding normalizeSessionForRecovery_def normalize_def
    by (intro mv_bind[OF mv_getters(1)] mv_with_runner mv_get_session mv_bind[OF handles] mv_bind[OF session] mv_prod mv_if mv_bind mv_sret)
qed

lemma mv_recover_start:
  assumes "harmless_app hx" "harmless_planner px"
  shows "moves R (recover_start sv hx px own leaseID)"
proof -
  have cont: "moves R (sbind (normalizeSessionForRecovery sv own) (\<lambda>n. sbind (compactSessionContextBestEffort sv px own CompactionTriggerRecover) (\<lambda>_. sret (f n))))" for f
    by (intro mv_bind[OF mv_normalize] mv_bind[OF mv_compact(3)[OF assms(2)]] mv_sret)
  show ?thesis unfolding recover_start_def Let_def
    by (intro mv_bind[OF mv_ensureSessionLease] mv_bind[OF mv_getters(7)] mv_if mv_sret cont mv_bind[OF mv_getters(2)])
      (auto split: ApprovalStatus.split intro!: mv_sret mv_sfail mv_bind[OF mv_resume(1)[OF assms(1)]] mv_if cont)
qed

end

end
