(* ===== verification/Driver_Ends.thy ===== *)
theory Driver_Ends
  imports Driver_Logic
begin

text \<open>
  The session driver always returns. Its loop has no bound of its own; what ends it is the runtime
  budget: every turn that goes on has checked the budget against the start of the runtime, which the
  first such turn sets and no later one moves, and has read the clock at least once.
\<close>

section \<open>Writes of a session\<close>

lemma session_Update_stores:
  assumes "session_Update t s m = Inr m'" and "st_RuntimeStartedAt s \<noteq> 0"
  shows "\<exists>c. session_Get (st_SessionID s) m' = Inr c \<and> st_RuntimeStartedAt c \<noteq> 0"
  using assms by (auto simp: session_Update_def session_Get_def mem_get_def Let_def split: option.splits if_splits)

lemma merge_copied:
  "st_RuntimeStartedAt d \<noteq> 0 \<Longrightarrow> st_RuntimeStartedAt (mergeSessionUpdate c d L) = st_RuntimeStartedAt d"
  "st_SessionID (mergeSessionUpdate c d L) = st_SessionID d"
  "st_Phase (mergeSessionUpdate c d L) = st_Phase d" "st_PendingApprovalID (mergeSessionUpdate c d L) = st_PendingApprovalID d"
  by (simp_all add: mergeSessionUpdate_def Let_def)

text \<open>A write of a session is one update of the store with the desired state, up to what the merge takes over.\<close>

lemma update_loop_writes:
  "update_loop (\<lambda>_ m. m) (\<lambda>_ m. m) updAt n k d L now m = (r, m') \<Longrightarrow>
     (\<exists>e. r = Inl e \<and> m' = m) \<or> (\<exists>t c. r = Inr (mergeSessionUpdate c d L) \<and> session_Update t (mergeSessionUpdate c d L) m = Inr m')"
proof (induction n arbitrary: k)
  case (Suc n)
  show ?case
  proof (cases "session_Get (st_SessionID d) m")
    case (Inr c)
    show ?thesis
    proof (cases "requireSessionLease c L now")
      case (Inr u)
      then show ?thesis using Suc \<open>session_Get (st_SessionID d) m = Inr c\<close>
        by (cases "session_Update (updAt k) (mergeSessionUpdate c d L) m") (auto simp: Let_def split: if_splits)
    qed (use Suc.prems Inr in auto)
  next
    case (Inl e)
    with Suc.prems have "r = Inl e" "m' = m" by simp_all
    then show ?thesis by blast
  qed
qed auto

lemma persist_writes:
  assumes "persistSessionUpdateAt (\<lambda>_ m. m) (\<lambda>_ m. m) updAt sysNow d L now m = (r, m')"
  shows "(\<exists>e. r = Inl e \<and> m' = m) \<or> (\<exists>t s. r = Inr s \<and> session_Update t s m = Inr m' \<and> st_SessionID s = st_SessionID d \<and> st_Phase s = st_Phase d
     \<and> st_PendingApprovalID s = st_PendingApprovalID d \<and> (st_RuntimeStartedAt d \<noteq> 0 \<longrightarrow> st_RuntimeStartedAt s = st_RuntimeStartedAt d))"
proof (cases "L = []")
  case True
  then show ?thesis using assms by (auto simp: persistSessionUpdateAt_def Let_def split: sum.splits)
next
  case False
  then have "update_loop (\<lambda>_ m. m) (\<lambda>_ m. m) updAt maxSessionUpdateAttempts 0 d L (if now = 0 then sysNow else now) m = (r, m')"
    using assms by (simp add: persistSessionUpdateAt_def updateSessionWithRetry_def Let_def)
  from update_loop_writes[OF this] show ?thesis using merge_copied by blast
qed

lemma persist_run_writes:
  assumes "do_persistSessionUpdateAt d L now w = (r, w')"
  shows "(\<exists>e. r = Inl e \<and> rp_Sessions (w_Repos w') = rp_Sessions (w_Repos w))
    \<or> (\<exists>t s. r = Inr s \<and> session_Update t s (rp_Sessions (w_Repos w)) = Inr (rp_Sessions (w_Repos w')) \<and> st_SessionID s = st_SessionID d
        \<and> st_Phase s = st_Phase d
        \<and> st_PendingApprovalID s = st_PendingApprovalID d \<and> (st_RuntimeStartedAt d \<noteq> 0 \<longrightarrow> st_RuntimeStartedAt s = st_RuntimeStartedAt d))"
proof -
  define t where "t = w_Clock w (w_Reads w)"
  obtain r1 m1 where p: "persistSessionUpdateAt (\<lambda>_ m. m) (\<lambda>_ m. m) (\<lambda>_. t) t d L now (rp_Sessions (w_Repos w)) = (r1, m1)" by fastforce
  with assms have "r1 = r" "rp_Sessions (w_Repos w') = m1" by (auto simp: do_persistSessionUpdateAt_def svc_apply t_def)
  then show ?thesis using persist_writes[OF p] by simp
qed

lemma session_Update_wf: "session_Update t s m = Inr m' \<Longrightarrow> session_wf m \<Longrightarrow> session_wf m'"
  by (auto simp: session_Update_def Let_def split: option.splits if_splits)

section \<open>The clock only advances\<close>

text \<open>And the session store stays well formed.\<close>

definition ticks :: "world \<Rightarrow> world \<Rightarrow> bool" where
  "ticks w w' \<longleftrightarrow> w_Clock w' = w_Clock w \<and> w_Uuids w' = w_Uuids w \<and> w_Reads w \<le> w_Reads w'
     \<and> (session_wf (rp_Sessions (w_Repos w)) \<longrightarrow> session_wf (rp_Sessions (w_Repos w')))"

lemmas store_writes = write_defs do_action_Create_def do_verification_Create_def do_artifact_Create_def do_snapshot_Create_def do_handle_Create_def
  do_handle_Update_def do_plan_Create_def do_summary_Create_def do_planning_Create_def

interpretation clock: world_relation ticks
  by unfold_locales (auto simp: ticks_def)

interpretation clock: run_writes ticks sid "\<lambda>_. True" for sid
proof (unfold_locales, unfold store_writes)
  show "moves ticks (do_persistSessionUpdateAt st leaseID now)" for st leaseID now
    unfolding moves_def
  proof
    fix w :: world
    obtain r w' where r: "do_persistSessionUpdateAt st leaseID now w = (r, w')" by fastforce
    then have "w_Clock w' = w_Clock w" "w_Uuids w' = w_Uuids w" "w_Reads w \<le> w_Reads w'"
      by (auto simp: do_persistSessionUpdateAt_def svc_apply split: prod.splits)
    then show "ticks w (snd (do_persistSessionUpdateAt st leaseID now w))" using persist_run_writes[OF r] r session_Update_wf by (auto simp: ticks_def)
  qed
qed (simp_all, (intro clock.mv_rules clock.mv_sexec; auto simp: ticks_def split: sum.splits prod.splits intro: session_Update_wf)+)

section \<open>The start of the runtime stays\<close>

definition started :: "string \<Rightarrow> int \<Rightarrow> world \<Rightarrow> bool" where
  "started sid T w \<longleftrightarrow> (\<exists>c. session_Get sid (rp_Sessions (w_Repos w)) = Inr c \<and> st_RuntimeStartedAt c = T)"

definition keeps_start :: "string \<Rightarrow> int \<Rightarrow> world \<Rightarrow> world \<Rightarrow> bool" where
  "keeps_start sid T w w' \<longleftrightarrow> (T \<noteq> 0 \<and> started sid T w \<longrightarrow> started sid T w')"

lemma session_Update_start:
  assumes "session_Update t s m = Inr m'" and "st_RuntimeStartedAt s = T" "T \<noteq> 0"
    and "session_Get sid m = Inr c" "st_RuntimeStartedAt c = T"
  shows "\<exists>c'. session_Get sid m' = Inr c' \<and> st_RuntimeStartedAt c' = T"
  using assms by (auto simp: session_Update_def session_Get_def mem_get_def Let_def split: option.splits if_splits)

interpretation start: world_relation "keeps_start sid T" for sid T
  by unfold_locales (auto simp: keeps_start_def started_def)

interpretation start: run_writes "keeps_start sid T" sid "\<lambda>st. T = 0 \<or> st_RuntimeStartedAt st = T" for sid T
proof (unfold_locales)
  show "moves (keeps_start sid T) (do_persistSessionUpdateAt st leaseID now)" if "T = 0 \<or> st_RuntimeStartedAt st = T" for st leaseID now
    unfolding moves_def keeps_start_def started_def
  proof (intro allI impI)
    fix w :: world assume a: "T \<noteq> 0 \<and> (\<exists>c. session_Get sid (rp_Sessions (w_Repos w)) = Inr c \<and> st_RuntimeStartedAt c = T)"
    obtain r w' where r: "do_persistSessionUpdateAt st leaseID now w = (r, w')" by fastforce
    show "\<exists>c. session_Get sid (rp_Sessions (w_Repos (snd (do_persistSessionUpdateAt st leaseID now w)))) = Inr c \<and> st_RuntimeStartedAt c = T"
      using persist_run_writes[OF r] a that r session_Update_start by auto
  qed
  show "moves (keeps_start sid T) (do_session_Update st)" if "T = 0 \<or> st_RuntimeStartedAt st = T" for st
    unfolding do_session_Update_def
    by (intro start.mv_bind start.mv_nowMilli start.mv_sexec)
      (use that session_Update_start in \<open>auto simp: keeps_start_def started_def split: sum.splits\<close>)
qed (unfold store_writes, simp_all add: keeps_start_def started_def,
    (intro start.mv_rules start.mv_sexec; auto simp: keeps_start_def started_def split: sum.splits prod.splits)+)

section \<open>A session past its budget ends the loop\<close>

text \<open>All clock readings to come are past the budget.\<close>

definition late :: "service \<Rightarrow> string \<Rightarrow> int \<Rightarrow> world \<Rightarrow> bool" where
  "late sv sid T w \<longleftrightarrow> T \<noteq> 0 \<and> started sid T w \<and> 0 < lb_MaxTotalRuntimeMS (sv_Budgets sv)
     \<and> (\<forall>i\<ge>w_Reads w. lb_MaxTotalRuntimeMS (sv_Budgets sv) < w_Clock w i - T)"

abbreviation never :: "'a \<Rightarrow> world \<Rightarrow> bool" where "never \<equiv> \<lambda>_ _. False"

abbreviation anyhow :: "world \<Rightarrow> bool" where "anyhow \<equiv> \<lambda>_. True"

lemma wt_late: "moves ticks m \<Longrightarrow> moves (keeps_start sid T) m \<Longrightarrow> wtriple (late sv sid T) m (\<lambda>_. late sv sid T) anyhow"
proof (rule wtripleI)
  fix w x w' assume m: "moves ticks m" "moves (keeps_start sid T) m" and w: "late sv sid T w" and run: "m w = (Inr x, w')"
  have "ticks w w'" "keeps_start sid T w w'" using m run unfolding moves_def by (metis snd_conv)+
  then show "late sv sid T w'" using w by (auto simp: late_def ticks_def keeps_start_def)
qed simp

lemma wt_late_read:
  "wtriple (late sv sid T) (getSessionRecord sv' sid) (\<lambda>st w. st_RuntimeStartedAt st = T \<and> late sv sid T w) anyhow"
proof (rule wtripleI)
  fix w st w' assume w: "late sv sid T w" and run: "getSessionRecord sv' sid w = (Inr st, w')"
  show "st_RuntimeStartedAt st = T \<and> late sv sid T w'"
    using getSessionRecord_run(1)[OF run] getSessionRecord_run(2)[OF run refl] w by (auto simp: late_def started_def)
qed simp

lemma late_now:
  "wtriple (late sv sid T) nowMilli (\<lambda>t w. lb_MaxTotalRuntimeMS (sv_Budgets sv) < t - T \<and> late sv sid T w) anyhow"
  by (auto simp: wtriple_def svc_apply late_def started_def)

lemma over_budget:
  assumes "late sv sid T w" "lb_MaxTotalRuntimeMS (sv_Budgets sv) < t - T" "st_RuntimeStartedAt st = T"
  shows "ensureRuntimeBudget st (sv_Budgets sv) t = Inl ErrRuntimeBudgetExceeded"
  using assms by (simp add: ensureRuntimeBudget_def late_def)

lemma late_budget:
  assumes "lb_MaxTotalRuntimeMS (sv_Budgets sv) < t - T" "st_RuntimeStartedAt st = T"
  shows "wtriple (late sv sid T) (slift (ensureRuntimeBudget st (sv_Budgets sv) t)) never anyhow"
  using over_budget[OF _ assms] by (auto simp: wtriple_def svc_apply)

lemma late_lease:
  "wtriple (late sv sid T) (ensureSessionLease sv' sid L) (\<lambda>st w. st_RuntimeStartedAt st = T \<and> late sv sid T w) anyhow"
  unfolding ensureSessionLease_def
  by (rule wt_bind[OF wt_late_read], rule wt_assume, rule wt_bind[OF wt_late[OF clock.mv_nowMilli start.mv_nowMilli]],
      rule wt_bind[OF wt_late[OF clock.mv_slift start.mv_slift]], rule wt_sret) simp

lemma wt_never: "wtriple (\<lambda>_. False) m Q E"
  by (simp add: wtriple_def)

lemma late_run: "wtriple (late sv sid T) (runStepWithDecision sv hx sid L s forced active) never anyhow"
proof -
  have "wtriple (late sv sid T) (slift (run_guards sv hx st s active t)) never anyhow"
    if "st_RuntimeStartedAt st = T" "lb_MaxTotalRuntimeMS (sv_Budgets sv) < t - T" for st t
    using over_budget[OF _ that(2,1)] by (auto simp: wtriple_def svc_apply run_guards_def split: sum.split)
  note guards = this
  show ?thesis unfolding runStepWithDecision_def Let_def
    by (rule wt_bind[OF late_lease], rule wt_assume, rule wt_bind[OF late_now], rule wt_assume, rule wt_bind[OF guards], assumption+, rule wt_never)
qed

lemma late_fanout:
  assumes "st_RuntimeStartedAt st = T"
  shows "wtriple (late sv sid T) (tryRunFanoutRound sv hx sys schedule sid L st latest s) (\<lambda>x w. x = None \<and> late sv sid T w) anyhow"
proof (cases "fanoutRoundForSelection latest s (sv_Budgets sv) sys")
  case (Some rnd)
  have "wtriple (late sv sid T) (runFanoutRound sv hx schedule sid L st latest rnd) never anyhow"
    unfolding runFanoutRound_def Let_def
    by (rule wt_bind[OF wt_late[OF clock.mv_slift start.mv_slift]], rule wt_bind[OF late_now], rule wt_assume,
        rule wt_bind[OF late_budget], assumption, rule assms, rule wt_never)
  then show ?thesis unfolding tryRunFanoutRound_def Some option.case by (rule wt_weaken) simp_all
qed (simp add: tryRunFanoutRound_def wt_sret)

lemma wt_recording: "wtriple P m Q anyhow \<Longrightarrow> wtriple P (recording sv rec m) Q anyhow"
  by (rule wtripleI) (auto dest: clock.recording_Inr wtripleD)

lemma late_plan: "wtriple (late sv sid T) (createDriverPlan sv hx px sid reason) never anyhow"
proof -
  have plan: "wtriple (late sv sid T) (plan_once sv hx px i sid reason n md t) never anyhow" if "lb_MaxTotalRuntimeMS (sv_Budgets sv) < t - T" for i n md t
    unfolding plan_once_def Let_def
    by (rule wt_bind[OF wt_recording[OF wt_late_read]], rule wt_assume, rule wt_bind[OF wt_recording[OF late_budget[OF that]]], assumption, rule wt_never)
  have "wtriple (late sv sid T) (CreatePlanFromPlanner sv hx px sid reason 0) never anyhow"
    unfolding CreatePlanFromPlanner_def Let_def
    by (rule wt_bind[OF wt_late[OF clock.mv_newUUID start.mv_newUUID]], rule wt_bind[OF late_now], rule wt_assume, rule plan)
  then show ?thesis unfolding createDriverPlan_def by (rule wt_bind) (rule wt_never)
qed

lemma late_resume: "wtriple (late sv sid T) (resumePendingApprovalWithLease sv hx sid L) never anyhow"
  unfolding resumePendingApprovalWithLease_def
  by (rule wt_bind[OF late_lease], rule wt_assume, rule wt_if, rule wt_sfail, simp, rule wt_bind[OF wt_late[OF clock.mv_getters(2) start.mv_getters(2)]],
      rule wt_if, rule wt_sfail, simp, rule wt_opt, rule wt_sfail, simp, rule late_run)

lemma late_resolve:
  "wtriple (late sv sid T) (resolvePendingApprovalForSession sv hx sid L) (\<lambda>x w. (snd x \<longrightarrow> fst x = None) \<and> late sv sid T w) anyhow"
proof -
  have resumed: "wtriple (late sv sid T) (sbind (resumePendingApprovalWithLease sv hx sid L) (\<lambda>out. sret (Some out, True)))
      (\<lambda>x w. (snd x \<longrightarrow> fst x = None) \<and> late sv sid T w) anyhow" by (rule wt_bind[OF late_resume wt_never])
  show ?thesis unfolding resolvePendingApprovalForSession_def
    by (rule wt_bind[OF wt_late[OF clock.mv_getters(1) start.mv_getters(1)]], rule wt_if, rule wt_sret, simp,
        rule wt_bind[OF wt_late[OF clock.mv_getters(2) start.mv_getters(2)]])
      (auto split: ApprovalStatus.split intro!: wt_sret wt_sfail resumed)
qed

definition returns_turn :: "turn \<Rightarrow> world \<Rightarrow> bool" where
  "returns_turn t w \<longleftrightarrow> (\<exists>out. t = Return out)"

lemma wt_return: "wtriple P (sret (Return out)) returns_turn E"
  by (rule wt_sret) (simp add: returns_turn_def)

lemma late_turn: "wtriple (late sv sid T) (drive_turn sv hx px sys schedule sid L out) returns_turn anyhow"
proof -
  have run: "wtriple (late sv sid T) (scatch (runStepWithDecision sv hx sid L s None None)) (\<lambda>r _. \<exists>e. r = Inl e) anyhow" for s
    by (rule wt_weaken[OF wt_scatch[OF late_run]]) (auto split: sum.splits)
  have selected: "wtriple (late sv sid T) (run_selected sv hx px sys schedule sid L out st latest s) returns_turn anyhow" if "st_RuntimeStartedAt st = T" for out st latest s
    unfolding run_selected_def
  proof (rule wt_bind[OF late_fanout[OF that]], rule wt_assume, simp only: option.case, rule wt_bind[OF run])
    fix r :: "goerr + step_output"
    show "wtriple (\<lambda>_. \<exists>e. r = Inl e) (case r of Inl e \<Rightarrow> if errors_is e ErrStepBackoffActive then sret (Return out) else sfail e
        | Inr x \<Rightarrow> after_run sv px sid out [x] (so_Session x) (so_UpdatedPlan x)) returns_turn anyhow"
      by (cases r) (auto intro: wt_return wt_sfail simp: wt_never)
  qed
  have nxt: "wtriple (late sv sid T) (run_next sv hx px sys schedule sid L out st latest) returns_turn anyhow" if "st_RuntimeStartedAt st = T" for out st latest
    unfolding run_next_def Let_def
    by (rule wt_bind[OF wt_late[OF clock.mv_pinned start.mv_pinned]], rule wt_if, rule wt_bind[OF late_plan wt_never], rule wt_if, rule wt_return, rule selected[OF that])
  have pending: "wtriple (late sv sid T) (if p = [] then sret (None, False) else resolvePendingApprovalForSession sv hx sid L)
      (\<lambda>x w. (snd x \<longrightarrow> fst x = None) \<and> late sv sid T w) anyhow" for p :: string
    by (rule wt_if, rule wt_sret, simp, rule late_resolve)
  show ?thesis unfolding drive_turn_def turn_from_def Let_def
  proof (rule wt_bind[OF late_lease], rule wt_assume, rule wt_bind[OF wt_late[OF clock.mv_getters(7) start.mv_getters(7)]], rule wt_if, rule wt_return,
      rule wt_bind[OF pending], rule wt_assume)
    fix st :: session and latest and x :: "step_output option \<times> bool"
    assume T: "st_RuntimeStartedAt st = T" and x: "snd x \<longrightarrow> fst x = None"
    show "wtriple (late sv sid T) (case x of (resumed, handled) \<Rightarrow>
       if handled then (case resumed of None \<Rightarrow> sret (Return (populateSessionRunAggregates (newer_plan latest (out\<lparr>ro_Session := st\<rparr>))))
          | Some x \<Rightarrow> after_run sv px sid (newer_plan latest (out\<lparr>ro_Session := st\<rparr>)) [x] (so_Session x) (so_UpdatedPlan x))
       else case latest of Some p \<Rightarrow> run_next sv hx px sys schedule sid L (newer_plan latest (out\<lparr>ro_Session := st\<rparr>)) st p
       | None \<Rightarrow> sbind (createDriverPlan sv hx px sid ''runtime/session-driver'') (\<lambda>p.
           run_next sv hx px sys schedule sid L ((newer_plan latest (out\<lparr>ro_Session := st\<rparr>))\<lparr>ro_Plan := Some p\<rparr>) st p)) returns_turn anyhow"
      using x by (auto split: prod.split option.split intro!: wt_return nxt[OF T] wt_bind[OF late_plan wt_never])
  qed
qed

section \<open>A turn that goes on has started the runtime\<close>

definition stamped :: "string \<Rightarrow> world \<Rightarrow> bool" where
  "stamped sid w \<longleftrightarrow> (\<exists>T. T \<noteq> 0 \<and> started sid T w)"

text \<open>No clock reading is zero, no id is empty, and the session store is well formed.\<close>

definition fine :: "world \<Rightarrow> bool" where
  "fine w \<longleftrightarrow> (\<forall>i. w_Clock w i \<noteq> 0) \<and> (\<forall>i. w_Uuids w i \<noteq> []) \<and> session_wf (rp_Sessions (w_Repos w))"

abbreviation stamped_fine :: "string \<Rightarrow> world \<Rightarrow> bool" where
  "stamped_fine sid w \<equiv> stamped sid w \<and> fine w"

lemma fine_ticks: "fine w \<Longrightarrow> ticks w w' \<Longrightarrow> fine w'"
  by (simp add: fine_def ticks_def)

lemma wt_fine: "moves ticks m \<Longrightarrow> wtriple fine m (\<lambda>_. fine) anyhow"
  by (rule wt_moves[of ticks]) (auto intro: fine_ticks)

lemma wt_stamped:
  assumes "moves ticks m" and "\<And>T. moves (keeps_start sid T) m"
  shows "wtriple (stamped_fine sid) m (\<lambda>_. stamped_fine sid) anyhow"
proof (rule wtripleI)
  fix w x w' assume w: "stamped_fine sid w" and run: "m w = (Inr x, w')"
  have "ticks w w'" "\<And>T. keeps_start sid T w w'" using assms run unfolding moves_def by (metis snd_conv)+
  then show "stamped_fine sid w'" using w fine_ticks by (auto simp: stamped_def keeps_start_def)
qed simp

text \<open>A session that is written with a start of the runtime has one in the store.\<close>

lemma persist_stamps:
  assumes "st_SessionID st = sid" and "st_RuntimeStartedAt st \<noteq> 0"
  shows "wtriple fine (do_persistSessionUpdateAt st L now) (\<lambda>_. stamped_fine sid) anyhow"
proof (rule wtripleI)
  fix w x w' assume w: "fine w" and run: "do_persistSessionUpdateAt st L now w = (Inr x, w')"
  have "fine w'" using wtripleD(1)[OF wt_fine[OF clock.session_persist[OF TrueI]] w run] .
  moreover obtain t s where s: "session_Update t s (rp_Sessions (w_Repos w)) = Inr (rp_Sessions (w_Repos w'))" "st_SessionID s = sid" "st_RuntimeStartedAt s \<noteq> 0"
    using persist_run_writes[OF run] assms by auto
  then have "stamped sid w'" using session_Update_stores[OF s(1,3)] by (auto simp: stamped_def started_def)
  ultimately show "stamped_fine sid w'" by simp
qed simp

text \<open>Errors do not matter here, so units of work and compensations are transparent.\<close>

lemma wt_guarded_all: "wtriple P m Q anyhow \<Longrightarrow> wtriple P (guarded b m undo) Q anyhow"
  by (rule wt_guarded[OF _ _ wt_all]) simp_all

lemma wt_runner_all:
  assumes "\<And>b emit. (\<And>evs. moves ticks (emit evs)) \<Longrightarrow> (\<And>evs T. moves (keeps_start sid T) (emit evs)) \<Longrightarrow> wtriple P (body b emit) Q anyhow"
  shows "wtriple P (with_runner sv body) Q anyhow"
proof -
  have "wtriple P (Within r m) Q anyhow" if "wtriple P m Q anyhow" for r m
    using that by (cases r) (auto simp: wtriple_def Within_def split: option.split prod.splits sum.splits)
  then show ?thesis using assms clock.mv_emit start.mv_emit unfolding with_runner_def by (auto split: runner.split)
qed

lemma mark_stamps: "wtriple fine (markSessionInFlight sv sid L stepID) (\<lambda>_. stamped_fine sid) anyhow"
proof -
  have get: "wtriple fine (do_session_Get sid) (\<lambda>st w. st_SessionID st = sid \<and> fine w) anyhow"
    by (auto simp: wtriple_def do_session_Get_def fine_def session_Get_def mem_get_def split: sum.split option.splits dest: keyed_get)
  have clk: "wtriple fine nowMilli (\<lambda>t w. t \<noteq> 0 \<and> fine w) anyhow" by (auto simp: wtriple_def svc_apply fine_def)
  have body: "wtriple fine (update_recovery sid L mut (in_flight stepID now ref) emit) (\<lambda>_. stamped_fine sid) anyhow"
    if "now \<noteq> 0" and e: "\<And>evs. moves ticks (emit evs)" "\<And>evs T. moves (keeps_start sid T) (emit evs)" for mut now ref emit
    unfolding update_recovery_def
  proof (rule wt_bind[OF get], rule wt_assume, rule wt_bind[OF wt_fine[OF clock.mv_nowMilli]], rule wt_bind[OF wt_fine[OF clock.mv_slift]],
      rule wt_bind[OF wt_fine[OF clock.mv_nowMilli]])
    fix st :: session and t2 assume id: "st_SessionID st = sid"
    have in_f: "st_SessionID (in_flight stepID now ref st) = sid" "st_RuntimeStartedAt (in_flight stepID now ref st) \<noteq> 0"
      using id that(1) by (simp_all add: in_flight_def Let_def setSessionPlanRef_def split: option.split)
    have rest: "wtriple (stamped_fine sid) (sbind (recovery_event st x mut) (\<lambda>ev. sbind (emit [ev]) (\<lambda>_. sret x))) (\<lambda>_. stamped_fine sid) anyhow" for x
      unfolding recovery_event_def newAuditEventAt_def by (rule wt_stamped) (intro clock.mv_rules e, intro start.mv_rules e)
    show "wtriple fine (sbind (do_persistSessionUpdateAt (in_flight stepID now ref st) L t2) (\<lambda>updated. sbind (recovery_event st updated mut)
         (\<lambda>ev. sbind (emit [ev]) (\<lambda>_. sret updated)))) (\<lambda>_. stamped_fine sid) anyhow"
      by (rule wt_bind[OF persist_stamps[OF in_f] rest])
  qed
  show ?thesis unfolding markSessionInFlight_def updateRecoveryState_def
    by (rule wt_bind[OF clk], rule wt_assume, rule wt_bind[OF wt_fine[OF clock.mv_ensureSessionLease]], rule wt_bind[OF wt_fine[OF clock.mv_slift]],
        rule wt_bind[OF wt_fine[OF clock.mv_stepRef]], rule wt_runner_all, rule body)
qed

text \<open>The session after a run ends the loop, or its runtime has started.\<close>

definition ready :: "string \<Rightarrow> session \<Rightarrow> world \<Rightarrow> bool" where
  "ready sid st w \<longleftrightarrow> (isTerminalPhase (st_Phase st) \<or> st_PendingApprovalID st \<noteq> [] \<or> stamped sid w) \<and> fine w"

lemma ready_stamped: "stamped_fine sid w \<Longrightarrow> ready sid st w"
  by (simp add: ready_def)

lemma wt_ready:
  assumes "moves ticks m" and "\<And>T. moves (keeps_start sid T) m"
  shows "wtriple (ready sid st) m (\<lambda>_. ready sid st) anyhow"
proof (rule wtripleI)
  fix w x w' assume w: "ready sid st w" and run: "m w = (Inr x, w')"
  have "fine w'" using wtripleD(1)[OF wt_fine[OF assms(1)] _ run] w by (simp add: ready_def)
  then show "ready sid st w'" using w wtripleD(1)[OF wt_stamped[OF assms] _ run] by (auto simp: ready_def)
qed simp

lemma persist_value:
  "wtriple fine (do_persistSessionUpdateAt d L now) (\<lambda>s w. (st_Phase s = st_Phase d \<and> st_PendingApprovalID s = st_PendingApprovalID d) \<and> fine w) anyhow"
proof (rule wtripleI)
  fix w s w' assume w: "fine w" and run: "do_persistSessionUpdateAt d L now w = (Inr s, w')"
  show "(st_Phase s = st_Phase d \<and> st_PendingApprovalID s = st_PendingApprovalID d) \<and> fine w'"
    using persist_run_writes[OF run] wtripleD(1)[OF wt_fine[OF clock.session_persist[OF TrueI]] w run] by auto
qed simp

lemma persist_ready:
  assumes "isTerminalPhase (st_Phase d) \<or> st_PendingApprovalID d \<noteq> []"
  shows "wtriple fine (do_persistSessionUpdateAt d L now) (ready sid) anyhow"
  by (rule wt_weaken[OF persist_value]) (use assms in \<open>auto simp: ready_def\<close>)

lemma deny_ready: "wtriple fine (deny_step sv sid L st s a reuse d active ts evs) (\<lambda>x. ready sid (so_Session x)) anyhow"
proof -
  have writes: "wtriple fine (step_writes sv sid L (settled st (mk_td st TransitionFailed i r)) s') (\<lambda>x. ready sid (snd (snd x))) anyhow" for i r s'
    unfolding step_writes_def
    by (rule wt_bind[OF wt_fine[OF clock.mv_plan(1)]], rule wt_bind[OF wt_fine[OF clock.mv_task]], rule wt_bind[OF persist_ready], rule disjI1)
      (simp_all add: settled_def ApplyTransition_def Let_def mk_td_def isTerminalPhase_def, rule wt_sret, simp)
  show ?thesis unfolding deny_step_def Let_def
    by (rule wt_bind[OF wt_fine[OF clock.mv_nowMilli]], rule wt_bind[OF wt_fine[OF clock.mv_events(1)]], rule wt_bind[OF wt_fine[OF clock.mv_events(2)]],
        rule wt_runner_all[where sid = sid], rule wt_bind[OF writes], rule wt_prod, rule wt_prod, hypsubst, simp only: snd_conv, rule wt_bind[OF wt_ready],
        rule clock.mv_fact_write[OF clock.mv_attempt], rule start.mv_fact_write[OF start.mv_attempt], rule wt_bind[OF wt_ready], assumption+, rule wt_sret, simp)
qed

lemma ask_ready:
  assumes "harmless_app hx"
  shows "wtriple fine (ask_step sv hx before sid L st s a d ts evs) (\<lambda>x. ready sid (so_Session x)) anyhow"
proof -
  have pend: "wtriple fine (do_approval_CreatePending req) (\<lambda>rec w. ap_ApprovalID rec \<noteq> [] \<and> fine w) anyhow" for req
    by (auto simp: wtriple_def do_approval_CreatePending_def approval_CreatePending_def svc_apply fine_def Let_def)
  have writes: "wtriple fine (ask_writes sv b before s0 sid L st s' a' req) (\<lambda>x. ready sid (snd (snd (snd x)))) anyhow" for b s0 s' a' req
    unfolding ask_writes_def Let_def
  proof (rule wt_bind[OF pend], rule wt_assume, rule wt_bind[OF wt_guarded_all[OF wt_fine[OF clock.mv_plan(1)]]],
      rule wt_bind[OF wt_guarded_all[OF wt_fine[OF clock.mv_task]]], rule wt_bind[OF wt_guarded_all[OF persist_ready]])
    fix rec pl tk st'
    show "wtriple (ready sid st') (sbind (guarded b (persistExecutionFacts (a'\<lparr>at_ApprovalID := ap_ApprovalID rec\<rparr>) False None None [])
       [rollbackSessionState before st' L, restorePlanStepState sid s0, sbind nowMilli (terminalizeApprovalForRollback rec ''approval_request_persistence_failed'')])
       (\<lambda>_. sret (rec, pl, tk, st'))) (\<lambda>x. ready sid (snd (snd (snd x)))) anyhow"
      by (rule wt_bind[OF wt_guarded_all[OF wt_ready[OF clock.mv_attempt start.mv_attempt]]], rule wt_sret, simp)
  qed (simp add: awaiting_def)
  show ?thesis unfolding ask_step_def Let_def
    by (rule wt_bind[OF wt_fine[OF clock.mv_scope[OF assms]]], rule wt_bind[OF wt_fine[OF clock.mv_events(1)]],
        rule wt_runner_all[where sid = sid], rule wt_bind[OF writes], rule wt_prod, rule wt_prod, rule wt_prod, hypsubst, simp only: snd_conv,
        rule wt_bind[OF wt_ready], assumption+, rule wt_sret, simp)
qed

lemma run_ready:
  assumes "harmless_app hx"
  shows "wtriple fine (runStepWithDecision sv hx sid L s forced active) (\<lambda>x. ready sid (so_Session x)) anyhow"
proof -
  have exec: "wtriple fine (execute_step sv hx sid L s a reuse d active ts evs) (\<lambda>x. ready sid (so_Session x)) anyhow" for s a reuse d active ts evs
    unfolding execute_step_def Let_def
    by (rule wt_bind[OF mark_stamps], rule wt_weaken[OF wt_stamped[OF clock.mv_act[OF assms] start.mv_act[OF assms]]]) (auto simp: ready_stamped)
  have decided: "wtriple fine (run_decided sv hx before sid L st s a reuse now forced ts evs x) (\<lambda>x. ready sid (so_Session x)) anyhow" for before st s a reuse now ts evs x
    unfolding run_decided_def Let_def case_prod_beta
    by (rule wt_if, rule ask_ready[OF assms], rule wt_bind[OF wt_fine[OF clock.mv_events(1)]], rule wt_if, rule deny_ready, rule exec)
  show ?thesis unfolding runStepWithDecision_def Let_def
    by (rule wt_bind[OF wt_fine[OF clock.mv_ensureSessionLease]], rule wt_bind[OF wt_fine[OF clock.mv_nowMilli]], rule wt_bind[OF wt_fine[OF clock.mv_slift]],
        rule wt_bind[OF wt_fine[OF clock.mv_resolveProgramBindings]], rule wt_bind[OF wt_fine[OF clock.mv_start_attempt]], rule wt_prod, rule wt_prod, rule wt_prod,
        rule wt_bind[OF wt_fine[OF clock.mv_events(3)]], rule wt_bind[OF wt_fine[OF clock.mv_decide_policy[OF assms]]], rule decided)
qed

lemma resume_ready:
  assumes "harmless_app hx"
  shows "wtriple fine (resolvePendingApprovalForSession sv hx sid L) (\<lambda>x w. (\<forall>y. fst x = Some y \<longrightarrow> ready sid (so_Session y) w) \<and> fine w) anyhow"
proof -
  have "wtriple fine (resumePendingApprovalWithLease sv hx sid L) (\<lambda>x. ready sid (so_Session x)) anyhow"
    unfolding resumePendingApprovalWithLease_def
    by (rule wt_bind[OF wt_fine[OF clock.mv_ensureSessionLease]], rule wt_if, rule wt_sfail, simp, rule wt_bind[OF wt_fine[OF clock.mv_getters(2)]],
        rule wt_if, rule wt_sfail, simp, rule wt_opt, rule wt_sfail, simp, rule run_ready[OF assms])
  then have resumed: "wtriple fine (sbind (resumePendingApprovalWithLease sv hx sid L) (\<lambda>out. sret (Some out, True)))
      (\<lambda>x w. (\<forall>y. fst x = Some y \<longrightarrow> ready sid (so_Session y) w) \<and> fine w) anyhow"
    by (rule wt_bind) (rule wt_sret, simp add: ready_def)
  show ?thesis unfolding resolvePendingApprovalForSession_def
    by (rule wt_bind[OF wt_fine[OF clock.mv_getters(1)]], rule wt_if, rule wt_sret, simp, rule wt_bind[OF wt_fine[OF clock.mv_getters(2)]])
      (auto split: ApprovalStatus.split intro!: wt_sret wt_sfail resumed)
qed

lemma fanout_ready:
  assumes "harmless_app hx"
  shows "wtriple fine (tryRunFanoutRound sv hx sys schedule sid L st latest s) (\<lambda>x w. (x \<noteq> None \<longrightarrow> stamped sid w) \<and> fine w) anyhow"
proof -
  have rnd: "wtriple (stamped_fine sid) (sbind (getSessionRecord sv sid) (\<lambda>current. sbind (executeFanoutPreparedSteps sv hx (rebaseFanoutWorkingState working current) ps schedule) (\<lambda>outcomes.
      sbind (persistFanoutRound sv hx sid L latest (rebaseFanoutWorkingState working current) outcomes ts evs) (\<lambda>out. sret (Some out)))))
      (\<lambda>x w. (x \<noteq> None \<longrightarrow> stamped sid w) \<and> fine w) anyhow" for working ps ts evs
    by (rule wt_weaken[OF wt_stamped[OF clock.mv_round[OF assms] start.mv_round[OF assms]]]) auto
  show ?thesis unfolding tryRunFanoutRound_def runFanoutRound_def Let_def
    by (rule wt_opt, rule wt_sret, simp, rule wt_bind[OF wt_fine[OF clock.mv_slift]], rule wt_bind[OF wt_fine[OF clock.mv_nowMilli]],
        rule wt_bind[OF wt_fine[OF clock.mv_slift]], rule wt_bind[OF wt_fine[OF clock.mv_advance_fanout]], rule wt_prod, rule wt_prod,
        rule wt_bind[OF wt_fine[OF clock.mv_prepare[OF assms]]], rule wt_opt, rule wt_sret, simp, rule wt_bind[OF mark_stamps], rule rnd)
qed

text \<open>A session that was read before: what it says of the start of the runtime still holds.\<close>

definition seen :: "string \<Rightarrow> session \<Rightarrow> world \<Rightarrow> bool" where
  "seen sid st w \<longleftrightarrow> st_SessionID st = sid \<and> (st_RuntimeStartedAt st \<noteq> 0 \<longrightarrow> stamped sid w) \<and> fine w"

lemma wt_seen:
  assumes "moves ticks m" and "\<And>T. moves (keeps_start sid T) m"
  shows "wtriple (seen sid st) m (\<lambda>_. seen sid st) anyhow"
proof (rule wtripleI)
  fix w x w' assume w: "seen sid st w" and run: "m w = (Inr x, w')"
  have "fine w'" using wtripleD(1)[OF wt_fine[OF assms(1)] _ run] w by (simp add: seen_def)
  then show "seen sid st w'" using w wtripleD(1)[OF wt_stamped[OF assms] _ run] by (auto simp: seen_def)
qed simp

lemma assemble_seen:
  assumes "harmless_planner px"
  shows "wtriple fine (AssembleContextForSession sv px sid) (\<lambda>x. seen sid (fst (snd (snd x)))) anyhow"
proof -
  have get: "wtriple fine (getSessionRecord sv sid) (seen sid) anyhow"
  proof (rule wtripleI)
    fix w st w' assume w: "fine w" and run: "getSessionRecord sv sid w = (Inr st, w')"
    have s: "w' = w" "session_Get sid (rp_Sessions (w_Repos w)) = Inr st" using getSessionRecord_run(1)[OF run] getSessionRecord_run(2)[OF run] by simp_all
    then have "st_SessionID st = sid" using w by (auto simp: fine_def session_Get_def mem_get_def split: option.splits dest: keyed_get)
    then show "seen sid st w'" using s w by (auto simp: seen_def stamped_def started_def)
  qed simp
  have task: "wtriple (seen sid st) (getTaskRecord sv tid) (\<lambda>_. seen sid st) anyhow" for st tid
    unfolding getTaskRecord_def by (rule wt_seen[OF clock.mv_readRepositories start.mv_readRepositories])
  show ?thesis unfolding AssembleContextForSession_def
    by (rule wt_bind[OF get], rule wt_if, rule wt_sfail, simp, rule wt_bind[OF task],
        rule wt_bind[OF wt_seen[OF clock.mv_compact(2)[OF assms] start.mv_compact(2)[OF assms]]], rule wt_prod, rule wt_sret, simp)
qed

lemma anchor_stamps:
  assumes "t \<noteq> 0"
  shows "wtriple (seen sid st) (ensureRuntimeBudgetAnchor sv st L t) (\<lambda>_. stamped_fine sid) anyhow"
  unfolding ensureRuntimeBudgetAnchor_def
proof (rule wt_if)
  assume "st_RuntimeStartedAt st \<noteq> 0"
  then show "wtriple (seen sid st) (sret st) (\<lambda>_. stamped_fine sid) anyhow" by (rule_tac wt_sret) (simp add: seen_def)
next
  show "wtriple (seen sid st) (with_runner sv (\<lambda>_ _. do_persistSessionUpdateAt (st\<lparr>st_RuntimeStartedAt := t\<rparr>) L t)) (\<lambda>_. stamped_fine sid) anyhow"
  proof (rule wt_runner_all)
    show "wtriple (seen sid st) (do_persistSessionUpdateAt (st\<lparr>st_RuntimeStartedAt := t\<rparr>) L t) (\<lambda>_. stamped_fine sid) anyhow"
    proof (cases "st_SessionID st = sid")
      case True
      show ?thesis by (rule wt_weaken[OF persist_stamps]) (use True assms in \<open>auto simp: seen_def\<close>)
    qed (simp add: wtriple_def seen_def)
  qed
qed

lemma plan_stamps:
  assumes "harmless_planner px"
  shows "wtriple fine (createDriverPlan sv hx px sid reason) (\<lambda>_. stamped_fine sid) anyhow"
proof -
  have clk: "wtriple fine nowMilli (\<lambda>t w. t \<noteq> 0 \<and> fine w) anyhow" by (auto simp: wtriple_def svc_apply fine_def)
  note both = wt_stamped[OF clock.mv_recording[OF clock.mv_freeze[OF assms]] start.mv_recording[OF start.mv_freeze[OF assms]]]
    wt_stamped[OF clock.mv_plan_loop[OF assms] start.mv_plan_loop[OF assms]] wt_stamped[OF clock.mv_nowMilli start.mv_nowMilli]
    wt_stamped[OF clock.mv_recording[OF clock.mv_create_viewed] start.mv_recording[OF start.mv_create_viewed]]
    wt_stamped[OF clock.mv_recording[OF clock.mv_sfail] start.mv_recording[OF start.mv_sfail]]
  have once: "wtriple fine (plan_once sv hx px i sid reason n md t) (\<lambda>_. stamped_fine sid) anyhow" if t: "t \<noteq> 0" for i n md t
    unfolding plan_once_def Let_def
    by (rule wt_bind[OF wt_recording[OF wt_fine[OF clock.mv_getters(1)]]], rule wt_bind[OF wt_recording[OF wt_fine[OF clock.mv_slift]]],
        rule wt_bind[OF wt_recording[OF assemble_seen[OF assms]]], rule wt_prod, rule wt_prod, rule wt_prod, hypsubst, simp only: fst_conv snd_conv,
        rule wt_bind[OF wt_recording[OF anchor_stamps[OF t]]], rule wt_bind[OF both(1)], rule wt_bind[OF both(2)], rule wt_prod, rule wt_if, rule both(5),
        rule wt_bind[OF both(3)], rule wt_bind[OF both(4)], rule wt_sret, simp)
  have "wtriple fine (CreatePlanFromPlanner sv hx px sid reason 0) (\<lambda>_. stamped_fine sid) anyhow"
    unfolding CreatePlanFromPlanner_def Let_def
    by (rule wt_bind[OF wt_fine[OF clock.mv_newUUID]], rule wt_bind[OF clk], rule wt_assume, rule once)
  then show ?thesis unfolding createDriverPlan_def by (rule wt_bind) (rule wt_prod, rule wt_sret, simp)
qed

definition going :: "string \<Rightarrow> turn \<Rightarrow> world \<Rightarrow> bool" where
  "going sid t w \<longleftrightarrow> (\<forall>out. t = Continue out \<longrightarrow> stamped sid w)"

lemma after_run_going:
  assumes "harmless_planner px"
  shows "wtriple (ready sid st) (after_run sv px sid out xs st pl) (going sid) anyhow"
  unfolding after_run_def Let_def
  by (rule wt_bind[OF wt_ready[OF clock.mv_compact(3)[OF assms] start.mv_compact(3)[OF assms]]], rule wt_sret) (auto simp: ready_def going_def)

lemma turn_going:
  assumes app: "harmless_app hx" and px: "harmless_planner px"
  shows "wtriple fine (drive_turn sv hx px sys schedule sid L out) (going sid) anyhow"
proof -
  have ret: "wtriple P (sret (Return out)) (going sid) anyhow" for P out by (rule wt_sret) (simp add: going_def)
  have selected: "wtriple fine (run_selected sv hx px sys schedule sid L out st latest s) (going sid) anyhow" for out st latest s
    unfolding run_selected_def
  proof (rule wt_bind[OF fanout_ready[OF app]], rule wt_opt)
    fix rnd and r :: fanout_output assume r: "rnd = Some r"
    show "wtriple (\<lambda>w. (rnd \<noteq> None \<longrightarrow> stamped sid w) \<and> fine w) (after_run sv px sid out (fz_Executions r) (fz_Session r) (fz_UpdatedPlan r)) (going sid) anyhow"
      by (rule wt_weaken[OF after_run_going[OF px]]) (use r in \<open>auto simp: ready_def\<close>)
  next
    fix rnd :: "fanout_output option"
    show "wtriple (\<lambda>w. (rnd \<noteq> None \<longrightarrow> stamped sid w) \<and> fine w) (sbind (scatch (runStepWithDecision sv hx sid L s None None)) (\<lambda>r.
         case r of Inl e \<Rightarrow> if errors_is e ErrStepBackoffActive then sret (Return out) else sfail e
         | Inr x \<Rightarrow> after_run sv px sid out [x] (so_Session x) (so_UpdatedPlan x))) (going sid) anyhow"
    proof (rule wt_bind)
      show "wtriple (\<lambda>w. (rnd \<noteq> None \<longrightarrow> stamped sid w) \<and> fine w) (scatch (runStepWithDecision sv hx sid L s None None))
          (\<lambda>r w. case r of Inl _ \<Rightarrow> anyhow w | Inr x \<Rightarrow> ready sid (so_Session x) w) anyhow"
        by (rule wt_weaken[OF wt_scatch[OF run_ready[OF app]]]) auto
      fix r :: "goerr + step_output"
      show "wtriple (\<lambda>w. case r of Inl _ \<Rightarrow> anyhow w | Inr x \<Rightarrow> ready sid (so_Session x) w) (case r of Inl e \<Rightarrow> if errors_is e ErrStepBackoffActive then sret (Return out) else sfail e
         | Inr x \<Rightarrow> after_run sv px sid out [x] (so_Session x) (so_UpdatedPlan x)) (going sid) anyhow"
        by (cases r) (auto intro!: ret wt_sfail after_run_going[OF px])
    qed
  qed
  have nxt: "wtriple fine (run_next sv hx px sys schedule sid L out st latest) (going sid) anyhow" for out st latest
    unfolding run_next_def Let_def
    by (rule wt_bind[OF wt_fine[OF clock.mv_pinned]], rule wt_if, rule wt_bind[OF plan_stamps[OF px]], rule wt_sret, simp add: going_def, rule wt_if, rule ret, rule selected)
  have pending: "wtriple fine (if p = [] then sret (None, False) else resolvePendingApprovalForSession sv hx sid L)
      (\<lambda>x w. (\<forall>y. fst x = Some y \<longrightarrow> ready sid (so_Session y) w) \<and> fine w) anyhow" for p :: string
    by (rule wt_if, rule wt_sret, simp, rule resume_ready[OF app])
  have planned: "wtriple fine (sbind (createDriverPlan sv hx px sid reason) (\<lambda>p. run_next sv hx px sys schedule sid L (f p) st p)) (going sid) anyhow" for reason f st
    by (rule wt_bind[OF plan_stamps[OF px]], rule wt_weaken[OF nxt]) auto
  show ?thesis unfolding drive_turn_def turn_from_def Let_def
    by (rule wt_bind[OF wt_fine[OF clock.mv_ensureSessionLease]], rule wt_bind[OF wt_fine[OF clock.mv_getters(7)]], rule wt_if, rule ret,
        rule wt_bind[OF pending], rule wt_prod, rule wt_if, rule wt_opt, rule ret, rule wt_weaken[OF after_run_going[OF px]], (simp; fail)+,
        rule wt_opt, rule wt_weaken[OF planned], (simp; fail)+, rule wt_weaken[OF nxt], simp_all)
qed

section \<open>The driver returns\<close>

lemma turn_reads:
  assumes "harmless_app hx" "harmless_planner px" and "drive_turn sv hx px sys schedule sid L out w = (Inr t, w')"
  shows "w_Reads w < w_Reads w'"
proof -
  have "wtriple (\<lambda>v. v = w) (ensureSessionLease sv sid L) (\<lambda>_ v. w_Reads w < w_Reads v) anyhow"
    unfolding ensureSessionLease_def
    by (auto simp: wtriple_def svc_apply split: prod.split sum.split dest!: getSessionRecord_run)
  moreover have "wtriple (\<lambda>v. w_Reads w < w_Reads v) (turn_from sv hx px sys schedule sid L out st) (\<lambda>_ v. w_Reads w < w_Reads v) anyhow" for st
    by (rule wt_moves[of ticks, OF clock.mv_turn(1)[OF assms(1,2)]]) (auto simp: ticks_def)
  ultimately have "wtriple (\<lambda>v. v = w) (drive_turn sv hx px sys schedule sid L out) (\<lambda>_ v. w_Reads w < w_Reads v) anyhow"
    unfolding drive_turn_def by (rule wt_bind)
  from wtripleD(1)[OF this refl assms(3)] show ?thesis .
qed

lemma drive_ends_started:
  assumes app: "harmless_app hx" and px: "harmless_planner px" and budget: "0 < lb_MaxTotalRuntimeMS (sv_Budgets sv)" and T: "T \<noteq> 0"
    and growth: "\<forall>i\<ge>N. lb_MaxTotalRuntimeMS (sv_Budgets sv) < clk i - T"
  shows "started sid T w \<Longrightarrow> w_Clock w = clk \<Longrightarrow> \<exists>r. drive sv hx px env sid L k out w = Some r"
proof (induction "N - w_Reads w" arbitrary: w k out rule: less_induct)
  case less
  let ?turn = "drive_turn sv hx px (fst (env k)) (snd (env k)) sid L out"
  show ?case
  proof (cases "\<exists>out' w'. ?turn w = (Inr (Continue out'), w')")
    case True
    then obtain out' w' where run: "?turn w = (Inr (Continue out'), w')" by blast
    have "\<not> late sv sid T w" using wtripleD(1)[OF late_turn _ run] by (auto simp: returns_turn_def)
    then obtain i where "w_Reads w \<le> i" "\<not> lb_MaxTotalRuntimeMS (sv_Budgets sv) < clk i - T" using less.prems T budget by (auto simp: late_def)
    then have "w_Reads w < N" using growth by (meson le_less_linear le_trans)
    moreover have "ticks w w'" "keeps_start sid T w w'"
      using clock.mv_turn(2)[OF app px] start.mv_turn(2)[OF app px] run unfolding moves_def by (metis snd_conv)+
    ultimately have "\<exists>r. drive sv hx px env sid L (Suc k) out' w' = Some r"
      using turn_reads[OF app px run] less.prems T by (intro less.hyps) (auto simp: ticks_def keeps_start_def)
    then show ?thesis using run by (subst drive.simps) simp
  next
    case False
    then show ?thesis by (subst drive.simps) (auto split: prod.split sum.split turn.split)
  qed
qed

lemma drive_ends:
  assumes app: "harmless_app hx" and px: "harmless_planner px" and budget: "0 < lb_MaxTotalRuntimeMS (sv_Budgets sv)"
    and clk: "\<And>b. \<exists>n. \<forall>i\<ge>n. b < w_Clock w i" and w: "fine w"
  shows "\<exists>r. drive sv hx px env sid L k out w = Some r"
proof -
  let ?turn = "drive_turn sv hx px (fst (env k)) (snd (env k)) sid L out"
  show ?thesis
  proof (cases "\<exists>out' w'. ?turn w = (Inr (Continue out'), w')")
    case True
    then obtain out' w' where run: "?turn w = (Inr (Continue out'), w')" by blast
    then obtain T where T: "T \<noteq> 0" "started sid T w'" using wtripleD(1)[OF turn_going[OF app px] w run] by (auto simp: going_def stamped_def)
    obtain N where "\<forall>i\<ge>N. lb_MaxTotalRuntimeMS (sv_Budgets sv) + T < w_Clock w i" using clk by blast
    then have N: "\<forall>i\<ge>N. lb_MaxTotalRuntimeMS (sv_Budgets sv) < w_Clock w i - T" by (simp add: algebra_simps)
    have "w_Clock w' = w_Clock w" using clock.mv_turn(2)[OF app px] run unfolding moves_def ticks_def by (metis snd_conv)
    from drive_ends_started[OF app px budget T(1) N T(2) this] show ?thesis using run by (subst drive.simps) simp
  next
    case False
    then show ?thesis by (subst drive.simps) (auto split: prod.split sum.split turn.split)
  qed
qed

lemma runs_end:
  assumes "harmless_app hx" and "harmless_planner px" and "sv_Budgets sv = with_default_budgets b"
    and "\<And>b. \<exists>n. \<forall>i\<ge>n. b < w_Clock w i" and "fine w"
  shows "\<exists>r. runSession sv hx px env sid L w = Some r"
proof -
  have "0 < lb_MaxTotalRuntimeMS (sv_Budgets sv)" unfolding assms(3) by (simp add: with_default_budgets_def DefaultLoopBudgets_def)
  from drive_ends[OF assms(1,2) this assms(4,5)] show ?thesis unfolding runSession_def .
qed

lemma recoveries_end:
  assumes "harmless_app hx" and "harmless_planner px" and "sv_Budgets sv = with_default_budgets b"
    and "\<And>b. \<exists>n. \<forall>i\<ge>n. b < w_Clock w i" and "fine w"
  shows "\<exists>r. recoverSession sv hx px env sid L w = Some r"
proof -
  let ?v = "snd (recover_start sv hx px sid L w)"
  have t: "ticks w ?v" using clock.mv_recover_start[OF assms(1,2), of sv sid L] by (simp add: moves_def)
  have "\<exists>r. runSession sv hx px env sid L ?v = Some r"
    by (rule runs_end[OF assms(1-3)]) (use t assms(4) fine_ticks[OF assms(5) t] in \<open>auto simp: ticks_def\<close>)
  then show ?thesis unfolding recoverSession_def by (auto split: prod.split sum.split turn.split)
qed

text \<open>
  C5. Driving and recovering a session always end. For every service whose budgets went through the
  defaults, every application, planner and schedule of fan-out rounds, and every state of the stores,
  \<^verbatim>\<open>runSession\<close> and \<^verbatim>\<open>recoverSession\<close> return, with a result or an error: if the clock grows without bound
  (and never reads zero, ids are not empty, and sessions are stored under their ids), the loop cannot go
  on forever, whatever the tools answer and however often the plan is revised.
\<close>

theorem driver_returns:
  assumes "harmless_app hx" and "harmless_planner px" and "sv_Budgets sv = with_default_budgets b"
    and "\<And>b. \<exists>n. \<forall>i\<ge>n. b < w_Clock w i" and "fine w"
  shows "(\<exists>r. runSession sv hx px env sid L w = Some r) \<and> (\<exists>r. recoverSession sv hx px env sid L w = Some r)"
  using runs_end[OF assms(1-3), of w env sid L] recoveries_end[OF assms(1-3), of w env sid L] assms(4,5) by blast

lemma harmless_ex_planner: "harmless_planner ex_planner"
  by (simp add: harmless_planner_def ex_planner_def DefaultContextAssembler_def NoopCompactor_def NoopPlanner_def harmless_basic)

definition ex_ticking_world :: world where
  "ex_ticking_world = ex_run_world\<lparr>w_Clock := (\<lambda>i. int i + 1)\<rparr>"

lemma ex_ticking: "\<exists>n. \<forall>i\<ge>n. b < w_Clock ex_ticking_world i" "fine ex_ticking_world"
proof -
  have "\<forall>i\<ge>nat b. b < w_Clock ex_ticking_world i" by (auto simp: ex_ticking_world_def)
  then show "\<exists>n. \<forall>i\<ge>n. b < w_Clock ex_ticking_world i" ..
  have "session_wf (rp_Sessions (w_Repos ex_run_world))" by code_simp
  moreover have "w_Uuids ex_run_world i \<noteq> []" for i by (simp add: ex_run_world_def ex_world_def)
  ultimately show "fine ex_ticking_world" by (simp add: fine_def ex_ticking_world_def)
qed

lemma ex_budgets: "sv_Budgets ex_service = with_default_budgets DefaultLoopBudgets"
  by code_simp

theorem driver_returns_witness:
  "(\<exists>r. runSession ex_service (ex_app Deny) ex_planner (\<lambda>_. (\<lambda>_. 0, \<lambda>n. [0..<n])) ''s1'' [] ex_ticking_world = Some r)
   \<and> (\<exists>r. recoverSession ex_service (ex_app Deny) ex_planner (\<lambda>_. (\<lambda>_. 0, \<lambda>n. [0..<n])) ''s1'' [] ex_ticking_world = Some r)"
  by (rule driver_returns[OF harmless_ex_app harmless_ex_planner ex_budgets ex_ticking])

end
