(* ===== verification/Driver_Refines.thy ===== *)
theory Driver_Refines
  imports Driver_Ends Abort_Effect
begin

text \<open>
  The calls that drive sessions refine the abstract session store: whatever the service does to its
  sessions is a sequence of steps of the map of versioned registers that the store promises.
\<close>

section \<open>Steps of the abstract store\<close>

definition registers :: "world \<Rightarrow> world \<Rightarrow> bool" where
  "registers w w' \<longleftrightarrow> (session_wf (rp_Sessions (w_Repos w)) \<longrightarrow> session_steps (rp_Sessions (w_Repos w)) (rp_Sessions (w_Repos w')))"

lemma registers_step: "(session_wf (rp_Sessions (w_Repos w)) \<Longrightarrow> session_step (rp_Sessions (w_Repos w)) (rp_Sessions (w_Repos w'))) \<Longrightarrow> registers w w'"
  by (auto simp: registers_def)

lemma session_Update_step: "session_Update t s m = Inr m' \<Longrightarrow> session_step m m'"
  by (auto elim!: Update_Inr intro: session_step.step_write)

section \<open>Every write of a run is such a step\<close>

interpretation registers: world_relation registers
  by unfold_locales (auto simp: registers_def intro: session_steps_wf rtranclp_trans)

interpretation registers: run_writes registers sid "\<lambda>_. True" for sid
proof (unfold_locales, unfold store_writes)
  show "moves registers (do_persistSessionUpdateAt st leaseID now)" for st leaseID now
    unfolding moves_def
  proof
    fix w :: world
    obtain r w' where r: "do_persistSessionUpdateAt st leaseID now w = (r, w')" by fastforce
    then show "registers w (snd (do_persistSessionUpdateAt st leaseID now w))"
      using persist_run_writes[OF r] session_Update_step by (auto simp: registers_def)
  qed
qed (simp_all, (intro registers.mv_rules registers.mv_sexec; auto simp: registers_def split: sum.splits prod.splits intro: r_into_rtranclp[of session_step, OF session_Update_step])+)

lemma lease_steps:
  "session_wf m \<Longrightarrow> session_ClaimNext mode L t e m = (r, m') \<Longrightarrow> session_step m m'"
  "session_wf m \<Longrightarrow> session_RenewLease sid L n e m = Inr (st, m') \<Longrightarrow> session_step m m'"
  "session_wf m \<Longrightarrow> session_ReleaseLease sid L n m = Inr (st, m') \<Longrightarrow> session_step m m'"
  using session_exec_refines[of m "OpClaim mode L t e"] session_exec_refines[of m "OpRenew sid L n e"] session_exec_refines[of m "OpRelease sid L n"]
  by auto

lemma registers_leases:
  "moves registers (claimSession sv mode ttl)" "moves registers (RenewSessionLease sv sid L ttl)" "moves registers (ReleaseSessionLease sv sid L)"
  unfolding claimSession_def RenewSessionLease_def ReleaseSessionLease_def newAuditEventAt_def Let_def
  by (intro registers.mv_rules registers.mv_with_runner registers.mv_sexec; auto split: sum.splits prod.splits intro!: registers_step intro: lease_steps)+

interpretation regs: session_writes registers
  by unfold_locales (rule registers.plan_Update registers.task_Update registers.attempt_Create registers.attempt_Update registers.approval_Update
    registers.approval_Create registers.session_persist[OF TrueI] registers.session_Update[OF TrueI])+

lemma registers_RespondApproval: "moves registers (RespondApproval sv aid response)"
  unfolding RespondApproval_def Let_def
  by (intro registers.mv_rules registers.mv_getters registers.mv_gets registers.mv_with_runner regs.mv_answer_writes registers.mv_events)

lemma registers_AbortSession: "moves registers (AbortSession sv sid request)"
proof -
  have blocked: "moves registers (do_blocked_Update b)" for b
    unfolding do_blocked_Update_def by (intro registers.mv_rules registers.mv_sexec) (auto simp: registers_def split: sum.splits)
  have events: "moves registers (abort_events current request reason now)" for current reason now
    unfolding abort_events_def abort_event_def newAuditEventAt_def Let_def by (intro registers.mv_rules)
  show ?thesis unfolding AbortSession_def Let_def
    by (intro registers.mv_rules registers.mv_getters registers.mv_with_runner regs.mv_abort_writes registers.handle_Update blocked events)
qed

section \<open>The loop\<close>

lemma registers_drive:
  assumes "drive sv hx px env sid L k out w = Some y" and "harmless_app hx" "harmless_planner px"
  shows "registers w (snd y)"
  using assms
proof (induction rule: drive.raw_induct[rotated, consumes 1])
  case (1 loop sv hx px env sid L k out w y)
  obtain t w1 where turn: "drive_turn sv hx px (fst (env k)) (snd (env k)) sid L out w = (t, w1)" by fastforce
  have first: "registers w w1"
    using registers.mv_turn(2)[OF 1(3,4), of sv "fst (env k)" "snd (env k)" sid L out] turn by (metis moves_def snd_conv)
  show ?case
  proof (cases t)
    case (Inr u)
    show ?thesis
    proof (cases u)
      case (Continue out')
      then have "loop sv hx px env sid L (Suc k) out' w1 = Some y" using 1(2) turn Inr by simp
      from registers.trans[OF first 1(1)[OF this 1(3,4)]] show ?thesis .
    qed (use 1(2) turn Inr first in auto)
  qed (use 1(2) turn first in auto)
qed

lemma registers_runSession: "runSession sv hx px env sid L w = Some (r, w') \<Longrightarrow> harmless_app hx \<Longrightarrow> harmless_planner px \<Longrightarrow> registers w w'"
  unfolding runSession_def using registers_drive by fastforce

lemma registers_recoverSession:
  assumes "recoverSession sv hx px env sid L w = Some (r, w')" and "harmless_app hx" "harmless_planner px"
  shows "registers w w'"
proof -
  obtain t w1 where start: "recover_start sv hx px sid L w = (t, w1)" by fastforce
  then have first: "registers w w1" using registers.mv_recover_start[OF assms(2,3), of sv sid L] by (metis moves_def snd_conv)
  show ?thesis
  proof (cases "\<exists>out. t = Inr (Continue out)")
    case True
    then obtain r' where "runSession sv hx px env sid L w1 = Some (r', w')" using assms(1) start by (auto simp: recoverSession_def split: option.splits sum.splits)
    from registers.trans[OF first registers_runSession[OF this assms(2,3)]] show ?thesis .
  qed (use assms(1) start first in \<open>auto simp: recoverSession_def split: sum.splits turn.splits\<close>)
qed

lemma registers_RecoverClaimedSession:
  assumes "RecoverClaimedSession sv hx px env sid L w = Some (r, w')" and "harmless_app hx" "harmless_planner px"
  shows "registers w w'"
proof -
  obtain c w1 where reads: "sbind nowMilli (\<lambda>_. scatch (getSessionRecord sv sid)) w = (c, w1)" by fastforce
  have "moves registers (sbind nowMilli (\<lambda>_. scatch (getSessionRecord sv sid)))" by (intro registers.mv_rules registers.mv_getters)
  then have first: "registers w w1" using reads by (metis moves_def snd_conv)
  have fin: "registers v (snd (nowMilli v))" for v using registers.mv_nowMilli by (simp add: moves_def)
  show ?thesis
  proof (cases c)
    case (Inr x)
    then obtain w2 where w2: "recoverSession sv hx px env sid L w1 = Some (r, w2)" "w' = w2 \<or> w' = snd (nowMilli w2)"
      using assms(1) reads by (auto simp: RecoverClaimedSession_def Let_def split: option.splits if_splits)
    from registers.trans[OF first registers_recoverSession[OF w2(1) assms(2,3)]] have "registers w w2" .
    with w2(2) registers.trans[OF _ fin] show ?thesis by blast
  qed (use assms(1) reads first in \<open>auto simp: RecoverClaimedSession_def\<close>)
qed

section \<open>The calls of a service\<close>

text \<open>
  One call of a client or a worker on any service over the stores, with any application and planner that
  leaves the stores alone, whatever the call returns.
\<close>

inductive service_call :: "world \<Rightarrow> world \<Rightarrow> bool" where
  claim: "service_call w (snd (claimSession sv mode ttl w))"
| renew: "service_call w (snd (RenewSessionLease sv sid L ttl w))"
| release: "service_call w (snd (ReleaseSessionLease sv sid L w))"
| answer: "service_call w (snd (RespondApproval sv aid response w))"
| abort: "service_call w (snd (AbortSession sv sid request w))"
| step: "harmless_app hx \<Longrightarrow> service_call w (snd (runStepWithDecision sv hx sid L s None None w))"
| resume: "harmless_app hx \<Longrightarrow> service_call w (snd (resumePendingApprovalWithLease sv hx sid L w))"
| plan: "harmless_planner px \<Longrightarrow> service_call w (snd (createDriverPlan sv hx px sid reason w))"
| drive: "harmless_app hx \<Longrightarrow> harmless_planner px \<Longrightarrow> RunClaimedSession sv hx px env sid L w = Some (r, w') \<Longrightarrow> service_call w w'"
| recover: "harmless_app hx \<Longrightarrow> harmless_planner px \<Longrightarrow> RecoverClaimedSession sv hx px env sid L w = Some (r, w') \<Longrightarrow> service_call w w'"

lemma service_call_registers: "service_call w w' \<Longrightarrow> registers w w'"
proof (induction rule: service_call.induct)
  case (drive hx px sv env sid L w r w')
  then show ?case unfolding RunClaimedSession_def by (blast intro: registers_runSession)
next
  case (recover hx px sv env sid L w r w')
  then show ?case by (blast intro: registers_RecoverClaimedSession)
qed (use registers_leases registers_RespondApproval registers_AbortSession registers.mv_run registers.mv_resume(1) registers.mv_driver_plan in \<open>auto simp: moves_def\<close>)

text \<open>
  C6. The runtime refines a store of versioned registers. Whatever sequence of calls clients and workers
  make on any services over the same stores (claims, renewals and releases of leases, answers, abortions,
  steps, resumptions, planning, driving and recovering sessions), and whatever fails on the way, the
  session store moves by steps of the abstract store only: each leaves it alone or writes one
  session and raises its version by one. So no session is ever lost, versions never fall, and a session
  whose version is unchanged is unchanged.
\<close>

theorem runtime_refines_registers:
  assumes "service_call\<^sup>*\<^sup>* w w'" and "session_wf (rp_Sessions (w_Repos w))"
  shows "session_steps (rp_Sessions (w_Repos w)) (rp_Sessions (w_Repos w'))
    \<and> (\<forall>sid c. gm_get (rp_Sessions (w_Repos w)) sid = Some c \<longrightarrow>
        (\<exists>c'. gm_get (rp_Sessions (w_Repos w')) sid = Some c' \<and> st_Version c \<le> st_Version c' \<and> (st_Version c' = st_Version c \<longrightarrow> c' = c)))"
proof -
  have "registers w w'" using assms(1)
    by (induction rule: rtranclp_induct) (blast intro: registers.refl registers.trans service_call_registers)+
  then have steps: "session_steps (rp_Sessions (w_Repos w)) (rp_Sessions (w_Repos w'))" using assms(2) by (simp add: registers_def)
  with session_steps_version[OF steps] show ?thesis by blast
qed

theorem runtime_refines_registers_witness:
  "\<exists>c'. gm_get (rp_Sessions (w_Repos (snd (RespondApproval ex_service ''a'' \<lparr>rs_Reply = ReplyOnce, rs_Metadata = None\<rparr>
       (snd (runStepWithDecision ex_service (ex_app Ask) ''s1'' [] ex_step None None (snd (claimSession ex_service ClaimModeRunnable 2000000000 ex_run_world)))))))) ''s1'' = Some c'
     \<and> 1 \<le> st_Version c'"
proof -
  let ?w1 = "snd (claimSession ex_service ClaimModeRunnable 2000000000 ex_run_world)"
  let ?w2 = "snd (runStepWithDecision ex_service (ex_app Ask) ''s1'' [] ex_step None None ?w1)"
  let ?w3 = "snd (RespondApproval ex_service ''a'' \<lparr>rs_Reply = ReplyOnce, rs_Metadata = None\<rparr> ?w2)"
  have "service_call\<^sup>*\<^sup>* ex_run_world ?w3"
    using service_call.claim[of ex_run_world ex_service] service_call.step[OF harmless_ex_app, of ?w1 ex_service] service_call.answer[of ?w2 ex_service]
    by (meson rtranclp.rtrancl_refl rtranclp.rtrancl_into_rtrancl)
  moreover have "session_wf (rp_Sessions (w_Repos ex_run_world))" by code_simp
  ultimately have all: "\<forall>sid c. gm_get (rp_Sessions (w_Repos ex_run_world)) sid = Some c \<longrightarrow>
      (\<exists>c'. gm_get (rp_Sessions (w_Repos ?w3)) sid = Some c' \<and> st_Version c \<le> st_Version c' \<and> (st_Version c' = st_Version c \<longrightarrow> c' = c))"
    using runtime_refines_registers by blast
  have "map_option st_Version (gm_get (rp_Sessions (w_Repos ex_run_world)) ''s1'') = Some 1" by code_simp
  then obtain c where "gm_get (rp_Sessions (w_Repos ex_run_world)) ''s1'' = Some c" "st_Version c = 1" by auto
  with all show ?thesis by metis
qed

end
