(* ===== verification/Worker.thy ===== *)
theory Worker
  imports Driver_Refines
begin

text \<open>
  The worker helper: \<^verbatim>\<open>pkg/harness/worker\<close>. It claims a session, runs or recovers it while a goroutine
  renews the lease, and releases it; its loop repeats this and backs off. The runtime it is given is an
  interface and a record of operations here; what a run and the renewals beside it do together is a
  parameter, for any interleaving of the two. A duration is an \<open>int\<close> of nanoseconds.
\<close>

section \<open>Workers\<close>

record worker_runtime =
  wr_ClaimRunnableSession :: "int \<Rightarrow> session option svc"
  wr_ClaimRecoverableSession :: "int \<Rightarrow> session option svc"
  wr_ReleaseSessionLease :: "string \<Rightarrow> string \<Rightarrow> session svc"

record worker =
  wk_Name :: string
  wk_LeaseTTL :: int
  wk_RenewInterval :: int
  wk_ClaimModes :: "ClaimMode list"

record worker_result =
  wo_WorkerName :: string
  wo_NoWork :: bool
  wo_Mode :: "ClaimMode option"
  wo_Claimed :: session
  wo_Run :: run_output
  wo_Released :: session
  wo_RenewalCount :: nat
  wo_ApprovalPending :: bool

text \<open>The runtime of the options may be nil.\<close>

definition worker_New :: "bool \<Rightarrow> worker \<Rightarrow> goerr + worker" where
  "worker_New hasRuntime opts =
     (if \<not> hasRuntime then Inl ErrMissingRuntime
      else if wk_LeaseTTL opts \<le> 0 then Inl (ErrOther ''worker: lease ttl must be positive'')
      else let ttl = wk_LeaseTTL opts;
               renew = (if wk_RenewInterval opts \<le> 0 then (if ttl div 2 \<le> 0 then ttl else ttl div 2) else wk_RenewInterval opts);
               modes = (if wk_ClaimModes opts = [] then [ClaimModeRunnable, ClaimModeRecoverable] else wk_ClaimModes opts)
           in Inr (opts\<lparr>wk_RenewInterval := renew, wk_ClaimModes := modes\<rparr>))"

section \<open>One round\<close>

fun worker_claim :: "worker_runtime \<Rightarrow> int \<Rightarrow> ClaimMode list \<Rightarrow> (session \<times> ClaimMode) option svc" where
  "worker_claim rt ttl [] = sret None"
| "worker_claim rt ttl (mode # modes) =
     (case mode of
        ClaimModeRunnable \<Rightarrow> sbind (wr_ClaimRunnableSession rt ttl) (\<lambda>r. case r of Some st \<Rightarrow> sret (Some (st, mode)) | None \<Rightarrow> worker_claim rt ttl modes)
      | ClaimModeRecoverable \<Rightarrow> sbind (wr_ClaimRecoverableSession rt ttl) (\<lambda>r. case r of Some st \<Rightarrow> sret (Some (st, mode)) | None \<Rightarrow> worker_claim rt ttl modes)
      | _ \<Rightarrow> worker_claim rt ttl modes)"

text \<open>What the run returned, how many renewals succeeded, and the error of the one that failed.\<close>

type_synonym episode = "ClaimMode \<Rightarrow> string \<Rightarrow> string \<Rightarrow> world \<Rightarrow> ((goerr + run_output) \<times> nat \<times> goerr option \<times> world) option"

abbreviation ContextCanceled :: goerr where "ContextCanceled \<equiv> ErrOther ''context canceled''"
abbreviation ContextDeadlineExceeded :: goerr where "ContextDeadlineExceeded \<equiv> ErrOther ''context deadline exceeded''"

definition run_error :: "goerr option \<Rightarrow> goerr option \<Rightarrow> goerr option" where
  "run_error runErr renewErr = (case renewErr of
     None \<Rightarrow> runErr
   | Some _ \<Rightarrow> (case runErr of
       None \<Rightarrow> renewErr
     | Some e \<Rightarrow> if errors_is e ContextCanceled \<or> errors_is e ContextDeadlineExceeded then renewErr else runErr))"

definition round_error :: "goerr option \<Rightarrow> goerr option \<Rightarrow> goerr option" where
  "round_error runErr relErr = (case (runErr, relErr) of
     (Some e, Some _) \<Rightarrow> Some (ErrWrap ''run error; release error'' e)
   | (Some e, None) \<Rightarrow> Some e
   | (None, e) \<Rightarrow> e)"

definition inl_option :: "'a + 'b \<Rightarrow> 'a option" where
  "inl_option r = (case r of Inl e \<Rightarrow> Some e | Inr _ \<Rightarrow> None)"

definition idle_result :: "string \<Rightarrow> worker_result" where
  "idle_result n = \<lparr>wo_WorkerName = n, wo_NoWork = False, wo_Mode = None, wo_Claimed = zero_session, wo_Run = empty_output,
     wo_Released = zero_session, wo_RenewalCount = 0, wo_ApprovalPending = False\<rparr>"

definition RunOnce :: "worker \<Rightarrow> worker_runtime \<Rightarrow> episode \<Rightarrow> world \<Rightarrow> ((worker_result \<times> goerr option) \<times> world) option" where
  "RunOnce wk rt episode w =
     (let res = idle_result (wk_Name wk) in
      case worker_claim rt (wk_LeaseTTL wk) (wk_ClaimModes wk) w of
        (Inl e, w1) \<Rightarrow> Some ((res, Some e), w1)
      | (Inr None, w1) \<Rightarrow> Some ((res\<lparr>wo_NoWork := True\<rparr>, None), w1)
      | (Inr (Some (claimed, mode)), w1) \<Rightarrow>
          if st_SessionID claimed = [] then Some ((res\<lparr>wo_NoWork := True\<rparr>, None), w1)
          else (case episode mode (st_SessionID claimed) (st_LeaseID claimed) w1 of
            None \<Rightarrow> None
          | Some (r, renewals, renewErr, w2) \<Rightarrow>
              let runErr = run_error (inl_option r) renewErr;
                  out = (case r of Inr out \<Rightarrow> out | Inl _ \<Rightarrow> empty_output)
              in case wr_ReleaseSessionLease rt (st_SessionID claimed) (st_LeaseID claimed) w2 of
                (rel, w3) \<Rightarrow>
                  Some ((res\<lparr>wo_Claimed := claimed, wo_Mode := Some mode, wo_Run := out, wo_RenewalCount := renewals,
                           wo_ApprovalPending := (st_PendingApprovalID (ro_Session out) \<noteq> []),
                           wo_Released := (case rel of Inr st \<Rightarrow> st | Inl _ \<Rightarrow> zero_session)\<rparr>,
                         round_error runErr (inl_option rel)), w3)))"

section \<open>The loop\<close>

text \<open>
  A backoff factor: \<open>None\<close> for one that is not above 1, and else what
  \<^verbatim>\<open>time.Duration(math.Ceil(float64(current) * factor))\<close> makes of a wait, in floating point.
\<close>

type_synonym factor = "(int \<Rightarrow> int) option"

record loop_options =
  lo_IdleWait :: int
  lo_MaxIdleWait :: int
  lo_IdleBackoffFactor :: factor
  lo_ErrorWait :: int
  lo_MaxErrorWait :: int
  lo_ErrorBackoffFactor :: factor

definition backoffWait :: "int \<Rightarrow> int \<Rightarrow> factor \<Rightarrow> int" where
  "backoffWait current limit factor =
     (if current \<le> 0 then 0
      else if 0 < limit \<and> limit \<le> current then limit
      else case factor of
        None \<Rightarrow> current
      | Some scaled \<Rightarrow>
          let n = (if scaled current < current then current else scaled current)
          in if 0 < limit \<and> limit < n then limit else n)"

definition loop_defaults :: "loop_options \<Rightarrow> loop_options" where
  "loop_defaults o' =
     (let idle = (if lo_IdleWait o' \<le> 0 then 250000000 else lo_IdleWait o');
          err = (if lo_ErrorWait o' \<le> 0 then 1000000000 else lo_ErrorWait o')
      in o'\<lparr>lo_IdleWait := idle, lo_MaxIdleWait := (if lo_MaxIdleWait o' < idle then idle else lo_MaxIdleWait o'),
            lo_ErrorWait := err, lo_MaxErrorWait := (if lo_MaxErrorWait o' < err then err else lo_MaxErrorWait o')\<rparr>)"

text \<open>The next waits, idle and after an error; how long to wait now; and the waits after that.\<close>

definition loop_wait :: "loop_options \<Rightarrow> int \<times> int \<Rightarrow> worker_result \<times> goerr option \<Rightarrow> int \<times> int \<times> int" where
  "loop_wait opts waits x = (case (waits, x) of ((nextIdle, nextError), (res, err)) \<Rightarrow>
     if err \<noteq> None then (nextError, lo_IdleWait opts, backoffWait nextError (lo_MaxErrorWait opts) (lo_ErrorBackoffFactor opts))
     else if wo_NoWork res then (nextIdle, backoffWait nextIdle (lo_MaxIdleWait opts) (lo_IdleBackoffFactor opts), lo_ErrorWait opts)
     else (0, lo_IdleWait opts, lo_ErrorWait opts))"

text \<open>
  The loop: \<open>stop\<close> is the callback, \<open>sleep\<close> the error of the context if it ends during a wait, and
  the episodes are those of the rounds. Observing an iteration has no effect on it.
\<close>

partial_function (option) run_loop :: "worker \<Rightarrow> worker_runtime \<Rightarrow> (nat \<Rightarrow> episode) \<Rightarrow> (worker_result \<Rightarrow> goerr option \<Rightarrow> bool) option
    \<Rightarrow> (nat \<Rightarrow> int \<Rightarrow> goerr option) \<Rightarrow> loop_options \<Rightarrow> nat \<Rightarrow> int \<times> int \<Rightarrow> world \<Rightarrow> (goerr option \<times> world) option" where
  "run_loop wk rt episodes stop sleep opts k waits w =
     (case RunOnce wk rt (episodes k) w of
        None \<Rightarrow> None
      | Some ((res, err), w') \<Rightarrow>
          (case loop_wait opts waits (res, err) of (waitFor, waits') \<Rightarrow>
             if (case stop of None \<Rightarrow> False | Some f \<Rightarrow> f res err) then Some (err, w')
             else if err \<noteq> None \<or> wo_NoWork res
             then (case sleep k waitFor of
                 Some e \<Rightarrow> Some (Some e, w')
               | None \<Rightarrow> run_loop wk rt episodes stop sleep opts (Suc k) waits' w')
             else run_loop wk rt episodes stop sleep opts (Suc k) waits' w'))"

definition RunLoop :: "worker \<Rightarrow> worker_runtime \<Rightarrow> (nat \<Rightarrow> episode) \<Rightarrow> (worker_result \<Rightarrow> goerr option \<Rightarrow> bool) option
    \<Rightarrow> (nat \<Rightarrow> int \<Rightarrow> goerr option) \<Rightarrow> loop_options \<Rightarrow> world \<Rightarrow> (goerr option \<times> world) option" where
  "RunLoop wk rt episodes stop sleep opts w =
     (let opts = loop_defaults opts
      in run_loop wk rt episodes stop sleep opts 0 (lo_IdleWait opts, lo_ErrorWait opts) w)"

definition releaseCleanupTimeout :: "worker \<Rightarrow> int" where
  "releaseCleanupTimeout wk = (if wk_LeaseTTL wk \<le> 0 \<or> 5000000000 < wk_LeaseTTL wk then 5000000000 else wk_LeaseTTL wk)"

section \<open>The service as the runtime of a worker\<close>

definition service_runtime :: "service \<Rightarrow> worker_runtime" where
  "service_runtime sv = \<lparr>wr_ClaimRunnableSession = ClaimRunnableSession sv, wr_ClaimRecoverableSession = ClaimRecoverableSession sv,
     wr_ReleaseSessionLease = ReleaseSessionLease sv\<rparr>"

text \<open>The goroutine on its next ticks: it renews until a renewal fails.\<close>

fun renew_loop :: "service \<Rightarrow> int \<Rightarrow> string \<Rightarrow> string \<Rightarrow> nat \<Rightarrow> world \<Rightarrow> nat \<times> goerr option \<times> world" where
  "renew_loop sv ttl sid leaseID 0 w = (0, None, w)"
| "renew_loop sv ttl sid leaseID (Suc n) w = (case RenewSessionLease sv sid leaseID ttl w of
     (Inl e, w') \<Rightarrow> (0, Some e, w')
   | (Inr _, w') \<Rightarrow> (case renew_loop sv ttl sid leaseID n w' of (c, e, w'') \<Rightarrow> (Suc c, e, w'')))"

text \<open>An episode of the service: some ticks come before the run, the others after it.\<close>

definition service_episode :: "service \<Rightarrow> app \<Rightarrow> planner_app \<Rightarrow> schedules \<Rightarrow> int \<Rightarrow> nat \<Rightarrow> nat \<Rightarrow> episode" where
  "service_episode sv hx px env ttl before after mode sid leaseID w =
     (case renew_loop sv ttl sid leaseID before w of (c1, e1, w1) \<Rightarrow>
      case (if mode = ClaimModeRecoverable then RecoverClaimedSession sv hx px env sid leaseID w1 else RunClaimedSession sv hx px env sid leaseID w1) of
        None \<Rightarrow> None
      | Some (r, w2) \<Rightarrow>
          if e1 \<noteq> None then Some (r, c1, e1, w2)
          else (case renew_loop sv ttl sid leaseID after w2 of (c2, e2, w3) \<Rightarrow> Some (r, c1 + c2, e2, w3)))"

section \<open>A worker's round\<close>

text \<open>
  What a worker relies on: the calls of its runtime and the episodes it has (\<open>good\<close>) move the world along
  \<open>reach\<close>, and a successful release leaves the session \<open>free\<close>.
\<close>

locale worker_provider =
  fixes rt :: worker_runtime and good :: "episode \<Rightarrow> bool" and reach :: "world \<Rightarrow> world \<Rightarrow> bool" and free :: "session \<Rightarrow> string \<Rightarrow> world \<Rightarrow> bool"
  assumes refl: "reach w w" and trans: "reach a b \<Longrightarrow> reach b c \<Longrightarrow> reach a c"
    and claims: "reach w (snd (wr_ClaimRunnableSession rt ttl w))" "reach w (snd (wr_ClaimRecoverableSession rt ttl w))"
    and episodes: "good episode \<Longrightarrow> episode mode sid L w = Some (r, n, e, w') \<Longrightarrow> reach w w'"
    and releases: "reach w (snd (wr_ReleaseSessionLease rt sid L w))"
    and frees: "wr_ReleaseSessionLease rt sid L w = (Inr st, w') \<Longrightarrow> free st sid w'"
begin

lemma claim_reach: "reach w (snd (worker_claim rt ttl modes w))"
proof (induction modes arbitrary: w)
  case (Cons mode modes)
  have "reach w (snd (sbind m (\<lambda>r. case r of Some st \<Rightarrow> sret (Some (st, mode)) | None \<Rightarrow> worker_claim rt ttl modes) w))"
    if "reach w (snd (m w))" for m :: "session option svc"
    using that Cons[of "snd (m w)"] trans by (auto simp: svc_apply split: prod.split sum.split option.split)
  with Cons claims show ?case by (auto split: ClaimMode.split)
qed (simp add: svc_apply refl)

lemma round_reach:
  assumes "good episode" and "RunOnce wk rt episode w = Some (x, w')"
  shows "reach w w'"
proof -
  obtain c w1 where claim: "worker_claim rt (wk_LeaseTTL wk) (wk_ClaimModes wk) w = (c, w1)" by fastforce
  then have first: "reach w w1" using claim_reach by (metis snd_conv)
  show ?thesis
  proof (cases "\<exists>s mode. c = Inr (Some (s, mode)) \<and> st_SessionID s \<noteq> []")
    case True
    then obtain s mode where "c = Inr (Some (s, mode))" "st_SessionID s \<noteq> []" by blast
    then have "\<exists>r n e w2 rel. episode mode (st_SessionID s) (st_LeaseID s) w1 = Some (r, n, e, w2)
      \<and> wr_ReleaseSessionLease rt (st_SessionID s) (st_LeaseID s) w2 = (rel, w')"
      using assms(2) claim by (auto simp: RunOnce_def Let_def split: option.splits prod.splits)
    then show ?thesis using first episodes[OF assms(1)] releases trans by (metis snd_conv)
  qed (use assms(2) claim first in \<open>auto simp: RunOnce_def Let_def split: option.splits sum.splits prod.splits if_splits\<close>)
qed

lemma round_frees:
  assumes "RunOnce wk rt episode w = Some ((res, None), w')" and "\<not> wo_NoWork res"
  shows "free (wo_Released res) (st_SessionID (wo_Claimed res)) w'"
  using assms frees
  by (auto simp: RunOnce_def Let_def round_error_def inl_option_def idle_result_def split: option.splits sum.splits prod.splits if_splits)

end

text \<open>The service provides this: a released session is stored without a lease.\<close>

lemma sbind_assoc: "sbind (sbind m f) g = sbind m (\<lambda>x. sbind (f x) g)"
  by (simp add: fun_eq_iff svc_apply split: prod.split sum.split)

lemma ReleaseSessionLease_frees:
  assumes "ReleaseSessionLease sv sid L w = (Inr st, w')"
  shows "session_Get sid (rp_Sessions (w_Repos w')) = Inr st \<and> st_LeaseID st = [] \<and> st_LeaseExpiresAt st = 0"
proof -
  define now where "now = w_Clock w (Suc (w_Reads w))"
  let ?w = "w\<lparr>w_Reads := Suc (Suc (w_Reads w))\<rparr>"
  define event where "event = (\<lambda>u :: session. sbind nowMilli (\<lambda>t. newAuditEventAt t ''lease.released'' sid (st_TaskID u) (st_InFlightStepID u)
     [(''lease_id'', VStr L), (''released_at'', VInt64 now), (''lease_claimed_at'', VInt64 (st_LeaseClaimedAt u)),
      (''lease_expires_at'', VInt64 (st_LeaseExpiresAt u))]))"
  define body where "body = (\<lambda>(_ :: bool) (emit :: audit_event list \<Rightarrow> unit svc).
     sbind (sexec (\<lambda>r. case session_ReleaseLease sid L now (rp_Sessions r) of Inl e \<Rightarrow> Inl e | Inr (u, m) \<Rightarrow> Inr (u, r\<lparr>rp_Sessions := m\<rparr>)))
       (\<lambda>u. sbind (event u) (\<lambda>ev. sbind (emit [ev]) (\<lambda>_. sret u))))"
  have "sbind (with_runner sv body) (\<lambda>res. sbind nowMilli (\<lambda>_. sret res)) ?w = (Inr st, w')"
    using assms by (simp add: ReleaseSessionLease_def body_def event_def now_def sbind_assoc) (simp add: svc_apply)
  then obtain x w1 where "with_runner sv body ?w = (Inr x, w1)" "sbind nowMilli (\<lambda>_. sret x) w1 = (Inr st, w')" by (rule sbind_Inr)
  then have w1: "with_runner sv body ?w = (Inr st, w1)" and w': "w_Repos w' = w_Repos w1" by (auto simp: svc_apply)
  from with_runner_succeeds[OF w1] obtain b emit where g: "good_emit emit" and run: "body b emit ?w = (Inr st, w1)" .
  then obtain u m where rel: "session_ReleaseLease sid L now (rp_Sessions (w_Repos w)) = Inr (u, m)"
    by (auto simp: body_def svc_apply split: sum.splits)
  obtain ev n d where "event u (?w\<lparr>w_Repos := (w_Repos w)\<lparr>rp_Sessions := m\<rparr>\<rparr>) = (Inr ev, ?w\<lparr>w_Repos := (w_Repos w)\<lparr>rp_Sessions := m\<rparr>, w_Reads := n, w_Drawn := d\<rparr>)"
    by (simp add: event_def newAuditEventAt_def svc_apply)
  then obtain w2 where "emit [ev] (?w\<lparr>w_Repos := (w_Repos w)\<lparr>rp_Sessions := m\<rparr>, w_Reads := n, w_Drawn := d\<rparr>) = (Inr (), w2)" "st = u" "w1 = w2"
    using run rel by (auto simp: body_def svc_apply split: prod.splits sum.splits)
  with good_emitD[OF g this(1)] w' have "st = u" "rp_Sessions (w_Repos w') = m" by simp_all
  moreover have "session_Get sid m = Inr u \<and> st_LeaseID u = [] \<and> st_LeaseExpiresAt u = 0"
    using rel by (auto simp: session_ReleaseLease_def session_Get_def mem_get_def Let_def split: option.splits if_splits)
  ultimately show ?thesis by simp
qed

lemma calls_reach: "service_call\<^sup>*\<^sup>* w (snd (ClaimRunnableSession sv ttl w))" "service_call\<^sup>*\<^sup>* w (snd (ClaimRecoverableSession sv ttl w))"
  "service_call\<^sup>*\<^sup>* w (snd (ReleaseSessionLease sv sid L w))" "service_call\<^sup>*\<^sup>* w (snd (RenewSessionLease sv sid L ttl w))"
  by (auto simp: ClaimRunnableSession_def ClaimRecoverableSession_def intro: service_call.intros)

lemma renew_loop_reach: "renew_loop sv ttl sid L n w = (c, e, w') \<Longrightarrow> service_call\<^sup>*\<^sup>* w w'"
proof (induction n arbitrary: w c)
  case (Suc n)
  obtain r w1 where r: "RenewSessionLease sv sid L ttl w = (r, w1)" by fastforce
  then have first: "service_call\<^sup>*\<^sup>* w w1" using calls_reach(4) by (metis snd_conv)
  show ?case
  proof (cases r)
    case (Inr st)
    then obtain c' where "renew_loop sv ttl sid L n w1 = (c', e, w')" using Suc.prems r by (auto split: prod.splits)
    from rtranclp_trans[OF first Suc.IH[OF this]] show ?thesis .
  qed (use Suc.prems r first in auto)
qed simp

lemma episode_reach:
  assumes "service_episode sv hx px env ttl before after mode sid L w = Some (r, n, e, w')" and app: "harmless_app hx" "harmless_planner px"
  shows "service_call\<^sup>*\<^sup>* w w'"
proof -
  obtain c1 e1 w1 where ticks: "renew_loop sv ttl sid L before w = (c1, e1, w1)" by (metis prod_cases3)
  obtain r2 w2 where run: "(if mode = ClaimModeRecoverable then RecoverClaimedSession sv hx px env sid L w1 else RunClaimedSession sv hx px env sid L w1) = Some (r2, w2)"
    using assms(1) ticks by (auto simp: service_episode_def split: option.splits)
  then have "service_call w1 w2" using service_call.drive[OF app] service_call.recover[OF app] by (auto split: if_splits)
  with renew_loop_reach[OF ticks] have two: "service_call\<^sup>*\<^sup>* w w2" by (rule rtranclp.rtrancl_into_rtrancl)
  show ?thesis
  proof (cases e1)
    case None
    obtain c2 e2 w3 where more: "renew_loop sv ttl sid L after w2 = (c2, e2, w3)" by (metis prod_cases3)
    then have "w' = w3" using assms(1) None unfolding service_episode_def ticks prod.case run by simp
    with rtranclp_trans[OF two renew_loop_reach[OF more]] show ?thesis by simp
  next
    case (Some x)
    then have "w' = w2" using assms(1) unfolding service_episode_def ticks prod.case run by simp
    with two show ?thesis by simp
  qed
qed

definition released :: "session \<Rightarrow> string \<Rightarrow> world \<Rightarrow> bool" where
  "released st sid w \<longleftrightarrow> session_Get sid (rp_Sessions (w_Repos w)) = Inr st \<and> st_LeaseID st = [] \<and> st_LeaseExpiresAt st = 0"

text \<open>The episodes of the service, with applications and planners that leave the stores alone.\<close>

definition service_episodes :: "service \<Rightarrow> episode \<Rightarrow> bool" where
  "service_episodes sv episode \<longleftrightarrow>
     (\<exists>hx px env ttl before after. harmless_app hx \<and> harmless_planner px \<and> episode = service_episode sv hx px env ttl before after)"

interpretation served: worker_provider "service_runtime sv" "service_episodes sv" "service_call\<^sup>*\<^sup>*" released for sv
  by unfold_locales (auto simp: service_runtime_def service_episodes_def released_def dest: ReleaseSessionLease_frees intro: calls_reach episode_reach)

subsection \<open>Rounds return\<close>

lemma ticks_wf: "(session_wf (rp_Sessions (w_Repos w)) \<Longrightarrow> session_step (rp_Sessions (w_Repos w)) m) \<Longrightarrow> ticks w (w\<lparr>w_Repos := (w_Repos w)\<lparr>rp_Sessions := m\<rparr>\<rparr>)"
  using session_step_wf by (auto simp: ticks_def)

lemma ticks_leases:
  "moves ticks (claimSession sv mode ttl)" "moves ticks (RenewSessionLease sv sid L ttl)" "moves ticks (ReleaseSessionLease sv sid L)"
  unfolding claimSession_def RenewSessionLease_def ReleaseSessionLease_def newAuditEventAt_def Let_def
  by (intro clock.mv_rules clock.mv_with_runner clock.mv_sexec; auto split: sum.splits prod.splits intro!: ticks_wf intro: lease_steps)+

lemma claim_ticks: "ticks w (snd (worker_claim (service_runtime sv) ttl modes w))"
proof -
  have "moves ticks (worker_claim (service_runtime sv) ttl modes)"
    by (induction modes) (auto simp: service_runtime_def ClaimRunnableSession_def ClaimRecoverableSession_def split: ClaimMode.split
        intro!: clock.mv_sret clock.mv_bind clock.mv_option ticks_leases)
  then show ?thesis by (simp add: moves_def)
qed

lemma renew_loop_ticks: "renew_loop sv ttl sid L n w = (c, e, w') \<Longrightarrow> ticks w w'"
proof (induction n arbitrary: w c)
  case (Suc n)
  obtain r w1 where r: "RenewSessionLease sv sid L ttl w = (r, w1)" by fastforce
  then have first: "ticks w w1" using ticks_leases(2)[of sv sid L ttl] by (metis moves_def snd_conv)
  show ?case
  proof (cases r)
    case (Inr st)
    then obtain c' where "renew_loop sv ttl sid L n w1 = (c', e, w')" using Suc.prems r by (auto split: prod.splits)
    from clock.trans[OF first Suc.IH[OF this]] show ?thesis .
  qed (use Suc.prems r first in auto)
qed (simp add: clock.refl)

text \<open>The worlds in which the driver ends, now and later.\<close>

definition unbounded :: "world \<Rightarrow> bool" where
  "unbounded w \<longleftrightarrow> fine w \<and> (\<forall>b. \<exists>n. \<forall>i\<ge>n. b < w_Clock w i)"

lemma unbounded_ticks: "unbounded w \<Longrightarrow> ticks w w' \<Longrightarrow> unbounded w'"
  using fine_ticks by (auto simp: unbounded_def ticks_def)

lemma episodes_return:
  assumes "harmless_app hx" "harmless_planner px" "sv_Budgets sv = with_default_budgets b" and w: "unbounded w"
  shows "\<exists>x. service_episode sv hx px env ttl before after mode sid L w = Some x"
proof -
  obtain c1 e1 w1 where ticks: "renew_loop sv ttl sid L before w = (c1, e1, w1)" by (metis prod_cases3)
  from unbounded_ticks[OF w renew_loop_ticks[OF ticks]] have w1: "unbounded w1" .
  have run: "\<exists>r. RunClaimedSession sv hx px env sid L w1 = Some r"
    unfolding RunClaimedSession_def by (rule runs_end[OF assms(1-3)]) (use w1 in \<open>auto simp: unbounded_def\<close>)
  have recover: "\<exists>r. RecoverClaimedSession sv hx px env sid L w1 = Some r"
  proof -
    obtain c v where v: "sbind nowMilli (\<lambda>_. scatch (getSessionRecord sv sid)) w1 = (c, v)" by fastforce
    have "moves ticks (sbind nowMilli (\<lambda>_. scatch (getSessionRecord sv sid)))" by (intro clock.mv_rules clock.mv_getters)
    then have "unbounded v" using unbounded_ticks[OF w1] v by (metis moves_def snd_conv)
    then have "\<exists>r. recoverSession sv hx px env sid L v = Some r"
      by (intro recoveries_end[OF assms(1-3)]) (auto simp: unbounded_def)
    then show ?thesis using v by (auto simp: RecoverClaimedSession_def Let_def split: sum.split)
  qed
  show ?thesis using run recover ticks unfolding service_episode_def by (auto split: option.split prod.split)
qed

section \<open>Properties\<close>


definition ex_worker :: worker where
  "ex_worker = \<lparr>wk_Name = ''w'', wk_LeaseTTL = 2000000000, wk_RenewInterval = 1000000000, wk_ClaimModes = [ClaimModeRunnable, ClaimModeRecoverable]\<rparr>"


lemma backoff_bounds: "0 < current \<Longrightarrow> current \<le> limit \<Longrightarrow> current \<le> backoffWait current limit f \<and> backoffWait current limit f \<le> limit"
  by (auto simp: backoffWait_def Let_def split: option.split)

definition waits_after :: "loop_options \<Rightarrow> (worker_result \<times> goerr option) list \<Rightarrow> int \<times> int" where
  "waits_after opts rounds = foldl (\<lambda>waits x. snd (loop_wait opts waits x)) (lo_IdleWait opts, lo_ErrorWait opts) rounds"

lemma waits_after_bounds:
  "lo_IdleWait (loop_defaults opts) \<le> fst (waits_after (loop_defaults opts) rounds) \<and> fst (waits_after (loop_defaults opts) rounds) \<le> lo_MaxIdleWait (loop_defaults opts)
   \<and> lo_ErrorWait (loop_defaults opts) \<le> snd (waits_after (loop_defaults opts) rounds) \<and> snd (waits_after (loop_defaults opts) rounds) \<le> lo_MaxErrorWait (loop_defaults opts)"
proof (induction rounds rule: rev_induct)
  case (snoc x rounds)
  have "0 < lo_IdleWait (loop_defaults opts)" "0 < lo_ErrorWait (loop_defaults opts)"
    "lo_IdleWait (loop_defaults opts) \<le> lo_MaxIdleWait (loop_defaults opts)" "lo_ErrorWait (loop_defaults opts) \<le> lo_MaxErrorWait (loop_defaults opts)"
    by (simp_all add: loop_defaults_def Let_def)
  moreover obtain i e where "waits_after (loop_defaults opts) rounds = (i, e)" by fastforce
  moreover obtain res err where "x = (res, err)" by fastforce
  ultimately show ?case
    using snoc backoff_bounds[of i "lo_MaxIdleWait (loop_defaults opts)" "lo_IdleBackoffFactor (loop_defaults opts)"]
      backoff_bounds[of e "lo_MaxErrorWait (loop_defaults opts)" "lo_ErrorBackoffFactor (loop_defaults opts)"]
    by (auto simp: waits_after_def loop_wait_def split: if_splits)
qed (simp add: waits_after_def loop_defaults_def Let_def)

text \<open>
  The waits of a worker's loop stay within their bounds. After any rounds, with any options and
  whatever the floating-point product of a wait and the backoff factor is, a failed round is followed by a
  wait between the error wait and its maximum, an idle one by a wait between the idle wait and its
  maximum, and a round with work by none, and then the waits start again from the beginning.
\<close>

theorem loop_waits_bounded:
  "case loop_wait (loop_defaults opts) (waits_after (loop_defaults opts) rounds) (res, err) of (waitFor, waits) \<Rightarrow>
     if err \<noteq> None then lo_ErrorWait (loop_defaults opts) \<le> waitFor \<and> waitFor \<le> lo_MaxErrorWait (loop_defaults opts) \<and> waitFor \<le> snd waits
     else if wo_NoWork res then lo_IdleWait (loop_defaults opts) \<le> waitFor \<and> waitFor \<le> lo_MaxIdleWait (loop_defaults opts) \<and> waitFor \<le> fst waits
     else waitFor = 0 \<and> waits = (lo_IdleWait (loop_defaults opts), lo_ErrorWait (loop_defaults opts))"
proof -
  let ?o = "loop_defaults opts"
  obtain i e where w: "waits_after ?o rounds = (i, e)" by fastforce
  have "0 < lo_IdleWait ?o" "0 < lo_ErrorWait ?o" by (simp_all add: loop_defaults_def Let_def)
  with waits_after_bounds[of opts rounds] w have "0 < i" "0 < e" "lo_IdleWait ?o \<le> i" "i \<le> lo_MaxIdleWait ?o" "lo_ErrorWait ?o \<le> e" "e \<le> lo_MaxErrorWait ?o" by auto
  with backoff_bounds[of i "lo_MaxIdleWait ?o" "lo_IdleBackoffFactor ?o"] backoff_bounds[of e "lo_MaxErrorWait ?o" "lo_ErrorBackoffFactor ?o"] w
  show ?thesis by (auto simp: loop_wait_def)
qed

end
