(* ===== verification/Service_Reads.thy ===== *)
theory Service_Reads
  imports Abort
begin

text \<open>
  What the service reads and projects: the rest of \<^verbatim>\<open>pkg/harness/runtime\<close> service_reads.go,
  execution_cycle_reads.go, blocked_runtime_projection.go and the related events of lifecycle.go. The
  repositories of the service are all configured, so the branches for nil stores do not occur.
\<close>

section \<open>Records\<close>

definition listTaskRecords :: "service \<Rightarrow> task list svc" where
  "listTaskRecords sv = readRepositories sv (\<lambda>r. Inr (task_List (rp_Tasks r)))"

definition listPlanRecords :: "service \<Rightarrow> string \<Rightarrow> plan list svc" where
  "listPlanRecords sv sid = sbind (readRepositories sv (\<lambda>r. Inr (plan_ListBySession sid (rp_Plans r)))) (\<lambda>out. sret (map annotatePlanIdentity out))"

definition listAttemptRecords :: "service \<Rightarrow> string \<Rightarrow> attempt list svc" where
  "listAttemptRecords sv sid = readRepositories sv (\<lambda>r. Inr (attempt_List sid (rp_Attempts r)))"

definition listVerificationRecords :: "service \<Rightarrow> string \<Rightarrow> verification_record list svc" where
  "listVerificationRecords sv sid = readRepositories sv (\<lambda>r. Inr (verification_List sid (rp_Verifications r)))"

definition getRuntimeHandleRecord :: "service \<Rightarrow> string \<Rightarrow> runtime_handle svc" where
  "getRuntimeHandleRecord sv hid = readRepositories sv (\<lambda>r. handle_Get hid (rp_RuntimeHandles r))"

definition listRuntimeHandleRecords :: "service \<Rightarrow> string \<Rightarrow> runtime_handle list svc" where
  "listRuntimeHandleRecords sv sid = readRepositories sv (\<lambda>r. Inr (handle_List sid (rp_RuntimeHandles r)))"

definition getPlanningRecord :: "service \<Rightarrow> string \<Rightarrow> planning_record svc" where
  "getPlanningRecord sv pid = readRepositories sv (\<lambda>r. planning_Get pid (rp_PlanningRecords r))"

definition listPlanningRecords :: "service \<Rightarrow> string \<Rightarrow> planning_record list svc" where
  "listPlanningRecords sv sid = readRepositories sv (\<lambda>r. Inr (planning_List sid (rp_PlanningRecords r)))"

definition listAuditStoreEvents :: "service \<Rightarrow> string \<Rightarrow> audit_event list svc" where
  "listAuditStoreEvents sv sid = readRepositories sv (\<lambda>r. Inr (audit_List sid (rp_Audits r)))"

text \<open>The events of a session and of its task.\<close>

definition listRelatedAuditEvents :: "service \<Rightarrow> string \<Rightarrow> audit_event list svc" where
  "listRelatedAuditEvents sv sid =
     (if sid = [] then listAuditStoreEvents sv []
      else sbind (scatch (getSessionRecord sv sid)) (\<lambda>r.
        case r of
          Inl _ \<Rightarrow> listAuditStoreEvents sv sid
        | Inr st \<Rightarrow>
            if st_TaskID st = [] then listAuditStoreEvents sv sid
            else sbind (listAuditStoreEvents sv []) (\<lambda>events.
              sret (filter (\<lambda>e. au_SessionID e = sid \<or> au_TaskID e = st_TaskID st) events))))"

definition planForStep :: "service \<Rightarrow> string \<Rightarrow> step \<Rightarrow> plan option svc" where
  "planForStep sv sid s =
     sbind (if sp_PlanID s = [] then sret None
            else sbind (scatch (getPlanRecord sv (sp_PlanID s))) (\<lambda>r. case r of
              Inr item \<Rightarrow> sret (Some (annotatePlanIdentity item))
            | Inl e \<Rightarrow> if errors_is e ErrPlanNotFound then sret None else sfail e)) (\<lambda>found.
     case found of
       Some p \<Rightarrow> sret (Some p)
     | None \<Rightarrow> sbind (latestPlanForSession sv sid) (\<lambda>latest. sret (map_option annotatePlanIdentity latest)))"

definition latestPlanHasRemainingSteps :: "service \<Rightarrow> string \<Rightarrow> step \<Rightarrow> bool svc" where
  "latestPlanHasRemainingSteps sv sid completed =
     sbind (planForStep sv sid completed) (\<lambda>target.
       sret (case target of
         None \<Rightarrow> False
       | Some p \<Rightarrow> list_ex (\<lambda>s. sp_StepID s \<noteq> sp_StepID completed \<and> sp_Status s \<noteq> StepCompleted) (pl_Steps p)))"

section \<open>Execution cycles\<close>

text \<open>
  The map of cycles under construction. \<open>touched\<close> is \<^verbatim>\<open>ensure\<close> on the cycle it found or made, without the
  time \<^verbatim>\<open>firstSeen\<close>, which nothing reads; \<open>finished\<close> is \<^verbatim>\<open>updateFinishedAt\<close>.
\<close>

definition new_cycle :: "string \<Rightarrow> execution_cycle" where
  "new_cycle cid = \<lparr>ec_CycleID = cid, ec_SessionID = [], ec_TaskID = [], ec_StepID = [], ec_ApprovalID = [], ec_TraceID = [],
     ec_StartedAt = 0, ec_FinishedAt = 0, ec_Attempts = [], ec_Actions = [], ec_Verifications = [], ec_Artifacts = [], ec_RuntimeHandles = []\<rparr>"

definition touched :: "string \<Rightarrow> string \<Rightarrow> string \<Rightarrow> string \<Rightarrow> string \<Rightarrow> int \<Rightarrow> execution_cycle \<Rightarrow> execution_cycle" where
  "touched sid tid stepID approvalID traceID startedAt c = c\<lparr>
     ec_SessionID := or_str (ec_SessionID c) sid, ec_TaskID := or_str (ec_TaskID c) tid, ec_StepID := or_str (ec_StepID c) stepID,
     ec_ApprovalID := or_str (ec_ApprovalID c) approvalID, ec_TraceID := or_str (ec_TraceID c) traceID,
     ec_StartedAt := (if 0 < startedAt \<and> (ec_StartedAt c = 0 \<or> startedAt < ec_StartedAt c) then startedAt else ec_StartedAt c)\<rparr>"

definition finished :: "int \<Rightarrow> execution_cycle \<Rightarrow> execution_cycle" where
  "finished t c = (if 0 < t \<and> ec_FinishedAt c < t then c\<lparr>ec_FinishedAt := t\<rparr> else c)"

definition latest_handle_time :: "runtime_handle \<Rightarrow> int" where
  "latest_handle_time h =
     (let t = rh_UpdatedAt h;
          t = (if t < rh_CreatedAt h then rh_CreatedAt h else t);
          t = (if t < rh_ClosedAt h then rh_ClosedAt h else t)
      in if t < rh_InvalidatedAt h then rh_InvalidatedAt h else t)"

definition with_attempt :: "attempt \<Rightarrow> execution_cycle \<Rightarrow> execution_cycle" where
  "with_attempt a c = finished (at_FinishedAt a) ((touched (at_SessionID a) (at_TaskID a) (at_StepID a) (at_ApprovalID a) (at_TraceID a) (at_StartedAt a) c)
     \<lparr>ec_Attempts := ec_Attempts c @ [a]\<rparr>)"

definition with_action :: "action_record \<Rightarrow> execution_cycle \<Rightarrow> execution_cycle" where
  "with_action a c = finished (ac_FinishedAt a) ((touched (ac_SessionID a) (ac_TaskID a) (ac_StepID a) [] (ac_TraceID a) (ac_StartedAt a) c)
     \<lparr>ec_Actions := ec_Actions c @ [a]\<rparr>)"

definition with_verification :: "verification_record \<Rightarrow> execution_cycle \<Rightarrow> execution_cycle" where
  "with_verification v c = finished (vf_FinishedAt v) ((touched (vf_SessionID v) (vf_TaskID v) (vf_StepID v) [] (vf_TraceID v) (vf_StartedAt v) c)
     \<lparr>ec_Verifications := ec_Verifications c @ [v]\<rparr>)"

definition with_artifact :: "artifact \<Rightarrow> execution_cycle \<Rightarrow> execution_cycle" where
  "with_artifact a c = finished (af_CreatedAt a) ((touched (af_SessionID a) (af_TaskID a) (af_StepID a) [] (af_TraceID a) (af_CreatedAt a) c)
     \<lparr>ec_Artifacts := ec_Artifacts c @ [a]\<rparr>)"

definition with_handle :: "runtime_handle \<Rightarrow> execution_cycle \<Rightarrow> execution_cycle" where
  "with_handle h c = finished (latest_handle_time h) ((touched (rh_SessionID h) (rh_TaskID h) [] [] (rh_TraceID h) (rh_CreatedAt h) c)
     \<lparr>ec_RuntimeHandles := ec_RuntimeHandles c @ [h]\<rparr>)"

text \<open>One of the five loops: records without a cycle are passed over.\<close>

definition into_cycle :: "('r \<Rightarrow> string) \<Rightarrow> ('r \<Rightarrow> execution_cycle \<Rightarrow> execution_cycle) \<Rightarrow> execution_cycle gomap \<Rightarrow> 'r \<Rightarrow> execution_cycle gomap" where
  "into_cycle key add m x =
     (if key x = [] then m
      else gm_put (key x) (add x (case gm_get m (key x) of None \<Rightarrow> new_cycle (key x) | Some c \<Rightarrow> c)) m)"

definition cycle_less :: "execution_cycle \<Rightarrow> execution_cycle \<Rightarrow> bool" where
  "cycle_less a b = (if ec_StartedAt a = ec_StartedAt b then ec_CycleID a < ec_CycleID b else ec_StartedAt a < ec_StartedAt b)"

definition build_cycles :: "attempt list \<Rightarrow> action_record list \<Rightarrow> verification_record list \<Rightarrow> artifact list \<Rightarrow> runtime_handle list \<Rightarrow> execution_cycle list" where
  "build_cycles attempts actions verifications artifacts handles =
     (let m = foldl (into_cycle at_CycleID with_attempt) [] attempts;
          m = foldl (into_cycle ac_CycleID with_action) m actions;
          m = foldl (into_cycle vf_CycleID with_verification) m verifications;
          m = foldl (into_cycle af_CycleID with_artifact) m artifacts;
          m = foldl (into_cycle rh_CycleID with_handle) m handles
      in go_sort cycle_less (map snd m))"

definition ListExecutionCycles :: "service \<Rightarrow> string \<Rightarrow> execution_cycle list svc" where
  "ListExecutionCycles sv sid =
     sbind (listAttemptRecords sv sid) (\<lambda>attempts.
     sbind (listActionRecords sv sid) (\<lambda>actions.
     sbind (listVerificationRecords sv sid) (\<lambda>verifications.
     sbind (listArtifactRecords sv sid) (\<lambda>artifacts.
     sbind (listRuntimeHandleRecords sv sid) (\<lambda>handles.
       sret (build_cycles attempts actions verifications artifacts handles))))))"

definition GetExecutionCycle :: "service \<Rightarrow> string \<Rightarrow> string \<Rightarrow> execution_cycle svc" where
  "GetExecutionCycle sv sid cid =
     (if cid = [] then sfail ErrExecutionCycleNotFound
      else sbind (ListExecutionCycles sv sid) (\<lambda>cycles.
        case List.find (\<lambda>c. ec_CycleID c = cid) cycles of Some c \<Rightarrow> sret c | None \<Rightarrow> sfail ErrExecutionCycleNotFound))"

section \<open>Blocked runtimes\<close>

record blocked_runtime =
  bl_BlockedRuntimeID :: string
  bl_Kind :: BlockedRuntimeKind
  bl_Status :: BlockedRuntimeStatus
  bl_WaitingFor :: string
  bl_SessionID :: string
  bl_TaskID :: string
  bl_StepID :: string
  bl_ActionID :: string
  bl_ApprovalID :: string
  bl_AttemptID :: string
  bl_CycleID :: string
  bl_Target :: target_ref
  bl_Condition :: blocked_condition
  bl_Metadata :: meta
  bl_Step :: step
  bl_Approval :: "approval option"
  bl_RuntimeHandles :: "runtime_handle list"
  bl_RequestedAt :: int
  bl_UpdatedAt :: int

definition no_target :: target_ref where
  "no_target = \<lparr>tr_TargetID = [], tr_Kind = []\<rparr>"

definition blockedRuntimeHandlesForCycle :: "repos \<Rightarrow> string \<Rightarrow> string \<Rightarrow> runtime_handle list" where
  "blockedRuntimeHandlesForCycle r sid cid = (if cid = [] then [] else filter (\<lambda>h. rh_CycleID h = cid) (handle_List sid (rp_RuntimeHandles r)))"

definition approval_condition :: "approval \<Rightarrow> blocked_condition" where
  "approval_condition rec = \<lparr>bc_Kind = BlockedRuntimeConditionApproval, bc_ReferenceID = ap_ApprovalID rec, bc_WaitingFor = ''approval'', bc_Metadata = ap_Metadata rec\<rparr>"

definition blockedRuntimeFromStateAndApproval :: "session \<Rightarrow> approval \<Rightarrow> repos \<Rightarrow> goerr + blocked_runtime" where
  "blockedRuntimeFromStateAndApproval st rec r =
     (if st_PendingApprovalID st = [] \<or> st_PendingApprovalID st \<noteq> ap_ApprovalID rec \<or> ap_Status rec \<noteq> ApprovalPending
         \<or> ap_SessionID rec \<noteq> [] \<and> ap_SessionID rec \<noteq> st_SessionID st then Inl ErrBlockedRuntimeNotFound
      else
        let attempt = findLatestBlockedAttemptInStore (rp_Attempts r) (st_SessionID st) (ap_ApprovalID rec);
            cid = (case attempt of Some a \<Rightarrow> or_str (at_CycleID a) (executionCycleIDFromStep (ap_Step rec)) | None \<Rightarrow> executionCycleIDFromStep (ap_Step rec))
        in Inr \<lparr>bl_BlockedRuntimeID = ap_ApprovalID rec, bl_Kind = BlockedRuntimeApproval, bl_Status = BlockedRuntimePending, bl_WaitingFor = ''approval'',
             bl_SessionID = st_SessionID st, bl_TaskID = or_str (st_TaskID st) (ap_TaskID rec), bl_StepID = ap_StepID rec, bl_ActionID = [],
             bl_ApprovalID = ap_ApprovalID rec, bl_AttemptID = (case attempt of Some a \<Rightarrow> at_AttemptID a | None \<Rightarrow> []), bl_CycleID = cid,
             bl_Target = no_target, bl_Condition = approval_condition rec, bl_Metadata = ap_Metadata rec, bl_Step = ap_Step rec, bl_Approval = Some rec,
             bl_RuntimeHandles = blockedRuntimeHandlesForCycle r (st_SessionID st) cid, bl_RequestedAt = ap_RequestedAt rec, bl_UpdatedAt = ap_UpdatedAt rec\<rparr>)"

definition step_in_plans :: "repos \<Rightarrow> string \<Rightarrow> string \<Rightarrow> step" where
  "step_in_plans r sid stepID =
     (if sid = [] \<or> stepID = [] then zero_step
      else case planForStepInStore (Some (rp_Plans r)) sid (zero_step\<lparr>sp_StepID := stepID\<rparr>) of
        None \<Rightarrow> zero_step
      | Some target \<Rightarrow> (case List.find (\<lambda>s. sp_StepID s = stepID) (pl_Steps target) of Some s \<Rightarrow> s | None \<Rightarrow> zero_step))"

definition blockedRuntimeFromGenericRecord :: "session \<Rightarrow> blocked_record \<Rightarrow> repos \<Rightarrow> goerr + blocked_runtime" where
  "blockedRuntimeFromGenericRecord st rec r =
     (let sub = br_Subject rec in
      Inr \<lparr>bl_BlockedRuntimeID = br_BlockedRuntimeID rec, bl_Kind = br_Kind rec, bl_Status = br_Status rec, bl_WaitingFor = bc_WaitingFor (br_Condition rec),
        bl_SessionID = st_SessionID st, bl_TaskID = or_str (st_TaskID st) (br_TaskID rec), bl_StepID = bs_StepID sub, bl_ActionID = bs_ActionID sub,
        bl_ApprovalID = [], bl_AttemptID = bs_AttemptID sub, bl_CycleID = bs_CycleID sub, bl_Target = bs_Target sub, bl_Condition = br_Condition rec,
        bl_Metadata = br_Metadata rec, bl_Step = step_in_plans r (st_SessionID st) (bs_StepID sub), bl_Approval = None,
        bl_RuntimeHandles = blockedRuntimeHandlesForCycle r (st_SessionID st) (bs_CycleID sub), bl_RequestedAt = br_RequestedAt rec,
        bl_UpdatedAt = br_UpdatedAt rec\<rparr>)"

definition blockedRuntimeFromStateAndGenericRecord :: "session \<Rightarrow> blocked_record \<Rightarrow> repos \<Rightarrow> goerr + blocked_runtime" where
  "blockedRuntimeFromStateAndGenericRecord st rec r =
     (if currentBlockedRuntimeID st = [] \<or> currentBlockedRuntimeID st \<noteq> br_BlockedRuntimeID rec \<or> st_ExecutionState st \<noteq> ExecutionBlocked
         \<or> br_SessionID rec \<noteq> [] \<and> br_SessionID rec \<noteq> st_SessionID st then Inl ErrBlockedRuntimeNotFound
      else blockedRuntimeFromGenericRecord st rec r)"

definition blocked_record_in :: "repos \<Rightarrow> string \<Rightarrow> goerr + blocked_record" where
  "blocked_record_in r bid = (case blocked_Get bid (rp_BlockedRuntimes r) of
     Inl e \<Rightarrow> Inl (if errors_is e ErrRecordNotFound then ErrBlockedRuntimeNotFound else e)
   | Inr rec \<Rightarrow> Inr rec)"

definition blockedRuntimeFromStateAndRepos :: "session \<Rightarrow> repos \<Rightarrow> goerr + blocked_runtime" where
  "blockedRuntimeFromStateAndRepos st r =
     (if st_PendingApprovalID st \<noteq> [] then
        (case approval_Get (st_PendingApprovalID st) (rp_Approvals r) of
           Inl e \<Rightarrow> Inl e
         | Inr rec \<Rightarrow> blockedRuntimeFromStateAndApproval st rec r)
      else if currentBlockedRuntimeID st = [] then Inl ErrBlockedRuntimeNotFound
      else case blocked_record_in r (currentBlockedRuntimeID st) of
        Inl e \<Rightarrow> Inl e
      | Inr rec \<Rightarrow> blockedRuntimeFromStateAndGenericRecord st rec r)"

definition blockedRuntimeByApprovalInRepos :: "string \<Rightarrow> repos \<Rightarrow> goerr + blocked_runtime" where
  "blockedRuntimeByApprovalInRepos aid r =
     (case approval_Get aid (rp_Approvals r) of
        Inl e \<Rightarrow> Inl e
      | Inr rec \<Rightarrow> (case session_Get (ap_SessionID rec) (rp_Sessions r) of
          Inl e \<Rightarrow> Inl e
        | Inr st \<Rightarrow>
            if st_PendingApprovalID st \<noteq> aid then Inl ErrBlockedRuntimeNotFound
            else blockedRuntimeFromStateAndApproval st rec r))"

definition getBlockedRuntimeRecord :: "service \<Rightarrow> string \<Rightarrow> blocked_runtime svc" where
  "getBlockedRuntimeRecord sv sid = readRepositories sv (\<lambda>r. case session_Get sid (rp_Sessions r) of
     Inl e \<Rightarrow> Inl e | Inr st \<Rightarrow> blockedRuntimeFromStateAndRepos st r)"

definition getBlockedRuntimeByApprovalRecord :: "service \<Rightarrow> string \<Rightarrow> blocked_runtime svc" where
  "getBlockedRuntimeByApprovalRecord sv aid = readRepositories sv (blockedRuntimeByApprovalInRepos aid)"

definition getBlockedRuntimeByIDRecord :: "service \<Rightarrow> string \<Rightarrow> blocked_runtime svc" where
  "getBlockedRuntimeByIDRecord sv bid = readRepositories sv (\<lambda>r.
     case blocked_record_in r bid of
       Inr rec \<Rightarrow> (case session_Get (br_SessionID rec) (rp_Sessions r) of
           Inl e \<Rightarrow> Inl e
         | Inr st \<Rightarrow> blockedRuntimeFromStateAndGenericRecord st rec r)
     | Inl e \<Rightarrow> if errors_is e ErrBlockedRuntimeNotFound then blockedRuntimeByApprovalInRepos bid r else Inl e)"

definition blockedRuntimeStatusFromApproval :: "ApprovalStatus \<Rightarrow> BlockedRuntimeStatus" where
  "blockedRuntimeStatusFromApproval s = (case s of
     ApprovalApproved \<Rightarrow> BlockedRuntimeApproved
   | ApprovalConsumed \<Rightarrow> BlockedRuntimeApproved
   | ApprovalRejected \<Rightarrow> BlockedRuntimeRejected
   | _ \<Rightarrow> BlockedRuntimePending)"

definition blockedRuntimeRecordFromApproval :: "approval \<Rightarrow> blocked_record" where
  "blockedRuntimeRecordFromApproval rec = \<lparr>br_BlockedRuntimeID = ap_ApprovalID rec, br_Kind = BlockedRuntimeApproval,
     br_Status = blockedRuntimeStatusFromApproval (ap_Status rec), br_SessionID = ap_SessionID rec, br_TaskID = ap_TaskID rec,
     br_Subject = \<lparr>bs_StepID = ap_StepID rec, bs_ActionID = [], bs_AttemptID = [], bs_CycleID = [], bs_Target = no_target, bs_Metadata = []\<rparr>,
     br_Condition = approval_condition rec, br_Metadata = ap_Metadata rec, br_RequestedAt = ap_RequestedAt rec, br_UpdatedAt = ap_UpdatedAt rec,
     br_ResolvedAt = max 0 (max (ap_RespondedAt rec) (ap_ConsumedAt rec))\<rparr>"

definition getBlockedRuntimeStoredRecord :: "service \<Rightarrow> string \<Rightarrow> blocked_record svc" where
  "getBlockedRuntimeStoredRecord sv bid = readRepositories sv (\<lambda>r.
     case blocked_record_in r bid of
       Inr rec \<Rightarrow> Inr rec
     | Inl e \<Rightarrow>
         if \<not> errors_is e ErrBlockedRuntimeNotFound then Inl e
         else (case approval_Get bid (rp_Approvals r) of
             Inl e \<Rightarrow> Inl (if errors_is e ErrApprovalNotFound then ErrBlockedRuntimeNotFound else e)
           | Inr rec \<Rightarrow> Inr (blockedRuntimeRecordFromApproval rec)))"

definition listBlockedRuntimeStoredRecords :: "service \<Rightarrow> string \<Rightarrow> blocked_record list svc" where
  "listBlockedRuntimeStoredRecords sv sid = readRepositories sv (\<lambda>r. Inr (blocked_List sid (rp_BlockedRuntimes r)))"

text \<open>The loop over the sessions: what is not found is left out, another error ends it.\<close>

fun blocked_of_all :: "repos \<Rightarrow> session list \<Rightarrow> goerr + blocked_runtime list" where
  "blocked_of_all r [] = Inr []"
| "blocked_of_all r (st # sts) =
     (if st_PendingApprovalID st = [] \<and> currentBlockedRuntimeID st = [] then blocked_of_all r sts
      else case blockedRuntimeFromStateAndRepos st r of
        Inr item \<Rightarrow> (case blocked_of_all r sts of Inl e \<Rightarrow> Inl e | Inr out \<Rightarrow> Inr (item # out))
      | Inl e \<Rightarrow> if errors_is e ErrBlockedRuntimeNotFound then blocked_of_all r sts else Inl e)"

definition blocked_runtime_less :: "blocked_runtime \<Rightarrow> blocked_runtime \<Rightarrow> bool" where
  "blocked_runtime_less a b = (if bl_RequestedAt a \<noteq> bl_RequestedAt b then bl_RequestedAt a < bl_RequestedAt b else bl_BlockedRuntimeID a < bl_BlockedRuntimeID b)"

definition listBlockedRuntimeRecords :: "service \<Rightarrow> blocked_runtime list svc" where
  "listBlockedRuntimeRecords sv = readRepositories sv (\<lambda>r. case blocked_of_all r (session_List (rp_Sessions r)) of
     Inl e \<Rightarrow> Inl e | Inr out \<Rightarrow> Inr (go_sort blocked_runtime_less out))"

section \<open>Projections of blocked runtimes\<close>

datatype BlockedRuntimeWaitScope = BlockedRuntimeWaitStep | BlockedRuntimeWaitAction | BlockedRuntimeWaitTarget

record blocked_wait =
  bw_Scope :: BlockedRuntimeWaitScope
  bw_StepID :: string
  bw_ActionID :: string
  bw_Target :: target_ref
  bw_WaitingFor :: string
  bw_Metadata :: meta

record blocked_projection =
  bp_Runtime :: blocked_runtime
  bp_Wait :: blocked_wait
  bp_TargetSlices :: "target_slice list"
  bp_InteractiveRuntimes :: "interactive_runtime list"
  bp_Metadata :: meta

definition wait_ReferencesAction :: "blocked_wait \<Rightarrow> bool" where
  "wait_ReferencesAction b \<longleftrightarrow> bw_ActionID b \<noteq> []"

definition wait_ReferencesTarget :: "blocked_wait \<Rightarrow> bool" where
  "wait_ReferencesTarget b \<longleftrightarrow> tr_TargetID (bw_Target b) \<noteq> []"

definition HasTargetSlices :: "blocked_projection \<Rightarrow> bool" where
  "HasTargetSlices p \<longleftrightarrow> bp_TargetSlices p \<noteq> []"

definition HasInteractiveRuntimes :: "blocked_projection \<Rightarrow> bool" where
  "HasInteractiveRuntimes p \<longleftrightarrow> bp_InteractiveRuntimes p \<noteq> []"

definition blocked_view :: "blocked_runtime \<Rightarrow> blocked_projection" where
  "blocked_view b =
     (let wait = \<lparr>bw_Scope = BlockedRuntimeWaitStep, bw_StepID = bl_StepID b, bw_ActionID = bl_ActionID b, bw_Target = bl_Target b,
                  bw_WaitingFor = bl_WaitingFor b, bw_Metadata = bc_Metadata (bl_Condition b)\<rparr>;
          wait = (if tr_TargetID (bl_Target b) \<noteq> [] then wait\<lparr>bw_Scope := BlockedRuntimeWaitTarget\<rparr>
                  else if bl_ActionID b \<noteq> [] then wait\<lparr>bw_Scope := BlockedRuntimeWaitAction\<rparr>
                  else case TargetFromStep (bl_Step b) of
                    Some t \<Rightarrow> wait\<lparr>bw_Scope := BlockedRuntimeWaitTarget, bw_Target := t\<rparr>
                  | None \<Rightarrow> wait)
      in \<lparr>bp_Runtime = b, bp_Wait = wait, bp_TargetSlices = [], bp_InteractiveRuntimes = InteractiveRuntimesFromHandles (bl_RuntimeHandles b),
          bp_Metadata = [(''cycle_id'', VStr (bl_CycleID b)), (''approval_id'', VStr (bl_ApprovalID b)), (''blocked_runtime_id'', VStr (bl_BlockedRuntimeID b))]\<rparr>)"

definition blockedRuntimeProjection :: "service \<Rightarrow> blocked_runtime \<Rightarrow> blocked_projection svc" where
  "blockedRuntimeProjection sv b =
     (let view = blocked_view b in
      if bl_CycleID b = [] then sret view
      else sbind (scatch (GetExecutionCycle sv (bl_SessionID b) (bl_CycleID b))) (\<lambda>r. case r of
        Inr c \<Rightarrow> sret (view\<lparr>bp_TargetSlices := TargetSlicesFromCycle c,
             bp_InteractiveRuntimes := (if bp_InteractiveRuntimes view = [] then InteractiveRuntimesFromHandles (ec_RuntimeHandles c) else bp_InteractiveRuntimes view)\<rparr>)
      | Inl e \<Rightarrow> if errors_is e ErrExecutionCycleNotFound then sret view else sfail e))"

definition GetBlockedRuntimeProjection :: "service \<Rightarrow> string \<Rightarrow> blocked_projection svc" where
  "GetBlockedRuntimeProjection sv sid = sbind (getBlockedRuntimeRecord sv sid) (blockedRuntimeProjection sv)"

definition GetBlockedRuntimeProjectionByApproval :: "service \<Rightarrow> string \<Rightarrow> blocked_projection svc" where
  "GetBlockedRuntimeProjectionByApproval sv aid = sbind (getBlockedRuntimeByApprovalRecord sv aid) (blockedRuntimeProjection sv)"

fun project_all :: "service \<Rightarrow> blocked_runtime list \<Rightarrow> blocked_projection list svc" where
  "project_all sv [] = sret []"
| "project_all sv (b # bs) = sbind (blockedRuntimeProjection sv b) (\<lambda>p. sbind (project_all sv bs) (\<lambda>ps. sret (p # ps)))"

definition ListBlockedRuntimeProjections :: "service \<Rightarrow> blocked_projection list svc" where
  "ListBlockedRuntimeProjections sv = sbind (listBlockedRuntimeRecords sv) (project_all sv)"

section \<open>Cycles partition the records\<close>

text \<open>A field of the cycle under a key, as it is or as it would begin.\<close>

definition cycle_val :: "(execution_cycle \<Rightarrow> 'v) \<Rightarrow> execution_cycle gomap \<Rightarrow> string \<Rightarrow> 'v" where
  "cycle_val f m k = f (case gm_get m k of None \<Rightarrow> new_cycle k | Some c \<Rightarrow> c)"

text \<open>What the five loops have in common: each appends the records of a cycle to one field, in their order.\<close>

locale cycle_loop =
  fixes key :: "'r \<Rightarrow> string" and add :: "'r \<Rightarrow> execution_cycle \<Rightarrow> execution_cycle" and own :: "execution_cycle \<Rightarrow> 'r list"
  assumes keeps_id: "ec_CycleID (add x c) = ec_CycleID c"
    and appends: "own (add x c) = own c @ [x]"
begin

lemma loop_keyed: "keyed ec_CycleID m \<Longrightarrow> keyed ec_CycleID (foldl (into_cycle key add) m xs)"
proof (induction xs arbitrary: m)
  case (Cons x xs)
  then have "keyed ec_CycleID (into_cycle key add m x)"
    by (auto simp: into_cycle_def keeps_id new_cycle_def keyed_get split: option.split)
  with Cons.IH show ?case by simp
qed simp

lemma loop_dom: "gm_get (foldl (into_cycle key add) m xs) k \<noteq> None \<longleftrightarrow> gm_get m k \<noteq> None \<or> k \<noteq> [] \<and> k \<in> key ` set xs"
  by (induction xs arbitrary: m) (auto simp: into_cycle_def)

lemma loop_other: "(\<And>x c. f (add x c) = f c) \<Longrightarrow> cycle_val f (foldl (into_cycle key add) m xs) k = cycle_val f m k"
  by (induction xs arbitrary: m) (auto simp: into_cycle_def cycle_val_def)

lemma loop_own: "k \<noteq> [] \<Longrightarrow> cycle_val own (foldl (into_cycle key add) m xs) k = cycle_val own m k @ filter (\<lambda>x. key x = k) xs"
  by (induction xs arbitrary: m) (auto simp: into_cycle_def cycle_val_def appends)

end

lemmas cycle_add_defs = with_attempt_def with_action_def with_verification_def with_artifact_def with_handle_def touched_def finished_def

interpretation attempts: cycle_loop at_CycleID with_attempt ec_Attempts
  by unfold_locales (simp_all add: cycle_add_defs)

interpretation actions: cycle_loop ac_CycleID with_action ec_Actions
  by unfold_locales (simp_all add: cycle_add_defs)

interpretation verifications: cycle_loop vf_CycleID with_verification ec_Verifications
  by unfold_locales (simp_all add: cycle_add_defs)

interpretation artifacts: cycle_loop af_CycleID with_artifact ec_Artifacts
  by unfold_locales (simp_all add: cycle_add_defs)

interpretation handles: cycle_loop rh_CycleID with_handle ec_RuntimeHandles
  by unfold_locales (simp_all add: cycle_add_defs)

lemmas cycle_other = attempts.loop_other actions.loop_other verifications.loop_other artifacts.loop_other handles.loop_other
lemmas cycle_own = attempts.loop_own actions.loop_own verifications.loop_own artifacts.loop_own handles.loop_own
lemmas cycle_dom = attempts.loop_dom actions.loop_dom verifications.loop_dom artifacts.loop_dom handles.loop_dom
lemmas cycle_keyed = attempts.loop_keyed actions.loop_keyed verifications.loop_keyed artifacts.loop_keyed handles.loop_keyed

text \<open>
  C33. The execution cycles of a session partition its records. For any records, there is exactly one
  cycle for every cycle id that occurs in one of them, and it holds exactly the attempts, actions,
  verifications, artifacts and handles with that id, each in the order the stores list them.
\<close>

theorem cycles_partition:
  "distinct (map ec_CycleID (build_cycles ats acs vfs afs rhs))
   \<and> set (map ec_CycleID (build_cycles ats acs vfs afs rhs))
       = (at_CycleID ` set ats \<union> ac_CycleID ` set acs \<union> vf_CycleID ` set vfs \<union> af_CycleID ` set afs \<union> rh_CycleID ` set rhs) - {[]}
   \<and> (\<forall>c \<in> set (build_cycles ats acs vfs afs rhs).
        ec_Attempts c = filter (\<lambda>x. at_CycleID x = ec_CycleID c) ats \<and> ec_Actions c = filter (\<lambda>x. ac_CycleID x = ec_CycleID c) acs
        \<and> ec_Verifications c = filter (\<lambda>x. vf_CycleID x = ec_CycleID c) vfs \<and> ec_Artifacts c = filter (\<lambda>x. af_CycleID x = ec_CycleID c) afs
        \<and> ec_RuntimeHandles c = filter (\<lambda>x. rh_CycleID x = ec_CycleID c) rhs)"
proof -
  define m where "m = foldl (into_cycle rh_CycleID with_handle) (foldl (into_cycle af_CycleID with_artifact)
     (foldl (into_cycle vf_CycleID with_verification) (foldl (into_cycle ac_CycleID with_action) (foldl (into_cycle at_CycleID with_attempt) [] ats) acs) vfs) afs) rhs"
  have b: "build_cycles ats acs vfs afs rhs = go_sort cycle_less (gm_vals m)" by (simp add: build_cycles_def m_def)
  have keyed: "keyed ec_CycleID m" unfolding m_def by (intro cycle_keyed) simp
  have dom: "gm_get m k \<noteq> None \<longleftrightarrow>
      k \<in> (at_CycleID ` set ats \<union> ac_CycleID ` set acs \<union> vf_CycleID ` set vfs \<union> af_CycleID ` set afs \<union> rh_CycleID ` set rhs) - {[]}" for k
    unfolding m_def cycle_dom by auto
  have ids: "set (map ec_CycleID (gm_vals m)) = {k. gm_get m k \<noteq> None}"
    using keyed_vals[OF keyed] keyed_get[OF keyed] by (auto simp: image_iff) metis+
  have start: "cycle_val ec_Attempts [] k = []" "cycle_val ec_Actions [] k = []" "cycle_val ec_Verifications [] k = []"
    "cycle_val ec_Artifacts [] k = []" "cycle_val ec_RuntimeHandles [] k = []" for k by (simp_all add: cycle_val_def new_cycle_def)
  have vals: "cycle_val ec_Attempts m k = filter (\<lambda>x. at_CycleID x = k) ats" "cycle_val ec_Actions m k = filter (\<lambda>x. ac_CycleID x = k) acs"
    "cycle_val ec_Verifications m k = filter (\<lambda>x. vf_CycleID x = k) vfs" "cycle_val ec_Artifacts m k = filter (\<lambda>x. af_CycleID x = k) afs"
    "cycle_val ec_RuntimeHandles m k = filter (\<lambda>x. rh_CycleID x = k) rhs" if "k \<noteq> []" for k
    unfolding m_def using that by (simp_all add: cycle_other cycle_own start cycle_add_defs)
  have parts: "ec_Attempts c = filter (\<lambda>x. at_CycleID x = ec_CycleID c) ats \<and> ec_Actions c = filter (\<lambda>x. ac_CycleID x = ec_CycleID c) acs
        \<and> ec_Verifications c = filter (\<lambda>x. vf_CycleID x = ec_CycleID c) vfs \<and> ec_Artifacts c = filter (\<lambda>x. af_CycleID x = ec_CycleID c) afs
        \<and> ec_RuntimeHandles c = filter (\<lambda>x. rh_CycleID x = ec_CycleID c) rhs" if "c \<in> set (gm_vals m)" for c
  proof -
    from that have c: "gm_get m (ec_CycleID c) = Some c" using keyed_vals[OF keyed] by blast
    with dom[of "ec_CycleID c"] have "ec_CycleID c \<noteq> []" by simp
    from vals[OF this] c show ?thesis by (simp add: cycle_val_def)
  qed
  have "distinct (map ec_CycleID (go_sort cycle_less (gm_vals m)))"
    using keyed_distinct_keys[OF keyed] by (metis mset_eq_imp_distinct_iff mset_go_sort mset_map)
  moreover have "set (map ec_CycleID (go_sort cycle_less (gm_vals m))) = {k. gm_get m k \<noteq> None}"
    unfolding set_map set_go_sort using ids unfolding set_map .
  moreover have "{k. gm_get m k \<noteq> None} = (at_CycleID ` set ats \<union> ac_CycleID ` set acs \<union> vf_CycleID ` set vfs \<union> af_CycleID ` set afs \<union> rh_CycleID ` set rhs) - {[]}"
    by (rule set_eqI) (simp only: mem_Collect_eq dom)
  ultimately show ?thesis unfolding b set_go_sort using parts by simp
qed

theorem cycles_partition_witness:
  "map (\<lambda>c. (ec_CycleID c, map at_AttemptID (ec_Attempts c)))
     (build_cycles [ex_attempt\<lparr>at_AttemptID := ''a1'', at_CycleID := ''c''\<rparr>, ex_attempt\<lparr>at_AttemptID := ''a2'', at_CycleID := []\<rparr>] [] [] [] []) = [(''c'', [''a1''])]
   \<and> distinct (map ec_CycleID (build_cycles [ex_attempt\<lparr>at_AttemptID := ''a1'', at_CycleID := ''c''\<rparr>, ex_attempt\<lparr>at_AttemptID := ''a2'', at_CycleID := []\<rparr>] [] [] [] []))"
proof
  show "map (\<lambda>c. (ec_CycleID c, map at_AttemptID (ec_Attempts c)))
     (build_cycles [ex_attempt\<lparr>at_AttemptID := ''a1'', at_CycleID := ''c''\<rparr>, ex_attempt\<lparr>at_AttemptID := ''a2'', at_CycleID := []\<rparr>] [] [] [] []) = [(''c'', [''a1''])]"
    by code_simp
qed (use cycles_partition in blast)

end
