(* ===== verification/Replay.thy ===== *)
theory Replay
  imports Service_Reads
begin

text \<open>
  Replay: \<^verbatim>\<open>pkg/harness/replay\<close>. A reader loads cycles, events and blocked runtimes through the interfaces of
  the package and projects a session or one of its cycles. The copies the package makes of slices are
  the values themselves here.
\<close>

section \<open>Projections\<close>

record cycle_projection =
  ep_Cycle :: execution_cycle
  ep_TargetSlices :: "target_slice list"
  ep_InteractiveRuntimes :: "interactive_runtime list"
  ep_Events :: "audit_event list"

record session_projection =
  pj_SessionID :: string
  pj_Cycles :: "cycle_projection list"
  pj_BlockedRuntimes :: "blocked_projection list"
  pj_Events :: "audit_event list"
  pj_UnmatchedEvents :: "audit_event list"

definition replay_cycle_less :: "execution_cycle \<Rightarrow> execution_cycle \<Rightarrow> bool" where
  "replay_cycle_less a b = (if ec_StartedAt a \<noteq> ec_StartedAt b then ec_StartedAt a < ec_StartedAt b else ec_CycleID a < ec_CycleID b)"

definition orderedExecutionCycles :: "execution_cycle list \<Rightarrow> execution_cycle list" where
  "orderedExecutionCycles cycles = go_sort replay_cycle_less cycles"

definition event_less :: "audit_event \<Rightarrow> audit_event \<Rightarrow> bool" where
  "event_less a b =
     (if 0 < au_Sequence a \<and> 0 < au_Sequence b \<and> au_Sequence a \<noteq> au_Sequence b then au_Sequence a < au_Sequence b
      else if au_CreatedAt a \<noteq> au_CreatedAt b then au_CreatedAt a < au_CreatedAt b
      else if au_EventID a \<noteq> au_EventID b then au_EventID a < au_EventID b
      else au_Type a < au_Type b)"

definition orderedAuditEvents :: "audit_event list \<Rightarrow> audit_event list" where
  "orderedAuditEvents events = go_sort event_less events"

definition sessionIDFromCycles :: "execution_cycle list \<Rightarrow> string" where
  "sessionIDFromCycles cycles = (case List.find (\<lambda>c. ec_SessionID c \<noteq> []) cycles of Some c \<Rightarrow> ec_SessionID c | None \<Rightarrow> [])"

definition sessionIDFromEvents :: "audit_event list \<Rightarrow> string" where
  "sessionIDFromEvents events = (case List.find (\<lambda>e. au_SessionID e \<noteq> []) events of Some e \<Rightarrow> au_SessionID e | None \<Rightarrow> [])"

definition firstNonEmpty :: "string list \<Rightarrow> string" where
  "firstNonEmpty values = (case List.find (\<lambda>v. v \<noteq> []) values of Some v \<Rightarrow> v | None \<Rightarrow> [])"

definition project_cycle :: "execution_cycle \<Rightarrow> cycle_projection" where
  "project_cycle c = \<lparr>ep_Cycle = c, ep_TargetSlices = TargetSlicesFromCycle c,
     ep_InteractiveRuntimes = InteractiveRuntimesFromHandles (ec_RuntimeHandles c), ep_Events = []\<rparr>"

text \<open>The index of cycles by id: the last cycle of an id wins.\<close>

fun cycle_index :: "nat \<Rightarrow> execution_cycle list \<Rightarrow> nat gomap \<Rightarrow> nat gomap" where
  "cycle_index i [] m = m"
| "cycle_index i (c # cs) m = cycle_index (Suc i) cs (if ec_CycleID c = [] then m else gm_put (ec_CycleID c) i m)"

text \<open>One event: to its cycle, or to the unmatched ones.\<close>

definition place_event :: "nat gomap \<Rightarrow> cycle_projection list \<times> audit_event list \<Rightarrow> audit_event \<Rightarrow> cycle_projection list \<times> audit_event list" where
  "place_event index s e = (case s of (cycles, unmatched) \<Rightarrow>
     (case gm_get index (au_CycleID e) of
        Some i \<Rightarrow> if au_CycleID e \<noteq> [] then (cycles[i := (cycles ! i)\<lparr>ep_Events := ep_Events (cycles ! i) @ [e]\<rparr>], unmatched) else (cycles, unmatched @ [e])
      | None \<Rightarrow> (cycles, unmatched @ [e])))"

definition BuildSessionProjectionWithBlockedRuntimes :: "string \<Rightarrow> execution_cycle list \<Rightarrow> blocked_projection list \<Rightarrow> audit_event list \<Rightarrow> session_projection" where
  "BuildSessionProjectionWithBlockedRuntimes sid cycles blocked auditEvents =
     (let ordered = orderedExecutionCycles cycles; events = orderedAuditEvents auditEvents in
      case foldl (place_event (cycle_index 0 ordered [])) (map project_cycle ordered, []) events of
        (projected, unmatched) \<Rightarrow>
          \<lparr>pj_SessionID = firstNonEmpty [sid, sessionIDFromCycles ordered, sessionIDFromEvents auditEvents], pj_Cycles = projected,
           pj_BlockedRuntimes = blocked, pj_Events = events, pj_UnmatchedEvents = unmatched\<rparr>)"

definition BuildSessionProjection :: "string \<Rightarrow> execution_cycle list \<Rightarrow> audit_event list \<Rightarrow> session_projection" where
  "BuildSessionProjection sid cycles auditEvents = BuildSessionProjectionWithBlockedRuntimes sid cycles [] auditEvents"

definition BuildExecutionCycleProjection :: "execution_cycle \<Rightarrow> audit_event list \<Rightarrow> cycle_projection" where
  "BuildExecutionCycleProjection c auditEvents =
     (project_cycle c)\<lparr>ep_Events := filter (\<lambda>e. ec_CycleID c \<noteq> [] \<and> au_CycleID e = ec_CycleID c) (orderedAuditEvents auditEvents)\<rparr>"

section \<open>The reader\<close>

text \<open>The interfaces a source has; the last two are optional.\<close>

record replay_reader =
  rr_ListExecutionCycles :: "string \<Rightarrow> execution_cycle list svc"
  rr_ListAuditEvents :: "string \<Rightarrow> audit_event list svc"
  rr_GetExecutionCycle :: "(string \<Rightarrow> string \<Rightarrow> execution_cycle svc) option"
  rr_ListBlockedRuntimeProjections :: "blocked_projection list svc option"

abbreviation ErrNilReader :: goerr where "ErrNilReader \<equiv> ErrOther ''replay reader is nil''"

fun hydrate_loop :: "(string \<Rightarrow> string \<Rightarrow> execution_cycle svc) \<Rightarrow> string \<Rightarrow> execution_cycle list \<Rightarrow> execution_cycle list svc" where
  "hydrate_loop getter sid [] = sret []"
| "hydrate_loop getter sid (c # cs) =
     sbind (if ec_CycleID c = [] then sret c
            else sbind (scatch (getter sid (ec_CycleID c))) (\<lambda>r. case r of
              Inr c' \<Rightarrow> sret c'
            | Inl e \<Rightarrow> if errors_is e ErrExecutionCycleNotFound then sret c else sfail e)) (\<lambda>c.
     sbind (hydrate_loop getter sid cs) (\<lambda>cs. sret (c # cs)))"

definition hydrateCycles :: "replay_reader \<Rightarrow> string \<Rightarrow> execution_cycle list \<Rightarrow> execution_cycle list svc" where
  "hydrateCycles rr sid cycles = (case rr_GetExecutionCycle rr of
     None \<Rightarrow> sret (orderedExecutionCycles cycles)
   | Some getter \<Rightarrow> hydrate_loop getter sid (orderedExecutionCycles cycles))"

definition listBlockedRuntimeProjections :: "replay_reader \<Rightarrow> blocked_projection list svc" where
  "listBlockedRuntimeProjections rr = (case rr_ListBlockedRuntimeProjections rr of None \<Rightarrow> sret [] | Some list \<Rightarrow> list)"

definition SessionProjection :: "replay_reader option \<Rightarrow> string \<Rightarrow> session_projection svc" where
  "SessionProjection reader sid = (case reader of
     None \<Rightarrow> sfail ErrNilReader
   | Some rr \<Rightarrow>
       sbind (rr_ListExecutionCycles rr sid) (\<lambda>cycles.
       sbind (hydrateCycles rr sid cycles) (\<lambda>cycles.
       sbind (rr_ListAuditEvents rr sid) (\<lambda>events.
       sbind (listBlockedRuntimeProjections rr) (\<lambda>blocked.
         sret (BuildSessionProjectionWithBlockedRuntimes sid cycles blocked events))))))"

definition getCycle :: "replay_reader \<Rightarrow> string \<Rightarrow> string \<Rightarrow> execution_cycle svc" where
  "getCycle rr sid cid = (case rr_GetExecutionCycle rr of
     Some getter \<Rightarrow> getter sid cid
   | None \<Rightarrow> sbind (rr_ListExecutionCycles rr sid) (\<lambda>cycles.
       case List.find (\<lambda>c. ec_CycleID c = cid) cycles of Some c \<Rightarrow> sret c | None \<Rightarrow> sfail ErrExecutionCycleNotFound))"

definition ExecutionCycleProjection :: "replay_reader option \<Rightarrow> string \<Rightarrow> string \<Rightarrow> cycle_projection svc" where
  "ExecutionCycleProjection reader sid cid = (case reader of
     None \<Rightarrow> sfail ErrNilReader
   | Some rr \<Rightarrow>
       sbind (getCycle rr sid cid) (\<lambda>c.
       sbind (rr_ListAuditEvents rr sid) (\<lambda>events. sret (BuildExecutionCycleProjection c events))))"

definition service_reader :: "service \<Rightarrow> replay_reader" where
  "service_reader sv = \<lparr>rr_ListExecutionCycles = ListExecutionCycles sv, rr_ListAuditEvents = listRelatedAuditEvents sv,
     rr_GetExecutionCycle = Some (GetExecutionCycle sv), rr_ListBlockedRuntimeProjections = Some (ListBlockedRuntimeProjections sv)\<rparr>"

section \<open>Every event is placed\<close>

lemma cycle_index_other: "k = [] \<or> k \<notin> ec_CycleID ` set cs \<Longrightarrow> gm_get (cycle_index i cs m) k = gm_get m k"
  by (induction cs arbitrary: i m) auto

lemma cycle_index_at:
  "distinct (map ec_CycleID cs) \<Longrightarrow> j < length cs \<Longrightarrow> ec_CycleID (cs ! j) \<noteq> [] \<Longrightarrow> gm_get (cycle_index i cs m) (ec_CycleID (cs ! j)) = Some (i + j)"
proof (induction cs arbitrary: i j m)
  case (Cons c cs)
  show ?case
  proof (cases j)
    case 0
    with Cons.prems have "ec_CycleID c \<noteq> []" "ec_CycleID c \<notin> ec_CycleID ` set cs" by simp_all
    then show ?thesis using 0 by (simp add: cycle_index_other)
  next
    case (Suc j')
    with Cons.prems have "distinct (map ec_CycleID cs)" "j' < length cs" "ec_CycleID (cs ! j') \<noteq> []" by simp_all
    from Cons.IH[OF this] Suc show ?thesis by simp
  qed
qed simp

definition events_of :: "audit_event list \<Rightarrow> execution_cycle \<Rightarrow> audit_event list" where
  "events_of events c = filter (\<lambda>e. ec_CycleID c \<noteq> [] \<and> au_CycleID e = ec_CycleID c) events"

lemma place_event_step:
  assumes "distinct (map ec_CycleID cs)"
  shows "place_event (cycle_index 0 cs []) (map (\<lambda>c. (project_cycle c)\<lparr>ep_Events := events_of es c\<rparr>) cs, un) e
    = (map (\<lambda>c. (project_cycle c)\<lparr>ep_Events := events_of (es @ [e]) c\<rparr>) cs, un @ (if au_CycleID e = [] \<or> au_CycleID e \<notin> ec_CycleID ` set cs then [e] else []))"
proof (cases "au_CycleID e = [] \<or> au_CycleID e \<notin> ec_CycleID ` set cs")
  case True
  then have "events_of (es @ [e]) c = events_of es c" if "c \<in> set cs" for c using that by (auto simp: events_of_def)
  then show ?thesis using True by (auto simp: place_event_def cycle_index_other)
next
  case False
  then obtain j where j: "j < length cs" "ec_CycleID (cs ! j) = au_CycleID e" by (auto simp: in_set_conv_nth)
  with False cycle_index_at[OF assms j(1), of 0 "[]"] have at: "gm_get (cycle_index 0 cs []) (au_CycleID e) = Some j" by simp
  have "events_of (es @ [e]) (cs ! i) = (if i = j then events_of es (cs ! i) @ [e] else events_of es (cs ! i))" if "i < length cs" for i
  proof -
    have "ec_CycleID (cs ! i) = au_CycleID e \<longleftrightarrow> i = j" using nth_eq_iff_index_eq[OF assms, of i j] that j by simp
    moreover have "ec_CycleID (cs ! j) \<noteq> []" using j(2) False by simp
    ultimately show ?thesis by (cases "i = j") (simp_all add: events_of_def)
  qed
  note new = this
  have "(map (\<lambda>c. (project_cycle c)\<lparr>ep_Events := events_of es c\<rparr>) cs) [j := (project_cycle (cs ! j))\<lparr>ep_Events := events_of es (cs ! j) @ [e]\<rparr>]
      = map (\<lambda>c. (project_cycle c)\<lparr>ep_Events := events_of (es @ [e]) c\<rparr>) cs"
    by (rule nth_equalityI) (simp_all add: nth_list_update new)
  then show ?thesis using False j(1) by (simp add: place_event_def at)
qed

lemma place_events:
  assumes "distinct (map ec_CycleID cs)"
  shows "foldl (place_event (cycle_index 0 cs [])) (map project_cycle cs, []) events
    = (map (\<lambda>c. (project_cycle c)\<lparr>ep_Events := events_of events c\<rparr>) cs, filter (\<lambda>e. au_CycleID e = [] \<or> au_CycleID e \<notin> ec_CycleID ` set cs) events)"
proof (induction events rule: rev_induct)
  case Nil
  then show ?case by (simp add: events_of_def project_cycle_def)
next
  case (snoc e es)
  then show ?case by (simp add: place_event_step[OF assms])
qed

section \<open>Properties\<close>

text \<open>
  C34. A session's projection places every event. If no two cycles share an id, the projected cycles are
  the given ones in order, each as the projection of that cycle alone gives it, the unmatched events
  are exactly those without a cycle of the session, and every event is kept, in the same order everywhere.
\<close>

theorem session_projection_places:
  assumes "distinct (map ec_CycleID cycles)"
  shows "pj_Cycles (BuildSessionProjectionWithBlockedRuntimes sid cycles blocked events)
      = map (\<lambda>c. BuildExecutionCycleProjection c events) (orderedExecutionCycles cycles)
    \<and> pj_UnmatchedEvents (BuildSessionProjectionWithBlockedRuntimes sid cycles blocked events)
      = filter (\<lambda>e. au_CycleID e = [] \<or> au_CycleID e \<notin> ec_CycleID ` set cycles) (pj_Events (BuildSessionProjectionWithBlockedRuntimes sid cycles blocked events))
    \<and> mset (pj_Events (BuildSessionProjectionWithBlockedRuntimes sid cycles blocked events)) = mset events
    \<and> mset (orderedExecutionCycles cycles) = mset cycles"
proof -
  have "distinct (map ec_CycleID (orderedExecutionCycles cycles))"
    unfolding orderedExecutionCycles_def using assms by (metis mset_eq_imp_distinct_iff mset_go_sort mset_map)
  from place_events[OF this, of "orderedAuditEvents events"] show ?thesis
    by (simp add: BuildSessionProjectionWithBlockedRuntimes_def BuildExecutionCycleProjection_def Let_def events_of_def orderedAuditEvents_def orderedExecutionCycles_def)
qed

definition ex_replay_event :: "string \<Rightarrow> int \<Rightarrow> string \<Rightarrow> audit_event" where
  "ex_replay_event i n cid = \<lparr>au_EventID = i, au_Sequence = n, au_Type = ''t'', au_SessionID = ''s'', au_TaskID = [], au_PlanningID = [], au_ApprovalID = [],
     au_StepID = [], au_AttemptID = [], au_ActionID = [], au_VerificationID = [], au_CycleID = cid, au_TraceID = [], au_CausationID = [],
     au_Payload = [], au_CreatedAt = n\<rparr>"

theorem session_projection_places_witness:
  "map (\<lambda>p. map au_EventID (ep_Events p)) (pj_Cycles (BuildSessionProjectionWithBlockedRuntimes ''s'' [new_cycle ''c2'', new_cycle ''c1''] []
      [ex_replay_event ''e2'' 2 ''c1'', ex_replay_event ''e3'' 3 ''c9'', ex_replay_event ''e1'' 1 ''c1''])) = [[''e1'', ''e2''], []]"
proof -
  have "distinct (map ec_CycleID [new_cycle ''c2'', new_cycle ''c1''])" by code_simp
  note p = session_projection_places[OF this, of "''s''" "[]" "[ex_replay_event ''e2'' 2 ''c1'', ex_replay_event ''e3'' 3 ''c9'', ex_replay_event ''e1'' 1 ''c1'']"]
  have "map (\<lambda>p. map au_EventID (ep_Events p)) (map (\<lambda>c. BuildExecutionCycleProjection c [ex_replay_event ''e2'' 2 ''c1'', ex_replay_event ''e3'' 3 ''c9'', ex_replay_event ''e1'' 1 ''c1''])
      (orderedExecutionCycles [new_cycle ''c2'', new_cycle ''c1''])) = [[''e1'', ''e2''], []]" by code_simp
  then show ?thesis using p by simp
qed

text \<open>
  The projection of a session lists the blocked runtimes of all sessions: the reader does not look for
  those of the session. Here the projection of one session shows what another is blocked on.
\<close>

lemma projection_shows_other_sessions:
  "case fst (SessionProjection (Some (service_reader ex_service)) ''other'' ex_blocked_world) of
     Inr p \<Rightarrow> pj_SessionID p = ''other'' \<and> map (\<lambda>b. bl_SessionID (bp_Runtime b)) (pj_BlockedRuntimes p) = [''s1'']
   | Inl _ \<Rightarrow> False"
  by code_simp

text \<open>Events with and without a sequence number have no consistent order: here each comes before the next.\<close>

lemma event_less_cyclic:
  "event_less ((ex_replay_event ''a'' 1 [])\<lparr>au_CreatedAt := 3\<rparr>) ((ex_replay_event ''c'' 2 [])\<lparr>au_CreatedAt := 1\<rparr>)
   \<and> event_less ((ex_replay_event ''c'' 2 [])\<lparr>au_CreatedAt := 1\<rparr>) ((ex_replay_event ''b'' 0 [])\<lparr>au_CreatedAt := 2\<rparr>)
   \<and> event_less ((ex_replay_event ''b'' 0 [])\<lparr>au_CreatedAt := 2\<rparr>) ((ex_replay_event ''a'' 1 [])\<lparr>au_CreatedAt := 3\<rparr>)"
  by code_simp

end
