(* ===== verification/Pty.thy ===== *)
theory Pty
  imports Verify_Builtins
begin

text \<open>
  Terminals of the shell module: \<^verbatim>\<open>src/modules/shell\<close> pty_manager.go, pty_attach.go, pty_inspector.go and
  pty.go. The manager keeps one session per shell it started, with the output captured so far; two
  goroutines per session append output and record the exit, and attachments copy output to a writer and
  input to the terminal. What happens between two locks is one step; the operating system is a
  parameter of the step that asks it, and what the manager asks of it is kept as a list of calls.
\<close>

section \<open>State\<close>

record pty_options =
  po_ShellPath :: string
  po_DefaultColumns :: int
  po_DefaultRows :: int
  po_DefaultReadBytes :: int

record pty_start_options =
  pp_CWD :: string
  pp_Env :: "string gomap"
  pp_Metadata :: meta

record pty_stream_info =
  pi_HandleID :: string
  pi_Kind :: string
  pi_Status :: string
  pi_NextOffset :: int
  pi_StatusReason :: string

record pty_session_start =
  px_RuntimeHandle :: runtime_handle
  px_Stream :: pty_stream_info
  px_PID :: int

record pty_read_request =
  pq_Offset :: int
  pq_MaxBytes :: int

record pty_read_result =
  pd_HandleID :: string
  pd_Data :: string
  pd_NextOffset :: int
  pd_Closed :: bool
  pd_ExitCode :: int
  pd_Status :: string
  pd_StatusReason :: string
  pd_Truncated :: bool

record pty_inspect_result =
  pn_HandleID :: string
  pn_Closed :: bool
  pn_ExitCode :: int
  pn_Status :: string
  pn_StatusReason :: string

text \<open>The open terminal and the process are named by numbers of the operating system.\<close>

record pty_session =
  pt_handle :: runtime_handle
  pt_file :: "nat option"
  pt_pid :: int
  pt_buffer :: string
  pt_closed :: bool
  pt_exitCode :: int
  pt_statusReason :: string

record pty_attachment =
  pa_AttachmentID :: string
  pa_HandleID :: string
  pa_AttachedAt :: int

text \<open>An attachment's input is absent, or a reader that may have to be closed.\<close>

record pty_attachment_state =
  ps_meta :: pty_attachment
  ps_input :: "bool option"

datatype pty_call =
    PtySpawn string string string "string list" int int
  | PtyWriteFile nat string
  | PtySetsize nat int int
  | PtyKill int
  | PtyCloseFile nat
  | PtyCloseInput string

record pty_manager =
  pm_sessions :: "pty_session gomap"
  pm_attachments :: "pty_attachment_state gomap"
  pm_opts :: pty_options
  pm_cancelled :: "string list"
  pm_calls :: "pty_call list"

abbreviation "ErrPTYSessionNotFound \<equiv> ErrOther ''pty session not found''"
abbreviation "ErrPTYSessionClosed \<equiv> ErrOther ''pty session closed''"

definition NewPTYManager :: "pty_options \<Rightarrow> pty_manager" where
  "NewPTYManager opts = \<lparr>pm_sessions = [], pm_attachments = [],
     pm_opts = opts\<lparr>po_ShellPath := or_str (po_ShellPath opts) ''/bin/bash'',
       po_DefaultColumns := (if po_DefaultColumns opts \<le> 0 then 80 else po_DefaultColumns opts),
       po_DefaultRows := (if po_DefaultRows opts \<le> 0 then 24 else po_DefaultRows opts),
       po_DefaultReadBytes := (if po_DefaultReadBytes opts \<le> 0 then 4096 else po_DefaultReadBytes opts)\<rparr>,
     pm_cancelled = [], pm_calls = []\<rparr>"

definition envPairs :: "string gomap \<Rightarrow> string list" where
  "envPairs env = map (\<lambda>(k, v). k @ ''='' @ v) (filter (\<lambda>(k, _). k \<noteq> []) env)"

definition pty_lookup :: "string \<Rightarrow> pty_manager \<Rightarrow> goerr + pty_session" where
  "pty_lookup hid m = (case gm_get (pm_sessions m) hid of None \<Rightarrow> Inl ErrPTYSessionNotFound | Some s \<Rightarrow> Inr s)"

definition pty_called :: "pty_call list \<Rightarrow> pty_manager \<Rightarrow> pty_manager" where
  "pty_called cs m = m\<lparr>pm_calls := pm_calls m @ cs\<rparr>"

section \<open>Starting a shell\<close>

text \<open>
  What a start meets: whether the context has ended, the clock, a fresh id, and the operating system's
  answer, an error or the terminal and the process.
\<close>

record pty_start_env =
  pe_Ctx :: "goerr option"
  pe_Now :: int
  pe_Uuid :: string
  pe_Spawn :: "goerr + (nat \<times> int)"

definition uint16 :: "int \<Rightarrow> int" where
  "uint16 n = n mod 2 ^ 16"

definition pty_handle :: "pty_start_env \<Rightarrow> string \<Rightarrow> pty_start_options \<Rightarrow> runtime_handle" where
  "pty_handle e command opts =
     (let hid = ''hdl_'' @ pe_Uuid e in
      \<lparr>rh_HandleID = hid, rh_SessionID = [], rh_TaskID = [], rh_AttemptID = [], rh_CycleID = [], rh_TraceID = [],
       rh_Kind = ''pty'', rh_Value = hid, rh_Status = RuntimeHandleActive, rh_StatusReason = ''pty session active'',
       rh_Metadata = foldl (\<lambda>md (k, v). gm_put k v md)
         [(''command'', VStr command), (''cwd'', VStr (pp_CWD opts)), (''mode'', VStr ''pty''), (''interactive'', VBool True),
          (''interactive_supports_view'', VBool True), (''interactive_supports_write'', VBool True), (''interactive_supports_close'', VBool True),
          (''interactive_status'', VStr ''active''), (''interactive_status_reason'', VStr ''pty session active''),
          (''interactive_next_offset'', VInt64 0)] (pp_Metadata opts),
       rh_Version = 0, rh_CreatedAt = pe_Now e, rh_UpdatedAt = pe_Now e, rh_ClosedAt = 0, rh_InvalidatedAt = 0\<rparr>)"

definition pty_Start :: "pty_start_env \<Rightarrow> string \<Rightarrow> pty_start_options \<Rightarrow> pty_manager \<Rightarrow> (goerr + pty_session_start) \<times> pty_manager" where
  "pty_Start e command opts m =
     (if command = [] then (Inl (ErrOther ''command is required''), m)
      else case pe_Ctx e of Some err \<Rightarrow> (Inl err, m)
      | None \<Rightarrow>
          let handle = pty_handle e command opts;
              m = pty_called [PtySpawn (po_ShellPath (pm_opts m)) command (pp_CWD opts) (envPairs (pp_Env opts))
                    (uint16 (po_DefaultColumns (pm_opts m))) (uint16 (po_DefaultRows (pm_opts m)))] m
          in case pe_Spawn e of Inl err \<Rightarrow> (Inl err, m)
             | Inr (tty, pid) \<Rightarrow>
                 let handle = handle\<lparr>rh_Metadata := gm_put ''pid'' (VInt pid) (rh_Metadata handle)\<rparr>;
                     s = \<lparr>pt_handle = handle, pt_file = Some tty, pt_pid = pid, pt_buffer = [], pt_closed = False, pt_exitCode = 0,
                          pt_statusReason = ''pty session active''\<rparr>
                 in (Inr \<lparr>px_RuntimeHandle = handle,
                          px_Stream = \<lparr>pi_HandleID = rh_HandleID handle, pi_Kind = ''pty'', pi_Status = ''active'', pi_NextOffset = 0, pi_StatusReason = []\<rparr>,
                          px_PID = pid\<rparr>,
                     m\<lparr>pm_sessions := gm_put (rh_HandleID handle) s (pm_sessions m)\<rparr>))"

section \<open>Reading and inspecting\<close>

definition pty_status :: "pty_session \<Rightarrow> string" where
  "pty_status s = (if pt_closed s then ''closed'' else ''active'')"

text \<open>
  The bounds of the part that is read, and whether it is cut short. The sum is one of machine integers;
  a slice whose end lies before its start panics, here \<open>None\<close>.
\<close>

definition pty_read_range :: "int \<Rightarrow> pty_read_request \<Rightarrow> int \<Rightarrow> int \<times> int \<times> bool" where
  "pty_read_range dflt q len =
     (let offset = (if pq_Offset q < 0 then 0 else pq_Offset q);
          offset = (if len < offset then len else offset);
          maxBytes = (if pq_MaxBytes q \<le> 0 then dflt else pq_MaxBytes q)
      in if 0 < maxBytes \<and> wrap64 (offset + maxBytes) < len then (offset, wrap64 (offset + maxBytes), True) else (offset, len, False))"

definition pty_Read :: "string \<Rightarrow> pty_read_request \<Rightarrow> pty_manager \<Rightarrow> (goerr + pty_read_result) option" where
  "pty_Read hid q m = (case pty_lookup hid m of
     Inl e \<Rightarrow> Some (Inl e)
   | Inr s \<Rightarrow>
       case pty_read_range (po_DefaultReadBytes (pm_opts m)) q (int (length (pt_buffer s))) of (offset, en, truncated) \<Rightarrow>
         if en < offset then None
         else Some (Inr \<lparr>pd_HandleID = hid, pd_Data = take (nat en - nat offset) (drop (nat offset) (pt_buffer s)), pd_NextOffset = en,
                pd_Closed = pt_closed s, pd_ExitCode = pt_exitCode s, pd_Status = pty_status s, pd_StatusReason = pt_statusReason s,
                pd_Truncated = truncated\<rparr>))"

definition pty_Inspect :: "string \<Rightarrow> pty_manager \<Rightarrow> goerr + pty_inspect_result" where
  "pty_Inspect hid m = (case pty_lookup hid m of
     Inl e \<Rightarrow> Inl e
   | Inr s \<Rightarrow> Inr \<lparr>pn_HandleID = hid, pn_Closed = pt_closed s, pn_ExitCode = pt_exitCode s, pn_Status = pty_status s,
                pn_StatusReason = pt_statusReason s\<rparr>)"

section \<open>Writing, resizing, closing\<close>

definition pty_Write :: "goerr option \<Rightarrow> goerr + int \<Rightarrow> string \<Rightarrow> string \<Rightarrow> pty_manager \<Rightarrow> (goerr + int) \<times> pty_manager" where
  "pty_Write ctx answer hid input m = (case pty_lookup hid m of
     Inl e \<Rightarrow> (Inl e, m)
   | Inr s \<Rightarrow>
       case ctx of Some e \<Rightarrow> (Inl e, m)
       | None \<Rightarrow>
           if pt_closed s then (Inl ErrPTYSessionClosed, m)
           else case pt_file s of None \<Rightarrow> (Inl ErrPTYSessionNotFound, m)
                | Some f \<Rightarrow> (answer, pty_called [PtyWriteFile f input] m))"

definition pty_Resize :: "goerr option \<Rightarrow> string \<Rightarrow> int \<Rightarrow> int \<Rightarrow> pty_manager \<Rightarrow> goerr option \<times> pty_manager" where
  "pty_Resize answer hid columns rows m = (case pty_lookup hid m of
     Inl e \<Rightarrow> (Some e, m)
   | Inr s \<Rightarrow>
       case pt_file s of None \<Rightarrow> (Some ErrPTYSessionNotFound, m)
       | Some f \<Rightarrow> (answer, pty_called [PtySetsize f (uint16 (if columns \<le> 0 then po_DefaultColumns (pm_opts m) else columns))
                       (uint16 (if rows \<le> 0 then po_DefaultRows (pm_opts m) else rows))] m))"

text \<open>Removing attachments ends their contexts and closes their inputs.\<close>

definition pty_detach :: "(pty_attachment_state \<Rightarrow> bool) \<Rightarrow> pty_manager \<Rightarrow> pty_manager" where
  "pty_detach p m =
     (let gone = filter (p \<circ> snd) (pm_attachments m) in
      m\<lparr>pm_attachments := filter (\<lambda>(_, a). \<not> p a) (pm_attachments m), pm_cancelled := pm_cancelled m @ map fst gone,
        pm_calls := pm_calls m @ map (PtyCloseInput \<circ> fst) (filter (\<lambda>(_, a). ps_input a = Some True) gone)\<rparr>)"

definition detachForHandle :: "string \<Rightarrow> pty_manager \<Rightarrow> pty_manager" where
  "detachForHandle hid = pty_detach (\<lambda>a. pa_HandleID (ps_meta a) = hid)"

definition detachAll :: "pty_manager \<Rightarrow> pty_manager" where
  "detachAll = pty_detach (\<lambda>_. True)"

definition pty_Close :: "string \<Rightarrow> string \<Rightarrow> pty_manager \<Rightarrow> goerr option \<times> pty_manager" where
  "pty_Close hid reason m = (case pty_lookup hid m of
     Inl e \<Rightarrow> (Some e, m)
   | Inr s \<Rightarrow>
       let m = detachForHandle hid m;
           m = m\<lparr>pm_sessions := gm_put hid (s\<lparr>pt_statusReason := or_str reason (pt_statusReason s)\<rparr>) (pm_sessions m)\<rparr>
       in (None, pty_called (PtyKill (pt_pid s) # (case pt_file s of None \<Rightarrow> [] | Some f \<Rightarrow> [PtyCloseFile f])) m))"

fun pty_close_each :: "string list \<Rightarrow> string \<Rightarrow> pty_manager \<Rightarrow> goerr option \<times> pty_manager" where
  "pty_close_each [] reason m = (None, m)"
| "pty_close_each (hid # hids) reason m = (case pty_Close hid reason m of
     (Some e, m') \<Rightarrow> if e = ErrPTYSessionNotFound then pty_close_each hids reason m' else (Some e, m')
   | (None, m') \<Rightarrow> pty_close_each hids reason m')"

definition pty_CloseAll :: "string \<Rightarrow> pty_manager \<Rightarrow> goerr option \<times> pty_manager" where
  "pty_CloseAll reason m = (let m = detachAll m in pty_close_each (map fst (pm_sessions m)) reason m)"

section \<open>The goroutines of a session\<close>

text \<open>One read of at most a kilobyte from the terminal; the rest of the loop decides only whether it goes on.\<close>

definition captureOutput :: "string \<Rightarrow> string \<Rightarrow> pty_manager \<Rightarrow> pty_manager" where
  "captureOutput hid bytes m = (case gm_get (pm_sessions m) hid of
     None \<Rightarrow> m
   | Some s \<Rightarrow> if bytes = [] then m else m\<lparr>pm_sessions := gm_put hid (s\<lparr>pt_buffer := pt_buffer s @ bytes\<rparr>) (pm_sessions m)\<rparr>)"

text \<open>The outcomes of \<^verbatim>\<open>cmd.Wait\<close>: no error, an exit error with its code, any other error.\<close>

datatype wait_outcome = WaitOk | WaitExit int | WaitError

fun exit_code_of :: "wait_outcome \<Rightarrow> int" where
  "exit_code_of WaitOk = 0"
| "exit_code_of (WaitExit c) = c"
| "exit_code_of WaitError = - 1"

definition exited :: "wait_outcome \<Rightarrow> int \<Rightarrow> pty_session \<Rightarrow> pty_session" where
  "exited r now s =
     (let reason = or_str (pt_statusReason s) ''pty session exited'' in
      s\<lparr>pt_closed := True, pt_exitCode := exit_code_of r, pt_statusReason := reason,
        pt_handle := (pt_handle s)\<lparr>rh_Status := RuntimeHandleClosed, rh_StatusReason := reason,
          rh_ClosedAt := or_int (rh_ClosedAt (pt_handle s)) now, rh_UpdatedAt := now\<rparr>\<rparr>)"

definition waitForExit :: "string \<Rightarrow> wait_outcome \<Rightarrow> int \<Rightarrow> pty_manager \<Rightarrow> pty_manager" where
  "waitForExit hid r now m = (case gm_get (pm_sessions m) hid of
     None \<Rightarrow> m
   | Some s \<Rightarrow> m\<lparr>pm_sessions := gm_put hid (exited r now s) (pm_sessions m)\<rparr>)"

section \<open>Attachments\<close>

record pty_attach_options =
  ao_Input :: "bool option"
  ao_Output :: bool
  ao_Offset :: int
  ao_MaxBytes :: int

definition pty_Attach :: "string \<Rightarrow> int \<Rightarrow> string \<Rightarrow> pty_attach_options \<Rightarrow> pty_manager \<Rightarrow> (goerr + pty_attachment) \<times> pty_manager" where
  "pty_Attach uuid now hid opts m = (case pty_lookup hid m of
     Inl e \<Rightarrow> (Inl e, m)
   | Inr _ \<Rightarrow>
       if ao_Input opts = None \<and> \<not> ao_Output opts then (Inl (ErrOther ''attach requires input and/or output''), m)
       else let a = \<lparr>pa_AttachmentID = ''att_'' @ uuid, pa_HandleID = hid, pa_AttachedAt = now\<rparr>
            in (Inr a, m\<lparr>pm_attachments := gm_put (pa_AttachmentID a) \<lparr>ps_meta = a, ps_input = ao_Input opts\<rparr> (pm_attachments m)\<rparr>))"

definition pty_Detach :: "string \<Rightarrow> pty_manager \<Rightarrow> goerr option \<times> pty_manager" where
  "pty_Detach aid m = (case gm_get (pm_attachments m) aid of
     None \<Rightarrow> (Some ErrPTYSessionNotFound, m)
   | Some a \<Rightarrow> (None, m\<lparr>pm_attachments := gm_del aid (pm_attachments m), pm_cancelled := pm_cancelled m @ [aid],
        pm_calls := pm_calls m @ (if ps_input a = Some True then [PtyCloseInput aid] else [])\<rparr>))"

text \<open>The goroutine that copies output: where it stands and what its writer has accepted.\<close>

record out_stream =
  os_HandleID :: string
  os_Offset :: int
  os_MaxBytes :: int
  os_Written :: string
  os_Running :: bool

definition stream_start :: "string \<Rightarrow> pty_attach_options \<Rightarrow> pty_manager \<Rightarrow> out_stream" where
  "stream_start hid opts m = \<lparr>os_HandleID = hid, os_Offset = ao_Offset opts,
     os_MaxBytes = (if ao_MaxBytes opts \<le> 0 then po_DefaultReadBytes (pm_opts m) else ao_MaxBytes opts), os_Written = [], os_Running = True\<rparr>"

text \<open>One turn of its loop. The context may have ended, the writer may refuse; \<open>None\<close> is a panic.\<close>

definition streamAttachedOutput :: "bool \<Rightarrow> bool \<Rightarrow> pty_manager \<Rightarrow> out_stream \<Rightarrow> out_stream option" where
  "streamAttachedOutput cancelled accepts m so =
     (if \<not> os_Running so then Some so
      else if cancelled then Some (so\<lparr>os_Running := False\<rparr>)
      else case pty_Read (os_HandleID so) \<lparr>pq_Offset = os_Offset so, pq_MaxBytes = os_MaxBytes so\<rparr> m of
        None \<Rightarrow> None
      | Some (Inl e) \<Rightarrow> Some (so\<lparr>os_Running := False\<rparr>)
      | Some (Inr r) \<Rightarrow>
          if os_Offset so < pd_NextOffset r \<and> \<not> accepts then Some (so\<lparr>os_Running := False\<rparr>)
          else let so = (if os_Offset so < pd_NextOffset r
                         then so\<lparr>os_Written := os_Written so @ pd_Data r, os_Offset := pd_NextOffset r\<rparr> else so)
               in Some (if pd_Closed r then so\<lparr>os_Running := False\<rparr> else so))"

text \<open>One turn of the goroutine that copies input: what the reader gave, and whether it goes on.\<close>

definition streamAttachedInput :: "goerr option \<Rightarrow> string \<Rightarrow> bool \<Rightarrow> goerr + int \<Rightarrow> string \<Rightarrow> pty_manager \<Rightarrow> bool \<times> pty_manager" where
  "streamAttachedInput ctx bytes failed answer hid m =
     (if ctx \<noteq> None then (False, m)
      else if bytes = [] then (\<not> failed, m)
      else case pty_Write ctx answer hid bytes m of
        (Inl e, m') \<Rightarrow> (False, m')
      | (Inr _, m') \<Rightarrow> (\<not> failed, m'))"

section \<open>The backend of the shell tool\<close>

record shell_request =
  sq_Mode :: string
  sq_Command :: string
  sq_CWD :: string
  sq_Env :: meta
  sq_TimeoutMS :: int
  sq_Metadata :: meta

definition stringifyEnv :: "meta \<Rightarrow> string gomap" where
  "stringifyEnv src = List.map_filter (\<lambda>(k, v). if k = [] then None else case v of VStr t \<Rightarrow> Some (k, t) | _ \<Rightarrow> None) src"

definition enc_pty_stream :: "pty_stream_info \<Rightarrow> gval" where
  "enc_pty_stream i = VStruct ''shellmodule.PTYStreamInfo'' [(''HandleID'', VStr (pi_HandleID i)), (''Kind'', VStr (pi_Kind i)),
     (''Status'', VStr (pi_Status i)), (''NextOffset'', VInt64 (pi_NextOffset i)), (''StatusReason'', VStr (pi_StatusReason i))]"

definition enc_handle :: "runtime_handle \<Rightarrow> gval" where
  "enc_handle h = VStruct ''execution.RuntimeHandle'' [(''HandleID'', VStr (rh_HandleID h)), (''SessionID'', VStr (rh_SessionID h)),
     (''TaskID'', VStr (rh_TaskID h)), (''AttemptID'', VStr (rh_AttemptID h)), (''CycleID'', VStr (rh_CycleID h)), (''TraceID'', VStr (rh_TraceID h)),
     (''Kind'', VStr (rh_Kind h)), (''Value'', VStr (rh_Value h)), (''Status'', VStr (handle_status_string (rh_Status h))),
     (''StatusReason'', VStr (rh_StatusReason h)), (''Metadata'', VMap (rh_Metadata h)), (''Version'', VInt64 (rh_Version h)),
     (''CreatedAt'', VInt64 (rh_CreatedAt h)), (''UpdatedAt'', VInt64 (rh_UpdatedAt h)), (''ClosedAt'', VInt64 (rh_ClosedAt h)),
     (''InvalidatedAt'', VInt64 (rh_InvalidatedAt h))]"

definition PTYBackend_Execute :: "(goerr \<Rightarrow> string) \<Rightarrow> pty_start_env \<Rightarrow> int \<Rightarrow> shell_request \<Rightarrow> pty_manager option \<Rightarrow> action_result \<times> pty_manager option" where
  "PTYBackend_Execute errText e duration q mo = (case mo of
     None \<Rightarrow> (\<lparr>ar_OK = False, ar_Data = [(''mode'', VStr ''pty''), (''status'', VStr ''unsupported'')], ar_Meta = [],
               ar_Error = Some \<lparr>ae_Code = ''PTY_NOT_CONFIGURED'', ae_Message = ''pty manager is not configured''\<rparr>\<rparr>, None)
   | Some m \<Rightarrow>
       (case pty_Start e (sq_Command q) \<lparr>pp_CWD = sq_CWD q, pp_Env = stringifyEnv (sq_Env q), pp_Metadata = sq_Metadata q\<rparr> m of
          (Inl err, m') \<Rightarrow> (\<lparr>ar_OK = False, ar_Data = [(''mode'', VStr ''pty''), (''status'', VStr ''start_failed'')], ar_Meta = [],
               ar_Error = Some \<lparr>ae_Code = ''PTY_START_FAILED'', ae_Message = errText err\<rparr>\<rparr>, Some m')
        | (Inr x, m') \<Rightarrow> (\<lparr>ar_OK = True,
               ar_Data = [(''mode'', VStr ''pty''), (''command'', VStr (sq_Command q)), (''cwd'', VStr (sq_CWD q)), (''status'', VStr ''active''),
                 (''runtime_handle'', enc_handle (px_RuntimeHandle x)), (''shell_stream'', enc_pty_stream (px_Stream x)), (''pid'', VInt (px_PID x))],
               ar_Meta = [(''duration_ms'', VInt64 duration), (''interactive'', VBool True)], ar_Error = None\<rparr>, Some m')))"

section \<open>The manager as a state machine\<close>

text \<open>
  One step of a caller or of a goroutine, whatever the operating system answers. Ids are fresh, as
  \<^verbatim>\<open>uuid.NewString\<close> makes them.
\<close>

inductive pty_step :: "pty_manager \<Rightarrow> pty_manager \<Rightarrow> bool" where
  start: "gm_get (pm_sessions m) (''hdl_'' @ pe_Uuid e) = None \<Longrightarrow> pty_step m (snd (pty_Start e command opts m))"
| capture: "pty_step m (captureOutput hid bytes m)"
| exit: "pty_step m (waitForExit hid r now m)"
| write_file: "pty_step m (snd (pty_Write ctx answer hid text m))"
| copy_input: "pty_step m (snd (streamAttachedInput ctx bytes failed answer hid m))"
| resize: "pty_step m (snd (pty_Resize refused hid columns rows m))"
| close: "pty_step m (snd (pty_Close hid reason m))"
| close_all: "pty_step m (snd (pty_CloseAll reason m))"
| attach: "pty_step m (snd (pty_Attach uuid now hid aopts m))"
| detach: "pty_step m (snd (pty_Detach aid m))"

text \<open>The manager together with one goroutine that copies output; a turn that panics has no successor.\<close>

inductive stream_step :: "pty_manager \<times> out_stream \<Rightarrow> pty_manager \<times> out_stream \<Rightarrow> bool" where
  manager: "pty_step m m' \<Longrightarrow> stream_step (m, so) (m', so)"
| turn: "streamAttachedOutput cancelled accepts m so = Some so' \<Longrightarrow> stream_step (m, so) (m, so')"

section \<open>Well-formed managers\<close>

definition session_typed :: "string \<Rightarrow> pty_session \<Rightarrow> bool" where
  "session_typed hid s \<longleftrightarrow> rh_HandleID (pt_handle s) = hid \<and> rh_Value (pt_handle s) = hid \<and> rh_Kind (pt_handle s) = ''pty''
     \<and> rh_Status (pt_handle s) = (if pt_closed s then RuntimeHandleClosed else RuntimeHandleActive)
     \<and> (pt_closed s \<longrightarrow> rh_StatusReason (pt_handle s) \<noteq> []) \<and> pt_statusReason s \<noteq> [] \<and> pt_file s \<noteq> None"

definition pty_typed :: "pty_manager \<Rightarrow> bool" where
  "pty_typed m \<longleftrightarrow> (\<forall>hid s. gm_get (pm_sessions m) hid = Some s \<longrightarrow> session_typed hid s)
     \<and> (\<forall>(aid, a) \<in> set (pm_attachments m). pa_AttachmentID (ps_meta a) = aid \<and> gm_get (pm_sessions m) (pa_HandleID (ps_meta a)) \<noteq> None)
     \<and> po_ShellPath (pm_opts m) \<noteq> [] \<and> 0 < po_DefaultColumns (pm_opts m) \<and> 0 < po_DefaultRows (pm_opts m) \<and> 0 < po_DefaultReadBytes (pm_opts m)"

text \<open>How the steps change the sessions: calls and attachments leave them, the rest stores one session.\<close>

lemma set_gm_put: "set (gm_put k v m) \<subseteq> insert (k, v) (set m)"
  by (induction m) auto

lemma put_keys: "gm_get m k \<noteq> None \<Longrightarrow> gm_get (gm_put k' v m) k \<noteq> None"
  by (simp add: update_conv)

lemma typed_put:
  assumes "pty_typed m" and "session_typed hid s"
  shows "pty_typed (m\<lparr>pm_sessions := gm_put hid s (pm_sessions m)\<rparr>)"
  using assms by (auto simp: pty_typed_def update_conv)

lemma typed_calls: "pty_typed (pty_called cs m) = pty_typed m"
  by (simp add: pty_typed_def pty_called_def)

lemma typed_detach: "pty_typed m \<Longrightarrow> pty_typed (pty_detach p m)"
  by (auto simp: pty_typed_def pty_detach_def Let_def)

lemma typed_get: "pty_typed m \<Longrightarrow> pty_lookup hid m = Inr s \<Longrightarrow> gm_get (pm_sessions m) hid = Some s \<and> session_typed hid s"
  by (auto simp: pty_typed_def pty_lookup_def split: option.splits)

lemma typed_close: "pty_typed m \<Longrightarrow> pty_typed (snd (pty_Close hid reason m))"
proof (cases "pty_lookup hid m")
  case (Inr s)
  assume t: "pty_typed m"
  have "session_typed hid (s\<lparr>pt_statusReason := or_str reason (pt_statusReason s)\<rparr>)"
    using typed_get[OF t Inr] by (simp add: session_typed_def)
  then show ?thesis using Inr typed_put[OF typed_detach[OF t]]
    by (simp add: pty_Close_def detachForHandle_def Let_def typed_calls)
qed (simp add: pty_Close_def)

lemma typed_close_each: "pty_typed m \<Longrightarrow> pty_typed (snd (pty_close_each hids reason m))"
proof (induction hids reason m rule: pty_close_each.induct)
  case (2 hid hids reason m)
  then show ?case using typed_close[of m hid reason] by (auto split: prod.splits option.splits)
qed simp

lemma typed_write: "pty_typed m \<Longrightarrow> pty_typed (snd (pty_Write ctx answer hid text m))"
  by (simp add: pty_Write_def typed_calls split: sum.splits option.splits)

lemma pty_handle_fields [simp]:
  "rh_HandleID (pty_handle e command opts) = ''hdl_'' @ pe_Uuid e" "rh_Value (pty_handle e command opts) = ''hdl_'' @ pe_Uuid e"
  "rh_Kind (pty_handle e command opts) = ''pty''" "rh_Status (pty_handle e command opts) = RuntimeHandleActive"
  "rh_StatusReason (pty_handle e command opts) = ''pty session active''"
  by (simp_all add: pty_handle_def Let_def)

lemma typed_start: "pty_typed m \<Longrightarrow> pty_typed (snd (pty_Start e command opts m))"
  unfolding pty_Start_def Let_def
  by (auto simp: typed_calls session_typed_def intro!: typed_put split: option.splits sum.splits prod.splits)

lemma typed_attachment_put:
  assumes "pty_typed m" and "gm_get (pm_sessions m) (pa_HandleID (ps_meta a)) \<noteq> None"
  shows "pty_typed (m\<lparr>pm_attachments := gm_put (pa_AttachmentID (ps_meta a)) a (pm_attachments m)\<rparr>)"
proof -
  have "\<forall>(aid, b) \<in> set (gm_put (pa_AttachmentID (ps_meta a)) a (pm_attachments m)). pa_AttachmentID (ps_meta b) = aid
      \<and> gm_get (pm_sessions m) (pa_HandleID (ps_meta b)) \<noteq> None"
    using set_gm_put[of "pa_AttachmentID (ps_meta a)" a "pm_attachments m"] assms unfolding pty_typed_def by blast
  then show ?thesis using assms(1) by (simp add: pty_typed_def)
qed

lemma typed_attach: "pty_typed m \<Longrightarrow> pty_typed (snd (pty_Attach uuid now hid aopts m))"
  using typed_attachment_put[of m "\<lparr>ps_meta = \<lparr>pa_AttachmentID = ''att_'' @ uuid, pa_HandleID = hid, pa_AttachedAt = now\<rparr>, ps_input = ao_Input aopts\<rparr>"]
  by (simp add: pty_Attach_def pty_lookup_def Let_def split: option.splits)

lemma typed_detach_one: "pty_typed m \<Longrightarrow> pty_typed (snd (pty_Detach aid m))"
  by (simp add: pty_Detach_def pty_typed_def AList.delete_eq split: option.splits)

lemma typed_step: "pty_step m m' \<Longrightarrow> pty_typed m \<Longrightarrow> pty_typed m'"
proof (induction rule: pty_step.induct)
  case (capture m hid bytes)
  then show ?case by (auto simp: captureOutput_def pty_typed_def session_typed_def intro!: typed_put split: option.splits)
next
  case (exit m hid r now)
  then show ?case by (auto simp: waitForExit_def exited_def Let_def pty_typed_def session_typed_def intro!: typed_put split: option.splits)
next
  case (resize m refused hid columns rows)
  then show ?case by (simp add: pty_Resize_def typed_calls split: sum.splits option.splits)
next
  case (copy_input m ctx bytes failed answer hid)
  then show ?case using typed_write[of m ctx answer hid bytes] by (auto simp: streamAttachedInput_def split: sum.splits prod.splits)
next
  case (close_all m reason)
  then show ?case by (simp add: pty_CloseAll_def detachAll_def Let_def typed_close_each typed_detach)
qed (simp_all add: typed_start typed_write typed_close typed_attach typed_detach_one)

text \<open>
  C40. A terminal manager stays well-formed. After any steps of callers and goroutines, whatever the
  operating system answers, every session is stored under the id of its handle, has its terminal, and its
  handle is active or closed as the session is; every attachment is stored under its own id and belongs to a
  stored session; the defaults are positive. The reason of a session is never empty, so that the text
  \<^verbatim>\<open>pty session exited\<close> of \<^verbatim>\<open>waitForExit\<close> is never used.
\<close>

theorem pty_manager_typed:
  assumes "pty_step\<^sup>*\<^sup>* (NewPTYManager opts) m"
  shows "pty_typed m"
proof -
  have "pty_typed (NewPTYManager opts)" by (simp add: pty_typed_def NewPTYManager_def)
  with assms show ?thesis by (induction rule: rtranclp_induct) (simp_all add: typed_step)
qed

section \<open>Output only grows\<close>

definition outgrows :: "pty_manager \<Rightarrow> pty_manager \<Rightarrow> bool" where
  "outgrows m m' \<longleftrightarrow> pm_opts m' = pm_opts m \<and> (\<forall>hid s. gm_get (pm_sessions m) hid = Some s \<longrightarrow>
     (\<exists>s'. gm_get (pm_sessions m') hid = Some s' \<and> prefix (pt_buffer s) (pt_buffer s') \<and> (pt_closed s \<longrightarrow> pt_closed s')))"

lemma outgrows_refl [simp]: "outgrows m m"
  by (simp add: outgrows_def)

lemma outgrows_trans: "outgrows m1 m2 \<Longrightarrow> outgrows m2 m3 \<Longrightarrow> outgrows m1 m3"
  unfolding outgrows_def by (metis prefix_order.trans)

lemma outgrows_same: "pm_sessions m' = pm_sessions m \<Longrightarrow> pm_opts m' = pm_opts m \<Longrightarrow> outgrows m m'"
  by (simp add: outgrows_def)

lemma outgrows_put:
  assumes "gm_get (pm_sessions m) hid = None \<or> gm_get (pm_sessions m) hid = Some s \<and> prefix (pt_buffer s) (pt_buffer s') \<and> (pt_closed s \<longrightarrow> pt_closed s')"
  shows "outgrows m (m\<lparr>pm_sessions := gm_put hid s' (pm_sessions m)\<rparr>)"
  using assms by (auto simp: outgrows_def update_conv)

lemma outgrows_close: "outgrows m (snd (pty_Close hid reason m))"
proof (cases "pty_lookup hid m")
  case (Inr s)
  then have "outgrows (detachForHandle hid m) ((detachForHandle hid m)\<lparr>pm_sessions := gm_put hid (s\<lparr>pt_statusReason := or_str reason (pt_statusReason s)\<rparr>) (pm_sessions m)\<rparr>)"
    using outgrows_put[of "detachForHandle hid m" hid s] by (simp add: pty_lookup_def detachForHandle_def pty_detach_def Let_def split: option.splits)
  moreover have "outgrows m (detachForHandle hid m)" by (rule outgrows_same) (simp_all add: detachForHandle_def pty_detach_def Let_def)
  ultimately show ?thesis using Inr outgrows_trans
    by (simp add: pty_Close_def Let_def pty_called_def outgrows_def detachForHandle_def pty_detach_def)
qed (simp add: pty_Close_def)

lemma outgrows_close_each: "outgrows m (snd (pty_close_each hids reason m))"
proof (induction hids reason m rule: pty_close_each.induct)
  case (2 hid hids reason m)
  show ?case
  proof (cases "pty_Close hid reason m")
    case (Pair r m')
    then have "outgrows m m'" using outgrows_close[of m hid reason] by simp
    then show ?thesis using Pair 2 by (cases r) (auto intro: outgrows_trans)
  qed
qed simp

lemma outgrows_start:
  assumes "gm_get (pm_sessions m) (''hdl_'' @ pe_Uuid e) = None"
  shows "outgrows m (snd (pty_Start e command opts m))"
  using assms unfolding pty_Start_def Let_def
  by (auto simp: pty_called_def outgrows_def update_conv split: option.splits sum.splits prod.splits)

lemma outgrows_write: "outgrows m (snd (pty_Write ctx answer hid text m))"
  by (auto simp: pty_Write_def pty_called_def intro!: outgrows_same split: sum.splits option.splits)

lemma outgrows_step: "pty_step m m' \<Longrightarrow> outgrows m m'"
proof (induction rule: pty_step.induct)
  case (capture m hid bytes)
  show ?case by (auto simp: captureOutput_def intro!: outgrows_put split: option.splits)
next
  case (exit m hid r now)
  show ?case by (auto simp: waitForExit_def exited_def Let_def intro!: outgrows_put split: option.splits)
next
  case (copy_input m ctx bytes failed answer hid)
  show ?case using outgrows_write[of m ctx answer hid bytes] by (auto simp: streamAttachedInput_def split: sum.splits prod.splits)
next
  case (resize m refused hid columns rows)
  show ?case by (auto simp: pty_Resize_def pty_called_def intro!: outgrows_same split: sum.splits option.splits)
next
  case (close_all m reason)
  have "outgrows m (detachAll m)" by (rule outgrows_same) (simp_all add: detachAll_def pty_detach_def Let_def)
  then show ?case using outgrows_trans outgrows_close_each by (simp add: pty_CloseAll_def Let_def)
next
  case (attach m uuid now hid aopts)
  show ?case by (auto simp: pty_Attach_def Let_def intro!: outgrows_same split: sum.splits)
next
  case (detach m aid)
  show ?case by (auto simp: pty_Detach_def intro!: outgrows_same split: option.splits)
qed (simp_all add: outgrows_start outgrows_write outgrows_close)

section \<open>What a reader gets\<close>

lemma pty_Read_part:
  assumes "gm_get (pm_sessions m) hid = Some s" and "pty_Read hid q m = Some (Inr r)" and "pq_Offset q < pd_NextOffset r"
  shows "pd_Data r = take (nat (pd_NextOffset r) - nat (pq_Offset q)) (drop (nat (pq_Offset q)) (pt_buffer s))
    \<and> nat (pq_Offset q) \<le> nat (pd_NextOffset r) \<and> 0 \<le> pd_NextOffset r \<and> pd_NextOffset r \<le> int (length (pt_buffer s))"
  using assms by (auto simp: pty_Read_def pty_lookup_def pty_read_range_def Let_def split: if_splits)

lemma pty_Read_rest:
  assumes "gm_get (pm_sessions m) hid = Some s" and "0 < pq_MaxBytes q" "pq_MaxBytes q < 2 ^ 62" "int (length (pt_buffer s)) < 2 ^ 62"
    and "int (length (pt_buffer s)) \<le> pq_Offset q + pq_MaxBytes q"
  shows "\<exists>r. pty_Read hid q m = Some (Inr r) \<and> pd_NextOffset r = int (length (pt_buffer s)) \<and> pd_Closed r = pt_closed s"
proof -
  define offset where "offset = (if pq_Offset q < 0 then 0 else if int (length (pt_buffer s)) < pq_Offset q then int (length (pt_buffer s)) else pq_Offset q)"
  have "in_int64 (offset + pq_MaxBytes q)" "int (length (pt_buffer s)) \<le> offset + pq_MaxBytes q" "offset \<le> int (length (pt_buffer s))"
    using assms by (auto simp: offset_def in_int64_def)
  moreover have "pty_read_range d q (int (length (pt_buffer s))) = (if wrap64 (offset + pq_MaxBytes q) < int (length (pt_buffer s))
      then (offset, wrap64 (offset + pq_MaxBytes q), True) else (offset, int (length (pt_buffer s)), False))" for d
    using assms(2) by (simp add: pty_read_range_def offset_def Let_def)
  ultimately show ?thesis using assms(1) by (simp add: pty_Read_def pty_lookup_def)
qed

text \<open>What the goroutine has written lies between the offset it began with and the one it has reached.\<close>

definition copied :: "int \<Rightarrow> pty_manager \<Rightarrow> out_stream \<Rightarrow> bool" where
  "copied from m so \<longleftrightarrow> (\<exists>s. gm_get (pm_sessions m) (os_HandleID so) = Some s
     \<and> os_Written so = take (nat (os_Offset so) - nat from) (drop (nat from) (pt_buffer s))
     \<and> (os_Offset so = from \<or> nat from \<le> nat (os_Offset so) \<and> 0 \<le> os_Offset so \<and> os_Offset so \<le> int (length (pt_buffer s))))"

lemma copied_grows:
  assumes "copied from m so" and "outgrows m m'"
  shows "copied from m' so"
proof -
  obtain s where s: "gm_get (pm_sessions m) (os_HandleID so) = Some s" "os_Written so = take (nat (os_Offset so) - nat from) (drop (nat from) (pt_buffer s))"
    "os_Offset so = from \<or> nat from \<le> nat (os_Offset so) \<and> 0 \<le> os_Offset so \<and> os_Offset so \<le> int (length (pt_buffer s))"
    using assms(1) unfolding copied_def by blast
  obtain s' more where s': "gm_get (pm_sessions m') (os_HandleID so) = Some s'" "pt_buffer s' = pt_buffer s @ more"
    using assms(2) s(1) unfolding outgrows_def by (metis prefixE)
  have "take (nat (os_Offset so) - nat from) (drop (nat from) (pt_buffer s')) = take (nat (os_Offset so) - nat from) (drop (nat from) (pt_buffer s))"
    using s(3) s'(2) by auto
  then show ?thesis using s s' unfolding copied_def by auto
qed

lemma copied_more:
  assumes "copied from m so" and "gm_get (pm_sessions m) (os_HandleID so) = Some s"
    and "pd_Data r = take (nat (pd_NextOffset r) - nat (os_Offset so)) (drop (nat (os_Offset so)) (pt_buffer s))"
    and "nat (os_Offset so) \<le> nat (pd_NextOffset r)" "0 \<le> pd_NextOffset r" "pd_NextOffset r \<le> int (length (pt_buffer s))"
  shows "copied from m (so\<lparr>os_Written := os_Written so @ pd_Data r, os_Offset := pd_NextOffset r\<rparr>)"
proof -
  have w: "os_Written so = take (nat (os_Offset so) - nat from) (drop (nat from) (pt_buffer s))" and o: "nat from \<le> nat (os_Offset so)"
    using assms(1,2) by (auto simp: copied_def)
  have "nat (pd_NextOffset r) - nat from = (nat (os_Offset so) - nat from) + (nat (pd_NextOffset r) - nat (os_Offset so))" using o assms(4) by simp
  then have "take (nat (pd_NextOffset r) - nat from) (drop (nat from) (pt_buffer s)) = os_Written so @ pd_Data r"
    using o by (simp only: take_add w assms(3) drop_drop) simp
  then show ?thesis using assms o by (auto simp: copied_def)
qed

lemma copied_running [simp]: "copied from m (so\<lparr>os_Running := b\<rparr>) = copied from m so"
  by (simp add: copied_def)

lemma copied_turn:
  assumes "streamAttachedOutput cancelled accepts m so = Some so'" and "copied from m so"
  shows "copied from m so' \<and> os_HandleID so' = os_HandleID so \<and> os_MaxBytes so' = os_MaxBytes so"
proof -
  let ?q = "\<lparr>pq_Offset = os_Offset so, pq_MaxBytes = os_MaxBytes so\<rparr>"
  obtain s where s: "gm_get (pm_sessions m) (os_HandleID so) = Some s" using assms(2) unfolding copied_def by blast
  have "copied from m (so\<lparr>os_Written := os_Written so @ pd_Data r, os_Offset := pd_NextOffset r\<rparr>)"
    if "pty_Read (os_HandleID so) ?q m = Some (Inr r)" "os_Offset so < pd_NextOffset r" for r
    by (rule copied_more[OF assms(2) s]) (use pty_Read_part[OF s that(1)] that(2) in simp_all)
  then show ?thesis using assms by (auto simp: streamAttachedOutput_def Let_def split: if_splits option.splits sum.splits)
qed

text \<open>
  C38. An attached writer gets the terminal's output, in order, without gaps and without repetition. From the
  moment an attachment starts, whatever callers and goroutines do to the manager and however often the
  writer refuses, what the writer has accepted is exactly the captured output between the requested offset
  and the offset reached. When the attachment still runs and what is left fits into one read, its next turn
  brings the writer up to date.
\<close>

theorem attached_output_exact:
  assumes "gm_get (pm_sessions m0) hid = Some s0" and "stream_step\<^sup>*\<^sup>* (m0, stream_start hid aopts m0) (m, so)"
  shows "\<exists>s. gm_get (pm_sessions m) hid = Some s
    \<and> os_Written so = take (nat (os_Offset so) - nat (ao_Offset aopts)) (drop (nat (ao_Offset aopts)) (pt_buffer s))
    \<and> (os_Running so \<and> 0 < os_MaxBytes so \<and> os_MaxBytes so < 2 ^ 62 \<and> int (length (pt_buffer s)) < 2 ^ 62
         \<and> int (length (pt_buffer s)) \<le> os_Offset so + os_MaxBytes so
       \<longrightarrow> (\<exists>so'. streamAttachedOutput False True m so = Some so' \<and> os_Written so' = drop (nat (ao_Offset aopts)) (pt_buffer s)))"
proof -
  have "copied (ao_Offset aopts) (fst z) (snd z) \<and> os_HandleID (snd z) = hid" if "stream_step\<^sup>*\<^sup>* (m0, stream_start hid aopts m0) z" for z
    using that
  proof (induction rule: rtranclp_induct)
    case base
    then show ?case using assms(1) by (simp add: copied_def stream_start_def)
  next
    case (step y z)
    from step(2,3) show ?case by (induction rule: stream_step.induct) (auto intro: copied_grows outgrows_step dest: copied_turn)
  qed
  from this[OF assms(2)] have c: "copied (ao_Offset aopts) m so" and hid: "os_HandleID so = hid" by simp_all
  then obtain s where s: "gm_get (pm_sessions m) hid = Some s"
    and w: "os_Written so = take (nat (os_Offset so) - nat (ao_Offset aopts)) (drop (nat (ao_Offset aopts)) (pt_buffer s))"
    and o: "os_Offset so = ao_Offset aopts \<or> nat (ao_Offset aopts) \<le> nat (os_Offset so) \<and> 0 \<le> os_Offset so \<and> os_Offset so \<le> int (length (pt_buffer s))"
    unfolding copied_def by blast
  have "\<exists>so'. streamAttachedOutput False True m so = Some so' \<and> os_Written so' = drop (nat (ao_Offset aopts)) (pt_buffer s)"
    if run: "os_Running so" and bounds: "0 < os_MaxBytes so" "os_MaxBytes so < 2 ^ 62" "int (length (pt_buffer s)) < 2 ^ 62"
      "int (length (pt_buffer s)) \<le> os_Offset so + os_MaxBytes so"
  proof -
    let ?q = "\<lparr>pq_Offset = os_Offset so, pq_MaxBytes = os_MaxBytes so\<rparr>"
    obtain r where r: "pty_Read hid ?q m = Some (Inr r)" "pd_NextOffset r = int (length (pt_buffer s))"
      using pty_Read_rest[OF s, of ?q] bounds by auto
    obtain so' where so': "streamAttachedOutput False True m so = Some so'"
      "os_Offset so' = (if os_Offset so < int (length (pt_buffer s)) then int (length (pt_buffer s)) else os_Offset so)"
      using run r hid by (auto simp: streamAttachedOutput_def Let_def)
    have "os_Written so' = take (nat (os_Offset so') - nat (ao_Offset aopts)) (drop (nat (ao_Offset aopts)) (pt_buffer s))"
      using copied_turn[OF so'(1) c] s hid by (auto simp: copied_def)
    then show ?thesis using so' o by (auto split: if_splits)
  qed
  then show ?thesis using s w by blast
qed


definition ex_pty_env :: pty_start_env where
  "ex_pty_env = \<lparr>pe_Ctx = None, pe_Now = 5, pe_Uuid = ''u'', pe_Spawn = Inr (3, 42)\<rparr>"

definition ex_pty_new :: pty_manager where
  "ex_pty_new = NewPTYManager \<lparr>po_ShellPath = [], po_DefaultColumns = 0, po_DefaultRows = 0, po_DefaultReadBytes = 0\<rparr>"

definition ex_pty :: pty_manager where
  "ex_pty = snd (pty_Start ex_pty_env ''cat'' \<lparr>pp_CWD = [], pp_Env = [(''A'', ''b'')], pp_Metadata = []\<rparr> ex_pty_new)"

definition ex_attach :: pty_attach_options where
  "ex_attach = \<lparr>ao_Input = None, ao_Output = True, ao_Offset = 1, ao_MaxBytes = 0\<rparr>"

theorem pty_manager_typed_witness: "pty_typed (captureOutput ''hdl_u'' ''hello'' ex_pty)"
proof (rule pty_manager_typed)
  have "pty_step ex_pty_new ex_pty" unfolding ex_pty_def by (rule pty_step.start) code_simp
  moreover have "pty_step ex_pty (captureOutput ''hdl_u'' ''hello'' ex_pty)" by (rule pty_step.capture)
  ultimately show "pty_step\<^sup>*\<^sup>* (NewPTYManager \<lparr>po_ShellPath = [], po_DefaultColumns = 0, po_DefaultRows = 0, po_DefaultReadBytes = 0\<rparr>)
      (captureOutput ''hdl_u'' ''hello'' ex_pty)"
    unfolding ex_pty_new_def[symmetric] by simp
qed

theorem attached_output_exact_witness:
  "\<exists>so'. streamAttachedOutput False True (captureOutput ''hdl_u'' ''hello'' ex_pty) (stream_start ''hdl_u'' ex_attach ex_pty) = Some so' \<and> os_Written so' = ''ello''"
proof -
  let ?m = "captureOutput ''hdl_u'' ''hello'' ex_pty" and ?so = "stream_start ''hdl_u'' ex_attach ex_pty"
  have "stream_step\<^sup>*\<^sup>* (ex_pty, ?so) (?m, ?so)" by (intro r_into_rtranclp stream_step.manager pty_step.capture)
  moreover have "gm_get (pm_sessions ex_pty) ''hdl_u'' \<noteq> None" by code_simp
  ultimately obtain s where s: "gm_get (pm_sessions ?m) ''hdl_u'' = Some s"
    and up: "os_Running ?so \<and> 0 < os_MaxBytes ?so \<and> os_MaxBytes ?so < 2 ^ 62 \<and> int (length (pt_buffer s)) < 2 ^ 62
         \<and> int (length (pt_buffer s)) \<le> os_Offset ?so + os_MaxBytes ?so
       \<longrightarrow> (\<exists>so'. streamAttachedOutput False True ?m ?so = Some so' \<and> os_Written so' = drop (nat (ao_Offset ex_attach)) (pt_buffer s))"
    using attached_output_exact[of ex_pty "''hdl_u''" _ ex_attach ?m ?so] by blast
  have "map_option pt_buffer (gm_get (pm_sessions ?m) ''hdl_u'') = Some ''hello''" by code_simp
  then have b: "pt_buffer s = ''hello''" using s by simp
  have "os_Running ?so" "os_MaxBytes ?so = 4096" "os_Offset ?so = 1" "ao_Offset ex_attach = 1" by code_simp+
  then show ?thesis using up b by simp
qed

text \<open>
  When the shell has exited, a reader of less than what is left stops after one more part: the rest of the
  captured output never reaches the writer.
\<close>

lemma attached_output_loses_tail:
  "map_option (\<lambda>so. (os_Written so, os_Running so)) (streamAttachedOutput False True (waitForExit ''hdl_u'' WaitOk 9 (captureOutput ''hdl_u'' ''hello'' ex_pty))
      (stream_start ''hdl_u'' (ex_attach\<lparr>ao_MaxBytes := 2\<rparr>) ex_pty)) = Some (''el'', False)"
  by code_simp

text \<open>A read of almost as many bytes as an \<^verbatim>\<open>int\<close> can count, from a positive offset, panics.\<close>

lemma pty_Read_panics: "pty_Read ''hdl_u'' \<lparr>pq_Offset = 1, pq_MaxBytes = 2 ^ 63 - 1\<rparr> (captureOutput ''hdl_u'' ''hello'' ex_pty) = None"
  by code_simp

text \<open>A shell that exits by itself is reported as closed, for the reason that it is active.\<close>

lemma exited_reason_active:
  "map_sum id (\<lambda>i. (pn_Status i, pn_StatusReason i)) (pty_Inspect ''hdl_u'' (waitForExit ''hdl_u'' WaitOk 9 ex_pty)) = Inr (''closed'', ''pty session active'')"
  by code_simp

end
