(* ===== verification/Shell.thy ===== *)
theory Shell
  imports Pty Permission
begin

text \<open>
  The shell tool: \<^verbatim>\<open>src/pkg/harness/executor/shell\<close> (contracts.go, pipe.go) and \<^verbatim>\<open>src/modules/shell\<close> module.go and
  pty_verify.go. A request passes a sandbox hook and goes to one of two backends: one runs the command and
  waits, the other starts a terminal. The properties are about what may be run at all: the guard on paths
  and working directories is exact on path components, and the hook is always asked.
\<close>

section \<open>Paths\<close>

text \<open>
  \<^verbatim>\<open>filepath.Clean\<close> on a system with slashes: empty components and dots disappear, a double dot takes away the
  component before it, or itself at the root.
\<close>

definition clean_step :: "bool \<Rightarrow> string list \<Rightarrow> string \<Rightarrow> string list" where
  "clean_step rooted acc p =
     (if p = [] \<or> p = ''.'' then acc
      else if p = ''..'' then
        (case acc of
           [] \<Rightarrow> if rooted then [] else [p]
         | q # qs \<Rightarrow> if q = ''..'' then p # acc else qs)
      else p # acc)"

definition IsAbs :: "string \<Rightarrow> bool" where
  "IsAbs path \<longleftrightarrow> has_prefix path ''/''"

definition path_parts :: "string \<Rightarrow> string list" where
  "path_parts path = rev (foldl (clean_step (IsAbs path)) [] (split_on (CHR ''/'') path))"

fun join_slash :: "string list \<Rightarrow> string" where
  "join_slash [] = []"
| "join_slash [p] = p"
| "join_slash (p # q # ps) = p @ CHR ''/'' # join_slash (q # ps)"

definition filepath_Clean :: "string \<Rightarrow> string" where
  "filepath_Clean path =
     (if IsAbs path then CHR ''/'' # join_slash (path_parts path)
      else if path_parts path = [] then ''.'' else join_slash (path_parts path))"

definition filepath_Abs :: "goerr + string \<Rightarrow> string \<Rightarrow> goerr + string" where
  "filepath_Abs getwd path = (if IsAbs path then Inr (filepath_Clean path)
     else case getwd of Inl e \<Rightarrow> Inl e | Inr wd \<Rightarrow> Inr (filepath_Clean (wd @ CHR ''/'' # path)))"

definition strings_Fields :: "string \<Rightarrow> string list" where
  "strings_Fields s = filter (\<lambda>w. w \<noteq> []) (split_on (CHR '' '') (map (\<lambda>c. if is_space c then CHR '' '' else c) s))"

section \<open>Running a command\<close>

record pipe_executor =
  pc_MaxOutputBytes :: int
  pc_AllowedCWDPrefixes :: "string list"
  pc_AllowedPathPrefixes :: "string list"

text \<open>The ends of a command, with the texts of the errors, and what the operating system answers.\<close>

datatype run_end = RunOk | RunTimedOut string | RunExit int string | RunFailed string

record pipe_run =
  pu_Stdout :: string
  pu_Stderr :: string
  pu_End :: run_end
  pu_Duration :: int

record pipe_env =
  pv_Getwd :: "goerr + string"
  pv_Run :: "string \<Rightarrow> string \<Rightarrow> int \<Rightarrow> pipe_run"

record truncation_meta =
  tm_truncated :: bool
  tm_originalBytes :: int
  tm_returnedBytes :: int

definition maxOutputBytes :: "pipe_executor \<Rightarrow> int" where
  "maxOutputBytes e = (if 0 < pc_MaxOutputBytes e then pc_MaxOutputBytes e else 16 * 1024)"

definition truncateOutput :: "string \<Rightarrow> int \<Rightarrow> string \<times> truncation_meta" where
  "truncateOutput text maxBytes =
     (let n = int (length text) in
      if maxBytes \<le> 0 \<or> n \<le> maxBytes then (text, \<lparr>tm_truncated = False, tm_originalBytes = n, tm_returnedBytes = n\<rparr>)
      else (take (nat maxBytes) text, \<lparr>tm_truncated = True, tm_originalBytes = n, tm_returnedBytes = maxBytes\<rparr>))"

definition hasAllowedPrefix :: "string \<Rightarrow> string list \<Rightarrow> bool" where
  "hasAllowedPrefix target allowed =
     list_ex (\<lambda>p. p \<noteq> [] \<and> (filepath_Clean target = filepath_Clean p \<or> has_prefix (filepath_Clean target) (filepath_Clean p @ ''/''))) allowed"

definition firstCommandPath :: "string \<Rightarrow> string" where
  "firstCommandPath command = (case strings_Fields (trim_space command) of
     [] \<Rightarrow> [] | f # _ \<Rightarrow> if IsAbs f then filepath_Clean f else [])"

definition blocked_result :: "meta \<Rightarrow> string \<Rightarrow> string \<Rightarrow> action_result" where
  "blocked_result data code message = \<lparr>ar_OK = False, ar_Data = data, ar_Meta = [], ar_Error = Some \<lparr>ae_Code = code, ae_Message = message\<rparr>\<rparr>"

definition validatePaths :: "pipe_executor \<Rightarrow> goerr + string \<Rightarrow> string \<Rightarrow> string \<Rightarrow> action_result option" where
  "validatePaths e getwd command cwd =
     (if cwd \<noteq> [] \<and> pc_AllowedCWDPrefixes e \<noteq> []
         \<and> (case filepath_Abs getwd cwd of Inl _ \<Rightarrow> True | Inr absCWD \<Rightarrow> \<not> hasAllowedPrefix absCWD (pc_AllowedCWDPrefixes e))
      then Some (blocked_result [(''cwd'', VStr cwd), (''status'', VStr ''blocked'')] ''CWD_NOT_ALLOWED'' ''cwd is outside the allowed prefixes'')
      else if firstCommandPath command \<noteq> [] \<and> pc_AllowedPathPrefixes e \<noteq> [] \<and> \<not> hasAllowedPrefix (firstCommandPath command) (pc_AllowedPathPrefixes e)
      then Some (blocked_result [(''command'', VStr command), (''status'', VStr ''blocked'')] ''COMMAND_PATH_NOT_ALLOWED'' ''command path is outside the allowed prefixes'')
      else None)"

text \<open>How a run is reported: status, exit code and error.\<close>

fun run_report :: "run_end \<Rightarrow> string \<times> int \<times> action_error option" where
  "run_report RunOk = (''completed'', 0, None)"
| "run_report (RunTimedOut t) = (''timed_out'', - 1, Some \<lparr>ae_Code = ''COMMAND_TIMED_OUT'', ae_Message = t\<rparr>)"
| "run_report (RunExit c t) = (''failed'', c, Some \<lparr>ae_Code = ''COMMAND_EXIT_NONZERO'', ae_Message = t\<rparr>)"
| "run_report (RunFailed t) = (''start_failed'', - 1, Some \<lparr>ae_Code = ''COMMAND_START_FAILED'', ae_Message = t\<rparr>)"

definition truncation_entries :: "string \<Rightarrow> truncation_meta \<Rightarrow> meta" where
  "truncation_entries name tm = [(name @ ''_truncated'', VBool (tm_truncated tm)), (name @ ''_original_bytes'', VInt (tm_originalBytes tm)),
     (name @ ''_returned_bytes'', VInt (tm_returnedBytes tm))]"

text \<open>The result, and the command, directory and time limit handed to the operating system, if any.\<close>

definition PipeExecutor_Execute :: "pipe_executor \<Rightarrow> pipe_env \<Rightarrow> shell_request \<Rightarrow> action_result \<times> (string \<times> string \<times> int) option" where
  "PipeExecutor_Execute e v q =
     (let command = sq_Command q; cwd = sq_CWD q in
      if command = [] then (blocked_result [] ''MISSING_COMMAND'' ''command is required'', None)
      else case validatePaths e (pv_Getwd v) command cwd of Some r \<Rightarrow> (r, None)
      | None \<Rightarrow>
          let timeoutMS = (if sq_TimeoutMS q \<le> 0 then 30000 else sq_TimeoutMS q);
              limit = wrap64 (timeoutMS * 1000000);
              run = pv_Run v command cwd limit;
              (status, exitCode, err) = run_report (pu_End run);
              (out, outMeta) = truncateOutput (pu_Stdout run) (maxOutputBytes e);
              (errOut, errMeta) = truncateOutput (pu_Stderr run) (maxOutputBytes e)
          in (\<lparr>ar_OK = (err = None),
               ar_Data = [(''mode'', VStr ''pipe''), (''command'', VStr command), (''cwd'', VStr cwd), (''stdout'', VStr out), (''stderr'', VStr errOut),
                 (''exit_code'', VInt exitCode), (''status'', VStr status)],
               ar_Meta = (''duration_ms'', VInt64 (pu_Duration run)) # truncation_entries ''stdout'' outMeta @ truncation_entries ''stderr'' errMeta,
               ar_Error = err\<rparr>, Some (command, cwd, limit)))"

definition PipeExecutor_Invoke :: "pipe_executor \<Rightarrow> pipe_env \<Rightarrow> meta \<Rightarrow> action_result \<times> (string \<times> string \<times> int) option" where
  "PipeExecutor_Invoke e v args = PipeExecutor_Execute e v
     \<lparr>sq_Mode = as_string (gm_get args ''mode''), sq_Command = as_string (gm_get args ''command''), sq_CWD = as_string (gm_get args ''cwd''),
      sq_Env = [], sq_TimeoutMS = or_zero (int64_case (gm_get args ''timeout_ms'')), sq_Metadata = []\<rparr>"

section \<open>The handler of the tool\<close>

record sandbox_decision =
  sd_Action :: string
  sd_Reason :: string
  sd_Meta :: meta

text \<open>A backend acts on a state of its own; the hook decides before and judges after.\<close>

type_synonym 's backend = "shell_request \<Rightarrow> 's \<Rightarrow> (action_result \<times> goerr option) \<times> 's"

record 's shell_handler =
  sh_backend :: "'s backend option"
  sh_ptyBackend :: "'s backend option"
  sh_BeforeExecute :: "shell_request \<Rightarrow> goerr + sandbox_decision"
  sh_AfterExecute :: "shell_request \<Rightarrow> action_result \<Rightarrow> goerr option"

definition NoopBefore :: "shell_request \<Rightarrow> goerr + sandbox_decision" where
  "NoopBefore q = Inr \<lparr>sd_Action = ''allow'', sd_Reason = ''no sandbox hook configured'', sd_Meta = []\<rparr>"

definition asAnyMap :: "gval option \<Rightarrow> meta" where
  "asAnyMap v = (case v of Some (VMap m) \<Rightarrow> m | _ \<Rightarrow> [])"

definition shell_request_of :: "meta \<Rightarrow> shell_request" where
  "shell_request_of args =
     \<lparr>sq_Mode = or_str (as_string (gm_get args ''mode'')) ''pipe'', sq_Command = as_string (gm_get args ''command''),
      sq_CWD = as_string (gm_get args ''cwd''), sq_Env = asAnyMap (gm_get args ''env''),
      sq_TimeoutMS = or_zero (int64_case (gm_get args ''timeout_ms'')), sq_Metadata = asAnyMap (gm_get args ''metadata'')\<rparr>"

definition shell_Invoke :: "(goerr \<Rightarrow> string) \<Rightarrow> 's shell_handler \<Rightarrow> meta \<Rightarrow> 's \<Rightarrow> (action_result \<times> goerr option) \<times> 's" where
  "shell_Invoke errText h args st =
     (let q = shell_request_of args in
      case sh_BeforeExecute h q of
        Inl e \<Rightarrow> ((blocked_result [] ''SANDBOX_HOOK_FAILED'' (errText e), None), st)
      | Inr d \<Rightarrow>
          if sd_Action d \<noteq> ''allow'' then ((blocked_result [(''sandbox_action'', VStr (sd_Action d))] ''SANDBOX_BLOCKED'' (sd_Reason d), None), st)
          else case (if sq_Mode q = ''pty'' then sh_ptyBackend h else sh_backend h) of
            None \<Rightarrow> ((blocked_result [] ''SHELL_MODE_UNSUPPORTED'' (sq_Mode q), None), st)
          | Some backend \<Rightarrow>
              (case backend q st of
                 ((result, Some e), st') \<Rightarrow> ((result, Some e), st')
               | ((result, None), st') \<Rightarrow>
                   (case sh_AfterExecute h q result of
                      None \<Rightarrow> ((result, None), st')
                    | Some e \<Rightarrow> ((result\<lparr>ar_Error := Some \<lparr>ae_Code = ''SANDBOX_AFTER_HOOK_FAILED'', ae_Message = errText e\<rparr>, ar_OK := False\<rparr>, None), st'))))"

definition shell_DefaultPolicyRules :: "rule list" where
  "shell_DefaultPolicyRules =
     [\<lparr>ru_Permission = ''shell.exec'', ru_Pattern = ''mode=pipe'', ru_Action = Allow\<rparr>,
      \<lparr>ru_Permission = ''shell.exec'', ru_Pattern = ''mode=pty'', ru_Action = Ask\<rparr>,
      \<lparr>ru_Permission = ''shell.exec'', ru_Pattern = ''*'', ru_Action = Ask\<rparr>]"

section \<open>Verifiers of terminals\<close>

text \<open>
  The inspector is an interface. The \<open>n\<close>-th question sees the terminals at index \<open>n\<close>; a read may panic. The
  environment says after how many turns a deadline is noticed, and whether the context has ended.
\<close>

record pty_inspector =
  iq_Inspect :: "nat \<Rightarrow> string \<Rightarrow> goerr + pty_inspect_result"
  iq_Read :: "nat \<Rightarrow> string \<Rightarrow> pty_read_request \<Rightarrow> (goerr + pty_read_result) option"

record pty_check_env =
  iv_Turns :: "int \<Rightarrow> nat"
  iv_Done :: "nat \<Rightarrow> goerr option"
  iv_ErrText :: "goerr \<Rightarrow> string"

definition manager_inspector :: "(nat \<Rightarrow> pty_manager) \<Rightarrow> pty_inspector" where
  "manager_inspector ms = \<lparr>iq_Inspect = \<lambda>n hid. pty_Inspect hid (ms n), iq_Read = \<lambda>n hid q. pty_Read hid q (ms n)\<rparr>"

definition ptyHandleIDFromValue :: "gval \<Rightarrow> string" where
  "ptyHandleIDFromValue raw = (case raw of
     VStruct ty fs \<Rightarrow> if ty = ''execution.RuntimeHandle'' \<or> ty = ''*execution.RuntimeHandle'' then as_string (gm_get fs ''HandleID'') else []
   | VMap m \<Rightarrow> as_string (gm_get m ''handle_id'')
   | VStr s \<Rightarrow> s
   | _ \<Rightarrow> [])"

fun first_handle_id :: "gval list \<Rightarrow> string" where
  "first_handle_id [] = []"
| "first_handle_id (v # vs) = (if ptyHandleIDFromValue v \<noteq> [] then ptyHandleIDFromValue v else first_handle_id vs)"

text \<open>Slices of handles, of pointers to handles and of maps hold their items in the field \<open>items\<close>.\<close>

definition ptyHandleIDFromSlice :: "gval \<Rightarrow> string" where
  "ptyHandleIDFromSlice raw = (case raw of
     VList xs \<Rightarrow> first_handle_id xs
   | VStruct ty fs \<Rightarrow>
       if ty = ''[]execution.RuntimeHandle'' \<or> ty = ''[]*execution.RuntimeHandle'' \<or> ty = ''[]map[string]any''
       then (case gm_get fs ''items'' of Some (VList xs) \<Rightarrow> first_handle_id xs | _ \<Rightarrow> []) else []
   | _ \<Rightarrow> [])"

definition ptyHandleAndOffsetFromShellStream :: "gval \<Rightarrow> string \<times> int" where
  "ptyHandleAndOffsetFromShellStream raw = (case raw of
     VStruct ty fs \<Rightarrow> if ty = ''shellmodule.PTYStreamInfo'' \<or> ty = ''*shellmodule.PTYStreamInfo''
                     then (as_string (gm_get fs ''HandleID''), or_zero (int64_case (gm_get fs ''NextOffset''))) else ([], 0)
   | VMap m \<Rightarrow> (as_string (gm_get m ''handle_id''), or_zero (int64_case (gm_get m ''next_offset'')))
   | _ \<Rightarrow> ([], 0))"

definition ptyHandleRefFromResult :: "action_result \<Rightarrow> (string \<times> int) option" where
  "ptyHandleRefFromResult r =
     (let stream = (case gm_get (ar_Data r) ''shell_stream'' of Some raw \<Rightarrow> ptyHandleAndOffsetFromShellStream raw | None \<Rightarrow> ([], 0));
          handle = (case gm_get (ar_Data r) ''runtime_handle'' of Some raw \<Rightarrow> ptyHandleIDFromValue raw | None \<Rightarrow> []);
          handles = (case gm_get (ar_Data r) ''runtime_handles'' of Some raw \<Rightarrow> ptyHandleIDFromSlice raw | None \<Rightarrow> [])
      in if fst stream \<noteq> [] then Some stream else if handle \<noteq> [] then Some (handle, 0) else if handles \<noteq> [] then Some (handles, 0) else None)"

definition ptyTimeoutFromArgs :: "meta \<Rightarrow> int" where
  "ptyTimeoutFromArgs args = (case int64_case (gm_get args ''timeout_ms'') of
     Some v \<Rightarrow> if 0 < v then wrap64 (v * 1000000) else 1000000000 | None \<Rightarrow> 1000000000)"

abbreviation "missing_handle \<equiv> refuse ''result missing PTY handle id'' []"

definition PTYHandleActiveChecker :: "pty_inspector option \<Rightarrow> pty_check_env \<Rightarrow> action_result \<Rightarrow> verify_result" where
  "PTYHandleActiveChecker insp env r = (case insp of
     None \<Rightarrow> refuse ''pty inspector not configured'' []
   | Some i \<Rightarrow>
       (case ptyHandleRefFromResult r of None \<Rightarrow> missing_handle
        | Some (hid, _) \<Rightarrow>
            (case iq_Inspect i 0 hid of Inl e \<Rightarrow> refuse (iv_ErrText env e) []
             | Inr x \<Rightarrow> \<lparr>vr_Success = \<not> pn_Closed x,
                 vr_Details = [(''handle_id'', VStr hid), (''closed'', VBool (pn_Closed x)), (''status'', VStr (pn_Status x))],
                 vr_Reason = (if pn_Closed x then ''pty handle is not active'' else ''pty handle is active'')\<rparr>)))"

text \<open>The loop that looks for a text; \<open>turns\<close> are left before the deadline is noticed, \<open>None\<close> is a panic.\<close>

fun contains_loop :: "pty_inspector \<Rightarrow> pty_check_env \<Rightarrow> string \<Rightarrow> string \<Rightarrow> int \<Rightarrow> int \<Rightarrow> string \<Rightarrow> nat \<Rightarrow> nat \<Rightarrow> (verify_result \<times> goerr option) option" where
  "contains_loop i env hid needle maxBytes offset seen n turns =
     (case iq_Read i n hid \<lparr>pq_Offset = offset, pq_MaxBytes = maxBytes\<rparr> of
        None \<Rightarrow> None
      | Some (Inl e) \<Rightarrow> Some (refuse (iv_ErrText env e) [], None)
      | Some (Inr r) \<Rightarrow>
          let seen' = (if offset < pd_NextOffset r then seen @ pd_Data r else seen);
              offset' = (if offset < pd_NextOffset r then pd_NextOffset r else offset)
          in if sublist needle seen' then
               Some (\<lparr>vr_Success = True, vr_Details = [(''handle_id'', VStr hid), (''text'', VStr needle), (''next_offset'', VInt64 offset')],
                      vr_Reason = ''text found in PTY stream''\<rparr>, None)
             else if pd_Closed r \<or> turns = 0 then
               Some (refuse ''text not found in PTY stream'' [(''handle_id'', VStr hid), (''text'', VStr needle)], None)
             else (case iv_Done env n of
                Some e \<Rightarrow> Some (refuse (iv_ErrText env e) [], Some e)
              | None \<Rightarrow> contains_loop i env hid needle maxBytes offset' seen' (Suc n) (turns - 1)))"

declare contains_loop.simps [simp del]

definition PTYStreamContainsChecker :: "pty_inspector option \<Rightarrow> pty_check_env \<Rightarrow> meta \<Rightarrow> action_result \<Rightarrow> (verify_result \<times> goerr option) option" where
  "PTYStreamContainsChecker insp env args r = (case insp of
     None \<Rightarrow> Some (refuse ''pty inspector not configured'' [], None)
   | Some i \<Rightarrow>
       let needle = as_string (gm_get args ''text'') in
       if needle = [] then Some (refuse ''missing text'' [], None)
       else (case ptyHandleRefFromResult r of None \<Rightarrow> Some (missing_handle, None)
             | Some (hid, start) \<Rightarrow>
                 let offset = (case int64_case (gm_get args ''offset'') of Some v \<Rightarrow> if 0 \<le> v then v else start | None \<Rightarrow> start);
                     maxBytes = (case int64_case (gm_get args ''max_bytes'') of Some v \<Rightarrow> if 0 < v then v else 4096 | None \<Rightarrow> 4096)
                 in contains_loop i env hid needle maxBytes offset [] 0 (iv_Turns env (ptyTimeoutFromArgs args))))"

fun exit_loop :: "pty_inspector \<Rightarrow> pty_check_env \<Rightarrow> string \<Rightarrow> gval list \<Rightarrow> nat \<Rightarrow> nat \<Rightarrow> verify_result \<times> goerr option" where
  "exit_loop i env hid allowed n turns =
     (case iq_Inspect i n hid of
        Inl e \<Rightarrow> (refuse (iv_ErrText env e) [], None)
      | Inr x \<Rightarrow>
          if pn_Closed x then
            (let details = [(''handle_id'', VStr hid), (''exit_code'', VInt (pn_ExitCode x))] in
             if \<exists>v \<in> set allowed. int64_case (Some v) = Some (pn_ExitCode x)
             then (\<lparr>vr_Success = True, vr_Details = details, vr_Reason = ''PTY exit code allowed''\<rparr>, None)
             else (refuse (''exit_code '' @ int_digits (pn_ExitCode x) @ '' not allowed'') details, None))
          else if turns = 0 then (refuse ''PTY did not exit before timeout'' [(''handle_id'', VStr hid)], None)
          else (case iv_Done env n of
             Some e \<Rightarrow> (refuse (iv_ErrText env e) [], Some e)
           | None \<Rightarrow> exit_loop i env hid allowed (Suc n) (turns - 1)))"

declare exit_loop.simps [simp del]

definition PTYExitCodeChecker :: "pty_inspector option \<Rightarrow> pty_check_env \<Rightarrow> meta \<Rightarrow> action_result \<Rightarrow> verify_result \<times> goerr option" where
  "PTYExitCodeChecker insp env args r = (case insp of
     None \<Rightarrow> (refuse ''pty inspector not configured'' [], None)
   | Some i \<Rightarrow>
       (case gm_get args ''allowed'' of
          None \<Rightarrow> (refuse ''missing allowed exit codes'' [], None)
        | Some (VList allowed) \<Rightarrow>
            (case ptyHandleRefFromResult r of None \<Rightarrow> (missing_handle, None)
             | Some (hid, _) \<Rightarrow> exit_loop i env hid allowed 0 (iv_Turns env (ptyTimeoutFromArgs args)))
        | Some _ \<Rightarrow> (refuse ''allowed must be an array'' [], None)))"

section \<open>The guard on paths\<close>

definition plain_part :: "string \<Rightarrow> bool" where
  "plain_part p \<longleftrightarrow> p \<noteq> [] \<and> CHR ''/'' \<notin> set p"

lemma split_on_no_sep: "p \<in> set (split_on c s) \<Longrightarrow> c \<notin> set p"
  by (induction c s arbitrary: p rule: split_on.induct) (auto split: if_splits list.splits)

lemma clean_step_plain: "CHR ''/'' \<notin> set p \<Longrightarrow> \<forall>q \<in> set acc. plain_part q \<Longrightarrow> \<forall>q \<in> set (clean_step rooted acc p). plain_part q"
  by (cases acc) (simp_all add: clean_step_def plain_part_def)

lemma clean_plain:
  "\<forall>p \<in> set ps. CHR ''/'' \<notin> set p \<Longrightarrow> \<forall>q \<in> set acc. plain_part q \<Longrightarrow> \<forall>q \<in> set (foldl (clean_step rooted) acc ps). plain_part q"
proof (induction ps arbitrary: acc)
  case (Cons p ps)
  then show ?case using clean_step_plain[of p acc rooted] by simp
qed simp

lemma path_parts_plain: "p \<in> set (path_parts path) \<Longrightarrow> plain_part p"
  using clean_plain[of "split_on (CHR ''/'') path" "[]"] split_on_no_sep[of _ "CHR ''/''" path] by (simp add: path_parts_def)

lemma split_join: "ps \<noteq> [] \<Longrightarrow> \<forall>p \<in> set ps. CHR ''/'' \<notin> set p \<Longrightarrow> split_on (CHR ''/'') (join_slash ps) = ps"
  by (induction ps rule: join_slash.induct) (simp_all add: split_on_single split_on_append)

lemma split_append: "split_on c (xs @ c # ys) = split_on c xs @ split_on c ys"
proof (induction xs)
  case (Cons x xs)
  have "split_on c xs \<noteq> []" by (cases xs) (auto split: list.splits)
  then show ?case using Cons by (auto split: list.splits)
qed simp

lemma join_slash_append: "ps \<noteq> [] \<Longrightarrow> qs \<noteq> [] \<Longrightarrow> join_slash (ps @ qs) = join_slash ps @ CHR ''/'' # join_slash qs"
  by (induction ps rule: join_slash.induct) (simp_all add: neq_Nil_conv, auto)

lemma join_eq:
  assumes "\<forall>p \<in> set ps. plain_part p" and "\<forall>p \<in> set qs. plain_part p"
  shows "join_slash ps = join_slash qs \<longleftrightarrow> ps = qs"
proof
  have empty: "join_slash xs = [] \<Longrightarrow> \<forall>p \<in> set xs. plain_part p \<Longrightarrow> xs = []" for xs by (cases xs rule: join_slash.cases) (auto simp: plain_part_def)
  assume "join_slash ps = join_slash qs"
  then have "ps = [] \<longleftrightarrow> qs = []" using empty[OF _ assms(1)] empty[OF _ assms(2)] by auto
  moreover have "ps \<noteq> [] \<Longrightarrow> split_on (CHR ''/'') (join_slash ps) = ps" "qs \<noteq> [] \<Longrightarrow> split_on (CHR ''/'') (join_slash qs) = qs"
    using assms by (simp_all add: split_join plain_part_def)
  ultimately show "ps = qs" using \<open>join_slash ps = join_slash qs\<close> by metis
qed simp

lemma join_under:
  assumes "\<forall>p \<in> set ps. plain_part p" and "\<forall>p \<in> set qs. plain_part p" and "ps \<noteq> []"
  shows "(\<exists>rest. join_slash qs = join_slash ps @ CHR ''/'' # rest) \<longleftrightarrow> strict_prefix ps qs"
proof
  assume "\<exists>rest. join_slash qs = join_slash ps @ CHR ''/'' # rest"
  then obtain rest where r: "join_slash qs = join_slash ps @ CHR ''/'' # rest" by blast
  then have "qs \<noteq> []" by auto
  then have "qs = split_on (CHR ''/'') (join_slash ps @ CHR ''/'' # rest)" using split_join[of qs] r assms(2) by (simp add: plain_part_def)
  also have "\<dots> = ps @ split_on (CHR ''/'') rest" using split_join[of ps] assms by (simp add: split_append plain_part_def)
  finally have "qs = ps @ split_on (CHR ''/'') rest" .
  moreover have "split_on (CHR ''/'') rest \<noteq> []" by (cases rest) (auto split: list.splits)
  ultimately show "strict_prefix ps qs" by (auto simp: strict_prefix_def prefix_def)
next
  assume "strict_prefix ps qs"
  then obtain rest where "qs = ps @ rest" "rest \<noteq> []" unfolding strict_prefix_def prefix_def by auto
  then show "\<exists>rest. join_slash qs = join_slash ps @ CHR ''/'' # rest" using join_slash_append[OF assms(3)] by auto
qed

text \<open>A path lies within another: the same, or below it; below the root itself nothing is found.\<close>

definition lies_within :: "string \<Rightarrow> string \<Rightarrow> bool" where
  "lies_within target p \<longleftrightarrow> IsAbs p \<and> (if path_parts p = [] then path_parts target = [] else prefix (path_parts p) (path_parts target))"

lemma join_slash_hd: "\<forall>p \<in> set ps. plain_part p \<Longrightarrow> ps \<noteq> [] \<Longrightarrow> \<exists>c cs. join_slash ps = c # cs \<and> c \<noteq> CHR ''/''"
  by (cases ps rule: join_slash.cases) (auto simp: plain_part_def neq_Nil_conv)

lemma has_prefix_iff: "has_prefix s p \<longleftrightarrow> (\<exists>rest. s = p @ rest)"
  by (metis has_prefix_def append_eq_conv_conj append_take_drop_id)

lemma allowed_by:
  assumes "IsAbs target"
  shows "filepath_Clean target = filepath_Clean p \<or> has_prefix (filepath_Clean target) (filepath_Clean p @ ''/'') \<longleftrightarrow> lies_within target p"
proof (cases "IsAbs p")
  case True
  have pl: "\<forall>q \<in> set (path_parts p). plain_part q" "\<forall>q \<in> set (path_parts target). plain_part q" using path_parts_plain by blast+
  have "has_prefix (filepath_Clean target) (filepath_Clean p @ ''/'') \<longleftrightarrow> (\<exists>rest. join_slash (path_parts target) = join_slash (path_parts p) @ CHR ''/'' # rest)"
    using assms True by (simp add: has_prefix_iff filepath_Clean_def)
  moreover have "filepath_Clean target = filepath_Clean p \<longleftrightarrow> path_parts target = path_parts p"
    using assms True join_eq[OF pl(2,1)] by (simp add: filepath_Clean_def)
  moreover have "path_parts p = [] \<Longrightarrow> \<not> (\<exists>rest. join_slash (path_parts target) = join_slash (path_parts p) @ CHR ''/'' # rest)"
    using join_slash_hd[OF pl(2)] by (cases "path_parts target = []") auto
  ultimately show ?thesis using True join_under[OF pl] by (auto simp: lies_within_def strict_prefix_def)
next
  case False
  have "\<exists>c cs. filepath_Clean p = c # cs \<and> c \<noteq> CHR ''/''"
    using False join_slash_hd[of "path_parts p"] path_parts_plain[of _ p] by (auto simp: filepath_Clean_def)
  then show ?thesis using assms False by (auto simp: lies_within_def has_prefix_iff filepath_Clean_def)
qed

lemma hasAllowedPrefix_iff: "IsAbs target \<Longrightarrow> hasAllowedPrefix target allowed \<longleftrightarrow> (\<exists>p \<in> set allowed. p \<noteq> [] \<and> lies_within target p)"
  by (auto simp: hasAllowedPrefix_def list_ex_iff allowed_by)

text \<open>Cleaning twice is cleaning once.\<close>

definition normal_part :: "string \<Rightarrow> bool" where
  "normal_part p \<longleftrightarrow> p \<noteq> [] \<and> p \<noteq> ''.'' \<and> p \<noteq> ''..''"

lemma clean_keeps: "\<forall>p \<in> set ps. normal_part p \<Longrightarrow> foldl (clean_step rooted) acc ps = rev ps @ acc"
  by (induction ps arbitrary: acc) (simp_all add: clean_step_def normal_part_def)

lemma clean_step_normal: "\<forall>q \<in> set acc. normal_part q \<Longrightarrow> \<forall>q \<in> set (clean_step True acc p). normal_part q"
proof -
  assume a: "\<forall>q \<in> set acc. normal_part q"
  consider "normal_part p" | "p = [] \<or> p = ''.''" | "p = ''..''" by (auto simp: normal_part_def)
  then show ?thesis using a by cases (cases acc; simp add: clean_step_def normal_part_def)+
qed

lemma clean_normal: "\<forall>q \<in> set acc. normal_part q \<Longrightarrow> \<forall>q \<in> set (foldl (clean_step True) acc ps). normal_part q"
proof (induction ps arbitrary: acc)
  case (Cons p ps)
  then show ?case using clean_step_normal[of acc p] by simp
qed simp

lemma path_parts_clean:
  assumes "IsAbs path"
  shows "IsAbs (filepath_Clean path) \<and> path_parts (filepath_Clean path) = path_parts path"
proof -
  have clean: "filepath_Clean path = CHR ''/'' # join_slash (path_parts path)" using assms by (simp add: filepath_Clean_def)
  then have a: "IsAbs (filepath_Clean path)" by (simp add: IsAbs_def has_prefix_def)
  have n: "\<forall>p \<in> set (path_parts path). normal_part p"
    using clean_normal[of "[]"] assms by (simp add: path_parts_def)
  have "split_on (CHR ''/'') (filepath_Clean path) = [] # (if path_parts path = [] then [[]] else path_parts path)"
    using split_join[of "path_parts path"] path_parts_plain[of _ path] clean by (simp add: plain_part_def)
  then show ?thesis using a clean_keeps[OF n, of True "[]"]
    by (cases "path_parts path = []") (simp_all add: path_parts_def[of "filepath_Clean path"] clean_step_def)
qed

text \<open>The directory and the program a request names, as absolute paths; a program named without one is not looked at.\<close>

definition cwd_path :: "goerr + string \<Rightarrow> string \<Rightarrow> string option" where
  "cwd_path getwd cwd = (if IsAbs cwd then Some cwd else case getwd of Inl _ \<Rightarrow> None | Inr wd \<Rightarrow> Some (wd @ CHR ''/'' # cwd))"

definition program_path :: "string \<Rightarrow> string option" where
  "program_path command = (case strings_Fields (trim_space command) of [] \<Rightarrow> None | f # _ \<Rightarrow> if IsAbs f then Some f else None)"

definition allowed_path :: "string list \<Rightarrow> string \<Rightarrow> bool" where
  "allowed_path allowed path \<longleftrightarrow> (\<exists>p \<in> set allowed. p \<noteq> [] \<and> lies_within path p)"

lemma clean_nonempty: "IsAbs path \<Longrightarrow> filepath_Clean path \<noteq> []"
  by (simp add: filepath_Clean_def)

lemma allowed_clean: "IsAbs path \<Longrightarrow> hasAllowedPrefix (filepath_Clean path) allowed \<longleftrightarrow> allowed_path allowed path"
  using path_parts_clean[of path] by (simp add: hasAllowedPrefix_iff allowed_path_def lies_within_def)

lemma validatePaths_iff:
  assumes "\<And>wd. getwd = Inr wd \<Longrightarrow> IsAbs wd"
  shows "validatePaths e getwd command cwd = None \<longleftrightarrow>
    (cwd \<noteq> [] \<and> pc_AllowedCWDPrefixes e \<noteq> [] \<longrightarrow> (\<exists>path. cwd_path getwd cwd = Some path \<and> allowed_path (pc_AllowedCWDPrefixes e) path))
    \<and> (pc_AllowedPathPrefixes e \<noteq> [] \<longrightarrow> (\<forall>path. program_path command = Some path \<longrightarrow> allowed_path (pc_AllowedPathPrefixes e) path))"
proof -
  have abs: "IsAbs (wd @ CHR ''/'' # cwd)" if "getwd = Inr wd" for wd using assms[OF that] by (cases wd) (auto simp: IsAbs_def has_prefix_def)
  have "(case filepath_Abs getwd cwd of Inl _ \<Rightarrow> True | Inr a \<Rightarrow> \<not> hasAllowedPrefix a (pc_AllowedCWDPrefixes e))
      \<longleftrightarrow> \<not> (\<exists>path. cwd_path getwd cwd = Some path \<and> allowed_path (pc_AllowedCWDPrefixes e) path)"
    using abs by (auto simp: filepath_Abs_def cwd_path_def allowed_clean split: sum.splits)
  moreover have "firstCommandPath command \<noteq> [] \<and> \<not> hasAllowedPrefix (firstCommandPath command) (pc_AllowedPathPrefixes e)
      \<longleftrightarrow> (\<exists>path. program_path command = Some path \<and> \<not> allowed_path (pc_AllowedPathPrefixes e) path)"
    using clean_nonempty by (auto simp: firstCommandPath_def program_path_def allowed_clean split: list.splits)
  ultimately show ?thesis unfolding validatePaths_def by auto
qed


definition ex_pipe :: pipe_executor where
  "ex_pipe = \<lparr>pc_MaxOutputBytes = 0, pc_AllowedCWDPrefixes = [''/srv/./app''], pc_AllowedPathPrefixes = [''/b'']\<rparr>"

definition ex_pipe_env :: pipe_env where
  "ex_pipe_env = \<lparr>pv_Getwd = Inr ''/srv/app'', pv_Run = \<lambda>_ _ _. \<lparr>pu_Stdout = ''ok'', pu_Stderr = [], pu_End = RunOk, pu_Duration = 1\<rparr>\<rparr>"

definition ex_pipe_request :: "string \<Rightarrow> string \<Rightarrow> shell_request" where
  "ex_pipe_request command cwd = \<lparr>sq_Mode = ''pipe'', sq_Command = command, sq_CWD = cwd, sq_Env = [], sq_TimeoutMS = 0, sq_Metadata = []\<rparr>"


text \<open>An executor that allows the root allows nothing but the root: no cleaned path begins with two slashes.\<close>

lemma root_allows_nothing: "\<not> hasAllowedPrefix ''/bin/ls'' [''/''] \<and> hasAllowedPrefix ''/'' [''/'']"
  by code_simp

section \<open>What the terminal verifiers see\<close>

text \<open>
  The loop of the text check and the goroutine of an attachment read alike: what has been seen is the output
  between the offset it began with and the one it has reached.
\<close>

abbreviation "seen_at hid offset seen \<equiv> \<lparr>os_HandleID = hid, os_Offset = offset, os_MaxBytes = 0, os_Written = seen, os_Running = True\<rparr>"

lemma contains_loop_sound:
  assumes "\<And>n. outgrows (ms n) (ms (Suc n))"
  shows "copied from (ms n) (seen_at hid offset seen) \<Longrightarrow>
    contains_loop (manager_inspector ms) env hid needle maxBytes offset seen n turns = Some (r, err) \<Longrightarrow> vr_Success r \<Longrightarrow>
    \<exists>k s. gm_get (pm_sessions (ms k)) hid = Some s \<and> sublist needle (drop (nat from) (pt_buffer s))"
proof (induction "manager_inspector ms" env hid needle maxBytes offset seen n turns rule: contains_loop.induct)
  case (1 env hid needle maxBytes offset seen n turns)
  let ?q = "\<lparr>pq_Offset = offset, pq_MaxBytes = maxBytes\<rparr>"
  obtain s where s: "gm_get (pm_sessions (ms n)) hid = Some s" using 1(2) by (auto simp: copied_def)
  have rd: "iq_Read (manager_inspector ms) n hid ?q = pty_Read hid ?q (ms n)" by (simp add: manager_inspector_def)
  obtain x where x: "pty_Read hid ?q (ms n) = Some (Inr x)"
    using 1(3,4) rd by (auto simp: contains_loop.simps[of "manager_inspector ms"] refuse_def split: option.splits sum.splits)
  define seen' where "seen' = (if offset < pd_NextOffset x then seen @ pd_Data x else seen)"
  define offset' where "offset' = (if offset < pd_NextOffset x then pd_NextOffset x else offset)"
  have c: "copied from (ms n) (seen_at hid offset' seen')"
  proof (cases "offset < pd_NextOffset x")
    case True
    then show ?thesis using copied_more[OF 1(2), of s x] s pty_Read_part[OF s x] by (simp add: seen'_def offset'_def)
  qed (use 1(2) in \<open>simp add: seen'_def offset'_def\<close>)
  show ?case
  proof (cases "sublist needle seen'")
    case True
    have "prefix seen' (drop (nat from) (pt_buffer s))" using c s by (auto simp: copied_def take_is_prefix)
    then show ?thesis using True s by (meson prefix_imp_sublist sublist_order.order.trans)
  next
    case False
    then have more: "\<not> (pd_Closed x \<or> turns = 0)" "iv_Done env n = None"
      "contains_loop (manager_inspector ms) env hid needle maxBytes offset' seen' (Suc n) (turns - 1) = Some (r, err)"
      using 1(3,4) rd x
      by (auto simp: contains_loop.simps[of "manager_inspector ms"] refuse_def seen'_def offset'_def Let_def split: if_splits option.splits)
    have "iq_Read (manager_inspector ms) n hid ?q = Some (Inr x)" using rd x by simp
    from 1(1)[OF this refl seen'_def offset'_def False more(1,2) copied_grows[OF c assms] more(3) 1(4)] show ?thesis .
  qed
qed

end
