(* ===== verification/Tool_Modules.thy ===== *)
theory Tool_Modules
  imports Shell
begin

text \<open>
  The other tool modules and their composition: \<^verbatim>\<open>src/modules/filesystem\<close> module.go, \<^verbatim>\<open>src/modules/http\<close> module.go,
  the registration of \<^verbatim>\<open>src/modules/shell\<close> module.go and \<^verbatim>\<open>src/pkg/harness/builtins\<close> builtins.go. The file system
  and the network are parameters. The property says what the default policy of the whole composition
  decides.
\<close>

section \<open>Files\<close>

text \<open>The functions of package \<^verbatim>\<open>os\<close> that the module calls, on the state \<open>'f\<close> of a file system.\<close>

record 'f os_files =
  of_Stat :: "string \<Rightarrow> 'f \<Rightarrow> goerr option"
  of_ReadFile :: "string \<Rightarrow> 'f \<Rightarrow> goerr + string"
  of_MkdirAll :: "string \<Rightarrow> 'f \<Rightarrow> goerr option \<times> 'f"
  of_WriteFile :: "string \<Rightarrow> string \<Rightarrow> 'f \<Rightarrow> goerr option \<times> 'f"
  of_ReadDir :: "string \<Rightarrow> 'f \<Rightarrow> goerr + (string \<times> bool) list"
  of_ErrText :: "goerr \<Rightarrow> string"

definition fail_result :: "string \<Rightarrow> string \<Rightarrow> action_result" where
  "fail_result code message = \<lparr>ar_OK = False, ar_Data = [], ar_Meta = [], ar_Error = Some \<lparr>ae_Code = code, ae_Message = message\<rparr>\<rparr>"

definition done_result :: "bool \<Rightarrow> meta \<Rightarrow> action_result" where
  "done_result good data = \<lparr>ar_OK = good, ar_Data = data, ar_Meta = [], ar_Error = None\<rparr>"

definition requiredPath :: "meta \<Rightarrow> string option" where
  "requiredPath args = (let path = as_string (gm_get args ''path'') in if path = [] then None else Some path)"

text \<open>\<^verbatim>\<open>filepath.Dir\<close>: what comes before the last slash, cleaned.\<close>

definition filepath_Dir :: "string \<Rightarrow> string" where
  "filepath_Dir path = filepath_Clean (rev (dropWhile (\<lambda>c. c \<noteq> CHR ''/'') (rev path)))"

definition existsHandler :: "'f os_files \<Rightarrow> meta \<Rightarrow> 'f \<Rightarrow> action_result" where
  "existsHandler os args f = (case requiredPath args of
     None \<Rightarrow> fail_result ''MISSING_PATH'' ''path is required''
   | Some path \<Rightarrow> done_result True [(''path'', VStr path), (''exists'', VBool (of_Stat os path f = None))])"

definition readHandler :: "'f os_files \<Rightarrow> meta \<Rightarrow> 'f \<Rightarrow> action_result" where
  "readHandler os args f = (case requiredPath args of
     None \<Rightarrow> fail_result ''MISSING_PATH'' ''path is required''
   | Some path \<Rightarrow> (case of_ReadFile os path f of
       Inl e \<Rightarrow> fail_result ''READ_FAILED'' (of_ErrText os e)
     | Inr content \<Rightarrow> done_result True [(''path'', VStr path), (''content'', VStr content), (''size_bytes'', VInt (int (length content)))]))"

definition writeHandler :: "'f os_files \<Rightarrow> meta \<Rightarrow> 'f \<Rightarrow> action_result \<times> 'f" where
  "writeHandler os args f = (case requiredPath args of
     None \<Rightarrow> (fail_result ''MISSING_PATH'' ''path is required'', f)
   | Some path \<Rightarrow>
       let content = as_string (gm_get args ''content'') in
       (case of_MkdirAll os (filepath_Dir path) f of
          (Some e, f1) \<Rightarrow> (fail_result ''MKDIR_FAILED'' (of_ErrText os e), f1)
        | (None, f1) \<Rightarrow>
            (case of_WriteFile os path content f1 of
               (Some e, f2) \<Rightarrow> (fail_result ''WRITE_FAILED'' (of_ErrText os e), f2)
             | (None, f2) \<Rightarrow> (done_result True [(''path'', VStr path), (''written_bytes'', VInt (int (length content)))], f2))))"

definition listHandler :: "'f os_files \<Rightarrow> meta \<Rightarrow> 'f \<Rightarrow> action_result" where
  "listHandler os args f =
     (let path = or_str (as_string (gm_get args ''path'')) ''.'' in
      case of_ReadDir os path f of
        Inl e \<Rightarrow> fail_result ''LIST_FAILED'' (of_ErrText os e)
      | Inr entries \<Rightarrow> done_result True [(''path'', VStr path),
          (''items'', VStruct ''[]map[string]any'' [(''items'', VList (map (\<lambda>(name, dir). VMap [(''name'', VStr name), (''is_dir'', VBool dir)])
             (go_sort (\<lambda>a b. fst a < fst b) entries)))])])"

definition fileExistsChecker :: "'f os_files \<Rightarrow> meta \<Rightarrow> 'f \<Rightarrow> verify_result" where
  "fileExistsChecker os args f = (case requiredPath args of
     None \<Rightarrow> refuse ''path is required'' []
   | Some path \<Rightarrow> (case of_Stat os path f of
       None \<Rightarrow> accept [(''path'', VStr path)]
     | Some e \<Rightarrow> refuse (of_ErrText os e) [(''path'', VStr path)]))"

definition fileContentContainsChecker :: "'f os_files \<Rightarrow> meta \<Rightarrow> 'f \<Rightarrow> verify_result" where
  "fileContentContainsChecker os args f = (case requiredPath args of
     None \<Rightarrow> refuse ''path is required'' []
   | Some path \<Rightarrow>
       let needle = as_string (gm_get args ''text'') in
       if needle = [] then refuse ''missing text'' []
       else (case of_ReadFile os path f of
          Inl e \<Rightarrow> refuse (of_ErrText os e) [(''path'', VStr path)]
        | Inr content \<Rightarrow>
            if sublist needle content then accept [(''path'', VStr path), (''text'', VStr needle)]
            else refuse ''text not found in file'' [(''path'', VStr path), (''text'', VStr needle)]))"

definition filesystem_DefaultPolicyRules :: "rule list" where
  "filesystem_DefaultPolicyRules =
     [\<lparr>ru_Permission = ''fs.exists'', ru_Pattern = ''*'', ru_Action = Allow\<rparr>, \<lparr>ru_Permission = ''fs.read'', ru_Pattern = ''*'', ru_Action = Allow\<rparr>,
      \<lparr>ru_Permission = ''fs.list'', ru_Pattern = ''*'', ru_Action = Allow\<rparr>, \<lparr>ru_Permission = ''fs.write'', ru_Pattern = ''*'', ru_Action = Ask\<rparr>]"

section \<open>HTTP\<close>

text \<open>
  A request ends in an error, or in a status code with a body that may fail to be read. JSON texts are
  parameters; encoding gives an empty text where it fails.
\<close>

record http_env =
  hv_Get :: "string \<Rightarrow> int \<Rightarrow> goerr + (int \<times> (goerr + string))"
  hv_Post :: "string \<Rightarrow> string \<Rightarrow> int \<Rightarrow> goerr + (int \<times> (goerr + string))"
  hv_Marshal :: "gval \<Rightarrow> goerr + string"
  hv_ParseObject :: "string \<Rightarrow> goerr + meta"
  hv_ErrText :: "goerr \<Rightarrow> string"

definition requiredURL :: "meta \<Rightarrow> string option" where
  "requiredURL args = (let url = as_string (gm_get args ''url'') in if url = [] then None else Some url)"

definition http_timeout :: "meta \<Rightarrow> int" where
  "http_timeout args = (let ms = or_zero (int64_case (gm_get args ''timeout_ms'')) in wrap64 ((if ms \<le> 0 then 15000 else ms) * 1000000))"

definition http_result :: "http_env \<Rightarrow> string \<Rightarrow> string \<Rightarrow> goerr + (int \<times> (goerr + string)) \<Rightarrow> action_result" where
  "http_result env url code resp = (case resp of
     Inl e \<Rightarrow> fail_result code (hv_ErrText env e)
   | Inr (status, Inl e) \<Rightarrow> fail_result ''HTTP_READ_FAILED'' (hv_ErrText env e)
   | Inr (status, Inr body) \<Rightarrow> done_result (200 \<le> status \<and> status < 300) [(''url'', VStr url), (''status_code'', VInt status), (''body'', VStr body)])"

definition fetchHandler :: "http_env \<Rightarrow> meta \<Rightarrow> action_result" where
  "fetchHandler env args = (case requiredURL args of
     None \<Rightarrow> fail_result ''MISSING_URL'' ''url is required''
   | Some url \<Rightarrow> http_result env url ''HTTP_FETCH_FAILED'' (hv_Get env url (http_timeout args)))"

definition postJSONHandler :: "http_env \<Rightarrow> meta \<Rightarrow> action_result" where
  "postJSONHandler env args = (case requiredURL args of
     None \<Rightarrow> fail_result ''MISSING_URL'' ''url is required''
   | Some url \<Rightarrow>
       (case hv_Marshal env (case gm_get args ''json'' of Some (VMap m) \<Rightarrow> VMap m | _ \<Rightarrow> VNil) of
          Inl e \<Rightarrow> fail_result ''JSON_ENCODE_FAILED'' (hv_ErrText env e)
        | Inr encoded \<Rightarrow> http_result env url ''HTTP_POST_FAILED'' (hv_Post env url encoded (http_timeout args))))"

definition httpStatusChecker :: "meta \<Rightarrow> action_result \<Rightarrow> verify_result" where
  "httpStatusChecker args r = (case gm_get args ''allowed'' of
     None \<Rightarrow> refuse ''missing allowed status codes'' []
   | Some (VList allowed) \<Rightarrow>
       (case int64_case (gm_get (ar_Data r) ''status_code'') of
          None \<Rightarrow> refuse ''result missing status_code'' []
        | Some status \<Rightarrow>
            if \<exists>v \<in> set allowed. int64_case (Some v) = Some status then accept [(''status_code'', VInt status)]
            else refuse ''status code not allowed'' [(''status_code'', VInt status)])
   | Some _ \<Rightarrow> refuse ''allowed must be an array'' [])"

definition bodyContainsChecker :: "meta \<Rightarrow> action_result \<Rightarrow> verify_result" where
  "bodyContainsChecker args r =
     (let needle = as_string (gm_get args ''text''); body = as_string (gm_get (ar_Data r) ''body'') in
      if needle = [] then refuse ''missing text'' []
      else if sublist needle body then accept [(''text'', VStr needle)]
      else refuse ''text not found in body'' [(''text'', VStr needle)])"

definition http_valuesEqual :: "http_env \<Rightarrow> gval \<Rightarrow> gval \<Rightarrow> bool" where
  "http_valuesEqual env a b = (let txt = (\<lambda>v. case hv_Marshal env v of Inr s \<Rightarrow> s | Inl _ \<Rightarrow> []) in txt a = txt b)"

definition jsonFieldEqualsChecker :: "http_env \<Rightarrow> meta \<Rightarrow> action_result \<Rightarrow> verify_result" where
  "jsonFieldEqualsChecker env args r =
     (let field = as_string (gm_get args ''field''); expected = (case gm_get args ''expected'' of Some v \<Rightarrow> v | None \<Rightarrow> VNil);
          body = as_string (gm_get (ar_Data r) ''body'')
      in if field = [] then refuse ''missing field'' []
         else (case hv_ParseObject env body of
            Inl e \<Rightarrow> refuse (hv_ErrText env e) []
          | Inr parsed \<Rightarrow>
              (case gm_get parsed field of
                 None \<Rightarrow> refuse ''field not found'' [(''field'', VStr field)]
               | Some actual \<Rightarrow>
                   if http_valuesEqual env actual expected then accept [(''field'', VStr field), (''actual'', actual)]
                   else refuse ''field value mismatch'' [(''field'', VStr field), (''actual'', actual), (''expected'', expected)])))"

definition http_DefaultPolicyRules :: "rule list" where
  "http_DefaultPolicyRules =
     [\<lparr>ru_Permission = ''http.fetch'', ru_Pattern = ''*'', ru_Action = Allow\<rparr>, \<lparr>ru_Permission = ''http.post_json'', ru_Pattern = ''*'', ru_Action = Ask\<rparr>]"

section \<open>Registration\<close>

definition module_definition :: "string \<Rightarrow> string \<Rightarrow> RiskLevel \<Rightarrow> bool \<Rightarrow> meta \<Rightarrow> tool_definition" where
  "module_definition name kind risk enabled md = \<lparr>tf_ToolName = name, tf_Version = ''v1'', tf_CapabilityType = kind, tf_InputSchema = [], tf_ResultSchema = [],
     tf_VerifySchema = [], tf_RiskLevel = risk, tf_Enabled = enabled, tf_Metadata = md\<rparr>"

definition shell_metadata :: "bool \<Rightarrow> meta" where
  "shell_metadata inspector = [(''module'', VStr ''shell''), (''modes'', VStruct ''[]string'' [(''items'', VList [VStr ''pipe'', VStr ''pty''])]),
     (''extensible'', VMap [(''backend'', VBool True), (''pty_backend'', VBool True), (''pty_inspector'', VBool True), (''pty_manager'', VBool True), (''sandbox_hook'', VBool True)]),
     (''pty_verifiers'', VBool inspector)]"

text \<open>
  The handlers and checkers are functions of the application's registries; \<open>hs\<close> and \<open>cs\<close> give them by name.
\<close>

definition shell_RegisterWithOptions :: "(string \<Rightarrow> handler option) \<Rightarrow> (string \<Rightarrow> checker option) \<Rightarrow> bool \<Rightarrow> tool_map \<Rightarrow> verifier_map \<Rightarrow> tool_map \<times> verifier_map" where
  "shell_RegisterWithOptions hs cs inspector tools verifiers =
     (tool_Register (module_definition ''shell.exec'' ''executor'' RiskMedium True (shell_metadata inspector)) (hs ''shell.exec'') tools,
      foldl (\<lambda>m (kind, txt). verifier_Register \<lparr>vd_Kind = kind, vd_Description = txt, vd_ArgsSchema = []\<rparr> (cs kind) m) verifiers
        ([(''exit_code'', ''Verify that an execution result exit code is in the allowed set.''),
          (''output_contains'', ''Verify that stdout or stderr contains a target substring.'')]
         @ (if inspector then
             [(''pty_handle_active'', ''Verify that a PTY-backed shell result still has an active handle.''),
              (''pty_stream_contains'', ''Verify that a PTY-backed shell stream contains a target substring within a timeout.''),
              (''pty_exit_code'', ''Verify that a PTY-backed shell process exits with an allowed code within a timeout.'')] else [])))"

definition filesystem_Register :: "(string \<Rightarrow> handler option) \<Rightarrow> (string \<Rightarrow> checker option) \<Rightarrow> tool_map \<Rightarrow> verifier_map \<Rightarrow> tool_map \<times> verifier_map" where
  "filesystem_Register hs cs tools verifiers =
     (foldl (\<lambda>m (name, risk). tool_Register (module_definition name ''filesystem'' risk True [(''module'', VStr ''filesystem'')]) (hs name) m) tools
        [(''fs.exists'', RiskLow), (''fs.read'', RiskLow), (''fs.write'', RiskMedium), (''fs.list'', RiskLow)],
      foldl (\<lambda>m (kind, txt). verifier_Register \<lparr>vd_Kind = kind, vd_Description = txt, vd_ArgsSchema = []\<rparr> (cs kind) m) verifiers
        [(''file_exists'', ''Verify that a file exists at the specified path.''), (''file_content_contains'', ''Verify that a file contains the expected text.'')])"

definition http_Register :: "(string \<Rightarrow> handler option) \<Rightarrow> (string \<Rightarrow> checker option) \<Rightarrow> tool_map \<Rightarrow> verifier_map \<Rightarrow> tool_map \<times> verifier_map" where
  "http_Register hs cs tools verifiers =
     (foldl (\<lambda>m (name, risk). tool_Register (module_definition name ''http'' risk True [(''module'', VStr ''http'')]) (hs name) m) tools
        [(''http.fetch'', RiskLow), (''http.post_json'', RiskMedium)],
      foldl (\<lambda>m (kind, txt). verifier_Register \<lparr>vd_Kind = kind, vd_Description = txt, vd_ArgsSchema = []\<rparr> (cs kind) m) verifiers
        [(''http_status_code'', ''Verify that the HTTP response status code is allowed.''),
         (''body_contains'', ''Verify that the HTTP response body contains the expected text.''),
         (''json_field_equals'', ''Verify that a top-level JSON field equals the expected value.'')])"

text \<open>The composition: a policy of the caller's own stays, the module rules come in the order shell, files, HTTP.\<close>

record builtin_setup =
  bs_Tools :: tool_map
  bs_Verifiers :: verifier_map
  bs_Policy :: "evaluator option"

definition builtin_rules :: "rule list" where
  "builtin_rules = shell_DefaultPolicyRules @ filesystem_DefaultPolicyRules @ http_DefaultPolicyRules"

definition builtins_Register :: "(gval \<Rightarrow> string) \<Rightarrow> (string \<Rightarrow> handler option) \<Rightarrow> (string \<Rightarrow> checker option) \<Rightarrow> (verifier_map \<Rightarrow> verifier_map) \<Rightarrow> builtin_setup \<Rightarrow> builtin_setup" where
  "builtins_Register other hs cs registerBuiltins opts =
     (let v0 = registerBuiltins (bs_Verifiers opts);
          (t1, v1) = shell_RegisterWithOptions hs cs True (bs_Tools opts) v0;
          (t2, v2) = filesystem_Register hs cs t1 v1;
          (t3, v3) = http_Register hs cs t2 v2;
          t4 = tool_Register (module_definition ''windows.native'' ''executor'' RiskHigh False [(''module'', VStr ''windows'')]) None t3
      in \<lparr>bs_Tools = t4, bs_Verifiers = v3,
          bs_Policy = Some (case bs_Policy opts of Some p \<Rightarrow> p | None \<Rightarrow> RulesEvaluator other builtin_rules (Some DefaultEvaluator))\<rparr>)"

section \<open>What the default policy decides\<close>

lemma matches_any: "matchesRulePattern other ''*'' args"
proof -
  have "trim_space ''*'' = ''*''" by code_simp
  then show ?thesis by (simp add: matchesRulePattern_def Let_def)
qed

lemma matches_mode:
  assumes "trim_space pat = pat" and "split_on (CHR '','') pat = [pat]" and "split2 (CHR ''='') pat = [''mode'', v]" and "trim_space v = v" and "pat \<noteq> []" "pat \<noteq> ''*''"
  shows "matchesRulePattern other pat args \<longleftrightarrow> (\<exists>x. gm_get args ''mode'' = Some x \<and> go_sprint other x = v)"
proof -
  have "trim_space ''mode'' = ''mode''" by code_simp
  then show ?thesis using assms by (simp add: matchesRulePattern_def clause_matches_def Let_def split: option.splits)
qed

lemma matches_pipe: "matchesRulePattern other ''mode=pipe'' args \<longleftrightarrow> (\<exists>x. gm_get args ''mode'' = Some x \<and> go_sprint other x = ''pipe'')"
  by (rule matches_mode) code_simp+

definition builtin_action :: "(gval \<Rightarrow> string) \<Rightarrow> string \<Rightarrow> meta \<Rightarrow> PermAction" where
  "builtin_action other name args =
     (if name = [] then Deny
      else if name = ''shell.exec'' then (if \<exists>x. gm_get args ''mode'' = Some x \<and> go_sprint other x = ''pipe'' then Allow else Ask)
      else if name = ''fs.write'' \<or> name = ''http.post_json'' \<or> has_prefix name ''windows.'' then Ask
      else Allow)"

lemma not_windows: "\<not> has_prefix ''fs.exists'' ''windows.''" "\<not> has_prefix ''fs.read'' ''windows.''" "\<not> has_prefix ''fs.list'' ''windows.''" "\<not> has_prefix ''http.fetch'' ''windows.''"
  by code_simp+

lemma builtin_loop:
  "map_option de_Action (rules_loop other name args builtin_rules) =
     (if name = ''shell.exec'' then Some (if \<exists>x. gm_get args ''mode'' = Some x \<and> go_sprint other x = ''pipe'' then Allow else Ask)
      else if name = ''fs.exists'' \<or> name = ''fs.read'' \<or> name = ''fs.list'' \<or> name = ''http.fetch'' then Some Allow
      else if name = ''fs.write'' \<or> name = ''http.post_json'' then Some Ask else None)"
proof -
  note rules = builtin_rules_def shell_DefaultPolicyRules_def filesystem_DefaultPolicyRules_def http_DefaultPolicyRules_def
  consider "name = ''shell.exec''" | "name = ''fs.exists''" | "name = ''fs.read''" | "name = ''fs.list''" | "name = ''http.fetch''"
    | "name = ''fs.write''" | "name = ''http.post_json''"
    | "name \<noteq> ''shell.exec''" "name \<noteq> ''fs.exists''" "name \<noteq> ''fs.read''" "name \<noteq> ''fs.list''" "name \<noteq> ''http.fetch''"
      "name \<noteq> ''fs.write''" "name \<noteq> ''http.post_json''" by blast
  then show ?thesis
  proof cases
    case 8
    then show ?thesis using 8[THEN not_sym] by (simp add: rules)
  qed (simp_all add: rules matches_any matches_pipe mk_decision_def)
qed

lemma default_action:
  "name \<noteq> [] \<Longrightarrow> name \<noteq> ''shell.exec'' \<Longrightarrow> an_ToolName (sp_Action step) = name \<Longrightarrow>
   \<exists>d. DefaultEvaluator st step = Inr d \<and> de_Action d = (if has_prefix name ''windows.'' then Ask else Allow)"
  by (simp add: DefaultEvaluator_def mk_decision_def Let_def)

lemma builtin_decision:
  "\<exists>d. RulesEvaluator other builtin_rules (Some DefaultEvaluator) st step = Inr d
     \<and> de_Action d = builtin_action other (an_ToolName (sp_Action step)) (an_Args (sp_Action step))"
proof -
  let ?name = "an_ToolName (sp_Action step)" and ?args = "an_Args (sp_Action step)"
  note l = builtin_loop[of other ?name ?args]
  show ?thesis
  proof (cases "?name = []")
    case True
    then show ?thesis by (simp add: RulesEvaluator_def builtin_action_def DefaultEvaluator_def mk_decision_def Let_def)
  next
    case False
    show ?thesis
    proof (cases "rules_loop other ?name ?args builtin_rules")
      case None
      then have n: "?name \<noteq> ''shell.exec''" "?name \<noteq> ''fs.write''" "?name \<noteq> ''http.post_json''" using l by (simp_all split: if_splits)
      show ?thesis using None False n default_action[OF False n(1) refl, of st] by (simp add: RulesEvaluator_def builtin_action_def Let_def)
    next
      case (Some d)
      then have "de_Action d = builtin_action other ?name ?args" using l False not_windows
        unfolding builtin_action_def by (auto split: if_splits)
      then show ?thesis using Some False by (simp add: RulesEvaluator_def Let_def)
    qed
  qed
qed

lemma pipe_mode:
  assumes "gm_get args ''mode'' = Some x" and "go_sprint other x = ''pipe''"
  shows "sq_Mode (shell_request_of args) = ''pipe''"
  using assms by (cases x) (simp_all add: shell_request_of_def)



text \<open>Files written are read back, and checked against what was written, on every file system where reading follows writing.\<close>

lemma written_file_read:
  assumes "\<And>p c f f'. of_WriteFile os p c f = (None, f') \<Longrightarrow> of_ReadFile os p f' = Inr c"
    and "writeHandler os args f = (r, f')" and "ar_OK r" and "requiredPath args = Some path"
  shows "readHandler os args f' = done_result True [(''path'', VStr path), (''content'', VStr (as_string (gm_get args ''content''))),
      (''size_bytes'', VInt (int (length (as_string (gm_get args ''content'')))))]
    \<and> (as_string (gm_get args ''text'') \<noteq> [] \<longrightarrow>
       vr_Success (fileContentContainsChecker os args f') = sublist (as_string (gm_get args ''text'')) (as_string (gm_get args ''content'')))"
proof -
  have "of_ReadFile os path f' = Inr (as_string (gm_get args ''content''))"
    using assms by (auto simp: writeHandler_def fail_result_def Let_def split: prod.splits option.splits)
  then show ?thesis using assms(4) by (simp add: readHandler_def fileContentContainsChecker_def accept_def refuse_def Let_def)
qed

end
