(* ===== verification/Interactive_Control.thy ===== *)
theory Interactive_Control
  imports Service_Reads
begin

text \<open>
  Control of interactive runtimes: \<^verbatim>\<open>pkg/harness/runtime\<close> interactive_control.go and interactive_runtime.go.
  The controller belongs to the embedding application and is a parameter; what it knows of a runtime is kept
  in the metadata of the runtime's handle.
\<close>

section \<open>Requests and results\<close>

record start_request =
  sr_HandleID :: string
  sr_SessionID :: string
  sr_TaskID :: string
  sr_AttemptID :: string
  sr_CycleID :: string
  sr_TraceID :: string
  sr_Kind :: string
  sr_Spec :: meta
  sr_Metadata :: meta

record start_result =
  sx_Kind :: string
  sx_Value :: string
  sx_Capabilities :: interactive_caps
  sx_Observation :: interactive_observation
  sx_Metadata :: meta

record reopen_result =
  rx_Capabilities :: "interactive_caps option"
  rx_Observation :: "interactive_observation option"
  rx_Metadata :: meta

record view_request =
  vq_Offset :: int
  vq_MaxBytes :: int
  vq_Metadata :: meta

record view_result =
  vx_Runtime :: interactive_runtime
  vx_Data :: string
  vx_Truncated :: bool
  vx_Metadata :: meta

record write_request =
  wq_Input :: string
  wq_Metadata :: meta

record write_result =
  wx_Runtime :: interactive_runtime
  wx_Bytes :: int
  wx_Metadata :: meta

record close_request =
  cq_Reason :: string
  cq_Metadata :: meta

record close_result =
  cx_Runtime :: interactive_runtime
  cx_Metadata :: meta

record interactive_update =
  iu_Capabilities :: "interactive_caps option"
  iu_Observation :: "interactive_observation option"
  iu_LastOperation :: "interactive_operation option"
  iu_Metadata :: meta

record controller =
  co_StartInteractive :: "start_request \<Rightarrow> start_result svc"
  co_ReopenInteractive :: "runtime_handle \<Rightarrow> meta \<Rightarrow> reopen_result svc"
  co_ViewInteractive :: "runtime_handle \<Rightarrow> view_request \<Rightarrow> view_result svc"
  co_WriteInteractive :: "runtime_handle \<Rightarrow> write_request \<Rightarrow> write_result svc"
  co_CloseInteractive :: "runtime_handle \<Rightarrow> close_request \<Rightarrow> close_result svc"

section \<open>Observations and capabilities\<close>

definition zero_caps :: interactive_caps where
  "zero_caps = \<lparr>ic_Reopen = False, ic_View = False, ic_Write = False, ic_Close = False\<rparr>"

definition zero_observation :: interactive_observation where
  "zero_observation = \<lparr>io_NextOffset = 0, io_Closed = False, io_ExitCode = None, io_Status = [], io_StatusReason = [],
     io_Snapshot = \<lparr>is_ArtifactID = [], is_Metadata = []\<rparr>, io_UpdatedAt = 0, io_Metadata = []\<rparr>"

definition interactiveCapabilitiesPtr :: "interactive_caps \<Rightarrow> interactive_caps option" where
  "interactiveCapabilitiesPtr c = (if \<not> ic_Reopen c \<and> \<not> ic_View c \<and> \<not> ic_Write c \<and> \<not> ic_Close c then None else Some c)"

definition mergeInteractiveCapabilities :: "interactive_caps \<Rightarrow> interactive_caps \<Rightarrow> interactive_caps option" where
  "mergeInteractiveCapabilities base nxt = (if nxt \<noteq> zero_caps then Some nxt else if base \<noteq> zero_caps then Some base else None)"

definition hasInteractiveObservation :: "interactive_observation \<Rightarrow> bool" where
  "hasInteractiveObservation v \<longleftrightarrow> io_NextOffset v \<noteq> 0 \<or> io_Closed v \<or> io_ExitCode v \<noteq> None \<or> io_Status v \<noteq> [] \<or> io_StatusReason v \<noteq> []
     \<or> is_ArtifactID (io_Snapshot v) \<noteq> [] \<or> is_Metadata (io_Snapshot v) \<noteq> [] \<or> io_UpdatedAt v \<noteq> 0 \<or> io_Metadata v \<noteq> []"

definition mergeInteractiveObservation :: "interactive_observation \<Rightarrow> interactive_observation \<Rightarrow> interactive_observation option" where
  "mergeInteractiveObservation base nxt =
     (if hasInteractiveObservation nxt then
        Some (nxt\<lparr>io_Status := or_str (io_Status nxt) (io_Status base), io_StatusReason := or_str (io_StatusReason nxt) (io_StatusReason base),
          io_Snapshot := (if is_ArtifactID (io_Snapshot nxt) = [] then io_Snapshot base else io_Snapshot nxt),
          io_UpdatedAt := or_int (io_UpdatedAt nxt) (io_UpdatedAt base),
          io_Metadata := (if io_Metadata nxt = [] then io_Metadata base else io_Metadata nxt),
          io_ExitCode := (if io_ExitCode nxt = None then io_ExitCode base else io_ExitCode nxt)\<rparr>)
      else if hasInteractiveObservation base then Some base else None)"

definition interactiveOperation :: "string \<Rightarrow> int \<Rightarrow> int \<Rightarrow> int \<Rightarrow> meta \<Rightarrow> interactive_operation option" where
  "interactiveOperation kind t off n md = Some \<lparr>ip_Kind = kind, ip_At = t, ip_Offset = off, ip_Bytes = n, ip_Metadata = md\<rparr>"

definition normalizeInteractiveObservation :: "interactive_observation \<Rightarrow> RuntimeHandleStatus \<Rightarrow> string \<Rightarrow> int \<Rightarrow> interactive_observation" where
  "normalizeInteractiveObservation ob status reason now = ob\<lparr>io_Status := or_str (io_Status ob) (handle_status_string status),
     io_StatusReason := or_str (io_StatusReason ob) reason, io_UpdatedAt := or_int (io_UpdatedAt ob) now\<rparr>"

definition interactiveRuntimeFromHandleOrErr :: "runtime_handle \<Rightarrow> goerr + interactive_runtime" where
  "interactiveRuntimeFromHandleOrErr h = (case InteractiveRuntimeFromHandle h of Some out \<Rightarrow> Inr out | None \<Rightarrow> Inl ErrInteractiveRuntimeNotFound)"

section \<open>Reading and updating\<close>

definition GetInteractiveRuntime :: "service \<Rightarrow> string \<Rightarrow> interactive_runtime svc" where
  "GetInteractiveRuntime sv hid = sbind (getRuntimeHandleRecord sv hid) (\<lambda>h.
     case InteractiveRuntimeFromHandle h of Some out \<Rightarrow> sret out | None \<Rightarrow> sfail ErrRecordNotFound)"

definition ListInteractiveRuntimes :: "service \<Rightarrow> string \<Rightarrow> interactive_runtime list svc" where
  "ListInteractiveRuntimes sv sid = sbind (listRuntimeHandleRecords sv sid) (\<lambda>hs. sret (InteractiveRuntimesFromHandles hs))"

definition runtimeHandleUpdateFromInteractive :: "interactive_update \<Rightarrow> handle_update" where
  "runtimeHandleUpdateFromInteractive u = \<lparr>hu_Kind = None, hu_Value = None,
     hu_Metadata = ApplyInteractiveRuntimeMetadata (iu_Metadata u) (iu_Capabilities u) (iu_Observation u) (iu_LastOperation u)\<rparr>"

definition UpdateInteractiveRuntime :: "service \<Rightarrow> string \<Rightarrow> interactive_update \<Rightarrow> interactive_runtime svc" where
  "UpdateInteractiveRuntime sv hid u = sbind (UpdateRuntimeHandle sv hid (runtimeHandleUpdateFromInteractive u)) (\<lambda>h.
     case InteractiveRuntimeFromHandle h of Some out \<Rightarrow> sret out | None \<Rightarrow> sfail ErrRecordNotFound)"

definition UpdateClaimedInteractiveRuntime :: "service \<Rightarrow> string \<Rightarrow> string \<Rightarrow> interactive_update \<Rightarrow> interactive_runtime svc" where
  "UpdateClaimedInteractiveRuntime sv hid leaseID u = sbind (UpdateClaimedRuntimeHandle sv hid leaseID (runtimeHandleUpdateFromInteractive u)) (\<lambda>h.
     case InteractiveRuntimeFromHandle h of Some out \<Rightarrow> sret out | None \<Rightarrow> sfail ErrRecordNotFound)"

definition requireActiveInteractiveHandle :: "service \<Rightarrow> string \<Rightarrow> (runtime_handle \<times> interactive_runtime) svc" where
  "requireActiveInteractiveHandle sv hid =
     sbind (getRuntimeHandleRecord sv hid) (\<lambda>h.
     sbind (slift (interactiveRuntimeFromHandleOrErr h)) (\<lambda>rt.
       if isRuntimeHandleActive h then sret (h, rt) else sfail ErrRuntimeHandleNotActive))"

definition createRuntimeHandleWithAudit :: "service \<Rightarrow> runtime_handle \<Rightarrow> runtime_handle svc" where
  "createRuntimeHandleWithAudit sv h = with_runner sv (\<lambda>_ emit.
     sbind (do_handle_Create h) (\<lambda>created. sbind nowMilli (\<lambda>t.
       sbind (runtimeHandleAuditEvents t ''runtime_handle.created'' [created]) (\<lambda>evs.
         sbind (emit evs) (\<lambda>_. sret created)))))"

definition persistInteractiveRuntimeState :: "service \<Rightarrow> string \<Rightarrow> interactive_runtime \<Rightarrow> interactive_caps option \<Rightarrow> interactive_observation option
    \<Rightarrow> interactive_operation option \<Rightarrow> meta \<Rightarrow> interactive_runtime svc" where
  "persistInteractiveRuntimeState sv hid current caps ob op md =
     (case ob of
        Some b \<Rightarrow>
          if io_Closed b then
            sbind (CloseRuntimeHandle sv hid
                \<lparr>he_Reason = or_str (io_StatusReason b) (or_str (io_StatusReason (ir_Observation current)) ''interactive runtime closed''),
                 he_Metadata = ApplyInteractiveRuntimeMetadata md caps ob op\<rparr>) (\<lambda>h. slift (interactiveRuntimeFromHandleOrErr h))
          else UpdateInteractiveRuntime sv hid \<lparr>iu_Capabilities = caps, iu_Observation = ob, iu_LastOperation = op, iu_Metadata = md\<rparr>
      | None \<Rightarrow> UpdateInteractiveRuntime sv hid \<lparr>iu_Capabilities = caps, iu_Observation = ob, iu_LastOperation = op, iu_Metadata = md\<rparr>)"

section \<open>Operations\<close>

definition started_handle :: "start_request \<Rightarrow> start_result \<Rightarrow> int \<Rightarrow> runtime_handle" where
  "started_handle q x now =
     (let ob = normalizeInteractiveObservation (sx_Observation x) RuntimeHandleActive ''interactive runtime active'' now in
      \<lparr>rh_HandleID = sr_HandleID q, rh_SessionID = sr_SessionID q, rh_TaskID = sr_TaskID q, rh_AttemptID = sr_AttemptID q, rh_CycleID = sr_CycleID q,
       rh_TraceID = sr_TraceID q, rh_Kind = or_str (sx_Kind x) (sr_Kind q), rh_Value = sx_Value x, rh_Status = RuntimeHandleActive,
       rh_StatusReason = or_str (io_StatusReason ob) ''interactive runtime active'',
       rh_Metadata = ApplyInteractiveRuntimeMetadata (mergeMaps (sr_Metadata q) (sx_Metadata x)) (interactiveCapabilitiesPtr (sx_Capabilities x)) (Some ob) None,
       rh_Version = 0, rh_CreatedAt = now, rh_UpdatedAt = now, rh_ClosedAt = 0, rh_InvalidatedAt = 0\<rparr>)"

definition StartInteractive :: "service \<Rightarrow> controller option \<Rightarrow> string \<Rightarrow> start_request \<Rightarrow> interactive_runtime svc" where
  "StartInteractive sv co sid request = (case co of
     None \<Rightarrow> sfail ErrInteractiveControllerNotConfigured
   | Some co \<Rightarrow>
       sbind (getSessionRecord sv sid) (\<lambda>st.
       if isTerminalPhase (st_Phase st) then sfail ErrSessionTerminal
       else sbind newUUID (\<lambda>u.
         let q = request\<lparr>sr_SessionID := sid, sr_TaskID := or_str (sr_TaskID request) (st_TaskID st), sr_HandleID := or_str (sr_HandleID request) (''hdl_'' @ u)\<rparr> in
         sbind (co_StartInteractive co q) (\<lambda>x. sbind nowMilli (\<lambda>now.
           let h = started_handle q x now in
           sbind (scatch (createRuntimeHandleWithAudit sv h)) (\<lambda>r. case r of
             Inr created \<Rightarrow> slift (interactiveRuntimeFromHandleOrErr created)
           | Inl e \<Rightarrow> sbind (best_effort (co_CloseInteractive co h \<lparr>cq_Reason = ''interactive runtime persistence failed'', cq_Metadata = []\<rparr>)) (\<lambda>_. sfail e)))))))"

definition ReopenInteractive :: "service \<Rightarrow> controller option \<Rightarrow> string \<Rightarrow> meta \<Rightarrow> interactive_runtime svc" where
  "ReopenInteractive sv co hid md = (case co of
     None \<Rightarrow> sfail ErrInteractiveControllerNotConfigured
   | Some co \<Rightarrow>
       sbind (requireActiveInteractiveHandle sv hid) (\<lambda>(current, existing).
       sbind (co_ReopenInteractive co current md) (\<lambda>x. sbind nowMilli (\<lambda>t.
         persistInteractiveRuntimeState sv hid existing (rx_Capabilities x) (rx_Observation x) (interactiveOperation ''reopen'' t 0 0 md) (rx_Metadata x)))))"

definition ViewInteractive :: "service \<Rightarrow> controller option \<Rightarrow> string \<Rightarrow> view_request \<Rightarrow> view_result svc" where
  "ViewInteractive sv co hid q = (case co of
     None \<Rightarrow> sfail ErrInteractiveControllerNotConfigured
   | Some co \<Rightarrow>
       sbind (requireActiveInteractiveHandle sv hid) (\<lambda>(current, existing).
       sbind (co_ViewInteractive co current q) (\<lambda>x. sbind nowMilli (\<lambda>t.
       sbind (persistInteractiveRuntimeState sv hid existing
           (mergeInteractiveCapabilities (ir_Capabilities existing) (ir_Capabilities (vx_Runtime x)))
           (mergeInteractiveObservation (ir_Observation existing) (ir_Observation (vx_Runtime x)))
           (interactiveOperation ''view'' t (vq_Offset q) 0 (vq_Metadata q)) (mergeMaps (vx_Metadata x) (ir_Metadata (vx_Runtime x)))) (\<lambda>updated.
         sret (x\<lparr>vx_Runtime := updated, vx_Metadata := mergeMaps (vx_Metadata x) (ir_Metadata updated)\<rparr>))))))"

definition WriteInteractive :: "service \<Rightarrow> controller option \<Rightarrow> string \<Rightarrow> write_request \<Rightarrow> write_result svc" where
  "WriteInteractive sv co hid q = (case co of
     None \<Rightarrow> sfail ErrInteractiveControllerNotConfigured
   | Some co \<Rightarrow>
       sbind (requireActiveInteractiveHandle sv hid) (\<lambda>(current, existing).
       sbind (co_WriteInteractive co current q) (\<lambda>x. sbind nowMilli (\<lambda>t.
       sbind (persistInteractiveRuntimeState sv hid existing
           (mergeInteractiveCapabilities (ir_Capabilities existing) (ir_Capabilities (wx_Runtime x)))
           (mergeInteractiveObservation (ir_Observation existing) (ir_Observation (wx_Runtime x)))
           (interactiveOperation ''write'' t 0 (wx_Bytes x) (wq_Metadata q)) (mergeMaps (wx_Metadata x) (ir_Metadata (wx_Runtime x)))) (\<lambda>updated.
         sret (x\<lparr>wx_Runtime := updated, wx_Metadata := mergeMaps (wx_Metadata x) (ir_Metadata updated)\<rparr>))))))"

definition closed_observation :: "interactive_observation \<Rightarrow> interactive_observation \<Rightarrow> string \<Rightarrow> interactive_observation" where
  "closed_observation existing reported reason =
     (let ob = (case mergeInteractiveObservation existing reported of Some b \<Rightarrow> b | None \<Rightarrow> zero_observation)
      in ob\<lparr>io_Closed := True, io_Status := or_str (io_Status ob) ''closed'',
            io_StatusReason := or_str reason (or_str (io_StatusReason ob) ''interactive runtime closed'')\<rparr>)"

definition CloseInteractive :: "service \<Rightarrow> controller option \<Rightarrow> string \<Rightarrow> close_request \<Rightarrow> interactive_runtime svc" where
  "CloseInteractive sv co hid q = (case co of
     None \<Rightarrow> sfail ErrInteractiveControllerNotConfigured
   | Some co \<Rightarrow>
       sbind (requireActiveInteractiveHandle sv hid) (\<lambda>(current, existing).
       sbind (co_CloseInteractive co current q) (\<lambda>x.
       let ob = closed_observation (ir_Observation existing) (ir_Observation (cx_Runtime x)) (cq_Reason q) in
       sbind nowMilli (\<lambda>t.
       sbind (CloseRuntimeHandle sv hid \<lparr>he_Reason = io_StatusReason ob,
           he_Metadata = ApplyInteractiveRuntimeMetadata (mergeMaps (cx_Metadata x) (ir_Metadata (cx_Runtime x)))
             (mergeInteractiveCapabilities (ir_Capabilities existing) (ir_Capabilities (cx_Runtime x))) (Some ob)
             (interactiveOperation ''close'' t 0 0 (cq_Metadata q))\<rparr>) (\<lambda>h.
         slift (interactiveRuntimeFromHandleOrErr h))))))"

section \<open>Properties\<close>

lemma require_fails:
  assumes "\<And>h. handle_Get hid (rp_RuntimeHandles (w_Repos w)) = Inr h \<Longrightarrow> isRuntimeHandleActive h \<Longrightarrow> \<not> isInteractiveHandle h"
  shows "\<exists>e. requireActiveInteractiveHandle sv hid w = (Inl e, w)"
proof -
  obtain r w1 where g: "getRuntimeHandleRecord sv hid w = (r, w1)" by fastforce
  then have w1: "w1 = w" and h: "\<And>h. r = Inr h \<Longrightarrow> handle_Get hid (rp_RuntimeHandles (w_Repos w)) = Inr h"
    by (auto simp: getRuntimeHandleRecord_def readRepositories_def Within_def split: runner.splits option.splits sum.splits)
  show ?thesis
  proof (cases r)
    case (Inr x)
    then have "isRuntimeHandleActive x \<Longrightarrow> InteractiveRuntimeFromHandle x = None" using assms[OF h] by (simp add: InteractiveRuntimeFromHandle_def)
    then show ?thesis using g w1 Inr
      by (cases "InteractiveRuntimeFromHandle x")
        (auto simp: requireActiveInteractiveHandle_def interactiveRuntimeFromHandleOrErr_def svc_apply)
  qed (use g w1 in \<open>simp add: requireActiveInteractiveHandle_def svc_apply\<close>)
qed

text \<open>
  C35. Only an active interactive runtime is controlled. If the handle is not stored, has ended, or is
  not an interactive one, then reopening, viewing, writing to and closing the runtime fail and leave the world as
  it is, whatever the controller would do: it is not asked.
\<close>

theorem interactive_control_guarded:
  assumes "\<And>h. handle_Get hid (rp_RuntimeHandles (w_Repos w)) = Inr h \<Longrightarrow> isRuntimeHandleActive h \<Longrightarrow> \<not> isInteractiveHandle h"
  shows "(\<exists>e. ReopenInteractive sv co hid md w = (Inl e, w)) \<and> (\<exists>e. ViewInteractive sv co hid vq w = (Inl e, w))
    \<and> (\<exists>e. WriteInteractive sv co hid wq w = (Inl e, w)) \<and> (\<exists>e. CloseInteractive sv co hid cq w = (Inl e, w))"
proof -
  obtain e where "requireActiveInteractiveHandle sv hid w = (Inl e, w)" using require_fails[OF assms] by blast
  then show ?thesis
    by (cases co) (simp_all add: ReopenInteractive_def ViewInteractive_def WriteInteractive_def CloseInteractive_def svc_apply)
qed

definition ex_ended_world :: world where
  "ex_ended_world = ex_run_world\<lparr>w_Repos := ex_repos\<lparr>rp_RuntimeHandles := [(''h'', \<lparr>rh_HandleID = ''h'', rh_SessionID = ''s1'', rh_TaskID = [], rh_AttemptID = [],
     rh_CycleID = [], rh_TraceID = [], rh_Kind = ''pty'', rh_Value = [], rh_Status = RuntimeHandleClosed, rh_StatusReason = [], rh_Metadata = [], rh_Version = 2,
     rh_CreatedAt = 1, rh_UpdatedAt = 2, rh_ClosedAt = 2, rh_InvalidatedAt = 0\<rparr>)]\<rparr>\<rparr>"

theorem interactive_control_guarded_witness:
  "\<forall>co. \<exists>e. WriteInteractive ex_service co ''h'' \<lparr>wq_Input = ''x'', wq_Metadata = []\<rparr> ex_ended_world = (Inl e, ex_ended_world)"
proof -
  have "case handle_Get ''h'' (rp_RuntimeHandles (w_Repos ex_ended_world)) of Inr h \<Rightarrow> \<not> isRuntimeHandleActive h | Inl _ \<Rightarrow> False" by code_simp
  then have "handle_Get ''h'' (rp_RuntimeHandles (w_Repos ex_ended_world)) = Inr h \<Longrightarrow> isRuntimeHandleActive h \<Longrightarrow> \<not> isInteractiveHandle h" for h by simp
  from interactive_control_guarded[OF this] show ?thesis by blast
qed

text \<open>
  A runtime that is closed without a status of the controller's own keeps the status and the reason it was
  active with: the projection that closing starts from has them filled in, so the defaults \<^verbatim>\<open>closed\<close> and
  \<^verbatim>\<open>interactive runtime closed\<close> are not reached.
\<close>

lemma closed_runtime_reports_active:
  assumes "InteractiveRuntimeFromHandle h = Some rt" and "rh_Status h = RuntimeHandleActive" and "rh_StatusReason h \<noteq> []"
    and "gm_get (rh_Metadata h) ''interactive_status'' \<in> {None, Some (VStr ''active'')}" and "gm_get (rh_Metadata h) ''interactive_status_reason'' = None"
  shows "io_Status (closed_observation (ir_Observation rt) zero_observation []) = ''active''
    \<and> io_StatusReason (closed_observation (ir_Observation rt) zero_observation []) = rh_StatusReason h"
proof -
  have "io_Status (ir_Observation rt) = ''active''" "io_StatusReason (ir_Observation rt) = rh_StatusReason h"
    using assms by (auto simp: InteractiveRuntimeFromHandle_def Let_def split: if_splits)
  then show ?thesis using assms(3)
    by (simp add: closed_observation_def mergeInteractiveObservation_def hasInteractiveObservation_def zero_observation_def Let_def)
qed

end
