(* ===== verification/Pty_Control.thy ===== *)
theory Pty_Control
  imports Shell Interactive_Control
begin

text \<open>
  Terminals as interactive runtimes: \<^verbatim>\<open>src/modules/shell\<close> interactive_controller.go, the controller that lets
  the service start, view, write to and close the terminals of a manager. The operations act on the manager;
  \<open>controller_at\<close> is the controller the service sees while the manager is in a given state.
\<close>

section \<open>The controller\<close>

abbreviation "ErrPTYControllerNotConfigured \<equiv> ErrOther ''interactive controller is not configured''"

definition pty_caps :: interactive_caps where
  "pty_caps = \<lparr>ic_Reopen = True, ic_View = True, ic_Write = True, ic_Close = True\<rparr>"

definition ptyHandleValue :: "runtime_handle \<Rightarrow> string" where
  "ptyHandleValue h = or_str (rh_Value h) (rh_HandleID h)"

definition interactiveObservationFromInspect :: "pty_inspect_result \<Rightarrow> interactive_observation" where
  "interactiveObservationFromInspect i = zero_observation\<lparr>io_Closed := pn_Closed i, io_Status := pn_Status i, io_StatusReason := pn_StatusReason i,
     io_ExitCode := (if pn_Closed i then Some (pn_ExitCode i) else None)\<rparr>"

definition observed_runtime :: "runtime_handle \<Rightarrow> interactive_observation \<Rightarrow> interactive_runtime" where
  "observed_runtime h ob = \<lparr>ir_Handle = h, ir_Target = zero_target_ref, ir_Capabilities = pty_caps, ir_Observation = ob,
     ir_LastOperation = \<lparr>ip_Kind = [], ip_At = 0, ip_Offset = 0, ip_Bytes = 0, ip_Metadata = []\<rparr>, ir_Metadata = []\<rparr>"

definition PTY_StartInteractive :: "pty_start_env \<Rightarrow> start_request \<Rightarrow> pty_manager option \<Rightarrow> (goerr + start_result) \<times> pty_manager option" where
  "PTY_StartInteractive e q mo = (case mo of
     None \<Rightarrow> (Inl ErrPTYControllerNotConfigured, None)
   | Some m \<Rightarrow>
       let command = as_string (gm_get (sr_Spec q) ''command'') in
       if sr_Kind q \<noteq> [] \<and> sr_Kind q \<noteq> ''pty'' then (Inl (ErrOther (''interactive kind '' @ sr_Kind q @ '' is unsupported'')), Some m)
       else if command = [] then (Inl (ErrOther ''interactive start requires command''), Some m)
       else (case pty_Start e command \<lparr>pp_CWD = as_string (gm_get (sr_Spec q) ''cwd''), pp_Env = stringifyEnv (asAnyMap (gm_get (sr_Spec q) ''env'')),
                 pp_Metadata = mergeMaps (sr_Metadata q) (asAnyMap (gm_get (sr_Spec q) ''metadata''))\<rparr> m of
               (Inl err, m') \<Rightarrow> (Inl err, Some m')
             | (Inr x, m') \<Rightarrow> (Inr \<lparr>sx_Kind = ''pty'', sx_Value = rh_HandleID (px_RuntimeHandle x), sx_Capabilities = pty_caps,
                   sx_Observation = zero_observation\<lparr>io_NextOffset := pi_NextOffset (px_Stream x), io_Status := pi_Status (px_Stream x),
                     io_StatusReason := or_str (pi_StatusReason (px_Stream x)) ''pty session active''\<rparr>,
                   sx_Metadata = rh_Metadata (px_RuntimeHandle x)\<rparr>, Some m')))"

definition PTY_ReopenInteractive :: "runtime_handle \<Rightarrow> pty_manager option \<Rightarrow> goerr + reopen_result" where
  "PTY_ReopenInteractive h mo = (case mo of
     None \<Rightarrow> Inl ErrPTYControllerNotConfigured
   | Some m \<Rightarrow> (case pty_Inspect (ptyHandleValue h) m of
       Inl e \<Rightarrow> Inl e
     | Inr i \<Rightarrow> Inr \<lparr>rx_Capabilities = None, rx_Observation = Some (interactiveObservationFromInspect i), rx_Metadata = []\<rparr>))"

text \<open>A view reads the terminal; where the read panics there is no result.\<close>

definition PTY_ViewInteractive :: "runtime_handle \<Rightarrow> view_request \<Rightarrow> pty_manager option \<Rightarrow> (goerr + view_result) option" where
  "PTY_ViewInteractive h q mo = (case mo of
     None \<Rightarrow> Some (Inl ErrPTYControllerNotConfigured)
   | Some m \<Rightarrow> (case pty_Read (ptyHandleValue h) \<lparr>pq_Offset = vq_Offset q, pq_MaxBytes = vq_MaxBytes q\<rparr> m of
       None \<Rightarrow> None
     | Some (Inl e) \<Rightarrow> Some (Inl e)
     | Some (Inr r) \<Rightarrow> Some (Inr \<lparr>vx_Runtime = observed_runtime h (zero_observation\<lparr>io_NextOffset := pd_NextOffset r, io_Closed := pd_Closed r,
           io_Status := pd_Status r, io_StatusReason := pd_StatusReason r, io_ExitCode := (if pd_Closed r then Some (pd_ExitCode r) else None)\<rparr>),
         vx_Data = pd_Data r, vx_Truncated = pd_Truncated r, vx_Metadata = []\<rparr>)))"

definition PTY_WriteInteractive :: "goerr option \<Rightarrow> goerr + int \<Rightarrow> runtime_handle \<Rightarrow> write_request \<Rightarrow> pty_manager option \<Rightarrow> (goerr + write_result) \<times> pty_manager option" where
  "PTY_WriteInteractive ctx answer h q mo = (case mo of
     None \<Rightarrow> (Inl ErrPTYControllerNotConfigured, None)
   | Some m \<Rightarrow> (case pty_Write ctx answer (ptyHandleValue h) (wq_Input q) m of
       (Inl e, m') \<Rightarrow> (Inl e, Some m')
     | (Inr n, m') \<Rightarrow> (case pty_Inspect (ptyHandleValue h) m' of
         Inl e \<Rightarrow> (Inl e, Some m')
       | Inr i \<Rightarrow> (Inr \<lparr>wx_Runtime = observed_runtime h (interactiveObservationFromInspect i), wx_Bytes = n, wx_Metadata = []\<rparr>, Some m'))))"

definition PTY_CloseInteractive :: "runtime_handle \<Rightarrow> close_request \<Rightarrow> pty_manager option \<Rightarrow> (goerr + close_result) \<times> pty_manager option" where
  "PTY_CloseInteractive h q mo = (case mo of
     None \<Rightarrow> (Inl ErrPTYControllerNotConfigured, None)
   | Some m \<Rightarrow> (case pty_Close (ptyHandleValue h) (cq_Reason q) m of
       (Some e, m') \<Rightarrow> (Inl e, Some m')
     | (None, m') \<Rightarrow> (Inr \<lparr>cx_Runtime = observed_runtime h (zero_observation\<lparr>io_Closed := True, io_Status := ''closed'',
           io_StatusReason := or_str (cq_Reason q) ''pty session closed''\<rparr>), cx_Metadata = []\<rparr>, Some m')))"

text \<open>What the service sees of it while the manager is \<open>mo\<close>; a panic ends the call with an error.\<close>

definition controller_at :: "pty_start_env \<Rightarrow> goerr + int \<Rightarrow> pty_manager option \<Rightarrow> controller" where
  "controller_at e answer mo = \<lparr>co_StartInteractive = \<lambda>q. slift (fst (PTY_StartInteractive e q mo)),
     co_ReopenInteractive = \<lambda>h md. slift (PTY_ReopenInteractive h mo),
     co_ViewInteractive = \<lambda>h q. (case PTY_ViewInteractive h q mo of Some r \<Rightarrow> slift r | None \<Rightarrow> sfail (ErrOther ''panic'')),
     co_WriteInteractive = \<lambda>h q. slift (fst (PTY_WriteInteractive (pe_Ctx e) answer h q mo)),
     co_CloseInteractive = \<lambda>h q. slift (fst (PTY_CloseInteractive h q mo))\<rparr>"

section \<open>Properties\<close>

lemma ViewInteractive_shows:
  assumes "ViewInteractive sv (Some co) hid q w = (Inr x, w')"
  shows "\<exists>h rt y w1. requireActiveInteractiveHandle sv hid w = (Inr (h, rt), w) \<and> co_ViewInteractive co h q w = (Inr y, w1) \<and> vx_Data x = vx_Data y"
proof -
  obtain r w0 where r: "requireActiveInteractiveHandle sv hid w = (r, w0)" by fastforce
  then have "w0 = w"
    by (auto simp: requireActiveInteractiveHandle_def getRuntimeHandleRecord_def readRepositories_def Within_def interactiveRuntimeFromHandleOrErr_def svc_apply
        split: runner.splits option.splits sum.splits if_splits)
  then show ?thesis using assms r
    by (auto simp: ViewInteractive_def svc_apply Let_def split: sum.splits prod.splits)
qed


definition ex_view_world :: world where
  "ex_view_world = ex_run_world\<lparr>w_Repos := ex_repos\<lparr>rp_RuntimeHandles := [(''h'', \<lparr>rh_HandleID = ''h'', rh_SessionID = ''s1'', rh_TaskID = [], rh_AttemptID = [],
     rh_CycleID = [], rh_TraceID = [], rh_Kind = ''pty'', rh_Value = ''hdl_u'', rh_Status = RuntimeHandleActive, rh_StatusReason = ''x'', rh_Metadata = [], rh_Version = 1,
     rh_CreatedAt = 1, rh_UpdatedAt = 1, rh_ClosedAt = 0, rh_InvalidatedAt = 0\<rparr>)]\<rparr>\<rparr>"

definition ex_view_request :: view_request where
  "ex_view_request = \<lparr>vq_Offset = 1, vq_MaxBytes = 3, vq_Metadata = []\<rparr>"

definition ex_view_controller :: controller where
  "ex_view_controller = controller_at ex_pty_env (Inr 0) (Some (captureOutput ''hdl_u'' ''hello'' ex_pty))"


text \<open>
  Writing to a terminal, and reopening one, forget how far it has been read: what the inspection reports has no
  offset, and it replaces the recorded observation, offset included.
\<close>

lemma write_forgets_offset:
  assumes "pn_Status i \<noteq> []" and "mergeInteractiveObservation before (interactiveObservationFromInspect i) = ob"
  shows "gm_get (ApplyInteractiveRuntimeMetadata md caps ob op) ''interactive_next_offset'' = Some (VInt64 0)"
proof -
  have "ob \<noteq> None" "io_NextOffset (the ob) = 0"
    using assms by (auto simp: mergeInteractiveObservation_def hasInteractiveObservation_def interactiveObservationFromInspect_def zero_observation_def)
  then show ?thesis by (cases ob; cases op) (auto simp: ApplyInteractiveRuntimeMetadata_def apply_observation_def apply_operation_def put_if_get)
qed

end
