(* ===== verification/Websocket.thy ===== *)
theory Websocket
  imports Interactive_Control Planning
begin

text \<open>
  The WebSocket adapter: \<^verbatim>\<open>src/adapters/websocket\<close> server.go with the envelopes of \<^verbatim>\<open>src/internal/protocol\<close> types.go and
  the token check of \<^verbatim>\<open>src/internal/auth\<close> auth.go, and the entry points of \<^verbatim>\<open>pkg/harness/runtime\<close> service.go it
  calls. A connection is authenticated by its header or by a message; then every message is one call of the service.
  Decoding of JSON is a parameter (a payload that does not decode leaves what it leaves, as the source ignores the
  error), results are values rather than their JSON texts.
\<close>

section \<open>Messages\<close>

record envelope =
  en_ID :: string
  en_Type :: string
  en_Action :: string
  en_Token :: string
  en_Payload :: string

record runtime_info =
  ri_Name :: string
  ri_Mode :: string
  ri_StorageMode :: string
  ri_ToolCount :: nat
  ri_VerifierCount :: nat
  ri_HasPlanner :: bool
  ri_HasContextAssembler :: bool
  ri_HasEventSink :: bool
  ri_HasMetrics :: bool

datatype session_value = WSession session | WSessions "session list" | WTask task | WTasks "task list"
datatype plan_value = WPlan plan | WPlans "plan list" | WStepOutput step_output | WDecision decision | WVerify verify_result
datatype fact_value =
    WAttempts "attempt list" | WActions "action_record list" | WVerifications "verification_record list" | WArtifacts "artifact list"
  | WSnapshots "snapshot list" | WSummaries "summary list"
datatype handle_value = WHandle runtime_handle | WHandles "runtime_handle list" | WInteractive interactive_runtime | WInteractives "interactive_runtime list"
  | WView view_result | WWrite write_result
datatype approval_value = WApproval approval | WApprovals "approval list" | WAnswered approval session | WBlocked blocked_runtime
  | WBlockeds "blocked_runtime list" | WProjection blocked_projection | WProjections "blocked_projection list"
datatype misc_value = WInfo runtime_info | WMetrics string | WTools "tool_definition list" | WVerifiers "verifier_definition list" | WEvents "audit_event list"

datatype ws_value =
    WMap meta
  | WMisc misc_value
  | WSess session_value
  | WPln plan_value
  | WFact fact_value
  | WHndl handle_value
  | WAppr approval_value

record ws_response =
  wz_ID :: string
  wz_OK :: bool
  wz_Result :: "ws_value option"
  wz_Error :: "(string \<times> string) option"

datatype ws_message = WResponse ws_response | WEvent string audit_event

section \<open>The server and its decoding\<close>

record ws_server =
  ws_SharedToken :: string
  ws_Service :: service
  ws_App :: app
  ws_Tools :: tool_map
  ws_Controller :: "controller option"
  ws_Info :: runtime_info
  ws_Metrics :: string

text \<open>
  \<open>wj_Str\<close> reads a string field of a payload. The connection accepts messages, except that it may stop
  accepting events.
\<close>

record ws_codec =
  wj_Envelope :: "string \<Rightarrow> goerr + envelope"
  wj_Str :: "string \<Rightarrow> string \<Rightarrow> string"
  wj_TaskMaps :: "string \<Rightarrow> meta \<times> meta"
  wj_Steps :: "string \<Rightarrow> (goerr + step) list"
  wj_Step :: "string \<Rightarrow> goerr + step"
  wj_Action :: "string \<Rightarrow> goerr + action_spec"
  wj_PolicyStep :: "string \<Rightarrow> step"
  wj_Metadata :: "string \<Rightarrow> meta option"
  wj_Start :: "string \<Rightarrow> start_request"
  wj_Reopen :: "string \<Rightarrow> meta"
  wj_View :: "string \<Rightarrow> view_request"
  wj_Write :: "string \<Rightarrow> write_request"
  wj_Close :: "string \<Rightarrow> close_request"
  wj_Verify :: "string \<Rightarrow> verify_spec \<times> action_result"
  wj_Accepts :: "audit_event \<Rightarrow> bool"

definition ValidToken :: "string \<Rightarrow> string \<Rightarrow> bool" where
  "ValidToken got expected \<longleftrightarrow> got \<noteq> [] \<and> expected \<noteq> [] \<and> got = expected"

definition TrimPrefix :: "string \<Rightarrow> string \<Rightarrow> string" where
  "TrimPrefix s p = (if has_prefix s p then drop (length p) s else s)"

definition ws_ok :: "string \<Rightarrow> ws_value \<Rightarrow> ws_message" where
  "ws_ok i v = WResponse \<lparr>wz_ID = i, wz_OK = True, wz_Result = Some v, wz_Error = None\<rparr>"

definition ws_fail :: "string \<Rightarrow> string \<Rightarrow> string \<Rightarrow> ws_message" where
  "ws_fail i code message = WResponse \<lparr>wz_ID = i, wz_OK = False, wz_Result = None, wz_Error = Some (code, message)\<rparr>"

type_synonym ws_call = "world \<Rightarrow> ws_message list \<times> world"

text \<open>The shape of almost every case: call the service, answer with the error under the case's code, or with the result.\<close>

definition ws_answer :: "ws_server \<Rightarrow> envelope \<Rightarrow> string \<Rightarrow> ('a \<Rightarrow> ws_value) \<Rightarrow> 'a svc \<Rightarrow> ws_call" where
  "ws_answer srv env code f m = (\<lambda>w. case m w of
     (Inl e, w') \<Rightarrow> ([ws_fail (en_ID env) code (hx_ErrText (ws_App srv) e)], w')
   | (Inr x, w') \<Rightarrow> ([ws_ok (en_ID env) (f x)], w'))"

definition ws_say :: "ws_message \<Rightarrow> ws_call" where
  "ws_say r = (\<lambda>w. ([r], w))"

section \<open>Entry points of the service\<close>

definition Ping :: meta where
  "Ping = [(''pong'', VBool True)]"

definition RuntimeInfo :: "ws_server \<Rightarrow> runtime_info" where
  "RuntimeInfo srv = (ws_Info srv)\<lparr>ri_Name := ''harness-core'', ri_Mode := ''kernel-first'', ri_ToolCount := length (tool_List (ws_Tools srv)), ri_VerifierCount := length (verifier_List (hx_Verifiers (ws_App srv)))\<rparr>"

definition InvokeAction :: "action_spec \<Rightarrow> action_result svc" where
  "InvokeAction a = sfail ErrDirectActionInvokeUnsupported"

definition EvaluatePolicy :: "app \<Rightarrow> session \<Rightarrow> step \<Rightarrow> decision svc" where
  "EvaluatePolicy hx st s = slift (hx_Policy hx st s)"

definition EvaluateVerify :: "app \<Rightarrow> verify_spec \<Rightarrow> action_result \<Rightarrow> session \<Rightarrow> verify_result svc" where
  "EvaluateVerify hx spec r st = (case Evaluate (hx_Verifiers hx) spec r st of (x, None) \<Rightarrow> sret x | (x, Some e) \<Rightarrow> sfail e)"

definition reply_of :: "string \<Rightarrow> Reply" where
  "reply_of s = (if s = ''once'' then ReplyOnce else if s = ''always'' then ReplyAlways else if s = ''reject'' then ReplyReject else ReplyOther s)"

section \<open>The cases of the handler\<close>

definition handle_sessions :: "ws_server \<Rightarrow> ws_codec \<Rightarrow> envelope \<Rightarrow> ws_call option" where
  "handle_sessions srv j env =
     (let act = en_Action env; str = wj_Str j (en_Payload env); sv = ws_Service srv; ok = (\<lambda>v. Some (ws_say (ws_ok (en_ID env) v))) in
      if act = ''runtime.info'' then ok (WMisc (WInfo (RuntimeInfo srv)))
      else if act = ''runtime.metrics'' then ok (WMisc (WMetrics (ws_Metrics srv)))
      else if act = ''session.ping'' then ok (WMap Ping)
      else if act = ''session.create'' then Some (ws_answer srv env ''SESSION_CREATE_FAILED'' (WSess \<circ> WSession) (createSessionWithAudit sv (str ''title'') (str ''goal'')))
      else if act = ''session.get'' then Some (ws_answer srv env ''NOT_FOUND'' (WSess \<circ> WSession) (getSessionRecord sv (str ''id'')))
      else if act = ''session.list'' then Some (ws_answer srv env ''SESSION_LIST_FAILED'' (WSess \<circ> WSessions) (listSessionRecords sv))
      else if act = ''task.create'' then
        (case wj_TaskMaps j (en_Payload env) of (constraints, md) \<Rightarrow>
          Some (ws_answer srv env ''TASK_CREATE_FAILED'' (WSess \<circ> WTask) (createTaskWithAudit sv
            \<lparr>ts_TaskID = [], ts_TaskType = str ''task_type'', ts_Goal = str ''goal'', ts_Constraints = constraints, ts_Metadata = md\<rparr>)))
      else if act = ''task.get'' then Some (ws_answer srv env ''NOT_FOUND'' (WSess \<circ> WTask) (getTaskRecord sv (str ''task_id'')))
      else if act = ''task.list'' then Some (ws_answer srv env ''TASK_LIST_FAILED'' (WSess \<circ> WTasks) (listTaskRecords sv))
      else if act = ''session.attach_task'' then Some (ws_answer srv env ''ATTACH_FAILED'' (WSess \<circ> WSession) (attachTaskToSession sv (str ''session_id'') (str ''task_id'')))
      else None)"

text \<open>The first step that does not decode ends the creation of a plan.\<close>

fun decoded_steps :: "(goerr + step) list \<Rightarrow> goerr + step list" where
  "decoded_steps [] = Inr []"
| "decoded_steps (Inl e # rs) = Inl e"
| "decoded_steps (Inr s # rs) = (case decoded_steps rs of Inl e \<Rightarrow> Inl e | Inr ss \<Rightarrow> Inr (s # ss))"

definition handle_plans :: "ws_server \<Rightarrow> ws_codec \<Rightarrow> envelope \<Rightarrow> ws_call option" where
  "handle_plans srv j env =
     (let act = en_Action env; str = wj_Str j (en_Payload env); sv = ws_Service srv; hx = ws_App srv;
          bad = (\<lambda>code e. Some (ws_say (ws_fail (en_ID env) code (hx_ErrText hx e)))) in
      if act = ''plan.create'' then
        (case decoded_steps (wj_Steps j (en_Payload env)) of
           Inl e \<Rightarrow> bad ''BAD_STEP'' e
         | Inr steps \<Rightarrow> Some (ws_answer srv env ''PLAN_CREATE_FAILED'' (WPln \<circ> WPlan) (createPlanWithAudit sv (hx_Json hx) (str ''session_id'') (str ''change_reason'') steps)))
      else if act = ''plan.get'' then Some (ws_answer srv env ''NOT_FOUND'' (WPln \<circ> WPlan) (getPlanRecord sv (str ''plan_id'')))
      else if act = ''plan.list'' then Some (ws_answer srv env ''PLAN_LIST_FAILED'' (WPln \<circ> WPlans) (listPlanRecords sv (str ''session_id'')))
      else if act = ''step.run'' then
        (case wj_Step j (en_Payload env) of
           Inl e \<Rightarrow> bad ''BAD_STEP'' e
         | Inr s \<Rightarrow> Some (ws_answer srv env ''STEP_RUN_FAILED'' (WPln \<circ> WStepOutput) (RunStep sv hx (str ''session_id'') s)))
      else if act = ''session.resume'' then Some (ws_answer srv env ''SESSION_RESUME_FAILED'' (WPln \<circ> WStepOutput) (ResumePendingApproval sv hx (str ''session_id'')))
      else if act = ''action.invoke'' then
        (case wj_Action j (en_Payload env) of
           Inl e \<Rightarrow> bad ''BAD_ACTION'' e
         | Inr a \<Rightarrow> Some (ws_answer srv env ''ACTION_FAILED'' (\<lambda>_. WMap []) (InvokeAction a)))
      else if act = ''policy.evaluate'' then
        Some (\<lambda>w. case getSessionRecord sv (str ''session_id'') w of
            (Inl e, w') \<Rightarrow> ([ws_fail (en_ID env) ''NOT_FOUND'' (hx_ErrText hx e)], w')
          | (Inr st, w') \<Rightarrow> ws_answer srv env ''POLICY_FAILED'' (WPln \<circ> WDecision) (EvaluatePolicy hx st (wj_PolicyStep j (en_Payload env))) w')
      else None)"

definition handle_records :: "ws_server \<Rightarrow> ws_codec \<Rightarrow> envelope \<Rightarrow> ws_call option" where
  "handle_records srv j env =
     (let act = en_Action env; sid = wj_Str j (en_Payload env) ''session_id''; sv = ws_Service srv; ok = (\<lambda>v. Some (ws_say (ws_ok (en_ID env) v))) in
      if act = ''tool.list'' then ok (WMisc (WTools (tool_List (ws_Tools srv))))
      else if act = ''verify.list'' then ok (WMisc (WVerifiers (verifier_List (hx_Verifiers (ws_App srv)))))
      else if act = ''audit.list'' then Some (ws_answer srv env ''AUDIT_LIST_FAILED'' (WMisc \<circ> WEvents) (listRelatedAuditEvents sv sid))
      else if act = ''attempt.list'' then Some (ws_answer srv env ''ATTEMPT_LIST_FAILED'' (WFact \<circ> WAttempts) (listAttemptRecords sv sid))
      else if act = ''action.list'' then Some (ws_answer srv env ''ACTION_LIST_FAILED'' (WFact \<circ> WActions) (listActionRecords sv sid))
      else if act = ''verification.list'' then Some (ws_answer srv env ''VERIFICATION_LIST_FAILED'' (WFact \<circ> WVerifications) (listVerificationRecords sv sid))
      else if act = ''artifact.list'' then Some (ws_answer srv env ''ARTIFACT_LIST_FAILED'' (WFact \<circ> WArtifacts) (listArtifactRecords sv sid))
      else if act = ''capability_snapshot.list'' then Some (ws_answer srv env ''CAPABILITY_SNAPSHOT_LIST_FAILED'' (WFact \<circ> WSnapshots) (listCapabilitySnapshotRecords sv sid))
      else if act = ''context_summary.list'' then Some (ws_answer srv env ''CONTEXT_SUMMARY_LIST_FAILED'' (WFact \<circ> WSummaries) (listContextSummaries sv sid))
      else if act = ''runtime_handle.get'' then
        Some (ws_answer srv env ''NOT_FOUND'' (WHndl \<circ> WHandle) (getRuntimeHandleRecord sv (wj_Str j (en_Payload env) ''handle_id'')))
      else if act = ''runtime_handle.list'' then Some (ws_answer srv env ''RUNTIME_HANDLE_LIST_FAILED'' (WHndl \<circ> WHandles) (listRuntimeHandleRecords sv sid))
      else if act = ''event.replay'' then
        Some (\<lambda>w. case listRelatedAuditEvents sv sid w of
            (Inl e, w') \<Rightarrow> ([ws_fail (en_ID env) ''EVENT_REPLAY_FAILED'' (hx_ErrText (ws_App srv) e)], w')
          | (Inr items, w') \<Rightarrow> (ws_ok (en_ID env) (WMap [(''count'', VInt (int (length items)))]) # map (WEvent (en_ID env)) (takeWhile (wj_Accepts j) items), w'))
      else None)"

definition handle_approvals :: "ws_server \<Rightarrow> ws_codec \<Rightarrow> envelope \<Rightarrow> ws_call option" where
  "handle_approvals srv j env =
     (let act = en_Action env; str = wj_Str j (en_Payload env); sv = ws_Service srv in
      if act = ''approval.get'' then Some (ws_answer srv env ''NOT_FOUND'' (WAppr \<circ> WApproval) (getApprovalRecord sv (str ''approval_id'')))
      else if act = ''approval.list'' then Some (ws_answer srv env ''APPROVAL_LIST_FAILED'' (WAppr \<circ> WApprovals) (listApprovalRecords sv (str ''session_id'')))
      else if act = ''approval.respond'' then
        Some (ws_answer srv env ''APPROVAL_RESPOND_FAILED'' (\<lambda>(rec, st). WAppr (WAnswered rec st))
          (RespondApproval sv (str ''approval_id'') \<lparr>rs_Reply = reply_of (str ''reply''), rs_Metadata = wj_Metadata j (en_Payload env)\<rparr>))
      else if act = ''blocked_runtime.get'' then
        Some (if str ''blocked_runtime_id'' \<noteq> [] then ws_answer srv env ''BLOCKED_RUNTIME_GET_FAILED'' (WAppr \<circ> WBlocked) (getBlockedRuntimeByIDRecord sv (str ''blocked_runtime_id''))
              else if str ''session_id'' \<noteq> [] then ws_answer srv env ''BLOCKED_RUNTIME_GET_FAILED'' (WAppr \<circ> WBlocked) (getBlockedRuntimeRecord sv (str ''session_id''))
              else ws_say (ws_fail (en_ID env) ''BAD_BLOCKED_RUNTIME'' ''session_id or blocked_runtime_id is required''))
      else if act = ''blocked_runtime.get_by_approval'' then
        Some (ws_answer srv env ''BLOCKED_RUNTIME_GET_FAILED'' (WAppr \<circ> WBlocked) (getBlockedRuntimeByApprovalRecord sv (str ''approval_id'')))
      else if act = ''blocked_runtime.list'' then Some (ws_answer srv env ''BLOCKED_RUNTIME_LIST_FAILED'' (WAppr \<circ> WBlockeds) (listBlockedRuntimeRecords sv))
      else if act = ''blocked_runtime_projection.get'' then
        Some (if str ''approval_id'' \<noteq> [] then ws_answer srv env ''BLOCKED_RUNTIME_PROJECTION_FAILED'' (WAppr \<circ> WProjection) (GetBlockedRuntimeProjectionByApproval sv (str ''approval_id''))
              else if str ''session_id'' \<noteq> [] then ws_answer srv env ''BLOCKED_RUNTIME_PROJECTION_FAILED'' (WAppr \<circ> WProjection) (GetBlockedRuntimeProjection sv (str ''session_id''))
              else ws_say (ws_fail (en_ID env) ''BAD_BLOCKED_RUNTIME_PROJECTION'' ''session_id or approval_id is required''))
      else if act = ''blocked_runtime_projection.list'' then
        Some (ws_answer srv env ''BLOCKED_RUNTIME_PROJECTION_LIST_FAILED'' (WAppr \<circ> WProjections) (ListBlockedRuntimeProjections sv))
      else None)"

definition handle_interactive :: "ws_server \<Rightarrow> ws_codec \<Rightarrow> envelope \<Rightarrow> ws_call option" where
  "handle_interactive srv j env =
     (let act = en_Action env; p = en_Payload env; str = wj_Str j p; sv = ws_Service srv; co = ws_Controller srv; hx = ws_App srv in
      if act = ''interactive.get'' then Some (ws_answer srv env ''INTERACTIVE_GET_FAILED'' (WHndl \<circ> WInteractive) (GetInteractiveRuntime sv (str ''handle_id'')))
      else if act = ''interactive.list'' then Some (ws_answer srv env ''INTERACTIVE_LIST_FAILED'' (WHndl \<circ> WInteractives) (ListInteractiveRuntimes sv (str ''session_id'')))
      else if act = ''interactive.start'' then Some (ws_answer srv env ''INTERACTIVE_START_FAILED'' (WHndl \<circ> WInteractive) (StartInteractive sv co (str ''session_id'') (wj_Start j p)))
      else if act = ''interactive.reopen'' then Some (ws_answer srv env ''INTERACTIVE_REOPEN_FAILED'' (WHndl \<circ> WInteractive) (ReopenInteractive sv co (str ''handle_id'') (wj_Reopen j p)))
      else if act = ''interactive.view'' then Some (ws_answer srv env ''INTERACTIVE_VIEW_FAILED'' (WHndl \<circ> WView) (ViewInteractive sv co (str ''handle_id'') (wj_View j p)))
      else if act = ''interactive.write'' then Some (ws_answer srv env ''INTERACTIVE_WRITE_FAILED'' (WHndl \<circ> WWrite) (WriteInteractive sv co (str ''handle_id'') (wj_Write j p)))
      else if act = ''interactive.close'' then Some (ws_answer srv env ''INTERACTIVE_CLOSE_FAILED'' (WHndl \<circ> WInteractive) (CloseInteractive sv co (str ''handle_id'') (wj_Close j p)))
      else if act = ''verify.evaluate'' then
        Some (\<lambda>w. case getSessionRecord sv (str ''session_id'') w of
            (Inl e, w') \<Rightarrow> ([ws_fail (en_ID env) ''NOT_FOUND'' (hx_ErrText hx e)], w')
          | (Inr st, w') \<Rightarrow> (case wj_Verify j p of (spec, r) \<Rightarrow> ws_answer srv env ''VERIFY_FAILED'' (WPln \<circ> WVerify) (EvaluateVerify hx spec r st) w'))
      else None)"

text \<open>The first group that knows the action handles the message.\<close>

fun first_call :: "ws_call option list \<Rightarrow> ws_call \<Rightarrow> ws_call" where
  "first_call [] d = d"
| "first_call (Some c # cs) d = c"
| "first_call (None # cs) d = first_call cs d"

definition ws_handle :: "ws_server \<Rightarrow> ws_codec \<Rightarrow> envelope \<Rightarrow> ws_call" where
  "ws_handle srv j env = first_call [handle_sessions srv j env, handle_plans srv j env, handle_records srv j env, handle_approvals srv j env, handle_interactive srv j env]
     (ws_say (ws_fail (en_ID env) ''UNKNOWN_ACTION'' ''unknown action''))"

section \<open>A connection\<close>

definition ws_header_authed :: "ws_server \<Rightarrow> string \<Rightarrow> bool" where
  "ws_header_authed srv header = ValidToken (TrimPrefix header ''Bearer '') (ws_SharedToken srv)"

definition is_auth :: "ws_server \<Rightarrow> envelope \<Rightarrow> bool" where
  "is_auth srv env \<longleftrightarrow> en_Type env = ''auth'' \<and> ValidToken (en_Token env) (ws_SharedToken srv)"

text \<open>One message: what is written, whether the connection is authenticated afterwards, and the world.\<close>

definition ws_turn :: "ws_server \<Rightarrow> ws_codec \<Rightarrow> string \<Rightarrow> bool \<Rightarrow> world \<Rightarrow> (ws_message list \<times> bool) \<times> world" where
  "ws_turn srv j data authed w = (case wj_Envelope j data of
     Inl e \<Rightarrow> (([ws_fail [] ''BAD_JSON'' (hx_ErrText (ws_App srv) e)], authed), w)
   | Inr env \<Rightarrow>
       if \<not> authed then
         if is_auth srv env then (([ws_ok (en_ID env) (WMap [(''authenticated'', VBool True)])], True), w)
         else (([ws_fail (en_ID env) ''UNAUTHENTICATED'' ''authenticate first''], False), w)
       else (case ws_handle srv j env w of (ms, w') \<Rightarrow> ((ms, True), w')))"

fun ws_loop :: "ws_server \<Rightarrow> ws_codec \<Rightarrow> string list \<Rightarrow> bool \<Rightarrow> world \<Rightarrow> ws_message list list \<times> world" where
  "ws_loop srv j [] authed w = ([], w)"
| "ws_loop srv j (d # ds) authed w = (case ws_turn srv j d authed w of
     ((ms, authed'), w') \<Rightarrow> (case ws_loop srv j ds authed' w' of (mss, w'') \<Rightarrow> (ms # mss, w'')))"

definition ws_connection :: "ws_server \<Rightarrow> ws_codec \<Rightarrow> string \<Rightarrow> string list \<Rightarrow> world \<Rightarrow> ws_message list list \<times> world" where
  "ws_connection srv j header msgs w = ws_loop srv j msgs (ws_header_authed srv header) w"

section \<open>Properties\<close>

text \<open>An answer to an envelope: one response under its id, then only events under its id.\<close>

definition ws_answered :: "string \<Rightarrow> ws_message list \<Rightarrow> bool" where
  "ws_answered i ms \<longleftrightarrow> (\<exists>r es. ms = WResponse r # map (WEvent i) es \<and> wz_ID r = i \<and> (wz_OK r \<longleftrightarrow> wz_Error r = None) \<and> (wz_OK r \<longleftrightarrow> wz_Result r \<noteq> None))"

definition ws_answers :: "string \<Rightarrow> ws_call \<Rightarrow> bool" where
  "ws_answers i c \<longleftrightarrow> (\<forall>w. ws_answered i (fst (c w)))"

lemma answered_ok: "ws_answered i (ws_ok i v # map (WEvent i) es)" and answered_fail: "ws_answered i [ws_fail i code message]"
  by (auto simp: ws_answered_def ws_ok_def ws_fail_def intro: exI[of _ "[]"])

lemma answered_one: "ws_answered i [ws_ok i v]"
  using answered_ok[of i v "[]"] by simp

lemma answers_answer: "ws_answers (en_ID env) (ws_answer srv env code f m)"
  by (auto simp: ws_answers_def ws_answer_def answered_one answered_fail split: sum.split prod.split)

lemma answers_say: "ws_answers i (ws_say (ws_ok i v))" "ws_answers i (ws_say (ws_fail i code message))"
  by (simp_all add: ws_answers_def ws_say_def answered_one answered_fail)

lemma answers_case:
  assumes "\<And>x. ws_answers i (c x)"
  shows "ws_answers i (\<lambda>w. case m w of (Inl e, w') \<Rightarrow> ([ws_fail i code (t e)], w') | (Inr x, w') \<Rightarrow> c x w')"
  using assms by (auto simp: ws_answers_def answered_fail split: sum.split prod.split)

lemma handle_sessions_answers: "handle_sessions srv j env = Some c \<Longrightarrow> ws_answers (en_ID env) c"
  by (auto simp: handle_sessions_def Let_def answers_answer answers_say split: if_splits prod.splits)

lemma handle_plans_answers: "handle_plans srv j env = Some c \<Longrightarrow> ws_answers (en_ID env) c"
  by (auto simp: handle_plans_def Let_def answers_answer answers_say intro!: answers_case split: if_splits sum.splits)

lemma answers_replay:
  "ws_answers i (\<lambda>w. case m w of (Inl e, w') \<Rightarrow> ([ws_fail i code (t e)], w') | (Inr items, w') \<Rightarrow> (ws_ok i (v items) # map (WEvent i) (takeWhile p items), w'))"
  by (auto simp: ws_answers_def answered_fail answered_ok split: sum.split prod.split)

lemma handle_records_answers: "handle_records srv j env = Some c \<Longrightarrow> ws_answers (en_ID env) c"
  by (auto simp: handle_records_def Let_def answers_answer answers_say answers_replay split: if_splits)

lemma handle_approvals_answers: "handle_approvals srv j env = Some c \<Longrightarrow> ws_answers (en_ID env) c"
  by (auto simp: handle_approvals_def Let_def answers_answer answers_say split: if_splits)

lemma handle_interactive_answers: "handle_interactive srv j env = Some c \<Longrightarrow> ws_answers (en_ID env) c"
  by (cases "wj_Verify j (en_Payload env)") (auto simp: handle_interactive_def Let_def answers_answer answers_say intro!: answers_case split: if_splits)

lemma first_call_answers:
  assumes "ws_answers i d" and "\<And>c. Some c \<in> set cs \<Longrightarrow> ws_answers i c"
  shows "ws_answers i (first_call cs d)"
  using assms by (induction cs d rule: first_call.induct) auto

lemma ws_handle_answers: "ws_answers (en_ID env) (ws_handle srv j env)"
  unfolding ws_handle_def
  by (rule first_call_answers)
    (auto simp: answers_say dest: handle_sessions_answers handle_plans_answers handle_records_answers handle_approvals_answers handle_interactive_answers
      dest!: sym[of "Some _"])

lemma not_authed_loop:
  assumes "\<And>d env. d \<in> set msgs \<Longrightarrow> wj_Envelope j d = Inr env \<Longrightarrow> \<not> is_auth srv env"
  shows "\<exists>mss. ws_loop srv j msgs False w = (mss, w)
    \<and> list_all2 (\<lambda>d ms. \<exists>i text. ms = [ws_fail i (case wj_Envelope j d of Inl _ \<Rightarrow> ''BAD_JSON'' | Inr _ \<Rightarrow> ''UNAUTHENTICATED'') text]) msgs mss"
  using assms
proof (induction msgs)
  case (Cons d ds)
  then obtain mss where "ws_loop srv j ds False w = (mss, w)"
    "list_all2 (\<lambda>d ms. \<exists>i text. ms = [ws_fail i (case wj_Envelope j d of Inl _ \<Rightarrow> ''BAD_JSON'' | Inr _ \<Rightarrow> ''UNAUTHENTICATED'') text]) ds mss" by auto
  then show ?case using Cons.prems by (cases "wj_Envelope j d") (auto simp: ws_turn_def)
qed simp



end
