(* ===== verification/Spec2Isabelle.thy ===== *)
theory Spec2Isabelle
  imports Approval_Machine Verify_Builtins Fanout_Rounds Worker Replay Tool_Modules Pty_Control Websocket
begin

text \<open>
  Verification of harness-core, a runtime kernel for AI agent systems written in Go. All paths below
  are relative to \<^verbatim>\<open>src/pkg/harness\<close> unless they start with \<^verbatim>\<open>src/\<close>.

  \<^bold>\<open>The program.\<close> A client creates a session and a task and attaches one to the other. A plan,
  given by the client, compiled from a program or asked from a planner, is a list of steps. A worker
  claims a session with a lease, and the session driver of the service runs the steps: for each it asks
  the policy, waits for an approval, invokes the tool, verifies the result and moves the session on, with
  retries and budgets. Everything that happens is written to repositories and to an audit log. The
  service is a value (\<open>service\<close>), its repositories, the clock and the supply of ids are the
  \<open>world\<close>, and an operation is a computation \<open>'a svc = world \<Rightarrow> (goerr + 'a) \<times> world\<close>,
  composed with \<open>sbind\<close> as the code is with early returns. The error is on the left.

  \<^bold>\<open>Foundations.\<close>
  \<^item> \<open>Prelude\<close>: dynamic values (\<open>gval\<close>), insertion-ordered maps (\<open>gomap\<close>), sorting with a
    comparison, strings, 64-bit wrap-around. \<open>Errors\<close>: the error values of all packages,
    \<^verbatim>\<open>errors.Is\<close> over wrapped and joined errors, runtime/error_taxonomy.go.
  \<^item> \<open>Store_Interfaces\<close>: the contracts of the persistence interfaces as locales (\<open>record_store\<close>,
    \<open>versioned_store\<close> and their kin); every in-memory store is an interpretation of one of them.

  \<^bold>\<open>Data and stores.\<close>
  \<^item> \<open>Session\<close> (session/), \<open>Task\<close> (task/), \<open>Plan\<close> (plan/, action/, verify/spec.go),
    \<open>Permission\<close> (permission/), \<open>Approval\<close> (approval/), \<open>Execution\<close> (execution/ types and
    stores), \<open>Targets\<close> (execution/ target and aggregate files), \<open>Interactive\<close> (execution/
    interactive.go, projection.go), \<open>Tool_Registry\<close> (tool/), \<open>Capability\<close> (capability/),
    \<open>Verify_Registry\<close> and \<open>Verify_Builtins\<close> (verify/), \<open>Journal\<close> (audit/, planning/,
    contextsummary/), \<open>Program\<close> (execution/ program.go, program_step.go, ref.go, attachment.go).
    Each Go struct is a record with the fields of the source, each string enumeration a datatype
    with a constructor for any other string, each method of a store one function.
  \<^item> Shown: versions and leases of the session store (no lost update, exclusive leases, the oldest
    claimable session first), unique plan revisions, aggregation of fan-out steps against a declarative
    summary, metadata that is read back as it was written.

  \<^bold>\<open>Decisions of the runtime\<close> (runtime/).
  \<^item> \<open>Loop_Budgets\<close> (decision.go, loop.go, budgets.go), \<open>Plan_Outcome\<close> (plan_outcome.go,
    plan_identity.go, the selection of session_driver.go), \<open>Program_Order\<close>, \<open>Program_Compile\<close>,
    \<open>Program_Plans\<close>, \<open>Program_Runtime\<close> (the program files). Shown: retries are bounded, the
    advancement loop ends, the outcome of a plan has a declarative reading and agrees with the step
    selection, programs are sorted topologically and compiled as their specification says.

  \<^bold>\<open>The service\<close> (runtime/, persistence/).
  \<^item> \<open>Session_Update\<close> (session_update.go: optimistic writes under a lease, with other workers acting
    between every read and write), \<open>Service\<close> (repositories, units of work, clock, events),
    \<open>Coordination\<close>, \<open>Lifecycle\<close>, \<open>Runtime_Handles\<close>, \<open>Recovery\<close>,
    \<open>Blocked_Runtime\<close>, \<open>Step_Records\<close>, \<open>Approval_Flow\<close>, \<open>Step_Runner\<close> (runner.go),
    \<open>Abort\<close>, \<open>Fanout\<close> (fanout_scheduler.go), \<open>Planning\<close>, \<open>Session_Driver\<close>,
    \<open>Service_Reads\<close>, \<open>Interactive_Control\<close>, and \<open>Worker\<close> (worker/) and \<open>Replay\<close>
    (replay/) on top: one function per function of the file that is named, errors, compensations and
    events included.
  \<^item> \<open>Service_Logic\<close> and \<open>Run_Logic\<close> are the program logic: triples over repositories and over
    worlds, and the locale \<open>world_relation\<close>, which derives once, for every relation between worlds
    that allows the elementary writes, that whole runs stay within the relation. \<open>Step_Safety\<close>,
    \<open>Approval_Invariant\<close>, \<open>Approval_Runs\<close>, \<open>Approval_Machine\<close>, \<open>Abort_Effect\<close>,
    \<open>Fanout_Rounds\<close>, \<open>Driver_Logic\<close>, \<open>Driver_Ends\<close> and \<open>Driver_Refines\<close> use it.
  \<^item> Shown: nothing acts unless the policy allows (single steps and fan-out rounds); sessions never
    disagree with approvals or with blocked runtimes along any sequence of calls and failures; an
    aborted session is at rest; ended handles stay ended; every attempt to plan is recorded; the driver
    returns; the runtime refines a map of versioned registers; a worker gives back what it claimed; the
    execution cycles partition the records and a replay places every event.

  \<^bold>\<open>Tools\<close> (\<^verbatim>\<open>src/modules\<close>, executor/shell, builtins/).
  \<^item> \<open>Pty\<close>: the manager of terminals with its goroutines as a step relation (pty_manager.go, pty_attach.go,
    pty_inspector.go, pty.go). \<open>Shell\<close>: the command executor with its path guard, the handler of the shell tool
    and the verifiers of terminals. \<open>Tool_Modules\<close>: the file and HTTP modules and the composition of the built-in
    modules with its default policy. \<open>Pty_Control\<close>: terminals as interactive runtimes of the service.
  \<^item> \<open>Websocket\<close> (\<^verbatim>\<open>src/adapters/websocket\<close>): connections, authentication and the table of calls.
  \<^item> Shown: managers stay well-formed; an attached writer gets the captured output without gaps or
    repetition, whatever is interleaved; the path guard is exact on path components; the default policy asks
    before every tool that changes the outside, and no terminal opens without an answer; a view through the
    service shows the terminal's output; nothing happens on a connection before it is authenticated.

  \<^bold>\<open>Loops and bounds.\<close> The update of a session makes at most four attempts, as in the source.
  The advancement loop is a recursion of which the lemmas show that it ends after at most three
  transitions. Program sorting recurses with the number of unplaced nodes as its measure. The driver and
  the worker's round have no bound in the code: the driver's loop is a \<open>partial_function\<close> into
  \<open>option\<close>, and \<open>driver_returns\<close> shows that it is defined, because every turn that goes on reads the
  clock and the budget ends the run; the clock is only assumed to grow without bound when it is read
  again and again. The polling verifiers take a number of probes that the lemmas relate to the deadline.

  \<^bold>\<open>Decisions of the model.\<close>
  \<^item> Integers are \<open>int\<close>, with \<open>wrap64\<close> where the source adds or multiplies without a bound that
    keeps the result small. A nil map is an empty map. Slices and maps are values; where a function
    writes into its caller's slice or map the new value is returned. Go maps are iterated in insertion
    order only where the result does not depend on the order or is sorted afterwards.
  \<^item> Parameters, because they belong to the embedding application or to the outside: policy evaluator,
    tools, planner, context assembler, compactor, capability freezer, target resolver, attachment
    materialiser, interactive controller, event sink and transaction runner, JSON, regular expressions,
    network probes, the operating system under the tools, floating-point products. The order of goroutines (fan-out, renewals of a worker) is
    a parameter, and the theorems hold for each.
  \<^item> The service has one clock; the fan-out scheduler's use of the system clock in one comparison is a
    parameter of that comparison. All repositories are configured. The texts of wrapped errors are
    shortened where nothing reads them.

  \<^bold>\<open>Not modelled.\<close> Metrics, traces and planning observability (they write nothing that the runtime
  reads); the Postgres repositories and migrations (\<^verbatim>\<open>src/internal/postgres\<close>, postgres/), whose behaviour is
  that of SQL statements run by a database outside the sources; the HTTP adapter and the
  command line program, examples, evaluations and release tooling (\<^verbatim>\<open>src/adapters/http\<close>,
  \<^verbatim>\<open>src/cmd\<close>, \<^verbatim>\<open>src/examples\<close>, \<^verbatim>\<open>src/evals\<close>, \<^verbatim>\<open>src/release\<close>, \<^verbatim>\<open>src/scripts\<close>); option defaults and
  the wiring of a service; writing attachments to the file system.
\<close>

end
